(* ===== verification/Prelude.thy ===== *)
theory Prelude
  imports Complex_Main "HOL-Library.AList"
begin

text \<open>
  Shared vocabulary of the development: the JavaScript strings, numbers, values and
  insertion-ordered maps that the TypeScript sources of the LIOP SDK use, with the lemmas
  about them that every component theory reuses.

  \<^item> A JavaScript string is a \<^typ>\<open>string\<close>: its UTF-16 code units are limited to
    0..255. Case mapping (\<open>js_lower\<close>) is that of the Latin-1 range.
  \<^item> A \<open>Map\<close> is an association list in insertion order: \<open>set\<close> is \<^term>\<open>AList.update\<close>
    (an existing key keeps its place), \<open>delete\<close> is \<^term>\<open>AList.delete\<close>, \<open>get\<close> is
    \<^term>\<open>map_of\<close>.
  \<^item> Times (\<open>Date.now()\<close>), counters and limits are \<^typ>\<open>int\<close>: they stay far below
    \<open>2 ^ 53\<close>, where doubles are exact integers. The clock is an argument of every operation
    that reads it.
\<close>

named_theorems js_str \<open>evaluation rules of the JavaScript string helpers\<close>
named_theorems store_simps \<open>lookup after update and after delete in an insertion-ordered map\<close>

section \<open>Strings\<close>

definition code_of :: "char \<Rightarrow> nat" where
  "code_of c = of_char c"

text \<open>\<open>String.prototype.toLowerCase\<close> on the code units 0..255.\<close>

definition lower_char :: "char \<Rightarrow> char" where
  "lower_char c =
     (let n = code_of c
      in if (65 \<le> n \<and> n \<le> 90) \<or> (192 \<le> n \<and> n \<le> 222 \<and> n \<noteq> 215) then char_of (n + 32) else c)"

definition js_lower :: "string \<Rightarrow> string" where
  "js_lower s = map lower_char s"

text \<open>White space in the sense of \<open>trim\<close> and of the class \<open>\s\<close>: tab, line feed, vertical tab,
  form feed, carriage return, space, no-break space.\<close>

definition is_space :: "char \<Rightarrow> bool" where
  "is_space c \<longleftrightarrow> code_of c \<in> {9, 10, 11, 12, 13, 32, 160}"

definition trim_start :: "string \<Rightarrow> string" where
  "trim_start s = dropWhile is_space s"

definition trim_end :: "string \<Rightarrow> string" where
  "trim_end s = rev (dropWhile is_space (rev s))"

definition js_trim :: "string \<Rightarrow> string" where
  "js_trim s = trim_end (trim_start s)"

fun starts_with :: "string \<Rightarrow> string \<Rightarrow> bool" where
  "starts_with s [] = True"
| "starts_with [] (p # ps) = False"
| "starts_with (c # cs) (p # ps) = (c = p \<and> starts_with cs ps)"

definition ends_with :: "string \<Rightarrow> string \<Rightarrow> bool" where
  "ends_with s p = starts_with (rev s) (rev p)"

text \<open>\<open>s.indexOf(p)\<close>, with \<open>None\<close> for the result -1.\<close>

fun index_of :: "string \<Rightarrow> string \<Rightarrow> nat option" where
  "index_of [] p = (if p = [] then Some 0 else None)"
| "index_of (c # cs) p = (if starts_with (c # cs) p then Some 0 else map_option Suc (index_of cs p))"

definition js_includes :: "string \<Rightarrow> string \<Rightarrow> bool" where
  "js_includes s p = (index_of s p \<noteq> None)"

text \<open>\<open>xs.join(sep)\<close> on an array of strings.\<close>

fun js_join :: "string \<Rightarrow> string list \<Rightarrow> string" where
  "js_join sep [] = []"
| "js_join sep [x] = x"
| "js_join sep (x # y # xs) = x @ sep @ js_join sep (y # xs)"

text \<open>\<open>s.replace(p, r)\<close> with a string pattern: the first occurrence only.\<close>

fun js_replace_first :: "string \<Rightarrow> string \<Rightarrow> string \<Rightarrow> string" where
  "js_replace_first [] p r = (if p = [] then r else [])"
| "js_replace_first (c # cs) p r =
     (if starts_with (c # cs) p then r @ drop (length p) (c # cs)
      else c # js_replace_first cs p r)"

text \<open>Decimal rendering of an integer, as in a template literal.\<close>

fun nat_str :: "nat \<Rightarrow> string" where
  "nat_str n = (if n < 10 then [char_of (48 + n)] else nat_str (n div 10) @ [char_of (48 + n mod 10)])"

declare nat_str.simps [simp del]

definition int_str :: "int \<Rightarrow> string" where
  "int_str i = (if i < 0 then CHR ''-'' # nat_str (nat (- i)) else nat_str (nat i))"

lemma starts_with_iff: "starts_with s p \<longleftrightarrow> (\<exists>r. s = p @ r)"
  by (induction s p rule: starts_with.induct) auto

lemma starts_with_refl [simp, js_str]: "starts_with s s"
  by (simp add: starts_with_iff)

lemma starts_with_append [simp, js_str]: "starts_with (p @ r) p"
  by (simp add: starts_with_iff)

lemma ends_with_iff: "ends_with s p \<longleftrightarrow> (\<exists>r. s = r @ p)"
proof -
  have "starts_with (rev s) (rev p) \<longleftrightarrow> (\<exists>r. rev s = rev p @ r)"
    by (rule starts_with_iff)
  also have "\<dots> \<longleftrightarrow> (\<exists>r. s = r @ p)"
    by (metis rev_append rev_rev_ident)
  finally show ?thesis by (simp add: ends_with_def)
qed

lemma index_of_Some: "index_of s p = Some i \<Longrightarrow> \<exists>a b. s = a @ p @ b \<and> length a = i"
proof (induction s p arbitrary: i rule: index_of.induct)
  case (1 p)
  then show ?case by (auto split: if_splits)
next
  case (2 c cs p)
  show ?case
  proof (cases "starts_with (c # cs) p")
    case True
    with "2.prems" show ?thesis by (auto simp: starts_with_iff)
  next
    case False
    with "2.prems" obtain j where j: "index_of cs p = Some j" "i = Suc j" by auto
    with "2.IH" [OF False j(1)] obtain a b where "cs = a @ p @ b" "length a = j" by blast
    with j show ?thesis by (intro exI [of _ "c # a"] exI [of _ b]) simp
  qed
qed

lemma index_of_append: "index_of (a @ p @ b) p \<noteq> None"
proof (induction a)
  case Nil
  show ?case by (cases p; cases b) auto
next
  case (Cons c a)
  then show ?case by auto
qed

lemma js_includes_iff: "js_includes s p \<longleftrightarrow> (\<exists>a b. s = a @ p @ b)"
  unfolding js_includes_def using index_of_Some index_of_append by blast

lemma lower_lower_char [simp]: "lower_char (lower_char c) = lower_char c"
proof -
  have lt: "(of_char c :: nat) < 256" by (rule of_char_mod_256 [of c, simplified mod_less_divisor, THEN subst]) simp
  show ?thesis
    using lt by (auto simp: lower_char_def Let_def code_of_def)
qed

lemma js_lower_idem [simp]: "js_lower (js_lower s) = js_lower s"
  by (simp add: js_lower_def)

section \<open>Insertion-ordered maps\<close>

declare map_of_eq_Some_iff [simp del]

lemma map_of_alist_update [simp, store_simps]:
  "map_of (AList.update k v m) k' = (if k' = k then Some v else map_of m k')"
  by (simp add: AList.update_conv')

lemma map_of_alist_delete [simp, store_simps]:
  "map_of (AList.delete k m) k' = (if k' = k then None else map_of m k')"
  by (simp add: AList.delete_conv')

lemma map_of_filter_snd:
  "distinct (map fst m) \<Longrightarrow>
   map_of (filter (\<lambda>(k, v). P v) m) k =
     (case map_of m k of None \<Rightarrow> None | Some v \<Rightarrow> if P v then Some v else None)"
  by (induction m) (auto split: option.splits dest: map_of_SomeD simp: image_iff map_of_eq_None_iff)

lemma map_of_filter_fst [simp, store_simps]:
  "map_of (filter (\<lambda>(k, v). P k) m) k = (if P k then map_of m k else None)"
  by (induction m) auto

lemma distinct_keys_filter [simp]: "distinct (map fst m) \<Longrightarrow> distinct (map fst (filter P m))"
  by (induction m) auto

section \<open>Truthiness\<close>

text \<open>A text as a condition of the code: absent and empty ones are false.\<close>

definition truthy_string :: "string option \<Rightarrow> string option" where
  "truthy_string s = (case s of None \<Rightarrow> None | Some x \<Rightarrow> if x = [] then None else Some x)"

lemma truthy_string_simps [simp]:
  "truthy_string None = None"
  "truthy_string (Some s) = (if s = [] then None else Some s)"
  "truthy_string t \<noteq> Some []"
  by (simp_all add: truthy_string_def split: option.split)

lemma truthy_string_iff:
  "truthy_string t = None \<longleftrightarrow> t = None \<or> t = Some []"
  "truthy_string t = Some v \<longleftrightarrow> t = Some v \<and> v \<noteq> []"
  by (auto simp: truthy_string_def split: option.splits)

section \<open>Inherited members\<close>

text \<open>The functions of \<open>Object.prototype\<close> with their \<open>length\<close> (number of parameters).
  \<open>__proto__\<close> yields the prototype object itself, which has no \<open>length\<close>.\<close>

definition object_prototype :: "(string \<times> nat) list" where
  "object_prototype =
    [(''constructor'', 1), (''hasOwnProperty'', 1), (''isPrototypeOf'', 1),
     (''propertyIsEnumerable'', 1), (''toLocaleString'', 0), (''toString'', 0), (''valueOf'', 0),
     (''__defineGetter__'', 2), (''__defineSetter__'', 2), (''__lookupGetter__'', 1),
     (''__lookupSetter__'', 1)]"

end
