(* ===== verification/RateLimiter.thy ===== *)
theory RateLimiter
  imports Prelude
begin

text \<open>
  The gateway's in-memory rate limiter, \<open>gateway/rate-limiter.ts\<close>: the record map, \<open>check\<close>,
  \<open>reset\<close>, \<open>cleanup\<close> and \<open>close\<close>. The interval timer itself (\<open>setInterval\<close>) is the
  environment: \<open>cleanup\<close> may be interleaved anywhere, and the lemmas show that this changes no
  decision. The class comment speaks of a sliding window; the code counts in fixed windows that
  start at the first request, and the bound proved here (twice the limit in any span of one
  window length) is the one the code has.
\<close>

section \<open>State and operations\<close>

record window_record =
  wr_count :: int
  wr_resetTime :: int

record limiter =
  lm_windowMs :: int
  lm_maxRequests :: int
  lm_records :: "(string \<times> window_record) list"

record rate_status =
  rs_allowed :: bool
  rs_remaining :: int
  rs_limit :: int
  rs_resetMs :: int

definition limiter_new :: "int option \<Rightarrow> int option \<Rightarrow> limiter" where
  "limiter_new w m =
     \<lparr>lm_windowMs = (case w of None \<Rightarrow> 60000 | Some x \<Rightarrow> x),
      lm_maxRequests = (case m of None \<Rightarrow> 120 | Some x \<Rightarrow> x),
      lm_records = []\<rparr>"

definition check :: "int \<Rightarrow> string \<Rightarrow> limiter \<Rightarrow> rate_status \<times> limiter" where
  "check now key l =
     (let fresh =
        (\<lparr>rs_allowed = True, rs_remaining = lm_maxRequests l - 1, rs_limit = lm_maxRequests l,
          rs_resetMs = lm_windowMs l\<rparr>,
         l\<lparr>lm_records := AList.update key
            \<lparr>wr_count = 1, wr_resetTime = now + lm_windowMs l\<rparr> (lm_records l)\<rparr>)
      in case map_of (lm_records l) key of
           None \<Rightarrow> fresh
         | Some r \<Rightarrow>
             if wr_resetTime r \<le> now then fresh
             else if lm_maxRequests l \<le> wr_count r then
               (\<lparr>rs_allowed = False, rs_remaining = 0, rs_limit = lm_maxRequests l,
                 rs_resetMs = max 0 (wr_resetTime r - now)\<rparr>, l)
             else
               (let r' = r\<lparr>wr_count := wr_count r + 1\<rparr>
                in (\<lparr>rs_allowed = True, rs_remaining = lm_maxRequests l - wr_count r',
                     rs_limit = lm_maxRequests l, rs_resetMs = max 0 (wr_resetTime r - now)\<rparr>,
                    l\<lparr>lm_records := AList.update key r' (lm_records l)\<rparr>)))"

definition reset_key :: "string \<Rightarrow> limiter \<Rightarrow> limiter" where
  "reset_key key l = l\<lparr>lm_records := AList.delete key (lm_records l)\<rparr>"

definition cleanup :: "int \<Rightarrow> limiter \<Rightarrow> limiter" where
  "cleanup now l = l\<lparr>lm_records := filter (\<lambda>(k, r). \<not> wr_resetTime r \<le> now) (lm_records l)\<rparr>"

definition close_limiter :: "limiter \<Rightarrow> limiter" where
  "close_limiter l = l\<lparr>lm_records := []\<rparr>"

text \<open>The calls a limiter serves, in the order they arrive, and the statuses it answers.\<close>

datatype limiter_event = Check int string | Cleanup int | Reset string

fun limiter_run :: "limiter \<Rightarrow> limiter_event list \<Rightarrow> (int \<times> string \<times> rate_status) list" where
  "limiter_run l [] = []"
| "limiter_run l (Check now key # es) =
     (case check now key l of (s, l') \<Rightarrow> (now, key, s) # limiter_run l' es)"
| "limiter_run l (Cleanup now # es) = limiter_run (cleanup now l) es"
| "limiter_run l (Reset key # es) = limiter_run (reset_key key l) es"

definition allowed_for :: "string \<Rightarrow> (int \<times> string \<times> rate_status) list \<Rightarrow> nat" where
  "allowed_for k out = length (filter (\<lambda>(now, key, s). key = k \<and> rs_allowed s) out)"

section \<open>Invariant\<close>

text \<open>One record per key, every count at least 1 and at most the limit (a limit below 1 still
  admits the request that opens a window).\<close>

definition limiter_inv :: "limiter \<Rightarrow> bool" where
  "limiter_inv l \<longleftrightarrow> distinct (map fst (lm_records l)) \<and>
     (\<forall>k r. map_of (lm_records l) k = Some r \<longrightarrow> 1 \<le> wr_count r \<and> wr_count r \<le> max 1 (lm_maxRequests l))"

lemma limiter_inv_new: "limiter_inv (limiter_new w m)"
  by (simp add: limiter_inv_def limiter_new_def)

lemma check_config [simp]:
  "lm_maxRequests (snd (check now key l)) = lm_maxRequests l"
  "lm_windowMs (snd (check now key l)) = lm_windowMs l"
  by (auto simp: check_def Let_def split: option.splits)

lemma check_other [simp]: "k \<noteq> key \<Longrightarrow> map_of (lm_records (snd (check now key l))) k = map_of (lm_records l) k"
  by (auto simp: check_def Let_def split: option.splits)

lemma limiter_inv_check: "limiter_inv l \<Longrightarrow> limiter_inv (snd (check now key l))"
  by (auto simp: limiter_inv_def check_def Let_def distinct_update split: option.splits if_splits)
    (meson order_trans le_add1 | smt (verit))+

lemma limiter_inv_reset: "limiter_inv l \<Longrightarrow> limiter_inv (reset_key key l)"
  by (auto simp: limiter_inv_def reset_key_def distinct_delete split: if_splits)

lemma map_of_cleanup:
  "limiter_inv l \<Longrightarrow> map_of (lm_records (cleanup now l)) k =
     (case map_of (lm_records l) k of None \<Rightarrow> None
      | Some r \<Rightarrow> if wr_resetTime r \<le> now then None else Some r)"
  by (auto simp: cleanup_def limiter_inv_def map_of_filter_snd split: option.splits)

lemma cleanup_config [simp]:
  "lm_maxRequests (cleanup now l) = lm_maxRequests l" "lm_windowMs (cleanup now l) = lm_windowMs l"
  by (simp_all add: cleanup_def)

lemma limiter_inv_cleanup:
  assumes "limiter_inv l"
  shows "limiter_inv (cleanup now l)"
proof -
  have "distinct (map fst (lm_records (cleanup now l)))"
    using assms by (simp add: cleanup_def limiter_inv_def)
  then show ?thesis
    using assms map_of_cleanup [OF assms, of now]
    by (auto simp: limiter_inv_def split: option.splits if_splits)
qed

text \<open>The states a limiter reaches through its public operations.\<close>

inductive limiter_reachable :: "int option \<Rightarrow> int option \<Rightarrow> limiter \<Rightarrow> bool" for w m where
  new: "limiter_reachable w m (limiter_new w m)"
| check: "limiter_reachable w m l \<Longrightarrow> limiter_reachable w m (snd (check now key l))"
| reset: "limiter_reachable w m l \<Longrightarrow> limiter_reachable w m (reset_key key l)"
| cleanup: "limiter_reachable w m l \<Longrightarrow> limiter_reachable w m (cleanup now l)"
| close: "limiter_reachable w m l \<Longrightarrow> limiter_reachable w m (close_limiter l)"

section \<open>How many requests one span of a window length admits\<close>

text \<open>The requests a key may still be granted before the time \<open>T + W\<close>: what is left of its
  record, and a fresh window if the record ends before \<open>T + W\<close>.\<close>

definition quota_left :: "limiter \<Rightarrow> int \<Rightarrow> string \<Rightarrow> int" where
  "quota_left l T k =
     (case map_of (lm_records l) k of
        None \<Rightarrow> max 1 (lm_maxRequests l)
      | Some r \<Rightarrow> max 0 (lm_maxRequests l - wr_count r) +
          (if T + lm_windowMs l \<le> wr_resetTime r then 0 else max 1 (lm_maxRequests l)))"

lemma quota_left_nonneg: "0 \<le> quota_left l T k"
  by (auto simp: quota_left_def split: option.splits)

lemma quota_left_bound:
  "limiter_inv l \<Longrightarrow> quota_left l T k < 2 * max 1 (lm_maxRequests l)"
  by (auto simp: quota_left_def limiter_inv_def split: option.splits) fastforce+

lemma quota_left_check:
  assumes "T \<le> now" and "now < T + lm_windowMs l"
  shows "quota_left (snd (check now k l)) T k + (if rs_allowed (fst (check now k l)) then 1 else 0)
           \<le> quota_left l T k"
  using assms by (auto simp: quota_left_def check_def Let_def split: option.splits)

lemma quota_left_check_other:
  "k \<noteq> key \<Longrightarrow> quota_left (snd (check now key l)) T k = quota_left l T k"
  by (simp add: quota_left_def split: option.split)

lemma quota_left_cleanup:
  "limiter_inv l \<Longrightarrow> now < T + lm_windowMs l \<Longrightarrow> quota_left (cleanup now l) T k \<le> quota_left l T k"
  by (auto simp: quota_left_def map_of_cleanup split: option.splits)

fun event_in :: "int \<Rightarrow> int \<Rightarrow> string \<Rightarrow> limiter_event \<Rightarrow> bool" where
  "event_in T W k (Check now key) = (T \<le> now \<and> now < T + W)"
| "event_in T W k (Cleanup now) = (now < T + W)"
| "event_in T W k (Reset key) = (key \<noteq> k)"

lemma reset_config [simp]:
  "lm_maxRequests (reset_key key l) = lm_maxRequests l" "lm_windowMs (reset_key key l) = lm_windowMs l"
  by (simp_all add: reset_key_def)

lemma quota_left_reset: "key \<noteq> k \<Longrightarrow> quota_left (reset_key key l) T k = quota_left l T k"
  by (simp add: quota_left_def reset_key_def split: option.split)

lemma allowed_for_Cons [simp]:
  "allowed_for k ((now, key, s) # out) = (if key = k \<and> rs_allowed s then 1 else 0) + allowed_for k out"
  by (simp add: allowed_for_def)

lemma allowed_for_Nil [simp]: "allowed_for k [] = 0"
  by (simp add: allowed_for_def)

lemma run_within_quota:
  assumes "limiter_inv l" and "\<forall>e\<in>set es. event_in T (lm_windowMs l) k e"
  shows "int (allowed_for k (limiter_run l es)) \<le> quota_left l T k"
  using assms
proof (induction l es rule: limiter_run.induct)
  case (1 l)
  then show ?case by (simp add: quota_left_nonneg)
next
  case (2 l now key es)
  obtain s l' where c: "check now key l = (s, l')" by (cases "check now key l")
  have inv: "limiter_inv l'" using limiter_inv_check [OF "2.prems"(1), of now key] c by simp
  have cfg: "lm_windowMs l' = lm_windowMs l" using check_config(2) [of now key l] c by simp
  have IH: "int (allowed_for k (limiter_run l' es)) \<le> quota_left l' T k"
    using "2.IH" [OF c [symmetric] inv] "2.prems"(2) cfg by simp
  show ?case
  proof (cases "key = k")
    case True
    then show ?thesis
      using IH c quota_left_check [of T now l k] "2.prems"(2) by (auto split: if_splits)
  next
    case False
    then show ?thesis
      using IH c quota_left_check_other [of k key now l T] by simp
  qed
next
  case (3 l now es)
  then show ?case
    using quota_left_cleanup [of l now T k] by (fastforce simp: limiter_inv_cleanup)
next
  case (4 l key es)
  then show ?case
    using quota_left_reset [of key k l T] by (simp add: limiter_inv_reset)
qed

section \<open>Cleaning up changes no decision\<close>

text \<open>Two limiters that differ only in records that have expired at \<open>now\<close>.\<close>

definition same_live :: "int \<Rightarrow> limiter \<Rightarrow> limiter \<Rightarrow> bool" where
  "same_live now a b \<longleftrightarrow>
     lm_maxRequests a = lm_maxRequests b \<and> lm_windowMs a = lm_windowMs b \<and>
     (\<forall>k. map_of (lm_records a) k = map_of (lm_records b) k \<or>
          (\<forall>r. map_of (lm_records a) k = Some r \<or> map_of (lm_records b) k = Some r
               \<longrightarrow> wr_resetTime r \<le> now))"

lemma same_live_refl: "same_live now l l"
  by (simp add: same_live_def)

lemma same_live_check:
  assumes "same_live t a b" and "t \<le> now"
  shows "fst (check now key a) = fst (check now key b)"
    and "same_live t (snd (check now key a)) (snd (check now key b))"
proof -
  have cfg: "lm_maxRequests a = lm_maxRequests b" "lm_windowMs a = lm_windowMs b"
    using assms(1) by (auto simp: same_live_def)
  have key: "map_of (lm_records a) key = map_of (lm_records b) key \<or>
     (\<forall>r. map_of (lm_records a) key = Some r \<or> map_of (lm_records b) key = Some r
        \<longrightarrow> wr_resetTime r \<le> now)"
    using assms(1) [unfolded same_live_def] assms(2) by (meson order_trans)
  have both: "fst (check now key a) = fst (check now key b) \<and>
     map_of (lm_records (snd (check now key a))) key = map_of (lm_records (snd (check now key b))) key"
  proof (cases "map_of (lm_records a) key = map_of (lm_records b) key")
    case True
    then show ?thesis
      using cfg by (cases "map_of (lm_records b) key") (simp_all add: check_def Let_def)
  next
    case False
    with key show ?thesis
      using cfg by (auto simp: check_def Let_def split: option.split)
  qed
  then show "fst (check now key a) = fst (check now key b)" ..
  from both have "map_of (lm_records (snd (check now key a))) key = map_of (lm_records (snd (check now key b))) key" ..
  then show "same_live t (snd (check now key a)) (snd (check now key b))"
    using assms(1) unfolding same_live_def by (metis check_config check_other)
qed

lemma same_live_cleanup: "limiter_inv l \<Longrightarrow> same_live now (cleanup now l) l"
  by (auto simp: same_live_def map_of_cleanup split: option.splits)

fun checks_after :: "int \<Rightarrow> limiter_event list \<Rightarrow> bool" where
  "checks_after t [] = True"
| "checks_after t (Check now key # es) = (t \<le> now \<and> checks_after t es)"
| "checks_after t (Cleanup now # es) = False"
| "checks_after t (Reset key # es) = checks_after t es"

lemma same_live_reset: "same_live t a b \<Longrightarrow> same_live t (reset_key key a) (reset_key key b)"
  by (auto simp: same_live_def reset_key_def)

lemma same_live_run: "same_live t a b \<Longrightarrow> checks_after t es \<Longrightarrow> limiter_run a es = limiter_run b es"
proof (induction t es arbitrary: a b rule: checks_after.induct)
  case (2 t now key es)
  then show ?case
    using same_live_check [OF "2.prems"(1), of now key] by (auto simp: case_prod_beta)
qed (auto intro: same_live_reset)

section \<open>Properties\<close>

text \<open>C19: between two resets of a key, no matter how requests of other keys and clean-ups are
  interleaved, any span of one window length admits fewer than twice the limit of the key's
  requests (a limit below 1 counts as 1).\<close>

theorem rate_limit_window_bound:
  assumes "limiter_inv l" and "\<forall>e\<in>set es. event_in T (lm_windowMs l) k e"
  shows "int (allowed_for k (limiter_run l es)) < 2 * max 1 (lm_maxRequests l)"
  using run_within_quota [OF assms] quota_left_bound [OF assms(1)] by (rule le_less_trans)

text \<open>A limiter of 3 requests per 10 ms whose key was first seen at time 0.\<close>

definition limiter_example :: limiter where
  "limiter_example = snd (check 0 ''k'' (limiter_new (Some 10) (Some 3)))"

lemma limiter_example_inv: "limiter_inv limiter_example"
  unfolding limiter_example_def by (intro limiter_inv_check limiter_inv_new)

theorem rate_limit_window_bound_witness:
  "int (allowed_for ''k'' (limiter_run limiter_example
      [Check 9 ''k'', Check 9 ''k'', Cleanup 9, Check 9 ''k'', Check 10 ''k'', Check 10 ''k''])) < 6"
proof -
  have W: "lm_windowMs limiter_example = 10" "lm_maxRequests limiter_example = 3"
    by (simp_all add: limiter_example_def limiter_new_def)
  have "\<forall>e\<in>set [Check 9 ''k'', Check 9 ''k'', Cleanup 9, Check 9 ''k'', Check 10 ''k'', Check 10 ''k''].
          event_in 1 (lm_windowMs limiter_example) ''k'' e"
    unfolding W by simp
  from rate_limit_window_bound [OF limiter_example_inv this] show ?thesis
    unfolding W by simp
qed

text \<open>The limiter counts in fixed windows, not in a sliding one: with a limit of 3 per 10 ms,
  five requests of one key are admitted within 2 ms.\<close>

theorem rate_limit_burst_across_windows:
  "allowed_for ''k'' (limiter_run limiter_example
     [Check 9 ''k'', Check 9 ''k'', Check 10 ''k'', Check 10 ''k'', Check 10 ''k'']) = 5"
  by (simp add: limiter_example_def limiter_new_def check_def)

text \<open>Running the periodic clean-up at time \<open>now\<close> changes no answer the limiter gives at
  \<open>now\<close> or later, for any key and any continuation.\<close>

theorem cleanup_transparent:
  assumes "limiter_inv l" and "checks_after now es"
  shows "limiter_run (cleanup now l) es = limiter_run l es"
  using same_live_run [OF same_live_cleanup [OF assms(1)] assms(2)] .

theorem cleanup_transparent_witness:
  "limiter_run (cleanup 12 limiter_example) [Check 12 ''k'', Reset ''j'', Check 13 ''j''] =
   limiter_run limiter_example [Check 12 ''k'', Reset ''j'', Check 13 ''j'']"
  by (rule cleanup_transparent [OF limiter_example_inv]) simp

text \<open>In every state a limiter reaches through its operations, in any order and at any times,
  there is one record per key and every count lies between 1 and the limit.\<close>

theorem limiter_reachable_inv:
  assumes "limiter_reachable w m l"
  shows "limiter_inv l"
  using assms
proof (induction rule: limiter_reachable.induct)
  case (close l)
  show ?case by (simp add: limiter_inv_def close_limiter_def)
qed (simp_all add: limiter_inv_new limiter_inv_check limiter_inv_reset limiter_inv_cleanup)

theorem limiter_reachable_inv_witness:
  "limiter_inv (snd (check 7 ''b'' (cleanup 5 (snd (check 3 ''a'' (limiter_new None (Some 2)))))))"
  by (rule limiter_reachable_inv [of None "Some 2"]) (intro limiter_reachable.intros)

end
