(* ===== verification/Rbac.thy ===== *)
theory Rbac
  imports Prelude
begin

text \<open>
  The scope-based authorisation of \<open>security/rbac.ts\<close>: \<open>SCOPE_MAP\<close>, \<open>LIOP_SCOPES\<close> and
  \<open>authorizeRequest\<close>, with the metadata document of \<open>security/prm.ts\<close> that publishes the same
  scopes. \<open>SCOPE_MAP\<close> is a plain object literal, so \<open>SCOPE_MAP[method]\<close> also finds the members
  that every object inherits from \<open>Object.prototype\<close>; \<open>scope_lookup\<close> models that lookup.
\<close>

section \<open>The scope table\<close>

record auth_info =
  ai_token :: string
  ai_clientId :: string
  ai_scopes :: "string list"
  ai_expiresAt :: "int option"

definition scope_map :: "(string \<times> string list) list" where
  "scope_map =
    [(''initialize'', []),
     (''notifications/initialized'', []),
     (''notifications/cancelled'', []),
     (''ping'', []),
     (''tools/list'', [''liop:tools:list'']),
     (''tools/call'', [''liop:tools:call'']),
     (''resources/list'', [''liop:resources:read'']),
     (''resources/read'', [''liop:resources:read'']),
     (''prompts/list'', [''liop:schema:read'']),
     (''prompts/get'', [''liop:schema:read''])]"

definition liop_scopes :: "string list" where
  "liop_scopes = [''liop:tools:list'', ''liop:tools:call'', ''liop:resources:read'',
     ''liop:schema:read'', ''liop:mesh:query'']"

datatype scope_entry =
    NoEntry                      \<comment> \<open>\<open>undefined\<close>\<close>
  | Scopes "string list"         \<comment> \<open>an own property of \<open>SCOPE_MAP\<close>\<close>
  | InheritedFunction nat        \<comment> \<open>a function, with its \<open>length\<close>\<close>
  | InheritedObject              \<comment> \<open>\<open>Object.prototype\<close>, \<open>length\<close> is \<open>undefined\<close>\<close>

definition scope_lookup :: "string \<Rightarrow> scope_entry" where
  "scope_lookup method =
     (case map_of scope_map method of
        Some ss \<Rightarrow> Scopes ss
      | None \<Rightarrow>
          if method = ''__proto__'' then InheritedObject
          else (case map_of object_prototype method of
                  Some n \<Rightarrow> InheritedFunction n
                | None \<Rightarrow> NoEntry))"

section \<open>authorizeRequest\<close>

record authorization_result =
  ar_allowed :: bool
  ar_reason :: "string option"

text \<open>Spreading a function or the prototype object (\<open>[...methodScopes]\<close>) throws: it is not iterable.\<close>

datatype rbac_error = NotIterable

definition entry_is_public :: "scope_entry \<Rightarrow> bool" where
  "entry_is_public e \<longleftrightarrow>
     (case e of NoEntry \<Rightarrow> False | Scopes ss \<Rightarrow> length ss = 0
      | InheritedFunction n \<Rightarrow> n = 0 | InheritedObject \<Rightarrow> False)"

definition spread_entry :: "scope_entry \<Rightarrow> rbac_error + string list" where
  "spread_entry e =
     (case e of NoEntry \<Rightarrow> Inr [] | Scopes ss \<Rightarrow> Inr ss
      | InheritedFunction n \<Rightarrow> Inl NotIterable | InheritedObject \<Rightarrow> Inl NotIterable)"

definition authorize_request ::
    "string \<Rightarrow> auth_info option \<Rightarrow> string list option \<Rightarrow> rbac_error + authorization_result" where
  "authorize_request method auth additionalScopes =
     (let methodScopes = scope_lookup method in
      if entry_is_public methodScopes then Inr \<lparr>ar_allowed = True, ar_reason = None\<rparr>
      else case auth of
        None \<Rightarrow> Inr \<lparr>ar_allowed = False,
                     ar_reason = Some (''Authentication required for method: '' @ method)\<rparr>
      | Some a \<Rightarrow>
          (case spread_entry methodScopes of
             Inl e \<Rightarrow> Inl e
           | Inr ms \<Rightarrow>
               (let needed = ms @ (case additionalScopes of None \<Rightarrow> [] | Some ss \<Rightarrow> ss) in
                if length needed = 0 then
                  Inr \<lparr>ar_allowed = False,
                       ar_reason = Some (''Unknown method: '' @ method @ ''. Access denied (fail-closed).'')\<rparr>
                else
                  (let missing = filter (\<lambda>s. s \<notin> set (ai_scopes a)) needed in
                   if 0 < length missing then
                     Inr \<lparr>ar_allowed = False,
                          ar_reason = Some (''Insufficient scopes for '' @ method @ ''. Missing: '' @
                            js_join '', '' missing)\<rparr>
                   else Inr \<lparr>ar_allowed = True, ar_reason = None\<rparr>))))"

definition is_allowed :: "rbac_error + authorization_result \<Rightarrow> bool" where
  "is_allowed r = (case r of Inl e \<Rightarrow> False | Inr a \<Rightarrow> ar_allowed a)"

section \<open>Protected resource metadata\<close>

record resource_metadata =
  rm_resource :: string
  rm_authorization_servers :: "string list"
  rm_scopes_supported :: "string list"
  rm_bearer_methods_supported :: "string list"
  rm_resource_documentation :: string

definition build_protected_resource_metadata :: "string \<Rightarrow> string \<Rightarrow> resource_metadata" where
  "build_protected_resource_metadata issuer audience =
     \<lparr>rm_resource = audience, rm_authorization_servers = [issuer],
      rm_scopes_supported = liop_scopes, rm_bearer_methods_supported = [''header''],
      rm_resource_documentation = ''https://github.com/nekzus/liop''\<rparr>"

section \<open>Lemmas\<close>

lemma scope_lookup_own: "map_of scope_map m = Some ss \<Longrightarrow> scope_lookup m = Scopes ss"
  by (simp add: scope_lookup_def)

definition public_methods :: "string list" where
  "public_methods = [''initialize'', ''notifications/initialized'', ''notifications/cancelled'', ''ping'']"

definition unguarded_inherited :: "string list" where
  "unguarded_inherited = [''toLocaleString'', ''toString'', ''valueOf'']"

lemma entry_public_iff:
  "entry_is_public (scope_lookup m) \<longleftrightarrow> m \<in> set public_methods \<or> m \<in> set unguarded_inherited"
  by (auto simp: entry_is_public_def scope_lookup_def scope_map_def object_prototype_def
      public_methods_def unguarded_inherited_def)

lemma allowed_with_auth:
  assumes "\<not> entry_is_public (scope_lookup m)" and "spread_entry (scope_lookup m) = Inr ms"
  shows "is_allowed (authorize_request m (Some a) extra) \<longleftrightarrow>
    ms @ (case extra of None \<Rightarrow> [] | Some ss \<Rightarrow> ss) \<noteq> [] \<and>
    set ms \<subseteq> set (ai_scopes a) \<and>
    set (case extra of None \<Rightarrow> [] | Some ss \<Rightarrow> ss) \<subseteq> set (ai_scopes a)"
  using assms
  by (cases extra) (auto simp: authorize_request_def is_allowed_def Let_def filter_empty_conv)

section \<open>Properties\<close>

text \<open>The names every object inherits, the prototype itself included, that are no public method of their own.\<close>

definition throwing_names :: "string list" where
  "throwing_names = filter (\<lambda>m. m \<notin> set unguarded_inherited) (map fst object_prototype) @ [''__proto__'']"

lemma throwing_iff:
  "spread_entry (scope_lookup m) = Inl NotIterable \<and> \<not> entry_is_public (scope_lookup m) \<longleftrightarrow> m \<in> set throwing_names"
  by (auto simp: spread_entry_def entry_is_public_def scope_lookup_def scope_map_def object_prototype_def
      throwing_names_def unguarded_inherited_def)

lemma spread_listed:
  assumes "m \<notin> set throwing_names" and "\<not> entry_is_public (scope_lookup m)"
  shows "spread_entry (scope_lookup m) = Inr (case map_of scope_map m of None \<Rightarrow> [] | Some ss \<Rightarrow> ss)"
  using assms throwing_iff [of m]
  by (auto simp: spread_entry_def scope_lookup_def entry_is_public_def split: option.splits if_splits)

lemma listed_nonempty: "map_of scope_map m = Some ss \<Longrightarrow> \<not> entry_is_public (scope_lookup m) \<Longrightarrow> ss \<noteq> []"
  by (simp add: scope_lookup_own entry_is_public_def)

text \<open>C18: the complete decision of the authorisation, for every method name. Without a token exactly the four
  public protocol methods and the three inherited zero-argument members are allowed. With a token these are
  too; any other inherited name throws; any other listed method is allowed exactly when the token carries every scope
  of the method and every additional scope; and a method that is not listed is allowed only when there are additional
  scopes and the token carries them all (without any it is denied: fail-closed).\<close>

theorem authorization_decision:
  "(is_allowed (authorize_request m None extra) \<longleftrightarrow> m \<in> set public_methods \<union> set unguarded_inherited) \<and>
   (authorize_request m (Some a) extra = Inl NotIterable \<longleftrightarrow> m \<in> set throwing_names) \<and>
   (is_allowed (authorize_request m (Some a) extra) \<longleftrightarrow>
      (let more_scopes = (case extra of None \<Rightarrow> [] | Some es \<Rightarrow> es) in
       if m \<in> set public_methods \<union> set unguarded_inherited then True
       else if m \<in> set throwing_names then False
       else
         (case map_of scope_map m of
            Some ss \<Rightarrow> set ss \<union> set more_scopes \<subseteq> set (ai_scopes a)
          | None \<Rightarrow> more_scopes \<noteq> [] \<and> set more_scopes \<subseteq> set (ai_scopes a))))"
proof (intro conjI)
  show "is_allowed (authorize_request m None extra) \<longleftrightarrow> m \<in> set public_methods \<union> set unguarded_inherited"
    by (auto simp: authorize_request_def is_allowed_def entry_public_iff Let_def)
next
  show "authorize_request m (Some a) extra = Inl NotIterable \<longleftrightarrow> m \<in> set throwing_names"
    unfolding throwing_iff [symmetric] by (auto simp: authorize_request_def Let_def split: sum.split rbac_error.split)
next
  consider (public) "entry_is_public (scope_lookup m)" | (throws) "m \<in> set throwing_names"
    | (other) "\<not> entry_is_public (scope_lookup m)" "m \<notin> set throwing_names" by blast
  then show "is_allowed (authorize_request m (Some a) extra) \<longleftrightarrow>
      (let more_scopes = (case extra of None \<Rightarrow> [] | Some es \<Rightarrow> es) in
       if m \<in> set public_methods \<union> set unguarded_inherited then True
       else if m \<in> set throwing_names then False
       else
         (case map_of scope_map m of
            Some ss \<Rightarrow> set ss \<union> set more_scopes \<subseteq> set (ai_scopes a)
          | None \<Rightarrow> more_scopes \<noteq> [] \<and> set more_scopes \<subseteq> set (ai_scopes a)))"
  proof cases
    case public
    then show ?thesis using entry_public_iff [of m] by (auto simp: authorize_request_def is_allowed_def)
  next
    case throws
    then have "\<not> entry_is_public (scope_lookup m)" "spread_entry (scope_lookup m) = Inl NotIterable"
      using throwing_iff [of m] by simp_all
    then show ?thesis using throws entry_public_iff [of m] by (auto simp: authorize_request_def is_allowed_def)
  next
    case other
    then show ?thesis
      using allowed_with_auth [OF other(1) spread_listed [OF other(2,1)], of a extra] entry_public_iff [of m] listed_nonempty [of m]
      by (cases "map_of scope_map m") auto
  qed
qed

theorem authorization_decision_witness:
  "is_allowed (authorize_request ''tools/call''
     (Some \<lparr>ai_token = ''t'', ai_clientId = ''c'', ai_scopes = [''liop:tools:call''], ai_expiresAt = None\<rparr>) None)"
proof -
  have "map_of scope_map ''tools/call'' = Some [''liop:tools:call'']" by (simp add: scope_map_def)
  moreover have "''tools/call'' \<notin> set throwing_names"
    by (simp add: throwing_names_def object_prototype_def unguarded_inherited_def)
  ultimately show ?thesis
    by (subst authorization_decision [THEN conjunct2, THEN conjunct2]) simp
qed

text \<open>The table is not fail-closed for every unknown method: \<open>toString\<close>, \<open>valueOf\<close> and
  \<open>toLocaleString\<close> are allowed without any token, because the lookup finds the function that
  every object inherits and its \<open>length\<close> is 0; any other inherited name makes an authenticated
  request throw.\<close>

theorem inherited_members_bypass_fail_closed:
  "map (\<lambda>m. (map_of scope_map m, authorize_request m None None)) unguarded_inherited =
     replicate 3 (None, Inr \<lparr>ar_allowed = True, ar_reason = None\<rparr>) \<and>
   authorize_request ''constructor'' (Some a) None = Inl NotIterable \<and>
   authorize_request ''__proto__'' (Some a) None = Inl NotIterable"
  by (simp_all add: authorize_request_def entry_is_public_def spread_entry_def scope_lookup_def
      scope_map_def object_prototype_def unguarded_inherited_def numeral_eq_Suc)

text \<open>\<open>server/discover\<close>, which the router implements and advertises to modern clients, has no
  entry: it is denied with or without a token, whatever scopes the token carries.\<close>

theorem server_discover_always_denied:
  "\<not> is_allowed (authorize_request ''server/discover'' auth None)"
  by (cases auth) (simp_all add: authorize_request_def is_allowed_def entry_is_public_def spread_entry_def
      scope_lookup_def scope_map_def object_prototype_def)

lemma metadata_publishes_required_scopes:
  assumes "(m, ss) \<in> set scope_map"
  shows "set ss \<subseteq> set (rm_scopes_supported (build_protected_resource_metadata issuer audience))"
  using assms by (auto simp: scope_map_def build_protected_resource_metadata_def liop_scopes_def)

end
