(* ===== verification/Ast.thy ===== *)
theory Ast
  imports Prelude
begin

text \<open>
  The syntax trees of injected logic. The parser (\<open>acorn\<close>) and the tree walker
  (\<open>acorn-walk\<close>) are packages outside the repository: the parser is a parameter
  \<open>string \<Rightarrow> node option\<close> (\<open>None\<close> for a thrown syntax error) and the walker a parameter
  \<open>node \<Rightarrow> node list\<close>, the nodes that \<open>simple(ast, visitors)\<close> hands to the visitors, in
  order. The datatype has one constructor for each ESTree node type that the sources of
  \<open>security/taint-analyzer.ts\<close> test for, with the fields they read; every other type (statements,
  \<open>ChainExpression\<close>, \<open>AwaitExpression\<close>, \<open>NewExpression\<close>, patterns, ...) is an \<open>OtherNode\<close> with
  its type name and its children.
\<close>

section \<open>Nodes\<close>

datatype literal_value = LitString string | LitOther

datatype node =
    Identifier string
  | Literal literal_value
  | MemberExpression node node bool              \<comment> \<open>object, property, computed\<close>
  | CallExpression node "node list"              \<comment> \<open>callee, arguments\<close>
  | YieldExpression "node option"
  | FunctionExpression "node list" node          \<comment> \<open>params, body\<close>
  | ArrowFunctionExpression "node list" node
  | FunctionDeclaration "node option" "node list" node   \<comment> \<open>id, params, body\<close>
  | BinaryExpression string node node             \<comment> \<open>operator, left, right\<close>
  | LogicalExpression string node node
  | UnaryExpression string node
  | ConditionalExpression node node node         \<comment> \<open>test, consequent, alternate\<close>
  | ObjectExpression "node list"
  | Property node node                           \<comment> \<open>key, value\<close>
  | ArrayExpression "node option list"           \<comment> \<open>elements, \<open>null\<close> for a hole\<close>
  | TemplateLiteral "node list"                  \<comment> \<open>expressions\<close>
  | SpreadElement node
  | ReturnStatement "node option" nat            \<comment> \<open>argument, line\<close>
  | VariableDeclaration "node list"              \<comment> \<open>declarations\<close>
  | VariableDeclarator node "node option"        \<comment> \<open>id, init\<close>
  | AssignmentExpression node node               \<comment> \<open>left, right\<close>
  | ForOfStatement node node node                \<comment> \<open>left, right, body\<close>
  | BlockStatement "node list"
  | OtherNode string "node list"                 \<comment> \<open>type, children\<close>

type_synonym walker = "node \<Rightarrow> node list"
type_synonym parser = "string \<Rightarrow> node option"

fun children :: "node \<Rightarrow> node list" where
  "children (Identifier x) = []"
| "children (Literal v) = []"
| "children (MemberExpression ob pr c) = [ob, pr]"
| "children (CallExpression f as) = f # as"
| "children (YieldExpression a) = (case a of None \<Rightarrow> [] | Some e \<Rightarrow> [e])"
| "children (FunctionExpression ps b) = ps @ [b]"
| "children (ArrowFunctionExpression ps b) = ps @ [b]"
| "children (FunctionDeclaration i ps b) = (case i of None \<Rightarrow> [] | Some e \<Rightarrow> [e]) @ ps @ [b]"
| "children (BinaryExpression oper l r) = [l, r]"
| "children (LogicalExpression oper l r) = [l, r]"
| "children (UnaryExpression oper e) = [e]"
| "children (ConditionalExpression t c a) = [t, c, a]"
| "children (ObjectExpression ps) = ps"
| "children (Property k v) = [k, v]"
| "children (ArrayExpression es) = List.map_filter id es"
| "children (TemplateLiteral es) = es"
| "children (SpreadElement e) = [e]"
| "children (ReturnStatement a l) = (case a of None \<Rightarrow> [] | Some e \<Rightarrow> [e])"
| "children (VariableDeclaration ds) = ds"
| "children (VariableDeclarator i e) = i # (case e of None \<Rightarrow> [] | Some e \<Rightarrow> [e])"
| "children (AssignmentExpression l r) = [l, r]"
| "children (ForOfStatement l r b) = [l, r, b]"
| "children (BlockStatement ss) = ss"
| "children (OtherNode t cs) = cs"

lemma size_list_mem: "x \<in> set xs \<Longrightarrow> f x < Suc (size_list f xs)"
  by (induction xs) auto

lemma size_children: "m \<in> set (children n) \<Longrightarrow> size m < size n"
proof (cases n)
  case (ArrayExpression es)
  assume "m \<in> set (children n)"
  with ArrayExpression have "Some m \<in> set es" by (auto simp: List.map_filter_def)
  then have "size_option size (Some m) < Suc (size_list (size_option size) es)"
    by (rule size_list_mem)
  then show ?thesis using ArrayExpression by simp
qed (auto dest!: size_list_mem [where f = size] split: option.splits)

text \<open>The nodes of a tree: the node itself and everything below it.\<close>

inductive subnode :: "node \<Rightarrow> node \<Rightarrow> bool" where
  here: "subnode n n"
| below: "m \<in> set (children k) \<Longrightarrow> subnode k n \<Longrightarrow> subnode m n"

lemma subnode_size: "subnode m n \<Longrightarrow> size m \<le> size n"
  by (induction rule: subnode.induct) (auto dest: size_children)

lemma subnode_trans: "subnode a b \<Longrightarrow> subnode b c \<Longrightarrow> subnode a c"
  by (induction rule: subnode.induct) (auto intro: subnode.below)

lemma subnode_child: "m \<in> set (children n) \<Longrightarrow> subnode m n"
  by (blast intro: subnode.intros)

section \<open>The walker\<close>

text \<open>What the analyses rely on: \<open>simple\<close> visits nodes of the tree it is given, and it reaches
  every \<open>return\<close> statement.\<close>

locale ast_walk =
  fixes walk :: walker
  assumes walk_subnode: "m \<in> set (walk n) \<Longrightarrow> subnode m n"
    and walk_returns: "subnode (ReturnStatement a l) n \<Longrightarrow> ReturnStatement a l \<in> set (walk n)"
begin

lemma walk_size: "m \<in> set (walk n) \<Longrightarrow> size m \<le> size n"
  by (rule subnode_size [OF walk_subnode])

lemma walk_return_arg_size:
  "ReturnStatement (Some a) l \<in> set (walk n) \<Longrightarrow> size a < size n"
  using walk_size [of "ReturnStatement (Some a) l" n] by simp

lemma walk_yield_arg_size: "YieldExpression (Some a) \<in> set (walk n) \<Longrightarrow> size a < size n"
  using walk_size [of "YieldExpression (Some a)" n] by simp

end

text \<open>The walk \<open>acorn-walk\<close> documents: children first, then the node.\<close>

function walk_post :: walker where
  "walk_post n = concat (map walk_post (children n)) @ [n]"
  by pat_completeness auto
termination
  by (relation "measure size") (auto dest: size_children)

declare walk_post.simps [simp del]

lemma walk_post_iff: "m \<in> set (walk_post n) \<longleftrightarrow> m = n \<or> (\<exists>c\<in>set (children n). m \<in> set (walk_post c))"
  by (subst walk_post.simps) auto

lemma walk_post_sound: "m \<in> set (walk_post n) \<Longrightarrow> subnode m n"
proof (induction n rule: walk_post.induct)
  case (1 n)
  then show ?case
    by (auto simp: walk_post_iff [of m n] intro: subnode.here subnode_trans subnode_child)
qed

lemma walk_post_children: "k \<in> set (walk_post n) \<Longrightarrow> m \<in> set (children k) \<Longrightarrow> m \<in> set (walk_post n)"
proof (induction n rule: walk_post.induct)
  case (1 n)
  then show ?case
    by (auto simp: walk_post_iff [of k n] walk_post_iff [of m n] intro: walk_post_iff [THEN iffD2])
qed

lemma walk_post_complete: "subnode m n \<Longrightarrow> m \<in> set (walk_post n)"
proof (induction rule: subnode.induct)
  case (here n)
  show ?case by (simp add: walk_post_iff [of n n])
next
  case (below m k n)
  then show ?case by (blast intro: walk_post_children)
qed

interpretation post: ast_walk walk_post
  by unfold_locales (auto intro: walk_post_sound walk_post_complete)

section \<open>Reading member expressions\<close>

text \<open>\<open>getPropertyName\<close>: the name after the dot, or a string literal in brackets.\<close>

fun get_property_name :: "node \<Rightarrow> bool \<Rightarrow> string option" where
  "get_property_name (Identifier x) computed = (if computed then None else Some x)"
| "get_property_name (Literal (LitString s)) computed = (if computed then Some s else None)"
| "get_property_name _ computed = None"

text \<open>A name that JavaScript takes as true: not \<open>null\<close> and not the empty string.\<close>

definition truthy_name :: "string option \<Rightarrow> bool" where
  "truthy_name p \<longleftrightarrow> (case p of None \<Rightarrow> False | Some s \<Rightarrow> s \<noteq> [])"

fun is_env_records_access :: "node \<Rightarrow> bool" where
  "is_env_records_access (MemberExpression ob pr computed) =
     (get_property_name pr computed = Some ''records'' \<and> ob = Identifier ''env'')"
| "is_env_records_access (Identifier x) = (x = ''records'')"
| "is_env_records_access _ = False"

text \<open>\<open>isEnvRecordsChain\<close>: \<open>env.records\<close> behind any number of \<open>slice\<close>, \<open>filter\<close>, \<open>toSorted\<close> calls.\<close>

fun is_env_records_chain :: "node \<Rightarrow> bool" where
  "is_env_records_chain (CallExpression (MemberExpression ob pr computed) as) =
     (get_property_name pr computed \<in> {Some ''slice'', Some ''filter'', Some ''toSorted''}
      \<and> is_env_records_chain ob)"
| "is_env_records_chain n = is_env_records_access n"

definition is_records_map_call :: "node \<Rightarrow> bool" where
  "is_records_map_call n =
     (case n of
        CallExpression (MemberExpression ob pr computed) as \<Rightarrow>
          get_property_name pr computed = Some ''map'' \<and> is_env_records_chain ob
      | _ \<Rightarrow> False)"

definition is_block :: "node \<Rightarrow> bool" where
  "is_block n = (case n of BlockStatement ss \<Rightarrow> True | _ \<Rightarrow> False)"

end
