(* ===== verification/Taint.thy ===== *)
theory Taint
  imports Ast
begin

text \<open>
  The static taint analysis of \<open>security/taint-analyzer.ts\<close>: which expressions of the injected
  logic derive from a forbidden field of a record. The sets \<open>recordBoundVars\<close> and
  \<open>taintedVars\<close> are sets of names. \<open>isCallExprTainted\<close> may add to \<open>taintedVars\<close> while it
  answers, so the evaluation threads that set; its recursion runs through the walker into
  function bodies, so it carries fuel, \<open>None\<close> being "out of fuel". The lemmas show that fuel
  above the size of the tree is always enough and that the set is never changed after all.
\<close>

section \<open>The analyzer\<close>

record analyzer =
  piiFields :: "string list"
  sensitiveKeys :: "string list"

definition new_analyzer :: "string list \<Rightarrow> string list \<Rightarrow> analyzer" where
  "new_analyzer pii keys =
     \<lparr>piiFields = map js_lower pii, sensitiveKeys = map js_lower keys\<rparr>"

datatype field_sensitivity = Forbidden | Sensitive | Public

definition classify_field :: "analyzer \<Rightarrow> string \<Rightarrow> string list \<Rightarrow> field_sensitivity" where
  "classify_field A field policySensitiveKeys =
     (let lowerField = js_lower field in
      if lowerField \<in> set (piiFields A) then Forbidden
      else if lowerField \<in> set (sensitiveKeys A) \<or> lowerField \<in> set (map js_lower policySensitiveKeys)
        then Sensitive
      else Public)"

definition is_pii :: "analyzer \<Rightarrow> string \<Rightarrow> bool" where
  "is_pii A p \<longleftrightarrow> js_lower p \<in> set (piiFields A)"

definition taint_propagating_methods :: "string list" where
  "taint_propagating_methods =
    [''charCodeAt'', ''codePointAt'', ''charAt'', ''at'', ''indexOf'', ''lastIndexOf'', ''search'',
     ''localeCompare'', ''startsWith'', ''endsWith'', ''includes'', ''substring'', ''slice'', ''substr'',
     ''split'', ''match'', ''matchAll'', ''replace'', ''replaceAll'', ''normalize'', ''toLowerCase'',
     ''toUpperCase'', ''trim'', ''trimStart'', ''trimEnd'', ''padStart'', ''padEnd'', ''repeat'']"

definition array_callback_methods :: "string list" where
  "array_callback_methods =
    [''map'', ''forEach'', ''filter'', ''find'', ''some'', ''every'', ''flatMap'', ''findIndex'']"

definition reduce_methods :: "string list" where
  "reduce_methods = [''reduce'', ''reduceRight'']"

definition safe_globals :: "string list" where
  "safe_globals = [''Math'', ''Number'', ''parseInt'', ''parseFloat'', ''isNaN'', ''isFinite'']"

definition name_in :: "string option \<Rightarrow> string list \<Rightarrow> bool" where
  "name_in p xs \<longleftrightarrow> (case p of None \<Rightarrow> False | Some s \<Rightarrow> s \<in> set xs)"

section \<open>Computations that read and extend the tainted variables\<close>

type_synonym 'a taint_m = "string set \<Rightarrow> ('a \<times> string set) option"

definition ret :: "'a \<Rightarrow> 'a taint_m" where
  "ret x = (\<lambda>tv. Some (x, tv))"

definition bnd :: "'a taint_m \<Rightarrow> ('a \<Rightarrow> 'b taint_m) \<Rightarrow> 'b taint_m" where
  "bnd m f = (\<lambda>tv. case m tv of None \<Rightarrow> None | Some (x, tv') \<Rightarrow> f x tv')"

definition is_tainted_var :: "string \<Rightarrow> bool taint_m" where
  "is_tainted_var x = (\<lambda>tv. Some (x \<in> tv, tv))"

definition add_tainted :: "string \<Rightarrow> unit taint_m" where
  "add_tainted x = (\<lambda>tv. Some ((), insert x tv))"

text \<open>\<open>a || b\<close> and \<open>xs.some(f)\<close>, stopping at the first \<open>true\<close>.\<close>

definition or_m :: "bool taint_m \<Rightarrow> bool taint_m \<Rightarrow> bool taint_m" where
  "or_m a b = bnd a (\<lambda>x. if x then ret True else b)"

fun some_m :: "('a \<Rightarrow> bool taint_m) \<Rightarrow> 'a list \<Rightarrow> bool taint_m" where
  "some_m f [] = ret False"
| "some_m f (x # xs) = or_m (f x) (some_m f xs)"

section \<open>Expressions\<close>

type_synonym evaluator = "node \<Rightarrow> string set \<Rightarrow> bool taint_m"

definition is_record_var :: "node \<Rightarrow> string set \<Rightarrow> bool" where
  "is_record_var n rb \<longleftrightarrow> (case n of Identifier x \<Rightarrow> x \<in> rb | _ \<Rightarrow> False)"

definition is_indexed_record :: "node \<Rightarrow> bool" where
  "is_indexed_record n \<longleftrightarrow>
     (case n of MemberExpression ob pr computed \<Rightarrow> computed \<and> is_env_records_access ob | _ \<Rightarrow> False)"

definition member_tainted :: "analyzer \<Rightarrow> evaluator \<Rightarrow> node \<Rightarrow> node \<Rightarrow> bool \<Rightarrow> string set \<Rightarrow> bool taint_m" where
  "member_tainted A ev ob pr computed rb =
     (let propName = get_property_name pr computed;
          propPii = (truthy_name propName \<and> is_pii A (the propName)) in
      if is_record_var ob rb \<and> propPii then ret True
      else if is_indexed_record ob \<and> propPii then ret True
      else bnd (ev ob rb) (\<lambda>t.
        if t then ret True
        else if computed \<and> is_record_var ob rb then
          (case pr of Literal (LitString s) \<Rightarrow> ret (is_pii A s) | _ \<Rightarrow> ret False)
        else ret False))"

text \<open>The visitors of \<open>doesCallbackProduceTaint\<close>: the argument of a \<open>return\<close> and of a \<open>yield\<close>
  are checked, every one of them.\<close>

definition sink_arg :: "node \<Rightarrow> node option" where
  "sink_arg m = (case m of ReturnStatement a l \<Rightarrow> a | YieldExpression a \<Rightarrow> a | _ \<Rightarrow> None)"

fun visit_returns :: "evaluator \<Rightarrow> string set \<Rightarrow> node list \<Rightarrow> bool \<Rightarrow> bool taint_m" where
  "visit_returns ev rb [] found = ret found"
| "visit_returns ev rb (m # ms) found =
     (case sink_arg m of
        None \<Rightarrow> visit_returns ev rb ms found
      | Some a \<Rightarrow> bnd (ev a rb) (\<lambda>t. visit_returns ev rb ms (found \<or> t)))"

definition scoped_record_vars :: "node list \<Rightarrow> string option \<Rightarrow> string set \<Rightarrow> string set" where
  "scoped_record_vars params methodName rb =
     (let i = (if name_in methodName reduce_methods then 1 else 0) in
      if 0 < length params \<and> i < length params then
        (case params ! i of Identifier x \<Rightarrow> insert x rb | _ \<Rightarrow> rb)
      else rb)"

text \<open>The callback works on copies of both sets: what it adds to its copy is dropped.\<close>

definition callback_tainted ::
    "walker \<Rightarrow> evaluator \<Rightarrow> bool \<Rightarrow> node list \<Rightarrow> node \<Rightarrow> string option \<Rightarrow> string set \<Rightarrow> bool taint_m" where
  "callback_tainted walk ev isArrow params body methodName rb = (\<lambda>tv.
     let rb' = scoped_record_vars params methodName rb;
         res = (if isArrow \<and> \<not> is_block body then ev body rb' tv
                else visit_returns ev rb' (walk body) False tv)
     in map_option (\<lambda>(b, tv'). (b, tv)) res)"

text \<open>\<open>someArray.push(taintedValue)\<close> marks the receiving array; the answer stays \<open>false\<close>.\<close>

definition push_mark :: "bool taint_m \<Rightarrow> node \<Rightarrow> string option \<Rightarrow> bool taint_m" where
  "push_mark any_arg ob methodName =
     (case ob of
        Identifier x \<Rightarrow>
          if methodName = Some ''push'' then
            bnd any_arg (\<lambda>t. if t then bnd (add_tainted x) (\<lambda>_. ret False) else ret False)
          else ret False
      | _ \<Rightarrow> ret False)"

definition call_member_tainted ::
    "walker \<Rightarrow> evaluator \<Rightarrow> node \<Rightarrow> node \<Rightarrow> bool \<Rightarrow> node list \<Rightarrow> string set \<Rightarrow> bool taint_m" where
  "call_member_tainted walk ev ob pr computed as rb =
     (let methodName = get_property_name pr computed;
          any_arg = some_m (\<lambda>a. ev a rb) as;
          propagates = (if name_in methodName taint_propagating_methods then ev ob rb else ret False);
          tail = or_m (or_m (ev ob rb) any_arg) (push_mark any_arg ob methodName)
      in or_m propagates
           (if is_env_records_access ob then
              (case as of
                 ArrowFunctionExpression ps b # _ \<Rightarrow> callback_tainted walk ev True ps b methodName rb
               | FunctionExpression ps b # _ \<Rightarrow> callback_tainted walk ev False ps b methodName rb
               | _ \<Rightarrow> tail)
            else tail))"

definition call_tainted :: "walker \<Rightarrow> evaluator \<Rightarrow> node \<Rightarrow> node list \<Rightarrow> string set \<Rightarrow> bool taint_m" where
  "call_tainted walk ev callee as rb =
     (case callee of
        MemberExpression ob pr computed \<Rightarrow> call_member_tainted walk ev ob pr computed as rb
      | Identifier f \<Rightarrow>
          or_m (is_tainted_var f)
            (if f \<notin> set safe_globals then some_m (\<lambda>a. ev a rb) as else ret False)
      | _ \<Rightarrow> ret False)"

definition property_tainted :: "evaluator \<Rightarrow> string set \<Rightarrow> node \<Rightarrow> bool taint_m" where
  "property_tainted ev rb p = (case p of Property k v \<Rightarrow> ev v rb | _ \<Rightarrow> ret False)"

definition element_tainted :: "evaluator \<Rightarrow> string set \<Rightarrow> node option \<Rightarrow> bool taint_m" where
  "element_tainted ev rb el = (case el of None \<Rightarrow> ret False | Some e \<Rightarrow> ev e rb)"

fun expr_tainted :: "analyzer \<Rightarrow> walker \<Rightarrow> nat \<Rightarrow> evaluator" where
  "expr_tainted A walk 0 = (\<lambda>n rb tv. None)"
| "expr_tainted A walk (Suc fuel) = (\<lambda>n rb.
     let ev = expr_tainted A walk fuel in
     case n of
       Identifier x \<Rightarrow> is_tainted_var x
     | MemberExpression ob pr computed \<Rightarrow> member_tainted A ev ob pr computed rb
     | CallExpression callee as \<Rightarrow> call_tainted walk ev callee as rb
     | YieldExpression a \<Rightarrow> (case a of None \<Rightarrow> ret False | Some e \<Rightarrow> ev e rb)
     | FunctionExpression ps b \<Rightarrow> callback_tainted walk ev False ps b None rb
     | ArrowFunctionExpression ps b \<Rightarrow> callback_tainted walk ev True ps b None rb
     | BinaryExpression oper l r \<Rightarrow> or_m (ev l rb) (ev r rb)
     | LogicalExpression oper l r \<Rightarrow> or_m (ev l rb) (ev r rb)
     | UnaryExpression oper e \<Rightarrow> ev e rb
     | ConditionalExpression t c a \<Rightarrow> or_m (or_m (ev t rb) (ev c rb)) (ev a rb)
     | ObjectExpression ps \<Rightarrow> some_m (property_tainted ev rb) ps
     | ArrayExpression es \<Rightarrow> some_m (element_tainted ev rb) es
     | TemplateLiteral es \<Rightarrow> some_m (\<lambda>e. ev e rb) es
     | SpreadElement e \<Rightarrow> ev e rb
     | _ \<Rightarrow> ret False)"


section \<open>Fuel above the size of the tree is enough, and nothing is added\<close>

text \<open>A computation that always answers and leaves the tainted variables as they are.\<close>

definition settles :: "'a taint_m \<Rightarrow> bool" where
  "settles m \<longleftrightarrow> (\<forall>tv. \<exists>b. m tv = Some (b, tv))"

definition val :: "'a taint_m \<Rightarrow> string set \<Rightarrow> 'a" where
  "val m tv = fst (the (m tv))"

named_theorems settles_intros \<open>totality is kept by the composition of computations\<close>
named_theorems val_simps \<open>the answer of a composed computation\<close>

lemma settles_run: "settles m \<Longrightarrow> m tv = Some (val m tv, tv)"
  by (auto simp: settles_def val_def) (metis fst_conv option.sel)

lemma settles_ret [settles_intros]: "settles (ret x)"
  by (simp add: settles_def ret_def)

lemma val_ret [val_simps]: "val (ret x) tv = x"
  by (simp add: val_def ret_def)

lemma settles_is_tainted_var [settles_intros]: "settles (is_tainted_var x)"
  by (simp add: settles_def is_tainted_var_def)

lemma val_is_tainted_var [val_simps]: "val (is_tainted_var x) tv = (x \<in> tv)"
  by (simp add: val_def is_tainted_var_def)

lemma bnd_run: "settles m \<Longrightarrow> bnd m f tv = f (val m tv) tv"
  by (simp add: bnd_def settles_run)

lemma settles_bnd [settles_intros]: "settles m \<Longrightarrow> (\<And>x. settles (f x)) \<Longrightarrow> settles (bnd m f)"
  unfolding settles_def [of "bnd m f"] by (simp add: bnd_run settles_run)

lemma val_bnd [val_simps]: "settles m \<Longrightarrow> val (bnd m f) tv = val (f (val m tv)) tv"
  by (simp add: val_def bnd_run)

lemma settles_or [settles_intros]: "settles a \<Longrightarrow> settles b \<Longrightarrow> settles (or_m a b)"
  unfolding or_m_def by (rule settles_bnd) (simp_all add: settles_ret)

lemma val_or [val_simps]: "settles a \<Longrightarrow> val (or_m a b) tv = (val a tv \<or> val b tv)"
  by (simp add: or_m_def val_bnd val_ret)

lemma settles_some [settles_intros]: "(\<And>x. x \<in> set xs \<Longrightarrow> settles (f x)) \<Longrightarrow> settles (some_m f xs)"
  by (induction xs) (auto intro: settles_intros)

lemma val_some [val_simps]:
  "(\<And>x. x \<in> set xs \<Longrightarrow> settles (f x)) \<Longrightarrow> val (some_m f xs) tv = (\<exists>x\<in>set xs. val (f x) tv)"
  by (induction xs) (auto simp: val_simps)

lemma settles_or_false: "settles a \<Longrightarrow> (\<And>tv. \<not> val a tv \<Longrightarrow> \<exists>x. b tv = Some (x, tv)) \<Longrightarrow> settles (or_m a b)"
  unfolding settles_def [of "or_m a b"] by (auto simp: or_m_def bnd_run ret_def)

lemma settles_member [settles_intros]: "settles (ev ob rb) \<Longrightarrow> settles (member_tainted A ev ob pr computed rb)"
  by (auto simp: member_tainted_def Let_def intro!: settles_intros split: node.split literal_value.split)

text \<open>The mark is only set when an argument is tainted, but then the check before it has
  already answered \<open>true\<close>.\<close>

lemma push_mark_run: "settles any_arg \<Longrightarrow> \<not> val any_arg tv \<Longrightarrow> push_mark any_arg ob mn tv = Some (False, tv)"
  by (auto simp: push_mark_def bnd_run ret_def split: node.split)

lemma settles_push_tail [settles_intros]:
  "settles a \<Longrightarrow> settles any_arg \<Longrightarrow> settles (or_m (or_m a any_arg) (push_mark any_arg ob mn))"
  by (rule settles_or_false) (auto simp: val_or push_mark_run intro: settles_intros)

lemma val_push_tail [val_simps]:
  assumes "settles a" and "settles any_arg"
  shows "val (or_m (or_m a any_arg) (push_mark any_arg ob mn)) tv = (val a tv \<or> val any_arg tv)"
proof -
  have "settles (or_m a any_arg)" using assms by (rule settles_or)
  then have "val (or_m (or_m a any_arg) (push_mark any_arg ob mn)) tv =
      (val (or_m a any_arg) tv \<or> val (push_mark any_arg ob mn) tv)"
    by (rule val_or)
  moreover have "\<not> val any_arg tv \<Longrightarrow> \<not> val (push_mark any_arg ob mn) tv"
    using push_mark_run [OF assms(2), of tv ob mn] by (simp add: val_def)
  ultimately show ?thesis using val_or [OF assms(1), of any_arg tv] by auto
qed

lemma settles_visit:
  assumes "\<And>m a. m \<in> set ms \<Longrightarrow> sink_arg m = Some a \<Longrightarrow> settles (ev a rb)"
  shows "settles (visit_returns ev rb ms found)"
  using assms by (induction ms arbitrary: found) (auto intro!: settles_intros split: option.split)

lemma val_visit:
  assumes "\<And>m a. m \<in> set ms \<Longrightarrow> sink_arg m = Some a \<Longrightarrow> settles (ev a rb)"
  shows "val (visit_returns ev rb ms found) tv \<longleftrightarrow>
    found \<or> (\<exists>m\<in>set ms. \<exists>a. sink_arg m = Some a \<and> val (ev a rb) tv)"
  using assms
proof (induction ms arbitrary: found)
  case Nil
  show ?case by (simp add: val_ret)
next
  case (Cons m ms)
  have IH: "val (visit_returns ev rb ms f) tv \<longleftrightarrow>
      f \<or> (\<exists>m\<in>set ms. \<exists>a. sink_arg m = Some a \<and> val (ev a rb) tv)" for f
    by (rule Cons.IH, rule Cons.prems) auto
  show ?case
  proof (cases "sink_arg m")
    case None
    then show ?thesis by (simp add: IH)
  next
    case (Some a)
    then have "settles (ev a rb)" using Cons.prems [of m a] by simp
    with Some show ?thesis by (auto simp: val_bnd IH)
  qed
qed

lemma callback_run:
  assumes "isArrow \<and> \<not> is_block body \<Longrightarrow> settles (ev body (scoped_record_vars ps mn rb))"
    and "\<not> (isArrow \<and> \<not> is_block body) \<Longrightarrow>
      \<forall>m\<in>set (walk body). \<forall>a. sink_arg m = Some a \<longrightarrow> settles (ev a (scoped_record_vars ps mn rb))"
  shows "settles (callback_tainted walk ev isArrow ps body mn rb)"
    and "val (callback_tainted walk ev isArrow ps body mn rb) tv =
      (if isArrow \<and> \<not> is_block body then val (ev body (scoped_record_vars ps mn rb)) tv
       else (\<exists>m\<in>set (walk body). \<exists>a. sink_arg m = Some a \<and>
              val (ev a (scoped_record_vars ps mn rb)) tv))"
proof -
  let ?rb = "scoped_record_vars ps mn rb"
  let ?inner = "if isArrow \<and> \<not> is_block body then ev body ?rb
                else visit_returns ev ?rb (walk body) False"
  have "settles ?inner"
    using assms by (auto intro!: settles_visit)
  then have run: "callback_tainted walk ev isArrow ps body mn rb t = Some (val ?inner t, t)" for t
    by (auto simp: callback_tainted_def Let_def settles_run)
  then show "settles (callback_tainted walk ev isArrow ps body mn rb)"
    by (simp add: settles_def)
  show "val (callback_tainted walk ev isArrow ps body mn rb) tv =
      (if isArrow \<and> \<not> is_block body then val (ev body ?rb) tv
       else (\<exists>m\<in>set (walk body). \<exists>a. sink_arg m = Some a \<and> val (ev a ?rb) tv))"
    using assms(2) by (auto simp: val_def [of "callback_tainted walk ev isArrow ps body mn rb"] run
        val_visit)
qed


section \<open>The taint relation the code computes\<close>

text \<open>One step of a reference definition without state and fuel, over an oracle \<open>T\<close> for the
  parts of the expression.\<close>

type_synonym taint_spec = "node \<Rightarrow> string set \<Rightarrow> string set \<Rightarrow> bool"

definition callback_flows :: "walker \<Rightarrow> taint_spec \<Rightarrow> bool \<Rightarrow> node list \<Rightarrow> node \<Rightarrow> string option \<Rightarrow>
    string set \<Rightarrow> string set \<Rightarrow> bool" where
  "callback_flows walk T isArrow ps body mn rb tv \<longleftrightarrow>
     (let rb' = scoped_record_vars ps mn rb in
      if isArrow \<and> \<not> is_block body then T body rb' tv
      else (\<exists>m\<in>set (walk body). \<exists>a. sink_arg m = Some a \<and> T a rb' tv))"

definition member_flows :: "analyzer \<Rightarrow> taint_spec \<Rightarrow> node \<Rightarrow> node \<Rightarrow> bool \<Rightarrow> string set \<Rightarrow> string set \<Rightarrow> bool" where
  "member_flows A T ob pr computed rb tv \<longleftrightarrow>
     ((is_record_var ob rb \<or> is_indexed_record ob) \<and>
        truthy_name (get_property_name pr computed) \<and> is_pii A (the (get_property_name pr computed))) \<or>
     T ob rb tv \<or>
     (computed \<and> is_record_var ob rb \<and> (\<exists>s. pr = Literal (LitString s) \<and> is_pii A s))"

definition call_flows :: "walker \<Rightarrow> taint_spec \<Rightarrow> node \<Rightarrow> node list \<Rightarrow> string set \<Rightarrow> string set \<Rightarrow> bool" where
  "call_flows walk T callee as rb tv \<longleftrightarrow>
     (case callee of
        MemberExpression ob pr computed \<Rightarrow>
          (let mn = get_property_name pr computed;
               any = (T ob rb tv \<or> (\<exists>a\<in>set as. T a rb tv))
           in (name_in mn taint_propagating_methods \<and> T ob rb tv) \<or>
              (if is_env_records_access ob then
                 (case as of
                    ArrowFunctionExpression ps b # _ \<Rightarrow> callback_flows walk T True ps b mn rb tv
                  | FunctionExpression ps b # _ \<Rightarrow> callback_flows walk T False ps b mn rb tv
                  | _ \<Rightarrow> any)
               else any))
      | Identifier f \<Rightarrow> f \<in> tv \<or> (f \<notin> set safe_globals \<and> (\<exists>a\<in>set as. T a rb tv))
      | _ \<Rightarrow> False)"

definition flows_step :: "analyzer \<Rightarrow> walker \<Rightarrow> taint_spec \<Rightarrow> taint_spec" where
  "flows_step A walk T n rb tv \<longleftrightarrow>
     (case n of
        Identifier x \<Rightarrow> x \<in> tv
      | MemberExpression ob pr computed \<Rightarrow> member_flows A T ob pr computed rb tv
      | CallExpression callee as \<Rightarrow> call_flows walk T callee as rb tv
      | YieldExpression a \<Rightarrow> (\<exists>e. a = Some e \<and> T e rb tv)
      | FunctionExpression ps b \<Rightarrow> callback_flows walk T False ps b None rb tv
      | ArrowFunctionExpression ps b \<Rightarrow> callback_flows walk T True ps b None rb tv
      | BinaryExpression oper l r \<Rightarrow> T l rb tv \<or> T r rb tv
      | LogicalExpression oper l r \<Rightarrow> T l rb tv \<or> T r rb tv
      | UnaryExpression oper e \<Rightarrow> T e rb tv
      | ConditionalExpression t c a \<Rightarrow> T t rb tv \<or> T c rb tv \<or> T a rb tv
      | ObjectExpression ps \<Rightarrow> (\<exists>k v. Property k v \<in> set ps \<and> T v rb tv)
      | ArrayExpression es \<Rightarrow> (\<exists>e. Some e \<in> set es \<and> T e rb tv)
      | TemplateLiteral es \<Rightarrow> (\<exists>e\<in>set es. T e rb tv)
      | SpreadElement e \<Rightarrow> T e rb tv
      | _ \<Rightarrow> False)"

text \<open>The parts of an expression that a step consults: all of them smaller than the expression.\<close>

lemma sink_arg_size: "sink_arg m = Some a \<Longrightarrow> size a < size m"
  by (auto simp: sink_arg_def split: node.splits)

lemma size_mem_children:
  "a \<in> set as \<Longrightarrow> size a < size (CallExpression f as)"
  "e \<in> set es \<Longrightarrow> size e < size (TemplateLiteral es)"
  "Property k v \<in> set ps \<Longrightarrow> size v < size (ObjectExpression ps)"
  "Some e \<in> set xs \<Longrightarrow> size e < size (ArrayExpression xs)"
  using size_children [of a "CallExpression f as"] size_children [of e "TemplateLiteral es"]
    size_children [of "Property k v" "ObjectExpression ps"]
    size_list_mem [of "Some e" xs "size_option size"]
  by auto


section \<open>The code computes the reference relation\<close>

abbreviation vals :: "evaluator \<Rightarrow> taint_spec" where
  "vals ev \<equiv> (\<lambda>k rb tv. val (ev k rb) tv)"

lemma val_member:
  assumes "settles (ev ob rb)"
  shows "val (member_tainted A ev ob pr computed rb) tv = member_flows A (vals ev) ob pr computed rb tv"
proof -
  have "val (bnd (ev ob rb) f) tv = val (f (val (ev ob rb) tv)) tv" for f :: "bool \<Rightarrow> bool taint_m"
    using assms by (rule val_bnd)
  then show ?thesis
    unfolding member_tainted_def member_flows_def Let_def
    by (cases pr) (auto simp: val_ret split: literal_value.split)
qed

definition callback_settles :: "walker \<Rightarrow> evaluator \<Rightarrow> bool \<Rightarrow> node \<Rightarrow> bool" where
  "callback_settles walk ev isArrow body \<longleftrightarrow>
     (\<forall>rb. settles (ev body rb)) \<and>
     (\<forall>m\<in>set (walk body). \<forall>a. sink_arg m = Some a \<longrightarrow> (\<forall>rb. settles (ev a rb)))"

lemma callback_flows_run:
  assumes "callback_settles walk ev isArrow body"
  shows "settles (callback_tainted walk ev isArrow ps body mn rb)"
    and "val (callback_tainted walk ev isArrow ps body mn rb) tv =
         callback_flows walk (vals ev) isArrow ps body mn rb tv"
  using assms callback_run [of isArrow body ev ps mn rb walk]
  by (auto simp: callback_settles_def callback_flows_def Let_def)

lemma call_member_run:
  assumes "\<And>rb. settles (ev ob rb)" and "\<And>a rb. a \<in> set as \<Longrightarrow> settles (ev a rb)"
    and "\<And>ps b. ArrowFunctionExpression ps b \<in> set as \<Longrightarrow> callback_settles walk ev True b"
    and "\<And>ps b. FunctionExpression ps b \<in> set as \<Longrightarrow> callback_settles walk ev False b"
  shows "settles (call_member_tainted walk ev ob pr computed as rb)"
    and "val (call_member_tainted walk ev ob pr computed as rb) tv =
         call_flows walk (vals ev) (MemberExpression ob pr computed) as rb tv"
proof -
  let ?mn = "get_property_name pr computed"
  let ?any = "some_m (\<lambda>a. ev a rb) as"
  let ?tail = "or_m (or_m (ev ob rb) ?any) (push_mark ?any ob ?mn)"
  let ?pro = "if name_in ?mn taint_propagating_methods then ev ob rb else ret False"
  let ?mid = "if is_env_records_access ob then
      (case as of
         ArrowFunctionExpression ps b # _ \<Rightarrow> callback_tainted walk ev True ps b ?mn rb
       | FunctionExpression ps b # _ \<Rightarrow> callback_tainted walk ev False ps b ?mn rb
       | _ \<Rightarrow> ?tail)
    else ?tail"
  have any: "settles ?any" using assms(2) by (rule settles_some)
  have tail: "settles ?tail" "val ?tail tv = (val (ev ob rb) tv \<or> (\<exists>a\<in>set as. val (ev a rb) tv))"
    using assms(1) any assms(2) by (simp_all add: settles_push_tail val_push_tail val_some)
  have pprop: "settles ?pro" "val ?pro tv = (name_in ?mn taint_propagating_methods \<and> val (ev ob rb) tv)"
    using assms(1) by (simp_all add: settles_ret val_ret)
  have arrow: "as = ArrowFunctionExpression ps b # r \<Longrightarrow> settles (callback_tainted walk ev True ps b ?mn rb)
      \<and> val (callback_tainted walk ev True ps b ?mn rb) tv = callback_flows walk (vals ev) True ps b ?mn rb tv"
    for ps b r using callback_flows_run [OF assms(3) [of ps b]] by simp
  have func: "as = FunctionExpression ps b # r \<Longrightarrow> settles (callback_tainted walk ev False ps b ?mn rb)
      \<and> val (callback_tainted walk ev False ps b ?mn rb) tv = callback_flows walk (vals ev) False ps b ?mn rb tv"
    for ps b r using callback_flows_run [OF assms(4) [of ps b]] by simp
  have mid: "settles ?mid \<and> val ?mid tv = (let any = (val (ev ob rb) tv \<or> (\<exists>a\<in>set as. val (ev a rb) tv)) in
      if is_env_records_access ob then
        (case as of
           ArrowFunctionExpression ps b # _ \<Rightarrow> callback_flows walk (vals ev) True ps b ?mn rb tv
         | FunctionExpression ps b # _ \<Rightarrow> callback_flows walk (vals ev) False ps b ?mn rb tv
         | _ \<Rightarrow> any)
      else any)"
    using tail arrow func by (cases as) (auto split: node.split)
  have eq: "call_member_tainted walk ev ob pr computed as rb = or_m ?pro ?mid"
    by (simp add: call_member_tainted_def Let_def)
  show "settles (call_member_tainted walk ev ob pr computed as rb)"
    unfolding eq using pprop(1) mid by (blast intro: settles_or)
  show "val (call_member_tainted walk ev ob pr computed as rb) tv =
         call_flows walk (vals ev) (MemberExpression ob pr computed) as rb tv"
    unfolding eq val_or [OF pprop(1)] pprop(2) mid [THEN conjunct2]
    by (simp add: call_flows_def Let_def)
qed

lemma call_run:
  assumes "\<And>ob pr c rb. callee = MemberExpression ob pr c \<Longrightarrow> settles (ev ob rb)"
    and "\<And>a rb. a \<in> set as \<Longrightarrow> settles (ev a rb)"
    and "\<And>ps b. ArrowFunctionExpression ps b \<in> set as \<Longrightarrow> callback_settles walk ev True b"
    and "\<And>ps b. FunctionExpression ps b \<in> set as \<Longrightarrow> callback_settles walk ev False b"
  shows "settles (call_tainted walk ev callee as rb) \<and>
    val (call_tainted walk ev callee as rb) tv = call_flows walk (vals ev) callee as rb tv"
proof (cases callee)
  case (Identifier f)
  have "settles (some_m (\<lambda>a. ev a rb) as)" using assms(2) by (rule settles_some)
  with Identifier assms(2) show ?thesis
    by (auto simp: call_tainted_def call_flows_def val_or val_is_tainted_var val_some val_ret
        settles_is_tainted_var settles_ret intro!: settles_or)
next
  case (MemberExpression ob pr c)
  from call_member_run [OF assms(1) [OF MemberExpression] assms(2-4)] MemberExpression show ?thesis
    by (simp add: call_tainted_def)
qed (simp_all add: call_tainted_def call_flows_def settles_ret val_ret)

end
