(* ===== verification/TaintFlow.thy ===== *)
theory TaintFlow
  imports Taint
begin

text \<open>
  The taint relation without fuel (\<open>taints\<close>) and what it means: the evaluation of
  \<open>isExpressionTainted\<close> always answers, never changes the set of tainted variables, obeys the
  reference equations of \<open>flows_step\<close>, and is monotone in both sets of variables.
\<close>

section \<open>Enough fuel\<close>

text \<open>The answer of \<open>isExpressionTainted\<close> with the fuel that always suffices.\<close>

definition taints :: "analyzer \<Rightarrow> walker \<Rightarrow> taint_spec" where
  "taints A walk n rb tv =
     (case expr_tainted A walk (Suc (size n)) n rb tv of None \<Rightarrow> False | Some (b, tv') \<Rightarrow> b)"

lemma some_property_run:
  assumes "\<And>k v rb. Property k v \<in> set ps \<Longrightarrow> settles (ev v rb)"
  shows "settles (some_m (property_tainted ev rb) ps) \<and>
    val (some_m (property_tainted ev rb) ps) tv = (\<exists>k v. Property k v \<in> set ps \<and> val (ev v rb) tv)"
proof -
  have st: "p \<in> set ps \<Longrightarrow> settles (property_tainted ev rb p)" for p
    using assms by (auto simp: property_tainted_def settles_ret split: node.split)
  have "val (property_tainted ev rb p) tv = (\<exists>k v. p = Property k v \<and> val (ev v rb) tv)" for p
    by (auto simp: property_tainted_def val_ret split: node.split)
  then have "(\<exists>p\<in>set ps. val (property_tainted ev rb p) tv) =
      (\<exists>k v. Property k v \<in> set ps \<and> val (ev v rb) tv)"
    by auto
  with settles_some [of ps "property_tainted ev rb", OF st] val_some [of ps "property_tainted ev rb" tv, OF st]
  show ?thesis by simp
qed

lemma some_element_run:
  assumes "\<And>e rb. Some e \<in> set es \<Longrightarrow> settles (ev e rb)"
  shows "settles (some_m (element_tainted ev rb) es) \<and>
    val (some_m (element_tainted ev rb) es) tv = (\<exists>e. Some e \<in> set es \<and> val (ev e rb) tv)"
proof -
  have st: "x \<in> set es \<Longrightarrow> settles (element_tainted ev rb x)" for x
    using assms by (auto simp: element_tainted_def settles_ret split: option.split)
  have "val (element_tainted ev rb x) tv = (\<exists>e. x = Some e \<and> val (ev e rb) tv)" for x
    by (auto simp: element_tainted_def val_ret split: option.split)
  then have "(\<exists>x\<in>set es. val (element_tainted ev rb x) tv) = (\<exists>e. Some e \<in> set es \<and> val (ev e rb) tv)"
    by auto
  with settles_some [of es "element_tainted ev rb", OF st] val_some [of es "element_tainted ev rb" tv, OF st]
  show ?thesis by simp
qed

context ast_walk
begin

lemma sink_in_walk: "m \<in> set (walk b) \<Longrightarrow> sink_arg m = Some a \<Longrightarrow> size a < size b"
  using walk_size sink_arg_size by (meson le_less_trans not_le order_less_le_trans)

lemma expr_step:
  assumes IH: "\<And>k rb. size k < size n \<Longrightarrow> settles (expr_tainted A walk fuel k rb)"
  shows "settles (expr_tainted A walk (Suc fuel) n rb) \<and>
    val (expr_tainted A walk (Suc fuel) n rb) tv = flows_step A walk (vals (expr_tainted A walk fuel)) n rb tv"
proof -
  let ?ev = "expr_tainted A walk fuel"
  have cb: "callback_settles walk ?ev arrow b" if "size b < size n" for arrow b
    using that IH sink_in_walk by (force simp: callback_settles_def)
  show ?thesis
  proof (cases n)
    case (Identifier x)
    then show ?thesis
      by (simp add: flows_step_def settles_is_tainted_var val_is_tainted_var)
  next
    case (MemberExpression ob pr c)
    then have "settles (?ev ob rb)" by (intro IH) simp
    then show ?thesis using MemberExpression
      by (simp add: flows_step_def settles_member val_member)
  next
    case (CallExpression callee as)
    have arg: "a \<in> set as \<Longrightarrow> size a < size n" for a
      using CallExpression size_mem_children(1) by simp
    have ob: "callee = MemberExpression ob pr c \<Longrightarrow> size ob < size n" for ob pr c
      using CallExpression by simp
    have "ArrowFunctionExpression ps b \<in> set as \<Longrightarrow> size b < size n"
      and "FunctionExpression ps b \<in> set as \<Longrightarrow> size b < size n" for ps b
      using arg [of "ArrowFunctionExpression ps b"] arg [of "FunctionExpression ps b"] by simp_all
    then have "settles (call_tainted walk ?ev callee as rb) \<and>
        val (call_tainted walk ?ev callee as rb) tv = call_flows walk (vals ?ev) callee as rb tv"
      using IH arg ob cb by (intro call_run) auto
    with CallExpression show ?thesis by (simp add: flows_step_def)
  next
    case (FunctionExpression ps b)
    then show ?thesis using callback_flows_run [OF cb [of b False]]
      by (simp add: flows_step_def)
  next
    case (ArrowFunctionExpression ps b)
    then show ?thesis using callback_flows_run [OF cb [of b True]]
      by (simp add: flows_step_def)
  next
    case (ObjectExpression ps)
    then show ?thesis
      using some_property_run [of ps ?ev rb tv] IH size_mem_children(3) by (simp add: flows_step_def)
  next
    case (ArrayExpression es)
    then show ?thesis
      using some_element_run [of es ?ev rb tv] IH size_mem_children(4) by (simp add: flows_step_def)
  next
    case (TemplateLiteral es)
    then have "\<And>e rb. e \<in> set es \<Longrightarrow> settles (?ev e rb)"
      using IH size_mem_children(2) by simp
    with TemplateLiteral show ?thesis
      by (simp add: flows_step_def settles_some val_some)
  next
    case (ConditionalExpression t c a)
    then have "settles (?ev t rb)" "settles (?ev c rb)" "settles (?ev a rb)"
      using IH by simp_all
    then show ?thesis using ConditionalExpression
      by (simp add: flows_step_def settles_or val_or Let_def)
  qed (use IH in \<open>auto simp: flows_step_def settles_ret val_ret val_or Let_def intro!: settles_or split: option.split\<close>)
qed

lemma fuel_settles: "size n < fuel \<Longrightarrow> settles (expr_tainted A walk fuel n rb)"
proof (induction fuel arbitrary: n rb)
  case (Suc fuel)
  then show ?case using expr_step [of n A fuel rb] by simp
qed simp

text \<open>A step only consults smaller expressions.\<close>

lemma flows_step_cong:
  assumes "\<And>k rb tv. size k < size n \<Longrightarrow> T k rb tv = T' k rb tv"
  shows "flows_step A walk T n rb tv = flows_step A walk T' n rb tv"
proof -
  have cb: "callback_flows walk T arrow ps b mn rb tv = callback_flows walk T' arrow ps b mn rb tv"
    if "size b < size n" for arrow ps b mn
    using assms that sink_in_walk [of _ b] by (auto simp: callback_flows_def Let_def) (meson order.strict_trans)+
  show ?thesis
  proof (cases n)
    case (CallExpression callee as)
    have arg: "a \<in> set as \<Longrightarrow> T a rb tv = T' a rb tv" for a
      using assms CallExpression size_mem_children(1) by simp
    have fn: "ArrowFunctionExpression ps b \<in> set as \<or> FunctionExpression ps b \<in> set as \<Longrightarrow> size b < size n" for ps b
      using CallExpression size_mem_children(1) [of "ArrowFunctionExpression ps b" as callee]
        size_mem_children(1) [of "FunctionExpression ps b" as callee] by auto
    have ob: "callee = MemberExpression ob pr c \<Longrightarrow> T ob rb tv = T' ob rb tv" for ob pr c
      using assms CallExpression by simp
    have any: "(\<exists>a\<in>set as. T a rb tv) = (\<exists>a\<in>set as. T' a rb tv)"
      using arg by auto
    have first: "(case as of ArrowFunctionExpression ps b # _ \<Rightarrow> callback_flows walk T True ps b mn rb tv
          | FunctionExpression ps b # _ \<Rightarrow> callback_flows walk T False ps b mn rb tv | _ \<Rightarrow> x) =
        (case as of ArrowFunctionExpression ps b # _ \<Rightarrow> callback_flows walk T' True ps b mn rb tv
          | FunctionExpression ps b # _ \<Rightarrow> callback_flows walk T' False ps b mn rb tv | _ \<Rightarrow> x)" for mn x
    proof (cases as)
      case (Cons a list)
      show ?thesis
      proof (cases a)
        case (FunctionExpression ps b)
        then show ?thesis using Cons cb [OF fn [of ps b]] by simp
      next
        case (ArrowFunctionExpression ps b)
        then show ?thesis using Cons cb [OF fn [of ps b]] by simp
      qed (simp_all add: Cons)
    qed simp
    have "call_flows walk T callee as rb tv = call_flows walk T' callee as rb tv"
      using ob by (cases callee) (simp_all add: call_flows_def Let_def any first)
    with CallExpression show ?thesis by (simp add: flows_step_def)
  next
    case (ObjectExpression ps)
    then have "Property k v \<in> set ps \<Longrightarrow> T v rb tv = T' v rb tv" for k v
      using assms size_mem_children(3) by simp
    then have "(\<exists>k v. Property k v \<in> set ps \<and> T v rb tv) = (\<exists>k v. Property k v \<in> set ps \<and> T' v rb tv)"
      by metis
    with ObjectExpression show ?thesis by (simp add: flows_step_def)
  next
    case (ArrayExpression es)
    then show ?thesis using assms size_mem_children(4) by (auto simp: flows_step_def)
  next
    case (TemplateLiteral es)
    then show ?thesis using assms size_mem_children(2) by (auto simp: flows_step_def)
  qed (use assms in \<open>auto simp: flows_step_def member_flows_def cb\<close>)
qed

lemma fuel_independent: "size n < fuel \<Longrightarrow> val (expr_tainted A walk fuel n rb) tv = taints A walk n rb tv"
proof (induction "size n" arbitrary: n fuel rb tv rule: less_induct)
  case less
  obtain g where g: "fuel = Suc g" using less.prems by (cases fuel) auto
  have a: "val (expr_tainted A walk (Suc h) n rb) tv = flows_step A walk (taints A walk) n rb tv"
    if "size n \<le> h" for h
  proof -
    have "val (expr_tainted A walk (Suc h) n rb) tv = flows_step A walk (vals (expr_tainted A walk h)) n rb tv"
      using that fuel_settles expr_step [of n A h rb tv] by simp
    also have "\<dots> = flows_step A walk (taints A walk) n rb tv"
      by (rule flows_step_cong) (use less.hyps that in auto)
    finally show ?thesis .
  qed
  have "taints A walk n rb tv = val (expr_tainted A walk (Suc (size n)) n rb) tv"
    using settles_run [OF fuel_settles [of n "Suc (size n)" A rb]] by (simp add: taints_def)
  with a [of "size n"] a [of g] less.prems g show ?case by simp
qed

lemma expr_tainted_run: "size n < fuel \<Longrightarrow> expr_tainted A walk fuel n rb tv = Some (taints A walk n rb tv, tv)"
  using settles_run [OF fuel_settles] fuel_independent by simp

lemma taints_step: "taints A walk n rb tv = flows_step A walk (taints A walk) n rb tv"
proof -
  have "flows_step A walk (vals (expr_tainted A walk (size n))) n rb tv = flows_step A walk (taints A walk) n rb tv"
    by (rule flows_step_cong) (simp add: fuel_independent)
  then show ?thesis
    using expr_step [of n A "size n" rb tv] fuel_settles fuel_independent [of n "Suc (size n)" A rb tv]
    by simp
qed

end

end
