(* ===== verification/Analyzer.thy ===== *)
theory Analyzer
  imports TaintFlow
begin

text \<open>
  The passes of \<open>TaintAnalyzer.analyze\<close> and \<open>extractQueriedFields\<close>
  (\<open>security/taint-analyzer.ts\<close>): record-bound variables, propagation through assignments,
  the check of the returned values, and the two guards for small data sets. The visitors of
  \<open>acorn-walk\<close> are folds over the list of visited nodes; the sets of names start empty.
\<close>

section \<open>Violations\<close>

record violation =
  v_reason :: string
  v_line :: "int option"
  v_operation :: "string option"

definition quoted :: "string \<Rightarrow> string" where
  "quoted s = CHR 0x27 # s @ [CHR 0x27]"

section \<open>Pass 1: variables bound to a record\<close>

definition add_identifier :: "node \<Rightarrow> string set \<Rightarrow> string set" where
  "add_identifier p rb = (case p of Identifier x \<Rightarrow> insert x rb | _ \<Rightarrow> rb)"

definition bind_callback :: "string option \<Rightarrow> node list \<Rightarrow> string set \<Rightarrow> string set" where
  "bind_callback methodName ps rb =
     (let rb1 = (if name_in methodName array_callback_methods \<and> 0 < length ps
                 then add_identifier (ps ! 0) rb else rb)
      in if name_in methodName reduce_methods \<and> 1 < length ps
         then add_identifier (ps ! 1) rb1 else rb1)"

definition declarator_id :: "node \<Rightarrow> node option" where
  "declarator_id d = (case d of VariableDeclarator i e \<Rightarrow> Some i | _ \<Rightarrow> None)"

definition visit_binding :: "node \<Rightarrow> string set \<Rightarrow> string set" where
  "visit_binding n rb =
     (case n of
        CallExpression (MemberExpression ob pr computed) as \<Rightarrow>
          (let methodName = get_property_name pr computed in
           if truthy_name methodName \<and> is_env_records_access ob then
             (case as of
                ArrowFunctionExpression ps b # _ \<Rightarrow> bind_callback methodName ps rb
              | FunctionExpression ps b # _ \<Rightarrow> bind_callback methodName ps rb
              | _ \<Rightarrow> rb)
           else rb)
      | ForOfStatement l r b \<Rightarrow>
          (if is_env_records_access r then
             (case l of
                VariableDeclaration ds \<Rightarrow> fold add_identifier (List.map_filter declarator_id ds) rb
              | _ \<Rightarrow> rb)
           else rb)
      | _ \<Rightarrow> rb)"

definition visit_index :: "node \<Rightarrow> string set \<Rightarrow> string set" where
  "visit_index n rb =
     (case n of
        VariableDeclarator (Identifier x) (Some (MemberExpression ob pr computed)) \<Rightarrow>
          (if computed \<and> is_env_records_access ob then insert x rb else rb)
      | _ \<Rightarrow> rb)"

definition identify_record_bound_vars :: "walker \<Rightarrow> node \<Rightarrow> string set" where
  "identify_record_bound_vars walk ast = fold visit_index (walk ast) (fold visit_binding (walk ast) {})"

section \<open>Pass 2: propagation\<close>

definition eval_expr :: "analyzer \<Rightarrow> walker \<Rightarrow> node \<Rightarrow> string set \<Rightarrow> string set \<Rightarrow> bool \<times> string set" where
  "eval_expr A walk e rb tv =
     (case expr_tainted A walk (Suc (size e)) e rb tv of None \<Rightarrow> (False, tv) | Some r \<Rightarrow> r)"

definition eval_declaration ::
    "analyzer \<Rightarrow> walker \<Rightarrow> node list \<Rightarrow> node \<Rightarrow> string set \<Rightarrow> string set \<Rightarrow> bool \<times> string set" where
  "eval_declaration A walk ps body rb tv =
     (case callback_tainted walk (expr_tainted A walk (Suc (size body))) False ps body None rb tv of
        None \<Rightarrow> (False, tv) | Some r \<Rightarrow> r)"

definition mark :: "string \<Rightarrow> bool \<times> string set \<Rightarrow> string set" where
  "mark x r = (if fst r then insert x (snd r) else snd r)"

text \<open>\<open>some\<close> over the arguments of a call, with the set threaded.\<close>

fun eval_some :: "analyzer \<Rightarrow> walker \<Rightarrow> node list \<Rightarrow> string set \<Rightarrow> string set \<Rightarrow> bool \<times> string set" where
  "eval_some A walk [] rb tv = (False, tv)"
| "eval_some A walk (a # as) rb tv =
     (case eval_expr A walk a rb tv of (t, tv') \<Rightarrow> if t then (True, tv') else eval_some A walk as rb tv')"

definition visit_taint :: "analyzer \<Rightarrow> walker \<Rightarrow> string set \<Rightarrow> node \<Rightarrow> string set \<Rightarrow> string set" where
  "visit_taint A walk rb n tv =
     (case n of
        VariableDeclarator (Identifier x) (Some e) \<Rightarrow> mark x (eval_expr A walk e rb tv)
      | AssignmentExpression (Identifier x) r \<Rightarrow> mark x (eval_expr A walk r rb tv)
      | FunctionDeclaration (Some (Identifier f)) ps b \<Rightarrow> mark f (eval_declaration A walk ps b rb tv)
      | CallExpression (MemberExpression (Identifier x) pr computed) as \<Rightarrow>
          (if get_property_name pr computed = Some ''push'' then mark x (eval_some A walk as rb tv) else tv)
      | _ \<Rightarrow> tv)"

definition taint_round :: "analyzer \<Rightarrow> walker \<Rightarrow> node \<Rightarrow> string set \<Rightarrow> string set \<Rightarrow> string set" where
  "taint_round A walk ast rb tv = fold (visit_taint A walk rb) (walk ast) tv"

text \<open>At most three rounds; a round that adds no name ends the loop.\<close>

fun propagate_rounds :: "nat \<Rightarrow> analyzer \<Rightarrow> walker \<Rightarrow> node \<Rightarrow> string set \<Rightarrow> string set \<Rightarrow> string set" where
  "propagate_rounds 0 A walk ast rb tv = tv"
| "propagate_rounds (Suc k) A walk ast rb tv =
     (let tv' = taint_round A walk ast rb tv in
      if card tv' = card tv then tv' else propagate_rounds k A walk ast rb tv')"

definition propagate_taint :: "analyzer \<Rightarrow> walker \<Rightarrow> node \<Rightarrow> string set \<Rightarrow> string set" where
  "propagate_taint A walk ast rb = propagate_rounds 3 A walk ast rb {}"

section \<open>Pass 3: returned values\<close>

fun first_tainted_property ::
    "analyzer \<Rightarrow> walker \<Rightarrow> node list \<Rightarrow> string set \<Rightarrow> string set \<Rightarrow> string option" where
  "first_tainted_property A walk [] rb tv = None"
| "first_tainted_property A walk (p # ps) rb tv =
     (case p of
        Property k v \<Rightarrow>
          (case eval_expr A walk v rb tv of
             (t, tv') \<Rightarrow>
               if t then Some (''property '' @
                   quoted (case k of Identifier x \<Rightarrow> x | _ \<Rightarrow> ''unknown'') @
                   '' contains PII-derived value'')
               else first_tainted_property A walk ps rb tv')
      | _ \<Rightarrow> first_tainted_property A walk ps rb tv)"

definition describe_taint_source ::
    "analyzer \<Rightarrow> walker \<Rightarrow> node \<Rightarrow> string set \<Rightarrow> string set \<Rightarrow> string option" where
  "describe_taint_source A walk n rb tv =
     (case n of
        Identifier x \<Rightarrow> if x \<in> tv then Some (''variable '' @ quoted x @ '' is PII-derived'') else None
      | ObjectExpression ps \<Rightarrow> first_tainted_property A walk ps rb tv
      | CallExpression (MemberExpression ob pr computed) as \<Rightarrow>
          (let methodName = get_property_name pr computed in
           if truthy_name methodName
           then Some (''result of .'' @ the methodName @ ''() on PII data'') else None)
      | _ \<Rightarrow> None)"

definition return_violation :: "string option \<Rightarrow> nat \<Rightarrow> violation" where
  "return_violation operation line =
     \<lparr>v_reason = ''PII side-channel detected: output contains values derived from restricted fields. '' @
        (case operation of None \<Rightarrow> [] | Some s \<Rightarrow> if s = [] then [] else ''Operation: '' @ s @ ''. '') @
        ''Use only non-PII fields (e.g., numeric/date columns) for aggregations.'',
      v_line = (if line = 0 then None else Some (int line - 1)),
      v_operation = operation\<rparr>"

definition visit_return :: "analyzer \<Rightarrow> walker \<Rightarrow> string set \<Rightarrow> node \<Rightarrow>
    violation option \<times> string set \<Rightarrow> violation option \<times> string set" where
  "visit_return A walk rb n st =
     (case st of
        (Some v, tv) \<Rightarrow> st
      | (None, tv) \<Rightarrow>
          (case n of
             ReturnStatement (Some a) line \<Rightarrow>
               (case eval_expr A walk a rb tv of
                  (t, tv') \<Rightarrow>
                    if t then (Some (return_violation (describe_taint_source A walk a rb tv') line), tv')
                    else (None, tv'))
           | _ \<Rightarrow> st))"

definition check_return_statements ::
    "analyzer \<Rightarrow> walker \<Rightarrow> node \<Rightarrow> string set \<Rightarrow> string set \<Rightarrow> violation option" where
  "check_return_statements A walk ast rb tv = fst (fold (visit_return A walk rb) (walk ast) (None, tv))"

section \<open>Pass 4: correlated aggregations\<close>

definition extract_fields_from_body :: "walker \<Rightarrow> node \<Rightarrow> string \<Rightarrow> string list" where
  "extract_fields_from_body walk body paramName =
     List.map_filter (\<lambda>n. case n of
         MemberExpression ob pr computed \<Rightarrow>
           (let p = get_property_name pr computed in
            if ob = Identifier paramName \<and> truthy_name p \<and> p \<noteq> Some ''length'' then p else None)
       | _ \<Rightarrow> None) (walk body)"

definition aggregation_fields :: "walker \<Rightarrow> node \<Rightarrow> string list" where
  "aggregation_fields walk n =
     (case n of
        CallExpression (MemberExpression ob pr computed) as \<Rightarrow>
          (if name_in (get_property_name pr computed) reduce_methods \<and> is_env_records_chain ob then
             (let from_fn = (\<lambda>ps b.
                case (if 1 < length ps then Some (ps ! 1) else if 0 < length ps then Some (ps ! 0) else None) of
                  Some (Identifier x) \<Rightarrow> extract_fields_from_body walk b x
                | _ \<Rightarrow> [])
              in case as of
                   ArrowFunctionExpression ps b # _ \<Rightarrow> from_fn ps b
                 | FunctionExpression ps b # _ \<Rightarrow> from_fn ps b
                 | _ \<Rightarrow> [])
           else [])
      | _ \<Rightarrow> [])"

definition count_field :: "string \<Rightarrow> (string \<times> nat) list \<Rightarrow> (string \<times> nat) list" where
  "count_field f m = AList.update f ((case map_of m f of None \<Rightarrow> 0 | Some c \<Rightarrow> c) + 1) m"

definition field_aggregation_counts :: "walker \<Rightarrow> node \<Rightarrow> (string \<times> nat) list" where
  "field_aggregation_counts walk ast = fold count_field (concat (map (aggregation_fields walk) (walk ast))) []"

definition detect_correlated_aggregations :: "walker \<Rightarrow> node \<Rightarrow> violation option" where
  "detect_correlated_aggregations walk ast =
     (case find (\<lambda>(f, c). 2 \<le> c) (field_aggregation_counts walk ast) of
        None \<Rightarrow> None
      | Some (f, c) \<Rightarrow> Some
          \<lparr>v_reason = ''Correlation guard: '' @ nat_str c @ '' aggregations detected on field '' @ quoted f @ ''. '' @
             ''Multiple correlated aggregations on the same field can enable differencing attacks. '' @
             ''Use a single aggregation per numeric field, or increase dataset size above 50 records.'',
           v_line = None, v_operation = None\<rparr>)"

section \<open>Pass 5: minimum and maximum\<close>

definition min_max_call :: "node \<Rightarrow> string option" where
  "min_max_call n =
     (case n of
        CallExpression (MemberExpression (Identifier x) pr computed) as \<Rightarrow>
          (if x = ''Math'' \<and> get_property_name pr computed \<in> {Some ''min'', Some ''max''} \<and>
              (\<exists>a\<in>set as. case a of SpreadElement e \<Rightarrow> is_records_map_call e | _ \<Rightarrow> False)
           then Some (''Min/Max gate: Math.'' @ the (get_property_name pr computed) @
             ''() on individual records blocked for small datasets (n < 50). '' @
             ''Use avg/stddev/count for privacy-safe aggregations.'')
           else None)
      | MemberExpression (CallExpression (MemberExpression target pr' computed') as) pr computed \<Rightarrow>
          (if computed \<and> get_property_name pr' computed' \<in> {Some ''sort'', Some ''toSorted''} \<and>
              is_env_records_chain target
           then Some (''Min/Max gate: .sort()[index] on individual records blocked for small datasets (n < 50). '' @
             ''Use avg/stddev/count for privacy-safe aggregations.'')
           else None)
      | _ \<Rightarrow> None)"

definition detect_min_max_extraction :: "walker \<Rightarrow> node \<Rightarrow> violation option" where
  "detect_min_max_extraction walk ast =
     (case List.map_filter min_max_call (walk ast) of
        [] \<Rightarrow> None
      | r # _ \<Rightarrow> Some \<lparr>v_reason = r, v_line = None, v_operation = None\<rparr>)"

section \<open>The analysis\<close>

definition with_threshold :: "int \<Rightarrow> violation \<Rightarrow> violation" where
  "with_threshold threshold v =
     v\<lparr>v_reason := js_replace_first (v_reason v) ''50 records'' (int_str threshold @ '' records'')\<rparr>"

definition wrap_source :: "string \<Rightarrow> string \<Rightarrow> string" where
  "wrap_source name src = ''function '' @ name @ ''(env) {'' @ [CHR 0x0A] @ src @ [CHR 0x0A] @ ''}''"

definition small_dataset :: "int option \<Rightarrow> int \<Rightarrow> bool" where
  "small_dataset recordCount threshold \<longleftrightarrow>
     (case recordCount of None \<Rightarrow> False | Some n \<Rightarrow> 0 < n \<and> n < threshold)"

definition analyze :: "analyzer \<Rightarrow> parser \<Rightarrow> walker \<Rightarrow> string \<Rightarrow> int option \<Rightarrow> int \<Rightarrow> violation option" where
  "analyze A parse walk sourceCode recordCount minMaxBlockThreshold =
     (case parse (wrap_source ''liop_analysis_wrapper'' sourceCode) of
        None \<Rightarrow> None
      | Some ast \<Rightarrow>
          (let rb = identify_record_bound_vars walk ast;
               tv = propagate_taint A walk ast rb
           in case check_return_statements A walk ast rb tv of
                Some v \<Rightarrow> Some v
              | None \<Rightarrow>
                  if small_dataset recordCount minMaxBlockThreshold then
                    (case detect_correlated_aggregations walk ast of
                       Some v \<Rightarrow> Some (with_threshold minMaxBlockThreshold v)
                     | None \<Rightarrow> map_option (with_threshold minMaxBlockThreshold)
                                 (detect_min_max_extraction walk ast))
                  else None))"

text \<open>A JavaScript \<open>Set\<close> keeps insertion order.\<close>

definition set_add :: "'a \<Rightarrow> 'a list \<Rightarrow> 'a list" where
  "set_add x xs = (if x \<in> set xs then xs else xs @ [x])"

definition visit_field :: "string set \<Rightarrow> node \<Rightarrow> string list \<Rightarrow> string list" where
  "visit_field rb n fs =
     (case n of
        MemberExpression ob pr computed \<Rightarrow>
          (let p = get_property_name pr computed in
           if truthy_name p \<and> p \<noteq> Some ''length'' \<and> (is_record_var ob rb \<or> is_indexed_record ob)
           then set_add (the p) fs else fs)
      | _ \<Rightarrow> fs)"

definition extract_queried_fields :: "parser \<Rightarrow> walker \<Rightarrow> string \<Rightarrow> string list" where
  "extract_queried_fields parse walk sourceCode =
     (case parse (wrap_source ''w'' sourceCode) of
        None \<Rightarrow> []
      | Some ast \<Rightarrow> fold (visit_field (identify_record_bound_vars walk ast)) (walk ast) [])"

end
