(* ===== verification/TaintProps.thy ===== *)
theory TaintProps
  imports Analyzer
begin

text \<open>
  What the taint analysis guarantees, and where it does not look. The first group states the
  behaviour of \<open>isExpressionTainted\<close> for every walker that satisfies \<^const>\<open>ast_walk\<close>; the
  second its security meaning on the expressions it covers, a non-interference theorem over an
  arbitrary evaluation; the third the programs that pass although they return a forbidden field.
\<close>

declare expr_tainted.simps [simp del]

section \<open>Monotonicity\<close>

lemma scoped_record_vars_mono: "rb \<subseteq> rb' \<Longrightarrow> scoped_record_vars ps mn rb \<subseteq> scoped_record_vars ps mn rb'"
  by (auto simp: scoped_record_vars_def Let_def split: node.split)

context ast_walk
begin

lemma flows_step_mono:
  assumes T: "\<And>k rb tv rb' tv'. size k < size n \<Longrightarrow> rb \<subseteq> rb' \<Longrightarrow> tv \<subseteq> tv' \<Longrightarrow> T k rb tv \<Longrightarrow> T k rb' tv'"
    and rb: "rb \<subseteq> rb'" and tv: "tv \<subseteq> tv'" and flow: "flows_step A walk T n rb tv"
  shows "flows_step A walk T n rb' tv'"
proof -
  have cb: "callback_flows walk T arrow ps b mn rb tv \<Longrightarrow> callback_flows walk T arrow ps b mn rb' tv'"
    if "size b < size n" for arrow ps b mn
    using T [OF _ scoped_record_vars_mono [OF rb, of ps mn] tv] that sink_in_walk [of _ b]
    by (auto simp: callback_flows_def Let_def split: if_splits) (meson order.strict_trans)+
  have rv: "is_record_var ob rb \<Longrightarrow> is_record_var ob rb'" for ob
    using rb by (auto simp: is_record_var_def split: node.split)
  show ?thesis
  proof (cases n)
    case (Identifier x)
    with flow tv show ?thesis by (auto simp: flows_step_def)
  next
    case (MemberExpression ob pr c)
    with flow T [OF _ rb tv, of ob] rv [of ob] show ?thesis
      by (auto simp: flows_step_def member_flows_def)
  next
    case (CallExpression callee as)
    have arg: "a \<in> set as \<Longrightarrow> T a rb tv \<Longrightarrow> T a rb' tv'" for a
      using T [OF _ rb tv] CallExpression size_mem_children(1) by simp
    have fn: "ArrowFunctionExpression ps b \<in> set as \<or> FunctionExpression ps b \<in> set as \<Longrightarrow> size b < size n" for ps b
      using CallExpression size_mem_children(1) [of "ArrowFunctionExpression ps b" as callee]
        size_mem_children(1) [of "FunctionExpression ps b" as callee] by auto
    have "call_flows walk T callee as rb' tv'"
    proof (cases callee)
      case (Identifier f)
      with flow CallExpression arg tv show ?thesis by (auto simp: flows_step_def call_flows_def)
    next
      case (MemberExpression ob pr c)
      have ob: "T ob rb tv \<Longrightarrow> T ob rb' tv'"
        using T [OF _ rb tv] CallExpression MemberExpression by simp
      have any: "T ob rb tv \<or> (\<exists>a\<in>set as. T a rb tv) \<Longrightarrow> T ob rb' tv' \<or> (\<exists>a\<in>set as. T a rb' tv')"
        using ob arg by auto
      show ?thesis
      proof (cases as)
        case Nil
        then show ?thesis using flow CallExpression MemberExpression ob
          by (auto simp: flows_step_def call_flows_def Let_def split: if_splits)
      next
        case (Cons a list)
        have fa: "a = ArrowFunctionExpression ps b \<or> a = FunctionExpression ps b \<Longrightarrow> size b < size n" for ps b
          using fn [of ps b] Cons by auto
        have "call_flows walk T (MemberExpression ob pr c) as rb tv"
          using flow CallExpression MemberExpression by (simp add: flows_step_def)
        then have "call_flows walk T (MemberExpression ob pr c) as rb' tv'"
          using ob any Cons cb fa by (cases a) (auto simp: call_flows_def Let_def split: if_splits)
        with MemberExpression show ?thesis by simp
      qed
    qed (use flow CallExpression in \<open>auto simp: flows_step_def call_flows_def\<close>)
    with CallExpression show ?thesis by (simp add: flows_step_def)
  next
    case (ObjectExpression ps)
    then have "Property k v \<in> set ps \<Longrightarrow> T v rb tv \<Longrightarrow> T v rb' tv'" for k v
      using T [OF _ rb tv] size_mem_children(3) by simp
    with flow ObjectExpression show ?thesis by (auto simp: flows_step_def)
  next
    case (ArrayExpression es)
    then have "Some e \<in> set es \<Longrightarrow> T e rb tv \<Longrightarrow> T e rb' tv'" for e
      using T [OF _ rb tv] size_mem_children(4) by simp
    with flow ArrayExpression show ?thesis by (auto simp: flows_step_def)
  next
    case (TemplateLiteral es)
    then show ?thesis using flow T [OF _ rb tv] size_mem_children(2) by (auto simp: flows_step_def)
  qed (use flow T [OF _ rb tv] cb in \<open>auto simp: flows_step_def\<close>)
qed

lemma taints_monotone:
  "rb \<subseteq> rb' \<Longrightarrow> tv \<subseteq> tv' \<Longrightarrow> taints A walk n rb tv \<Longrightarrow> taints A walk n rb' tv'"
proof (induction "size n" arbitrary: n rb tv rb' tv' rule: less_induct)
  case less
  then show ?case
    using flows_step_mono [of n "taints A walk" rb rb' tv tv' A] taints_step by metis
qed

end


section \<open>Non-interference on the covered expressions\<close>

text \<open>
  The specification side: an evaluation of expressions in which a record variable \<open>r\<close> is only
  ever read by a static field (\<open>recs r f\<close>), any other variable has the value \<open>env x\<close>, and every
  other expression combines the values of its parts by an arbitrary function of the expression
  and those values. \<open>covered\<close> says which expressions this evaluation describes.
\<close>

fun covered :: "string set \<Rightarrow> node \<Rightarrow> bool" where
  "covered rb (Identifier x) = (x \<notin> rb)"
| "covered rb (Literal v) = True"
| "covered rb (MemberExpression ob pr c) =
     (truthy_name (get_property_name pr c) \<and> \<not> is_env_records_access ob \<and>
      (is_record_var ob rb \<or> covered rb ob))"
| "covered rb (CallExpression (Identifier f) as) =
     (f \<notin> rb \<and> f \<notin> set safe_globals \<and> (\<forall>a\<in>set as. covered rb a))"
| "covered rb (CallExpression (MemberExpression ob pr c) as) =
     (truthy_name (get_property_name pr c) \<and> \<not> is_env_records_access ob \<and> covered rb ob \<and>
      (\<forall>a\<in>set as. covered rb a))"
| "covered rb (BinaryExpression oper l r) = (covered rb l \<and> covered rb r)"
| "covered rb (LogicalExpression oper l r) = (covered rb l \<and> covered rb r)"
| "covered rb (UnaryExpression oper e) = covered rb e"
| "covered rb (ConditionalExpression t c a) = (covered rb t \<and> covered rb c \<and> covered rb a)"
| "covered rb (TemplateLiteral es) = (\<forall>e\<in>set es. covered rb e)"
| "covered rb _ = False"

fun evaluate :: "(node \<Rightarrow> 'v list \<Rightarrow> 'v) \<Rightarrow> (string \<Rightarrow> 'v) \<Rightarrow> (string \<Rightarrow> string \<Rightarrow> 'v) \<Rightarrow>
    string set \<Rightarrow> node \<Rightarrow> 'v" where
  "evaluate build env recs rb (Identifier x) = env x"
| "evaluate build env recs rb (MemberExpression ob pr c) =
     (case ob of
        Identifier r \<Rightarrow>
          if r \<in> rb then recs r (the (get_property_name pr c))
          else build (MemberExpression ob pr c) [evaluate build env recs rb ob]
      | _ \<Rightarrow> build (MemberExpression ob pr c) [evaluate build env recs rb ob])"
| "evaluate build env recs rb (CallExpression (Identifier f) as) =
     build (CallExpression (Identifier f) as) (env f # map (evaluate build env recs rb) as)"
| "evaluate build env recs rb (CallExpression (MemberExpression ob pr c) as) =
     build (CallExpression (MemberExpression ob pr c) as)
       (evaluate build env recs rb ob # map (evaluate build env recs rb) as)"
| "evaluate build env recs rb (BinaryExpression oper l r) =
     build (BinaryExpression oper l r) [evaluate build env recs rb l, evaluate build env recs rb r]"
| "evaluate build env recs rb (LogicalExpression oper l r) =
     build (LogicalExpression oper l r) [evaluate build env recs rb l, evaluate build env recs rb r]"
| "evaluate build env recs rb (UnaryExpression oper e) =
     build (UnaryExpression oper e) [evaluate build env recs rb e]"
| "evaluate build env recs rb (ConditionalExpression t c a) =
     build (ConditionalExpression t c a)
       [evaluate build env recs rb t, evaluate build env recs rb c, evaluate build env recs rb a]"
| "evaluate build env recs rb (TemplateLiteral es) =
     build (TemplateLiteral es) (map (evaluate build env recs rb) es)"
| "evaluate build env recs rb n = build n []"

text \<open>Two situations that agree on everything public: on the variables that are not tainted and on
  the fields of the records that are not forbidden.\<close>

definition public_equal :: "analyzer \<Rightarrow> string set \<Rightarrow> string set \<Rightarrow>
    (string \<Rightarrow> 'v) \<Rightarrow> (string \<Rightarrow> string \<Rightarrow> 'v) \<Rightarrow> (string \<Rightarrow> 'v) \<Rightarrow> (string \<Rightarrow> string \<Rightarrow> 'v) \<Rightarrow> bool" where
  "public_equal A rb tv env recs env' recs' \<longleftrightarrow>
     (\<forall>x. x \<notin> tv \<longrightarrow> env x = env' x) \<and> (\<forall>r\<in>rb. \<forall>f. \<not> is_pii A f \<longrightarrow> recs r f = recs' r f)"

context ast_walk
begin

lemma untainted_public:
  "covered rb n \<Longrightarrow> \<not> taints A walk n rb tv \<Longrightarrow> public_equal A rb tv env recs env' recs' \<Longrightarrow>
    evaluate build env recs rb n = evaluate build env' recs' rb n"
proof (induction rb n rule: covered.induct)
  case (1 rb x)
  then show ?case
    using taints_step [of A "Identifier x" rb tv] by (auto simp: flows_step_def public_equal_def)
next
  case (3 rb ob pr c)
  have nt: "\<not> member_flows A (taints A walk) ob pr c rb tv"
    using "3.prems"(2) taints_step [of A "MemberExpression ob pr c" rb tv] by (simp add: flows_step_def)
  show ?case
  proof (cases "is_record_var ob rb")
    case True
    then obtain r where r: "ob = Identifier r" "r \<in> rb"
      by (auto simp: is_record_var_def split: node.splits)
    have "\<not> is_pii A (the (get_property_name pr c))"
      using nt True "3.prems"(1) by (auto simp: member_flows_def)
    with "3.prems"(3) r show ?thesis
      by (auto simp: public_equal_def)
  next
    case False
    with "3.prems" nt have "covered rb ob" "\<not> taints A walk ob rb tv"
      by (auto simp: member_flows_def)
    with "3.IH" "3.prems"(3) False have eq: "evaluate build env recs rb ob = evaluate build env' recs' rb ob"
      by auto
    show ?thesis
    proof (cases ob)
      case (Identifier r)
      with False have "r \<notin> rb" by (simp add: is_record_var_def)
      with Identifier eq show ?thesis by simp
    qed (use eq in auto)
  qed
next
  case (4 rb f as)
  have nt: "\<not> call_flows walk (taints A walk) (Identifier f) as rb tv"
    using "4.prems"(2) taints_step [of A "CallExpression (Identifier f) as" rb tv] by (simp add: flows_step_def)
  with "4.prems"(1) have "f \<notin> tv" "\<forall>a\<in>set as. \<not> taints A walk a rb tv"
    by (auto simp: call_flows_def)
  with "4.IH" "4.prems"(1,3) show ?case
    by (auto simp: public_equal_def intro!: arg_cong [where f = "build _"])
next
  case (5 rb ob pr c as)
  have nt: "\<not> call_flows walk (taints A walk) (MemberExpression ob pr c) as rb tv"
    using "5.prems"(2) taints_step [of A "CallExpression (MemberExpression ob pr c) as" rb tv]
    by (simp add: flows_step_def)
  with "5.prems"(1) have "\<not> taints A walk ob rb tv" "\<forall>a\<in>set as. \<not> taints A walk a rb tv"
    by (auto simp: call_flows_def Let_def)
  with "5.IH" "5.prems"(1,3) show ?case
    by (auto intro!: arg_cong [where f = "build _"])
next
  case (6 rb oper l r)
  then show ?case using taints_step [of A "BinaryExpression oper l r" rb tv] by (auto simp: flows_step_def)
next
  case (7 rb oper l r)
  then show ?case using taints_step [of A "LogicalExpression oper l r" rb tv] by (auto simp: flows_step_def)
next
  case (8 rb oper e)
  then show ?case using taints_step [of A "UnaryExpression oper e" rb tv] by (auto simp: flows_step_def)
next
  case (9 rb t c a)
  then show ?case using taints_step [of A "ConditionalExpression t c a" rb tv] by (auto simp: flows_step_def)
next
  case (10 rb es)
  then have "\<forall>e\<in>set es. \<not> taints A walk e rb tv"
    using taints_step [of A "TemplateLiteral es" rb tv] by (auto simp: flows_step_def)
  with 10 show ?case by (auto intro!: arg_cong [where f = "build _"])
qed simp_all

end


section \<open>Example programs\<close>

definition env_records :: node where
  "env_records = MemberExpression (Identifier ''env'') (Identifier ''records'') False"

definition method_call :: "node \<Rightarrow> string \<Rightarrow> node list \<Rightarrow> node" where
  "method_call ob m as = CallExpression (MemberExpression ob (Identifier m) False) as"

definition field_of :: "string \<Rightarrow> string \<Rightarrow> node" where
  "field_of r f = MemberExpression (Identifier r) (Identifier f) False"

definition program :: "node list \<Rightarrow> node" where
  "program ss = OtherNode ''Program''
     [FunctionDeclaration (Some (Identifier ''liop_analysis_wrapper'')) [Identifier ''env''] (BlockStatement ss)]"

definition const_decl :: "string \<Rightarrow> node \<Rightarrow> node" where
  "const_decl x e = VariableDeclaration [VariableDeclarator (Identifier x) (Some e)]"

definition expr_stmt :: "node \<Rightarrow> node" where
  "expr_stmt e = OtherNode ''ExpressionStatement'' [e]"

definition ssn_analyzer :: analyzer where
  "ssn_analyzer = new_analyzer [''SSN''] []"

lemmas example_defs = env_records_def method_call_def field_of_def program_def const_decl_def
  expr_stmt_def

text \<open>Evaluation rules: the walk, and the taint relation of the documented walker.\<close>

lemma walk_post_eqs:
  "walk_post (Identifier x) = [Identifier x]"
  "walk_post (Literal v) = [Literal v]"
  "walk_post (MemberExpression ob pr c) = walk_post ob @ walk_post pr @ [MemberExpression ob pr c]"
  "walk_post (CallExpression f as) = walk_post f @ concat (map walk_post as) @ [CallExpression f as]"
  "walk_post (ArrowFunctionExpression ps b) = concat (map walk_post ps) @ walk_post b @ [ArrowFunctionExpression ps b]"
  "walk_post (FunctionDeclaration (Some i) ps b) =
     walk_post i @ concat (map walk_post ps) @ walk_post b @ [FunctionDeclaration (Some i) ps b]"
  "walk_post (BinaryExpression oper l r) = walk_post l @ walk_post r @ [BinaryExpression oper l r]"
  "walk_post (ReturnStatement (Some e) line) = walk_post e @ [ReturnStatement (Some e) line]"
  "walk_post (VariableDeclaration ds) = concat (map walk_post ds) @ [VariableDeclaration ds]"
  "walk_post (VariableDeclarator i (Some e)) = walk_post i @ walk_post e @ [VariableDeclarator i (Some e)]"
  "walk_post (AssignmentExpression l r) = walk_post l @ walk_post r @ [AssignmentExpression l r]"
  "walk_post (BlockStatement ss) = concat (map walk_post ss) @ [BlockStatement ss]"
  "walk_post (OtherNode t cs) = concat (map walk_post cs) @ [OtherNode t cs]"
  by (subst walk_post.simps; simp)+

context ast_walk
begin

lemma eval_expr_run: "eval_expr A walk e rb tv = (taints A walk e rb tv, tv)"
  by (simp add: eval_expr_def expr_tainted_run)

lemma eval_some_run: "eval_some A walk as rb tv = ((\<exists>a\<in>set as. taints A walk a rb tv), tv)"
  by (induction as) (auto simp: eval_expr_run)

lemma eval_declaration_run:
  "eval_declaration A walk ps b rb tv = (callback_flows walk (taints A walk) False ps b None rb tv, tv)"
proof -
  let ?ev = "expr_tainted A walk (Suc (size b))"
  have "callback_settles walk ?ev False b"
    using fuel_settles less_SucI [OF sink_in_walk] by (auto simp: callback_settles_def)
  note run = callback_flows_run(1) [OF this, of ps None rb] callback_flows_run(2) [OF this, of ps None rb tv]
  have "callback_tainted walk ?ev False ps b None rb tv =
      Some (callback_flows walk (vals ?ev) False ps b None rb tv, tv)"
    using settles_run [OF run(1), of tv] run(2) by simp
  moreover have "callback_flows walk (vals ?ev) False ps b None rb tv =
      callback_flows walk (taints A walk) False ps b None rb tv"
  proof -
    have "vals ?ev a rb' tv = taints A walk a rb' tv" if "m \<in> set (walk b)" "sink_arg m = Some a" for m a rb'
      using sink_in_walk [OF that] by (intro fuel_independent) simp
    then have "(\<exists>m\<in>set (walk b). \<exists>a. sink_arg m = Some a \<and> vals ?ev a rb' tv) =
        (\<exists>m\<in>set (walk b). \<exists>a. sink_arg m = Some a \<and> taints A walk a rb' tv)" for rb'
      by blast
    then show ?thesis by (simp add: callback_flows_def Let_def)
  qed
  ultimately show ?thesis by (simp add: eval_declaration_def)
qed

lemmas taints_eqs =
  taints_step [of A "Identifier x" for A x]
  taints_step [of A "Literal v" for A v]
  taints_step [of A "MemberExpression ob pr c" for A ob pr c]
  taints_step [of A "CallExpression f as" for A f as]
  taints_step [of A "ArrowFunctionExpression ps b" for A ps b]
  taints_step [of A "BinaryExpression oper l r" for A oper l r]
  taints_step [of A "AssignmentExpression l r" for A l r]
  taints_step [of A "OtherNode t cs" for A t cs]

end

lemmas flow_eqs =
  flows_step_def member_flows_def call_flows_def callback_flows_def scoped_record_vars_def
  is_record_var_def is_indexed_record_def truthy_name_def name_in_def is_pii_def sink_arg_def
  is_block_def taint_propagating_methods_def array_callback_methods_def reduce_methods_def
  safe_globals_def

lemma ssn_fields: "piiFields ssn_analyzer = [''ssn'']"
  by code_simp

lemma js_lower_ssn: "js_lower ''ssn'' = ''ssn''"
  by code_simp

lemma walk_post_eqs2:
  "walk_post (Property k v) = walk_post k @ walk_post v @ [Property k v]"
  "walk_post (VariableDeclarator i None) = walk_post i @ [VariableDeclarator i None]"
  "walk_post (ForOfStatement l r b) = walk_post l @ walk_post r @ walk_post b @ [ForOfStatement l r b]"
  by (subst walk_post.simps; simp)+

lemmas run_flow = walk_post_eqs2 walk_post_eqs post.taints_eqs flow_eqs [unfolded Let_def] ssn_fields js_lower_ssn
  post.eval_expr_run post.eval_some_run post.eval_declaration_run

lemmas run_bind = walk_post_eqs2 walk_post_eqs identify_record_bound_vars_def visit_binding_def [unfolded Let_def]
  visit_index_def bind_callback_def [unfolded Let_def] add_identifier_def declarator_id_def
  truthy_name_def name_in_def array_callback_methods_def reduce_methods_def List.map_filter_simps

lemma propagate_step:
  "taint_round A walk ast rb tv = tv' \<Longrightarrow> propagate_rounds (Suc k) A walk ast rb tv =
     (if card tv' = card tv then tv' else propagate_rounds k A walk ast rb tv')"
  by (simp add: Let_def)

text \<open>\<open>for (const r of env.records) { ... } return d;\<close>\<close>

definition for_records :: "string \<Rightarrow> node list \<Rightarrow> node" where
  "for_records r ss = ForOfStatement (VariableDeclaration [VariableDeclarator (Identifier r) None]) env_records
     (BlockStatement ss)"

definition assign :: "string \<Rightarrow> node \<Rightarrow> node" where
  "assign x e = expr_stmt (AssignmentExpression (Identifier x) e)"

definition ssn_map :: "node list \<Rightarrow> node \<Rightarrow> node" where
  "ssn_map ps b = program [ReturnStatement (Some (method_call env_records ''map'' [ArrowFunctionExpression ps b])) 2]"

definition analyze_ssn :: "node \<Rightarrow> violation option" where
  "analyze_ssn ast = analyze ssn_analyzer (\<lambda>_. Some ast) walk_post [] None 50"

text \<open>\<open>return env.records.map(r => r.ssn)\<close> and \<open>return env.records.map(r => parseInt(r.ssn))\<close>\<close>

definition prog_direct :: node where
  "prog_direct = ssn_map [Identifier ''r''] (field_of ''r'' ''ssn'')"

definition prog_parse_int :: node where
  "prog_parse_int = ssn_map [Identifier ''r'']
     (CallExpression (Identifier ''parseInt'') [field_of ''r'' ''ssn''])"

text \<open>\<open>return env.records.map(r => r?.ssn)\<close> and \<open>return env.records.map(({ssn}) => ssn)\<close>\<close>

definition prog_optional :: node where
  "prog_optional = ssn_map [Identifier ''r''] (OtherNode ''ChainExpression'' [field_of ''r'' ''ssn''])"

definition prog_destructured :: node where
  "prog_destructured = ssn_map
     [OtherNode ''ObjectPattern'' [Property (Identifier ''ssn'') (Identifier ''ssn'')]] (Identifier ''ssn'')"

text \<open>\<open>const x = env.records.slice(0).reduce((s, r) => s + r.ssn, ""); return x;\<close>\<close>

definition prog_slice_reduce :: node where
  "prog_slice_reduce = program
     [const_decl ''x'' (method_call (method_call env_records ''slice'' [Literal LitOther]) ''reduce''
        [ArrowFunctionExpression [Identifier ''s'', Identifier ''r'']
           (BinaryExpression ''+'' (Identifier ''s'') (field_of ''r'' ''ssn'')),
         Literal (LitString [])]),
      ReturnStatement (Some (Identifier ''x'')) 3]"

text \<open>\<open>for (const r of env.records) { d = c; c = b; b = a; a = r.ssn; } return d;\<close>\<close>

definition prog_reversed_chain :: node where
  "prog_reversed_chain = program
     [for_records ''r''
        [assign ''d'' (Identifier ''c''), assign ''c'' (Identifier ''b''), assign ''b'' (Identifier ''a''),
         assign ''a'' (field_of ''r'' ''ssn'')],
      ReturnStatement (Some (Identifier ''d'')) 3]"

text \<open>\<open>for (const r of env.records) { x = r.ssn; } return 0;\<close>\<close>

definition prog_assign :: node where
  "prog_assign = program
     [for_records ''r'' [assign ''x'' (field_of ''r'' ''ssn'')], ReturnStatement (Some (Literal LitOther)) 3]"

lemmas prog_defs = prog_assign_def analyze_ssn_def prog_direct_def prog_parse_int_def prog_optional_def
  prog_destructured_def prog_slice_reduce_def prog_reversed_chain_def ssn_map_def for_records_def
  assign_def

lemma binds_direct: "identify_record_bound_vars walk_post prog_direct = {''r''}"
  by (simp add: prog_defs example_defs run_bind)

lemma binds_parse_int: "identify_record_bound_vars walk_post prog_parse_int = {''r''}"
  by (simp add: prog_defs example_defs run_bind)

lemma binds_optional: "identify_record_bound_vars walk_post prog_optional = {''r''}"
  by (simp add: prog_defs example_defs run_bind)

lemma binds_destructured: "identify_record_bound_vars walk_post prog_destructured = {}"
  by (simp add: prog_defs example_defs run_bind)

lemma binds_slice_reduce: "identify_record_bound_vars walk_post prog_slice_reduce = {}"
  by (simp add: prog_defs example_defs run_bind)

lemma binds_reversed_chain: "identify_record_bound_vars walk_post prog_reversed_chain = {''r''}"
  by (simp add: prog_defs example_defs run_bind)


lemmas binds = binds_direct binds_parse_int binds_optional binds_destructured binds_slice_reduce
  binds_reversed_chain

lemmas run_round = propagate_taint_def taint_round_def visit_taint_def mark_def run_flow numeral_3_eq_3

lemma taints_direct: "propagate_taint ssn_analyzer walk_post prog_direct {''r''} = {''liop_analysis_wrapper''}"
  by (simp add: prog_defs example_defs run_round)

lemma taints_parse_int: "propagate_taint ssn_analyzer walk_post prog_parse_int {''r''} = {}"
  by (simp add: prog_defs example_defs run_round)

lemma taints_optional: "propagate_taint ssn_analyzer walk_post prog_optional {''r''} = {}"
  by (simp add: prog_defs example_defs run_round)

lemma taints_destructured: "propagate_taint ssn_analyzer walk_post prog_destructured {} = {}"
  by (simp add: prog_defs example_defs run_round)

lemma taints_slice_reduce: "propagate_taint ssn_analyzer walk_post prog_slice_reduce {} = {}"
  by (simp add: prog_defs example_defs run_round)

lemma taints_reversed_chain:
  "propagate_taint ssn_analyzer walk_post prog_reversed_chain {''r''} = {''a'', ''b'', ''c''}"
  by (simp add: prog_defs example_defs run_round Let_def card_insert_if) auto


lemma taints_assign: "propagate_taint ssn_analyzer walk_post prog_assign {''r''} = {''x''}"
  by (simp add: prog_defs example_defs run_round Let_def card_insert_if)

lemma analyze_ssn_eq: "analyze_ssn ast =
    check_return_statements ssn_analyzer walk_post ast (identify_record_bound_vars walk_post ast)
      (propagate_taint ssn_analyzer walk_post ast (identify_record_bound_vars walk_post ast))"
  by (simp add: analyze_ssn_def analyze_def Let_def small_dataset_def split: option.split)

lemmas run_returns = check_return_statements_def visit_return_def run_flow

lemma prog_direct_flagged: "analyze_ssn prog_direct \<noteq> None"
  unfolding analyze_ssn_eq binds taints_direct by (simp add: prog_defs example_defs run_returns)

lemma prog_parse_int_passes: "analyze_ssn prog_parse_int = None"
  unfolding analyze_ssn_eq binds taints_parse_int by (simp add: prog_defs example_defs run_returns)

lemma prog_optional_passes: "analyze_ssn prog_optional = None"
  unfolding analyze_ssn_eq binds taints_optional by (simp add: prog_defs example_defs run_returns)

lemma prog_destructured_passes: "analyze_ssn prog_destructured = None"
  unfolding analyze_ssn_eq binds taints_destructured by (simp add: prog_defs example_defs run_returns)

lemma prog_slice_reduce_passes: "analyze_ssn prog_slice_reduce = None"
  unfolding analyze_ssn_eq binds taints_slice_reduce by (simp add: prog_defs example_defs run_returns)

lemma prog_reversed_chain_passes: "analyze_ssn prog_reversed_chain = None"
  unfolding analyze_ssn_eq binds taints_reversed_chain by (simp add: prog_defs example_defs run_returns)

section \<open>The passes against the whole program\<close>

lemma fold_insert_mono:
  assumes "\<And>n s. s \<subseteq> f n s"
  shows "s \<subseteq> fold f ns s"
  using assms by (induction ns arbitrary: s) (simp, simp, blast)

context ast_walk
begin

lemma visit_taint_mono: "tv \<subseteq> visit_taint A walk rb n tv"
  by (auto simp: visit_taint_def mark_def eval_expr_run eval_some_run eval_declaration_run
      split: node.split option.split)

lemma taint_round_mono: "tv \<subseteq> taint_round A walk ast rb tv"
  unfolding taint_round_def by (rule fold_insert_mono) (rule visit_taint_mono)

lemma fold_fixpoint:
  assumes "\<And>n s. s \<subseteq> f n s" and "fold f ns s = s" and "n \<in> set ns"
  shows "f n s = s"
  using assms(2,3)
proof (induction ns arbitrary: s)
  case (Cons m ns)
  have "s \<subseteq> f m s" by (rule assms(1))
  moreover have "f m s \<subseteq> fold f ns (f m s)" by (rule fold_insert_mono) (rule assms(1))
  ultimately have m: "f m s = s" using Cons.prems(1) by simp
  with Cons show ?case by (cases "n = m") auto
qed simp

lemma visit_taint_finite: "finite tv \<Longrightarrow> finite (visit_taint A walk rb n tv)"
  by (auto simp: visit_taint_def mark_def eval_expr_run eval_some_run eval_declaration_run
      split: node.split option.split)

lemma taint_round_finite: "finite tv \<Longrightarrow> finite (taint_round A walk ast rb tv)"
proof -
  have "finite tv \<Longrightarrow> finite (fold (visit_taint A walk rb) ns tv)" for ns
    by (induction ns arbitrary: tv) (auto intro: visit_taint_finite)
  then show "finite tv \<Longrightarrow> finite (taint_round A walk ast rb tv)" by (simp add: taint_round_def)
qed

text \<open>When the loop ends with fewer names than rounds, its last round found nothing new.\<close>

lemma propagate_rounds_fixpoint:
  assumes "finite tv" and "card (propagate_rounds k A walk ast rb tv) < card tv + k"
  shows "taint_round A walk ast rb (propagate_rounds k A walk ast rb tv) =
    propagate_rounds k A walk ast rb tv"
  using assms
proof (induction k arbitrary: tv)
  case (Suc k)
  let ?tv' = "taint_round A walk ast rb tv"
  have fin: "finite ?tv'" using Suc.prems(1) by (rule taint_round_finite)
  have le: "card tv \<le> card ?tv'" using taint_round_mono fin by (rule card_mono [rotated])
  show ?case
  proof (cases "card ?tv' = card tv")
    case True
    then have "?tv' = tv" using card_subset_eq [OF fin taint_round_mono] by simp
    with True show ?thesis by (simp add: Let_def)
  next
    case False
    with le Suc.prems(2) have "card (propagate_rounds k A walk ast rb ?tv') < card ?tv' + k"
      by (simp add: Let_def)
    with Suc.IH [OF fin] False show ?thesis by (simp add: Let_def)
  qed
qed simp

end

end
