(* ===== verification/TaintClaims.thy ===== *)
theory TaintClaims
  imports TaintProps
begin

text \<open>The properties of the taint analysis, over the lemmas of \<open>TaintFlow\<close> and \<open>TaintProps\<close>.\<close>

section \<open>The verdict of the passes\<close>

context ast_walk
begin

lemma visit_return_keeps: "fold (visit_return A walk rb) ns (Some v, tv) = (Some v, tv)"
  by (induction ns) (simp_all add: visit_return_def)

lemma visit_return_clean_iff:
  "fst (fold (visit_return A walk rb) ns (None, tv)) = None \<longleftrightarrow>
     (\<forall>a l. ReturnStatement (Some a) l \<in> set ns \<longrightarrow> \<not> taints A walk a rb tv)"
proof (induction ns)
  case (Cons n ns)
  show ?case
  proof (cases "\<exists>a l. n = ReturnStatement (Some a) l \<and> taints A walk a rb tv")
    case True
    then obtain a l where n: "n = ReturnStatement (Some a) l" "taints A walk a rb tv" by blast
    then have "fst (fold (visit_return A walk rb) (n # ns) (None, tv)) \<noteq> None"
      by (simp add: visit_return_def eval_expr_run visit_return_keeps)
    with n show ?thesis by auto
  next
    case False
    then have "visit_return A walk rb n (None, tv) = (None, tv)"
      by (auto simp: visit_return_def eval_expr_run split: node.split option.split)
    with Cons False show ?thesis by auto
  qed
qed simp

lemma returns_clean_iff:
  "check_return_statements A walk ast rb tv = None \<longleftrightarrow>
     (\<forall>a l. subnode (ReturnStatement (Some a) l) ast \<longrightarrow> \<not> taints A walk a rb tv)"
  unfolding check_return_statements_def visit_return_clean_iff
  using walk_subnode walk_returns by blast

end

context ast_walk
begin

lemma propagate_closed:
  assumes "card (propagate_taint A walk ast rb) < 3" and "n \<in> set (walk ast)"
  shows "visit_taint A walk rb n (propagate_taint A walk ast rb) = propagate_taint A walk ast rb"
proof -
  let ?tv = "propagate_taint A walk ast rb"
  have "fold (visit_taint A walk rb) (walk ast) ?tv = ?tv"
    using propagate_rounds_fixpoint [of "{}" 3 A ast rb] assms(1)
    by (simp add: propagate_taint_def taint_round_def)
  from fold_fixpoint [of "visit_taint A walk rb", OF visit_taint_mono this assms(2)] show ?thesis .
qed

lemma declared_tainted:
  "visit_taint A walk rb (VariableDeclarator (Identifier x) (Some e)) tv = tv \<Longrightarrow>
   taints A walk e rb tv \<Longrightarrow> x \<in> tv"
  "visit_taint A walk rb (AssignmentExpression (Identifier x) e) tv = tv \<Longrightarrow>
   taints A walk e rb tv \<Longrightarrow> x \<in> tv"
  by (auto simp: visit_taint_def mark_def eval_expr_run)

end

lemma count_field_map_of: "map_of (count_field f m) g =
    (if g = f then Some ((case map_of m f of None \<Rightarrow> 0 | Some c \<Rightarrow> c) + 1) else map_of m g)"
  by (simp add: count_field_def)

definition count_in :: "(string \<times> nat) list \<Rightarrow> string \<Rightarrow> nat" where
  "count_in m f = (case map_of m f of None \<Rightarrow> 0 | Some c \<Rightarrow> c)"

lemma count_in_fold: "count_in (fold count_field fs m) g = count_list fs g + count_in m g"
proof (induction fs arbitrary: m)
  case (Cons f fs)
  then show ?case by (simp add: count_in_def count_field_map_of)
qed simp

lemma distinct_fold_count: "distinct (map fst m) \<Longrightarrow> distinct (map fst (fold count_field fs m))"
  by (induction fs arbitrary: m) (auto simp: count_field_def distinct_update)

text \<open>How often a field is aggregated in the program.\<close>

definition aggregations :: "walker \<Rightarrow> node \<Rightarrow> string \<Rightarrow> nat" where
  "aggregations walk ast f = count_list (concat (map (aggregation_fields walk) (walk ast))) f"

lemma correlated_clean_iff:
  "detect_correlated_aggregations walk ast = None \<longleftrightarrow> (\<forall>f. aggregations walk ast f < 2)"
proof -
  let ?m = "field_aggregation_counts walk ast"
  have d: "distinct (map fst ?m)"
    unfolding field_aggregation_counts_def by (rule distinct_fold_count) simp
  have cnt: "count_in ?m f = aggregations walk ast f" for f
    unfolding field_aggregation_counts_def aggregations_def count_in_fold by (simp add: count_in_def)
  have "detect_correlated_aggregations walk ast = None \<longleftrightarrow> (\<forall>p\<in>set ?m. \<not> 2 \<le> snd p)"
  proof -
    have "detect_correlated_aggregations walk ast = None \<longleftrightarrow> find (\<lambda>(f, c). 2 \<le> c) ?m = None"
      by (auto simp: detect_correlated_aggregations_def split: option.split)
    then show ?thesis by (auto simp: find_None_iff)
  qed
  also have "\<dots> \<longleftrightarrow> (\<forall>f. count_in ?m f < 2)"
  proof
    assume small: "\<forall>p\<in>set ?m. \<not> 2 \<le> snd p"
    show "\<forall>f. count_in ?m f < 2"
    proof
      fix f
      show "count_in ?m f < 2"
        using small by (cases "map_of ?m f") (force simp: count_in_def dest: map_of_SomeD)+
    qed
  next
    assume small: "\<forall>f. count_in ?m f < 2"
    show "\<forall>p\<in>set ?m. \<not> 2 \<le> snd p"
    proof
      fix p assume "p \<in> set ?m"
      then have "map_of ?m (fst p) = Some (snd p)" using d by (simp add: map_of_is_SomeI)
      with small [rule_format, of "fst p"] show "\<not> 2 \<le> snd p" by (simp add: count_in_def)
    qed
  qed
  finally show ?thesis by (simp add: cnt)
qed

lemma map_filter_Nil_iff: "List.map_filter f xs = [] \<longleftrightarrow> (\<forall>x\<in>set xs. f x = None)"
  by (induction xs) (auto simp: List.map_filter_simps split: option.split)

lemma min_max_clean_iff:
  "detect_min_max_extraction walk ast = None \<longleftrightarrow> (\<forall>n\<in>set (walk ast). min_max_call n = None)"
  unfolding map_filter_Nil_iff [symmetric] detect_min_max_extraction_def by (simp split: list.split)

section \<open>Properties\<close>

text \<open>\<open>isExpressionTainted\<close> always terminates with an answer once its fuel exceeds the size of
  the expression, the answer does not depend on the fuel and satisfies the state-free equations
  of \<open>flows_step\<close>, and it leaves \<open>taintedVars\<close> unchanged: the code that marks the receiver of a
  \<open>push\<close> inside it can never take effect.\<close>

theorem expression_taint_total:
  assumes "ast_walk walk" and "size n < fuel"
  shows "expr_tainted A walk fuel n rb tv = Some (taints A walk n rb tv, tv) \<and>
    taints A walk n rb tv = flows_step A walk (taints A walk) n rb tv"
  using ast_walk.expr_tainted_run [OF assms] ast_walk.taints_step [OF assms(1)] by simp

theorem expression_taint_total_witness:
  "expr_tainted ssn_analyzer walk_post 4 (field_of ''r'' ''name'') {''r''} {} = Some (False, {})"
proof -
  have sz: "size (field_of ''r'' ''name'') < 4" by (simp add: field_of_def)
  have pii: "\<not> is_pii ssn_analyzer ''name''"
    unfolding is_pii_def ssn_fields by code_simp
  have "\<not> taints ssn_analyzer walk_post (field_of ''r'' ''name'') {''r''} {}"
    using pii by (simp add: field_of_def post.taints_eqs flows_step_def member_flows_def is_indexed_record_def)
  then show ?thesis
    using expression_taint_total [OF post.ast_walk_axioms sz, of ssn_analyzer "{''r''}" "{}"] by simp
qed

text \<open>Taint is monotone: with more record-bound or more tainted variables an expression that
  was tainted stays tainted.\<close>

theorem taint_monotone:
  assumes "ast_walk walk" and "rb \<subseteq> rb'" and "tv \<subseteq> tv'" and "taints A walk n rb tv"
  shows "taints A walk n rb' tv'"
  using ast_walk.taints_monotone [OF assms] .

theorem taint_monotone_witness:
  "taints ssn_analyzer walk_post (UnaryExpression ''!'' (Identifier ''x'')) {''r''} {''x'', ''y''}"
proof (rule taint_monotone [OF post.ast_walk_axioms])
  show "{} \<subseteq> {''r''}" and "{''x''} \<subseteq> {''x'', ''y''}" by simp_all
  show "taints ssn_analyzer walk_post (UnaryExpression ''!'' (Identifier ''x'')) {} {''x''}"
    by (simp add: post.taints_step [of _ "UnaryExpression ''!'' (Identifier ''x'')"] flows_step_def
        post.taints_eqs)
qed

text \<open>C7: non-interference on the covered expressions. If the analyzer does not call a covered
  expression tainted, then its value is the same in any two situations that agree on the
  untainted variables and on the non-forbidden fields of the records, whatever the operators,
  literals and called functions compute.\<close>

theorem untainted_noninterference:
  fixes build :: "node \<Rightarrow> 'v list \<Rightarrow> 'v"
  assumes "ast_walk walk" and "covered rb n" and "\<not> taints A walk n rb tv"
    and "public_equal A rb tv env recs env' recs'"
  shows "evaluate build env recs rb n = evaluate build env' recs' rb n"
  using ast_walk.untainted_public [OF assms] .

theorem untainted_noninterference_witness:
  "evaluate (\<lambda>n vs. sum_list vs) (\<lambda>x. 0) (\<lambda>r f. if f = ''ssn'' then 1 else 7) {''r''}
      (BinaryExpression ''+'' (field_of ''r'' ''age'') (Identifier ''k'')) =
   evaluate (\<lambda>n vs. sum_list vs) (\<lambda>x. 0) (\<lambda>r f. if f = ''ssn'' then 2 else (7::nat)) {''r''}
      (BinaryExpression ''+'' (field_of ''r'' ''age'') (Identifier ''k''))"
proof (rule untainted_noninterference [OF post.ast_walk_axioms, where A = ssn_analyzer and tv = "{}"])
  show "covered {''r''} (BinaryExpression ''+'' (field_of ''r'' ''age'') (Identifier ''k''))"
    by (simp add: field_of_def truthy_name_def is_record_var_def)
  have "\<not> is_pii ssn_analyzer ''age''"
    unfolding is_pii_def ssn_fields by code_simp
  then show "\<not> taints ssn_analyzer walk_post
      (BinaryExpression ''+'' (field_of ''r'' ''age'') (Identifier ''k'')) {''r''} {}"
    by (simp add: field_of_def post.taints_eqs flows_step_def member_flows_def is_indexed_record_def)
  show "public_equal ssn_analyzer {''r''} {} (\<lambda>x. 0) (\<lambda>r f. if f = ''ssn'' then 1 else 7)
      (\<lambda>x. 0) (\<lambda>r f. if f = ''ssn'' then 2 else (7::nat))"
    by (simp add: public_equal_def is_pii_def ssn_fields js_lower_ssn)
qed

text \<open>C8: the verdict of \<open>analyze\<close>. A parsed program is accepted exactly when no \<open>return\<close>
  statement anywhere in it has a tainted argument and, for a small data set, no field is
  aggregated twice and no visited node extracts an extremum.\<close>

theorem analyze_accepts_iff:
  assumes "ast_walk walk" and "parse (wrap_source ''liop_analysis_wrapper'' src) = Some ast"
  shows "analyze A parse walk src recordCount threshold = None \<longleftrightarrow>
    (let rb = identify_record_bound_vars walk ast; tv = propagate_taint A walk ast rb in
      (\<forall>a l. subnode (ReturnStatement (Some a) l) ast \<longrightarrow> \<not> taints A walk a rb tv) \<and>
      (small_dataset recordCount threshold \<longrightarrow>
        (\<forall>f. aggregations walk ast f < 2) \<and> (\<forall>n\<in>set (walk ast). min_max_call n = None)))"
  unfolding analyze_def assms(2) Let_def ast_walk.returns_clean_iff [OF assms(1), symmetric]
    correlated_clean_iff [symmetric] min_max_clean_iff [symmetric]
  by (simp split: option.split)

theorem analyze_accepts_iff_witness:
  "analyze ssn_analyzer (\<lambda>_. Some prog_direct) walk_post [] None 50 \<noteq> None"
proof -
  have "subnode (ReturnStatement (Some (method_call env_records ''map''
      [ArrowFunctionExpression [Identifier ''r''] (field_of ''r'' ''ssn'')])) 2) prog_direct"
    by (rule post.walk_subnode) (simp add: prog_defs example_defs walk_post_eqs)
  moreover have "taints ssn_analyzer walk_post (method_call env_records ''map''
      [ArrowFunctionExpression [Identifier ''r''] (field_of ''r'' ''ssn'')]) {''r''} {''liop_analysis_wrapper''}"
    by (simp add: example_defs run_flow)
  ultimately show ?thesis
    unfolding analyze_accepts_iff [of walk_post "\<lambda>_. Some prog_direct" "[]" prog_direct ssn_analyzer None 50,
        OF post.ast_walk_axioms HOL.refl] binds Let_def taints_direct
    by blast
qed

text \<open>Propagation. When fewer than three names end up tainted, the three rounds have reached
  a fixed point: every variable that is declared with a tainted value is tainted, and so is
  every variable that is assigned one.\<close>

theorem propagation_closed:
  assumes "ast_walk walk" and "card (propagate_taint A walk ast rb) < 3"
  shows "(VariableDeclarator (Identifier x) (Some e) \<in> set (walk ast) \<or>
          AssignmentExpression (Identifier x) e \<in> set (walk ast)) \<and>
         taints A walk e rb (propagate_taint A walk ast rb) \<longrightarrow> x \<in> propagate_taint A walk ast rb"
  using ast_walk.declared_tainted(1) [OF assms(1) ast_walk.propagate_closed [OF assms]]
    ast_walk.declared_tainted(2) [OF assms(1) ast_walk.propagate_closed [OF assms]] by blast

theorem propagation_closed_witness:
  "''x'' \<in> propagate_taint ssn_analyzer walk_post prog_assign {''r''}"
proof -
  have "card (propagate_taint ssn_analyzer walk_post prog_assign {''r''}) < 3"
    unfolding taints_assign by (simp add: card_insert_if)
  from propagation_closed [OF post.ast_walk_axioms this, of "''x''" "field_of ''r'' ''ssn''"]
  show ?thesis
    unfolding taints_assign by simp
qed

text \<open>Three rounds are not always enough. A loop whose four assignments copy a forbidden field
  against the order of execution returns it, and the analysis accepts the program: the fourth
  variable of the chain is never marked.\<close>

theorem reversed_chain_escapes:
  "propagate_taint ssn_analyzer walk_post prog_reversed_chain {''r''} = {''a'', ''b'', ''c''} \<and>
   taint_round ssn_analyzer walk_post prog_reversed_chain {''r''} {''a'', ''b'', ''c''} \<noteq> {''a'', ''b'', ''c''} \<and>
   analyze_ssn prog_reversed_chain = None"
proof (intro conjI)
  let ?tv = "{''a'', ''b'', ''c''}" and ?n = "AssignmentExpression (Identifier ''d'') (Identifier ''c'')"
  show "taint_round ssn_analyzer walk_post prog_reversed_chain {''r''} ?tv \<noteq> ?tv"
  proof
    assume eq: "taint_round ssn_analyzer walk_post prog_reversed_chain {''r''} ?tv = ?tv"
    have mem: "?n \<in> set (walk_post prog_reversed_chain)"
      by (simp add: prog_defs example_defs walk_post_eqs walk_post_eqs2)
    from post.visit_taint_mono eq [unfolded taint_round_def] mem
    have "visit_taint ssn_analyzer walk_post {''r''} ?n ?tv = ?tv"
      by (rule post.fold_fixpoint)
    moreover have "taints ssn_analyzer walk_post (Identifier ''c'') {''r''} ?tv"
      by (simp add: post.taints_eqs flows_step_def)
    ultimately have "''d'' \<in> ?tv" by (rule post.declared_tainted(2))
    then show False by simp
  qed
qed (rule taints_reversed_chain prog_reversed_chain_passes)+

text \<open>Programs that return the forbidden field \<open>ssn\<close> and are accepted: through \<open>parseInt\<close>,
  through optional chaining, through a destructured parameter, and through a \<open>reduce\<close> on
  \<open>env.records.slice(0)\<close>. The plain \<open>env.records.map(r => r.ssn)\<close> is rejected.\<close>

theorem accepted_exfiltrations:
  "analyze_ssn prog_direct \<noteq> None \<and> analyze_ssn prog_parse_int = None \<and>
   analyze_ssn prog_optional = None \<and> analyze_ssn prog_destructured = None \<and>
   analyze_ssn prog_slice_reduce = None"
  using prog_direct_flagged prog_parse_int_passes prog_optional_passes prog_destructured_passes
    prog_slice_reduce_passes by blast

end
