(* ===== verification/Regex.thy ===== *)
theory Regex
  imports Prelude
begin

text \<open>
  The part of JavaScript's regular expressions that the sources use: character classes,
  concatenation, alternation, greedy and lazy counted repetition, \<open>\b\<close>, \<open>^\<close>, \<open>$\<close> and
  negative lookahead. A position is the text already passed (reversed) with the text to come,
  and a match is the list of the positions where it can end, the preferred one first: the order
  in which the backtracking matcher of the language tries them. \<open>re_test\<close> is \<open>RegExp.test\<close>,
  \<open>re_matches\<close> is \<open>String.match\<close> with the flag \<open>g\<close>, \<open>re_replace_all\<close> is \<open>String.replace\<close> with
  the flag \<open>g\<close>.
\<close>

type_synonym pos = "string \<times> string"

datatype re =
    Pred "char \<Rightarrow> bool"
  | Eps
  | Cat re re
  | Alt re re
  | Rep bool nat "nat option" re        \<comment> \<open>greedy?, least count, greatest count\<close>
  | WordBoundary
  | AtStart
  | AtEnd
  | NotAhead re

definition is_digit :: "char \<Rightarrow> bool" where
  "is_digit c \<longleftrightarrow> 48 \<le> code_of c \<and> code_of c \<le> 57"

definition is_upper :: "char \<Rightarrow> bool" where
  "is_upper c \<longleftrightarrow> 65 \<le> code_of c \<and> code_of c \<le> 90"

definition is_lower :: "char \<Rightarrow> bool" where
  "is_lower c \<longleftrightarrow> 97 \<le> code_of c \<and> code_of c \<le> 122"

text \<open>The class \<open>\w\<close>.\<close>

definition is_word :: "char \<Rightarrow> bool" where
  "is_word c \<longleftrightarrow> is_digit c \<or> is_upper c \<or> is_lower c \<or> c = CHR ''_''"

fun word_boundary :: "pos \<Rightarrow> bool" where
  "word_boundary (b, a) =
     ((case b of [] \<Rightarrow> False | c # _ \<Rightarrow> is_word c) \<noteq> (case a of [] \<Rightarrow> False | c # _ \<Rightarrow> is_word c))"

text \<open>One character, and repetition. An optional iteration that consumes nothing is refused, so
  the text to come bounds the number of iterations.\<close>

fun step_char :: "(char \<Rightarrow> bool) \<Rightarrow> pos \<Rightarrow> pos list" where
  "step_char P (b, []) = []"
| "step_char P (b, c # a) = (if P c then [(c # b, a)] else [])"

fun rep_exact :: "(pos \<Rightarrow> pos list) \<Rightarrow> nat \<Rightarrow> pos \<Rightarrow> pos list" where
  "rep_exact f 0 p = [p]"
| "rep_exact f (Suc n) p = concat (map (rep_exact f n) (f p))"

definition advances :: "pos \<Rightarrow> pos \<Rightarrow> bool" where
  "advances p q \<longleftrightarrow> length (snd q) < length (snd p)"

fun rep_upto :: "bool \<Rightarrow> (pos \<Rightarrow> pos list) \<Rightarrow> nat \<Rightarrow> pos \<Rightarrow> pos list" where
  "rep_upto greedy f 0 p = [p]"
| "rep_upto greedy f (Suc n) p =
     (let more = concat (map (rep_upto greedy f n) (filter (advances p) (f p)))
      in if greedy then more @ [p] else p # more)"

primrec re_match :: "re \<Rightarrow> pos \<Rightarrow> pos list" where
  "re_match (Pred P) = step_char P"
| "re_match Eps = (\<lambda>p. [p])"
| "re_match (Cat r s) = (\<lambda>p. concat (map (re_match s) (re_match r p)))"
| "re_match (Alt r s) = (\<lambda>p. re_match r p @ re_match s p)"
| "re_match (Rep greedy lo hi r) = (\<lambda>p.
     concat (map (\<lambda>q. rep_upto greedy (re_match r)
                         (case hi of None \<Rightarrow> length (snd q) | Some h \<Rightarrow> h - lo) q)
                 (rep_exact (re_match r) lo p)))"
| "re_match WordBoundary = (\<lambda>p. if word_boundary p then [p] else [])"
| "re_match AtStart = (\<lambda>p. if fst p = [] then [p] else [])"
| "re_match AtEnd = (\<lambda>p. if snd p = [] then [p] else [])"
| "re_match (NotAhead r) = (\<lambda>p. if re_match r p = [] then [p] else [])"

section \<open>Abbreviations of the notation\<close>

definition chr :: "char \<Rightarrow> re" where "chr c = Pred (\<lambda>d. d = c)"

text \<open>A literal, and a literal under the flag \<open>i\<close>.\<close>

definition lit :: "string \<Rightarrow> re" where
  "lit s = foldr (\<lambda>c. Cat (chr c)) s Eps"

definition ilit :: "string \<Rightarrow> re" where
  "ilit s = foldr (\<lambda>c. Cat (Pred (\<lambda>d. lower_char d = lower_char c))) s Eps"

definition star :: "re \<Rightarrow> re" where "star r = Rep True 0 None r"
definition plus :: "re \<Rightarrow> re" where "plus r = Rep True 1 None r"
definition opt :: "re \<Rightarrow> re" where "opt r = Rep True 0 (Some 1) r"
definition times_re :: "nat \<Rightarrow> nat \<Rightarrow> re \<Rightarrow> re" where "times_re lo hi r = Rep True lo (Some hi) r"

fun cats :: "re list \<Rightarrow> re" where
  "cats [] = Eps"
| "cats [r] = r"
| "cats (r # s # rs) = Cat r (cats (s # rs))"

fun alts :: "re list \<Rightarrow> re" where
  "alts [] = Pred (\<lambda>c. False)"
| "alts [r] = r"
| "alts (r # s # rs) = Alt r (alts (s # rs))"

section \<open>Searching\<close>

text \<open>The first position from \<open>p\<close> on where the expression matches, with the end of that match.\<close>

fun re_search :: "re \<Rightarrow> string \<Rightarrow> string \<Rightarrow> (pos \<times> pos) option" where
  "re_search r b a =
     (case re_match r (b, a) of
        q # _ \<Rightarrow> Some ((b, a), q)
      | [] \<Rightarrow> (case a of [] \<Rightarrow> None | c # a' \<Rightarrow> re_search r (c # b) a'))"

declare re_search.simps [simp del]

definition re_test :: "re \<Rightarrow> string \<Rightarrow> bool" where
  "re_test r s = (re_search r [] s \<noteq> None)"

text \<open>All matches from left to right; an empty match moves on by one character.\<close>

function re_matches_from :: "re \<Rightarrow> string \<Rightarrow> string \<Rightarrow> string list" where
  "re_matches_from r b a =
     (case re_match r (b, a) of
        (b', a') # _ \<Rightarrow>
          if length a' < length a
          then take (length a - length a') a # re_matches_from r b' a'
          else [] # (case a of [] \<Rightarrow> [] | c # a'' \<Rightarrow> re_matches_from r (c # b) a'')
      | [] \<Rightarrow> (case a of [] \<Rightarrow> [] | c # a'' \<Rightarrow> re_matches_from r (c # b) a''))"
  by pat_completeness auto
termination by (relation "measure (\<lambda>(r, b, a). length a)") auto

definition re_matches :: "re \<Rightarrow> string \<Rightarrow> string list" where
  "re_matches r s = re_matches_from r [] s"

function re_replace_from :: "re \<Rightarrow> (string \<Rightarrow> string) \<Rightarrow> string \<Rightarrow> string \<Rightarrow> string" where
  "re_replace_from r f b a =
     (case re_match r (b, a) of
        (b', a') # _ \<Rightarrow>
          if length a' < length a
          then f (take (length a - length a') a) @ re_replace_from r f b' a'
          else f [] @ (case a of [] \<Rightarrow> [] | c # a'' \<Rightarrow> c # re_replace_from r f (c # b) a'')
      | [] \<Rightarrow> (case a of [] \<Rightarrow> [] | c # a'' \<Rightarrow> c # re_replace_from r f (c # b) a''))"
  by pat_completeness auto
termination by (relation "measure (\<lambda>(r, f, b, a). length a)") auto

declare re_matches_from.simps [simp del] re_replace_from.simps [simp del]

definition re_replace_all :: "re \<Rightarrow> (string \<Rightarrow> string) \<Rightarrow> string \<Rightarrow> string" where
  "re_replace_all r f s = re_replace_from r f [] s"

section \<open>Matches consume a prefix\<close>

definition consumes :: "pos \<Rightarrow> pos \<Rightarrow> bool" where
  "consumes p q \<longleftrightarrow> (\<exists>c. snd p = c @ snd q \<and> fst q = rev c @ fst p)"

lemma consumes_refl [simp]: "consumes p p"
  by (simp add: consumes_def)

lemma consumes_trans: "consumes p q \<Longrightarrow> consumes q r \<Longrightarrow> consumes p r"
  unfolding consumes_def by (metis append.assoc rev_append)

lemma step_char_consumes: "q \<in> set (step_char P p) \<Longrightarrow> consumes p q"
  by (cases "(P, p)" rule: step_char.cases) (auto simp: consumes_def split: if_splits)

lemma rep_exact_consumes:
  "(\<And>p q. q \<in> set (f p) \<Longrightarrow> consumes p q) \<Longrightarrow> q \<in> set (rep_exact f n p) \<Longrightarrow> consumes p q"
proof (induction n arbitrary: p)
  case (Suc n)
  then obtain t where "t \<in> set (f p)" "q \<in> set (rep_exact f n t)" by auto
  with Suc show ?case by (meson consumes_trans)
qed simp

lemma rep_upto_consumes:
  "(\<And>p q. q \<in> set (f p) \<Longrightarrow> consumes p q) \<Longrightarrow> q \<in> set (rep_upto g f n p) \<Longrightarrow> consumes p q"
proof (induction n arbitrary: p)
  case (Suc n)
  then consider "q = p" | t where "t \<in> set (f p)" "q \<in> set (rep_upto g f n t)"
    by (simp add: Let_def split: if_splits) blast+
  then show ?case using Suc by cases (simp, meson consumes_trans)
qed simp

lemma re_match_consumes: "q \<in> set (re_match r p) \<Longrightarrow> consumes p q"
proof (induction r arbitrary: p q)
  case (Pred P)
  then show ?case by (simp add: step_char_consumes)
next
  case (Cat r1 r2)
  then obtain t where "t \<in> set (re_match r1 p)" "q \<in> set (re_match r2 t)" by auto
  with Cat.IH show ?case by (meson consumes_trans)
next
  case (Rep g lo hi r)
  then obtain t n where t: "t \<in> set (rep_exact (re_match r) lo p)"
    and q: "q \<in> set (rep_upto g (re_match r) n t)" by auto
  have "consumes p t" by (rule rep_exact_consumes [OF Rep.IH t])
  moreover have "consumes t q" by (rule rep_upto_consumes [OF Rep.IH q])
  ultimately show ?case by (rule consumes_trans)
qed (auto intro: consumes_trans split: if_splits)

lemma re_match_first:
  assumes "re_match r (b, a) = (b', a') # qs"
  shows "a = take (length a - length a') a @ a'" and "length a' \<le> length a"
proof -
  have "consumes (b, a) (b', a')" by (rule re_match_consumes [of _ r]) (simp add: assms)
  then obtain c where "a = c @ a'" by (auto simp: consumes_def)
  then show "a = take (length a - length a') a @ a'" and "length a' \<le> length a" by simp_all
qed

section \<open>Literals\<close>

lemma re_match_chr: "re_match (chr c) (b, d # a) = (if d = c then [(d # b, a)] else [])"
  by (simp add: chr_def)

lemma re_match_lit: "re_match (lit s) (b, a) = (if starts_with a s then [(rev s @ b, drop (length s) a)] else [])"
proof (induction s arbitrary: b a)
  case Nil
  show ?case by (simp add: lit_def)
next
  case (Cons c s)
  then show ?case by (cases a) (auto simp: lit_def chr_def)
qed

lemma re_match_ilit:
  "re_match (ilit s) (b, a) =
     (if starts_with (js_lower a) (js_lower s)
      then [(rev (take (length s) a) @ b, drop (length s) a)] else [])"
proof (induction s arbitrary: b a)
  case Nil
  show ?case by (simp add: ilit_def js_lower_def)
next
  case (Cons c s)
  then show ?case by (cases a) (auto simp: ilit_def js_lower_def)
qed

lemma re_search_None_iff:
  "re_search r b a = None \<longleftrightarrow> (\<forall>c d. a = c @ d \<longrightarrow> re_match r (rev c @ b, d) = [])"
proof (induction a arbitrary: b)
  case Nil
  show ?case by (auto simp: re_search.simps [of r b "[]"] split: list.split)
next
  case (Cons x a)
  have "re_search r b (x # a) = None \<longleftrightarrow>
      re_match r (b, x # a) = [] \<and> re_search r (x # b) a = None"
    by (auto simp: re_search.simps [of r b "x # a"] split: list.split)
  also have "\<dots> \<longleftrightarrow> (\<forall>c d. x # a = c @ d \<longrightarrow> re_match r (rev c @ b, d) = [])"
    unfolding Cons.IH
  proof (intro iffI conjI allI impI)
    fix c d
    assume h: "re_match r (b, x # a) = [] \<and> (\<forall>c d. a = c @ d \<longrightarrow> re_match r (rev c @ x # b, d) = [])"
      and eq: "x # a = c @ d"
    show "re_match r (rev c @ b, d) = []"
      using h eq by (cases c) auto
  next
    assume h: "\<forall>c d. x # a = c @ d \<longrightarrow> re_match r (rev c @ b, d) = []"
    show "re_match r (b, x # a) = []" using h [rule_format, of "[]"] by simp
    fix c d assume "a = c @ d"
    then show "re_match r (rev c @ x # b, d) = []" using h [rule_format, of "x # c" d] by simp
  qed
  finally show ?case .
qed

lemma re_test_iff: "re_test r s \<longleftrightarrow> (\<exists>c d. s = c @ d \<and> re_match r (rev c, d) \<noteq> [])"
  by (auto simp: re_test_def re_search_None_iff)

lemma re_test_lit: "re_test (lit p) s \<longleftrightarrow> js_includes s p"
  by (auto simp: re_test_iff re_match_lit starts_with_iff js_includes_iff split: if_splits)

end
