(* ===== verification/Policy.thy ===== *)
theory Policy
  imports Regex
begin

text \<open>
  The policies a tool is registered with (\<open>AggregationPolicy\<close> and \<open>LogicExecutionPolicy\<close> of
  \<open>server/index.ts\<close>). The schema \<open>outputSchema\<close> is code of a library (zod): it is represented by
  its \<open>safeParse\<close> function where the output policy needs it. A deny pattern is a stateless
  regular expression.
\<close>

record aggregation_policy =
  ap_maxOutputRows :: "int option"
  ap_allowPrimitiveArrays :: "bool option"
  ap_minMaxBlockThreshold :: "int option"

text \<open>\<open>enforceAggregationFirst?: boolean | AggregationPolicy\<close>: absent and \<open>false\<close> are the same
  to every reader of the field.\<close>

datatype enforcement = NotEnforced | EnforcedByDefault | EnforcedWith aggregation_policy

record execution_policy =
  lp_enforceAggregationFirst :: enforcement
  lp_preflightDenyPatterns :: "re list"
  lp_dpEpsilon :: "real option"
  lp_dpSensitivity :: "real option"
  lp_dpSmallDatasetThreshold :: "int option"
  lp_queryBudgetPerField :: "int option"
  lp_sensitiveKeys :: "string list"
  lp_budgetStorePath :: "string option"

definition enforced :: "enforcement \<Rightarrow> bool" where
  "enforced e = (e \<noteq> NotEnforced)"

definition no_policy :: execution_policy where
  "no_policy = \<lparr>lp_enforceAggregationFirst = NotEnforced, lp_preflightDenyPatterns = [],
     lp_dpEpsilon = None, lp_dpSensitivity = None, lp_dpSmallDatasetThreshold = None,
     lp_queryBudgetPerField = None, lp_sensitiveKeys = [], lp_budgetStorePath = None\<rparr>"

end
