(* ===== verification/QueryBudget.thy ===== *)
theory QueryBudget
  imports Policy Analyzer
begin

text \<open>
  The query budget and the preflight policy of \<open>server/index.ts\<close>: \<open>runPreflightPolicy\<close>,
  \<open>applyInMemoryBudget\<close>, the persistent store (\<open>getPersistentBudget\<close>, \<open>savePersistentBudget\<close>,
  \<open>executeWithBudgetLock\<close>) and \<open>resetFieldBudget\<close>. A budget counts, per client, tool and field,
  the accepted queries. The two stores share the interface \<open>counter_store\<close>: the bound on the
  accepted queries is proved once for it.

  The file system answers through \<open>fs_env\<close> (what each attempt to create the lock file and the
  final write do); \<open>JSON.parse\<close> and \<open>JSON.stringify\<close> on the budget file are the parameters
  \<open>parse\<close> and \<open>render\<close>. A tool name is not the name of a member of \<open>Object.prototype\<close>; a field
  name may be one.
\<close>

section \<open>Cells and limits\<close>

text \<open>What \<open>toolBudget[field] ?? 0\<close> yields: a number, or something that is not one (a function
  or object inherited from \<open>Object.prototype\<close>, or a string made from it). \<open>>=\<close> is false on
  those, and \<open>+ 1\<close> makes a string.\<close>

datatype cell = Num int | NotANumber

fun cell_ge :: "cell \<Rightarrow> int \<Rightarrow> bool" where
  "cell_ge (Num n) l = (l \<le> n)"
| "cell_ge NotANumber l = False"

fun cell_inc :: "cell \<Rightarrow> cell" where
  "cell_inc (Num n) = Num (n + 1)"
| "cell_inc NotANumber = NotANumber"

definition query_limit :: "analyzer \<Rightarrow> execution_policy option \<Rightarrow> string \<Rightarrow> int \<times> string" where
  "query_limit A policy field =
     (let sensitivity = classify_field A field
            (case policy of None \<Rightarrow> [] | Some p \<Rightarrow> lp_sensitiveKeys p)
      in case (case policy of None \<Rightarrow> None | Some p \<Rightarrow> lp_queryBudgetPerField p) of
           Some n \<Rightarrow> (n, ''override'')
         | None \<Rightarrow> if sensitivity = Forbidden then (3, ''forbidden'')
                   else if sensitivity = Sensitive then (8, ''sensitive'')
                   else (25, ''public''))"

definition budget_message :: "string \<Rightarrow> int \<times> string \<Rightarrow> string" where
  "budget_message field limit =
     ''Preflight policy rejected: Query budget exceeded for field '' @ [CHR 0x27] @ field @ [CHR 0x27] @
     '' (max '' @ int_str (fst limit) @ '' per session for '' @ snd limit @
     '' fields). Rotate PQC session to reset budget.''"

text \<open>The first loop of both stores: the first field whose count has reached its limit.\<close>

fun check_budget :: "analyzer \<Rightarrow> execution_policy option \<Rightarrow> (string \<Rightarrow> cell) \<Rightarrow> string list \<Rightarrow> string option" where
  "check_budget A policy count [] = None"
| "check_budget A policy count (f # fs) =
     (if cell_ge (count f) (fst (query_limit A policy f)) then Some (budget_message f (query_limit A policy f))
      else check_budget A policy count fs)"

lemma check_budget_None:
  "check_budget A policy count fs = None \<longleftrightarrow>
   list_all (\<lambda>f. \<not> cell_ge (count f) (fst (query_limit A policy f))) fs"
  by (induction fs) auto

section \<open>The interface of a budget store\<close>

text \<open>A client of a store reads the count of a key and bumps it; \<open>plain\<close> are the keys on which
  the store really counts.\<close>

locale counter_store =
  fixes get :: "'s \<Rightarrow> 'k \<Rightarrow> cell"
    and bump :: "'k \<Rightarrow> 's \<Rightarrow> 's"
    and plain :: "'k \<Rightarrow> bool"
  assumes get_bump_same: "plain k \<Longrightarrow> get (bump k s) k = cell_inc (get s k)"
    and get_bump_other: "j \<noteq> k \<Longrightarrow> get (bump k s) j = get s j"
begin

lemma get_bumps_other: "k \<notin> set ks \<Longrightarrow> get (fold bump ks s) k = get s k"
  by (induction ks arbitrary: s) (auto simp: get_bump_other)

lemma get_bumps:
  assumes "plain k" and "distinct ks"
  shows "get (fold bump ks s) k = (if k \<in> set ks then cell_inc (get s k) else get s k)"
  using assms(2)
proof (induction ks arbitrary: s)
  case (Cons j ks)
  then show ?case
    using assms(1) by (cases "j = k") (auto simp: get_bump_same get_bump_other get_bumps_other)
qed simp

text \<open>One accepted charge of a list of keys, when every key was below its limit: the count of a
  key grows by one if it is in the list and stays within every greater limit.\<close>

lemma charge_step:
  assumes "plain k" and "distinct ks" and "list_all (\<lambda>j. \<not> cell_ge (get s j) (bound j)) ks"
    and "k \<in> set ks \<longrightarrow> bound k \<le> L" and "get s k = Num n" and "n \<le> max 0 L"
  shows "\<exists>n'. get (fold bump ks s) k = Num n' \<and> n' = n + (if k \<in> set ks then 1 else 0) \<and> n' \<le> max 0 L"
proof (cases "k \<in> set ks")
  case True
  with assms(3-5) have "n < L" by (fastforce simp: list_all_iff)
  then show ?thesis using True assms(5) by (simp add: get_bumps [OF assms(1,2)])
next
  case False
  then show ?thesis using assms(5,6) by (simp add: get_bumps_other)
qed

end

section \<open>The in-memory store\<close>

type_synonym counters = "(string \<times> int) list"
type_synonym memory_budget = "(string \<times> (string \<times> counters) list) list"

definition get_or :: "'v \<Rightarrow> ('k \<times> 'v) list \<Rightarrow> 'k \<Rightarrow> 'v" where
  "get_or d m k = (case map_of m k of None \<Rightarrow> d | Some v \<Rightarrow> v)"

lemma get_or_update [simp]: "get_or d (AList.update k v m) j = (if j = k then v else get_or d m j)"
  by (simp add: get_or_def)

lemma get_or_delete [simp]: "get_or d (AList.delete k m) j = (if j = k then d else get_or d m j)"
  by (simp add: get_or_def)

lemma get_or_Nil [simp]: "get_or d [] j = d"
  by (simp add: get_or_def)

text \<open>The loop \<open>toolBudget.set(field, (toolBudget.get(field) ?? 0) + 1)\<close>. The maps are mutated in
  place: the client's and the tool's entry exist afterwards also when the query is rejected.\<close>

definition bump_counter :: "string \<Rightarrow> counters \<Rightarrow> counters" where
  "bump_counter f tb = AList.update f (get_or 0 tb f + 1) tb"

definition apply_in_memory_budget ::
    "analyzer \<Rightarrow> execution_policy option \<Rightarrow> string \<Rightarrow> string \<Rightarrow> string list \<Rightarrow> memory_budget
       \<Rightarrow> string option \<times> memory_budget" where
  "apply_in_memory_budget A policy clientId toolName extractedFields mem =
     (let clientBudget = get_or [] mem clientId;
          toolBudget = get_or [] clientBudget toolName;
          store = (\<lambda>tb. AList.update clientId (AList.update toolName tb clientBudget) mem)
      in case check_budget A policy (\<lambda>f. Num (get_or 0 toolBudget f)) extractedFields of
           Some e \<Rightarrow> (Some e, store toolBudget)
         | None \<Rightarrow> (None, store (fold bump_counter extractedFields toolBudget)))"

definition memory_count :: "memory_budget \<Rightarrow> string \<Rightarrow> string \<Rightarrow> string \<Rightarrow> int" where
  "memory_count mem c t f = get_or 0 (get_or [] (get_or [] mem c) t) f"

interpretation memory_counters:
  counter_store "\<lambda>tb f. Num (get_or 0 tb f)" bump_counter "\<lambda>f. True"
  by unfold_locales (auto simp: bump_counter_def)

section \<open>The persistent store\<close>

type_synonym disk_counters = "(string \<times> cell) list"
type_synonym disk_budget = "(string \<times> (string \<times> disk_counters) list) list"

definition inherited_name :: "string \<Rightarrow> bool" where
  "inherited_name f \<longleftrightarrow> f = ''__proto__'' \<or> f \<in> set (map fst object_prototype)"

text \<open>\<open>toolBudget[field] ?? 0\<close>, and \<open>updatedToolBudget[field] = (updatedToolBudget[field] ?? 0) + 1\<close>
  (assigning a string to \<open>__proto__\<close> is ignored).\<close>

definition disk_count :: "disk_counters \<Rightarrow> string \<Rightarrow> cell" where
  "disk_count tb f =
     (case map_of tb f of Some c \<Rightarrow> c | None \<Rightarrow> if inherited_name f then NotANumber else Num 0)"

definition bump_disk :: "string \<Rightarrow> disk_counters \<Rightarrow> disk_counters" where
  "bump_disk f tb =
     (if f = ''__proto__'' then tb else AList.update f (cell_inc (disk_count tb f)) tb)"

interpretation disk_counters:
  counter_store disk_count bump_disk "\<lambda>f. \<not> inherited_name f"
  by unfold_locales (auto simp: bump_disk_def disk_count_def inherited_name_def)

definition unsafe_key :: "string \<Rightarrow> bool" where
  "unsafe_key k \<longleftrightarrow> k = ''__proto__'' \<or> k = ''constructor'' \<or> k = ''prototype''"

text \<open>The files by path. \<open>parse\<close> is \<open>JSON.parse(content || "{}")\<close>, \<open>None\<close> when it throws or yields
  no object; \<open>render\<close> is \<open>JSON.stringify\<close>.\<close>

type_synonym 'file disk = "string \<Rightarrow> 'file option"

definition get_persistent_budget :: "('file \<Rightarrow> disk_budget option) \<Rightarrow> 'file disk \<Rightarrow> string \<Rightarrow> disk_budget" where
  "get_persistent_budget parse disk storePath =
     (case disk storePath of
        None \<Rightarrow> []
      | Some content \<Rightarrow>
          (case parse content of
             None \<Rightarrow> []
           | Some parsed \<Rightarrow> filter (\<lambda>(k, v). \<not> unsafe_key k) parsed))"

definition save_persistent_budget :: "(disk_budget \<Rightarrow> 'file) \<Rightarrow> string \<Rightarrow> disk_budget \<Rightarrow> 'file disk \<Rightarrow> 'file disk" where
  "save_persistent_budget render storePath budget disk = disk(storePath \<mapsto> render budget)"

datatype lock_outcome = Acquired | LockExists | LockFailed string

datatype budget_error = LockTimeout | FsError string

record fs_env =
  fe_lock :: "nat \<Rightarrow> lock_outcome"      \<comment> \<open>what the n-th attempt to create the lock file does\<close>
  fe_save :: "string option"             \<comment> \<open>the exception the write of the store throws, if any\<close>

function acquire_lock :: "(nat \<Rightarrow> lock_outcome) \<Rightarrow> nat \<Rightarrow> budget_error option" where
  "acquire_lock outcome attempts =
     (if attempts < 100 then
        (case outcome attempts of
           Acquired \<Rightarrow> None
         | LockExists \<Rightarrow> acquire_lock outcome (attempts + 1)
         | LockFailed e \<Rightarrow> Some (FsError e))
      else Some LockTimeout)"
  by pat_completeness auto
termination by (relation "measure (\<lambda>(outcome, attempts). 100 - attempts)") auto

declare acquire_lock.simps [simp del]

definition execute_with_budget_lock ::
    "('file \<Rightarrow> disk_budget option) \<Rightarrow> (disk_budget \<Rightarrow> 'file) \<Rightarrow> fs_env \<Rightarrow> string
       \<Rightarrow> (disk_budget \<Rightarrow> 'a \<times> disk_budget option) \<Rightarrow> 'file disk \<Rightarrow> (budget_error + 'a) \<times> 'file disk" where
  "execute_with_budget_lock parse render env storePath action disk =
     (case acquire_lock (fe_lock env) 0 of
        Some e \<Rightarrow> (Inl e, disk)
      | None \<Rightarrow>
          (case action (get_persistent_budget parse disk storePath) of
             (result, None) \<Rightarrow> (Inr result, disk)
           | (result, Some updated) \<Rightarrow>
               (case fe_save env of
                  Some e \<Rightarrow> (Inl (FsError e), disk)
                | None \<Rightarrow> (Inr result, save_persistent_budget render storePath updated disk))))"

text \<open>The callback \<open>runPreflightPolicy\<close> runs under the lock.\<close>

definition charge_disk_budget ::
    "analyzer \<Rightarrow> execution_policy option \<Rightarrow> string \<Rightarrow> string \<Rightarrow> string list \<Rightarrow> disk_budget
       \<Rightarrow> string option \<times> disk_budget option" where
  "charge_disk_budget A policy clientId toolName extractedFields budget =
     (let clientBudget = get_or [] budget clientId;
          toolBudget = get_or [] clientBudget toolName
      in case check_budget A policy (disk_count toolBudget) extractedFields of
           Some e \<Rightarrow> (Some e, None)
         | None \<Rightarrow>
             (None, Some (AList.update clientId
                (AList.update toolName (fold bump_disk extractedFields toolBudget) clientBudget) budget)))"

definition stored_count :: "disk_budget \<Rightarrow> string \<Rightarrow> string \<Rightarrow> string \<Rightarrow> cell" where
  "stored_count b c t f = disk_count (get_or [] (get_or [] b c) t) f"

section \<open>The preflight policy\<close>

text \<open>Phase 1 of \<open>runPreflightPolicy\<close>: the two row export patterns, on the source with every
  white space run made one space.\<close>

definition blank :: re where
  "blank = Pred is_space"

definition compact_source :: "string \<Rightarrow> string" where
  "compact_source logic = re_replace_all (plus blank) (\<lambda>w. '' '') logic"

definition safe_suffix :: "string list \<Rightarrow> re" where
  "safe_suffix names =
     cats [star blank, chr (CHR ''.''), star blank, alts (map ilit names), WordBoundary]"

definition row_extraction_patterns :: "re list" where
  "row_extraction_patterns =
    [cats [ilit ''return'', plus blank, ilit ''env.records'',
       NotAhead (safe_suffix [''reduce'', ''length'', ''filter'', ''every'', ''some'', ''find''])],
     cats [ilit ''return'', star blank, chr (CHR ''{''), star (Pred (\<lambda>c. True)), WordBoundary,
       alts (map ilit [''accounts'', ''patients'', ''rows'', ''records'']), star blank, chr (CHR '':''),
       star blank, ilit ''env.records'', NotAhead (safe_suffix [''reduce'', ''length'', ''filter''])]]"

definition pattern_rejection :: "execution_policy option \<Rightarrow> string \<Rightarrow> string option" where
  "pattern_rejection policy logic =
     (case policy of None \<Rightarrow> None
      | Some p \<Rightarrow>
          (let compact = compact_source logic in
           if enforced (lp_enforceAggregationFirst p) \<and> list_ex (\<lambda>r. re_test r compact) row_extraction_patterns
           then Some ''Preflight policy rejected: potential row-level export pattern detected.''
           else if list_ex (\<lambda>r. re_test r compact) (lp_preflightDenyPatterns p)
           then Some ''Preflight policy rejected: custom deny pattern matched.''
           else None))"

definition min_max_threshold :: "execution_policy option \<Rightarrow> int" where
  "min_max_threshold policy =
     (case policy of None \<Rightarrow> 50
      | Some p \<Rightarrow>
          (case lp_enforceAggregationFirst p of
             EnforcedWith ap \<Rightarrow> (case ap_minMaxBlockThreshold ap of None \<Rightarrow> 50 | Some n \<Rightarrow> n)
           | NotEnforced \<Rightarrow> 50 | EnforcedByDefault \<Rightarrow> 50))"

text \<open>\<open>policy?.budgetStorePath || this.config?.budgetStorePath\<close>: an empty string is falsy.\<close>

definition budget_store :: "execution_policy option \<Rightarrow> string option \<Rightarrow> string option" where
  "budget_store policy configured =
     (case truthy_string (case policy of None \<Rightarrow> None | Some p \<Rightarrow> lp_budgetStorePath p) of
        Some p \<Rightarrow> Some p
      | None \<Rightarrow> truthy_string configured)"

text \<open>Phase 3 once fields were found and the names are safe: the persistent store, with the
  in-memory store as the fallback when the lock or the write fails.\<close>

definition enforce_budget ::
    "analyzer \<Rightarrow> ('file \<Rightarrow> disk_budget option) \<Rightarrow> (disk_budget \<Rightarrow> 'file) \<Rightarrow> fs_env \<Rightarrow> string option
       \<Rightarrow> execution_policy option \<Rightarrow> string \<Rightarrow> string \<Rightarrow> string list \<Rightarrow> memory_budget \<times> 'file disk
       \<Rightarrow> string option \<times> memory_budget \<times> 'file disk" where
  "enforce_budget A parse render env configured policy clientId toolName queried = (\<lambda>(mem, disk).
     (case budget_store policy configured of
        None \<Rightarrow>
          (case apply_in_memory_budget A policy clientId toolName queried mem of
             (r, mem') \<Rightarrow> (r, mem', disk))
      | Some storePath \<Rightarrow>
          (case execute_with_budget_lock parse render env storePath
                  (charge_disk_budget A policy clientId toolName queried) disk of
             (Inr r, disk') \<Rightarrow> (r, mem, disk')
           | (Inl e, disk') \<Rightarrow>
               (case apply_in_memory_budget A policy clientId toolName queried mem of
                  (r, mem') \<Rightarrow> (r, mem', disk')))))"

definition run_preflight_policy ::
    "analyzer \<Rightarrow> parser \<Rightarrow> walker \<Rightarrow> ('file \<Rightarrow> disk_budget option) \<Rightarrow> (disk_budget \<Rightarrow> 'file)
       \<Rightarrow> fs_env \<Rightarrow> string option \<Rightarrow> int \<Rightarrow> string \<Rightarrow> string \<Rightarrow> execution_policy option \<Rightarrow> string
       \<Rightarrow> memory_budget \<times> 'file disk \<Rightarrow> string option \<times> memory_budget \<times> 'file disk" where
  "run_preflight_policy A parseAst walk parse render env configured recordCount toolName logic policy clientId st =
     (case pattern_rejection policy logic of
        Some r \<Rightarrow> (Some r, st)
      | None \<Rightarrow>
          (case analyze A parseAst walk logic (Some recordCount) (min_max_threshold policy) of
             Some v \<Rightarrow> (Some (''Preflight policy rejected: '' @ v_reason v), st)
           | None \<Rightarrow>
               (let extractedFields = extract_queried_fields parseAst walk logic in
                if extractedFields = [] then (None, st)
                else if unsafe_key clientId \<or> unsafe_key toolName then
                  (Some ''Preflight policy rejected: invalid property key names (prototype pollution guard).'', st)
                else enforce_budget A parse render env configured policy clientId toolName extractedFields st)))"

section \<open>Resetting a budget\<close>

definition reset_memory :: "string \<Rightarrow> string option \<Rightarrow> memory_budget \<Rightarrow> memory_budget" where
  "reset_memory clientId toolName mem =
     (case truthy_string toolName of
        Some t \<Rightarrow>
          (case map_of mem clientId of
             None \<Rightarrow> mem
           | Some clientBudget \<Rightarrow> AList.update clientId (AList.delete t clientBudget) mem)
      | None \<Rightarrow> AList.delete clientId mem)"

definition reset_disk :: "string \<Rightarrow> string option \<Rightarrow> disk_budget \<Rightarrow> unit \<times> disk_budget option" where
  "reset_disk clientId toolName budget =
     ((), Some
       (case truthy_string toolName of
          Some t \<Rightarrow>
            (case map_of budget clientId of
               None \<Rightarrow> budget
             | Some clientBudget \<Rightarrow> AList.update clientId (AList.delete t clientBudget) budget)
        | None \<Rightarrow> AList.delete clientId budget))"

definition reset_field_budget ::
    "('file \<Rightarrow> disk_budget option) \<Rightarrow> (disk_budget \<Rightarrow> 'file) \<Rightarrow> fs_env \<Rightarrow> string option
       \<Rightarrow> string \<Rightarrow> string option \<Rightarrow> memory_budget \<times> 'file disk \<Rightarrow> memory_budget \<times> 'file disk" where
  "reset_field_budget parse render env configured clientId toolName = (\<lambda>(mem, disk).
     (if unsafe_key clientId \<or> (case truthy_string toolName of None \<Rightarrow> False | Some t \<Rightarrow> unsafe_key t)
      then (mem, disk)
      else
        (reset_memory clientId toolName mem,
         (case truthy_string configured of
            None \<Rightarrow> disk
          | Some storePath \<Rightarrow>
              snd (execute_with_budget_lock parse render env storePath (reset_disk clientId toolName) disk)))))"

section \<open>One charge\<close>

lemma memory_charge:
  assumes "apply_in_memory_budget A policy c t queried mem = (r, mem')" and "distinct queried"
  shows "memory_count mem' c' t' f =
           memory_count mem c' t' f + (if r = None \<and> c' = c \<and> t' = t \<and> f \<in> set queried then 1 else 0)"
  using assms(1) memory_counters.get_bumps [OF _ assms(2), where k = f and s = "get_or [] (get_or [] mem c) t"]
  by (auto simp: apply_in_memory_budget_def memory_count_def Let_def split: option.splits)

lemma memory_charge_bound:
  assumes "apply_in_memory_budget A policy c t queried mem = (r, mem')" and "distinct queried"
    and "c' = c \<and> t' = t \<and> f \<in> set queried \<longrightarrow> fst (query_limit A policy f) \<le> L"
    and "memory_count mem c' t' f \<le> max 0 L"
  shows "memory_count mem' c' t' f \<le> max 0 L"
proof (cases "r = None \<and> c' = c \<and> t' = t")
  case True
  then have ok: "list_all (\<lambda>j. \<not> cell_ge (Num (get_or 0 (get_or [] (get_or [] mem c) t) j)) (fst (query_limit A policy j))) queried"
    using assms(1) by (auto simp: apply_in_memory_budget_def Let_def check_budget_None split: option.splits)
  from memory_counters.charge_step [OF _ assms(2) ok, where k = f and L = L] True assms
  show ?thesis
    by (auto simp: apply_in_memory_budget_def memory_count_def Let_def split: option.splits)
next
  case False
  then show ?thesis using memory_charge [OF assms(1,2), of c' t' f] assms(4) by auto
qed

end
