(* ===== verification/BudgetClaims.thy ===== *)
theory BudgetClaims
  imports QueryBudget TaintProps
begin

text \<open>
  Properties of the query budget: what one query charges, how many queries of a field several
  servers that share a budget file accept together, what lock contention costs, and what a reset
  restores.
\<close>

section \<open>One charge of the persistent store\<close>

text \<open>The documented round trip of \<open>JSON.stringify\<close> and \<open>JSON.parse\<close>, as far as the budget reads
  the file: every count is read back.\<close>

definition faithful_file :: "('file \<Rightarrow> disk_budget option) \<Rightarrow> (disk_budget \<Rightarrow> 'file) \<Rightarrow> bool" where
  "faithful_file parse render \<longleftrightarrow>
     (\<forall>b. \<exists>b'. parse (render b) = Some b' \<and> stored_count b' = stored_count b)"

definition file_count ::
    "('file \<Rightarrow> disk_budget option) \<Rightarrow> 'file disk \<Rightarrow> string \<Rightarrow> string \<Rightarrow> string \<Rightarrow> string \<Rightarrow> cell" where
  "file_count parse disk p c t f = stored_count (get_persistent_budget parse disk p) c t f"

lemma stored_count_safe: "\<not> unsafe_key c \<Longrightarrow> stored_count (filter (\<lambda>(k, v). \<not> unsafe_key k) b) c = stored_count b c"
  by (intro ext) (simp add: stored_count_def get_or_def)

lemma file_count_save:
  assumes "faithful_file parse render" and "\<not> unsafe_key c"
  shows "file_count parse (save_persistent_budget render p b disk) p c t f = stored_count b c t f"
proof -
  obtain b' where b': "parse (render b) = Some b'" "stored_count b' = stored_count b"
    using assms(1) by (auto simp: faithful_file_def)
  have "file_count parse (save_persistent_budget render p b disk) p c t f
      = stored_count (filter (\<lambda>(k, v). \<not> unsafe_key k) b') c t f"
    by (simp add: file_count_def get_persistent_budget_def save_persistent_budget_def b')
  also have "\<dots> = stored_count b c t f" by (simp add: stored_count_safe [OF assms(2)] b'(2))
  finally show ?thesis .
qed

lemma charge_disk:
  assumes "charge_disk_budget A policy c t queried b = (r, ub)"
    and "distinct queried" and "\<not> inherited_name f"
    and "c' = c \<and> t' = t \<and> f \<in> set queried \<longrightarrow> fst (query_limit A policy f) \<le> L"
    and "stored_count b c' t' f = Num n" and "n \<le> max 0 L"
  shows "case ub of
      None \<Rightarrow> r \<noteq> None
    | Some u \<Rightarrow> r = None \<and> (\<exists>n'. stored_count u c' t' f = Num n' \<and> n' \<le> max 0 L \<and>
          n' = n + (if c' = c \<and> t' = t \<and> f \<in> set queried then 1 else 0))"
proof (cases "check_budget A policy (disk_count (get_or [] (get_or [] b c) t)) queried")
  case None
  then have ok: "list_all (\<lambda>j. \<not> cell_ge (disk_count (get_or [] (get_or [] b c) t) j) (fst (query_limit A policy j))) queried"
    by (simp add: check_budget_None)
  have ub: "ub = Some (AList.update c (AList.update t (fold bump_disk queried (get_or [] (get_or [] b c) t)) (get_or [] b c)) b)"
    and r: "r = None"
    using assms(1) None by (auto simp: charge_disk_budget_def Let_def)
  show ?thesis
  proof (cases "c' = c \<and> t' = t")
    case True
    then have "disk_count (get_or [] (get_or [] b c) t) f = Num n"
      using assms(5) by (simp add: stored_count_def)
    from disk_counters.charge_step [OF assms(3,2) ok _ this assms(6)] True assms(4)
    show ?thesis by (auto simp: ub r stored_count_def)
  next
    case False
    then show ?thesis using assms(5,6) by (auto simp: ub r stored_count_def)
  qed
next
  case (Some e)
  show ?thesis using assms(1) by (auto simp: charge_disk_budget_def Let_def Some)
qed

lemma persistent_charge:
  assumes "execute_with_budget_lock parse render env p (charge_disk_budget A policy c t queried) disk = (res, disk')"
    and "faithful_file parse render" and "distinct queried" and "\<not> inherited_name f" and "\<not> unsafe_key c'"
    and "c' = c \<and> t' = t \<and> f \<in> set queried \<longrightarrow> fst (query_limit A policy f) \<le> L"
    and "file_count parse disk p c' t' f = Num n" and "n \<le> max 0 L"
  shows "\<exists>n'. file_count parse disk' p c' t' f = Num n' \<and> n' \<le> max 0 L \<and>
      n' = n + (if res = Inr None \<and> c' = c \<and> t' = t \<and> f \<in> set queried then 1 else 0)"
proof -
  let ?b = "get_persistent_budget parse disk p"
  obtain r ub where ch: "charge_disk_budget A policy c t queried ?b = (r, ub)"
    by (cases "charge_disk_budget A policy c t queried ?b")
  note step = charge_disk [OF ch assms(3,4,6) assms(7) [unfolded file_count_def] assms(8)]
  show ?thesis
  proof (cases "acquire_lock (fe_lock env) 0")
    case locked: None
    show ?thesis
    proof (cases ub)
      case None
      then show ?thesis
        using assms(1,7,8) step by (auto simp: execute_with_budget_lock_def locked ch)
    next
      case (Some u)
      then show ?thesis
        using assms(1,5,7,8) step
        by (auto simp: execute_with_budget_lock_def locked ch file_count_save [OF assms(2)]
            split: option.splits)
    qed
  next
    case (Some e)
    then show ?thesis using assms(1,7,8) by (auto simp: execute_with_budget_lock_def)
  qed
qed

section \<open>Several servers and one file\<close>

text \<open>Queries one after another, each with what the file system does for it; the theory \<open>BudgetRace\<close> lets the
  steps of the servers interleave.\<close>

record budget_query =
  bq_server :: nat
  bq_env :: fs_env
  bq_policy :: "execution_policy option"
  bq_client :: string
  bq_tool :: string
  bq_queried :: "string list"

type_synonym 'file fleet = "(nat \<Rightarrow> memory_budget) \<times> 'file disk"

fun fleet_run ::
    "analyzer \<Rightarrow> ('file \<Rightarrow> disk_budget option) \<Rightarrow> (disk_budget \<Rightarrow> 'file) \<Rightarrow> string option
       \<Rightarrow> budget_query list \<Rightarrow> 'file fleet \<Rightarrow> (budget_query \<times> string option) list" where
  "fleet_run A parse render configured [] (mems, disk) = []"
| "fleet_run A parse render configured (q # qs) (mems, disk) =
     (case enforce_budget A parse render (bq_env q) configured (bq_policy q) (bq_client q) (bq_tool q)
             (bq_queried q) (mems (bq_server q), disk) of
        (r, mem', disk') \<Rightarrow>
          (q, r) # fleet_run A parse render configured qs (mems(bq_server q := mem'), disk'))"

fun charged :: "string \<Rightarrow> string \<Rightarrow> string \<Rightarrow> budget_query \<times> string option \<Rightarrow> bool" where
  "charged c t f (q, r) = (r = None \<and> bq_client q = c \<and> bq_tool q = t \<and> f \<in> set (bq_queried q))"

definition accepts :: "string \<Rightarrow> string \<Rightarrow> string \<Rightarrow> (budget_query \<times> string option) list \<Rightarrow> nat" where
  "accepts c t f out = length (filter (charged c t f) out)"

lemma accepts_simps [simp]:
  "accepts c t f [] = 0"
  "accepts c t f ((q, r) # out) =
     (if r = None \<and> bq_client q = c \<and> bq_tool q = t \<and> f \<in> set (bq_queried q) then 1 else 0) + accepts c t f out"
  by (simp_all add: accepts_def)

definition query_ok :: "analyzer \<Rightarrow> string \<Rightarrow> string \<Rightarrow> string \<Rightarrow> int \<Rightarrow> budget_query \<Rightarrow> bool" where
  "query_ok A c t f L q \<longleftrightarrow> distinct (bq_queried q) \<and>
     (c = bq_client q \<and> t = bq_tool q \<and> f \<in> set (bq_queried q) \<longrightarrow> fst (query_limit A (bq_policy q) f) \<le> L)"

text \<open>The lock is obtained within the 100 attempts and the write succeeds.\<close>

definition env_works :: "fs_env \<Rightarrow> bool" where
  "env_works env \<longleftrightarrow> acquire_lock (fe_lock env) 0 = None \<and> fe_save env = None"

lemma env_works_Inr:
  "env_works env \<Longrightarrow> \<exists>r disk'. execute_with_budget_lock parse render env p action disk = (Inr r, disk')"
  by (auto simp: env_works_def execute_with_budget_lock_def split: prod.split option.split)

lemma memory_only_bound:
  assumes "list_all (\<lambda>q. query_ok A c t f L q \<and> budget_store (bq_policy q) configured = None \<and> bq_server q = i) qs"
    and "memory_count (mems i) c t f \<le> max 0 L"
  shows "int (accepts c t f (fleet_run A parse render configured qs (mems, disk)))
           \<le> max 0 L - memory_count (mems i) c t f"
  using assms
proof (induction qs arbitrary: mems)
  case (Cons q qs)
  obtain r mem' where ap: "apply_in_memory_budget A (bq_policy q) (bq_client q) (bq_tool q) (bq_queried q) (mems i) = (r, mem')"
    by (cases "apply_in_memory_budget A (bq_policy q) (bq_client q) (bq_tool q) (bq_queried q) (mems i)")
  have d: "distinct (bq_queried q)"
    and lm: "c = bq_client q \<and> t = bq_tool q \<and> f \<in> set (bq_queried q) \<longrightarrow> fst (query_limit A (bq_policy q) f) \<le> L"
    using Cons.prems(1) by (simp_all add: query_ok_def)
  have b: "memory_count mem' c t f \<le> max 0 L"
    by (rule memory_charge_bound [OF ap d lm Cons.prems(2)])
  have "int (accepts c t f (fleet_run A parse render configured qs (mems(i := mem'), disk)))
      \<le> max 0 L - memory_count mem' c t f"
    by (rule order_trans [OF Cons.IH]) (use Cons.prems(1) b in simp_all)
  then show ?case
    using Cons.prems(1) ap memory_charge [OF ap d, of c t f] by (auto simp: enforce_budget_def)
qed simp

lemma shared_file_bound:
  assumes "faithful_file parse render" and "\<not> inherited_name f" and "\<not> unsafe_key c"
    and "list_all (\<lambda>q. query_ok A c t f L q \<and> budget_store (bq_policy q) configured = Some p \<and> env_works (bq_env q)) qs"
    and "file_count parse disk p c t f = Num n" and "n \<le> max 0 L"
  shows "int (accepts c t f (fleet_run A parse render configured qs (mems, disk))) \<le> max 0 L - n"
  using assms(4-6)
proof (induction qs arbitrary: mems disk n)
  case (Cons q qs)
  obtain r disk' where ex: "execute_with_budget_lock parse render (bq_env q) p
      (charge_disk_budget A (bq_policy q) (bq_client q) (bq_tool q) (bq_queried q)) disk = (Inr r, disk')"
    using Cons.prems(1) env_works_Inr [of "bq_env q"] by fastforce
  have d: "distinct (bq_queried q)"
    and lm: "c = bq_client q \<and> t = bq_tool q \<and> f \<in> set (bq_queried q) \<longrightarrow> fst (query_limit A (bq_policy q) f) \<le> L"
    using Cons.prems(1) by (simp_all add: query_ok_def)
  from persistent_charge [OF ex assms(1) d assms(2,3) lm Cons.prems(2,3)] obtain n' where
    n': "file_count parse disk' p c t f = Num n'" "n' \<le> max 0 L"
      "n' = n + (if r = None \<and> c = bq_client q \<and> t = bq_tool q \<and> f \<in> set (bq_queried q) then 1 else 0)"
    by auto
  have "int (accepts c t f (fleet_run A parse render configured qs (mems(bq_server q := mems (bq_server q)), disk')))
      \<le> max 0 L - n'"
    by (rule Cons.IH) (use Cons.prems(1) n' in simp_all)
  then show ?case
    using Cons.prems(1) n'(3) by (auto simp: enforce_budget_def ex)
qed simp

text \<open>What may still be accepted: the rest of the file's count, and of the count every server
  keeps in memory for the times the file cannot be used.\<close>

definition total_quota :: "nat \<Rightarrow> int \<Rightarrow> (nat \<Rightarrow> memory_budget) \<Rightarrow> string \<Rightarrow> string \<Rightarrow> string \<Rightarrow> int" where
  "total_quota N L mems c t f = (\<Sum>i<N. max 0 L - memory_count (mems i) c t f)"

lemma total_quota_upd:
  "i < N \<Longrightarrow> total_quota N L (mems(i := m)) c t f =
     total_quota N L mems c t f + memory_count (mems i) c t f - memory_count m c t f"
  by (simp add: total_quota_def sum.remove [of "{..<N}" i] algebra_simps)

lemma fallback_bound:
  assumes "faithful_file parse render" and "\<not> inherited_name f" and "\<not> unsafe_key c"
    and "list_all (\<lambda>q. query_ok A c t f L q \<and> budget_store (bq_policy q) configured = Some p \<and> bq_server q < N) qs"
    and "file_count parse disk p c t f = Num n" and "n \<le> max 0 L"
    and "\<forall>i. memory_count (mems i) c t f \<le> max 0 L"
  shows "int (accepts c t f (fleet_run A parse render configured qs (mems, disk)))
           \<le> max 0 L - n + total_quota N L mems c t f"
  using assms(4-7)
proof (induction qs arbitrary: mems disk n)
  case Nil
  then have "0 \<le> total_quota N L mems c t f" by (auto simp: total_quota_def intro: sum_nonneg)
  with Nil show ?case by simp
next
  case (Cons q qs)
  obtain res disk' where ex: "execute_with_budget_lock parse render (bq_env q) p
      (charge_disk_budget A (bq_policy q) (bq_client q) (bq_tool q) (bq_queried q)) disk = (res, disk')"
    by (cases "execute_with_budget_lock parse render (bq_env q) p
      (charge_disk_budget A (bq_policy q) (bq_client q) (bq_tool q) (bq_queried q)) disk")
  have d: "distinct (bq_queried q)"
    and lm: "c = bq_client q \<and> t = bq_tool q \<and> f \<in> set (bq_queried q) \<longrightarrow> fst (query_limit A (bq_policy q) f) \<le> L"
    and i: "bq_server q < N" and st: "budget_store (bq_policy q) configured = Some p"
    using Cons.prems(1) by (simp_all add: query_ok_def)
  from persistent_charge [OF ex assms(1) d assms(2,3) lm Cons.prems(2,3)] obtain n' where
    n': "file_count parse disk' p c t f = Num n'" "n' \<le> max 0 L"
      "n' = n + (if res = Inr None \<and> c = bq_client q \<and> t = bq_tool q \<and> f \<in> set (bq_queried q) then 1 else 0)"
    by auto
  show ?case
  proof (cases res)
    case (Inr r)
    have "int (accepts c t f (fleet_run A parse render configured qs (mems(bq_server q := mems (bq_server q)), disk')))
        \<le> max 0 L - n' + total_quota N L (mems(bq_server q := mems (bq_server q))) c t f"
      by (rule Cons.IH) (use Cons.prems n' in simp_all)
    then show ?thesis using Cons.prems(1) n'(3) by (auto simp: enforce_budget_def ex Inr)
  next
    case (Inl e)
    obtain r mem' where ap: "apply_in_memory_budget A (bq_policy q) (bq_client q) (bq_tool q) (bq_queried q)
        (mems (bq_server q)) = (r, mem')"
      by (cases "apply_in_memory_budget A (bq_policy q) (bq_client q) (bq_tool q) (bq_queried q) (mems (bq_server q))")
    have "int (accepts c t f (fleet_run A parse render configured qs (mems(bq_server q := mem'), disk')))
        \<le> max 0 L - n' + total_quota N L (mems(bq_server q := mem')) c t f"
    proof (rule Cons.IH)
      show "\<forall>i. memory_count ((mems(bq_server q := mem')) i) c t f \<le> max 0 L"
        using memory_charge_bound [OF ap d lm] Cons.prems(4) by auto
    qed (use Cons.prems(1) n' in simp_all)
    then show ?thesis
      using st n'(3) memory_charge [OF ap d, of c t f]
      by (auto simp: enforce_budget_def ex Inl ap total_quota_upd [OF i])
  qed
qed

section \<open>Fields and locks\<close>

lemma distinct_set_add [simp]: "distinct xs \<Longrightarrow> distinct (set_add x xs)"
  by (simp add: set_add_def)

lemma extract_queried_fields_distinct: "distinct (extract_queried_fields parseAst walk logic)"
proof -
  have "distinct fs \<Longrightarrow> distinct (fold (visit_field rb) ns fs)" for rb ns fs
  proof (induction ns arbitrary: fs)
    case (Cons n ns)
    have "distinct (visit_field rb n fs)"
      using Cons.prems by (simp add: visit_field_def Let_def split: node.split)
    then show ?case by (simp add: Cons.IH)
  qed simp
  then show ?thesis by (simp add: extract_queried_fields_def split: option.split)
qed

lemma acquire_lock_iff:
  "k \<le> 100 \<Longrightarrow> acquire_lock outcome k = None \<longleftrightarrow>
     (\<exists>n. k \<le> n \<and> n < 100 \<and> outcome n = Acquired \<and> (\<forall>j. k \<le> j \<and> j < n \<longrightarrow> outcome j = LockExists))"
proof (induction outcome k rule: acquire_lock.induct)
  case (1 outcome k)
  show ?case
  proof (cases "k < 100")
    case lt: True
    show ?thesis
    proof (cases "outcome k")
      case Acquired
      then show ?thesis using lt by (auto simp: acquire_lock.simps [of outcome k] intro: exI [of _ k])
    next
      case LockExists
      have "acquire_lock outcome k = acquire_lock outcome (k + 1)"
        using lt LockExists by (simp add: acquire_lock.simps [of outcome k])
      also have "(acquire_lock outcome (k + 1) = None) \<longleftrightarrow>
          (\<exists>n. k + 1 \<le> n \<and> n < 100 \<and> outcome n = Acquired \<and> (\<forall>j. k + 1 \<le> j \<and> j < n \<longrightarrow> outcome j = LockExists))"
        using "1.IH" [OF lt LockExists] lt by simp
      also have "\<dots> \<longleftrightarrow> (\<exists>n. k \<le> n \<and> n < 100 \<and> outcome n = Acquired \<and> (\<forall>j. k \<le> j \<and> j < n \<longrightarrow> outcome j = LockExists))"
        using LockExists
        by (metis Suc_eq_plus1 Suc_leD le_neq_implies_less lock_outcome.distinct(1) not_less_eq_eq less_eq_Suc_le)
      finally show ?thesis .
    next
      case (LockFailed e)
      then have "acquire_lock outcome k \<noteq> None"
        using lt by (simp add: acquire_lock.simps [of outcome k])
      moreover have "\<not> (\<exists>n. k \<le> n \<and> n < 100 \<and> outcome n = Acquired \<and> (\<forall>j. k \<le> j \<and> j < n \<longrightarrow> outcome j = LockExists))"
        using LockFailed by (metis le_neq_implies_less lock_outcome.distinct(3,5) order_refl)
      ultimately show ?thesis by blast
    qed
  next
    case False
    then show ?thesis using "1.prems" by (auto simp: acquire_lock.simps [of outcome 100])
  qed
qed

section \<open>Properties\<close>

text \<open>Without a persistent store, one server accepts at most the limit of queries that touch
  a field through a tool for a client, whatever the other queries are.\<close>

theorem memory_budget_bound:
  assumes "list_all (\<lambda>q. query_ok A c t f L q \<and> budget_store (bq_policy q) configured = None \<and> bq_server q = i) qs"
    and "0 \<le> L"
  shows "int (accepts c t f (fleet_run A parse render configured qs (\<lambda>i. [], disk))) \<le> L"
  using memory_only_bound [OF assms(1), of "\<lambda>i. []"] assms(2) by (simp add: memory_count_def)

text \<open>An analyzer with one forbidden field, and its queries from one client through one tool.\<close>

definition plain_env :: fs_env where
  "plain_env = \<lparr>fe_lock = (\<lambda>n. if n = 2 then Acquired else LockExists), fe_save = None\<rparr>"

definition contended_env :: fs_env where
  "contended_env = \<lparr>fe_lock = (\<lambda>n. LockExists), fe_save = None\<rparr>"

definition salary_query :: "nat \<Rightarrow> fs_env \<Rightarrow> budget_query" where
  "salary_query server env = \<lparr>bq_server = server, bq_env = env, bq_policy = Some (no_policy\<lparr>lp_queryBudgetPerField := Some 2\<rparr>),
     bq_client = ''c'', bq_tool = ''t'', bq_queried = [''age'', ''salary'']\<rparr>"

definition no_analyzer :: analyzer where
  "no_analyzer = new_analyzer [] []"

lemma salary_query_limit: "fst (query_limit no_analyzer (Some (no_policy\<lparr>lp_queryBudgetPerField := Some 2\<rparr>)) f) = 2"
  by (simp add: query_limit_def Let_def)

lemma salary_query_sel [simp]:
  "bq_server (salary_query s e) = s" "bq_env (salary_query s e) = e" "bq_client (salary_query s e) = ''c''"
  "bq_tool (salary_query s e) = ''t''" "bq_queried (salary_query s e) = [''age'', ''salary'']"
  "bq_policy (salary_query s e) = Some (no_policy\<lparr>lp_queryBudgetPerField := Some 2\<rparr>)"
  by (simp_all add: salary_query_def)

lemma salary_query_ok: "query_ok no_analyzer ''c'' ''t'' ''salary'' 2 (salary_query s e)"
  by (simp add: query_ok_def salary_query_limit)

lemma salary_query_store:
  "budget_store (bq_policy (salary_query s e)) (Some ''b.json'') = Some ''b.json''"
  "budget_store (bq_policy (salary_query s e)) None = None"
  by (simp_all add: budget_store_def truthy_string_def no_policy_def)

theorem memory_budget_bound_witness:
  "int (accepts ''c'' ''t'' ''salary'' (fleet_run no_analyzer Some id None
      [salary_query 0 plain_env, salary_query 0 plain_env, salary_query 0 plain_env] (\<lambda>i. [], \<lambda>p. None))) \<le> 2"
proof -
  have "list_all (\<lambda>q. query_ok no_analyzer ''c'' ''t'' ''salary'' 2 q \<and> budget_store (bq_policy q) None = None \<and>
      bq_server q = 0) [salary_query 0 plain_env, salary_query 0 plain_env, salary_query 0 plain_env]"
    by (simp add: salary_query_ok salary_query_store [simplified])
  from memory_budget_bound [OF this] show ?thesis by (simp del: fleet_run.simps)
qed

text \<open>Servers that share a budget file and query one after another, when each obtains the lock and writes the file,
  accept together at most the limit of queries that touch a field through a tool for a client.\<close>

theorem shared_budget_bound:
  assumes "faithful_file parse render" and "\<not> inherited_name f" and "\<not> unsafe_key c"
    and "list_all (\<lambda>q. query_ok A c t f L q \<and> budget_store (bq_policy q) configured = Some p \<and> env_works (bq_env q)) qs"
    and "disk p = None" and "0 \<le> L"
  shows "int (accepts c t f (fleet_run A parse render configured qs (mems, disk))) \<le> L"
proof -
  have "file_count parse disk p c t f = Num 0"
    using assms(2,5) by (simp add: file_count_def get_persistent_budget_def stored_count_def disk_count_def)
  from shared_file_bound [OF assms(1-4) this] assms(6) show ?thesis by simp
qed

lemma plain_env_works: "env_works plain_env"
  by (simp add: env_works_def plain_env_def acquire_lock.simps)

lemma faithful_id: "faithful_file Some id"
  by (simp add: faithful_file_def)

lemma salary_plain: "\<not> inherited_name ''salary''" "\<not> unsafe_key ''c''"
  by (simp_all add: inherited_name_def object_prototype_def unsafe_key_def)

theorem shared_budget_bound_witness:
  "int (accepts ''c'' ''t'' ''salary'' (fleet_run no_analyzer Some id (Some ''b.json'')
      [salary_query 0 plain_env, salary_query 1 plain_env, salary_query 0 plain_env] (\<lambda>i. [], \<lambda>p. None))) \<le> 2"
proof -
  have "list_all (\<lambda>q. query_ok no_analyzer ''c'' ''t'' ''salary'' 2 q \<and>
      budget_store (bq_policy q) (Some ''b.json'') = Some ''b.json'' \<and> env_works (bq_env q))
      [salary_query 0 plain_env, salary_query 1 plain_env, salary_query 0 plain_env]"
    by (simp add: salary_query_ok salary_query_store [simplified] plain_env_works)
  from shared_budget_bound [OF faithful_id salary_plain this, of "\<lambda>p. None" "\<lambda>i. []"]
  show ?thesis by (simp del: fleet_run.simps)
qed

text \<open>When the lock or the write may fail the budget falls back on the memory of the server,
  so \<open>N\<close> servers accept up to \<open>N + 1\<close> times the limit, and no more.\<close>

theorem fallback_budget_bound:
  assumes "faithful_file parse render" and "\<not> inherited_name f" and "\<not> unsafe_key c"
    and "list_all (\<lambda>q. query_ok A c t f L q \<and> budget_store (bq_policy q) configured = Some p \<and> bq_server q < N) qs"
    and "disk p = None" and "0 \<le> L"
  shows "int (accepts c t f (fleet_run A parse render configured qs (\<lambda>i. [], disk))) \<le> (int N + 1) * L"
proof -
  have "file_count parse disk p c t f = Num 0"
    using assms(2,5) by (simp add: file_count_def get_persistent_budget_def stored_count_def disk_count_def)
  from fallback_bound [OF assms(1-4) this, of "\<lambda>i. []"] assms(6) show ?thesis
    by (simp add: memory_count_def total_quota_def algebra_simps)
qed

theorem fallback_budget_bound_witness:
  "int (accepts ''c'' ''t'' ''salary'' (fleet_run no_analyzer Some id (Some ''b.json'')
      [salary_query 0 plain_env, salary_query 1 contended_env] (\<lambda>i. [], \<lambda>p. None))) \<le> (int 2 + 1) * 2"
proof -
  have "list_all (\<lambda>q. query_ok no_analyzer ''c'' ''t'' ''salary'' 2 q \<and>
      budget_store (bq_policy q) (Some ''b.json'') = Some ''b.json'' \<and> bq_server q < 2)
      [salary_query 0 plain_env, salary_query 1 contended_env]"
    by (simp add: salary_query_ok salary_query_store [simplified])
  from fallback_budget_bound [OF faithful_id salary_plain this, of "\<lambda>p. None"]
  show ?thesis by (simp del: fleet_run.simps)
qed

text \<open>\<open>runPreflightPolicy\<close> without a persistent store: a rejected source charges nothing; an
  accepted one passed the patterns and the taint analysis and charges one query on exactly the
  fields it reads, for this client and this tool.\<close>

theorem preflight_charges_exactly:
  assumes "budget_store policy configured = None"
    and "run_preflight_policy A parseAst walk parse render env configured n t logic policy c (mem, disk) = (r, mem', disk')"
  shows "disk' = disk \<and>
     memory_count mem' c' t' f = memory_count mem c' t' f +
       (if r = None \<and> c' = c \<and> t' = t \<and> f \<in> set (extract_queried_fields parseAst walk logic) then 1 else 0) \<and>
     (pattern_rejection policy logic = None \<and>
        analyze A parseAst walk logic (Some n) (min_max_threshold policy) = None \<or> r \<noteq> None)"
proof (cases "pattern_rejection policy logic = None \<and>
    analyze A parseAst walk logic (Some n) (min_max_threshold policy) = None \<and>
    extract_queried_fields parseAst walk logic \<noteq> [] \<and> \<not> unsafe_key c \<and> \<not> unsafe_key t")
  case True
  then have "apply_in_memory_budget A policy c t (extract_queried_fields parseAst walk logic) mem = (r, mem')"
    and "disk' = disk"
    using assms by (auto simp: run_preflight_policy_def enforce_budget_def Let_def split: prod.splits)
  with memory_charge [OF this(1) extract_queried_fields_distinct] True show ?thesis by simp
next
  case False
  then show ?thesis
    using assms by (auto simp: run_preflight_policy_def Let_def split: option.splits if_splits)
qed

theorem preflight_charges_exactly_witness:
  "case run_preflight_policy no_analyzer (\<lambda>s. None) walk_post Some id plain_env None 9 ''t'' ''return 1''
          None ''c'' ([], \<lambda>p. None) of
     (r, mem', disk') \<Rightarrow> memory_count mem' ''c'' ''t'' ''salary'' = 0"
proof -
  obtain r mem' disk' where run: "run_preflight_policy no_analyzer (\<lambda>s. None) walk_post Some id plain_env None 9
      ''t'' ''return 1'' None ''c'' ([], \<lambda>p. None) = (r, mem', disk')"
    using prod_cases3 by blast
  have "extract_queried_fields (\<lambda>s. None) walk_post ''return 1'' = []"
    by (simp add: extract_queried_fields_def)
  with preflight_charges_exactly [OF _ run, of "''c''" "''t''" "''salary''"] show ?thesis
    by (simp add: run budget_store_def truthy_string_def memory_count_def)
qed

text \<open>A field named like a member of \<open>Object.prototype\<close> never exhausts its persistent budget:
  its count is not a number from the start and stays so.\<close>

theorem inherited_field_never_exhausted:
  assumes "inherited_name f" and "stored_count b c t f = NotANumber"
  shows "\<exists>u. charge_disk_budget A policy c t [f] b = (None, Some u) \<and> stored_count u c t f = NotANumber \<and>
             stored_count [] c t f = NotANumber"
  using assms by (auto simp: charge_disk_budget_def Let_def stored_count_def disk_count_def bump_disk_def
      split: option.splits)

theorem inherited_field_never_exhausted_witness:
  "\<exists>u. charge_disk_budget no_analyzer None ''c'' ''t'' [''constructor''] [] = (None, Some u) \<and>
     stored_count u ''c'' ''t'' ''constructor'' = NotANumber \<and> stored_count [] ''c'' ''t'' ''constructor'' = NotANumber"
  by (rule inherited_field_never_exhausted)
    (simp_all add: inherited_name_def object_prototype_def stored_count_def disk_count_def)

text \<open>Resetting a client clears its counts in memory and in the configured file; the file
  named by a tool's own policy is not touched.\<close>

theorem reset_clears_configured_store_only:
  assumes "faithful_file parse render" and "\<not> unsafe_key c" and "\<not> inherited_name f"
    and "truthy_string configured = Some p" and "env_works env"
    and "reset_field_budget parse render env configured c None (mem, disk) = (mem', disk')"
  shows "memory_count mem' c t f = 0 \<and> file_count parse disk' p c t f = Num 0 \<and>
         (c' \<noteq> c \<longrightarrow> memory_count mem' c' t f = memory_count mem c' t f) \<and>
         (\<forall>q. q \<noteq> p \<longrightarrow> disk' q = disk q)"
proof -
  have disk': "disk' = save_persistent_budget render p (AList.delete c (get_persistent_budget parse disk p)) disk"
    and mem': "mem' = AList.delete c mem"
    using assms(2,4-6)
    by (auto simp: reset_field_budget_def truthy_string_def execute_with_budget_lock_def reset_disk_def
        reset_memory_def env_works_def)
  show ?thesis
    using assms(3)
    by (simp add: disk' mem' memory_count_def file_count_save [OF assms(1,2)])
      (simp add: stored_count_def disk_count_def save_persistent_budget_def)
qed

theorem reset_clears_configured_store_only_witness:
  "case reset_field_budget Some id plain_env (Some ''b.json'') ''c'' None
       ([(''c'', [(''t'', [(''salary'', 2)])])],
        [''b.json'' \<mapsto> [(''c'', [(''t'', [(''salary'', Num 3)])])], ''p.json'' \<mapsto> [(''c'', [(''t'', [(''salary'', Num 3)])])]]) of
     (mem', disk') \<Rightarrow> file_count Some disk' ''b.json'' ''c'' ''t'' ''salary'' = Num 0 \<and>
        disk' ''p.json'' = Some [(''c'', [(''t'', [(''salary'', Num 3)])])]"
proof -
  let ?disk = "[''b.json'' \<mapsto> [(''c'', [(''t'', [(''salary'', Num 3)])])], ''p.json'' \<mapsto> [(''c'', [(''t'', [(''salary'', Num 3)])])]]"
  obtain mem' disk' where run: "reset_field_budget Some id plain_env (Some ''b.json'') ''c'' None
       ([(''c'', [(''t'', [(''salary'', 2)])])], ?disk) = (mem', disk')"
    by fastforce
  from reset_clears_configured_store_only [OF faithful_id _ _ _ plain_env_works run, of "''salary''" "''b.json''"]
  show ?thesis by (simp add: run salary_plain truthy_string_def)
qed

text \<open>The lock is obtained exactly when one of the first 100 attempts creates the lock file
  and every attempt before it found the file of another holder.\<close>

theorem lock_acquired_iff:
  "acquire_lock outcome 0 = None \<longleftrightarrow>
     (\<exists>n<100. outcome n = Acquired \<and> list_all (\<lambda>j. outcome j = LockExists) [0..<n])"
  by (simp add: acquire_lock_iff list_all_iff Ball_def)

end
