(* ===== verification/BudgetRace.thy ===== *)
theory BudgetRace
  imports BudgetClaims
begin

text \<open>
  Several servers that charge one budget file at the same time (\<open>executeWithBudgetLock\<close>,
  \<open>getPersistentBudget\<close>, \<open>savePersistentBudget\<close> of \<open>server/index.ts\<close>): the attempts to create the lock
  file, the read, the write and the removal of the lock are steps of their own, and the steps of
  different servers interleave in any order. A server is a process: it handles one query at a time. Creating the lock
  file exclusively and renaming the written file are atomic; every step may fail, and a process may stop at any point,
  leaving its lock behind.
\<close>

section \<open>The steps of a server\<close>

text \<open>Where a server is: without a query, at the n-th attempt to create the lock file, in possession of it, with
  the budget it read, with a charged budget to write, about to remove the lock (after which a query whose write failed
  falls back on the memory), or stopped.\<close>

datatype server_phase =
    Waiting
  | Trying budget_query nat
  | Holding budget_query
  | Charging budget_query disk_budget
  | Writing budget_query disk_budget
  | Releasing "budget_query option"
  | Halted

text \<open>Whether the accepted charge was made in the file or in the memory of the server.\<close>

datatype charge_place = InFile | InMemory

record 'file race =
  ra_disk :: "'file disk"
  ra_locked :: bool                                       \<comment> \<open>the lock file exists\<close>
  ra_phase :: "nat \<Rightarrow> server_phase"
  ra_memory :: "nat \<Rightarrow> memory_budget"
  ra_log :: "(charge_place \<times> budget_query \<times> string option) list"

definition at_phase :: "nat \<Rightarrow> server_phase \<Rightarrow> 'file race \<Rightarrow> 'file race" where
  "at_phase i ph R = R\<lparr>ra_phase := (ra_phase R)(i := ph)\<rparr>"

definition log_answer :: "charge_place \<Rightarrow> budget_query \<Rightarrow> string option \<Rightarrow> 'file race \<Rightarrow> 'file race" where
  "log_answer pl q r R = R\<lparr>ra_log := (pl, q, r) # ra_log R\<rparr>"

text \<open>The exception of the lock or of the write: the budget falls back on the memory.\<close>

definition fall_back :: "analyzer \<Rightarrow> nat \<Rightarrow> budget_query \<Rightarrow> 'file race \<Rightarrow> 'file race" where
  "fall_back A i q R =
     (case apply_in_memory_budget A (bq_policy q) (bq_client q) (bq_tool q) (bq_queried q) (ra_memory R i) of
        (r, mem) \<Rightarrow> log_answer InMemory q r (R\<lparr>ra_memory := (ra_memory R)(i := mem)\<rparr>))"

text \<open>The callback on the budget that was read: a rejected query is answered, an accepted one has a budget to write.\<close>

definition charge_read :: "analyzer \<Rightarrow> nat \<Rightarrow> budget_query \<Rightarrow> disk_budget \<Rightarrow> 'file race \<Rightarrow> 'file race" where
  "charge_read A i q b R =
     (case charge_disk_budget A (bq_policy q) (bq_client q) (bq_tool q) (bq_queried q) b of
        (r, None) \<Rightarrow> log_answer InFile q r (at_phase i (Releasing None) R)
      | (r, Some u) \<Rightarrow> at_phase i (Writing q u) R)"

text \<open>After the lock was removed, or could not be.\<close>

definition released :: "analyzer \<Rightarrow> nat \<Rightarrow> budget_query option \<Rightarrow> 'file race \<Rightarrow> 'file race" where
  "released A i failed R = at_phase i Waiting (case failed of None \<Rightarrow> R | Some q \<Rightarrow> fall_back A i q R)"

definition max_retries :: nat where "max_retries = 100"

text \<open>A query is accepted by the server it is for, when the policy and the configuration name the file \<open>p\<close>. An attempt
  to create the lock finds it, or fails with another exception; after the last one the wait is over. The read finds
  the file as it is.\<close>

inductive race_step ::
    "analyzer \<Rightarrow> ('file \<Rightarrow> disk_budget option) \<Rightarrow> (disk_budget \<Rightarrow> 'file) \<Rightarrow> string option \<Rightarrow> string \<Rightarrow>
      (budget_query \<Rightarrow> bool) \<Rightarrow> 'file race \<Rightarrow> 'file race \<Rightarrow> bool"
  for A parse render configured p admitted where
  query: "ra_phase R i = Waiting \<Longrightarrow> admitted q \<Longrightarrow> bq_server q = i \<Longrightarrow> budget_store (bq_policy q) configured = Some p \<Longrightarrow>
     race_step A parse render configured p admitted R (at_phase i (Trying q 0) R)"
| acquire: "ra_phase R i = Trying q n \<Longrightarrow> n < max_retries \<Longrightarrow> \<not> ra_locked R \<Longrightarrow>
     race_step A parse render configured p admitted R (at_phase i (Holding q) (R\<lparr>ra_locked := True\<rparr>))"
| busy: "ra_phase R i = Trying q n \<Longrightarrow> n < max_retries \<Longrightarrow> ra_locked R \<Longrightarrow>
     race_step A parse render configured p admitted R (at_phase i (Trying q (Suc n)) R)"
| lock_fails: "ra_phase R i = Trying q n \<Longrightarrow> n < max_retries \<Longrightarrow>
     race_step A parse render configured p admitted R (at_phase i Waiting (fall_back A i q R))"
| lock_timeout: "ra_phase R i = Trying q n \<Longrightarrow> \<not> n < max_retries \<Longrightarrow>
     race_step A parse render configured p admitted R (at_phase i Waiting (fall_back A i q R))"
| read: "ra_phase R i = Holding q \<Longrightarrow>
     race_step A parse render configured p admitted R (at_phase i (Charging q (get_persistent_budget parse (ra_disk R) p)) R)"
| charge: "ra_phase R i = Charging q b \<Longrightarrow> race_step A parse render configured p admitted R (charge_read A i q b R)"
| store: "ra_phase R i = Writing q u \<Longrightarrow>
     race_step A parse render configured p admitted R
       (log_answer InFile q None (at_phase i (Releasing None) (R\<lparr>ra_disk := save_persistent_budget render p u (ra_disk R)\<rparr>)))"
| store_fails: "ra_phase R i = Writing q u \<Longrightarrow>
     race_step A parse render configured p admitted R (at_phase i (Releasing (Some q)) R)"
| release: "ra_phase R i = Releasing failed \<Longrightarrow>
     race_step A parse render configured p admitted R (released A i failed (R\<lparr>ra_locked := False\<rparr>))"
| release_fails: "ra_phase R i = Releasing failed \<Longrightarrow>
     race_step A parse render configured p admitted R (released A i failed R)"
| halt: "race_step A parse render configured p admitted R (at_phase i Halted R)"

inductive race_run ::
    "analyzer \<Rightarrow> ('file \<Rightarrow> disk_budget option) \<Rightarrow> (disk_budget \<Rightarrow> 'file) \<Rightarrow> string option \<Rightarrow> string \<Rightarrow>
      (budget_query \<Rightarrow> bool) \<Rightarrow> 'file race \<Rightarrow> 'file race \<Rightarrow> bool"
  for A parse render configured p admitted where
  start: "race_run A parse render configured p admitted R R"
| more: "race_run A parse render configured p admitted R S \<Longrightarrow> race_step A parse render configured p admitted S T \<Longrightarrow>
     race_run A parse render configured p admitted R T"

definition new_race :: "'file disk \<Rightarrow> 'file race" where
  "new_race disk = \<lparr>ra_disk = disk, ra_locked = False, ra_phase = (\<lambda>i. Waiting), ra_memory = (\<lambda>i. []), ra_log = []\<rparr>"

section \<open>The invariant\<close>

definition file_accepts :: "string \<Rightarrow> string \<Rightarrow> string \<Rightarrow> (charge_place \<times> budget_query \<times> string option) list \<Rightarrow> nat" where
  "file_accepts c t f out = accepts c t f (map snd (filter (\<lambda>e. fst e = InFile) out))"

definition memory_accepts ::
    "nat \<Rightarrow> string \<Rightarrow> string \<Rightarrow> string \<Rightarrow> (charge_place \<times> budget_query \<times> string option) list \<Rightarrow> nat" where
  "memory_accepts i c t f out = accepts c t f (map snd (filter (\<lambda>e. fst e = InMemory \<and> bq_server (fst (snd e)) = i) out))"

definition hit :: "string \<Rightarrow> string \<Rightarrow> string \<Rightarrow> budget_query \<Rightarrow> bool" where
  "hit c t f q \<longleftrightarrow> c = bq_client q \<and> t = bq_tool q \<and> f \<in> set (bq_queried q)"

lemma log_accepts:
  "file_accepts c t f ((pl, q, r) # out) = (if pl = InFile \<and> r = None \<and> hit c t f q then 1 else 0) + file_accepts c t f out"
  "memory_accepts i c t f ((pl, q, r) # out) =
     (if pl = InMemory \<and> bq_server q = i \<and> r = None \<and> hit c t f q then 1 else 0) + memory_accepts i c t f out"
  "file_accepts c t f [] = 0" "memory_accepts i c t f [] = 0"
  by (auto simp: file_accepts_def memory_accepts_def hit_def)

text \<open>The server owns the lock.\<close>

fun critical :: "server_phase \<Rightarrow> bool" where
  "critical (Holding q) = True" | "critical (Charging q b) = True" | "critical (Writing q u) = True"
| "critical (Releasing failed) = True" | "critical Waiting = False" | "critical (Trying q n) = False" | "critical Halted = False"

fun phase_query :: "server_phase \<Rightarrow> budget_query option" where
  "phase_query (Holding q) = Some q" | "phase_query (Charging q b) = Some q" | "phase_query (Writing q u) = Some q"
| "phase_query (Releasing failed) = failed" | "phase_query (Trying q n) = Some q" | "phase_query ph = None"

text \<open>What a server read, and what it is about to write, is from the file as it is now.\<close>

fun current :: "analyzer \<Rightarrow> disk_budget \<Rightarrow> server_phase \<Rightarrow> bool" where
  "current A now (Charging q b) = (b = now)"
| "current A now (Writing q u) =
     (charge_disk_budget A (bq_policy q) (bq_client q) (bq_tool q) (bq_queried q) now = (None, Some u))"
| "current A now ph = True"

definition owns_lock :: "'file race \<Rightarrow> bool" where
  "owns_lock R \<longleftrightarrow> (\<forall>i. critical (ra_phase R i) \<longrightarrow> ra_locked R \<and> (\<forall>j. critical (ra_phase R j) \<longrightarrow> j = i))"

definition sees_file :: "analyzer \<Rightarrow> ('file \<Rightarrow> disk_budget option) \<Rightarrow> string \<Rightarrow> 'file race \<Rightarrow> bool" where
  "sees_file A parse p R \<longleftrightarrow> (\<forall>i. current A (get_persistent_budget parse (ra_disk R) p) (ra_phase R i))"

definition serves :: "(budget_query \<Rightarrow> bool) \<Rightarrow> 'file race \<Rightarrow> bool" where
  "serves admitted R \<longleftrightarrow> (\<forall>i q. phase_query (ra_phase R i) = Some q \<longrightarrow> admitted q \<and> bq_server q = i)"

definition file_exact ::
    "('file \<Rightarrow> disk_budget option) \<Rightarrow> string \<Rightarrow> string \<Rightarrow> string \<Rightarrow> string \<Rightarrow> int \<Rightarrow> 'file race \<Rightarrow> bool" where
  "file_exact parse p c t f L R \<longleftrightarrow>
     file_count parse (ra_disk R) p c t f = Num (int (file_accepts c t f (ra_log R))) \<and>
     int (file_accepts c t f (ra_log R)) \<le> max 0 L"

definition memory_exact :: "string \<Rightarrow> string \<Rightarrow> string \<Rightarrow> int \<Rightarrow> 'file race \<Rightarrow> bool" where
  "memory_exact c t f L R \<longleftrightarrow>
     (\<forall>i. memory_count (ra_memory R i) c t f = int (memory_accepts i c t f (ra_log R)) \<and>
        int (memory_accepts i c t f (ra_log R)) \<le> max 0 L)"

section \<open>Every step keeps it\<close>

lemma at_phase_sel [simp]:
  "ra_phase (at_phase i ph R) = (ra_phase R)(i := ph)" "ra_disk (at_phase i ph R) = ra_disk R"
  "ra_locked (at_phase i ph R) = ra_locked R" "ra_memory (at_phase i ph R) = ra_memory R" "ra_log (at_phase i ph R) = ra_log R"
  by (simp_all add: at_phase_def)

lemma log_answer_sel [simp]:
  "ra_phase (log_answer pl q r R) = ra_phase R" "ra_disk (log_answer pl q r R) = ra_disk R"
  "ra_locked (log_answer pl q r R) = ra_locked R" "ra_memory (log_answer pl q r R) = ra_memory R"
  "ra_log (log_answer pl q r R) = (pl, q, r) # ra_log R"
  by (simp_all add: log_answer_def)

lemma fall_back_sel [simp]:
  "ra_phase (fall_back A i q R) = ra_phase R" "ra_disk (fall_back A i q R) = ra_disk R"
  "ra_locked (fall_back A i q R) = ra_locked R"
  "file_accepts c t f (ra_log (fall_back A i q R)) = file_accepts c t f (ra_log R)"
  by (simp_all add: fall_back_def log_accepts split: prod.split)

lemma released_sel [simp]:
  "ra_phase (released A i failed R) = (ra_phase R)(i := Waiting)" "ra_disk (released A i failed R) = ra_disk R"
  "ra_locked (released A i failed R) = ra_locked R"
  "file_accepts c t f (ra_log (released A i failed R)) = file_accepts c t f (ra_log R)"
  by (simp_all add: released_def split: option.split)

lemma charge_read_sel [simp]:
  "ra_disk (charge_read A i q b R) = ra_disk R" "ra_locked (charge_read A i q b R) = ra_locked R"
  "ra_memory (charge_read A i q b R) = ra_memory R"
  by (simp_all add: charge_read_def split: prod.split option.split)

lemma charged_None: "charge_disk_budget A policy c t queried b = (r, Some u) \<Longrightarrow> r = None"
  by (auto simp: charge_disk_budget_def Let_def split: option.splits)

lemma charge_read_phase:
  "\<exists>ph. ra_phase (charge_read A i q b R) = (ra_phase R)(i := ph) \<and> critical ph \<and>
     (\<forall>q'. phase_query ph = Some q' \<longrightarrow> q' = q) \<and> current A b ph"
proof (cases "charge_disk_budget A (bq_policy q) (bq_client q) (bq_tool q) (bq_queried q) b")
  case (Pair r ub)
  show ?thesis
  proof (cases ub)
    case None
    then show ?thesis by (intro exI [of _ "Releasing None"]) (simp add: charge_read_def Pair)
  next
    case (Some u)
    then show ?thesis
      using charged_None Pair by (intro exI [of _ "Writing q u"]) (auto simp: charge_read_def)
  qed
qed

lemma owns_lock_step:
  "race_step A parse render configured p admitted R T \<Longrightarrow> owns_lock R \<Longrightarrow> owns_lock T"
proof (induction rule: race_step.induct)
  case (charge R i q b)
  obtain ph where ph: "ra_phase (charge_read A i q b R) = (ra_phase R)(i := ph)" using charge_read_phase by blast
  have "critical (ra_phase R i)" by (simp add: charge.hyps)
  with charge.prems have "ra_locked R" "\<And>j. critical (ra_phase R j) \<Longrightarrow> j = i" by (auto simp: owns_lock_def)
  then show ?case by (auto simp: owns_lock_def ph)
qed (auto simp: owns_lock_def, (metis critical.simps)+)

lemma sees_file_step:
  "race_step A parse render configured p admitted R T \<Longrightarrow> owns_lock R \<Longrightarrow> sees_file A parse p R \<Longrightarrow> sees_file A parse p T"
proof (induction rule: race_step.induct)
  case (charge R i q b)
  obtain ph where ph: "ra_phase (charge_read A i q b R) = (ra_phase R)(i := ph)" "current A b ph" using charge_read_phase by blast
  have "b = get_persistent_budget parse (ra_disk R) p"
    using charge.hyps charge.prems(2) by (auto simp: sees_file_def dest: spec [of _ i])
  with charge.prems(2) ph show ?case by (auto simp: sees_file_def)
next
  case (store R i q u)
  have alone: "critical (ra_phase R j) \<Longrightarrow> j = i" for j
    using store.hyps store.prems(1) by (metis critical.simps(3) owns_lock_def)
  have "current A b ph" if "\<not> critical ph" for b ph using that by (cases ph) auto
  with alone show ?case by (auto simp: sees_file_def)
qed (auto simp: sees_file_def)

lemma serves_step:
  "race_step A parse render configured p admitted R T \<Longrightarrow> serves admitted R \<Longrightarrow> serves admitted T"
proof (induction rule: race_step.induct)
  case (charge R i q b)
  obtain ph where ph: "ra_phase (charge_read A i q b R) = (ra_phase R)(i := ph)" "\<forall>q'. phase_query ph = Some q' \<longrightarrow> q' = q"
    using charge_read_phase by blast
  have "admitted q \<and> bq_server q = i" using charge by (auto simp: serves_def dest: spec [of _ i])
  with charge.prems ph show ?case by (auto simp: serves_def split: if_splits)
qed (auto simp: serves_def, (metis phase_query.simps)+)

lemma file_exact_step:
  assumes "race_step A parse render configured p admitted R T" and "faithful_file parse render"
    and "\<not> inherited_name f" and "\<not> unsafe_key c" and "\<And>q. admitted q \<Longrightarrow> query_ok A c t f L q"
    and "sees_file A parse p R" and "serves admitted R" and "file_exact parse p c t f L R"
  shows "file_exact parse p c t f L T"
  using assms(1,6-8)
proof (induction rule: race_step.induct)
  case (charge R i q b)
  then show ?case
    by (auto simp: file_exact_def charge_read_def log_accepts charge_disk_budget_def Let_def split: option.splits)
next
  case (store R i q u)
  let ?now = "get_persistent_budget parse (ra_disk R) p" and ?n = "int (file_accepts c t f (ra_log R))"
  have "charge_disk_budget A (bq_policy q) (bq_client q) (bq_tool q) (bq_queried q) ?now = (None, Some u)" "admitted q"
    using store by (auto simp: sees_file_def serves_def dest: spec [of _ i])
  moreover have "query_ok A c t f L q" using assms(5) \<open>admitted q\<close> by blast
  ultimately have "\<exists>n'. stored_count u c t f = Num n' \<and> n' \<le> max 0 L \<and> n' = ?n + (if hit c t f q then 1 else 0)"
    using charge_disk [of A "bq_policy q" "bq_client q" "bq_tool q" "bq_queried q" ?now None "Some u" f c t L ?n] assms(3) store.prems(3)
    by (auto simp: query_ok_def hit_def file_exact_def file_count_def)
  then show ?case
    by (auto simp: file_exact_def log_accepts file_count_save [OF assms(2,4)])
qed (auto simp: file_exact_def)

lemma fall_back_exact:
  assumes "memory_exact c t f L R" and "query_ok A c t f L q" and "bq_server q = i"
  shows "memory_exact c t f L (fall_back A i q R)"
proof -
  obtain r mem where m: "apply_in_memory_budget A (bq_policy q) (bq_client q) (bq_tool q) (bq_queried q) (ra_memory R i) = (r, mem)"
    by (cases "apply_in_memory_budget A (bq_policy q) (bq_client q) (bq_tool q) (bq_queried q) (ra_memory R i)")
  have d: "distinct (bq_queried q)" and lim: "c = bq_client q \<and> t = bq_tool q \<and> f \<in> set (bq_queried q) \<longrightarrow> fst (query_limit A (bq_policy q) f) \<le> L"
    using assms(2) by (simp_all add: query_ok_def)
  have "memory_count mem c t f \<le> max 0 L"
    using memory_charge_bound [OF m d lim] assms(1) by (simp add: memory_exact_def)
  moreover have "memory_count mem c t f = memory_count (ra_memory R i) c t f + (if r = None \<and> hit c t f q then 1 else 0)"
    using memory_charge [OF m d, of c t f] by (simp add: hit_def)
  ultimately show ?thesis
    using assms(1,3) by (auto simp: memory_exact_def fall_back_def m log_accepts)
qed

lemma memory_exact_only: "ra_memory T = ra_memory R \<Longrightarrow> ra_log T = ra_log R \<Longrightarrow> memory_exact c t f L T = memory_exact c t f L R"
  by (simp add: memory_exact_def)

lemma memory_exact_at [simp]:
  "memory_exact c t f L (at_phase i ph R) = memory_exact c t f L R"
  "memory_exact c t f L (R\<lparr>ra_locked := b\<rparr>) = memory_exact c t f L R"
  "memory_exact c t f L (R\<lparr>ra_disk := d\<rparr>) = memory_exact c t f L R"
  "memory_exact c t f L (log_answer InFile q r R) = memory_exact c t f L R"
  by (simp_all add: memory_exact_def log_accepts)

lemma released_exact:
  "memory_exact c t f L R \<Longrightarrow> (\<And>q. failed = Some q \<Longrightarrow> query_ok A c t f L q \<and> bq_server q = i) \<Longrightarrow>
     memory_exact c t f L (released A i failed R)"
  by (cases failed) (auto simp: released_def intro: fall_back_exact)

lemma memory_exact_step:
  assumes "race_step A parse render configured p admitted R T" and "\<And>q. admitted q \<Longrightarrow> query_ok A c t f L q"
    and "serves admitted R" and "memory_exact c t f L R"
  shows "memory_exact c t f L T"
proof -
  have q: "query_ok A c t f L q \<and> bq_server q = i" if "phase_query (ra_phase R i) = Some q" for i q
    using assms(2,3) that by (auto simp: serves_def)
  show ?thesis
    using assms(1,4) q
  proof (induction rule: race_step.induct)
    case (charge R i q b)
    then show ?case by (simp add: charge_read_def split: prod.split option.split)
  next
    case (lock_fails R i q n)
    have "query_ok A c t f L q \<and> bq_server q = i" by (rule lock_fails.prems(2)) (simp add: lock_fails.hyps)
    with lock_fails.prems(1) show ?case by (simp add: fall_back_exact)
  next
    case (lock_timeout R i q n)
    have "query_ok A c t f L q \<and> bq_server q = i" by (rule lock_timeout.prems(2)) (simp add: lock_timeout.hyps)
    with lock_timeout.prems(1) show ?case by (simp add: fall_back_exact)
  next
    case (release R i failed)
    have "query_ok A c t f L q \<and> bq_server q = i" if "failed = Some q" for q
      by (rule release.prems(2)) (simp add: release.hyps that)
    with release.prems(1) show ?case by (simp add: released_exact)
  next
    case (release_fails R i failed)
    have "query_ok A c t f L q \<and> bq_server q = i" if "failed = Some q" for q
      by (rule release_fails.prems(2)) (simp add: release_fails.hyps that)
    with release_fails.prems(1) show ?case by (simp add: released_exact)
  qed simp_all
qed

section \<open>Properties\<close>

text \<open>C11: servers that charge one budget file at the same time, in whatever order their attempts to take the lock,
  reads, writes and removals of the lock interleave, whichever of them fail and whichever server stops, accept together
  through the file at most the limit of queries of a field for a client and a tool; and every server accepts at most
  the limit again from its own memory, where a charge falls back when the lock is not obtained or the write fails. So
  the limit holds for all together as long as nobody falls back. The file does not exist at first and JSON reads its
  counts back, it can be read while it exists and no budget is reset; the field is no name that objects inherit (for
  these the count is no number), and no query has a greater limit for it.\<close>

theorem shared_budget_race:
  assumes "race_run A parse render configured p admitted (new_race disk) R" and "faithful_file parse render"
    and "\<not> inherited_name f" and "\<not> unsafe_key c" and "\<And>q. admitted q \<Longrightarrow> query_ok A c t f L q"
    and "disk p = None" and "0 \<le> L"
  shows "int (file_accepts c t f (ra_log R)) \<le> L \<and> int (memory_accepts i c t f (ra_log R)) \<le> L \<and>
    file_count parse (ra_disk R) p c t f = Num (int (file_accepts c t f (ra_log R)))"
proof -
  let ?ok = "\<lambda>R. owns_lock R \<and> sees_file A parse p R \<and> serves admitted R \<and> file_exact parse p c t f L R \<and> memory_exact c t f L R"
  have "?ok T" if "race_run A parse render configured p admitted S T" "?ok S" for S T :: "'a race"
    using that
  proof (induction rule: race_run.induct)
    case (more R S T)
    then show ?case
      using owns_lock_step [OF more.hyps(2)] sees_file_step [OF more.hyps(2)] serves_step [OF more.hyps(2)]
        file_exact_step [OF more.hyps(2) assms(2-5)] memory_exact_step [OF more.hyps(2) assms(5)] by blast
  qed
  moreover have "?ok (new_race disk)"
    using assms(3,6) by (simp add: new_race_def owns_lock_def sees_file_def serves_def file_exact_def memory_exact_def log_accepts
        memory_count_def file_count_def get_persistent_budget_def stored_count_def disk_count_def)
  ultimately have "?ok R" using assms(1) by blast
  with assms(7) show ?thesis by (simp add: file_exact_def memory_exact_def)
qed

text \<open>Two servers query at the same time: while the first holds the lock the second finds it taken, then cannot
  create it at all and charges its own memory; the first charges the file.\<close>

abbreviation demo_step :: "disk_budget race \<Rightarrow> disk_budget race \<Rightarrow> bool" where
  "demo_step \<equiv> race_step no_analyzer Some id (Some ''b.json'') ''b.json'' (\<lambda>q. \<exists>i. q = salary_query i plain_env)"

lemma salary_memory_charge:
  "apply_in_memory_budget no_analyzer (Some (no_policy\<lparr>lp_queryBudgetPerField := Some 2\<rparr>)) ''c'' ''t'' [''age'', ''salary''] [] =
     (None, [(''c'', [(''t'', [(''age'', 1), (''salary'', 1)])])])"
  by (simp add: apply_in_memory_budget_def Let_def salary_query_limit bump_counter_def get_or_def)

lemma salary_file_charge:
  "charge_disk_budget no_analyzer (Some (no_policy\<lparr>lp_queryBudgetPerField := Some 2\<rparr>)) ''c'' ''t'' [''age'', ''salary''] [] =
     (None, Some [(''c'', [(''t'', [(''age'', Num 1), (''salary'', Num 1)])])])"
  by (simp add: charge_disk_budget_def Let_def salary_query_limit bump_disk_def disk_count_def inherited_name_def object_prototype_def)

lemma demo_race:
  "\<exists>R. race_run no_analyzer Some id (Some ''b.json'') ''b.json'' (\<lambda>q. \<exists>i. q = salary_query i plain_env) (new_race (\<lambda>p. None)) R \<and>
     ra_log R = [(InFile, salary_query 0 plain_env, None), (InMemory, salary_query 1 plain_env, None)]"
proof -
  let ?q = "\<lambda>i. salary_query i plain_env"
  let ?u = "[(''c'', [(''t'', [(''age'', Num 1), (''salary'', Num 1)])])]"
  define R0 :: "disk_budget race" where "R0 = new_race (\<lambda>p. None)"
  define R1 where "R1 = at_phase 0 (Trying (?q 0) 0) R0"
  define R2 where "R2 = at_phase 1 (Trying (?q 1) 0) R1"
  define R3 where "R3 = at_phase 0 (Holding (?q 0)) (R2\<lparr>ra_locked := True\<rparr>)"
  define R4 where "R4 = at_phase 1 (Trying (?q 1) (Suc 0)) R3"
  define R5 where "R5 = at_phase 1 Waiting (fall_back no_analyzer 1 (?q 1) R4)"
  define R6 where "R6 = at_phase 0 (Charging (?q 0) (get_persistent_budget Some (ra_disk R5) ''b.json'')) R5"
  define R7 where "R7 = charge_read no_analyzer 0 (?q 0) [] R6"
  define R8 where "R8 = log_answer InFile (?q 0) None
    (at_phase 0 (Releasing None) (R7\<lparr>ra_disk := save_persistent_budget id ''b.json'' ?u (ra_disk R7)\<rparr>))"
  have b: "get_persistent_budget Some (ra_disk R5) ''b.json'' = []"
    by (simp add: R5_def R4_def R3_def R2_def R1_def R0_def new_race_def get_persistent_budget_def)
  have r7: "R7 = at_phase 0 (Writing (?q 0) ?u) R6" by (simp add: R7_def charge_read_def salary_file_charge)
  have ph: "ra_phase R0 = (\<lambda>i. Waiting)" "ra_phase R1 0 = Trying (?q 0) 0" "ra_phase R2 0 = Trying (?q 0) 0"
      "ra_phase R5 0 = Holding (?q 0)"
      "ra_phase R6 0 = Charging (?q 0) []" "ra_phase R7 0 = Writing (?q 0) ?u"
      "\<not> ra_locked R2" "ra_locked R3"
    by (simp_all add: r7 R6_def R5_def R4_def R3_def R2_def R1_def R0_def new_race_def b get_persistent_budget_def)
  have ph1: "ra_phase R1 1 = Waiting" "ra_phase R3 1 = Trying (?q 1) 0" "ra_phase R4 1 = Trying (?q 1) (Suc 0)"
    unfolding R4_def R3_def R2_def R1_def R0_def new_race_def by simp_all
  have s1: "demo_step R0 R1" unfolding R1_def by (rule race_step.query) (auto simp: ph salary_query_store [simplified])
  have s2: "demo_step R1 R2" unfolding R2_def by (rule race_step.query [OF ph1(1)]) (auto simp: salary_query_store [simplified])
  have s3: "demo_step R2 R3" unfolding R3_def by (rule race_step.acquire) (auto simp: ph max_retries_def)
  have s4: "demo_step R3 R4" unfolding R4_def by (rule race_step.busy [OF ph1(2)]) (auto simp: ph max_retries_def)
  have s5: "demo_step R4 R5" unfolding R5_def by (rule race_step.lock_fails [OF ph1(3)]) (simp add: max_retries_def)
  have s6: "demo_step R5 R6" unfolding R6_def by (rule race_step.read) (simp add: ph)
  have s7: "demo_step R6 R7" unfolding R7_def by (rule race_step.charge) (simp add: ph)
  have s8: "demo_step R7 R8" unfolding R8_def using race_step.store [OF ph(6), where render = id] by simp
  have "ra_log R8 = [(InFile, ?q 0, None), (InMemory, ?q 1, None)]"
    by (simp add: R8_def r7 R6_def R5_def R4_def R3_def R2_def R1_def R0_def new_race_def fall_back_def salary_memory_charge)
  moreover have "race_run no_analyzer Some id (Some ''b.json'') ''b.json'' (\<lambda>q. \<exists>i. q = salary_query i plain_env) R0 R8"
    by (rule race_run.more [OF race_run.more [OF race_run.more [OF race_run.more [OF race_run.more [OF race_run.more
          [OF race_run.more [OF race_run.more [OF race_run.start s1] s2] s3] s4] s5] s6] s7] s8])
  ultimately show ?thesis unfolding R0_def by blast
qed

theorem shared_budget_race_witness:
  "\<exists>R :: disk_budget race. ra_log R = [(InFile, salary_query 0 plain_env, None), (InMemory, salary_query 1 plain_env, None)] \<and>
     int (file_accepts ''c'' ''t'' ''salary'' (ra_log R)) \<le> 2 \<and> int (memory_accepts 1 ''c'' ''t'' ''salary'' (ra_log R)) \<le> 2 \<and>
     file_count Some (ra_disk R) ''b.json'' ''c'' ''t'' ''salary'' = Num 1"
proof -
  obtain R where R: "race_run no_analyzer Some id (Some ''b.json'') ''b.json'' (\<lambda>q. \<exists>i. q = salary_query i plain_env) (new_race (\<lambda>p. None)) R"
      "ra_log R = [(InFile, salary_query 0 plain_env, None), (InMemory, salary_query 1 plain_env, None)]"
    using demo_race by blast
  have ok: "query_ok no_analyzer ''c'' ''t'' ''salary'' 2 q" if "\<exists>i. q = salary_query i plain_env" for q
    using that salary_query_ok by auto
  from shared_budget_race [OF R(1) faithful_id salary_plain ok, of 1] R(2)
  show ?thesis by (intro exI [of _ R]) (simp add: log_accepts hit_def)
qed

text \<open>A budget file that cannot be parsed, or is not read, counts nothing: the budget starts again, and the next accepted
  query overwrites the file.\<close>

lemma unreadable_file_resets:
  assumes "disk p = Some content" and "parse content = None" and "\<not> inherited_name f"
  shows "file_count parse disk p c t f = Num 0"
  using assms by (simp add: file_count_def get_persistent_budget_def stored_count_def disk_count_def)

end
