(* ===== verification/Windows.thy ===== *)
theory Windows
  imports Prelude
begin

text \<open>
  Sliding windows: the two limits of \<open>server/index.ts\<close> on tool calls (\<open>checkToolCallRateLimit\<close>,
  \<open>checkGlobalRateLimit\<close>). Both keep the times of the admitted calls; what they promise together
  is the locale \<open>sliding_window\<close>: no span of one window length contains more admitted calls than
  the maximum.
\<close>

section \<open>The contract\<close>

definition live :: "int \<Rightarrow> int \<Rightarrow> int list \<Rightarrow> int list" where
  "live W now ts = filter (\<lambda>t. now - t < W) ts"

lemma live_live: "now \<le> later \<Longrightarrow> live W later (live W now ts) = live W later ts"
  by (induction ts) (auto simp: live_def)

lemma live_append [simp]: "live W now (a @ b) = live W now a @ live W now b"
  by (simp add: live_def)

text \<open>The admitted times within one window length from \<open>T\<close>.\<close>

definition in_span :: "int \<Rightarrow> int \<Rightarrow> int list \<Rightarrow> nat" where
  "in_span W T ts = length (filter (\<lambda>t. T \<le> t \<and> t < T + W) ts)"

lemma in_span_append [simp]: "in_span W T (a @ b) = in_span W T a + in_span W T b"
  by (simp add: in_span_def)

lemma in_span_live:
  assumes "T \<le> now" and "now < T + W"
  shows "in_span W T ts \<le> length (live W now ts)"
proof -
  have "filter (\<lambda>t. T \<le> t \<and> t < T + W) ts = filter (\<lambda>t. T \<le> t \<and> t < T + W) (live W now ts)"
    using assms by (induction ts) (auto simp: live_def)
  then show ?thesis by (simp add: in_span_def)
qed

locale sliding_window =
  fixes W :: int and limit :: int
    and step :: "int \<Rightarrow> 's \<Rightarrow> bool \<times> 's"
    and times :: "'s \<Rightarrow> int list"
  assumes admits_iff: "fst (step now s) \<longleftrightarrow> int (length (live W now (times s))) < limit"
    and admitted: "fst (step now s) \<Longrightarrow> times (snd (step now s)) = live W now (times s) @ [now]"
    and rejected: "\<not> fst (step now s) \<Longrightarrow>
      live W now (times (snd (step now s))) = live W now (times s)"
begin

text \<open>The times of the admitted calls of a run.\<close>

fun run :: "int list \<Rightarrow> 's \<Rightarrow> int list" where
  "run [] s = []"
| "run (now # nows) s = (if fst (step now s) then [now] else []) @ run nows (snd (step now s))"

definition tracks :: "int \<Rightarrow> int list \<Rightarrow> 's \<Rightarrow> bool" where
  "tracks now past s \<longleftrightarrow>
     (\<forall>u\<ge>now. live W u (times s) = live W u past) \<and>
     (\<forall>T. int (in_span W T past) \<le> max 0 limit) \<and> (\<forall>t\<in>set past. t \<le> now)"

lemma tracks_later: "tracks now past s \<Longrightarrow> now \<le> later \<Longrightarrow> tracks later past s"
  unfolding tracks_def by (meson order_trans)

lemma tracks_step:
  assumes "tracks now past s"
  shows "tracks now (past @ (if fst (step now s) then [now] else [])) (snd (step now s))"
proof (cases "fst (step now s)")
  case True
  have len: "int (length (live W now past)) < limit"
    using True assms by (auto simp: tracks_def admits_iff)
  have "int (in_span W T (past @ [now])) \<le> max 0 limit" for T
  proof (cases "T \<le> now \<and> now < T + W")
    case True
    then show ?thesis using in_span_live [of T now W past] len by (simp add: in_span_def)
  next
    case False
    then have "in_span W T [now] = 0" by (simp add: in_span_def)
    then show ?thesis using assms by (simp add: tracks_def)
  qed
  moreover have "live W u (times (snd (step now s))) = live W u (past @ [now])" if "now \<le> u" for u
    using assms that by (simp add: admitted [OF True] live_live tracks_def)
  ultimately show ?thesis using assms True by (auto simp: tracks_def)
next
  case False
  have "live W u (times (snd (step now s))) = live W u (times s)" if "now \<le> u" for u
    using arg_cong [OF rejected [OF False], of "live W u"] by (simp add: live_live [OF that])
  then show ?thesis using False assms by (simp add: tracks_def)
qed

lemma tracks_run:
  "tracks now past s \<Longrightarrow> sorted (now # nows) \<Longrightarrow> int (in_span W T (past @ run nows s)) \<le> max 0 limit"
proof (induction nows arbitrary: now past s)
  case Nil
  then show ?case by (simp add: tracks_def)
next
  case (Cons later nows)
  have "tracks later past s" using tracks_later [OF Cons.prems(1)] Cons.prems(2) by simp
  from Cons.IH [OF tracks_step [OF this]] Cons.prems(2) show ?case by simp
qed

text \<open>From a state without recorded calls, at non-decreasing times.\<close>

lemma run_in_span:
  assumes "times s = []" and "sorted nows"
  shows "int (in_span W T (run nows s)) \<le> max 0 limit"
proof (cases nows)
  case Nil
  then show ?thesis by (simp add: in_span_def)
next
  case (Cons now rest)
  have "tracks now [] s" by (simp add: tracks_def assms(1) in_span_def live_def)
  from tracks_run [OF this, of nows] assms(2) Cons show ?thesis by simp
qed

end

section \<open>The two limits\<close>

record window_config =
  wc_windowMs :: int
  wc_maxPerTool :: int
  wc_maxGlobal :: int

text \<open>The per-tool windows: a rejected call stores nothing.\<close>

type_synonym tool_windows = "(string \<times> int list) list"

definition tool_window :: "string \<Rightarrow> tool_windows \<Rightarrow> int list" where
  "tool_window name ws = (case map_of ws name of None \<Rightarrow> [] | Some w \<Rightarrow> w)"

text \<open>Seconds until the oldest call leaves the window, rounded up; \<open>NaN\<close> when the maximum is not
  positive and no call is recorded.\<close>

definition retry_after :: "int \<Rightarrow> int \<Rightarrow> int list \<Rightarrow> string" where
  "retry_after W now active =
     (case active of [] \<Rightarrow> ''NaN'' | t # _ \<Rightarrow> int_str (- ((now - t - W) div 1000)))"

text \<open>\<open>${windowMs / 1000}\<close>: thousandths without trailing zeros.\<close>

definition thousandths :: "nat \<Rightarrow> string" where
  "thousandths m =
     (let d = [char_of (48 + m div 100), char_of (48 + m div 10 mod 10), char_of (48 + m mod 10)]
      in if m = 0 then [] else CHR ''.'' # rev (dropWhile (\<lambda>c. c = CHR ''0'') (rev d)))"

definition seconds_str :: "int \<Rightarrow> string" where
  "seconds_str W = (if W < 0 then ''-'' else []) @ int_str (\<bar>W\<bar> div 1000) @ thousandths (nat (\<bar>W\<bar> mod 1000))"

definition check_tool_call_rate_limit ::
    "window_config \<Rightarrow> int \<Rightarrow> string \<Rightarrow> tool_windows \<Rightarrow> string option \<times> tool_windows" where
  "check_tool_call_rate_limit cfg now toolName windows =
     (let active = live (wc_windowMs cfg) now (tool_window toolName windows) in
      if wc_maxPerTool cfg \<le> int (length active) then
        (Some (''LIOP_RATE_LIMITED: Too many calls to '' @ toolName @ ''. Max '' @ int_str (wc_maxPerTool cfg) @
           '' per '' @ seconds_str (wc_windowMs cfg) @ ''s window. Retry after '' @
           retry_after (wc_windowMs cfg) now active @ ''s.''), windows)
      else (None, AList.update toolName (active @ [now]) windows))"

text \<open>The global window: it is pruned also when the call is rejected.\<close>

definition check_global_rate_limit :: "window_config \<Rightarrow> int \<Rightarrow> int list \<Rightarrow> string option \<times> int list" where
  "check_global_rate_limit cfg now window =
     (let active = live (wc_windowMs cfg) now window in
      if wc_maxGlobal cfg \<le> int (length active) then
        (Some (''LIOP_RATE_LIMITED: Global call limit exceeded. Max '' @ int_str (wc_maxGlobal cfg) @
           '' total calls per '' @ seconds_str (wc_windowMs cfg) @ ''s window. Retry after '' @
           retry_after (wc_windowMs cfg) now active @ ''s.''), active)
      else (None, active @ [now]))"

definition tool_step :: "window_config \<Rightarrow> string \<Rightarrow> int \<Rightarrow> tool_windows \<Rightarrow> bool \<times> tool_windows" where
  "tool_step cfg name now ws =
     (case check_tool_call_rate_limit cfg now name ws of (r, ws') \<Rightarrow> (r = None, ws'))"

definition global_step :: "window_config \<Rightarrow> int \<Rightarrow> int list \<Rightarrow> bool \<times> int list" where
  "global_step cfg now w = (case check_global_rate_limit cfg now w of (r, w') \<Rightarrow> (r = None, w'))"

interpretation per_tool: sliding_window "wc_windowMs cfg" "wc_maxPerTool cfg" "tool_step cfg name" "tool_window name"
  for cfg name
  by unfold_locales
    (auto simp: tool_step_def check_tool_call_rate_limit_def tool_window_def Let_def split: if_splits)

interpretation all_tools: sliding_window "wc_windowMs cfg" "wc_maxGlobal cfg" "global_step cfg" "\<lambda>w. w" for cfg
  by unfold_locales
    (auto simp: global_step_def check_global_rate_limit_def Let_def live_live split: if_splits)

end
