(* ===== verification/Value.thy ===== *)
theory Value
  imports Prelude
begin

text \<open>
  The JavaScript values that results, arguments and messages are made of: what \<open>JSON.parse\<close> or a
  structured clone yields. A number is a real or one of the three other values of the type; an
  object is the list of its own properties in order, each key once. \<open>JSON.parse\<close> is a parameter
  wherever it is used; \<open>parser_shrinks\<close> is the fact about it that bounds recursion through nested
  JSON texts: a text of \<open>n\<close> characters denotes at most \<open>n\<close> values and string characters.
\<close>

datatype jsnum = NaN | PosInf | NegInf | Fin real

datatype jsval =
    JUndef
  | JNull
  | JBool bool
  | JNum jsnum
  | JStr string
  | JArr "jsval list"
  | JObj "(string \<times> jsval) list"

type_synonym json_parser = "string \<Rightarrow> jsval option"

definition get_prop :: "(string \<times> jsval) list \<Rightarrow> string \<Rightarrow> jsval" where
  "get_prop ps k = (case map_of ps k of None \<Rightarrow> JUndef | Some v \<Rightarrow> v)"

text \<open>\<open>typeof v === "object" && v !== null\<close>\<close>

fun is_object :: "jsval \<Rightarrow> bool" where
  "is_object (JArr xs) = True"
| "is_object (JObj ps) = True"
| "is_object v = False"

text \<open>The values directly inside a value.\<close>

fun parts :: "jsval \<Rightarrow> jsval list" where
  "parts (JArr xs) = xs"
| "parts (JObj ps) = map snd ps"
| "parts v = []"

fun weight :: "jsval \<Rightarrow> nat" where
  "weight (JStr s) = length s + 1"
| "weight (JArr xs) = 1 + sum_list (map weight xs)"
| "weight (JObj ps) = 1 + sum_list (map (\<lambda>p. weight (snd p)) ps)"
| "weight v = 1"

definition parser_shrinks :: "json_parser \<Rightarrow> bool" where
  "parser_shrinks parse \<longleftrightarrow> (\<forall>s v. parse s = Some v \<longrightarrow> weight v \<le> length s)"

lemma weight_pos: "0 < weight v"
  by (cases v) auto

lemma weight_part: "w \<in> set (parts v) \<Longrightarrow> weight w < weight v"
proof (cases v)
  case (JArr xs)
  then show "w \<in> set (parts v) \<Longrightarrow> weight w < weight v"
    using member_le_sum_list [of "weight w" "map weight xs"] by force
next
  case (JObj ps)
  assume "w \<in> set (parts v)"
  with JObj have "weight w \<in> set (map (\<lambda>p. weight (snd p)) ps)" by force
  from member_le_sum_list [OF this] show "weight w < weight v" by (simp add: JObj)
qed simp_all

text \<open>The text test that precedes every \<open>JSON.parse\<close> of an output.\<close>

definition looks_json :: "string \<Rightarrow> bool" where
  "looks_json t \<longleftrightarrow> (starts_with t ''{'' \<and> ends_with t ''}'') \<or> (starts_with t ''['' \<and> ends_with t '']'')"

lemma trim_length: "length (js_trim s) \<le> length s"
proof -
  have "length (dropWhile P xs) \<le> length xs" for P and xs :: string
    by (induction xs) auto
  then have "length (trim_end t) \<le> length t" "length (trim_start t) \<le> length t" for t
    by (simp_all add: trim_end_def trim_start_def) (metis length_rev)
  then show ?thesis unfolding js_trim_def by (meson order_trans)
qed

section \<open>Short-circuit search with partial answers\<close>

text \<open>\<open>xs.some(f)\<close> where \<open>f\<close> may run out of fuel.\<close>

fun some_opt :: "('a \<Rightarrow> bool option) \<Rightarrow> 'a list \<Rightarrow> bool option" where
  "some_opt f [] = Some False"
| "some_opt f (x # xs) =
     (case f x of None \<Rightarrow> None | Some b \<Rightarrow> if b then Some True else some_opt f xs)"

lemma some_opt_total: "(\<And>x. x \<in> set xs \<Longrightarrow> f x \<noteq> None) \<Longrightarrow> some_opt f xs \<noteq> None"
  by (induction xs) (fastforce split: option.split)+

lemma some_opt_True: "some_opt f xs = Some True \<Longrightarrow> \<exists>x\<in>set xs. f x = Some True"
  by (induction xs) (auto split: option.splits if_splits)

lemma some_opt_False: "some_opt f xs = Some False \<Longrightarrow> x \<in> set xs \<Longrightarrow> f x = Some False"
  by (induction xs) (auto split: option.splits if_splits)

lemma some_opt_cong [fundef_cong]:
  "xs = ys \<Longrightarrow> (\<And>x. x \<in> set ys \<Longrightarrow> f x = g x) \<Longrightarrow> some_opt f xs = some_opt g ys"
  by (induction ys arbitrary: xs) (auto split: option.split)

end
