(* ===== verification/DeepScan.thy ===== *)
theory DeepScan
  imports Value
begin

text \<open>
  The interface of the recursive scans of an output (the aggregation scan, the PII scan and the
  named entity scan): a scan looks at a value, and unless it objects goes on to the values below
  it, JSON texts included. What such a scan finds, and how much fuel it needs, is proved once.
\<close>

text \<open>The values a scan with the successor function \<open>below\<close> gets to.\<close>

inductive reaches :: "(jsval \<Rightarrow> jsval list) \<Rightarrow> jsval \<Rightarrow> jsval \<Rightarrow> bool" for below where
  here: "reaches below v v"
| down: "x \<in> set (below v) \<Longrightarrow> reaches below x w \<Longrightarrow> reaches below v w"

locale deep_scan =
  fixes scan :: "nat \<Rightarrow> jsval \<Rightarrow> bool option"
    and bad :: "jsval \<Rightarrow> bool"
    and below :: "jsval \<Rightarrow> jsval list"
  assumes no_fuel: "scan 0 v = None"
    and finds: "scan (Suc n) v = Some True \<Longrightarrow> bad v \<or> (\<exists>w\<in>set (below v). scan n w = Some True)"
    and passes: "scan (Suc n) v = Some False \<Longrightarrow> \<not> bad v \<and> (\<forall>w\<in>set (below v). scan n w = Some False)"
    and answers: "(\<forall>w\<in>set (below v). scan n w \<noteq> None) \<Longrightarrow> scan (Suc n) v \<noteq> None"
begin

lemma scan_True: "scan n v = Some True \<Longrightarrow> \<exists>w. reaches below v w \<and> bad w"
proof (induction n arbitrary: v)
  case (Suc n)
  from finds [OF Suc.prems] show ?case
    using Suc.IH by (blast intro: reaches.intros)
qed (simp add: no_fuel)

lemma scan_False: "reaches below v w \<Longrightarrow> scan n v = Some False \<Longrightarrow> \<not> bad w"
proof (induction arbitrary: n rule: reaches.induct)
  case (here v)
  then show ?case by (cases n) (auto simp: no_fuel dest: passes)
next
  case (down x v w)
  then show ?case by (cases n) (auto simp: no_fuel dest: passes)
qed

lemma scan_iff: "scan n v = Some b \<Longrightarrow> b \<longleftrightarrow> (\<exists>w. reaches below v w \<and> bad w)"
  using scan_True [of n v] scan_False [of v _ n] by (cases b) auto

lemma scan_enough:
  assumes "\<And>v w. w \<in> set (below v) \<Longrightarrow> weight w < weight v"
  shows "weight v \<le> n \<Longrightarrow> scan n v \<noteq> None"
proof (induction n arbitrary: v)
  case 0
  then show ?case using weight_pos [of v] by simp
next
  case (Suc n)
  have "scan n w \<noteq> None" if "w \<in> set (below v)" for w
    using assms [OF that] Suc by simp
  then show ?case by (intro answers) blast
qed

end

text \<open>A scan that decides about the value itself before it goes on.\<close>

locale eager_scan =
  fixes scan :: "nat \<Rightarrow> jsval \<Rightarrow> bool option"
    and bad :: "jsval \<Rightarrow> bool"
    and below :: "jsval \<Rightarrow> jsval list"
  assumes zero: "scan 0 v = None"
    and step: "scan (Suc n) v = (if bad v then Some True else some_opt (scan n) (below v))"

sublocale eager_scan \<subseteq> deep_scan
proof
  show "scan 0 v = None" for v by (rule zero)
  show "scan (Suc n) v = Some True \<Longrightarrow> bad v \<or> (\<exists>w\<in>set (below v). scan n w = Some True)" for n v
    using some_opt_True [of "scan n" "below v"] by (auto simp: step split: if_splits)
  show "scan (Suc n) v = Some False \<Longrightarrow> \<not> bad v \<and> (\<forall>w\<in>set (below v). scan n w = Some False)" for n v
    using some_opt_False [of "scan n" "below v"] by (auto simp: step split: if_splits)
  show "\<forall>w\<in>set (below v). scan n w \<noteq> None \<Longrightarrow> scan (Suc n) v \<noteq> None" for n v
    using some_opt_total [of "below v" "scan n"] by (auto simp: step)
qed

section \<open>The values below a value\<close>

text \<open>\<open>JSON.parse\<close> of a string that looks like a JSON text.\<close>

definition parsed_text :: "json_parser \<Rightarrow> string \<Rightarrow> jsval list" where
  "parsed_text parse s =
     (if looks_json (js_trim s) then (case parse (js_trim s) of None \<Rightarrow> [] | Some w \<Rightarrow> [w]) else [])"

fun all_below :: "json_parser \<Rightarrow> jsval \<Rightarrow> jsval list" where
  "all_below parse (JStr s) = parsed_text parse s"
| "all_below parse v = parts v"

lemma parsed_text_iff:
  "w \<in> set (parsed_text parse s) \<longleftrightarrow> looks_json (js_trim s) \<and> parse (js_trim s) = Some w"
  by (cases "looks_json (js_trim s)"; cases "parse (js_trim s)") (simp_all add: parsed_text_def eq_commute)

lemma all_below_shrinks:
  assumes "parser_shrinks parse" and "w \<in> set (all_below parse v)"
  shows "weight w < weight v"
proof (cases v)
  case (JStr s)
  then have "parse (js_trim s) = Some w"
    using assms(2) by (simp add: parsed_text_iff)
  with assms(1) have "weight w \<le> length (js_trim s)" by (simp add: parser_shrinks_def)
  with trim_length [of s] show ?thesis by (simp add: JStr)
qed (use assms(2) weight_part [of w v] in auto)

end
