(* ===== verification/OutputPolicy.thy ===== *)
theory OutputPolicy
  imports Policy DeepScan
begin

text \<open>
  The output policy of \<open>server/index.ts\<close>: \<open>parseUnknownJson\<close>, \<open>unwrapForAggregationPolicyScan\<close>,
  \<open>violatesAggregationFirstPolicy\<close> and \<open>validateOutputPolicy\<close>. The scans follow JSON texts inside
  strings, so they take fuel; \<open>scan_total\<close> and \<open>unwrap_total\<close> show that the weight of the value is
  enough of it. A schema is the record of what the code asks of zod.
\<close>

section \<open>The aggregation scan\<close>

definition max_rows :: "enforcement \<Rightarrow> int" where
  "max_rows e =
     (case e of EnforcedWith ap \<Rightarrow> (case ap_maxOutputRows ap of Some n \<Rightarrow> n | None \<Rightarrow> 10)
      | EnforcedByDefault \<Rightarrow> 10 | NotEnforced \<Rightarrow> 10)"

definition allow_primitives :: "enforcement \<Rightarrow> bool" where
  "allow_primitives e =
     (case e of EnforcedWith ap \<Rightarrow> (case ap_allowPrimitiveArrays ap of Some b \<Rightarrow> b | None \<Rightarrow> True)
      | EnforcedByDefault \<Rightarrow> True | NotEnforced \<Rightarrow> True)"

text \<open>The restriction on objects computed from fewer than ten records.\<close>

definition small_sample :: "int option \<Rightarrow> bool" where
  "small_sample recordsCount \<longleftrightarrow> (case recordsCount of None \<Rightarrow> False | Some n \<Rightarrow> 0 < n \<and> n < 10)"

definition k_anonymity_violated :: "int option \<Rightarrow> (string \<times> jsval) list \<Rightarrow> bool" where
  "k_anonymity_violated recordsCount ps \<longleftrightarrow>
     small_sample recordsCount \<and> (3 < length ps \<or> list_ex is_object (map snd ps))"

fun violates_aggregation_first ::
    "json_parser \<Rightarrow> nat \<Rightarrow> enforcement \<Rightarrow> int option \<Rightarrow> jsval \<Rightarrow> bool option" where
  "violates_aggregation_first parse 0 policyObj recordsCount input = None"
| "violates_aggregation_first parse (Suc fuel) policyObj recordsCount input =
     (if \<not> enforced policyObj then Some False
      else
        (let scan = violates_aggregation_first parse fuel policyObj recordsCount in
         case input of
           JStr s \<Rightarrow>
             (let trimmed = js_trim s in
              if looks_json trimmed
              then (case parse trimmed of None \<Rightarrow> Some False | Some v \<Rightarrow> scan v)
              else Some False)
         | JArr xs \<Rightarrow>
             if 0 < length xs \<and> list_all is_object xs then
               (if max_rows policyObj < int (length xs) then Some True else some_opt scan xs)
             else if 0 < length xs \<and> list_all (\<lambda>x. \<not> is_object x) xs then
               Some (\<not> allow_primitives policyObj)
             else some_opt scan xs
         | JObj ps \<Rightarrow>
             if k_anonymity_violated recordsCount ps then Some True
             else if max_rows policyObj < int (length ps) then Some True
             else some_opt scan (map snd ps)
         | _ \<Rightarrow> Some False))"

section \<open>Unwrapping\<close>

definition parse_unknown_json :: "json_parser \<Rightarrow> jsval \<Rightarrow> jsval" where
  "parse_unknown_json parse input =
     (case input of
        JStr s \<Rightarrow>
          (let trimmed = js_trim s in
           if looks_json trimmed then (case parse trimmed of Some v \<Rightarrow> v | None \<Rightarrow> input) else input)
      | _ \<Rightarrow> input)"

text \<open>The texts of the parts of an MCP \<open>content\<close> array.\<close>

fun part_text :: "jsval \<Rightarrow> string option" where
  "part_text (JObj ps) = (case map_of ps ''text'' of Some (JStr t) \<Rightarrow> Some t | _ \<Rightarrow> None)"
| "part_text v = None"

definition content_texts :: "(string \<times> jsval) list \<Rightarrow> string list" where
  "content_texts ps =
     (case get_prop ps ''content'' of JArr xs \<Rightarrow> List.map_filter part_text xs | _ \<Rightarrow> [])"

fun unwrap_for_scan :: "json_parser \<Rightarrow> nat \<Rightarrow> jsval \<Rightarrow> jsval option" where
  "unwrap_for_scan parse 0 input = None"
| "unwrap_for_scan parse (Suc fuel) input =
     (case input of
        JStr s \<Rightarrow>
          (let trimmed = js_trim s in
           if looks_json trimmed
           then (case parse trimmed of None \<Rightarrow> Some input | Some v \<Rightarrow> unwrap_for_scan parse fuel v)
           else Some input)
      | JObj ps \<Rightarrow>
          if get_prop ps ''computation_result'' \<noteq> JUndef
          then unwrap_for_scan parse fuel (get_prop ps ''computation_result'')
          else
            (let texts = content_texts ps in
             if texts = [] then Some input
             else unwrap_for_scan parse fuel (JStr (js_join [CHR 0x0A] texts)))
      | _ \<Rightarrow> Some input)"

section \<open>validateOutputPolicy\<close>

text \<open>What the code uses of a zod schema: whether it is a \<open>ZodObject\<close>, whether it has an explicit
  catch-all, and the issues (path, message) that \<open>safeParse\<close> of the schema and of its strict
  variant report, \<open>None\<close> on success.\<close>

record schema =
  sc_is_object :: bool
  sc_catchall :: bool
  sc_issues :: "jsval \<Rightarrow> (string list \<times> string) list option"
  sc_strict_issues :: "jsval \<Rightarrow> (string list \<times> string) list option"

definition effective_issues :: "schema \<Rightarrow> jsval \<Rightarrow> (string list \<times> string) list option" where
  "effective_issues s =
     (if \<not> sc_is_object s then sc_issues s
      else if sc_catchall s then sc_issues s
      else sc_strict_issues s)"

definition issue_text :: "string list \<times> string \<Rightarrow> string" where
  "issue_text i =
     (let p = js_join ''.'' (fst i) in (if p = [] then ''<root>'' else p) @ '' '' @ snd i)"

definition schema_message :: "string \<Rightarrow> (string list \<times> string) list \<Rightarrow> string" where
  "schema_message toolName issues =
     ''[LIOP] Output schema violation for '' @ toolName @ '': '' @ js_join ''; '' (map issue_text issues) @
     ''. HINT: Your output must conform to the declared schema. Use '' @ [CHR 0x27] @ ''env.records'' @ [CHR 0x27] @
     '' to access the dataset and return only allowed fields.''"

definition aggregation_message :: "bool \<Rightarrow> string" where
  "aggregation_message isDev =
     (if isDev then
        ''Aggregation-First Policy Violation: row-level export or K-Anonymity violation blocked. HINT: Use .reduce() to produce a flat {key:value} object. Do NOT use .map() to create arrays of objects. Ensure dataset size > 10 for detailed results.''
      else ''Aggregation-First Policy Violation: Output blocked due to privacy constraints.'')"

definition is_error_result :: "jsval \<Rightarrow> bool" where
  "is_error_result v = (case v of JObj ps \<Rightarrow> get_prop ps ''isError'' = JBool True | _ \<Rightarrow> False)"

definition validate_output_policy ::
    "json_parser \<Rightarrow> nat \<Rightarrow> bool \<Rightarrow> int \<Rightarrow> string \<Rightarrow> jsval \<Rightarrow> execution_policy option \<Rightarrow> schema option
       \<Rightarrow> string option option" where
  "validate_output_policy parse fuel isDev recordCount toolName output policy outputSchema =
     (case policy of
        None \<Rightarrow> Some None
      | Some p \<Rightarrow>
          (let parsed = parse_unknown_json parse output in
           if is_error_result parsed then Some None
           else
             (case (case outputSchema of None \<Rightarrow> None | Some s \<Rightarrow> effective_issues s parsed) of
                Some issues \<Rightarrow> Some (Some (schema_message toolName issues))
              | None \<Rightarrow>
                  if enforced (lp_enforceAggregationFirst p) then
                    (case unwrap_for_scan parse fuel parsed of
                       None \<Rightarrow> None
                     | Some v \<Rightarrow>
                         (case violates_aggregation_first parse fuel (lp_enforceAggregationFirst p) (Some recordCount) v of
                            None \<Rightarrow> None
                          | Some True \<Rightarrow> Some (Some (aggregation_message isDev))
                          | Some False \<Rightarrow> Some None))
                  else Some None)))"

section \<open>What the scan finds\<close>

text \<open>The values the scan looks at (an array of primitive values is not entered), and the ones it
  objects to.\<close>

definition scanned_below :: "json_parser \<Rightarrow> enforcement \<Rightarrow> jsval \<Rightarrow> jsval list" where
  "scanned_below parse e v =
     (if \<not> enforced e then []
      else case v of JArr xs \<Rightarrow> if list_ex is_object xs then xs else [] | _ \<Rightarrow> all_below parse v)"

fun offending :: "enforcement \<Rightarrow> int option \<Rightarrow> jsval \<Rightarrow> bool" where
  "offending e n (JArr xs) =
     (enforced e \<and> xs \<noteq> [] \<and>
       (list_all is_object xs \<and> max_rows e < int (length xs) \<or>
        list_all (\<lambda>x. \<not> is_object x) xs \<and> \<not> allow_primitives e))"
| "offending e n (JObj ps) = (enforced e \<and> (k_anonymity_violated n ps \<or> max_rows e < int (length ps)))"
| "offending e n v = False"

lemma scan_step:
  "violates_aggregation_first parse (Suc n) e c v =
     (if offending e c v then Some True
      else some_opt (violates_aggregation_first parse n e c) (scanned_below parse e v))"
proof (cases v)
  case (JArr xs)
  consider "\<not> enforced e" | "xs = []" | "xs \<noteq> []" "list_all is_object xs"
    | "xs \<noteq> []" "\<not> list_ex is_object xs" | "\<not> list_all is_object xs" "list_ex is_object xs"
    by (cases xs) (auto simp: list_ex_iff)
  then show ?thesis
  proof cases
    case 3
    then have "list_ex is_object xs" "\<not> list_all (\<lambda>x. \<not> is_object x) xs"
      by (cases xs; simp)+
    with 3 show ?thesis by (simp add: JArr Let_def scanned_below_def)
  next
    case 4
    then have "\<not> list_all is_object xs" "list_all (\<lambda>x. \<not> is_object x) xs"
      by (cases xs; simp add: list_ex_iff list_all_iff)+
    with 4 show ?thesis by (simp add: JArr Let_def scanned_below_def)
  next
    case 5
    then have "\<not> list_all (\<lambda>x. \<not> is_object x) xs" by (auto simp: list_ex_iff list_all_iff)
    with 5 show ?thesis by (simp add: JArr Let_def scanned_below_def)
  qed (simp_all add: JArr Let_def scanned_below_def)
qed (auto simp: Let_def scanned_below_def parsed_text_def split: option.split)

interpretation aggregation: eager_scan "\<lambda>n v. violates_aggregation_first parse n e c v" "offending e c"
  "scanned_below parse e" for parse e c
proof
  show "violates_aggregation_first parse 0 e c v = None" for v
    by simp
  show "violates_aggregation_first parse (Suc n) e c v =
      (if offending e c v then Some True
       else some_opt (violates_aggregation_first parse n e c) (scanned_below parse e v))" for n v
    by (rule scan_step)
qed

lemma scanned_below_subset: "w \<in> set (scanned_below parse e v) \<Longrightarrow> w \<in> set (all_below parse v)"
  by (cases v; cases "enforced e") (simp_all add: scanned_below_def split: if_split_asm)

lemma scan_total:
  "parser_shrinks parse \<Longrightarrow> weight v \<le> fuel \<Longrightarrow> violates_aggregation_first parse fuel e c v \<noteq> None"
  by (rule aggregation.scan_enough) (blast dest: scanned_below_subset all_below_shrinks)+

section \<open>Unwrapping ends\<close>

lemma get_prop_weight:
  assumes "get_prop ps k \<noteq> JUndef"
  shows "weight (get_prop ps k) < weight (JObj ps)"
proof -
  have "get_prop ps k \<in> snd ` set ps"
    using assms by (force simp: get_prop_def split: option.splits dest: map_of_SomeD)
  then show ?thesis using weight_part [of "get_prop ps k" "JObj ps"] by simp
qed

lemma part_text_weight: "part_text v = Some t \<Longrightarrow> length t + 2 \<le> weight v"
proof (induction v rule: part_text.induct)
  case (1 ps)
  then have "get_prop ps ''text'' = JStr t"
    by (auto simp: get_prop_def split: option.splits jsval.splits)
  with get_prop_weight [of ps "''text''"] show ?case by simp
qed simp_all

lemma texts_weight: "sum_list (map (\<lambda>t. length t + 2) (List.map_filter part_text xs)) \<le> sum_list (map weight xs)"
proof (induction xs)
  case (Cons x xs)
  then show ?case
    using part_text_weight [of x] by (fastforce simp: List.map_filter_simps split: option.split)
qed (simp add: List.map_filter_simps)

lemma join_length: "length (js_join [c] ts) \<le> sum_list (map (\<lambda>t. length t + 1) ts)"
  by (induction "[c]" ts rule: js_join.induct) auto

lemma content_texts_weight:
  assumes "content_texts ps \<noteq> []"
  shows "weight (JStr (js_join [CHR 0x0A] (content_texts ps))) < weight (JObj ps)"
proof -
  obtain xs where xs: "get_prop ps ''content'' = JArr xs"
    using assms by (auto simp: content_texts_def split: jsval.splits)
  let ?ts = "List.map_filter part_text xs"
  have "length (js_join [CHR 0x0A] ?ts) \<le> sum_list (map (\<lambda>t. length t + 1) ?ts)" by (rule join_length)
  also have "\<dots> \<le> sum_list (map (\<lambda>t. length t + 2) ?ts)" by (rule sum_list_mono) simp
  also have "\<dots> \<le> sum_list (map weight xs)" by (rule texts_weight)
  finally have "weight (JStr (js_join [CHR 0x0A] ?ts)) \<le> weight (JArr xs)" by simp
  also have "\<dots> < weight (JObj ps)" using get_prop_weight [of ps "''content''"] xs by simp
  finally show ?thesis by (simp add: content_texts_def xs)
qed

lemma unwrap_total:
  assumes "parser_shrinks parse"
  shows "weight v \<le> fuel \<Longrightarrow> \<exists>w. unwrap_for_scan parse fuel v = Some w \<and> weight w \<le> weight v"
proof (induction fuel arbitrary: v)
  case 0
  then show ?case using weight_pos [of v] by simp
next
  case (Suc fuel)
  have smaller: "\<exists>w. unwrap_for_scan parse fuel u = Some w \<and> weight w \<le> weight v" if "weight u < weight v" for u
    using Suc.IH [of u] Suc.prems that by fastforce
  show ?case
  proof (cases v)
    case (JStr s)
    show ?thesis
    proof (cases "looks_json (js_trim s)")
      case True
      show ?thesis
      proof (cases "parse (js_trim s)")
        case (Some u)
        then have "weight u < weight v"
          using all_below_shrinks [OF assms, of u v] True by (simp add: JStr parsed_text_iff)
        from smaller [OF this] show ?thesis using True Some by (simp add: JStr Let_def)
      qed (simp add: JStr Let_def)
    qed (simp add: JStr Let_def)
  next
    case (JObj ps)
    show ?thesis
    proof (cases "get_prop ps ''computation_result'' \<noteq> JUndef")
      case True
      with smaller [of "get_prop ps ''computation_result''"] get_prop_weight [OF True] show ?thesis
        by (simp add: JObj)
    next
      case False
      then show ?thesis
        using smaller [of "JStr (js_join [CHR 0x0A] (content_texts ps))"] content_texts_weight [of ps]
        by (cases "content_texts ps = []") (simp_all add: JObj Let_def)
    qed
  qed simp_all
qed

lemma parse_unknown_weight:
  assumes "parser_shrinks parse"
  shows "weight (parse_unknown_json parse v) \<le> weight v"
proof (cases v)
  case (JStr s)
  have "weight u \<le> weight v" if "looks_json (js_trim s)" "parse (js_trim s) = Some u" for u
    using all_below_shrinks [OF assms, of u v] that by (simp add: JStr parsed_text_iff)
  then show ?thesis by (simp add: JStr parse_unknown_json_def Let_def split: option.split)
qed (simp_all add: parse_unknown_json_def)

section \<open>Properties\<close>

text \<open>The two tests on a text that the properties' instances use: a parser that knows two texts.\<close>

definition two_texts :: json_parser where
  "two_texts s =
     (if s = ''[[],[]]'' then Some (JArr [JArr [], JArr []])
      else if s = ''{}'' then Some (JObj []) else None)"

lemma two_texts_shrinks: "parser_shrinks two_texts"
  by (simp add: parser_shrinks_def two_texts_def)

text \<open>C10: with fuel for the weight of the value the aggregation scan answers, and it objects
  exactly when it reaches, through elements, properties and JSON texts, an array of more than the
  allowed number of objects, a forbidden array of primitive values, an object with too many keys or
  one that is too detailed for a small data set.\<close>

theorem aggregation_scan_exact:
  assumes "parser_shrinks parse" and "weight v \<le> fuel"
  shows "\<exists>b. violates_aggregation_first parse fuel e c v = Some b \<and>
             (b \<longleftrightarrow> (\<exists>w. reaches (scanned_below parse e) v w \<and> offending e c w))"
  using scan_total [OF assms, of e c] aggregation.scan_iff [of parse fuel e c v] by auto

theorem aggregation_scan_exact_witness:
  "\<exists>b. violates_aggregation_first two_texts 10 EnforcedByDefault (Some 50) (JStr ''[[],[]]'') = Some b \<and>
      (b \<longleftrightarrow> (\<exists>w. reaches (scanned_below two_texts EnforcedByDefault) (JStr ''[[],[]]'') w \<and>
                offending EnforcedByDefault (Some 50) w))"
  by (rule aggregation_scan_exact [OF two_texts_shrinks]) simp

text \<open>C9: \<open>validateOutputPolicy\<close> accepts an output exactly when there is no policy, or the output
  says it is an error, or it satisfies the schema and nothing that the aggregation scan reaches in
  the unwrapped output is offending.\<close>

theorem output_accepted_iff:
  assumes "parser_shrinks parse" and "weight output \<le> fuel"
  shows "validate_output_policy parse fuel isDev n tool output (Some p) sch = Some None \<longleftrightarrow>
     is_error_result (parse_unknown_json parse output) \<or>
     (case sch of None \<Rightarrow> True | Some s \<Rightarrow> effective_issues s (parse_unknown_json parse output) = None) \<and>
     (\<exists>u. unwrap_for_scan parse fuel (parse_unknown_json parse output) = Some u \<and>
          \<not> (\<exists>w. reaches (scanned_below parse (lp_enforceAggregationFirst p)) u w \<and>
                 offending (lp_enforceAggregationFirst p) (Some n) w))"
proof -
  let ?q = "parse_unknown_json parse output" and ?e = "lp_enforceAggregationFirst p"
  have "weight ?q \<le> fuel" using parse_unknown_weight [OF assms(1), of "output"] assms(2) by simp
  with unwrap_total [OF assms(1), of ?q fuel] obtain u where
    u: "unwrap_for_scan parse fuel ?q = Some u" "weight u \<le> fuel" by auto
  then obtain b where b: "violates_aggregation_first parse fuel ?e (Some n) u = Some b"
    using scan_total [OF assms(1), of u fuel ?e "Some n"] by auto
  have iff: "b \<longleftrightarrow> (\<exists>w. reaches (scanned_below parse ?e) u w \<and> offending ?e (Some n) w)"
    using aggregation.scan_iff [OF b] .
  have off: "b = False" if "\<not> enforced ?e"
    using b that by (cases fuel) simp_all
  have "(\<exists>u. unwrap_for_scan parse fuel ?q = Some u \<and>
      \<not> (\<exists>w. reaches (scanned_below parse ?e) u w \<and> offending ?e (Some n) w)) \<longleftrightarrow> \<not> b"
    by (simp add: u(1) iff)
  then show ?thesis
    using u(1) b off
    by (cases b) (auto simp: validate_output_policy_def Let_def simp del: not_ex split: option.splits)
qed

theorem output_accepted_iff_witness:
  "validate_output_policy two_texts 10 False 50 ''t'' (JStr ''{}'') (Some no_policy) None = Some None \<longleftrightarrow>
     is_error_result (parse_unknown_json two_texts (JStr ''{}'')) \<or>
     (case None of None \<Rightarrow> True | Some s \<Rightarrow> effective_issues s (parse_unknown_json two_texts (JStr ''{}'')) = None) \<and>
     (\<exists>u. unwrap_for_scan two_texts 10 (parse_unknown_json two_texts (JStr ''{}'')) = Some u \<and>
          \<not> (\<exists>w. reaches (scanned_below two_texts (lp_enforceAggregationFirst no_policy)) u w \<and>
                 offending (lp_enforceAggregationFirst no_policy) (Some 50) w))"
  by (rule output_accepted_iff [OF two_texts_shrinks]) simp

text \<open>A result computed from fewer than ten records that the scan accepts and that is an object
  is flat and has at most three keys.\<close>

theorem small_sample_flat:
  assumes "violates_aggregation_first parse fuel e (Some n) (JObj ps) = Some False"
    and "enforced e" and "0 < n" and "n < 10"
  shows "length ps \<le> 3 \<and> \<not> list_ex is_object (map snd ps)"
proof -
  have "\<not> offending e (Some n) (JObj ps)"
    using aggregation.scan_False [OF reaches.here assms(1)] .
  then show ?thesis
    using assms(2-4) by (simp add: k_anonymity_violated_def small_sample_def)
qed

theorem small_sample_flat_witness:
  "length [(''avg'', JNum (Fin 3))] \<le> 3 \<and> \<not> list_ex is_object (map snd [(''avg'', JNum (Fin 3))])"
  by (rule small_sample_flat [of "\<lambda>s. None" 2 EnforcedByDefault 5])
    (simp_all add: enforced_def k_anonymity_violated_def max_rows_def numeral_2_eq_2 Let_def)

text \<open>Two ways around the output policy. An array of strings is not entered, so under the
  default policy any text, a JSON dump of all rows included, passes inside one; and an output with
  \<open>isError: true\<close> skips schema and scan whatever else it holds.\<close>

theorem output_policy_bypasses:
  "violates_aggregation_first parse (Suc fuel) EnforcedByDefault c (JArr [JStr t]) = Some False \<and>
   validate_output_policy parse fuel isDev n tool (JObj ((''isError'', JBool True) # rows)) (Some p) sch = Some None"
  by (simp add: enforced_def allow_primitives_def validate_output_policy_def parse_unknown_json_def
      is_error_result_def get_prop_def)

end
