(* ===== verification/Pii.thy ===== *)
theory Pii
  imports Regex DeepScan
begin

text \<open>
  The PII engine of \<open>server/pii.ts\<close>: the validators (Luhn, ISO 7064 mod 97-10 for IBANs, IP
  addresses, phone numbers, social security numbers), the pattern catalogue and presets, and
  \<open>PiiScanner\<close> with its key matching and its deep scan; and the named entity scanner of
  \<open>server/ner-scanner.ts\<close>, for which the NLP library is a parameter. Scanned values are trees, so
  the scanner's set of visited objects never skips anything.
\<close>

section \<open>Digits\<close>

definition digits_of :: "string \<Rightarrow> string" where
  "digits_of s = re_replace_all (Pred (\<lambda>c. \<not> is_digit c)) (\<lambda>m. []) s"

definition digit_value :: "char \<Rightarrow> nat" where
  "digit_value c = code_of c - 48"

text \<open>\<open>parseInt(s, 10)\<close> and \<open>BigInt(s)\<close> of a string of digits.\<close>

definition decimal :: "string \<Rightarrow> nat" where
  "decimal s = foldl (\<lambda>n c. 10 * n + digit_value c) 0 s"

section \<open>Validators\<close>

text \<open>The loop of \<open>isLuhnValid\<close>, from the last digit to the first.\<close>

fun luhn_sum :: "bool \<Rightarrow> string \<Rightarrow> nat" where
  "luhn_sum isEven [] = 0"
| "luhn_sum isEven (c # cs) =
     (let digit = digit_value c;
          doubled = (if isEven then (if 9 < digit * 2 then digit * 2 - 9 else digit * 2) else digit)
      in doubled + luhn_sum (\<not> isEven) cs)"

definition is_luhn_valid :: "string \<Rightarrow> bool" where
  "is_luhn_valid cardNumber =
     (let digits = digits_of cardNumber in
      if length digits < 13 \<or> 19 < length digits then False
      else luhn_sum False (rev digits) mod 10 = 0)"

definition upper_char :: "char \<Rightarrow> char" where
  "upper_char c = (if is_lower c then char_of (code_of c - 32) else c)"

definition iban_alnum :: "char \<Rightarrow> bool" where
  "iban_alnum c \<longleftrightarrow> is_upper c \<or> is_digit c"

definition iban_shape :: re where
  "iban_shape = cats [AtStart, times_re 2 2 (Pred is_upper), times_re 2 2 (Pred is_digit),
     times_re 1 30 (Pred iban_alnum), AtEnd]"

fun numeric_string :: "string \<Rightarrow> string option" where
  "numeric_string [] = Some []"
| "numeric_string (c # cs) =
     (if is_upper c then map_option (\<lambda>r. nat_str (code_of c - 55) @ r) (numeric_string cs)
      else if is_digit c then map_option (\<lambda>r. c # r) (numeric_string cs)
      else None)"

text \<open>The argument is a match of the IBAN pattern: letters and digits of ASCII.\<close>

definition is_iban_valid :: "string \<Rightarrow> bool" where
  "is_iban_valid iban =
     (let sanitized = map upper_char (re_replace_all (plus (Pred is_space)) (\<lambda>m. []) iban) in
      if \<not> re_test iban_shape sanitized then False
      else
        (let rearranged = drop 4 sanitized @ take 4 sanitized in
         case numeric_string rearranged of
           None \<Rightarrow> False
         | Some n \<Rightarrow> decimal n mod 97 = 1))"

text \<open>\<open>/^(\d)\1+$/\<close>\<close>

definition one_digit_repeated :: "string \<Rightarrow> bool" where
  "one_digit_repeated s \<longleftrightarrow> 2 \<le> length s \<and> is_digit (hd s) \<and> list_all (\<lambda>c. c = hd s) s"

definition email_valid :: "string \<Rightarrow> bool" where
  "email_valid m \<longleftrightarrow> \<not> ends_with m ''@example.com'' \<and> \<not> ends_with m ''@test.com''"

fun split_dots :: "string \<Rightarrow> string list" where
  "split_dots [] = [[]]"
| "split_dots (c # cs) =
     (if c = CHR ''.'' then [] # split_dots cs
      else case split_dots cs of [] \<Rightarrow> [[c]] | p # ps \<Rightarrow> (c # p) # ps)"

text \<open>The parts of a match of the IP pattern are digits, so \<open>Number\<close> reads them as decimals.\<close>

definition ip_valid :: "string \<Rightarrow> bool" where
  "ip_valid m =
     (if m \<in> {''127.0.0.1'', ''0.0.0.0'', ''255.255.255.255''} then False
      else list_all (\<lambda>p. decimal p \<le> 255) (split_dots m))"

definition phone_valid :: "string \<Rightarrow> bool" where
  "phone_valid m =
     (let digits = digits_of m in
      if length digits < 7 \<or> 15 < length digits then False
      else if one_digit_repeated digits then False
      else if digits = ''1234567890'' then False
      else True)"

definition ssn_valid :: "string \<Rightarrow> bool" where
  "ssn_valid m =
     (let digits = digits_of m in
      if length digits \<noteq> 9 then False
      else
        (let area = decimal (take 3 digits) in
         if area = 0 \<or> area = 666 \<or> 900 \<le> area then False
         else if decimal (take 2 (drop 3 digits)) = 0 then False
         else if decimal (take 4 (drop 5 digits)) = 0 then False
         else if one_digit_repeated digits \<or> digits = ''123456789'' then False
         else True))"

section \<open>Patterns\<close>

text \<open>\<open>PiiRuleDefinition\<close> and \<open>PiiRule\<close>; a regular expression comes with its source text and its
  flag \<open>g\<close> (a global one matches no empty string).\<close>

datatype pii_pattern = TextPattern string | RegexPattern re bool

record pii_definition =
  pd_name :: string
  pd_pattern :: pii_pattern
  pd_validator :: "(string \<Rightarrow> bool) option"

datatype pii_rule = RuleText string | RuleRegex string re | RuleDefinition pii_definition

definition digit :: re where "digit = Pred is_digit"

definition one_of :: "string \<Rightarrow> re" where "one_of s = Pred (\<lambda>c. c \<in> set s)"

definition is_letter :: "char \<Rightarrow> bool" where "is_letter c \<longleftrightarrow> is_upper c \<or> is_lower c"

definition email_pattern :: re where
  "email_pattern = cats [WordBoundary,
     plus (Pred (\<lambda>c. is_letter c \<or> is_digit c \<or> c \<in> set ''._%+-'')), chr (CHR ''@''),
     plus (Pred (\<lambda>c. is_letter c \<or> is_digit c \<or> c \<in> set ''.-'')), chr (CHR ''.''),
     Rep True 2 None (Pred is_letter), WordBoundary]"

definition card_pattern :: re where
  "card_pattern = cats [WordBoundary, times_re 13 16 (Cat digit (Rep False 0 None (one_of '' -''))), WordBoundary]"

definition ip_pattern :: re where
  "ip_pattern = cats [WordBoundary, times_re 1 3 digit, chr (CHR ''.''), times_re 1 3 digit, chr (CHR ''.''),
     times_re 1 3 digit, chr (CHR ''.''), times_re 1 3 digit, WordBoundary]"

definition phone_pattern :: re where
  "phone_pattern = cats [
     cats [opt (cats [opt (chr (CHR ''+'')), times_re 1 3 digit, opt (one_of ''-. '')]),
       opt (chr (CHR ''('')), times_re 3 3 digit, opt (chr (CHR '')'')), opt (one_of ''-. ''),
       times_re 3 3 digit, opt (one_of ''-. ''), times_re 4 4 digit],
     WordBoundary]"

definition ssn_pattern :: re where
  "ssn_pattern = cats [WordBoundary, times_re 3 3 digit, opt (one_of ''- ''), times_re 2 2 digit,
     opt (one_of ''- ''), times_re 4 4 digit, WordBoundary]"

definition iban_pattern :: re where
  "iban_pattern = cats [WordBoundary, times_re 2 2 (Pred is_letter), times_re 2 2 digit,
     times_re 1 30 (Pred (\<lambda>c. is_letter c \<or> is_digit c)), WordBoundary]"

definition mrz_pattern :: re where
  "mrz_pattern = cats [WordBoundary, chr (CHR ''P''), Pred (\<lambda>c. is_upper c \<or> c = CHR ''<''),
     times_re 3 3 (Pred (\<lambda>c. is_upper c \<or> c = CHR ''<'')),
     times_re 39 39 (Pred (\<lambda>c. is_upper c \<or> is_digit c \<or> c = CHR ''<'')),
     alts [WordBoundary, Pred is_space, AtEnd]]"

definition pii_rule_of :: "string \<Rightarrow> re \<Rightarrow> (string \<Rightarrow> bool) option \<Rightarrow> pii_rule" where
  "pii_rule_of name r val = RuleDefinition \<lparr>pd_name = name, pd_pattern = RegexPattern r True, pd_validator = val\<rparr>"

definition pii_email :: pii_rule where "pii_email = pii_rule_of ''EMAIL'' email_pattern (Some email_valid)"
definition pii_card :: pii_rule where "pii_card = pii_rule_of ''CREDIT_CARD'' card_pattern (Some is_luhn_valid)"
definition pii_ip :: pii_rule where "pii_ip = pii_rule_of ''IP_ADDRESS'' ip_pattern (Some ip_valid)"
definition pii_phone :: pii_rule where "pii_phone = pii_rule_of ''PHONE'' phone_pattern (Some phone_valid)"
definition pii_ssn :: pii_rule where "pii_ssn = pii_rule_of ''SSN'' ssn_pattern (Some ssn_valid)"
definition pii_iban :: pii_rule where "pii_iban = pii_rule_of ''IBAN'' iban_pattern (Some is_iban_valid)"
definition pii_mrz :: pii_rule where "pii_mrz = pii_rule_of ''PASSPORT_MRZ'' mrz_pattern None"

definition preset_global_strict :: "pii_rule list" where
  "preset_global_strict = [pii_email, pii_card, pii_ip, pii_phone, pii_mrz, pii_iban]"

definition preset_us_compliant :: "pii_rule list" where
  "preset_us_compliant = [pii_email, pii_card, pii_ip, pii_phone, pii_ssn, pii_mrz]"

definition preset_eu_gdpr :: "pii_rule list" where
  "preset_eu_gdpr = [pii_email, pii_card, pii_ip, pii_phone, pii_iban, pii_mrz]"

section \<open>The scanner\<close>

definition key_safelist :: "string list" where
  "key_safelist =
    [''grid'', ''video'', ''android'', ''identity'', ''provide'', ''override'', ''validate'', ''hidden'',
     ''widget'', ''guidelines'', ''beside'', ''guideline'', ''outside'', ''inside'', ''collide'', ''decide'',
     ''divide'', ''aside'', ''ride'', ''side'', ''wide'', ''hide'', ''tide'', ''pride'', ''bride'', ''slide'',
     ''guide'', ''stride'', ''oxide'', ''dioxide'', ''suicide'', ''homicide'', ''pesticide'', ''valid'',
     ''invalid'', ''void'', ''avoid'', ''diagnosis'', ''medication'', ''namespace'', ''namesake'', ''rename'',
     ''filename'', ''hostname'', ''typename'', ''unnamed'', ''renamed'', ''phonetic'', ''phoneme'',
     ''microphone'', ''headphone'', ''telephone'', ''saxophone'', ''smartphone'', ''streetview'',
     ''addressable'', ''addressing'', ''cityscape'', ''electricity'', ''capacity'', ''velocity'', ''opacity'',
     ''timestamp'', ''timezone'', ''image_id'', ''computation_result'', ''zk_receipt'', ''testid'', ''toolid'',
     ''sessionid'', ''peerid'', ''nodeid'', ''requestid'', ''correlationid'', ''traceid'', ''spanid'']"

text \<open>The boundary expression of a short token. The tokens consist of letters and digits.\<close>

definition both_cases :: "string \<Rightarrow> re" where
  "both_cases token = cats (map (\<lambda>c. Pred (\<lambda>d. d = lower_char c \<or> d = upper_char c)) token)"

definition camel_token :: "string \<Rightarrow> re" where
  "camel_token token = Cat (Pred is_lower) (lit (map upper_char (take 1 token) @ drop 1 token))"

definition boundary_pattern :: "string \<Rightarrow> re" where
  "boundary_pattern token =
     alts [cats [alts [AtStart, one_of ''_-''], both_cases token, alts [AtEnd, one_of ''_-'']],
           Cat (camel_token token) (alts [AtEnd, Pred (\<lambda>c. is_upper c \<or> c \<in> set ''_-'')]),
           cats [AtStart, both_cases token, AtEnd]]"

record pii_scanner =
  ps_patterns :: "pii_rule list"
  ps_forbiddenKeys :: "string list"
  ps_shortTokens :: "(string \<times> re) list"
  ps_longTokens :: "string list"

definition new_pii_scanner :: "pii_rule list \<Rightarrow> string list \<Rightarrow> pii_scanner" where
  "new_pii_scanner patterns forbiddenKeys =
     (let keys = remdups (map js_lower forbiddenKeys) in
      \<lparr>ps_patterns = patterns, ps_forbiddenKeys = keys,
       ps_shortTokens = map (\<lambda>t. (t, boundary_pattern t)) (filter (\<lambda>t. length t < 4) keys),
       ps_longTokens = filter (\<lambda>t. \<not> length t < 4) keys\<rparr>)"

definition dquoted :: "string \<Rightarrow> string" where
  "dquoted s = [CHR 0x22] @ s @ [CHR 0x22]"

definition check_key_fuzzy :: "pii_scanner \<Rightarrow> string \<Rightarrow> string option" where
  "check_key_fuzzy A key =
     (let normalized = js_lower key in
      if normalized \<in> set key_safelist then None
      else
        (case find (\<lambda>(token, pattern). re_test pattern key) (ps_shortTokens A) of
           Some (token, pattern) \<Rightarrow>
             Some (''Forbidden Key (fuzzy): '' @ key @ '' matches boundary pattern '' @ dquoted token)
         | None \<Rightarrow>
             (case find (\<lambda>token. js_includes normalized token) (ps_longTokens A) of
                Some token \<Rightarrow>
                  Some (''Forbidden Key (fuzzy): '' @ key @ '' contains restricted token '' @ dquoted token)
              | None \<Rightarrow> None)))"

definition accepts_match :: "(string \<Rightarrow> bool) option \<Rightarrow> string \<Rightarrow> bool" where
  "accepts_match val m = (case val of None \<Rightarrow> True | Some f \<Rightarrow> f m)"

definition check_rule :: "string \<Rightarrow> pii_rule \<Rightarrow> string option" where
  "check_rule str rule =
     (case rule of
        RuleText r \<Rightarrow> if js_includes (js_lower str) (js_lower r) then Some r else None
      | RuleRegex src r \<Rightarrow> if re_test r str then Some src else None
      | RuleDefinition d \<Rightarrow>
          (case pd_pattern d of
             TextPattern p \<Rightarrow>
               if js_includes (js_lower str) (js_lower p) \<and> accepts_match (pd_validator d) p
               then Some (pd_name d) else None
           | RegexPattern r glob \<Rightarrow>
               (let ms = re_matches r str in
                if list_ex (accepts_match (pd_validator d)) (if glob then ms else take 1 ms)
                then Some (pd_name d) else None)))"

fun check_string :: "pii_rule list \<Rightarrow> string \<Rightarrow> string option" where
  "check_string [] str = None"
| "check_string (r # rs) str =
     (case check_rule str r of Some v \<Rightarrow> Some v | None \<Rightarrow> check_string rs str)"

section \<open>Named entities\<close>

datatype entity_type = Person | Place | Organization

type_synonym entity = "entity_type \<times> string"

text \<open>What the code uses of the NLP library: the people, places and organizations of a text.\<close>

record nlp =
  nlp_people :: "string \<Rightarrow> string list"
  nlp_places :: "string \<Rightarrow> string list"
  nlp_organizations :: "string \<Rightarrow> string list"

definition non_text :: "string \<Rightarrow> bool" where
  "non_text s \<longleftrightarrow> s \<noteq> [] \<and>
     list_all (\<lambda>c. is_digit c \<or> is_space c \<or> c \<in> set ''.,:;!?()[]{}<>@#$%^&*+=|/`~_-'' \<or>
       code_of c \<in> {92, 34, 39}) s"

definition long_entities :: "entity_type \<Rightarrow> string list \<Rightarrow> entity list" where
  "long_entities t names = map (\<lambda>n. (t, n)) (filter (\<lambda>n. 4 \<le> length n) (map js_trim names))"

definition ner_scan :: "nlp \<Rightarrow> string \<Rightarrow> entity list" where
  "ner_scan N s =
     (if length s < 4 \<or> non_text s then []
      else long_entities Person (nlp_people N s) @ long_entities Place (nlp_places N s) @
           long_entities Organization (nlp_organizations N s))"

text \<open>\<open>scanDeep\<close>: stops at the first value with a person.\<close>

fun has_person :: "entity list \<Rightarrow> bool" where
  "has_person es = list_ex (\<lambda>e. fst e = Person) es"

fun ner_scan_deep :: "nlp \<Rightarrow> jsval \<Rightarrow> entity list"
  and ner_scan_all :: "nlp \<Rightarrow> entity list \<Rightarrow> jsval list \<Rightarrow> entity list"
  and ner_scan_props :: "nlp \<Rightarrow> entity list \<Rightarrow> (string \<times> jsval) list \<Rightarrow> entity list" where
  "ner_scan_deep N (JStr s) = ner_scan N s"
| "ner_scan_deep N (JArr xs) = ner_scan_all N [] xs"
| "ner_scan_deep N (JObj ps) = ner_scan_props N [] ps"
| "ner_scan_deep N JUndef = []" | "ner_scan_deep N JNull = []"
| "ner_scan_deep N (JBool b) = []" | "ner_scan_deep N (JNum x) = []"
| "ner_scan_all N acc [] = acc"
| "ner_scan_all N acc (v # vs) =
     (let es = ner_scan_deep N v in
      if has_person es then acc @ es else ner_scan_all N (acc @ es) vs)"
| "ner_scan_props N acc [] = acc"
| "ner_scan_props N acc ((k, v) # vs) =
     (let es = ner_scan_deep N v in
      if has_person es then acc @ es else ner_scan_props N (acc @ es) vs)"

definition ner_person :: "nlp option \<Rightarrow> string \<Rightarrow> string option" where
  "ner_person ner s =
     (case ner of None \<Rightarrow> None
      | Some N \<Rightarrow>
          (case find (\<lambda>e. fst e = Person) (ner_scan N s) of
             None \<Rightarrow> None
           | Some e \<Rightarrow> Some (''PII Entity Detected: person name '' @ dquoted (snd e))))"

section \<open>The deep scan\<close>

text \<open>A violation counts only when its name is a non-empty text (\<open>if (violation) return violation\<close>):
  a rule with an empty text, source or name stops nothing, and the next check runs.\<close>

definition key_violation :: "pii_scanner \<Rightarrow> string \<Rightarrow> string option" where
  "key_violation A key =
     (if js_lower key \<in> set (ps_forbiddenKeys A) then Some (''Forbidden Key: '' @ key)
      else truthy_string (check_key_fuzzy A key))"

definition string_violation :: "pii_scanner \<Rightarrow> nlp option \<Rightarrow> string \<Rightarrow> string option" where
  "string_violation A ner s =
     (case truthy_string (check_string (ps_patterns A) s) of
        Some v \<Rightarrow> Some v
      | None \<Rightarrow> ner_person ner s)"

fun scan_items :: "(jsval \<Rightarrow> string option option) \<Rightarrow> jsval list \<Rightarrow> string option option" where
  "scan_items f [] = Some None"
| "scan_items f (x # xs) =
     (case f x of
        None \<Rightarrow> None
      | Some r \<Rightarrow>
          (case truthy_string r of Some v \<Rightarrow> Some (Some v) | None \<Rightarrow> scan_items f xs))"

fun scan_props :: "(string \<Rightarrow> string option) \<Rightarrow> (jsval \<Rightarrow> string option option) \<Rightarrow> (string \<times> jsval) list
    \<Rightarrow> string option option" where
  "scan_props g f [] = Some None"
| "scan_props g f ((k, x) # ps) =
     (case g k of Some v \<Rightarrow> Some (Some v)
      | None \<Rightarrow>
          (case f x of
             None \<Rightarrow> None
           | Some r \<Rightarrow>
               (case truthy_string r of Some v \<Rightarrow> Some (Some v) | None \<Rightarrow> scan_props g f ps)))"

fun pii_scan :: "json_parser \<Rightarrow> nlp option \<Rightarrow> pii_scanner \<Rightarrow> nat \<Rightarrow> jsval \<Rightarrow> string option option" where
  "pii_scan parse ner A 0 input = None"
| "pii_scan parse ner A (Suc fuel) input =
     (case input of
        JStr s \<Rightarrow>
          (let trimmed = js_trim s in
           case (if looks_json trimmed
                 then (case parse trimmed of Some p \<Rightarrow> pii_scan parse ner A fuel p | None \<Rightarrow> Some None)
                 else Some None) of
             None \<Rightarrow> None
           | Some r \<Rightarrow>
               (case truthy_string r of
                  Some v \<Rightarrow> Some (Some v)
                | None \<Rightarrow> Some (string_violation A ner s)))
      | JArr xs \<Rightarrow> scan_items (pii_scan parse ner A fuel) xs
      | JObj ps \<Rightarrow> scan_props (key_violation A) (pii_scan parse ner A fuel) ps
      | _ \<Rightarrow> Some None)"

end
