(* ===== verification/Sanitizer.thy ===== *)
theory Sanitizer
  imports Value
begin

text \<open>
  The output sanitizer of \<open>server/output-sanitizer.ts\<close>: \<open>sanitizeOutput\<close> rounds the numbers of an
  output, raises negative ones to zero and copies the containers. Its guard against cycles is a
  set of visited objects, so object identity matters: \<open>tval\<close> is a value whose arrays and objects
  carry their identity. Floating point enters as \<open>fl\<close>, the rounding of an exact result to a double
  (or to an infinity); the powers of ten used as factors are exact.
\<close>

datatype tval =
    TUndef
  | TNull
  | TBool bool
  | TNum jsnum
  | TStr string
  | TArr nat "tval list"
  | TObj nat "(string \<times> tval) list"

fun erase :: "tval \<Rightarrow> jsval" where
  "erase TUndef = JUndef"
| "erase TNull = JNull"
| "erase (TBool b) = JBool b"
| "erase (TNum x) = JNum x"
| "erase (TStr s) = JStr s"
| "erase (TArr i xs) = JArr (map erase xs)"
| "erase (TObj i ps) = JObj (map (\<lambda>p. (fst p, erase (snd p))) ps)"

fun identities :: "tval \<Rightarrow> nat list" where
  "identities (TArr i xs) = i # concat (map identities xs)"
| "identities (TObj i ps) = i # concat (map (\<lambda>p. identities (snd p)) ps)"
| "identities v = []"

record sanitizer_config =
  sz_maxDecimalPlaces :: nat
  sz_clampNonNegative :: bool

definition default_config :: sanitizer_config where
  "default_config = \<lparr>sz_maxDecimalPlaces = 4, sz_clampNonNegative = True\<rparr>"

text \<open>\<open>Math.round\<close> is the integer nearest to its argument, the greater one of two.\<close>

definition math_round :: "real \<Rightarrow> real" where
  "math_round x = of_int \<lfloor>x + 1 / 2\<rfloor>"

definition sanitize_number :: "sanitizer_config \<Rightarrow> (real \<Rightarrow> jsnum) \<Rightarrow> jsnum \<Rightarrow> jsnum" where
  "sanitize_number cfg fl x =
     (case x of
        Fin r \<Rightarrow>
          (let value = (if sz_clampNonNegative cfg \<and> r < 0 then 0 else r);
               factor = 10 ^ sz_maxDecimalPlaces cfg
           in case fl (value * factor) of
                Fin y \<Rightarrow> fl (math_round y / factor)
              | big \<Rightarrow> big)
      | _ \<Rightarrow> x)"

text \<open>The recursive copy, with the identities seen so far. An object already seen is returned as
  it is. Assigning to the key \<open>__proto__\<close> of the fresh copy creates no property.\<close>

fun walk :: "sanitizer_config \<Rightarrow> (real \<Rightarrow> jsnum) \<Rightarrow> nat set \<Rightarrow> tval \<Rightarrow> jsval \<times> nat set"
  and walk_items :: "sanitizer_config \<Rightarrow> (real \<Rightarrow> jsnum) \<Rightarrow> nat set \<Rightarrow> tval list \<Rightarrow> jsval list \<times> nat set"
  and walk_props :: "sanitizer_config \<Rightarrow> (real \<Rightarrow> jsnum) \<Rightarrow> nat set \<Rightarrow> (string \<times> tval) list
                       \<Rightarrow> (string \<times> jsval) list \<times> nat set" where
  "walk cfg fl seen (TNum x) = (JNum (sanitize_number cfg fl x), seen)"
| "walk cfg fl seen (TArr i xs) =
     (if i \<in> seen then (erase (TArr i xs), seen)
      else case walk_items cfg fl (insert i seen) xs of (ys, seen') \<Rightarrow> (JArr ys, seen'))"
| "walk cfg fl seen (TObj i ps) =
     (if i \<in> seen then (erase (TObj i ps), seen)
      else case walk_props cfg fl (insert i seen) ps of (qs, seen') \<Rightarrow> (JObj qs, seen'))"
| "walk cfg fl seen TUndef = (JUndef, seen)"
| "walk cfg fl seen TNull = (JNull, seen)"
| "walk cfg fl seen (TBool b) = (JBool b, seen)"
| "walk cfg fl seen (TStr s) = (JStr s, seen)"
| "walk_items cfg fl seen [] = ([], seen)"
| "walk_items cfg fl seen (x # xs) =
     (case walk cfg fl seen x of (y, seen') \<Rightarrow>
        (case walk_items cfg fl seen' xs of (ys, seen'') \<Rightarrow> (y # ys, seen'')))"
| "walk_props cfg fl seen [] = ([], seen)"
| "walk_props cfg fl seen ((k, x) # ps) =
     (case walk cfg fl seen x of (y, seen') \<Rightarrow>
        (case walk_props cfg fl seen' ps of (qs, seen'') \<Rightarrow>
           (if k = ''__proto__'' then qs else (k, y) # qs, seen'')))"

definition sanitize_output :: "(real \<Rightarrow> jsnum) \<Rightarrow> sanitizer_config option \<Rightarrow> tval \<Rightarrow> jsval" where
  "sanitize_output fl config v =
     fst (walk (case config of None \<Rightarrow> default_config | Some c \<Rightarrow> c) fl {} v)"

section \<open>The copy of a value without sharing\<close>

text \<open>The intended result: every number replaced, the rest unchanged.\<close>

fun with_numbers :: "(jsnum \<Rightarrow> jsnum) \<Rightarrow> tval \<Rightarrow> jsval" where
  "with_numbers f (TNum x) = JNum (f x)"
| "with_numbers f (TArr i xs) = JArr (map (with_numbers f) xs)"
| "with_numbers f (TObj i ps) =
     JObj (map (\<lambda>p. (fst p, with_numbers f (snd p))) (filter (\<lambda>p. fst p \<noteq> ''__proto__'') ps))"
| "with_numbers f v = erase v"

lemma walk_unshared:
  shows "distinct (identities v) \<Longrightarrow> set (identities v) \<inter> seen = {} \<Longrightarrow>
      walk cfg fl seen v = (with_numbers (sanitize_number cfg fl) v, seen \<union> set (identities v))"
    and "distinct (concat (map identities xs)) \<Longrightarrow> set (concat (map identities xs)) \<inter> seen = {} \<Longrightarrow>
      walk_items cfg fl seen xs =
        (map (with_numbers (sanitize_number cfg fl)) xs, seen \<union> set (concat (map identities xs)))"
    and "distinct (concat (map (\<lambda>p. identities (snd p)) ps)) \<Longrightarrow>
      set (concat (map (\<lambda>p. identities (snd p)) ps)) \<inter> seen = {} \<Longrightarrow>
      walk_props cfg fl seen ps =
        (map (\<lambda>p. (fst p, with_numbers (sanitize_number cfg fl) (snd p))) (filter (\<lambda>p. fst p \<noteq> ''__proto__'') ps),
         seen \<union> set (concat (map (\<lambda>p. identities (snd p)) ps)))"
proof (induction cfg fl seen v and cfg fl seen xs and cfg fl seen ps
    rule: walk_walk_items_walk_props.induct)
  case (9 cfg fl seen x xs)
  have "walk cfg fl seen x = (with_numbers (sanitize_number cfg fl) x, seen \<union> set (identities x))"
    using 9 by auto
  moreover from 9(2) [OF this [symmetric]] 9(3,4)
  have "walk_items cfg fl (seen \<union> set (identities x)) xs =
      (map (with_numbers (sanitize_number cfg fl)) xs, seen \<union> set (identities x) \<union> set (concat (map identities xs)))"
    by auto
  ultimately show ?case by auto
next
  case (11 cfg fl seen k x ps)
  have "walk cfg fl seen x = (with_numbers (sanitize_number cfg fl) x, seen \<union> set (identities x))"
    using 11 by auto
  moreover from 11(2) [OF this [symmetric]] 11(3,4)
  have "walk_props cfg fl (seen \<union> set (identities x)) ps =
      (map (\<lambda>p. (fst p, with_numbers (sanitize_number cfg fl) (snd p))) (filter (\<lambda>p. fst p \<noteq> ''__proto__'') ps),
       seen \<union> set (identities x) \<union> set (concat (map (\<lambda>p. identities (snd p)) ps)))"
    by auto
  ultimately show ?case by auto
qed auto

section \<open>Properties\<close>

text \<open>The numbers of a value.\<close>

fun numbers :: "jsval \<Rightarrow> jsnum list" where
  "numbers (JNum x) = [x]"
| "numbers (JArr xs) = concat (map numbers xs)"
| "numbers (JObj ps) = concat (map (\<lambda>p. numbers (snd p)) ps)"
| "numbers v = []"

fun num_nonneg :: "jsnum \<Rightarrow> bool" where
  "num_nonneg (Fin r) = (0 \<le> r)"
| "num_nonneg PosInf = True"
| "num_nonneg v = False"

fun finite_num :: "jsnum \<Rightarrow> bool" where
  "finite_num (Fin r) = True"
| "finite_num v = False"

lemma numbers_with_numbers:
  "x \<in> set (numbers (with_numbers f v)) \<Longrightarrow> \<exists>y\<in>set (numbers (erase v)). x = f y"
proof (induction v)
  case (TObj i ps)
  then obtain p where p: "p \<in> set ps" "x \<in> set (numbers (with_numbers f (snd p)))" by auto
  with TObj.IH [of p "snd p"] have "\<exists>y\<in>set (numbers (erase (snd p))). x = f y"
    by (cases p) auto
  with p(1) show ?case by fastforce
qed fastforce+

lemma sanitize_number_nonneg:
  assumes "\<forall>r\<ge>0. num_nonneg (fl r)" and "sz_clampNonNegative cfg" and "finite_num x"
  shows "num_nonneg (sanitize_number cfg fl x)"
proof -
  obtain r where r: "x = Fin r" using assms(3) by (cases x) auto
  let ?v = "if r < 0 then 0 else r" and ?f = "10 ^ sz_maxDecimalPlaces cfg :: real"
  have nn: "num_nonneg (fl (?v * ?f))" using assms(1) by simp
  show ?thesis
  proof (cases "fl (?v * ?f)")
    case (Fin y)
    then have "0 \<le> math_round y / ?f" using nn by (simp add: math_round_def)
    then show ?thesis using assms(1,2) Fin by (simp add: sanitize_number_def r)
  qed (use nn assms(2) in \<open>simp_all add: sanitize_number_def r\<close>)
qed

text \<open>C31: on an output without shared objects the sanitizer returns the output with exactly its
  numbers replaced (and without keys \<open>__proto__\<close>); with the default configuration, and a rounding
  that keeps signs, each result of a finite number is non-negative.\<close>

theorem sanitizer_replaces_numbers:
  assumes "distinct (identities v)" and "\<forall>r\<ge>0. num_nonneg (fl r)"
  shows "sanitize_output fl None v = with_numbers (sanitize_number default_config fl) v \<and>
         (list_all finite_num (numbers (erase v)) \<longrightarrow> list_all num_nonneg (numbers (sanitize_output fl None v)))"
proof -
  have eq: "sanitize_output fl None v = with_numbers (sanitize_number default_config fl) v"
    using walk_unshared(1) [OF assms(1)] by (simp add: sanitize_output_def)
  moreover have "num_nonneg x" if "list_all finite_num (numbers (erase v))"
    and "x \<in> set (numbers (with_numbers (sanitize_number default_config fl) v))" for x
    using that numbers_with_numbers [OF that(2)] sanitize_number_nonneg [OF assms(2), of default_config]
    by (auto simp: list_all_iff default_config_def)
  ultimately show ?thesis by (auto simp: list_all_iff)
qed

theorem sanitizer_replaces_numbers_witness:
  "sanitize_output Fin None (TObj 0 [(''sum'', TNum (Fin (- 2))), (''rows'', TArr 1 [TNum (Fin 3)])]) =
     with_numbers (sanitize_number default_config Fin) (TObj 0 [(''sum'', TNum (Fin (- 2))), (''rows'', TArr 1 [TNum (Fin 3)])])"
  using sanitizer_replaces_numbers [of "TObj 0 [(''sum'', TNum (Fin (- 2))), (''rows'', TArr 1 [TNum (Fin 3)])]" Fin]
  by simp

text \<open>An object that the output refers to twice is returned unsanitized the second time: its
  negative number stays.\<close>

theorem shared_object_unsanitized:
  "sanitize_output Fin None (TArr 0 [TObj 1 [(''x'', TNum (Fin (- 7)))], TObj 1 [(''x'', TNum (Fin (- 7)))]]) =
     JArr [JObj [(''x'', JNum (Fin 0))], JObj [(''x'', JNum (Fin (- 7)))]]"
  by (simp add: sanitize_output_def default_config_def sanitize_number_def math_round_def)

end
