(* ===== verification/Server.thy ===== *)
theory Server
  imports Windows QueryBudget OutputPolicy Pii Sanitizer
begin

text \<open>
  The tool calls of \<open>server/index.ts\<close>: registration, \<open>callTool\<close>, the middleware that
  \<open>tool\<close> wraps around the handler of a Logic-on-Origin tool, \<open>extractLogic\<close> and the egress
  pipeline of \<open>executeInWorkerPool\<close> (sanitizer, output policy, PII scan, aggregation scan). The
  worker that runs the injected logic, the zod schema of the arguments, the handlers of the
  developer, SHA-256 and JSON are parameters.
\<close>

section \<open>The envelope\<close>

definition newline_re :: re where
  "newline_re = plus (Pred (\<lambda>c. c = CHR 0x0D \<or> c = CHR 0x0A))"

text \<open>\<open>LIOP_COMPACT_REGEX\<close> up to the group \<open>logic\<close>, and what follows that group.\<close>

definition envelope_head :: re where
  "envelope_head = cats [lit ''@LIOP{'', plus (Pred (\<lambda>c. c \<noteq> CHR '','' \<and> c \<noteq> CHR ''}'')),
     opt (cats [chr (CHR '',''), star blank, star (Pred (\<lambda>c. c \<noteq> CHR ''}''))]), chr (CHR ''}''), newline_re]"

definition envelope_tail :: re where
  "envelope_tail = Cat newline_re (lit ''@END'')"

text \<open>The group \<open>logic\<close> is lazy: the first end, from the start of the group on, where the tail
  matches.\<close>

definition logic_from :: "pos \<Rightarrow> string option" where
  "logic_from q =
     map_option (\<lambda>r. take (length (snd q) - length (snd r)) (snd q))
       (find (\<lambda>r. re_match envelope_tail r \<noteq> []) (re_match (Rep False 0 None (Pred (\<lambda>c. True))) q))"

fun envelope_logic :: "string \<Rightarrow> string \<Rightarrow> string option" where
  "envelope_logic b a =
     (case List.map_filter logic_from (re_match envelope_head (b, a)) of
        l # _ \<Rightarrow> Some l
      | [] \<Rightarrow> (case a of [] \<Rightarrow> None | c # a' \<Rightarrow> envelope_logic (c # b) a'))"

declare envelope_logic.simps [simp del]

definition extract_logic :: "string \<Rightarrow> string option" where
  "extract_logic payload =
     (if payload = [] then None
      else (case truthy_string (envelope_logic [] (js_trim payload)) of
              None \<Rightarrow> None
            | Some l \<Rightarrow> Some (js_trim l)))"

section \<open>State\<close>

record call_result =
  cr_content :: "string list"       \<comment> \<open>the texts of the content array\<close>
  cr_isError :: bool

definition text_error :: "string \<Rightarrow> call_result" where
  "text_error msg = \<lparr>cr_content = [msg], cr_isError = True\<rparr>"

text \<open>The handler a tool was registered with: the developer's function (which may throw), or the
  middleware, when the shape has a string \<open>payload\<close>.\<close>

datatype tool_handler = DeveloperHandler "jsval \<Rightarrow> string + call_result" | LogicMiddleware

record tool_entry =
  te_parse :: "jsval \<Rightarrow> string + jsval"      \<comment> \<open>\<open>schema.parse\<close>: the message of a ZodError, or the arguments\<close>
  te_handler :: tool_handler
  te_policy :: "execution_policy option"
  te_outputSchema :: "schema option"

record connection_stats =
  st_failures :: int
  st_lastAttempt :: int

record 'file server_state =
  sv_tools :: "(string \<times> tool_entry) list"
  sv_toolWindows :: tool_windows
  sv_globalWindow :: "int list"
  sv_memory :: memory_budget
  sv_disk :: "'file disk"
  sv_stats :: connection_stats
  sv_logicCache :: "(string \<times> int) list"
  sv_recordCount :: int

record dp_config =
  dc_epsilon :: real
  dc_sensitivity :: real
  dc_smallDatasetThreshold :: int

record worker_output =
  wo_output :: tval
  wo_image_id :: jsval
  wo_zk_receipt :: jsval

text \<open>Everything the code gets from outside: the parsers and the walker, the file system, the
  worker pool, the libraries, the environment and the configuration.\<close>

record 'file server_env =
  se_analyzer :: analyzer
  se_parseAst :: parser
  se_walk :: walker
  se_parseFile :: "'file \<Rightarrow> disk_budget option"
  se_renderFile :: "disk_budget \<Rightarrow> 'file"
  se_fs :: fs_env
  se_budgetStorePath :: "string option"
  se_windows :: window_config
  se_worker :: "dp_config option \<Rightarrow> string \<Rightarrow> string + worker_output"
  se_round :: "real \<Rightarrow> jsnum"
  se_parse :: json_parser
  se_stringify :: "jsval \<Rightarrow> string"
  se_sha256 :: "string \<Rightarrow> string"
  se_pii :: pii_scanner
  se_ner :: "nlp option"
  se_environment :: "string \<Rightarrow> string option"

definition is_dev :: "(string \<Rightarrow> string option) \<Rightarrow> bool" where
  "is_dev env \<longleftrightarrow> env ''NODE_ENV'' = Some ''development'' \<or> env ''NODE_ENV'' = Some ''test'' \<or>
     env ''LIOP_SEC_VERBOSE'' = Some ''1''"

section \<open>The egress pipeline\<close>

definition dp_config_of :: "execution_policy option \<Rightarrow> dp_config option" where
  "dp_config_of policy =
     (case policy of None \<Rightarrow> None
      | Some p \<Rightarrow> Some
          \<lparr>dc_epsilon = (case lp_dpEpsilon p of Some e \<Rightarrow> e | None \<Rightarrow> 1),
           dc_sensitivity = (case lp_dpSensitivity p of Some s \<Rightarrow> s | None \<Rightarrow> 1),
           dc_smallDatasetThreshold = (case lp_dpSmallDatasetThreshold p of Some n \<Rightarrow> n | None \<Rightarrow> 50)\<rparr>)"

definition blocked_message :: string where
  "blocked_message = ''[LIOP] Egress Security Violation. Output blocked due to policy enforcement. Ensure your logic uses strictly aggregated, non-PII patterns.''"

definition is_oom :: "string \<Rightarrow> bool" where
  "is_oom detail \<longleftrightarrow> js_includes detail ''worker_thread_exited'' \<or> js_includes detail ''ERR_WORKER_OUT_OF_MEMORY'' \<or>
     js_includes detail ''terminated'' \<or> js_includes detail ''heap limit''"

definition worker_fault :: "bool \<Rightarrow> string \<Rightarrow> call_result" where
  "worker_fault isDev detail =
     text_error
       (if is_oom detail
        then ''[LIOP] Execution terminated: memory limit exceeded (64MB heap). Reduce data processing volume.''
        else if isDev then ''WorkerPoolError: '' @ detail
        else ''[LIOP] Execution Failed. The injected logic violated runtime constraints or encountered a fatal error.'')"

definition success_envelope :: "jsval \<Rightarrow> worker_output \<Rightarrow> jsval" where
  "success_envelope out w =
     JObj [(''computation_result'', out), (''image_id'', wo_image_id w), (''zk_receipt'', wo_zk_receipt w),
           (''status'', JStr ''Worker Pool Execution Success'')]"

text \<open>The checks on the sanitized output, with fuel for its weight: \<open>None\<close> if the output may leave,
  otherwise the message.\<close>

definition egress_check ::
    "'file server_env \<Rightarrow> int \<Rightarrow> string \<Rightarrow> execution_policy option \<Rightarrow> schema option \<Rightarrow> jsval \<Rightarrow> string option option" where
  "egress_check E n toolName policy sch out =
     (let isDev = is_dev (se_environment E); fuel = weight out in
      case validate_output_policy (se_parse E) fuel isDev n toolName out policy sch of
        None \<Rightarrow> None
      | Some (Some v) \<Rightarrow> Some (Some (if isDev then v else blocked_message))
      | Some None \<Rightarrow>
          (case pii_scan (se_parse E) (se_ner E) (se_pii E) fuel out of
             None \<Rightarrow> None
           | Some violation \<Rightarrow>
               (case violates_aggregation_first (se_parse E) fuel
                       (case policy of None \<Rightarrow> NotEnforced | Some p \<Rightarrow> lp_enforceAggregationFirst p) (Some n) out of
                  None \<Rightarrow> None
                | Some aggregationViolation \<Rightarrow>
                    if truthy_string violation \<noteq> None \<or> aggregationViolation then
                      Some (Some
                        (if isDev
                         then ''[LIOP] Egress Security Violation: '' @
                           (case truthy_string violation of
                              Some v \<Rightarrow> v
                            | None \<Rightarrow> ''Aggregation-First Policy Violation: Output blocked due to dynamic flat-key policy enforcement.'')
                         else blocked_message))
                    else Some None)))"

definition execute_in_worker_pool ::
    "'file server_env \<Rightarrow> 'file server_state \<Rightarrow> string \<Rightarrow> string \<Rightarrow> call_result option" where
  "execute_in_worker_pool E S rawPayload toolName =
     (let entry = map_of (sv_tools S) toolName;
          policy = (case entry of None \<Rightarrow> None | Some t \<Rightarrow> te_policy t);
          sch = (case entry of None \<Rightarrow> None | Some t \<Rightarrow> te_outputSchema t)
      in case se_worker E (dp_config_of policy) rawPayload of
           Inl detail \<Rightarrow> Some (worker_fault (is_dev (se_environment E)) detail)
         | Inr w \<Rightarrow>
             (let sanitizedOutput = sanitize_output (se_round E) None (wo_output w) in
              case egress_check E (sv_recordCount S) toolName policy sch sanitizedOutput of
                None \<Rightarrow> None
              | Some (Some msg) \<Rightarrow> Some (text_error msg)
              | Some None \<Rightarrow>
                  Some \<lparr>cr_content = [se_stringify E (success_envelope sanitizedOutput w)], cr_isError = False\<rparr>))"

section \<open>Preflight in the server\<close>

definition server_preflight ::
    "'file server_env \<Rightarrow> string \<Rightarrow> string \<Rightarrow> execution_policy option \<Rightarrow> string \<Rightarrow> 'file server_state
       \<Rightarrow> string option \<times> 'file server_state" where
  "server_preflight E toolName logic policy clientId S =
     (case run_preflight_policy (se_analyzer E) (se_parseAst E) (se_walk E) (se_parseFile E) (se_renderFile E)
             (se_fs E) (se_budgetStorePath E) (sv_recordCount S) toolName logic policy clientId
             (sv_memory S, sv_disk S) of
        (r, mem, disk) \<Rightarrow> (r, S\<lparr>sv_memory := mem, sv_disk := disk\<rparr>))"

section \<open>The Logic-on-Origin middleware\<close>

definition throttle_threshold :: int where "throttle_threshold = 5"
definition throttle_cooldown_ms :: int where "throttle_cooldown_ms = 60000"
definition cache_ttl_ms :: int where "cache_ttl_ms = 86400000"

definition record_failure :: "int \<Rightarrow> 'file server_state \<Rightarrow> 'file server_state" where
  "record_failure now S =
     S\<lparr>sv_stats := \<lparr>st_failures = st_failures (sv_stats S) + 1, st_lastAttempt = now\<rparr>\<rparr>"

definition throttled :: "int \<Rightarrow> 'file server_state \<Rightarrow> bool" where
  "throttled now S \<longleftrightarrow> throttle_threshold \<le> st_failures (sv_stats S) \<and>
     now - st_lastAttempt (sv_stats S) < throttle_cooldown_ms"

definition malformed_message :: string where
  "malformed_message = ''Error: Malformed payload. Missing @LIOP boundary.'' @ [CHR 0x5C, CHR ''n''] @
     ''You MUST wrap your logic exactly like this:'' @ [CHR 0x5C, CHR ''n'', CHR 0x5C, CHR ''n''] @
     ''@LIOP{wasi_v1,DynamicAudit}'' @ [CHR 0x5C, CHR ''n''] @ ''// Your JS code here'' @ [CHR 0x5C, CHR ''n''] @ ''@END''"

definition logic_middleware ::
    "'file server_env \<Rightarrow> int \<Rightarrow> string \<Rightarrow> execution_policy option \<Rightarrow> string \<Rightarrow> bool \<Rightarrow> 'file server_state
       \<Rightarrow> (call_result \<times> 'file server_state) option" where
  "logic_middleware E now name policy payload bypassCache S =
     (if throttled now S then
        Some (text_error ''LIOP_THROTTLED: Too many violations. Cooling down for 60 seconds.'', S)
      else
        (let payloadHash = se_sha256 E payload;
             logic = truthy_string (extract_logic payload);
             cached = map_of (sv_logicCache S) payloadHash
         in case logic of
              None \<Rightarrow> Some (text_error malformed_message, record_failure now S)
            | Some l \<Rightarrow>
                (case server_preflight E name l policy ''mcp-client'' S of
                   (rejection, S1) \<Rightarrow>
                     (if \<not> bypassCache \<and> (case cached of None \<Rightarrow> False | Some t \<Rightarrow> now - t < cache_ttl_ms) then
                        (case rejection of
                           Some reason \<Rightarrow> Some (text_error reason, S1)
                         | None \<Rightarrow> map_option (\<lambda>r. (r, S1)) (execute_in_worker_pool E S1 l name))
                      else
                        (case rejection of
                           Some reason \<Rightarrow> Some (text_error reason, record_failure now S1)
                         | None \<Rightarrow>
                             map_option
                               (\<lambda>r. (r, if cr_isError r then record_failure now S1
                                        else S1\<lparr>sv_stats := \<lparr>st_failures = 0, st_lastAttempt = now\<rparr>,
                                                sv_logicCache := AList.update payloadHash now (sv_logicCache S1)\<rparr>))
                               (execute_in_worker_pool E S1 l name))))))"

section \<open>callTool\<close>

definition has_bypass_flag :: "jsval \<Rightarrow> bool" where
  "has_bypass_flag v = (case v of JObj ps \<Rightarrow> get_prop ps ''__liop_bypass_ast_cache'' = JBool True | _ \<Rightarrow> False)"

definition with_bypass_flag :: "jsval \<Rightarrow> jsval" where
  "with_bypass_flag v =
     (case v of JObj ps \<Rightarrow> JObj (AList.update ''__liop_bypass_ast_cache'' (JBool True) ps) | _ \<Rightarrow> v)"

definition payload_of :: "jsval \<Rightarrow> string option" where
  "payload_of v = (case v of JObj ps \<Rightarrow> (case get_prop ps ''payload'' of JStr s \<Rightarrow> Some s | _ \<Rightarrow> None) | _ \<Rightarrow> None)"

text \<open>Both limits, the global one first.\<close>

definition rate_limited :: "window_config \<Rightarrow> int \<Rightarrow> string \<Rightarrow> 'file server_state \<Rightarrow> string option \<times> 'file server_state" where
  "rate_limited cfg now name S =
     (case check_global_rate_limit cfg now (sv_globalWindow S) of
        (Some msg, w) \<Rightarrow> (Some msg, S\<lparr>sv_globalWindow := w\<rparr>)
      | (None, w) \<Rightarrow>
          (case check_tool_call_rate_limit cfg now name (sv_toolWindows S) of
             (r, ws) \<Rightarrow> (r, S\<lparr>sv_globalWindow := w, sv_toolWindows := ws\<rparr>)))"

datatype call_error = ToolNotFound string

text \<open>The part inside the \<open>try\<close> block.\<close>

definition run_tool ::
    "'file server_env \<Rightarrow> int \<Rightarrow> string \<Rightarrow> jsval \<Rightarrow> string \<Rightarrow> tool_entry \<Rightarrow> 'file server_state
       \<Rightarrow> (call_result \<times> 'file server_state) option" where
  "run_tool E now name arguments clientId entry S =
     (case te_parse entry arguments of
        Inl msg \<Rightarrow> Some (text_error (''Validation Error: '' @ msg), S)
      | Inr parsed \<Rightarrow>
          (let args = (if has_bypass_flag arguments then with_bypass_flag parsed else parsed) in
           case (case payload_of args of None \<Rightarrow> None | Some p \<Rightarrow> truthy_string (extract_logic p)) of
             Some logic \<Rightarrow>
               (case server_preflight E name logic (te_policy entry) clientId S of
                  (Some reason, S1) \<Rightarrow> Some (text_error reason, S1)
                | (None, S1) \<Rightarrow> map_option (\<lambda>r. (r, S1)) (execute_in_worker_pool E S1 logic name))
           | None \<Rightarrow>
               (case te_handler entry of
                  LogicMiddleware \<Rightarrow>
                    logic_middleware E now name (te_policy entry)
                      (case payload_of args of Some p \<Rightarrow> p | None \<Rightarrow> []) (has_bypass_flag args) S
                | DeveloperHandler h \<Rightarrow>
                    (case h args of
                       Inl msg \<Rightarrow> Some (text_error (''Internal Execution Error: '' @ msg), S)
                     | Inr r \<Rightarrow> Some (r, S)))))"

definition call_tool ::
    "'file server_env \<Rightarrow> int \<Rightarrow> string \<Rightarrow> jsval \<Rightarrow> string \<Rightarrow> 'file server_state
       \<Rightarrow> (call_error + call_result \<times> 'file server_state) option" where
  "call_tool E now name arguments clientId S =
     (case map_of (sv_tools S) name of
        None \<Rightarrow> Some (Inl (ToolNotFound name))
      | Some entry \<Rightarrow>
          (case rate_limited (se_windows E) now name S of
             (Some msg, S1) \<Rightarrow> Some (Inr (text_error msg, S1))
           | (None, S1) \<Rightarrow> map_option Inr (run_tool E now name arguments clientId entry S1)))"

text \<open>Registration: a name is registered once.\<close>

definition register_tool :: "string \<Rightarrow> tool_entry \<Rightarrow> 'file server_state \<Rightarrow> string + 'file server_state" where
  "register_tool name entry S =
     (case map_of (sv_tools S) name of
        Some t \<Rightarrow> Inl (''Tool already registered: '' @ name)
      | None \<Rightarrow> Inr (S\<lparr>sv_tools := AList.update name entry (sv_tools S)\<rparr>))"

end
