(* ===== verification/PiiClaims.thy ===== *)
theory PiiClaims
  imports Pii
begin

text \<open>
  Properties of the PII engine: the check digits detect single wrong digits and transpositions,
  and the deep scan of a value passes exactly when no key and no string it reaches violates a rule.
\<close>

section \<open>Reading digits\<close>

lemma re_replace_from_Nil: "re_replace_from (Pred P) f b [] = []"
  by (simp add: re_replace_from.simps)

lemma re_replace_from_Cons:
  "re_replace_from (Pred P) f b (c # a) = (if P c then f [c] else [c]) @ re_replace_from (Pred P) f (c # b) a"
  by (simp add: re_replace_from.simps [of "Pred P" f b "c # a"])

lemma digits_of_filter: "digits_of s = filter is_digit s"
proof -
  have "re_replace_from (Pred (\<lambda>c. \<not> is_digit c)) (\<lambda>m. []) b s = filter is_digit s" for b
    by (induction s arbitrary: b) (auto simp: re_replace_from_Nil re_replace_from_Cons)
  then show ?thesis by (simp add: digits_of_def re_replace_all_def)
qed

lemma digit_value_le: "is_digit c \<Longrightarrow> digit_value c \<le> 9"
  by (auto simp: is_digit_def digit_value_def)

lemma digit_value_inj: "is_digit c \<Longrightarrow> is_digit d \<Longrightarrow> digit_value c = digit_value d \<Longrightarrow> c = d"
proof -
  assume "is_digit c" "is_digit d" "digit_value c = digit_value d"
  then have "code_of c = code_of d" by (auto simp: is_digit_def digit_value_def)
  then show "c = d" by (simp add: code_of_def)
qed

section \<open>The Luhn sum\<close>

definition luhn_part :: "bool \<Rightarrow> nat \<Rightarrow> nat" where
  "luhn_part e d = (if e then (if 9 < d * 2 then d * 2 - 9 else d * 2) else d)"

lemma luhn_sum_Cons: "luhn_sum e (c # cs) = luhn_part e (digit_value c) + luhn_sum (\<not> e) cs"
  by (simp add: luhn_part_def Let_def)

lemma luhn_sum_append:
  "luhn_sum e (xs @ ys) = luhn_sum e xs + luhn_sum (if even (length xs) then e else \<not> e) ys"
  by (induction xs arbitrary: e) (auto simp: luhn_sum_Cons simp del: luhn_sum.simps(2))

lemma luhn_table:
  "list_all (\<lambda>e. list_all (\<lambda>d. list_all (\<lambda>d'.
      (d \<noteq> d' \<longrightarrow> luhn_part e d mod 10 \<noteq> luhn_part e d' mod 10) \<and>
      (d \<noteq> d' \<and> {d, d'} \<noteq> {0, 9} \<longrightarrow>
         (luhn_part e d + luhn_part (\<not> e) d') mod 10 \<noteq> (luhn_part e d' + luhn_part (\<not> e) d) mod 10))
    [0..<10]) [0..<10]) [True, False]"
  by code_simp

lemma luhn_table_at:
  assumes "d \<le> 9" and "d' \<le> 9" and "d \<noteq> d'"
  shows "luhn_part e d mod 10 \<noteq> luhn_part e d' mod 10"
    and "{d, d'} \<noteq> {0, 9} \<Longrightarrow>
      (luhn_part e d + luhn_part (\<not> e) d') mod 10 \<noteq> (luhn_part e d' + luhn_part (\<not> e) d) mod 10"
proof -
  have m: "e \<in> set [True, False]" "d \<in> set [0..<10]" "d' \<in> set [0..<10]"
    using assms(1,2) by (cases e; simp)+
  note row = luhn_table [unfolded list_all_iff, THEN bspec, OF m(1), THEN bspec, OF m(2), THEN bspec, OF m(3)]
  show "luhn_part e d mod 10 \<noteq> luhn_part e d' mod 10"
    by (rule row [THEN conjunct1, rule_format, OF assms(3)])
  show "{d, d'} \<noteq> {0, 9} \<Longrightarrow>
      (luhn_part e d + luhn_part (\<not> e) d') mod 10 \<noteq> (luhn_part e d' + luhn_part (\<not> e) d) mod 10"
    by (rule row [THEN conjunct2, rule_format, OF conjI [OF assms(3)]])
qed

lemma sum_mod_cancel:
  fixes a b c :: nat
  assumes "(a + b + c) mod 10 = (a + b' + c) mod 10"
  shows "b mod 10 = b' mod 10"
proof -
  have "int (a + b + c) mod 10 = int (a + b' + c) mod 10"
    using assms zmod_int [of "a + b + c" 10] zmod_int [of "a + b' + c" 10] by simp
  then have "(10 :: int) dvd int b - int b'" by (simp add: mod_eq_dvd_iff)
  then have "int b mod 10 = int b' mod 10" by (simp add: mod_eq_dvd_iff)
  then have "int (b mod 10) = int (b' mod 10)" by (simp add: zmod_int)
  then show ?thesis by simp
qed

section \<open>IBAN values\<close>

lemma decimal_append: "decimal (a @ b) = decimal a * 10 ^ length b + decimal b"
proof -
  let ?f = "\<lambda>n c. 10 * n + digit_value c"
  have "foldl ?f k b = k * 10 ^ length b + foldl ?f 0 b" for k
  proof (induction b rule: rev_induct)
    case (snoc x b)
    have "foldl ?f k (b @ [x]) = 10 * foldl ?f k b + digit_value x" by simp
    also have "\<dots> = 10 * (k * 10 ^ length b + foldl ?f 0 b) + digit_value x" by (simp only: snoc.IH)
    also have "\<dots> = k * 10 ^ length (b @ [x]) + foldl ?f 0 (b @ [x])" by (simp add: distrib_left)
    finally show ?case .
  qed simp
  from this [of "foldl ?f 0 a"] show ?thesis by (simp only: decimal_def foldl_append)
qed

lemma numeric_string_append:
  "numeric_string (a @ b) =
     (case numeric_string a of None \<Rightarrow> None
      | Some x \<Rightarrow> (case numeric_string b of None \<Rightarrow> None | Some y \<Rightarrow> Some (x @ y)))"
  by (induction a) (auto split: option.splits)

text \<open>Replacing one character: where it ends up after the rearrangement.\<close>

lemma rearranged_at:
  "\<exists>x y. \<forall>z. drop 4 (a @ z # b) @ take 4 (a @ z # b) = x @ z # y"
proof (cases "length a < 4")
  case True
  then have "drop 4 (a @ z # b) @ take 4 (a @ z # b)
      = (drop (4 - Suc (length a)) b @ a) @ z # take (4 - Suc (length a)) b" for z
    by (cases "4 - length a") (simp_all add: Suc_diff_le numeral_eq_Suc)
  then show ?thesis by blast
next
  case False
  then have "drop 4 (a @ z # b) @ take 4 (a @ z # b) = drop 4 a @ z # b @ take 4 a" for z
    by simp
  then show ?thesis by blast
qed

lemma coprime_97: "coprime (97 :: int) (10 ^ n)"
proof -
  have "gcd (97 :: int) 10 = 1" by code_simp
  then have "coprime (97 :: int) 10" by (simp only: coprime_iff_gcd_eq_1)
  then show ?thesis by simp
qed

lemma mod_97_digit:
  fixes p q :: nat
  assumes "c \<le> 9" and "d \<le> 9" and "c \<noteq> d"
    and "(p + c * 10 ^ n + q) mod 97 = (p + d * 10 ^ n + q) mod 97"
  shows False
proof -
  have "int (p + c * 10 ^ n + q) mod 97 = int (p + d * 10 ^ n + q) mod 97"
    using assms(4) zmod_int [of "p + c * 10 ^ n + q" 97] zmod_int [of "p + d * 10 ^ n + q" 97] by simp
  then have "(97 :: int) dvd (int c - int d) * 10 ^ n"
    by (simp add: mod_eq_dvd_iff algebra_simps)
  then have "(97 :: int) dvd int c - int d"
    using coprime_97 by (simp add: coprime_dvd_mult_left_iff)
  moreover have "\<bar>int c - int d\<bar> < 97" using assms(1,2) by auto
  ultimately have "int c - int d = 0" using zdvd_not_zless [of "\<bar>int c - int d\<bar>" 97] by auto
  then show False using assms(3) by simp
qed

lemma decimal_at: "decimal (x @ z # y) = decimal x * 10 ^ Suc (length y) + digit_value z * 10 ^ length y + decimal y"
proof -
  have "decimal (z # y) = digit_value z * 10 ^ length y + decimal y"
    using decimal_append [of "[z]" y] by (simp add: decimal_def)
  then show ?thesis by (simp add: decimal_append [of x "z # y"])
qed

lemma no_space_unchanged: "list_all (\<lambda>c. \<not> is_space c) s \<Longrightarrow> re_replace_all (plus (Pred is_space)) f s = s"
proof -
  have "list_all (\<lambda>c. \<not> is_space c) s \<Longrightarrow> re_replace_from (plus (Pred is_space)) f b s = s" for b
  proof (induction s arbitrary: b)
    case Nil
    show ?case by (simp add: re_replace_from.simps plus_def)
  next
    case (Cons c s)
    then show ?case by (simp add: re_replace_from.simps [of _ f b "c # s"] plus_def)
  qed
  then show "list_all (\<lambda>c. \<not> is_space c) s \<Longrightarrow> re_replace_all (plus (Pred is_space)) f s = s"
    by (simp add: re_replace_all_def)
qed

lemma digit_facts: "is_digit c \<Longrightarrow> \<not> is_upper c \<and> \<not> is_lower c \<and> \<not> is_space c \<and> upper_char c = c"
  by (auto simp: is_digit_def is_upper_def is_lower_def is_space_def upper_char_def)

section \<open>The deep scan\<close>

lemma scan_items_cases:
  "(\<And>x. f x \<noteq> Some (Some [])) \<Longrightarrow> scan_items f xs = Some None \<longleftrightarrow> (\<forall>x\<in>set xs. f x = Some None)"
  "scan_items f xs = Some (Some v) \<Longrightarrow> \<exists>x\<in>set xs. \<exists>u. f x = Some (Some u)"
  "(\<forall>x\<in>set xs. f x \<noteq> None) \<Longrightarrow> scan_items f xs \<noteq> None"
  by (induction xs) (auto simp: truthy_string_iff split: option.splits)

lemma scan_props_cases:
  "(\<And>x. f x \<noteq> Some (Some [])) \<Longrightarrow>
     scan_props g f ps = Some None \<longleftrightarrow> (\<forall>p\<in>set ps. g (fst p) = None \<and> f (snd p) = Some None)"
  "scan_props g f ps = Some (Some v) \<Longrightarrow>
     (\<exists>p\<in>set ps. g (fst p) \<noteq> None) \<or> (\<exists>p\<in>set ps. \<exists>u. f (snd p) = Some (Some u))"
  "(\<forall>p\<in>set ps. f (snd p) \<noteq> None) \<Longrightarrow> scan_props g f ps \<noteq> None"
  by (induction ps) (auto simp: truthy_string_iff split: option.splits)

text \<open>No scan reports the empty text: a caller that tests its answer for truth loses nothing.\<close>

lemma scan_items_message: "scan_items f xs = Some (Some v) \<Longrightarrow> v \<noteq> []"
  by (induction xs) (auto split: option.splits if_splits)

lemma key_violation_nonempty: "key_violation A k \<noteq> Some []"
  by (auto simp: key_violation_def)

lemma scan_props_message:
  "scan_props (key_violation A) f ps = Some (Some v) \<Longrightarrow> v \<noteq> []"
  by (induction ps) (auto simp: key_violation_nonempty split: option.splits if_splits)

lemma string_violation_nonempty: "string_violation A ner s \<noteq> Some []"
  by (auto simp: string_violation_def ner_person_def split: option.splits)

lemma pii_message_nonempty: "pii_scan parse ner A n v \<noteq> Some (Some [])"
proof (cases n)
  case (Suc m)
  then show ?thesis
    by (cases v) (auto simp: Let_def string_violation_nonempty split: option.splits
        dest: scan_items_message scan_props_message)
qed simp

text \<open>What violates by itself: a string by its text, an object by one of its keys.\<close>

fun pii_bad :: "pii_scanner \<Rightarrow> nlp option \<Rightarrow> jsval \<Rightarrow> bool" where
  "pii_bad A ner (JStr s) = (string_violation A ner s \<noteq> None)"
| "pii_bad A ner (JObj ps) = (\<exists>p\<in>set ps. key_violation A (fst p) \<noteq> None)"
| "pii_bad A ner v = False"

definition pii_found :: "json_parser \<Rightarrow> nlp option \<Rightarrow> pii_scanner \<Rightarrow> nat \<Rightarrow> jsval \<Rightarrow> bool option" where
  "pii_found parse ner A n v = map_option (\<lambda>r. r \<noteq> None) (pii_scan parse ner A n v)"

lemma pii_found_iff [simp]:
  "pii_found parse ner A n v = None \<longleftrightarrow> pii_scan parse ner A n v = None"
  "pii_found parse ner A n v = Some True \<longleftrightarrow> (\<exists>r. pii_scan parse ner A n v = Some (Some r))"
  "pii_found parse ner A n v = Some False \<longleftrightarrow> pii_scan parse ner A n v = Some None"
  by (auto simp: pii_found_def)

interpretation pii: deep_scan "pii_found parse ner A" "pii_bad A ner" "all_below parse" for parse ner A
proof
  show "pii_found parse ner A 0 v = None" for v by simp
next
  fix n v
  assume "pii_found parse ner A (Suc n) v = Some True"
  then obtain r where r: "pii_scan parse ner A (Suc n) v = Some (Some r)" by auto
  show "pii_bad A ner v \<or> (\<exists>w\<in>set (all_below parse v). pii_found parse ner A n w = Some True)"
  proof (cases v)
    case (JStr s)
    with r show ?thesis
      by (auto simp: Let_def parsed_text_iff truthy_string_iff split: if_splits option.splits)
  next
    case (JArr xs)
    with r scan_items_cases(2) [of "pii_scan parse ner A n" xs r] show ?thesis by auto
  next
    case (JObj ps)
    with r scan_props_cases(2) [of "key_violation A" "pii_scan parse ner A n" ps r] show ?thesis by auto
  qed (use r in simp_all)
next
  fix n v
  assume "pii_found parse ner A (Suc n) v = Some False"
  then have r: "pii_scan parse ner A (Suc n) v = Some None" by simp
  show "\<not> pii_bad A ner v \<and> (\<forall>w\<in>set (all_below parse v). pii_found parse ner A n w = Some False)"
  proof (cases v)
    case (JStr s)
    with r show ?thesis
      by (auto simp: Let_def parsed_text_iff truthy_string_iff pii_message_nonempty split: if_splits option.splits)
  qed (use r in \<open>auto simp: scan_items_cases(1) scan_props_cases(1) pii_message_nonempty\<close>)
next
  fix n v
  assume *: "\<forall>w\<in>set (all_below parse v). pii_found parse ner A n w \<noteq> None"
  show "pii_found parse ner A (Suc n) v \<noteq> None"
  proof (cases v)
    case (JStr s)
    with * have "pii_scan parse ner A n w \<noteq> None"
      if "looks_json (js_trim s)" "parse (js_trim s) = Some w" for w
      using that by (auto simp: parsed_text_iff)
    then show ?thesis by (auto simp: JStr Let_def split: option.splits)
  next
    case (JArr xs)
    with * scan_items_cases(3) [of xs "pii_scan parse ner A n"] show ?thesis by simp
  next
    case (JObj ps)
    with * scan_props_cases(3) [of ps "pii_scan parse ner A n" "key_violation A"] show ?thesis by simp
  qed simp_all
qed

section \<open>Properties\<close>

text \<open>The Luhn check rejects every number that differs from an accepted one in a single digit.\<close>

theorem luhn_detects_wrong_digit:
  assumes "is_luhn_valid (a @ c # b)" and "is_digit c" and "is_digit d" and "c \<noteq> d"
  shows "\<not> is_luhn_valid (a @ d # b)"
proof
  assume "is_luhn_valid (a @ d # b)"
  let ?A = "rev (filter is_digit a)" and ?B = "rev (filter is_digit b)"
  let ?e = "if even (length ?B) then False else True"
  have part: "luhn_sum False (?B @ z # ?A) =
      luhn_sum False ?B + luhn_part ?e (digit_value z) + luhn_sum (\<not> ?e) ?A" for z
    by (simp add: luhn_sum_append luhn_sum_Cons del: luhn_sum.simps(2))
  have "luhn_sum False (?B @ c # ?A) mod 10 = luhn_sum False (?B @ d # ?A) mod 10"
    using assms(1-3) \<open>is_luhn_valid (a @ d # b)\<close>
    by (simp add: is_luhn_valid_def Let_def digits_of_filter split: if_splits)
  then have "luhn_part ?e (digit_value c) mod 10 = luhn_part ?e (digit_value d) mod 10"
    unfolding part by (rule sum_mod_cancel)
  then show False
    using luhn_table_at(1) [OF digit_value_le [OF assms(2)] digit_value_le [OF assms(3)], of ?e]
      digit_value_inj [OF assms(2,3)] assms(4) by blast
qed

theorem luhn_detects_wrong_digit_witness: "\<not> is_luhn_valid ''4111111111111121''"
  using luhn_detects_wrong_digit [of "''41111111111111''" "CHR ''1''" "''1''" "CHR ''2''"]
  by (simp add: is_luhn_valid_def digits_of_filter is_digit_def code_of_def digit_value_def)

text \<open>The Luhn check rejects every number that an accepted one becomes when two adjacent
  different digits are exchanged, except a 0 and a 9.\<close>

theorem luhn_detects_transposition:
  assumes "is_luhn_valid (a @ c # d # b)" and "is_digit c" and "is_digit d" and "c \<noteq> d"
    and "{digit_value c, digit_value d} \<noteq> {0, 9}"
  shows "\<not> is_luhn_valid (a @ d # c # b)"
proof
  assume "is_luhn_valid (a @ d # c # b)"
  let ?A = "rev (filter is_digit a)" and ?B = "rev (filter is_digit b)"
  let ?e = "if even (length ?B) then False else True"
  have part: "luhn_sum False (?B @ y # z # ?A) = luhn_sum False ?B +
      (luhn_part ?e (digit_value y) + luhn_part (\<not> ?e) (digit_value z)) + luhn_sum ?e ?A" for y z
    by (simp add: luhn_sum_append luhn_sum_Cons del: luhn_sum.simps(2))
  have "luhn_sum False (?B @ d # c # ?A) mod 10 = luhn_sum False (?B @ c # d # ?A) mod 10"
    using assms(1-3) \<open>is_luhn_valid (a @ d # c # b)\<close>
    by (simp add: is_luhn_valid_def Let_def digits_of_filter split: if_splits)
  then have eq: "(luhn_part ?e (digit_value d) + luhn_part (\<not> ?e) (digit_value c)) mod 10 =
      (luhn_part ?e (digit_value c) + luhn_part (\<not> ?e) (digit_value d)) mod 10"
    unfolding part by (rule sum_mod_cancel)
  have ne: "digit_value d \<noteq> digit_value c" using digit_value_inj [OF assms(2,3)] assms(4) by auto
  have "{digit_value d, digit_value c} \<noteq> {0, 9}" using assms(5) by (simp add: insert_commute)
  from luhn_table_at(2) [OF digit_value_le [OF assms(3)] digit_value_le [OF assms(2)] ne this] eq
  show False by blast
qed

theorem luhn_detects_transposition_witness: "\<not> is_luhn_valid ''1411111111111111''"
  using luhn_detects_transposition [of "[]" "CHR ''4''" "CHR ''1''" "''11111111111111''"]
  by (simp add: is_luhn_valid_def digits_of_filter is_digit_def code_of_def digit_value_def)

text \<open>The IBAN check rejects every text that differs from an accepted one in a single digit.\<close>

theorem iban_detects_wrong_digit:
  assumes "is_iban_valid (a @ c # b)" and "is_digit c" and "is_digit d" and "c \<noteq> d"
    and "list_all (\<lambda>x. \<not> is_space x) (a @ b)"
  shows "\<not> is_iban_valid (a @ d # b)"
proof
  assume d: "is_iban_valid (a @ d # b)"
  obtain x y where xy: "drop 4 (map upper_char a @ z # map upper_char b) @
      take 4 (map upper_char a @ z # map upper_char b) = x @ z # y" for z
    using rearranged_at [of "map upper_char a" "map upper_char b"] by blast
  have san: "map upper_char (re_replace_all (plus (Pred is_space)) (\<lambda>m. []) (a @ z # b))
      = map upper_char a @ z # map upper_char b" if "is_digit z" for z
    using no_space_unchanged [of "a @ z # b"] assms(5) digit_facts [OF that] by simp
  have valid: "\<exists>n. numeric_string (x @ z # y) = Some n \<and> decimal n mod 97 = 1"
    if "is_digit z" "is_iban_valid (a @ z # b)" for z
    using that(2) unfolding is_iban_valid_def Let_def san [OF that(1)] xy
    by (auto split: if_splits option.splits)
  obtain X Y where XY: "numeric_string x = Some X" "numeric_string y = Some Y"
    using valid [OF assms(2,1)] digit_facts [OF assms(2)] assms(2)
    by (auto simp: numeric_string_append split: option.splits)
  have "numeric_string (x @ z # y) = Some (X @ z # Y)" if "is_digit z" for z
    using digit_facts [OF that] that by (simp add: numeric_string_append XY)
  then have "decimal (X @ c # Y) mod 97 = decimal (X @ d # Y) mod 97"
    using valid [OF assms(2,1)] valid [OF assms(3) d] assms(2,3) by auto
  from mod_97_digit [OF digit_value_le [OF assms(2)] digit_value_le [OF assms(3)] _ this [unfolded decimal_at]]
  show False using digit_value_inj [OF assms(2,3)] assms(4) by blast
qed

lemma iban_example: "is_iban_valid ''AA481''"
proof -
  have up: "map upper_char ''AA481'' = ''AA481''" by code_simp
  have "re_match iban_shape ([], ''AA481'') = [(''184AA'', [])]"
    by (simp add: iban_shape_def times_re_def numeral_2_eq_2 numeral_eq_Suc advances_def is_upper_def
        is_digit_def iban_alnum_def code_of_def)
  then have shape: "re_test iban_shape ''AA481''"
    by (simp add: re_test_def re_search.simps [of iban_shape "[]" "''AA481''"])
  have ch: "char_of (49 :: nat) = CHR ''1''" "char_of (48 :: nat) = CHR ''0''" by code_simp+
  have num: "numeric_string ''1AA48'' = Some ''1101048''"
    by (simp add: is_upper_def is_digit_def code_of_def ch nat_str.simps [of 10] nat_str.simps [of "Suc 0"] nat_str.simps [of 0])
  have dec: "decimal ''1101048'' = 1101048"
    by (simp add: decimal_def digit_value_def code_of_def)
  have sp: "re_replace_all (plus (Pred is_space)) (\<lambda>m. []) ''AA481'' = ''AA481''"
    by (rule no_space_unchanged) (simp add: is_space_def code_of_def)
  show ?thesis
    unfolding is_iban_valid_def Let_def sp up using shape num dec by simp
qed

theorem iban_detects_wrong_digit_witness: "\<not> is_iban_valid ''AA487''"
  using iban_detects_wrong_digit [of "''AA48''" "CHR ''1''" "[]" "CHR ''7''"] iban_example
  by (simp add: is_digit_def is_space_def code_of_def)

text \<open>C30: with fuel for the weight of the value the PII scan answers, and it reports a violation
  exactly when the value reaches, through elements, properties and JSON texts, a string whose first matching
  rule has a name that is not empty, or that names a person, or an object with a forbidden key.\<close>

theorem pii_scan_exact:
  assumes "parser_shrinks parse" and "weight v \<le> fuel"
  shows "\<exists>r. pii_scan parse ner A fuel v = Some r \<and>
             (r \<noteq> None \<longleftrightarrow> (\<exists>w. reaches (all_below parse) v w \<and> pii_bad A ner w))"
proof -
  have "pii_found parse ner A fuel v \<noteq> None"
    by (rule pii.scan_enough [OF _ assms(2)]) (rule all_below_shrinks [OF assms(1)])
  then obtain r where r: "pii_scan parse ner A fuel v = Some r" by auto
  then have "pii_found parse ner A fuel v = Some (r \<noteq> None)" by (simp add: pii_found_def)
  from pii.scan_iff [OF this] r show ?thesis by blast
qed

theorem pii_scan_exact_witness:
  "\<exists>r. pii_scan (\<lambda>s. None) None (new_pii_scanner preset_eu_gdpr [''name'']) 5 (JArr [JStr ''x'', JNull]) = Some r \<and>
      (r \<noteq> None \<longleftrightarrow> (\<exists>w. reaches (all_below (\<lambda>s. None)) (JArr [JStr ''x'', JNull]) w \<and>
         pii_bad (new_pii_scanner preset_eu_gdpr [''name'']) None w))"
  by (rule pii_scan_exact) (simp_all add: parser_shrinks_def)

text \<open>Numbers are never examined and keys are never matched against the patterns: an object
  whose values are numbers passes when its keys contain no forbidden name, whatever digits the
  numbers have and whatever the keys spell.\<close>

theorem numbers_and_keys_unpatterned:
  assumes "list_all (\<lambda>p. key_violation A (fst p) = None \<and> (\<exists>x. snd p = JNum x)) ps"
  shows "pii_scan parse ner A (Suc (Suc fuel)) (JObj ps) = Some None"
proof -
  have "scan_props (key_violation A) (pii_scan parse ner A (Suc fuel)) ps = Some None"
    unfolding scan_props_cases(1) [OF pii_message_nonempty] using assms by (auto simp: list_all_iff)
  then show ?thesis by simp
qed

lemma no_forbidden_keys: "key_violation (new_pii_scanner pats []) k = None"
  by (simp add: key_violation_def check_key_fuzzy_def new_pii_scanner_def Let_def)

theorem numbers_and_keys_unpatterned_witness:
  "pii_scan (\<lambda>s. None) None (new_pii_scanner preset_global_strict []) 2
     (JObj [(''jane@corp.com'', JNum (Fin 4111111111111111))]) = Some None"
  using numbers_and_keys_unpatterned [of "new_pii_scanner preset_global_strict []"
      "[(''jane@corp.com'', JNum (Fin 4111111111111111))]" "\<lambda>s. None" None 0]
  by (simp add: no_forbidden_keys numeral_2_eq_2)

end
