(* ===== verification/ServerClaims.thy ===== *)
theory ServerClaims
  imports Server PiiClaims BudgetClaims
begin

text \<open>
  Properties of the tool calls: how many calls the two limits admit, what a successful call
  guarantees about the injected logic and about the output, what an egress error reveals, and which
  state of the middleware a call can change.
\<close>

section \<open>What a call leaves alone\<close>

lemma server_preflight_same:
  "server_preflight E name l policy c S = (r, S1) \<Longrightarrow>
     sv_tools S1 = sv_tools S \<and> sv_toolWindows S1 = sv_toolWindows S \<and> sv_globalWindow S1 = sv_globalWindow S \<and>
     sv_stats S1 = sv_stats S \<and> sv_logicCache S1 = sv_logicCache S \<and> sv_recordCount S1 = sv_recordCount S"
  by (auto simp: server_preflight_def split: prod.splits)

lemma middleware_without_logic:
  "truthy_string (extract_logic payload) = None \<Longrightarrow>
     logic_middleware E now name policy payload b S =
       Some (if throttled now S then (text_error ''LIOP_THROTTLED: Too many violations. Cooling down for 60 seconds.'', S)
             else (text_error malformed_message, record_failure now S))"
  by (simp add: logic_middleware_def Let_def)

lemma no_payload_no_logic: "truthy_string (extract_logic []) = None"
  by (simp add: extract_logic_def truthy_string_def)

lemma run_tool_frame:
  assumes "run_tool E now name args c entry S = Some (r, S')"
  shows "sv_toolWindows S' = sv_toolWindows S \<and> sv_globalWindow S' = sv_globalWindow S \<and>
         sv_logicCache S' = sv_logicCache S \<and> st_failures (sv_stats S) \<le> st_failures (sv_stats S') \<and>
         sv_tools S' = sv_tools S"
proof (cases "te_parse entry args")
  case (Inl msg)
  then show ?thesis using assms by (auto simp: run_tool_def)
next
  case (Inr parsed)
  let ?args = "if has_bypass_flag args then with_bypass_flag parsed else parsed"
  let ?p = "case payload_of ?args of Some p \<Rightarrow> p | None \<Rightarrow> []"
  let ?logic = "case payload_of ?args of None \<Rightarrow> None | Some p \<Rightarrow> truthy_string (extract_logic p)"
  show ?thesis
  proof (cases ?logic)
    case (Some l)
    then show ?thesis
      using assms Inr server_preflight_same [of E name l "te_policy entry" c S]
      by (auto simp: run_tool_def Let_def split: prod.splits option.splits)
  next
    case None
    then have "truthy_string (extract_logic ?p) = None"
      using no_payload_no_logic by (auto split: option.splits)
    from middleware_without_logic [OF this, of E now name "te_policy entry" "has_bypass_flag ?args" S]
    show ?thesis
      using assms Inr None
      by (auto simp: run_tool_def Let_def record_failure_def split: tool_handler.splits sum.splits if_splits)
  qed
qed

lemma rate_limited_frame:
  "rate_limited cfg now name S = (r, S') \<Longrightarrow>
     sv_tools S' = sv_tools S \<and> sv_stats S' = sv_stats S \<and> sv_logicCache S' = sv_logicCache S \<and>
     sv_recordCount S' = sv_recordCount S \<and> sv_memory S' = sv_memory S \<and> sv_disk S' = sv_disk S"
  by (auto simp: rate_limited_def split: prod.splits option.splits)

section \<open>Runs of calls\<close>

record tool_call =
  tc_now :: int
  tc_name :: string
  tc_arguments :: jsval
  tc_client :: string

text \<open>The calls answered, each with its time and tool, and whether both limits admitted it.\<close>

fun server_run :: "'file server_env \<Rightarrow> tool_call list \<Rightarrow> 'file server_state \<Rightarrow> (int \<times> string \<times> bool) list" where
  "server_run E [] S = []"
| "server_run E (c # cs) S =
     (case call_tool E (tc_now c) (tc_name c) (tc_arguments c) (tc_client c) S of
        None \<Rightarrow> []
      | Some (Inl e) \<Rightarrow> server_run E cs S
      | Some (Inr (r, S')) \<Rightarrow>
          (tc_now c, tc_name c, fst (rate_limited (se_windows E) (tc_now c) (tc_name c) S) = None)
            # server_run E cs S')"

definition admitted_times :: "(int \<times> string \<times> bool) list \<Rightarrow> int list" where
  "admitted_times out = map fst (filter (\<lambda>(t, n, ok). ok) out)"

definition admitted_tool_times :: "string \<Rightarrow> (int \<times> string \<times> bool) list \<Rightarrow> int list" where
  "admitted_tool_times name out = map fst (filter (\<lambda>(t, n, ok). ok \<and> n = name) out)"

lemma admitted_times_Cons [simp]:
  "admitted_times ((t, n, ok) # out) = (if ok then [t] else []) @ admitted_times out"
  by (simp add: admitted_times_def)

lemma admitted_tool_times_Cons [simp]:
  "admitted_tool_times name ((t, n, ok) # out) = (if ok \<and> n = name then [t] else []) @ admitted_tool_times name out"
  by (simp add: admitted_tool_times_def)

lemma call_tool_windows:
  assumes "call_tool E now name args c S = Some (Inr (r, S'))"
  shows "sv_globalWindow S' = snd (global_step (se_windows E) now (sv_globalWindow S)) \<and>
     tool_window name (sv_toolWindows S') =
       (if fst (global_step (se_windows E) now (sv_globalWindow S))
        then tool_window name (snd (tool_step (se_windows E) name now (sv_toolWindows S)))
        else tool_window name (sv_toolWindows S)) \<and>
     (other \<noteq> name \<longrightarrow> tool_window other (sv_toolWindows S') = tool_window other (sv_toolWindows S)) \<and>
     (fst (rate_limited (se_windows E) now name S) = None \<longleftrightarrow>
        fst (global_step (se_windows E) now (sv_globalWindow S)) \<and>
        fst (tool_step (se_windows E) name now (sv_toolWindows S)))"
proof -
  obtain rl S1 where rl: "rate_limited (se_windows E) now name S = (rl, S1)"
    by (cases "rate_limited (se_windows E) now name S")
  have same: "sv_globalWindow S' = sv_globalWindow S1" "sv_toolWindows S' = sv_toolWindows S1"
    using assms run_tool_frame [of E now name args c _ S1 r S']
    by (auto simp: call_tool_def rl split: option.splits)
  have other: "other \<noteq> name \<Longrightarrow> check_tool_call_rate_limit cfg now name ws = (x, ws') \<Longrightarrow>
      tool_window other ws' = tool_window other ws" for cfg ws x ws'
    by (auto simp: check_tool_call_rate_limit_def tool_window_def Let_def split: if_splits)
  show ?thesis
    unfolding same using rl
    by (auto simp: rate_limited_def global_step_def tool_step_def dest: other split: prod.splits option.splits)
qed

lemma global_tracks_run:
  assumes "all_tools.tracks (se_windows E) now past (sv_globalWindow S)"
    and "sorted (now # map tc_now cs)"
  shows "\<exists>extra. (\<forall>T. int (in_span (wc_windowMs (se_windows E)) T (past @ extra)) \<le> max 0 (wc_maxGlobal (se_windows E))) \<and>
     (\<forall>T. in_span (wc_windowMs (se_windows E)) T (admitted_times (server_run E cs S))
            \<le> in_span (wc_windowMs (se_windows E)) T extra)"
  using assms
proof (induction cs arbitrary: now past S)
  case Nil
  then show ?case
    by (intro exI [of _ "[]"]) (simp add: all_tools.tracks_def admitted_times_def)
next
  case (Cons c cs)
  have tr: "all_tools.tracks (se_windows E) (tc_now c) past (sv_globalWindow S)"
    using all_tools.tracks_later [OF Cons.prems(1)] Cons.prems(2) by simp
  show ?case
  proof (cases "call_tool E (tc_now c) (tc_name c) (tc_arguments c) (tc_client c) S")
    case None
    then show ?thesis
      using tr by (intro exI [of _ "[]"]) (simp add: all_tools.tracks_def admitted_times_def)
  next
    case (Some res)
    show ?thesis
    proof (cases res)
      case (Inl e)
      then show ?thesis using Cons.IH [OF tr] Cons.prems(2) Some by simp
    next
      case (Inr rS)
      obtain r S' where rS: "rS = (r, S')" by (cases rS)
      note w = call_tool_windows [OF Some [unfolded Inr rS]]
      let ?g = "fst (global_step (se_windows E) (tc_now c) (sv_globalWindow S))"
      let ?now = "if ?g then [tc_now c] else []"
      have "all_tools.tracks (se_windows E) (tc_now c) (past @ ?now) (sv_globalWindow S')"
        using all_tools.tracks_step [OF tr] w by simp
      from Cons.IH [OF this] Cons.prems(2) obtain extra where
        ex: "\<forall>T. int (in_span (wc_windowMs (se_windows E)) T ((past @ ?now) @ extra)) \<le> max 0 (wc_maxGlobal (se_windows E))"
          "\<forall>T. in_span (wc_windowMs (se_windows E)) T (admitted_times (server_run E cs S'))
            \<le> in_span (wc_windowMs (se_windows E)) T extra"
        by auto
      have "in_span W T (if fst (rate_limited (se_windows E) (tc_now c) (tc_name c) S) = None then [tc_now c] else [])
          \<le> in_span W T ?now" for W T
        using w by (auto simp: in_span_def)
      then have "\<forall>T. in_span (wc_windowMs (se_windows E)) T (admitted_times (server_run E (c # cs) S))
            \<le> in_span (wc_windowMs (se_windows E)) T (?now @ extra)"
        using ex(2) by (simp add: Some Inr rS add_mono)
      then show ?thesis using ex(1) by (intro exI [of _ "?now @ extra"]) (simp add: ac_simps)
    qed
  qed
qed

lemma tool_tracks_cong:
  "tool_window name ws = tool_window name ws' \<Longrightarrow>
     per_tool.tracks cfg name now past ws = per_tool.tracks cfg name now past ws'"
  by (simp add: per_tool.tracks_def)

lemma tool_tracks_run:
  assumes "per_tool.tracks (se_windows E) name now past (sv_toolWindows S)"
    and "sorted (now # map tc_now cs)"
  shows "int (in_span (wc_windowMs (se_windows E)) T (past @ admitted_tool_times name (server_run E cs S)))
           \<le> max 0 (wc_maxPerTool (se_windows E))"
  using assms
proof (induction cs arbitrary: now past S)
  case Nil
  then show ?case by (simp add: per_tool.tracks_def admitted_tool_times_def)
next
  case (Cons c cs)
  have tr: "per_tool.tracks (se_windows E) name (tc_now c) past (sv_toolWindows S)"
    using per_tool.tracks_later [OF Cons.prems(1)] Cons.prems(2) by simp
  show ?case
  proof (cases "call_tool E (tc_now c) (tc_name c) (tc_arguments c) (tc_client c) S")
    case None
    then show ?thesis using tr by (simp add: per_tool.tracks_def admitted_tool_times_def)
  next
    case (Some res)
    show ?thesis
    proof (cases res)
      case (Inl e)
      then show ?thesis using Cons.IH [OF tr] Cons.prems(2) Some by simp
    next
      case (Inr rS)
      obtain r S' where rS: "rS = (r, S')" by (cases rS)
      note w = call_tool_windows [OF Some [unfolded Inr rS], of name]
      let ?ok = "fst (rate_limited (se_windows E) (tc_now c) (tc_name c) S) = None \<and> tc_name c = name"
      have "per_tool.tracks (se_windows E) name (tc_now c) (past @ (if ?ok then [tc_now c] else [])) (sv_toolWindows S')"
      proof (cases "tc_name c = name \<and> fst (global_step (se_windows E) (tc_now c) (sv_globalWindow S))")
        case True
        with w have win: "tool_window name (sv_toolWindows S') =
            tool_window name (snd (tool_step (se_windows E) name (tc_now c) (sv_toolWindows S)))"
          and ok: "?ok = fst (tool_step (se_windows E) name (tc_now c) (sv_toolWindows S))"
          by auto
        from per_tool.tracks_step [OF tr] show ?thesis
          unfolding ok tool_tracks_cong [OF win] .
      next
        case False
        then have win: "tool_window name (sv_toolWindows S') = tool_window name (sv_toolWindows S)"
          and ok: "\<not> ?ok"
          using w by auto
        from tr show ?thesis by (simp only: ok if_False append_Nil2 tool_tracks_cong [OF win])
      qed
      from Cons.IH [OF this] Cons.prems(2) show ?thesis
        by (auto simp: Some Inr rS)
    qed
  qed
qed

section \<open>The egress checks answer\<close>

lemma egress_check_total:
  assumes "parser_shrinks (se_parse E)"
  shows "egress_check E n tool policy sch out \<noteq> None"
proof -
  have "validate_output_policy (se_parse E) (weight out) isDev n tool out policy sch \<noteq> None" for isDev
  proof (cases policy)
    case (Some p)
    have w: "weight (parse_unknown_json (se_parse E) out) \<le> weight out"
      by (rule parse_unknown_weight [OF assms])
    from unwrap_total [OF assms w] obtain u where
      "unwrap_for_scan (se_parse E) (weight out) (parse_unknown_json (se_parse E) out) = Some u" "weight u \<le> weight out"
      using w by auto
    then show ?thesis
      using scan_total [OF assms, of u "weight out" "lp_enforceAggregationFirst p" "Some n"]
      by (auto simp: validate_output_policy_def Let_def Some split: option.splits bool.splits)
  qed (simp add: validate_output_policy_def)
  moreover have "pii_scan (se_parse E) (se_ner E) (se_pii E) (weight out) out \<noteq> None"
    using pii.scan_enough [of "se_parse E" out "weight out" "se_ner E" "se_pii E"] all_below_shrinks [OF assms] by auto
  moreover have "violates_aggregation_first (se_parse E) (weight out) e (Some n) out \<noteq> None" for e
    by (rule scan_total [OF assms order_refl])
  ultimately show ?thesis
    by (auto simp: egress_check_def Let_def simp del: not_None_eq split: option.split)
qed

lemma execute_total:
  assumes "parser_shrinks (se_parse E)"
  shows "execute_in_worker_pool E S l name \<noteq> None"
  using egress_check_total [OF assms]
  by (auto simp: execute_in_worker_pool_def Let_def simp del: not_None_eq split: sum.split option.split)

section \<open>What a successful execution means\<close>

text \<open>Rules that report a non-empty name: then no violation is mistaken for its absence.\<close>

definition named_rules :: "pii_scanner \<Rightarrow> bool" where
  "named_rules A \<longleftrightarrow> (\<forall>s. check_string (ps_patterns A) s \<noteq> Some [])"

lemma egress_passed:
  assumes "egress_check E n tool policy sch out = Some None" and "named_rules (se_pii E)"
  shows "reaches (all_below (se_parse E)) out w \<Longrightarrow> \<not> pii_bad (se_pii E) (se_ner E) w"
    and "policy = Some p \<Longrightarrow> reaches (scanned_below (se_parse E) (lp_enforceAggregationFirst p)) out w \<Longrightarrow>
           \<not> offending (lp_enforceAggregationFirst p) (Some n) w"
proof -
  obtain violation where v: "pii_scan (se_parse E) (se_ner E) (se_pii E) (weight out) out = Some violation"
      "truthy_string violation = None"
    and agg: "violates_aggregation_first (se_parse E) (weight out)
        (case policy of None \<Rightarrow> NotEnforced | Some p \<Rightarrow> lp_enforceAggregationFirst p) (Some n) out = Some False"
    using assms by (auto simp: egress_check_def Let_def split: option.splits if_splits)
  have "violation = None"
    using v pii_message_nonempty [of "se_parse E" "se_ner E" "se_pii E" "weight out" out]
    by (auto simp: truthy_string_def split: option.splits if_splits)
  then have "pii_found (se_parse E) (se_ner E) (se_pii E) (weight out) out = Some False" using v by simp
  then show "reaches (all_below (se_parse E)) out w \<Longrightarrow> \<not> pii_bad (se_pii E) (se_ner E) w"
    using pii.scan_False by blast
  show "policy = Some p \<Longrightarrow> reaches (scanned_below (se_parse E) (lp_enforceAggregationFirst p)) out w \<Longrightarrow>
           \<not> offending (lp_enforceAggregationFirst p) (Some n) w"
    using aggregation.scan_False agg by fastforce
qed

lemma execute_success:
  assumes "execute_in_worker_pool E S l name = Some r" and "\<not> cr_isError r"
    and "map_of (sv_tools S) name = Some entry"
  shows "\<exists>w. se_worker E (dp_config_of (te_policy entry)) l = Inr w \<and>
     cr_content r = [se_stringify E (success_envelope (sanitize_output (se_round E) None (wo_output w)) w)] \<and>
     egress_check E (sv_recordCount S) name (te_policy entry) (te_outputSchema entry)
       (sanitize_output (se_round E) None (wo_output w)) = Some None"
  using assms
  by (auto simp: execute_in_worker_pool_def Let_def text_error_def worker_fault_def split: sum.splits option.splits)

lemma preflight_accepts:
  assumes "server_preflight E name l policy c S = (None, S1)"
  shows "pattern_rejection policy l = None \<and>
         analyze (se_analyzer E) (se_parseAst E) (se_walk E) l (Some (sv_recordCount S)) (min_max_threshold policy) = None"
  using assms
  by (auto simp: server_preflight_def run_preflight_policy_def Let_def split: prod.splits option.splits)

text \<open>The logic \<open>callTool\<close> extracts from its arguments, for a registered tool.\<close>

definition injected_logic :: "tool_entry \<Rightarrow> jsval \<Rightarrow> string option" where
  "injected_logic entry arguments =
     (case te_parse entry arguments of
        Inl msg \<Rightarrow> None
      | Inr parsed \<Rightarrow>
          (case payload_of (if has_bypass_flag arguments then with_bypass_flag parsed else parsed) of
             None \<Rightarrow> None
           | Some p \<Rightarrow> truthy_string (extract_logic p)))"

lemma run_tool_logic:
  "injected_logic entry args = Some l \<Longrightarrow>
     run_tool E now name args c entry S =
       (case server_preflight E name l (te_policy entry) c S of
          (Some reason, S1) \<Rightarrow> Some (text_error reason, S1)
        | (None, S1) \<Rightarrow> map_option (\<lambda>r. (r, S1)) (execute_in_worker_pool E S1 l name))"
  by (cases "te_parse entry args") (auto simp: injected_logic_def run_tool_def Let_def split: option.splits)

section \<open>An example server\<close>

definition demo_entry :: tool_entry where
  "demo_entry = \<lparr>te_parse = Inr, te_handler = LogicMiddleware,
     te_policy = Some (no_policy\<lparr>lp_enforceAggregationFirst := EnforcedByDefault\<rparr>), te_outputSchema = None\<rparr>"

definition demo_env :: "disk_budget server_env" where
  "demo_env = \<lparr>se_analyzer = no_analyzer, se_parseAst = (\<lambda>s. None), se_walk = walk_post,
     se_parseFile = Some, se_renderFile = id, se_fs = plain_env, se_budgetStorePath = None,
     se_windows = \<lparr>wc_windowMs = 60000, wc_maxPerTool = 2, wc_maxGlobal = 3\<rparr>,
     se_worker = (\<lambda>dp l. Inr \<lparr>wo_output = TObj 0 [(''n'', TNum (Fin 3))], wo_image_id = JNull, wo_zk_receipt = JNull\<rparr>),
     se_round = Fin, se_parse = (\<lambda>s. None), se_stringify = (\<lambda>v. ''ok''), se_sha256 = id,
     se_pii = new_pii_scanner [] [], se_ner = None, se_environment = (\<lambda>k. None)\<rparr>"

definition demo_state :: "disk_budget server_state" where
  "demo_state = \<lparr>sv_tools = [(''sum'', demo_entry)], sv_toolWindows = [], sv_globalWindow = [], sv_memory = [],
     sv_disk = (\<lambda>p. None), sv_stats = \<lparr>st_failures = 0, st_lastAttempt = 0\<rparr>, sv_logicCache = [], sv_recordCount = 50\<rparr>"

definition demo_args :: jsval where
  "demo_args = JObj [(''payload'', JStr (''@LIOP{a}'' @ [CHR 0x0A] @ ''1'' @ [CHR 0x0A] @ ''@END''))]"

lemma demo_head: "re_match envelope_head ([], ''@LIOP{a}'' @ [CHR 0x0A] @ ''1'' @ [CHR 0x0A] @ ''@END'') =
    [(CHR 0x0A # ''}a{POIL@'', ''1'' @ [CHR 0x0A] @ ''@END'')]"
  by (simp add: envelope_head_def re_match_lit plus_def opt_def star_def newline_re_def blank_def chr_def
      advances_def is_space_def code_of_def)

lemma demo_logic: "injected_logic demo_entry demo_args = Some ''1''"
proof -
  let ?p = "''@LIOP{a}'' @ [CHR 0x0A] @ ''1'' @ [CHR 0x0A] @ ''@END''"
  have trim: "js_trim ?p = ?p"
    by (simp add: js_trim_def trim_start_def trim_end_def is_space_def code_of_def)
  have tail: "logic_from (CHR 0x0A # ''}a{POIL@'', ''1'' @ [CHR 0x0A] @ ''@END'') = Some ''1''"
    by (simp add: logic_from_def envelope_tail_def newline_re_def plus_def re_match_lit lit_def chr_def advances_def)
  have "envelope_logic [] ?p = Some ''1''"
    by (subst envelope_logic.simps) (simp only: demo_head List.map_filter_simps tail option.case list.case)
  then have "extract_logic ?p = Some ''1''"
    by (simp add: extract_logic_def trim [simplified] truthy_string_def js_trim_def trim_start_def trim_end_def
        is_space_def code_of_def)
  then show ?thesis
    by (simp add: injected_logic_def demo_entry_def demo_args_def has_bypass_flag_def payload_of_def get_prop_def
        truthy_string_def)
qed

section \<open>Properties\<close>

text \<open>C1: a well-formed logic that \<open>callTool\<close> answers without an error passed the patterns and
  the taint analysis, and was run by the worker; what leaves is the sanitized output, which reaches
  no string that matches a PII rule or names a person, no forbidden key, and nothing the
  aggregation policy objects to.\<close>

theorem successful_call_was_checked:
  assumes "call_tool E now name args c S = Some (Inr (r, S'))" and "\<not> cr_isError r"
    and "map_of (sv_tools S) name = Some entry" and "injected_logic entry args = Some l"
    and "te_policy entry = Some p" and "named_rules (se_pii E)"
  shows "pattern_rejection (Some p) l = None \<and>
     analyze (se_analyzer E) (se_parseAst E) (se_walk E) l (Some (sv_recordCount S)) (min_max_threshold (Some p)) = None \<and>
     (\<exists>w out. se_worker E (dp_config_of (Some p)) l = Inr w \<and>
        out = sanitize_output (se_round E) None (wo_output w) \<and>
        cr_content r = [se_stringify E (success_envelope out w)] \<and>
        (\<forall>v. reaches (all_below (se_parse E)) out v \<longrightarrow> \<not> pii_bad (se_pii E) (se_ner E) v) \<and>
        (\<forall>v. reaches (scanned_below (se_parse E) (lp_enforceAggregationFirst p)) out v \<longrightarrow>
             \<not> offending (lp_enforceAggregationFirst p) (Some (sv_recordCount S)) v))"
proof -
  obtain rl S1 where rl: "rate_limited (se_windows E) now name S = (rl, S1)"
    by (cases "rate_limited (se_windows E) now name S")
  have rlN: "rl = None"
    using assms(1-3) by (auto simp: call_tool_def rl text_error_def split: option.splits)
  have n1: "sv_recordCount S1 = sv_recordCount S" "sv_tools S1 = sv_tools S"
    using rate_limited_frame [OF rl] by auto
  have run: "run_tool E now name args c entry S1 = Some (r, S')"
    using assms(1,3) rlN by (auto simp: call_tool_def rl)
  obtain pf S2 where pf: "server_preflight E name l (te_policy entry) c S1 = (pf, S2)"
    by (cases "server_preflight E name l (te_policy entry) c S1")
  have pfN: "pf = None"
    using run assms(2) by (auto simp: run_tool_logic [OF assms(4)] pf text_error_def split: option.splits)
  then have ex: "execute_in_worker_pool E S2 l name = Some r"
    using run by (auto simp: run_tool_logic [OF assms(4)] pf)
  have n2: "sv_recordCount S2 = sv_recordCount S" "sv_tools S2 = sv_tools S"
    using server_preflight_same [OF pf] n1 by auto
  have entry: "map_of (sv_tools S2) name = Some entry" using assms(3) n2 by simp
  from execute_success [OF ex assms(2) entry] obtain w where w: "se_worker E (dp_config_of (te_policy entry)) l = Inr w"
    "cr_content r = [se_stringify E (success_envelope (sanitize_output (se_round E) None (wo_output w)) w)]"
    and out: "egress_check E (sv_recordCount S2) name (te_policy entry) (te_outputSchema entry)
       (sanitize_output (se_round E) None (wo_output w)) = Some None" by blast
  from preflight_accepts [OF pf [unfolded pfN]] w egress_passed [OF out assms(6)] show ?thesis
    unfolding assms(5) n1 n2 by blast
qed

lemma demo_egress: "execute_in_worker_pool demo_env (demo_state\<lparr>sv_toolWindows := ws, sv_globalWindow := gs\<rparr>) ''1'' ''sum''
    = Some \<lparr>cr_content = [''ok''], cr_isError = False\<rparr>"
  by (simp add: execute_in_worker_pool_def demo_state_def demo_env_def demo_entry_def Let_def sanitize_output_def
      default_config_def sanitize_number_def math_round_def egress_check_def validate_output_policy_def
      parse_unknown_json_def is_error_result_def get_prop_def no_policy_def enforced_def content_texts_def
      k_anonymity_violated_def small_sample_def max_rows_def no_forbidden_keys truthy_string_def numeral_eq_Suc)

lemma demo_preflight: "server_preflight demo_env ''sum'' ''1'' (te_policy demo_entry) c S = (None, S)"
proof -
  have "pattern_rejection (te_policy demo_entry) ''1'' = None"
    by (simp add: pattern_rejection_def demo_entry_def no_policy_def enforced_def compact_source_def re_replace_all_def
        re_replace_from.simps plus_def blank_def is_space_def code_of_def row_extraction_patterns_def re_test_def
        re_search.simps re_match_ilit js_lower_def)
  then show ?thesis
    by (simp add: server_preflight_def run_preflight_policy_def demo_env_def analyze_def extract_queried_fields_def Let_def)
qed

lemma demo_run: "call_tool demo_env 5 ''sum'' demo_args ''c'' demo_state =
      Some (Inr (\<lparr>cr_content = [''ok''], cr_isError = False\<rparr>,
        demo_state\<lparr>sv_globalWindow := [5], sv_toolWindows := [(''sum'', [5])]\<rparr>))"
proof -
  have entry: "map_of (sv_tools demo_state) ''sum'' = Some demo_entry" by (simp add: demo_state_def)
  have rl: "rate_limited (se_windows demo_env) 5 ''sum'' demo_state =
      (None, demo_state\<lparr>sv_globalWindow := [5], sv_toolWindows := [(''sum'', [5])]\<rparr>)"
    by (simp add: rate_limited_def check_global_rate_limit_def check_tool_call_rate_limit_def tool_window_def
        live_def Let_def demo_env_def demo_state_def)
  have ex: "execute_in_worker_pool demo_env
      (demo_state\<lparr>sv_globalWindow := [5], sv_toolWindows := [(''sum'', [5])]\<rparr>) ''1'' ''sum''
        = Some \<lparr>cr_content = [''ok''], cr_isError = False\<rparr>"
    using demo_egress [where ws = "[(''sum'', [5])]" and gs = "[5]"] by (simp add: demo_state_def)
  show ?thesis
    by (simp add: call_tool_def entry rl run_tool_logic [OF demo_logic] demo_preflight ex)
qed

theorem successful_call_was_checked_witness:
  "pattern_rejection (te_policy demo_entry) ''1'' = None \<and>
   (\<exists>w. se_worker demo_env (dp_config_of (te_policy demo_entry)) ''1'' = Inr w)"
proof -
  have p: "te_policy demo_entry = Some (no_policy\<lparr>lp_enforceAggregationFirst := EnforcedByDefault\<rparr>)"
    and e: "map_of (sv_tools demo_state) ''sum'' = Some demo_entry"
    and n: "named_rules (se_pii demo_env)"
    by (simp_all add: demo_entry_def demo_state_def named_rules_def demo_env_def new_pii_scanner_def)
  from successful_call_was_checked [OF demo_run _ e demo_logic p n] show ?thesis
    unfolding p by auto
qed

text \<open>C17: in any run of calls at non-decreasing times, no span of one window length contains more
  admitted calls than the global maximum, nor more admitted calls of one tool than the maximum per
  tool.\<close>

theorem call_rate_bounds:
  assumes "sv_globalWindow S = []" and "sv_toolWindows S = []" and "sorted (map tc_now cs)"
  shows "int (in_span (wc_windowMs (se_windows E)) T (admitted_times (server_run E cs S))) \<le> max 0 (wc_maxGlobal (se_windows E)) \<and>
     int (in_span (wc_windowMs (se_windows E)) T (admitted_tool_times name (server_run E cs S))) \<le> max 0 (wc_maxPerTool (se_windows E))"
proof (cases cs)
  case Nil
  then show ?thesis by (simp add: admitted_times_def admitted_tool_times_def in_span_def)
next
  case (Cons c rest)
  have srt: "sorted (tc_now c # map tc_now cs)" using assms(3) Cons by simp
  have g: "all_tools.tracks (se_windows E) (tc_now c) [] (sv_globalWindow S)"
    by (simp add: all_tools.tracks_def assms(1) in_span_def live_def)
  have t: "per_tool.tracks (se_windows E) name (tc_now c) [] (sv_toolWindows S)"
    by (simp add: per_tool.tracks_def assms(2) in_span_def live_def tool_window_def)
  from global_tracks_run [OF g srt] obtain extra where
    "int (in_span (wc_windowMs (se_windows E)) T extra) \<le> max 0 (wc_maxGlobal (se_windows E))"
    "in_span (wc_windowMs (se_windows E)) T (admitted_times (server_run E cs S)) \<le> in_span (wc_windowMs (se_windows E)) T extra"
    by auto
  with tool_tracks_run [OF t srt] show ?thesis by simp
qed

theorem call_rate_bounds_witness:
  "int (in_span 60000 0 (admitted_times (server_run demo_env
      [\<lparr>tc_now = 1, tc_name = ''sum'', tc_arguments = JNull, tc_client = ''c''\<rparr>,
       \<lparr>tc_now = 4, tc_name = ''sum'', tc_arguments = JNull, tc_client = ''d''\<rparr>] demo_state))) \<le> 3"
  using call_rate_bounds [of demo_state "[\<lparr>tc_now = 1, tc_name = ''sum'', tc_arguments = JNull, tc_client = ''c''\<rparr>,
       \<lparr>tc_now = 4, tc_name = ''sum'', tc_arguments = JNull, tc_client = ''d''\<rparr>]" demo_env 0 "''sum''"]
  by (simp add: demo_state_def demo_env_def del: server_run.simps)

text \<open>Outside development the error of a blocked or failed execution is one of three fixed
  texts: it does not depend on the data, the rule or the exception's message beyond its class.\<close>

theorem production_errors_constant:
  assumes "execute_in_worker_pool E S l name = Some r" and "cr_isError r" and "\<not> is_dev (se_environment E)"
  shows "cr_content r \<in>
    {[blocked_message],
     [''[LIOP] Execution terminated: memory limit exceeded (64MB heap). Reduce data processing volume.''],
     [''[LIOP] Execution Failed. The injected logic violated runtime constraints or encountered a fatal error.'']}"
  using assms
  by (auto simp: execute_in_worker_pool_def Let_def worker_fault_def text_error_def egress_check_def
      split: sum.splits option.splits if_splits)

theorem production_errors_constant_witness:
  "cr_content (text_error blocked_message) \<in>
    {[blocked_message],
     [''[LIOP] Execution terminated: memory limit exceeded (64MB heap). Reduce data processing volume.''],
     [''[LIOP] Execution Failed. The injected logic violated runtime constraints or encountered a fatal error.'']}"
proof (rule production_errors_constant)
  show "execute_in_worker_pool (demo_env\<lparr>se_pii := new_pii_scanner [] [''n'']\<rparr>) demo_state ''1'' ''sum'' =
      Some (text_error blocked_message)"
    by (simp add: execute_in_worker_pool_def demo_state_def demo_env_def demo_entry_def Let_def sanitize_output_def
      default_config_def sanitize_number_def math_round_def egress_check_def validate_output_policy_def
      parse_unknown_json_def is_error_result_def get_prop_def no_policy_def enforced_def content_texts_def
      k_anonymity_violated_def small_sample_def max_rows_def truthy_string_def numeral_eq_Suc
      key_violation_def new_pii_scanner_def js_lower_def lower_char_def code_of_def is_dev_def)
qed (simp_all add: text_error_def demo_env_def is_dev_def)

lemma call_tool_total:
  assumes "parser_shrinks (se_parse E)"
  shows "call_tool E now name args c S \<noteq> None"
proof -
  have ex: "execute_in_worker_pool E S' l n \<noteq> None" for S' l n
    by (rule execute_total [OF assms])
  have mw: "logic_middleware E now n pol payload b S' \<noteq> None" for n pol payload b S'
    using ex by (auto simp: logic_middleware_def Let_def simp del: not_None_eq split: option.split prod.split)
  have "run_tool E now name args c entry S' \<noteq> None" for entry S'
    using ex mw
    by (auto simp: run_tool_def Let_def simp del: not_None_eq
        split: sum.split option.split prod.split tool_handler.split)
  then show ?thesis
    by (auto simp: call_tool_def simp del: not_None_eq split: option.split prod.split)
qed



text \<open>Through \<open>callTool\<close> a payload with a well-formed envelope never reaches the middleware, so
  the cache of checked logic is never filled, the count of failures never goes down, and a rejected
  logic does not count as a failure.\<close>

theorem middleware_state_through_call_tool:
  assumes "call_tool E now name args c S = Some (Inr (r, S'))"
  shows "sv_logicCache S' = sv_logicCache S \<and> st_failures (sv_stats S) \<le> st_failures (sv_stats S') \<and>
     (\<forall>entry. map_of (sv_tools S) name = Some entry \<and> injected_logic entry args \<noteq> None \<longrightarrow> sv_stats S' = sv_stats S)"
proof -
  obtain rl S1 where rl: "rate_limited (se_windows E) now name S = (rl, S1)"
    by (cases "rate_limited (se_windows E) now name S")
  note f1 = rate_limited_frame [OF rl]
  obtain entry where entry: "map_of (sv_tools S) name = Some entry"
    using assms by (auto simp: call_tool_def split: option.splits)
  show ?thesis
  proof (cases rl)
    case None
    then have run: "run_tool E now name args c entry S1 = Some (r, S')"
      using assms entry by (auto simp: call_tool_def rl)
    have "sv_stats S' = sv_stats S1" if "injected_logic entry args = Some l" for l
      using run server_preflight_same [of E name l "te_policy entry" c S1]
      by (auto simp: run_tool_logic [OF that] split: prod.splits option.splits)
    with run_tool_frame [OF run] f1 entry show ?thesis by auto
  next
    case (Some msg)
    then show ?thesis using assms entry f1 by (auto simp: call_tool_def rl)
  qed
qed

theorem middleware_state_through_call_tool_witness:
  "case call_tool demo_env 7 ''sum'' JNull ''c'' demo_state of
     Some (Inr (r, S')) \<Rightarrow> sv_logicCache S' = [] | _ \<Rightarrow> False"
proof -
  let ?cfg = "se_windows demo_env"
  have "call_tool demo_env 7 ''sum'' JNull ''c'' demo_state \<noteq> None"
    by (rule call_tool_total) (simp add: parser_shrinks_def demo_env_def)
  moreover have "call_tool demo_env 7 ''sum'' JNull ''c'' demo_state \<noteq> Some (Inl e)" for e
    by (auto simp: call_tool_def demo_state_def split: option.splits prod.splits)
  ultimately obtain r S' where run: "call_tool demo_env 7 ''sum'' JNull ''c'' demo_state = Some (Inr (r, S'))"
    by (metis not_None_eq old.sum.exhaust surj_pair)
  from middleware_state_through_call_tool [OF run] show ?thesis
    by (simp add: run) (simp add: demo_state_def)
qed

end
