(* ===== verification/Framing.thy ===== *)
theory Framing
  imports Prelude "HOL-Library.Word"
begin

text \<open>
  The two wire framings: \<open>rpc/codec/lpm.ts\<close> (gRPC length-prefixed messages) and
  \<open>gateway/grpc-web.ts\<close> (data and trailer frames, and the HTTP/1.1 dispatcher). Bytes are
  \<^typ>\<open>8 word\<close>. A length is written as an unsigned 32-bit number, big-endian, which wraps. The
  contract of a framing is the locale \<open>framing\<close>; it is interpreted on both codecs.
\<close>

unbundle bit_operations_syntax

type_synonym byte = "8 word"
type_synonym bytes = "byte list"

section \<open>Numbers and texts as bytes\<close>

text \<open>\<open>setUint32\<close> and \<open>writeUInt32BE\<close>, \<open>getUint32\<close> and \<open>readUInt32BE\<close>.\<close>

definition be32 :: "nat \<Rightarrow> bytes" where
  "be32 n = [of_nat (n div 2 ^ 24), of_nat (n div 2 ^ 16), of_nat (n div 2 ^ 8), of_nat n]"

definition read_be32 :: "bytes \<Rightarrow> nat" where
  "read_be32 bs = unat (bs ! 0) * 2 ^ 24 + unat (bs ! 1) * 2 ^ 16 + unat (bs ! 2) * 2 ^ 8 + unat (bs ! 3)"

lemma length_be32 [simp]: "length (be32 n) = 4"
  by (simp add: be32_def)

lemma unat_byte: "unat (of_nat n :: byte) = n mod 256"
  by (simp add: unat_of_nat)

lemma read_be32_be32: "read_be32 (be32 n @ rest) = n mod 2 ^ 32"
proof -
  have "n mod 2 ^ 32 = n div 2 ^ 24 mod 256 * 2 ^ 24 + n div 2 ^ 16 mod 256 * 2 ^ 16 + n div 2 ^ 8 mod 256 * 2 ^ 8 + n mod 256"
  proof -
    let ?a = "n div 256" and ?b = "n div 65536"
    have "n mod (256 * 16777216) = 256 * (?a mod 16777216) + n mod 256" by (rule mod_mult2_eq)
    moreover have "?a mod (256 * 65536) = 256 * (?a div 256 mod 65536) + ?a mod 256" by (rule mod_mult2_eq)
    moreover have "?b mod (256 * 256) = 256 * (?b div 256 mod 256) + ?b mod 256" by (rule mod_mult2_eq)
    moreover have "?a div 256 = ?b" "?b div 256 = n div 16777216" by (simp_all add: div_mult2_eq [symmetric])
    ultimately show ?thesis by simp
  qed
  then show ?thesis by (simp add: read_be32_def be32_def unat_byte)
qed

text \<open>\<open>Buffer.from(s, "utf-8")\<close> for code units below 256.\<close>

definition utf8_char :: "char \<Rightarrow> bytes" where
  "utf8_char c =
     (let n = code_of c
      in if n < 128 then [of_nat n] else [of_nat (192 + n div 64), of_nat (128 + n mod 64)])"

definition utf8 :: "string \<Rightarrow> bytes" where
  "utf8 s = concat (map utf8_char s)"

definition hex_digit :: "nat \<Rightarrow> char" where
  "hex_digit d = (if d < 10 then char_of (48 + d) else char_of (55 + d))"

text \<open>\<open>encodeURIComponent\<close>.\<close>

definition uri_unreserved :: "char \<Rightarrow> bool" where
  "uri_unreserved c \<longleftrightarrow>
     (let n = code_of c in (48 \<le> n \<and> n \<le> 57) \<or> (65 \<le> n \<and> n \<le> 90) \<or> (97 \<le> n \<and> n \<le> 122) \<or>
        n \<in> {45, 95, 46, 33, 126, 42, 39, 40, 41})"

definition percent :: "byte \<Rightarrow> string" where
  "percent b = [CHR ''%'', hex_digit (unat b div 16), hex_digit (unat b mod 16)]"

definition encode_uri_component :: "string \<Rightarrow> string" where
  "encode_uri_component s =
     concat (map (\<lambda>c. if uri_unreserved c then [c] else concat (map percent (utf8_char c))) s)"

section \<open>The contract of a framing\<close>

text \<open>Decoding what was encoded gives it back with the bytes after it; a proper prefix of an
  encoding is not decoded; decoding consumes.\<close>

locale framing =
  fixes enc :: "'a \<Rightarrow> bytes"
    and dec :: "bytes \<Rightarrow> ('a \<times> bytes) option"
    and ok :: "'a \<Rightarrow> bool"
  assumes dec_enc: "ok x \<Longrightarrow> dec (enc x @ rest) = Some (x, rest)"
    and dec_partial: "ok x \<Longrightarrow> n < length (enc x) \<Longrightarrow> dec (take n (enc x)) = None"
    and dec_consumes: "dec bs = Some (x, rest) \<Longrightarrow> \<exists>used. bs = used @ rest \<and> used \<noteq> []"
    and dec_more: "dec bs = Some (x, rest) \<Longrightarrow> dec (bs @ more) = Some (x, rest @ more)"
begin

text \<open>All complete frames of a buffer, with what is left; the length of the buffer bounds their
  number.\<close>

fun dec_upto :: "nat \<Rightarrow> bytes \<Rightarrow> 'a list \<times> bytes" where
  "dec_upto 0 bs = ([], bs)"
| "dec_upto (Suc n) bs =
     (case dec bs of None \<Rightarrow> ([], bs)
      | Some (x, rest) \<Rightarrow> (case dec_upto n rest of (xs, left) \<Rightarrow> (x # xs, left)))"

definition dec_all :: "bytes \<Rightarrow> 'a list \<times> bytes" where
  "dec_all bs = dec_upto (length bs) bs"

lemma dec_shrinks: "dec bs = Some (x, rest) \<Longrightarrow> length rest < length bs"
  using dec_consumes [of bs x rest] by auto

lemma dec_upto_enough: "length bs \<le> n \<Longrightarrow> dec_upto n bs = dec_all bs"
proof -
  have "length bs \<le> n \<Longrightarrow> length bs \<le> m \<Longrightarrow> dec_upto n bs = dec_upto m bs" for m
  proof (induction n arbitrary: bs m)
    case 0
    then have "dec bs = None" by (cases "dec bs") (auto dest: dec_shrinks)
    then show ?case using 0 by (cases m) auto
  next
    case (Suc n)
    show ?case
    proof (cases "dec bs")
      case None
      then show ?thesis by (cases m) auto
    next
      case (Some p)
      obtain x rest where p: "p = (x, rest)" by (cases p)
      have "length rest < length bs" using dec_shrinks Some p by auto
      moreover from this obtain k where "m = Suc k" using Suc.prems(2) by (cases m) auto
      ultimately show ?thesis using Suc.IH [of rest k] Suc.prems Some p by simp
    qed
  qed
  then show "length bs \<le> n \<Longrightarrow> dec_upto n bs = dec_all bs" unfolding dec_all_def by blast
qed

lemma dec_all_step:
  "dec_all bs = (case dec bs of None \<Rightarrow> ([], bs)
     | Some (x, rest) \<Rightarrow> (case dec_all rest of (xs, left) \<Rightarrow> (x # xs, left)))"
proof (cases "dec bs")
  case None
  then show ?thesis by (cases "length bs") (simp_all add: dec_all_def)
next
  case (Some p)
  obtain x rest where p: "p = (x, rest)" by (cases p)
  have sh: "length rest < length bs" using dec_shrinks Some p by auto
  then obtain n where n: "length bs = Suc n" by (cases "length bs") auto
  with sh have "dec_upto n rest = dec_all rest" by (intro dec_upto_enough) simp
  then show ?thesis by (simp add: dec_all_def [of bs] n Some p)
qed

lemma dec_all_stream: "list_all ok xs \<Longrightarrow> dec_all (concat (map enc xs) @ tail) = (xs @ fst (dec_all tail), snd (dec_all tail))"
proof (induction xs)
  case (Cons x xs)
  then show ?case
    by (subst dec_all_step) (simp add: dec_enc split: prod.split)
qed simp

lemma dec_all_partial: "ok x \<Longrightarrow> n < length (enc x) \<Longrightarrow> dec_all (take n (enc x)) = ([], take n (enc x))"
  by (subst dec_all_step) (simp add: dec_partial)

text \<open>A reader that gets the bytes in chunks and keeps the undecoded rest: how the stream is cut
  into chunks does not matter.\<close>

fun feed :: "bytes \<Rightarrow> bytes list \<Rightarrow> 'a list \<times> bytes" where
  "feed buf [] = ([], buf)"
| "feed buf (c # cs) =
     (case dec_all (buf @ c) of (xs, left) \<Rightarrow> (case feed left cs of (ys, left') \<Rightarrow> (xs @ ys, left')))"

lemma dec_all_more:
  "dec_all bs = (xs, left) \<Longrightarrow> dec_all (bs @ more) = (xs @ fst (dec_all (left @ more)), snd (dec_all (left @ more)))"
proof (induction "length bs" arbitrary: bs xs rule: less_induct)
  case less
  show ?case
  proof (cases "dec bs")
    case None
    then show ?thesis using less.prems by (subst (asm) dec_all_step) simp
  next
    case (Some p)
    obtain x rest where p: "p = (x, rest)" by (cases p)
    obtain ys where ys: "dec_all rest = (ys, left)" "xs = x # ys"
      using less.prems Some p by (subst (asm) dec_all_step) (auto split: prod.splits)
    have "length rest < length bs" using dec_shrinks Some p by auto
    from less.hyps [OF this ys(1)] show ?thesis
      using dec_more [of bs x rest more] Some p ys(2)
      by (subst dec_all_step) (simp split: prod.split)
  qed
qed

lemma feed_chunks: "dec_all buf = ([], buf) \<Longrightarrow> feed buf cs = dec_all (buf @ concat cs)"
proof (induction cs arbitrary: buf)
  case (Cons c cs)
  obtain xs left where d: "dec_all (buf @ c) = (xs, left)" by (cases "dec_all (buf @ c)")
  have "dec_all left = ([], left)"
    using dec_all_more [OF d, of "[]"] d by (cases "dec_all left") simp
  from Cons.IH [OF this] dec_all_more [OF d, of "concat cs"] d show ?case
    by (simp split: prod.split)
qed simp

end

section \<open>Length-prefixed messages\<close>

definition lpm_encode :: "bytes \<Rightarrow> bytes" where
  "lpm_encode data = 0 # be32 (length data) @ data"

text \<open>\<open>data\<close> is \<open>null\<close> and \<open>remaining\<close> the buffer when the message is not complete.\<close>

definition lpm_decode :: "bytes \<Rightarrow> bytes option \<times> bytes" where
  "lpm_decode buffer =
     (if length buffer < 5 then (None, buffer)
      else
        (let len = read_be32 (drop 1 buffer) in
         if length buffer < 5 + len then (None, buffer)
         else (Some (take len (drop 5 buffer)), drop (5 + len) buffer)))"

definition lpm_next :: "bytes \<Rightarrow> (bytes \<times> bytes) option" where
  "lpm_next bs = (case lpm_decode bs of (None, r) \<Rightarrow> None | (Some d, r) \<Rightarrow> Some (d, r))"

section \<open>gRPC-Web frames\<close>

record grpc_web_frame =
  gf_isTrailer :: bool
  gf_payload :: bytes

definition is_grpc_web_request :: "string option \<Rightarrow> bool" where
  "is_grpc_web_request contentType =
     (case contentType of None \<Rightarrow> False
      | Some c \<Rightarrow> c \<noteq> [] \<and>
          (let lower = js_lower c in
           starts_with lower ''application/grpc-web'' \<or> starts_with lower ''application/grpc-web+proto'' \<or>
           starts_with lower ''application/grpc-web+json''))"

definition encode_data_frame :: "bytes \<Rightarrow> bytes" where
  "encode_data_frame payload = 0 # be32 (length payload) @ payload"

definition trailer_text :: "int \<Rightarrow> string \<Rightarrow> (string \<times> string) list \<Rightarrow> string" where
  "trailer_text status message customTrailers =
     js_join [CHR 0x0D, CHR 0x0A]
       ([''grpc-status:'' @ int_str status, ''grpc-message:'' @ encode_uri_component message] @
        map (\<lambda>(k, v). k @ '':'' @ v) customTrailers) @ [CHR 0x0D, CHR 0x0A]"

definition encode_trailer_frame :: "int \<Rightarrow> string \<Rightarrow> (string \<times> string) list \<Rightarrow> bytes" where
  "encode_trailer_frame status message customTrailers =
     (let trailerBuf = utf8 (trailer_text status message customTrailers)
      in 128 # be32 (length trailerBuf) @ trailerBuf)"

text \<open>One turn of the loop of \<open>decodeFrames\<close>, at the offset where \<open>bs\<close> starts.\<close>

definition frame_next :: "bytes \<Rightarrow> (grpc_web_frame \<times> bytes) option" where
  "frame_next bs =
     (if 5 \<le> length bs then
        (let flag = hd bs; len = read_be32 (drop 1 bs) in
         if length bs < 5 + len then None
         else Some (\<lparr>gf_isTrailer = (flag AND 128 = 128), gf_payload = take len (drop 5 bs)\<rparr>, drop (5 + len) bs))
      else None)"

function decode_frames :: "bytes \<Rightarrow> grpc_web_frame list" where
  "decode_frames bs = (case frame_next bs of None \<Rightarrow> [] | Some (f, rest) \<Rightarrow> f # decode_frames rest)"
  by pat_completeness auto
termination
  by (relation "measure length") (auto simp: frame_next_def Let_def split: if_splits)

declare decode_frames.simps [simp del]

definition encode_frame :: "grpc_web_frame \<Rightarrow> bytes" where
  "encode_frame f = (if gf_isTrailer f then 128 else 0) # be32 (length (gf_payload f)) @ gf_payload f"

lemma encode_frame_data: "encode_data_frame p = encode_frame \<lparr>gf_isTrailer = False, gf_payload = p\<rparr>"
  by (simp add: encode_data_frame_def encode_frame_def)

lemma encode_frame_trailer:
  "encode_trailer_frame s m c = encode_frame \<lparr>gf_isTrailer = True, gf_payload = utf8 (trailer_text s m c)\<rparr>"
  by (simp add: encode_trailer_frame_def encode_frame_def Let_def)

section \<open>Both satisfy the contract\<close>

lemma prefixed_short: "n < 5 + length d \<Longrightarrow> 5 \<le> n \<Longrightarrow> read_be32 (take (n - 1) (be32 k @ d)) = k mod 2 ^ 32"
proof -
  assume "5 \<le> n"
  then have "take (n - 1) (be32 k @ d) = be32 k @ take (n - 5) d" by simp
  then show ?thesis by (simp add: read_be32_be32)
qed

lemma read_be32_append: "4 \<le> length bs \<Longrightarrow> read_be32 (bs @ ext) = read_be32 bs"
proof -
  assume "4 \<le> length bs"
  then have "0 < length bs" "1 < length bs" "2 < length bs" "3 < length bs" by linarith+
  then show ?thesis by (simp only: read_be32_def nth_append if_True)
qed

lemma drop5_header: "drop 5 (b # be32 n @ d) = d" "drop (5 + k) (b # be32 n @ d) = drop k d"
proof -
  show *: "drop 5 (b # be32 n @ d) = d" by (simp add: be32_def)
  show "drop (5 + k) (b # be32 n @ d) = drop k d"
    by (simp only: add.commute [of 5 k] drop_drop [symmetric] *)
qed

lemma lpm_next_unfold:
  "lpm_next bs = (if 5 \<le> length bs \<and> 5 + read_be32 (drop 1 bs) \<le> length bs
     then Some (take (read_be32 (drop 1 bs)) (drop 5 bs), drop (5 + read_be32 (drop 1 bs)) bs) else None)"
  by (simp add: lpm_next_def lpm_decode_def Let_def)

lemma frame_next_unfold:
  "frame_next bs = (if 5 \<le> length bs \<and> 5 + read_be32 (drop 1 bs) \<le> length bs
     then Some (\<lparr>gf_isTrailer = (hd bs AND 128 = 128), gf_payload = take (read_be32 (drop 1 bs)) (drop 5 bs)\<rparr>,
                drop (5 + read_be32 (drop 1 bs)) bs) else None)"
  by (simp add: frame_next_def Let_def)

lemma drop_prefix_more: "m \<le> length bs \<Longrightarrow> drop m (bs @ ext) = drop m bs @ ext"
  by simp

interpretation lpm: framing lpm_encode lpm_next "\<lambda>d. length d < 2 ^ 32"
proof
  fix x rest :: bytes
  assume "length x < 2 ^ 32"
  then show "lpm_next (lpm_encode x @ rest) = Some (x, rest)"
    by (simp add: lpm_next_unfold lpm_encode_def read_be32_be32 drop5_header)
next
  fix x :: bytes and n
  assume "length x < 2 ^ 32" and "n < length (lpm_encode x)"
  then show "lpm_next (take n (lpm_encode x)) = None"
    using prefixed_short [of n x "length x"]
    by (cases n) (auto simp: lpm_next_unfold lpm_encode_def)
next
  fix bs x rest
  assume "lpm_next bs = Some (x, rest)"
  then show "\<exists>used. bs = used @ rest \<and> used \<noteq> []"
    by (intro exI [of _ "take (5 + read_be32 (drop 1 bs)) bs"]) (auto simp: lpm_next_unfold split: if_splits)
next
  fix bs x rest ext
  assume "lpm_next bs = Some (x, rest)"
  then show "lpm_next (bs @ ext) = Some (x, rest @ ext)"
    using read_be32_append [of "drop 1 bs" ext] by (auto simp: lpm_next_unfold split: if_splits)
qed

interpretation grpc_web: framing encode_frame frame_next "\<lambda>f. length (gf_payload f) < 2 ^ 32"
proof
  fix x :: grpc_web_frame and rest
  assume "length (gf_payload x) < 2 ^ 32"
  then show "frame_next (encode_frame x @ rest) = Some (x, rest)"
    by (cases x) (simp add: frame_next_unfold encode_frame_def read_be32_be32 drop5_header)
next
  fix x :: grpc_web_frame and n
  assume "length (gf_payload x) < 2 ^ 32" and "n < length (encode_frame x)"
  then show "frame_next (take n (encode_frame x)) = None"
    using prefixed_short [of n "gf_payload x" "length (gf_payload x)"]
    by (cases n) (auto simp: frame_next_unfold encode_frame_def)
next
  fix bs x rest
  assume "frame_next bs = Some (x, rest)"
  then show "\<exists>used. bs = used @ rest \<and> used \<noteq> []"
    by (intro exI [of _ "take (5 + read_be32 (drop 1 bs)) bs"]) (auto simp: frame_next_unfold split: if_splits)
next
  fix bs x rest ext
  assume "frame_next bs = Some (x, rest)"
  then show "frame_next (bs @ ext) = Some (x, rest @ ext)"
    using read_be32_append [of "drop 1 bs" ext] by (auto simp: frame_next_unfold hd_append split: if_splits)
qed

lemma decode_frames_all: "decode_frames bs = fst (grpc_web.dec_all bs)"
proof (induction bs rule: decode_frames.induct)
  case (1 bs)
  then show ?case
    by (subst decode_frames.simps, subst grpc_web.dec_all_step) (auto split: option.split prod.split)
qed

lemma decode_frames_encoded:
  assumes "list_all (\<lambda>f. length (gf_payload f) < 2 ^ 32) fs"
  shows "decode_frames (concat (map encode_frame fs)) = fs"
proof -
  have e: "grpc_web.dec_all [] = ([], [])" by (simp add: grpc_web.dec_all_def)
  show ?thesis using grpc_web.dec_all_stream [OF assms, of "[]"] by (simp add: decode_frames_all e)
qed

section \<open>The dispatcher\<close>

text \<open>\<open>dispatchGrpcWebRequest\<close> once the request has ended: the chunks of the body, the handler
  (which may throw), and the body that is written. The status code is 200 in every case.\<close>

record handler_result =
  hr_status :: int
  hr_message :: "string option"
  hr_data :: "bytes option"

type_synonym grpc_handler = "string \<Rightarrow> bytes \<Rightarrow> string + handler_result"

definition request_payload :: "bytes list \<Rightarrow> bytes" where
  "request_payload chunks =
     (case find (\<lambda>f. \<not> gf_isTrailer f) (decode_frames (concat chunks)) of None \<Rightarrow> [] | Some f \<Rightarrow> gf_payload f)"

definition request_path :: "string option \<Rightarrow> string" where
  "request_path url = (case url of None \<Rightarrow> ''/'' | Some u \<Rightarrow> if u = [] then ''/'' else u)"

definition dispatch_grpc_web_request :: "grpc_handler \<Rightarrow> string option \<Rightarrow> bytes list \<Rightarrow> bytes" where
  "dispatch_grpc_web_request handler url chunks =
     (case handler (request_path url) (request_payload chunks) of
        Inr r \<Rightarrow>
          (case hr_data r of None \<Rightarrow> [] | Some d \<Rightarrow> if 0 < length d then encode_data_frame d else []) @
          encode_trailer_frame (hr_status r) (case hr_message r of None \<Rightarrow> [] | Some m \<Rightarrow> m) []
      | Inl e \<Rightarrow> encode_trailer_frame 13 (if e = [] then ''Internal server error'' else e) [])"

section \<open>Properties\<close>

text \<open>C33: a stream of gRPC-Web frames is decoded to the same frames, and an incomplete frame at
  its end is left out.\<close>

theorem grpc_web_stream_roundtrip:
  assumes "list_all (\<lambda>f. length (gf_payload f) < 2 ^ 32) (fs @ [f])" and "n < length (encode_frame f)"
  shows "decode_frames (concat (map encode_frame fs) @ take n (encode_frame f)) = fs"
  using assms grpc_web.dec_all_stream [of fs "take n (encode_frame f)"] grpc_web.dec_all_partial [of f n]
  by (simp add: decode_frames_all)

theorem grpc_web_stream_roundtrip_witness:
  "decode_frames (concat (map encode_frame [\<lparr>gf_isTrailer = False, gf_payload = [1, 2]\<rparr>, \<lparr>gf_isTrailer = True, gf_payload = []\<rparr>])
     @ take 6 (encode_frame \<lparr>gf_isTrailer = False, gf_payload = [7, 8, 9]\<rparr>))
   = [\<lparr>gf_isTrailer = False, gf_payload = [1, 2]\<rparr>, \<lparr>gf_isTrailer = True, gf_payload = []\<rparr>]"
  by (rule grpc_web_stream_roundtrip) (simp_all add: encode_frame_def)

text \<open>A sender of length-prefixed messages is understood whatever the chunks its bytes arrive
  in: the reader that keeps the undecoded rest gets exactly the messages sent.\<close>

theorem lpm_chunking_irrelevant:
  assumes "list_all (\<lambda>d. length d < 2 ^ 32) ds" and "concat chunks = concat (map lpm_encode ds)"
  shows "lpm.feed [] chunks = (ds, [])"
proof -
  have e: "lpm.dec_all [] = ([], [])" by (simp add: lpm.dec_all_def)
  have "lpm.feed [] chunks = lpm.dec_all (concat chunks)" using lpm.feed_chunks [OF e] by simp
  also have "\<dots> = (ds, [])" using lpm.dec_all_stream [OF assms(1), of "[]"] assms(2) e by simp
  finally show ?thesis .
qed

theorem lpm_chunking_irrelevant_witness:
  "lpm.feed [] [[0], [0, 0, 0, 2, 5], [6, 0, 0, 0, 0], [1, 9]] = ([[5, 6], [9]], [])"
  by (rule lpm_chunking_irrelevant) (simp_all add: lpm_encode_def be32_def)

text \<open>The response of the dispatcher decodes to the data of the handler, when there is some,
  followed by exactly one trailer frame with its status and message.\<close>

theorem dispatch_response_frames:
  assumes "handler (request_path url) (request_payload chunks) = Inr r"
    and "length (case hr_data r of None \<Rightarrow> [] | Some d \<Rightarrow> d) < 2 ^ 32"
    and "length (utf8 (trailer_text (hr_status r) (case hr_message r of None \<Rightarrow> [] | Some m \<Rightarrow> m) [])) < 2 ^ 32"
  shows "decode_frames (dispatch_grpc_web_request handler url chunks) =
     (case hr_data r of None \<Rightarrow> [] | Some d \<Rightarrow> if d = [] then [] else [\<lparr>gf_isTrailer = False, gf_payload = d\<rparr>]) @
     [\<lparr>gf_isTrailer = True,
       gf_payload = utf8 (trailer_text (hr_status r) (case hr_message r of None \<Rightarrow> [] | Some m \<Rightarrow> m) [])\<rparr>]"
proof -
  let ?t = "\<lparr>gf_isTrailer = True,
       gf_payload = utf8 (trailer_text (hr_status r) (case hr_message r of None \<Rightarrow> [] | Some m \<Rightarrow> m) [])\<rparr>"
  show ?thesis
    using assms decode_frames_encoded [of "[?t]"] decode_frames_encoded [of "[\<lparr>gf_isTrailer = False, gf_payload = the (hr_data r)\<rparr>, ?t]"]
    by (auto simp: dispatch_grpc_web_request_def encode_frame_data encode_frame_trailer split: option.splits)
qed

theorem dispatch_response_frames_witness:
  "decode_frames (dispatch_grpc_web_request (\<lambda>p d. Inr \<lparr>hr_status = 0, hr_message = None, hr_data = Some d\<rparr>) None
      [encode_data_frame [4, 2]]) =
   [\<lparr>gf_isTrailer = False, gf_payload = [4, 2]\<rparr>, \<lparr>gf_isTrailer = True, gf_payload = utf8 (trailer_text 0 [] [])\<rparr>]"
proof -
  have p: "request_payload [encode_data_frame [4, 2]] = [4, 2]"
    using decode_frames_encoded [of "[\<lparr>gf_isTrailer = False, gf_payload = [4, 2]\<rparr>]"]
    by (simp add: request_payload_def encode_frame_data)
  have "length (utf8 (trailer_text 0 [] [])) < 2 ^ 32"
    by (simp add: utf8_def trailer_text_def utf8_char_def code_of_def int_str_def nat_str.simps encode_uri_component_def Let_def)
  then show ?thesis
    using dispatch_response_frames [of "\<lambda>p d. Inr \<lparr>hr_status = 0, hr_message = None, hr_data = Some d\<rparr>" None
        "[encode_data_frame [4, 2]]" "\<lparr>hr_status = 0, hr_message = None, hr_data = Some [4, 2]\<rparr>"]
    by (simp add: p)
qed

end
