(* ===== verification/Dp.thy ===== *)
theory Dp
  imports Sanitizer Regex Framing
begin

text \<open>
  The differential privacy engine of \<open>security/dp-engine.ts\<close>: Laplace noise by inversion of the
  distribution function, from the system's random bytes or, in audit mode, from SHA-256 over a seed
  and a counter; the sensitivity chosen by the name of a field; the walk over an output. Numbers are
  those of \<open>Value\<close>; \<open>fl\<close> rounds an exact result to a double (with \<open>fl = Fin\<close> the arithmetic is
  exact), and the two zeros are not distinguished. SHA-256 and the random bytes are parameters. The
  rejection loop of the sampler need not end, so the sampler and the walk are partial.
\<close>

section \<open>Arithmetic on numbers\<close>

fun num_neg :: "jsnum \<Rightarrow> jsnum" where
  "num_neg NaN = NaN"
| "num_neg PosInf = NegInf"
| "num_neg NegInf = PosInf"
| "num_neg (Fin a) = Fin (- a)"

definition inf_of :: "real \<Rightarrow> jsnum" where
  "inf_of s = (if s = 0 then NaN else if 0 < s then PosInf else NegInf)"

fun num_sgn :: "jsnum \<Rightarrow> real" where
  "num_sgn NaN = 0"
| "num_sgn PosInf = 1"
| "num_sgn NegInf = - 1"
| "num_sgn (Fin a) = sgn a"

fun num_add :: "(real \<Rightarrow> jsnum) \<Rightarrow> jsnum \<Rightarrow> jsnum \<Rightarrow> jsnum" where
  "num_add fl (Fin a) (Fin b) = fl (a + b)"
| "num_add fl (Fin a) y = y"
| "num_add fl x (Fin b) = x"
| "num_add fl x y = (if x = y then x else NaN)"

fun num_mul :: "(real \<Rightarrow> jsnum) \<Rightarrow> jsnum \<Rightarrow> jsnum \<Rightarrow> jsnum" where
  "num_mul fl (Fin a) (Fin b) = fl (a * b)"
| "num_mul fl NaN y = NaN"
| "num_mul fl x NaN = NaN"
| "num_mul fl x y = inf_of (num_sgn x * num_sgn y)"

fun num_div :: "(real \<Rightarrow> jsnum) \<Rightarrow> jsnum \<Rightarrow> jsnum \<Rightarrow> jsnum" where
  "num_div fl (Fin a) (Fin b) = (if b = 0 then inf_of (sgn a) else fl (a / b))"
| "num_div fl NaN y = NaN"
| "num_div fl x (Fin b) = inf_of (num_sgn x * (if b < 0 then - 1 else 1))"
| "num_div fl (Fin a) NaN = NaN"
| "num_div fl (Fin a) y = Fin 0"
| "num_div fl x y = NaN"

text \<open>\<open>Math.round\<close> and \<open>Math.max(0, x)\<close>.\<close>

fun num_round :: "jsnum \<Rightarrow> jsnum" where
  "num_round (Fin a) = Fin (math_round a)"
| "num_round x = x"

fun num_max0 :: "jsnum \<Rightarrow> jsnum" where
  "num_max0 (Fin a) = Fin (max 0 a)"
| "num_max0 NegInf = Fin 0"
| "num_max0 x = x"

section \<open>Configuration\<close>

record dp_settings =
  dp_epsilon :: jsnum
  dp_sensitivity :: jsnum
  dp_smallDatasetThreshold :: int
  dp_seed :: "string option"

text \<open>A \<open>Partial<DpConfig>\<close>: a field that is absent keeps the default.\<close>

record dp_partial =
  dq_epsilon :: "jsnum option"
  dq_sensitivity :: "jsnum option"
  dq_smallDatasetThreshold :: "int option"
  dq_seed :: "string option"

definition default_dp_config :: dp_settings where
  "default_dp_config =
     \<lparr>dp_epsilon = Fin 1, dp_sensitivity = Fin 1, dp_smallDatasetThreshold = 50, dp_seed = None\<rparr>"

definition default_to :: "'a \<Rightarrow> 'a option \<Rightarrow> 'a" where
  "default_to d x = (case x of None \<Rightarrow> d | Some y \<Rightarrow> y)"

definition merge_config :: "dp_partial \<Rightarrow> dp_settings" where
  "merge_config c =
     \<lparr>dp_epsilon = default_to (dp_epsilon default_dp_config) (dq_epsilon c),
      dp_sensitivity = default_to (dp_sensitivity default_dp_config) (dq_sensitivity c),
      dp_smallDatasetThreshold = default_to (dp_smallDatasetThreshold default_dp_config) (dq_smallDatasetThreshold c),
      dp_seed = dq_seed c\<rparr>"

section \<open>Sampling\<close>

text \<open>What the engine uses of its surroundings: the digest of a text, the result of the \<open>i\<close>-th
  \<open>randomBytes(4)\<close>, rounding. A source of entropy is the audit mode's seed and counter, or the
  number of calls made so far.\<close>

record dp_env =
  de_sha256 :: "string \<Rightarrow> bytes"
  de_randomBytes :: "nat \<Rightarrow> bytes"
  de_fl :: "real \<Rightarrow> jsnum"

datatype entropy = PrngState string int | SystemEntropy nat

definition prng_hash_input :: "string \<Rightarrow> int \<Rightarrow> string" where
  "prng_hash_input seed n = seed @ '':'' @ int_str n"

text \<open>One pass of the loop: the candidate \<open>u\<close>.\<close>

fun draw_candidate :: "dp_env \<Rightarrow> entropy \<Rightarrow> real \<times> entropy" where
  "draw_candidate E (PrngState seed n) =
     (real (read_be32 (de_sha256 E (prng_hash_input seed n))) / 2 ^ 32 - 1 / 2, PrngState seed (n + 1))"
| "draw_candidate E (SystemEntropy i) =
     (let rawVal = sint (of_nat (read_be32 (de_randomBytes E i)) :: 32 word)
      in (real_of_int rawVal / 2 ^ 32, SystemEntropy (i + 1)))"

partial_function (option) draw_u :: "dp_env \<Rightarrow> entropy \<Rightarrow> (real \<times> entropy) option" where
  "draw_u E st =
     (case draw_candidate E st of
        (u, st') \<Rightarrow> if u = 0 \<or> u = - 1 / 2 then draw_u E st' else Some (u, st'))"

definition laplace_at :: "(real \<Rightarrow> jsnum) \<Rightarrow> jsnum \<Rightarrow> real \<Rightarrow> jsnum" where
  "laplace_at fl scale u =
     num_mul fl (num_mul fl (num_neg scale) (Fin (sgn u))) (fl (ln (1 - 2 * \<bar>u\<bar>)))"

definition laplace_sample :: "dp_env \<Rightarrow> jsnum \<Rightarrow> entropy \<Rightarrow> (jsnum \<times> entropy) option" where
  "laplace_sample E scale st =
     (case draw_u E st of None \<Rightarrow> None | Some (u, st') \<Rightarrow> Some (laplace_at (de_fl E) scale u, st'))"

text \<open>Four decimals.\<close>

definition round4 :: "(real \<Rightarrow> jsnum) \<Rightarrow> jsnum \<Rightarrow> jsnum" where
  "round4 fl x = num_div fl (num_round (num_mul fl x (Fin 10000))) (Fin 10000)"

definition add_laplace_noise ::
    "dp_env \<Rightarrow> jsnum \<Rightarrow> dp_partial \<Rightarrow> entropy \<Rightarrow> (jsnum \<times> entropy) option" where
  "add_laplace_noise E v config st =
     (let merged = merge_config config;
          scale = num_div (de_fl E) (dp_sensitivity merged) (dp_epsilon merged)
      in case laplace_sample E scale st of None \<Rightarrow> None
         | Some (noise, st') \<Rightarrow> Some (round4 (de_fl E) (num_add (de_fl E) v noise), st'))"

section \<open>Sensitivity by the name of a field\<close>

definition count_words :: re where
  "count_words = alts (map ilit
     [''count'', ''length'', ''size'', ''num'', ''gainer'', ''loser'', ''positive'', ''negative'', ''nan_'',
      ''null_'', ''empty_'', ''finite_'', ''non_finite_'', ''instruments'', ''tickers'', ''users'', ''records''])"

definition total_count :: re where
  "total_count = cats [ilit ''total'', star (Pred (\<lambda>c. c \<noteq> CHR 0x0A \<and> c \<noteq> CHR 0x0D)),
     alts (map ilit [''count'', ''items'', ''entries'', ''rows'', ''records'', ''tickers''])]"

definition average_words :: re where
  "average_words = alts (map ilit
     [''avg'', ''mean'', ''average'', ''var'', ''variance'', ''std'', ''stddev'', ''ratio'', ''bps'', ''drift'', ''pct'',
      ''percent'', ''imbalance''])"

definition is_total_count :: "string \<Rightarrow> bool" where
  "is_total_count lk \<longleftrightarrow>
     lk = ''total'' \<or> lk = ''n'' \<or> lk = ''total_records'' \<or> starts_with lk ''total_'' \<or> starts_with lk ''num_'' \<or>
     re_test total_count lk"

definition derive_field_sensitivity ::
    "(real \<Rightarrow> jsnum) \<Rightarrow> string option \<Rightarrow> jsnum \<Rightarrow> int \<Rightarrow> jsnum" where
  "derive_field_sensitivity fl key globalSensitivity recordCount =
     (case key of None \<Rightarrow> globalSensitivity
      | Some k \<Rightarrow>
          if k = [] then globalSensitivity
          else
            (let lk = js_lower k in
             if re_test count_words lk \<or> is_total_count lk then Fin 1
             else if re_test average_words lk \<and> 0 < recordCount
             then num_div fl globalSensitivity (Fin (of_int recordCount))
             else globalSensitivity))"

section \<open>The walk\<close>

definition is_integer :: "real \<Rightarrow> bool" where
  "is_integer r \<longleftrightarrow> of_int \<lfloor>r\<rfloor> = r"

definition is_count_key :: "dp_env \<Rightarrow> dp_settings \<Rightarrow> int \<Rightarrow> string option \<Rightarrow> bool" where
  "is_count_key E cfg n key \<longleftrightarrow>
     key \<noteq> None \<and> derive_field_sensitivity (de_fl E) key (dp_sensitivity cfg) n = Fin 1"

definition noisy_number ::
    "dp_env \<Rightarrow> dp_settings \<Rightarrow> int \<Rightarrow> string option \<Rightarrow> real \<Rightarrow> entropy \<Rightarrow> (jsnum \<times> entropy) option" where
  "noisy_number E cfg n key r st =
     (let fieldSensitivity = derive_field_sensitivity (de_fl E) key (dp_sensitivity cfg) n;
          config = \<lparr>dq_epsilon = Some (dp_epsilon cfg), dq_sensitivity = Some fieldSensitivity,
                    dq_smallDatasetThreshold = Some (dp_smallDatasetThreshold cfg), dq_seed = dp_seed cfg\<rparr>
      in case add_laplace_noise E (Fin r) config st of None \<Rightarrow> None
         | Some (noisyValue, st') \<Rightarrow>
             (let rounded = (if is_integer r \<or> is_count_key E cfg n key then num_round noisyValue else noisyValue)
              in Some (if 0 \<le> r then num_max0 rounded else rounded, st')))"

fun walk_and_noise ::
      "dp_env \<Rightarrow> dp_settings \<Rightarrow> int \<Rightarrow> string option \<Rightarrow> jsval \<Rightarrow> entropy \<Rightarrow> (jsval \<times> entropy) option"
  and noise_items ::
      "dp_env \<Rightarrow> dp_settings \<Rightarrow> int \<Rightarrow> string option \<Rightarrow> jsval list \<Rightarrow> entropy \<Rightarrow> (jsval list \<times> entropy) option"
  and noise_props ::
      "dp_env \<Rightarrow> dp_settings \<Rightarrow> int \<Rightarrow> (string \<times> jsval) list \<Rightarrow> entropy \<Rightarrow> ((string \<times> jsval) list \<times> entropy) option"
  where
  "walk_and_noise E cfg n key (JNum (Fin r)) st =
     (case noisy_number E cfg n key r st of None \<Rightarrow> None | Some (y, st') \<Rightarrow> Some (JNum y, st'))"
| "walk_and_noise E cfg n key (JArr xs) st =
     (case noise_items E cfg n key xs st of None \<Rightarrow> None | Some (ys, st') \<Rightarrow> Some (JArr ys, st'))"
| "walk_and_noise E cfg n key (JObj ps) st =
     (case noise_props E cfg n ps st of None \<Rightarrow> None | Some (qs, st') \<Rightarrow> Some (JObj qs, st'))"
| "walk_and_noise E cfg n key v st = Some (v, st)"
| "noise_items E cfg n key [] st = Some ([], st)"
| "noise_items E cfg n key (x # xs) st =
     (case walk_and_noise E cfg n key x st of None \<Rightarrow> None
      | Some (y, st') \<Rightarrow>
          (case noise_items E cfg n key xs st' of None \<Rightarrow> None | Some (ys, st'') \<Rightarrow> Some (y # ys, st'')))"
| "noise_props E cfg n [] st = Some ([], st)"
| "noise_props E cfg n ((k, x) # ps) st =
     (case walk_and_noise E cfg n (Some k) x st of None \<Rightarrow> None
      | Some (y, st') \<Rightarrow>
          (case noise_props E cfg n ps st' of None \<Rightarrow> None
           | Some (qs, st'') \<Rightarrow> Some (if k = ''__proto__'' then qs else (k, y) # qs, st'')))"

definition below_floor :: "jsnum \<Rightarrow> bool" where
  "below_floor e = (case e of Fin r \<Rightarrow> r < 1 | NegInf \<Rightarrow> True | _ \<Rightarrow> False)"

text \<open>The configuration the walk runs with, and the source it draws from.\<close>

definition effective_config :: "dp_partial \<Rightarrow> int \<Rightarrow> dp_settings" where
  "effective_config config recordCount =
     (let merged = merge_config config
      in if recordCount < 10 \<and> below_floor (dp_epsilon merged) then merged\<lparr>dp_epsilon := Fin 1\<rparr> else merged)"

definition entropy_source :: "dp_settings \<Rightarrow> nat \<Rightarrow> entropy" where
  "entropy_source cfg calls =
     (case dp_seed cfg of None \<Rightarrow> SystemEntropy calls
      | Some s \<Rightarrow> if s = [] then SystemEntropy calls else PrngState s 0)"

definition apply_dp_to_output :: "dp_env \<Rightarrow> nat \<Rightarrow> jsval \<Rightarrow> dp_partial \<Rightarrow> int \<Rightarrow> jsval option" where
  "apply_dp_to_output E calls v config recordCount =
     (if dp_smallDatasetThreshold (merge_config config) \<le> recordCount then Some v
      else
        (let merged = effective_config config recordCount
         in map_option fst (walk_and_noise E merged recordCount None v (entropy_source merged calls))))"

section \<open>The candidates of the sampler\<close>

lemma read_be32_less: "read_be32 bs < 2 ^ 32"
proof -
  have b: "unat (x :: byte) \<le> 255" for x using unsigned_less [of x, where ?'a = nat] by simp
  show ?thesis
    using b [of "bs ! 0"] b [of "bs ! 1"] b [of "bs ! 2"] b [of "bs ! 3"] by (simp add: read_be32_def)
qed

lemma draw_candidate_grid:
  "draw_candidate E st = (u, st') \<Longrightarrow> \<exists>k :: nat. k < 2 ^ 32 \<and> u = real k / 2 ^ 32 - 1 / 2"
proof (cases st)
  case (PrngState seed n)
  assume "draw_candidate E st = (u, st')"
  with PrngState show ?thesis using read_be32_less by auto
next
  case (SystemEntropy i)
  let ?raw = "sint (of_nat (read_be32 (de_randomBytes E i)) :: 32 word)"
  assume "draw_candidate E st = (u, st')"
  with SystemEntropy have u: "u = real_of_int ?raw / 2 ^ 32" by (simp add: Let_def)
  have r: "- (2 ^ 31) \<le> ?raw" "?raw < 2 ^ 31"
    using sint_greater_eq [of "of_nat (read_be32 (de_randomBytes E i)) :: 32 word"]
      sint_less [of "of_nat (read_be32 (de_randomBytes E i)) :: 32 word"] by simp_all
  have "nat (?raw + 2 ^ 31) < 2 ^ 32" and "real (nat (?raw + 2 ^ 31)) = real_of_int ?raw + 2 ^ 31"
    using r by simp_all
  then show ?thesis by (intro exI [of _ "nat (?raw + 2 ^ 31)"]) (simp add: u field_simps)
qed

lemma draw_u_grid:
  assumes "draw_u E st = Some (u, st')"
  shows "\<exists>k :: nat. 0 < k \<and> k < 2 ^ 32 \<and> k \<noteq> 2 ^ 31 \<and> u = real k / 2 ^ 32 - 1 / 2"
proof -
  have "\<exists>k :: nat. 0 < k \<and> k < 2 ^ 32 \<and> k \<noteq> 2 ^ 31 \<and> fst p = real k / 2 ^ 32 - 1 / 2"
    if "draw_u E st = Some p" for p
  proof (rule draw_u.raw_induct [OF _ that])
    fix d E st p
    assume IH: "\<And>E st p. d E st = Some p \<Longrightarrow>
        \<exists>k :: nat. 0 < k \<and> k < 2 ^ 32 \<and> k \<noteq> 2 ^ 31 \<and> fst p = real k / 2 ^ 32 - 1 / 2"
      and eq: "(case draw_candidate E st of (u, st') \<Rightarrow> if u = 0 \<or> u = - 1 / 2 then d E st' else Some (u, st')) = Some p"
    obtain u st' where c: "draw_candidate E st = (u, st')" by (cases "draw_candidate E st")
    show "\<exists>k :: nat. 0 < k \<and> k < 2 ^ 32 \<and> k \<noteq> 2 ^ 31 \<and> fst p = real k / 2 ^ 32 - 1 / 2"
    proof (cases "u = 0 \<or> u = - 1 / 2")
      case True
      with eq c IH show ?thesis by simp
    next
      case False
      from draw_candidate_grid [OF c] obtain k :: nat where k: "k < 2 ^ 32" "u = real k / 2 ^ 32 - 1 / 2" by blast
      with False have "0 < k" "k \<noteq> 2 ^ 31" by (auto intro: gr0I)
      with False eq c k show ?thesis by auto
    qed
  qed
  from this [OF assms] show ?thesis by simp
qed

text \<open>The loop ends when an acceptable candidate comes up.\<close>

fun after :: "entropy \<Rightarrow> nat \<Rightarrow> entropy" where
  "after (PrngState seed n) i = PrngState seed (n + int i)"
| "after (SystemEntropy n) i = SystemEntropy (n + i)"

definition acceptable :: "dp_env \<Rightarrow> entropy \<Rightarrow> bool" where
  "acceptable E st \<longleftrightarrow> fst (draw_candidate E st) \<noteq> 0 \<and> fst (draw_candidate E st) \<noteq> - 1 / 2"

definition lively :: "dp_env \<Rightarrow> entropy \<Rightarrow> bool" where
  "lively E st \<longleftrightarrow> (\<forall>i. \<exists>j\<ge>i. acceptable E (after st j))"

lemma snd_draw_candidate: "snd (draw_candidate E st) = after st 1"
  by (cases st) (simp_all add: Let_def)

lemma after_after [simp]: "after (after st i) j = after st (i + j)"
  by (cases st) simp_all

lemma after_0 [simp]: "after st 0 = st"
  by (cases st) simp_all

lemma lively_after: "lively E st \<Longrightarrow> lively E (after st i)"
  unfolding lively_def after_after
proof
  fix n
  assume "\<forall>i. \<exists>j\<ge>i. acceptable E (after st j)"
  then obtain j where "i + n \<le> j" "acceptable E (after st j)" by blast
  then show "\<exists>m\<ge>n. acceptable E (after st (i + m))" by (intro exI [of _ "j - i"]) simp
qed

lemma draw_u_step:
  "draw_u E st = (if acceptable E st then Some (fst (draw_candidate E st), after st 1) else draw_u E (after st 1))"
  by (subst draw_u.simps, cases "draw_candidate E st")
    (use snd_draw_candidate [of E st] in \<open>auto simp: acceptable_def\<close>)

lemma draw_u_returns: "acceptable E (after st j) \<Longrightarrow> \<exists>u i. draw_u E st = Some (u, after st i)"
proof (induction j arbitrary: st)
  case 0
  then show ?case by (subst draw_u_step) auto
next
  case (Suc j)
  show ?case
  proof (cases "acceptable E st")
    case True
    then show ?thesis by (subst draw_u_step) auto
  next
    case False
    from Suc.IH [of "after st 1"] Suc.prems obtain u i where "draw_u E (after st 1) = Some (u, after st (1 + i))" by auto
    with False show ?thesis by (subst draw_u_step) auto
  qed
qed

section \<open>Structure of the noisy output\<close>

text \<open>What the engine promises of a published value \<open>w\<close> for a true value \<open>v\<close>: the same structure,
  numbers for numbers, everything else unchanged; a number that was not negative is not negative, and
  one that was an integer is an integer.\<close>

fun not_negative :: "jsnum \<Rightarrow> bool" where
  "not_negative (Fin a) = (0 \<le> a)"
| "not_negative NegInf = False"
| "not_negative x = True"

fun integral :: "jsnum \<Rightarrow> bool" where
  "integral (Fin a) = is_integer a"
| "integral x = True"

fun dp_image :: "jsval \<Rightarrow> jsval \<Rightarrow> bool" where
  "dp_image (JNum (Fin r)) w =
     (\<exists>y. w = JNum y \<and> (0 \<le> r \<longrightarrow> not_negative y) \<and> (is_integer r \<longrightarrow> integral y))"
| "dp_image (JArr xs) w = (\<exists>ys. w = JArr ys \<and> list_all2 dp_image xs ys)"
| "dp_image (JObj ps) w =
     (\<exists>qs. w = JObj qs \<and> list_all2 (\<lambda>p q. fst p = fst q \<and> dp_image (snd p) (snd q))
                          (filter (\<lambda>p. fst p \<noteq> ''__proto__'') ps) qs)"
| "dp_image v w = (w = v)"

lemma is_integer_of_int [simp]: "is_integer (of_int i)"
  by (simp add: is_integer_def)

lemma integral_round: "integral (num_round x)"
  by (cases x) (simp_all add: math_round_def)

lemma integral_max0: "integral x \<Longrightarrow> integral (num_max0 x)"
  by (cases x) (auto simp: max_def is_integer_def)

lemma not_negative_max0: "not_negative (num_max0 x)"
  by (cases x) simp_all

lemma noisy_number_image: "noisy_number E cfg n key r st = Some (y, st') \<Longrightarrow> dp_image (JNum (Fin r)) (JNum y)"
  by (auto simp: noisy_number_def Let_def integral_round integral_max0 not_negative_max0
      split: option.splits prod.splits if_splits)

lemma walk_image:
  shows "walk_and_noise E cfg n key v st = Some (w, st1) \<Longrightarrow> dp_image v w"
    and "noise_items E cfg n key xs st = Some (ys, st2) \<Longrightarrow> list_all2 dp_image xs ys"
    and "noise_props E cfg n ps st = Some (qs, st3) \<Longrightarrow>
           list_all2 (\<lambda>p q. fst p = fst q \<and> dp_image (snd p) (snd q)) (filter (\<lambda>p. fst p \<noteq> ''__proto__'') ps) qs"
proof (induction E cfg n key v st and E cfg n key xs st and E cfg n ps st
    arbitrary: w st1 and ys st2 and qs st3 rule: walk_and_noise_noise_items_noise_props.induct)
  case (1 E cfg n key r st)
  then show ?case using noisy_number_image by (auto split: option.splits)
qed (auto split: option.splits prod.splits if_splits)

section \<open>The walk returns\<close>

lemma noisy_number_returns:
  assumes "lively E st"
  shows "\<exists>y i. noisy_number E cfg n key r st = Some (y, after st i)"
proof -
  from assms obtain j where "acceptable E (after st j)" unfolding lively_def by blast
  from draw_u_returns [OF this] obtain u i where "draw_u E st = Some (u, after st i)" by blast
  then show ?thesis
    unfolding noisy_number_def add_laplace_noise_def laplace_sample_def Let_def by (simp, intro exI [of _ i]) simp
qed

lemma walk_returns:
  shows "lively E st \<Longrightarrow> \<exists>w i. walk_and_noise E cfg n key v st = Some (w, after st i)"
    and "lively E st \<Longrightarrow> \<exists>ys i. noise_items E cfg n key xs st = Some (ys, after st i)"
    and "lively E st \<Longrightarrow> \<exists>qs i. noise_props E cfg n ps st = Some (qs, after st i)"
proof (induction E cfg n key v st and E cfg n key xs st and E cfg n ps st
    rule: walk_and_noise_noise_items_noise_props.induct)
  case (1 E cfg n key r st)
  obtain y i where "noisy_number E cfg n key r st = Some (y, after st i)" using noisy_number_returns [OF 1] by blast
  then show ?case by (intro exI [of _ "JNum y"] exI [of _ i]) simp
next
  case (2 E cfg n key xs st)
  then obtain ys i where "noise_items E cfg n key xs st = Some (ys, after st i)" by blast
  then show ?case by (intro exI [of _ "JArr ys"] exI [of _ i]) simp
next
  case (3 E cfg n key ps st)
  then obtain qs i where "noise_props E cfg n ps st = Some (qs, after st i)" by blast
  then show ?case by (intro exI [of _ "JObj qs"] exI [of _ i]) simp
next
  case (6 E cfg n key x xs st)
  then obtain w i where w: "walk_and_noise E cfg n key x st = Some (w, after st i)" by blast
  from "6.IH"(2) [OF w refl lively_after [OF "6.prems"]] obtain ys j
    where "noise_items E cfg n key xs (after st i) = Some (ys, after st (i + j))" by auto
  with w show ?case by (intro exI [of _ "w # ys"] exI [of _ "i + j"]) simp
next
  case (8 E cfg n k x ps st)
  then obtain w i where w: "walk_and_noise E cfg n (Some k) x st = Some (w, after st i)" by blast
  from "8.IH"(2) [OF w refl lively_after [OF "8.prems"]] obtain qs j
    where "noise_props E cfg n ps (after st i) = Some (qs, after st (i + j))" by auto
  with w show ?case
    by (intro exI [of _ "if k = ''__proto__'' then qs else (k, w) # qs"] exI [of _ "i + j"]) simp
qed (auto intro: exI [of _ 0])

section \<open>Exact arithmetic\<close>

definition laplace_cdf :: "real \<Rightarrow> real \<Rightarrow> real" where
  "laplace_cdf b x = (if x < 0 then exp (x / b) / 2 else 1 - exp (- x / b) / 2)"

lemma laplace_at_exact: "laplace_at Fin (Fin b) u = Fin (- b * sgn u * ln (1 - 2 * \<bar>u\<bar>))"
  by (simp add: laplace_at_def)

lemma laplace_cdf_at:
  assumes "0 < b" and "u \<noteq> 0" and "\<bar>u\<bar> < 1 / 2"
  shows "laplace_cdf b (- b * sgn u * ln (1 - 2 * \<bar>u\<bar>)) = u + 1 / 2"
proof (cases "0 < u")
  case True
  with assms have p: "0 < 1 - 2 * u" and l: "ln (1 - 2 * u) < 0" by auto
  from l assms(1) have "b * ln (1 - 2 * u) < 0" by (simp add: mult_pos_neg)
  with True p assms show ?thesis by (simp add: laplace_cdf_def field_simps)
next
  case False
  with assms have p: "0 < 1 + 2 * u" and l: "ln (1 + 2 * u) < 0" and u: "u < 0" by auto
  from l assms(1) have "b * ln (1 + 2 * u) < 0" by (simp add: mult_pos_neg)
  with u p assms show ?thesis by (simp add: laplace_cdf_def field_simps)
qed

lemma laplace_bound:
  fixes u :: real
  assumes "0 \<le> b" and "1 / 2 ^ 31 \<le> 1 - 2 * \<bar>u\<bar>"
  shows "\<bar>- b * sgn u * ln (1 - 2 * \<bar>u\<bar>)\<bar> \<le> 31 * ln 2 * b"
proof -
  have "ln (1 / 2 ^ 31) \<le> ln (1 - 2 * \<bar>u\<bar>)" using assms(2) by (subst ln_le_cancel_iff) auto
  moreover have "ln (1 / 2 ^ 31 :: real) = - (31 * ln 2)"
    by (simp only: ln_div ln_realpow ln_one) simp
  ultimately have lo: "- (31 * ln 2) \<le> ln (1 - 2 * \<bar>u\<bar>)" by simp
  have "0 < 1 - 2 * \<bar>u\<bar>" using assms(2) by (smt (verit) divide_pos_pos zero_less_power)
  then have hi: "ln (1 - 2 * \<bar>u\<bar>) \<le> 0" by simp
  have "\<bar>ln (1 - 2 * \<bar>u\<bar>)\<bar> \<le> 31 * ln 2" using lo hi by linarith
  moreover have "\<bar>sgn u\<bar> \<le> 1" by (simp add: sgn_real_def)
  ultimately have "\<bar>sgn u\<bar> * \<bar>ln (1 - 2 * \<bar>u\<bar>)\<bar> \<le> 1 * (31 * ln 2)" by (intro mult_mono) auto
  then have "b * (\<bar>sgn u\<bar> * \<bar>ln (1 - 2 * \<bar>u\<bar>)\<bar>) \<le> b * (1 * (31 * ln 2))" by (rule mult_left_mono [OF _ assms(1)])
  then show ?thesis using assms(1) by (simp add: abs_mult mult.assoc mult.commute mult.left_commute)
qed

section \<open>Noise anybody can compute\<close>

text \<open>In audit mode the noise is a function of the seed, the configuration, the size of the data set
  and the names of the fields: \<open>audit_noise\<close> lists it, rounded, for a flat output; \<open>publish\<close> is
  what the walk makes of an integer and its noise.\<close>

definition field_scale :: "dp_env \<Rightarrow> dp_settings \<Rightarrow> int \<Rightarrow> string \<Rightarrow> jsnum" where
  "field_scale E cfg n k =
     num_div (de_fl E) (derive_field_sensitivity (de_fl E) (Some k) (dp_sensitivity cfg) n) (dp_epsilon cfg)"

fun audit_noise :: "dp_env \<Rightarrow> dp_settings \<Rightarrow> int \<Rightarrow> string list \<Rightarrow> entropy \<Rightarrow> (jsnum list \<times> entropy) option" where
  "audit_noise E cfg n [] st = Some ([], st)"
| "audit_noise E cfg n (k # ks) st =
     (case laplace_sample E (field_scale E cfg n k) st of None \<Rightarrow> None
      | Some (x, st') \<Rightarrow>
          (case audit_noise E cfg n ks st' of None \<Rightarrow> None
           | Some (zs, st'') \<Rightarrow> Some (num_round (round4 (de_fl E) x) # zs, st'')))"

definition publish :: "int \<Rightarrow> jsnum \<Rightarrow> jsnum" where
  "publish v z = (let y = num_add Fin (Fin (of_int v)) z in if 0 \<le> v then num_max0 y else y)"

lemma math_round_add_int: "math_round (of_int i + x) = of_int i + math_round x"
  by (simp add: math_round_def add.assoc)

lemma round_published:
  "num_round (round4 Fin (num_add Fin (Fin (of_int v)) x)) = num_add Fin (Fin (of_int v)) (num_round (round4 Fin x))"
proof (cases x)
  case (Fin r)
  have "math_round ((of_int v + r) * 10000) = of_int (v * 10000) + math_round (r * 10000)"
    using math_round_add_int [of "v * 10000" "r * 10000"] by (simp add: distrib_right)
  then have "math_round ((of_int v + r) * 10000) / 10000 = of_int v + math_round (r * 10000) / 10000"
    by (simp only: add_divide_distrib)
  then have "math_round (math_round ((of_int v + r) * 10000) / 10000) = of_int v + math_round (math_round (r * 10000) / 10000)"
    by (simp only: math_round_add_int)
  then show ?thesis by (simp add: Fin round4_def)
qed (simp_all add: round4_def inf_of_def)

lemma noisy_integer:
  assumes "de_fl E = Fin"
  shows "noisy_number E cfg n (Some k) (of_int v) st =
    (case laplace_sample E (field_scale E cfg n k) st of None \<Rightarrow> None
     | Some (x, st') \<Rightarrow> Some (publish v (num_round (round4 Fin x)), st'))"
  by (simp add: noisy_number_def add_laplace_noise_def merge_config_def default_to_def field_scale_def assms
      Let_def round_published publish_def split: option.split)

lemma noise_props_integers:
  assumes "de_fl E = Fin" and "''__proto__'' \<notin> fst ` set kvs"
  shows "noise_props E cfg n (map (\<lambda>(k, v). (k, JNum (Fin (of_int v)))) kvs) st =
    (case audit_noise E cfg n (map fst kvs) st of None \<Rightarrow> None
     | Some (zs, st') \<Rightarrow> Some (map2 (\<lambda>(k, v) z. (k, JNum (publish v z))) kvs zs, st'))"
  using assms(2)
proof (induction kvs arbitrary: st)
  case (Cons p kvs)
  obtain k v where p: "p = (k, v)" by (cases p)
  with Cons show ?case by (auto simp: noisy_integer [OF assms(1)] assms(1) split: option.split)
qed simp

lemma audit_noise_returns: "lively E st \<Longrightarrow> \<exists>zs i. audit_noise E cfg n ks st = Some (zs, after st i) \<and> length zs = length ks"
proof (induction ks arbitrary: st)
  case Nil
  show ?case by (auto intro: exI [of _ 0])
next
  case (Cons k ks)
  from Cons.prems obtain j where "acceptable E (after st j)" unfolding lively_def by blast
  from draw_u_returns [OF this] obtain u i where u: "draw_u E st = Some (u, after st i)" by blast
  from Cons.IH [OF lively_after [OF Cons.prems, of i]] obtain zs m
    where "audit_noise E cfg n ks (after st i) = Some (zs, after st (i + m))" "length zs = length ks" by auto
  with u show ?case by (auto simp: laplace_sample_def)
qed

lemma publish_recover: "publish v z = Fin y \<Longrightarrow> 0 < y \<Longrightarrow> z = Fin (y - of_int v)"
  by (cases z) (auto simp: publish_def Let_def max_def split: if_splits)

section \<open>Properties\<close>

text \<open>C15: in exact arithmetic a sample is the inverse image of a point of the grid of \<open>2 ^ 32\<close>
  points, without 0 and the middle, under the distribution function of Laplace(0, scale); so its
  absolute value never exceeds 31 ln 2 times the scale, where the distribution has no such bound.\<close>

theorem laplace_sample_distribution:
  assumes "0 < b" and "de_fl E = Fin" and "laplace_sample E (Fin b) st = Some (y, st')"
  shows "\<exists>k x. y = Fin x \<and> 0 < k \<and> k < 2 ^ 32 \<and> k \<noteq> 2 ^ 31 \<and> laplace_cdf b x = real k / 2 ^ 32 \<and>
           \<bar>x\<bar> \<le> 31 * ln 2 * b"
proof -
  from assms(2,3) obtain u where u: "draw_u E st = Some (u, st')" and y: "y = laplace_at Fin (Fin b) u"
    by (auto simp: laplace_sample_def split: option.splits)
  from draw_u_grid [OF u] obtain k :: nat
    where k: "0 < k" "k < 2 ^ 32" "k \<noteq> 2 ^ 31" and uk: "u = real k / 2 ^ 32 - 1 / 2" by blast
  have "real k \<noteq> 2 ^ 31" using k(3) by (metis of_nat_eq_iff of_nat_numeral of_nat_power)
  moreover have "1 \<le> real k" "real k \<le> 2 ^ 32 - 1" using k(1,2) by simp_all
  ultimately have "u \<noteq> 0" "\<bar>u\<bar> < 1 / 2" "1 / 2 ^ 31 \<le> 1 - 2 * \<bar>u\<bar>"
    by (auto simp: uk abs_if field_simps)
  then show ?thesis
    using k assms(1) laplace_cdf_at [of b u] laplace_bound [of b u]
    by (intro exI [of _ k] exI [of _ "- b * sgn u * ln (1 - 2 * \<bar>u\<bar>)"])
      (simp add: y laplace_at_exact uk)
qed

definition example_env :: dp_env where
  "example_env = \<lparr>de_sha256 = (\<lambda>_. [192, 0, 0, 0]), de_randomBytes = (\<lambda>_. [192, 0, 0, 0]), de_fl = Fin\<rparr>"

lemma example_acceptable: "acceptable example_env (PrngState seed n)"
  by (simp add: acceptable_def example_env_def read_be32_def)

lemma example_lively: "lively example_env (PrngState seed n)"
  using example_acceptable by (auto simp: lively_def)

theorem laplace_sample_distribution_witness:
  "\<exists>k x. laplace_at Fin (Fin 2) (1 / 4) = Fin x \<and> 0 < k \<and> k < 2 ^ 32 \<and> k \<noteq> 2 ^ 31 \<and>
     laplace_cdf 2 x = real k / 2 ^ 32 \<and> \<bar>x\<bar> \<le> 31 * ln 2 * 2"
proof (rule laplace_sample_distribution)
  show "laplace_sample example_env (Fin 2) (PrngState ''seed'' 0) = Some (laplace_at Fin (Fin 2) (1 / 4), PrngState ''seed'' 1)"
    using example_acceptable [of "''seed''" 0]
    by (subst laplace_sample_def, subst draw_u_step) (simp add: example_env_def read_be32_def)
qed (simp_all add: example_env_def)

text \<open>Whatever the rounding, a published output has the structure of the computed one and the
  same texts and truth values; numbers that were not negative are not negative, and integers stay
  integers. A data set that reaches the threshold is published as it is.\<close>

theorem dp_output_shape:
  assumes "apply_dp_to_output E calls v config recordCount = Some w"
  shows "if dp_smallDatasetThreshold (merge_config config) \<le> recordCount then w = v else dp_image v w"
  using assms walk_image(1) by (auto simp: apply_dp_to_output_def Let_def split: if_splits)

theorem dp_output_shape_witness:
  "if dp_smallDatasetThreshold (merge_config \<lparr>dq_epsilon = None, dq_sensitivity = None,
         dq_smallDatasetThreshold = None, dq_seed = None\<rparr>) \<le> 3
   then JObj [(''label'', JStr ''x''), (''flags'', JArr [JBool True, JNull])] = JObj [(''label'', JStr ''x''), (''flags'', JArr [JBool True, JNull])]
   else dp_image (JObj [(''label'', JStr ''x''), (''flags'', JArr [JBool True, JNull])])
          (JObj [(''label'', JStr ''x''), (''flags'', JArr [JBool True, JNull])])"
  by (rule dp_output_shape [of example_env 0])
    (simp add: apply_dp_to_output_def merge_config_def default_to_def default_dp_config_def Let_def)

text \<open>When the source of entropy yields an acceptable candidate again and again, every output
  is answered, whatever its size and the configuration.\<close>

theorem dp_answers:
  assumes "lively E (entropy_source (effective_config config recordCount) calls)"
  shows "\<exists>w. apply_dp_to_output E calls v config recordCount = Some w"
proof -
  from walk_returns(1) [OF assms, of "effective_config config recordCount" recordCount None v] obtain w i where
    "walk_and_noise E (effective_config config recordCount) recordCount None v
       (entropy_source (effective_config config recordCount) calls) =
     Some (w, after (entropy_source (effective_config config recordCount) calls) i)"
    by blast
  then show ?thesis by (simp add: apply_dp_to_output_def Let_def)
qed

definition example_dp_config :: dp_partial where
  "example_dp_config =
     \<lparr>dq_epsilon = Some (Fin 2), dq_sensitivity = Some (Fin 100), dq_smallDatasetThreshold = None, dq_seed = Some ''d:i''\<rparr>"

lemma example_source: "entropy_source (effective_config example_dp_config n) calls = PrngState ''d:i'' 0"
  by (simp add: entropy_source_def effective_config_def merge_config_def example_dp_config_def Let_def)

theorem dp_answers_witness:
  "\<exists>w. apply_dp_to_output example_env 0 (JArr [JNum (Fin 3), JObj [(''avg'', JNum (Fin (- 1)))]]) example_dp_config 20 = Some w"
  by (rule dp_answers) (simp add: example_source example_lively)

text \<open>C16: in audit mode, that is with fewer records than the threshold and a configured seed that is not empty, and in
  exact arithmetic (the code rounds to doubles, and beyond their precision the last digits are lost), for a flat
  output of integers without a property \<open>__proto__\<close>: the noise depends only on the seed, the configuration, the number of
  records and the field names (\<open>audit_noise\<close>), not on the values; a reader who knows these subtracts it and gets every
  value back that was published positive.\<close>

theorem audit_noise_removable:
  assumes "de_fl E = Fin" and "''__proto__'' \<notin> fst ` set kvs"
    and "recordCount < dp_smallDatasetThreshold (merge_config config)"
    and "dq_seed config = Some seed" and "seed \<noteq> []" and "lively E (PrngState seed 0)"
  shows "\<exists>zs st'. audit_noise E (effective_config config recordCount) recordCount (map fst kvs) (PrngState seed 0) = Some (zs, st') \<and>
     apply_dp_to_output E calls (JObj (map (\<lambda>(k, v). (k, JNum (Fin (of_int v)))) kvs)) config recordCount =
       Some (JObj (map2 (\<lambda>(k, v) z. (k, JNum (publish v z))) kvs zs)) \<and>
     length zs = length kvs \<and>
     (\<forall>i<length kvs. \<forall>y. publish (snd (kvs ! i)) (zs ! i) = Fin y \<longrightarrow> 0 < y \<longrightarrow>
        zs ! i = Fin (y - of_int (snd (kvs ! i))))"
proof -
  let ?c = "effective_config config recordCount"
  have src: "entropy_source ?c calls = PrngState seed 0"
    using assms(4,5) by (simp add: entropy_source_def effective_config_def merge_config_def Let_def)
  obtain zs i where zs: "audit_noise E ?c recordCount (map fst kvs) (PrngState seed 0) = Some (zs, after (PrngState seed 0) i)"
    and len: "length zs = length kvs"
    using audit_noise_returns [OF assms(6), of ?c recordCount "map fst kvs"] by auto
  show ?thesis
    using zs len assms(3) src
    by (auto simp: apply_dp_to_output_def Let_def noise_props_integers [OF assms(1,2)] publish_recover)
qed

definition example_fields :: "(string \<times> int) list" where
  "example_fields = [(''balance'', 70), (''loss'', - 3)]"

theorem audit_noise_removable_witness:
  "\<exists>zs st'. audit_noise example_env (effective_config example_dp_config 12) 12 (map fst example_fields) (PrngState ''d:i'' 0) = Some (zs, st') \<and>
     apply_dp_to_output example_env 0 (JObj (map (\<lambda>(k, v). (k, JNum (Fin (of_int v)))) example_fields)) example_dp_config 12 =
       Some (JObj (map2 (\<lambda>(k, v) z. (k, JNum (publish v z))) example_fields zs)) \<and>
     length zs = length example_fields \<and>
     (\<forall>i<length example_fields. \<forall>y. publish (snd (example_fields ! i)) (zs ! i) = Fin y \<longrightarrow> 0 < y \<longrightarrow>
        zs ! i = Fin (y - of_int (snd (example_fields ! i))))"
proof (rule audit_noise_removable)
  show "de_fl example_env = Fin" by (simp add: example_env_def)
  show "''__proto__'' \<notin> fst ` set example_fields" by (simp add: example_fields_def)
  show "12 < dp_smallDatasetThreshold (merge_config example_dp_config)" "dq_seed example_dp_config = Some ''d:i''"
    by (simp_all add: merge_config_def default_to_def default_dp_config_def example_dp_config_def)
qed (simp_all add: example_lively)

text \<open>Sums whose names contain a word of the list of counts get the sensitivity of a count.\<close>

lemma ilit_matches: "re_match (ilit w) (b, w @ c) = [(rev w @ b, c)]"
  by (induction w arbitrary: b) (simp_all add: ilit_def)

lemma alts_matches: "r \<in> set rs \<Longrightarrow> re_match r p \<noteq> [] \<Longrightarrow> re_match (alts rs) p \<noteq> []"
  by (induction rs rule: alts.induct) auto

lemma re_search_finds: "re_match r (rev a @ b, s) \<noteq> [] \<Longrightarrow> re_search r b (a @ s) \<noteq> None"
proof (induction a arbitrary: b)
  case Nil
  then show ?case by (subst re_search.simps) (auto split: list.split)
next
  case (Cons x a)
  then show ?case by (subst re_search.simps) (auto split: list.split)
qed

lemma word_found: "w \<in> set ws \<Longrightarrow> re_test (alts (map ilit ws)) (a @ w @ c)"
  unfolding re_test_def
  by (rule re_search_finds, rule alts_matches [of "ilit w"]) (simp_all add: ilit_matches)

lemma sums_taken_for_counts:
  assumes "js_lower k = a @ w @ c" and "w \<in> {''count'', ''num'', ''size'', ''positive'', ''users'', ''records''}"
  shows "derive_field_sensitivity fl (Some k) s n = Fin 1"
proof -
  have "re_test count_words (js_lower k)"
    unfolding assms(1) count_words_def by (rule word_found) (use assms(2) in auto)
  moreover have "k \<noteq> []" using assms by (auto simp: js_lower_def)
  ultimately show ?thesis by (simp add: derive_field_sensitivity_def Let_def)
qed

lemma account_balance_taken_for_count: "derive_field_sensitivity fl (Some ''account_balance'') s n = Fin 1"
  by (rule sums_taken_for_counts [of _ "''ac''" "''count''" "''_balance''"])
    (simp_all add: js_lower_def lower_char_def code_of_def Let_def)

end
