(* ===== verification/Json.thy ===== *)
theory Json
  imports Value Framing
begin

text \<open>
  \<open>JSON.stringify\<close> as the sources use it (no replacer, no indentation), over the values of
  \<open>Value\<close>; the decimal text of a number is the parameter \<open>num\<close>. The lemmas show that a printed
  string literal determines its text and where it ends, which is what makes hashed JSON texts
  binding. With it: UTF-8 decoding and hexadecimal text, the other two encodings receipts and logs
  use.
\<close>

section \<open>String literals\<close>

definition short_escapes :: "(char \<times> char) list" where
  "short_escapes =
     [(CHR 0x22, CHR 0x22), (CHR 0x5C, CHR 0x5C), (CHR 0x08, CHR ''b''), (CHR 0x0C, CHR ''f''),
      (CHR 0x0A, CHR ''n''), (CHR 0x0D, CHR ''r''), (CHR 0x09, CHR ''t'')]"

definition lower_hex :: "nat \<Rightarrow> char" where
  "lower_hex d = (if d < 10 then char_of (48 + d) else char_of (87 + d))"

definition json_escape :: "char \<Rightarrow> string" where
  "json_escape c =
     (case map_of short_escapes c of
        Some e \<Rightarrow> [CHR 0x5C, e]
      | None \<Rightarrow>
          if code_of c < 32
          then CHR 0x5C # ''u00'' @ [lower_hex (code_of c div 16), lower_hex (code_of c mod 16)]
          else [c])"

definition json_string :: "string \<Rightarrow> string" where
  "json_string s = CHR 0x22 # concat (map json_escape s) @ [CHR 0x22]"

text \<open>Reading one character of a literal back.\<close>

definition hex_val :: "char \<Rightarrow> nat" where
  "hex_val c = (if code_of c < 58 then code_of c - 48 else code_of c - 87)"

definition json_read_char :: "string \<Rightarrow> char \<times> string" where
  "json_read_char s =
     (if hd s \<noteq> CHR 0x5C then (hd s, tl s)
      else case map_of (map (\<lambda>(c, e). (e, c)) short_escapes) (s ! 1) of
             Some c \<Rightarrow> (c, drop 2 s)
           | None \<Rightarrow> (char_of (16 * hex_val (s ! 4) + hex_val (s ! 5)), drop 6 s))"

lemma code_less: "code_of c < 256"
  unfolding code_of_def by (metis less_numeral_extra(1) nat_of_char_less_256 of_char_of)

lemma hex_val_lower_hex: "d < 16 \<Longrightarrow> hex_val (lower_hex d) = d"
  by (simp add: hex_val_def lower_hex_def code_of_def)

lemma read_escape: "json_read_char (json_escape c @ r) = (c, r)"
proof (cases "map_of short_escapes c")
  case (Some e)
  then have "map_of (map (\<lambda>(c, e). (e, c)) short_escapes) e = Some c"
    by (auto simp: short_escapes_def split: if_splits)
  with Some show ?thesis by (simp add: json_escape_def json_read_char_def)
next
  case None
  show ?thesis
  proof (cases "code_of c < 32")
    case True
    then have "code_of c div 16 < 16" "code_of c mod 16 < 16" by simp_all
    with True None show ?thesis
      by (simp add: json_escape_def json_read_char_def hex_val_lower_hex short_escapes_def)
        (simp add: code_of_def)
  next
    case False
    moreover have "c \<noteq> CHR 0x5C" using None by (auto simp: short_escapes_def split: if_splits)
    ultimately show ?thesis using None by (simp add: json_escape_def json_read_char_def)
  qed
qed

lemma escape_not_quote: "\<exists>x y. json_escape c = x # y \<and> x \<noteq> CHR 0x22"
proof -
  have "c \<noteq> CHR 0x22" if "map_of short_escapes c = None"
    using that by (auto simp: short_escapes_def split: if_splits)
  then show ?thesis by (auto simp: json_escape_def split: option.split)
qed

lemma escaped_determines:
  "concat (map json_escape s) @ CHR 0x22 # r = concat (map json_escape t) @ CHR 0x22 # r' \<Longrightarrow> s = t \<and> r = r'"
proof (induction s arbitrary: t)
  case Nil
  then show ?case using escape_not_quote by (cases t) (auto, metis append_Cons list.inject)
next
  case (Cons c s)
  show ?case
  proof (cases t)
    case Nil
    with Cons.prems show ?thesis using escape_not_quote [of c] by auto
  next
    case (Cons d t')
    let ?x = "concat (map json_escape s) @ CHR 0x22 # r" and ?y = "concat (map json_escape t') @ CHR 0x22 # r'"
    have "json_escape c @ ?x = json_escape d @ ?y" using Cons.prems Cons by simp
    then have "(c, ?x) = (d, ?y)" by (metis read_escape)
    with Cons.IH [of t'] Cons show ?thesis by simp
  qed
qed

lemma json_string_determines: "json_string s @ r = json_string t @ r' \<Longrightarrow> s = t \<and> r = r'"
  by (rule escaped_determines) (simp add: json_string_def)

section \<open>Values\<close>

definition not_undefined :: "jsval \<Rightarrow> bool" where
  "not_undefined v = (v \<noteq> JUndef)"

fun json_print :: "(real \<Rightarrow> string) \<Rightarrow> jsval \<Rightarrow> string" where
  "json_print num (JNum (Fin r)) = num r"
| "json_print num (JBool b) = (if b then ''true'' else ''false'')"
| "json_print num (JStr s) = json_string s"
| "json_print num (JArr xs) = ''['' @ js_join '','' (map (json_print num) xs) @ '']''"
| "json_print num (JObj ps) =
     ''{'' @ js_join '','' (map (\<lambda>p. json_string (fst p) @ '':'' @ json_print num (snd p))
                             (filter (\<lambda>p. not_undefined (snd p)) ps)) @ ''}''"
| "json_print num v = ''null''"

lemma trim_bracketed:
  assumes "\<not> is_space c" and "\<not> is_space d"
  shows "js_trim (c # s @ [d]) = c # s @ [d]"
  using assms by (simp add: js_trim_def trim_start_def trim_end_def)

lemma newline_free_escape: "CHR 0x0A \<notin> set (json_escape c)"
proof -
  have h: "d < 16 \<Longrightarrow> lower_hex d \<noteq> CHR 0x0A" for d
  proof
    assume d: "d < 16" and "lower_hex d = CHR 0x0A"
    then have "code_of (lower_hex d) = 10" by (simp add: code_of_def)
    with d show False by (auto simp: lower_hex_def code_of_def split: if_splits)
  qed
  have "code_of c div 16 < 16" if "code_of c < 32" using that by simp
  then show ?thesis
    using h [of "code_of c div 16"] h [of "code_of c mod 16"]
    by (auto simp: json_escape_def short_escapes_def split: if_splits)
qed

lemma newline_free_string: "CHR 0x0A \<notin> set (json_string s)"
  using newline_free_escape by (auto simp: json_string_def)

lemma set_js_join: "set (js_join sep xs) \<subseteq> set sep \<union> (\<Union>x\<in>set xs. set x)"
  by (induction sep xs rule: js_join.induct) auto

lemma newline_free_join:
  "CHR 0x0A \<notin> set sep \<Longrightarrow> (\<And>x. x \<in> set xs \<Longrightarrow> CHR 0x0A \<notin> set x) \<Longrightarrow> CHR 0x0A \<notin> set (js_join sep xs)"
  using set_js_join [of sep xs] by blast

lemma newline_free_print: "(\<And>r. CHR 0x0A \<notin> set (num r)) \<Longrightarrow> CHR 0x0A \<notin> set (json_print num v)"
proof (induction num v rule: json_print.induct)
  case (4 num xs)
  then have "CHR 0x0A \<notin> set (js_join '','' (map (json_print num) xs))" by (intro newline_free_join) auto
  then show ?case by simp
next
  case (5 num ps)
  then have "CHR 0x0A \<notin> set (js_join '','' (map (\<lambda>p. json_string (fst p) @ '':'' @ json_print num (snd p))
      (filter (\<lambda>p. not_undefined (snd p)) ps)))"
    by (intro newline_free_join) (auto simp: newline_free_string)
  then show ?case by simp
qed (auto simp: newline_free_string)

section \<open>UTF-8 and hexadecimal\<close>

text \<open>\<open>toString("utf-8")\<close>. A sequence that is not the code of a character of the model's alphabet
  is shown as a question mark per byte.\<close>

fun utf8_text :: "bytes \<Rightarrow> string" where
  "utf8_text [] = []"
| "utf8_text (b # bs) =
     (if unat b < 128 then char_of (unat b) # utf8_text bs
      else case bs of
          [] \<Rightarrow> ''?''
        | d # ds \<Rightarrow>
            if (unat b = 194 \<or> unat b = 195) \<and> 128 \<le> unat d \<and> unat d < 192
            then char_of ((unat b - 192) * 64 + (unat d - 128)) # utf8_text ds
            else CHR ''?'' # utf8_text bs)"

lemma utf8_text_utf8_char: "utf8_text (utf8_char c @ bs) = c # utf8_text bs"
proof (cases "code_of c < 128")
  case True
  then show ?thesis by (simp add: utf8_char_def unat_of_nat Let_def) (simp add: code_of_def)
next
  case False
  have n: "code_of c < 256" by (rule code_less)
  have "2 \<le> code_of c div 64" using False div_le_mono [of 128 "code_of c" 64] by simp
  moreover have "code_of c div 64 < 4" using n by (simp add: less_mult_imp_div_less)
  ultimately have q: "code_of c div 64 = 2 \<or> code_of c div 64 = 3" by arith
  have c: "char_of (code_of c div 64 * 64 + code_of c mod 64) = c" by (simp add: code_of_def)
  have m: "code_of c mod 64 < 64" by simp
  from q show ?thesis
  proof
    assume "code_of c div 64 = 2"
    with False m c show ?thesis by (simp add: utf8_char_def unat_of_nat Let_def del: of_nat_add)
  next
    assume "code_of c div 64 = 3"
    with False m c show ?thesis by (simp add: utf8_char_def unat_of_nat Let_def del: of_nat_add)
  qed
qed

lemma utf8_text_utf8 [simp]: "utf8_text (utf8 s) = s"
proof (induction s)
  case (Cons c s)
  then show ?case using utf8_text_utf8_char [of c "utf8 s"] by (simp add: utf8_def)
qed (simp add: utf8_def)

lemma utf8_inject [simp]: "utf8 s = utf8 t \<longleftrightarrow> s = t"
  by (metis utf8_text_utf8)

definition hex_byte :: "byte \<Rightarrow> string" where
  "hex_byte b = [lower_hex (unat b div 16), lower_hex (unat b mod 16)]"

definition hex_text :: "bytes \<Rightarrow> string" where
  "hex_text bs = concat (map hex_byte bs)"

lemma hex_byte_inject: "hex_byte a = hex_byte b \<longleftrightarrow> a = b"
proof
  have lt: "unat x < 256" for x :: byte using unsigned_less [of x, where ?'a = nat] by simp
  assume "hex_byte a = hex_byte b"
  then have "hex_val (lower_hex (unat a div 16)) = hex_val (lower_hex (unat b div 16))"
    "hex_val (lower_hex (unat a mod 16)) = hex_val (lower_hex (unat b mod 16))"
    by (simp_all add: hex_byte_def)
  moreover have "unat x div 16 < 16" for x :: byte using lt [of x] by (simp add: less_mult_imp_div_less)
  ultimately have "unat a div 16 = unat b div 16" "unat a mod 16 = unat b mod 16"
    by (simp_all add: hex_val_lower_hex)
  then have "unat a = unat b" by (metis div_mult_mod_eq)
  then show "a = b" by (simp only: word_unat_eq_iff)
qed simp

lemma hex_text_inject: "hex_text a = hex_text b \<longleftrightarrow> a = b"
proof (induction a arbitrary: b)
  case Nil
  then show ?case by (cases b) (simp_all add: hex_text_def hex_byte_def)
next
  case (Cons x a)
  show ?case
  proof (cases b)
    case Nil
    then show ?thesis by (simp add: hex_text_def hex_byte_def)
  next
    case (Cons y b')
    have "hex_text (x # a) = hex_text (y # b') \<longleftrightarrow> hex_byte x = hex_byte y \<and> hex_text a = hex_text b'"
      by (simp add: hex_text_def hex_byte_def)
    with Cons Cons.IH show ?thesis by (simp add: hex_byte_inject)
  qed
qed

lemma length_hex_text: "length (hex_text bs) = 2 * length bs"
  by (induction bs) (simp_all add: hex_text_def hex_byte_def)

end
