(* ===== verification/Receipt.thy ===== *)
theory Receipt
  imports Dp Json
begin

text \<open>
  Execution receipts: \<open>crypto/logic-image-id.ts\<close> (the image id of a logic), the worker of
  \<open>workers/logic-execution.ts\<close> that decrypts, runs and commits, the verifying worker of
  \<open>workers/zk-verifier.ts\<close> with its brace scanner, \<open>security/zk.ts\<close> and the calls of
  \<open>crypto/verifier.ts\<close>, and the proxy logic the router of \<open>gateway/router.ts\<close> sends. SHA-256, HMAC,
  AES-GCM, ML-KEM, the sandbox, the WebAssembly compiler and JSON are parameters. The base64 text
  in which a receipt travels is left out: a receipt is its bytes.
\<close>

section \<open>Image ids\<close>

text \<open>\<open>TOP_LEVEL_ENVELOPE\<close> before and after its lazy group.\<close>

definition envelope_open :: re where
  "envelope_open = cats [AtStart, star (Pred is_space), lit ''@LIOP{'', plus (Pred (\<lambda>c. c \<noteq> CHR ''}'')),
     chr (CHR ''}''), opt (chr (CHR 0x0A))]"

definition envelope_close :: re where
  "envelope_close = cats [opt (chr (CHR 0x0A)), lit ''@END'', star (Pred is_space), AtEnd]"

definition bodies_from :: "pos \<Rightarrow> string list" where
  "bodies_from q =
     map (\<lambda>r. take (length (snd q) - length (snd r)) (snd q))
       (filter (\<lambda>r. re_match envelope_close r \<noteq> []) (re_match (Rep False 0 None (Pred (\<lambda>c. True))) q))"

definition envelope_body :: "string \<Rightarrow> string option" where
  "envelope_body s =
     (case concat (map bodies_from (re_match envelope_open ([], s))) of [] \<Rightarrow> None | l # _ \<Rightarrow> Some l)"

definition normalize_logic_source :: "string \<Rightarrow> string" where
  "normalize_logic_source logicUtf8 =
     (case envelope_body logicUtf8 of Some l \<Rightarrow> js_trim l | None \<Rightarrow> js_trim logicUtf8)"

fun starts_like_wasm :: "bytes \<Rightarrow> bool" where
  "starts_like_wasm (a # b # bs) = (a = 0 \<and> b = 0x61)"
| "starts_like_wasm bs = False"

definition derive_logic_image_digest :: "(bytes \<Rightarrow> bytes) \<Rightarrow> bytes \<Rightarrow> bytes" where
  "derive_logic_image_digest sha256 logicPayload =
     (if starts_like_wasm logicPayload then sha256 logicPayload
      else sha256 (utf8 (normalize_logic_source (utf8_text logicPayload))))"

section \<open>The executing worker\<close>

record worker_env =
  we_sha256 :: "bytes \<Rightarrow> bytes"
  we_hmac :: "bytes \<Rightarrow> bytes \<Rightarrow> bytes"                        \<comment> \<open>key, message\<close>
  we_kem_decap :: "bytes \<Rightarrow> bytes \<Rightarrow> string + bytes"            \<comment> \<open>ciphertext, secret key\<close>
  we_gcm_open :: "bytes \<Rightarrow> bytes \<Rightarrow> bytes \<Rightarrow> bytes \<Rightarrow> string + bytes"  \<comment> \<open>key, nonce, data, tag\<close>
  we_parse :: json_parser
  we_stringify :: "jsval \<Rightarrow> string"
  we_inspect :: "bytes \<Rightarrow> string option"                      \<comment> \<open>compiler and guardian: the message of the error\<close>
  we_execute :: "(bytes + string) \<Rightarrow> jsval list option \<Rightarrow> (string \<times> jsval) list \<Rightarrow> string + (tval \<times> jsnum)"
  we_fl :: "real \<Rightarrow> jsnum"
  we_randomBytes :: "nat \<Rightarrow> bytes"

record worker_data =
  wd_isWarmup :: bool
  wd_ciphertext :: bytes
  wd_secretKeyObj :: bytes
  wd_wasmBinary :: bytes
  wd_inputs :: "(string \<times> bytes) list"
  wd_records :: "jsval list option"
  wd_sessionTimestamp :: "int option"
  wd_isEncrypted :: bool
  wd_aesNonce :: "bytes option"
  wd_dpConfig :: "dp_partial option"

record logic_result =
  lr_image_id :: string
  lr_output :: jsval
  lr_fuel_consumed :: jsnum
  lr_zk_receipt :: "bytes option"

definition bind_sum :: "'e + 'a \<Rightarrow> ('a \<Rightarrow> 'e + 'b) \<Rightarrow> 'e + 'b" where
  "bind_sum x f = (case x of Inl e \<Rightarrow> Inl e | Inr a \<Rightarrow> f a)"

lemma bind_sum_simps [simp]: "bind_sum (Inl e) f = Inl e" "bind_sum (Inr a) f = f a"
  by (simp_all add: bind_sum_def)

lemma bind_sum_Inr: "bind_sum x f = Inr b \<longleftrightarrow> (\<exists>a. x = Inr a \<and> f a = Inr b)"
  by (cases x) simp_all

text \<open>The worker freezes \<open>Object.prototype\<close>, so assigning a property that an object would inherit
  throws (\<open>__proto__\<close> is an accessor and does not). \<open>own_keys\<close> lists the keys in the order in which a
  copying walk assigns them.\<close>

definition inherited_name :: "string \<Rightarrow> bool" where
  "inherited_name k \<longleftrightarrow> map_of object_prototype k \<noteq> None"

definition frozen_error :: "string \<Rightarrow> string" where
  "frozen_error k = ''Cannot assign to read only property '' @ k"

fun own_keys :: "jsval \<Rightarrow> string list" where
  "own_keys (JArr xs) = concat (map own_keys xs)"
| "own_keys (JObj ps) = concat (map (\<lambda>p. own_keys (snd p) @ [fst p]) ps)"
| "own_keys v = []"

definition expired_text :: "int \<Rightarrow> string" where
  "expired_text age =
     ''[LIOP-PQC] Session secret expired: Age ('' @ int_str ((age + 500) div 1000) @ ''s) exceeds 3600s TTL limit.''"

definition session_error :: "int option \<Rightarrow> int \<Rightarrow> string option" where
  "session_error sessionTimestamp now =
     (case sessionTimestamp of None \<Rightarrow> None
      | Some t \<Rightarrow>
          if 3600 * 1000 < now - t then Some (expired_text (now - t))
          else if now + 60000 < t then Some ''[LIOP-PQC] Session secret invalid: Timestamp is in the future.''
          else None)"

text \<open>\<open>subarray(-16)\<close> and \<open>subarray(0, -16)\<close>.\<close>

definition auth_tag :: "bytes \<Rightarrow> bytes" where
  "auth_tag b = drop (length b - 16) b"

definition without_tag :: "bytes \<Rightarrow> bytes" where
  "without_tag b = take (length b - 16) b"

fun decrypt_inputs :: "worker_env \<Rightarrow> bytes \<Rightarrow> (string \<times> bytes) list \<Rightarrow> string + (string \<times> jsval) list" where
  "decrypt_inputs E key [] = Inr []"
| "decrypt_inputs E key ((k, v) # ps) =
     bind_sum (we_gcm_open E key (take 12 v) (drop 12 (without_tag v)) (auth_tag v)) (\<lambda>plain.
       case we_parse E (utf8_text plain) of
         None \<Rightarrow> Inl ''Unexpected token''
       | Some x \<Rightarrow>
           if inherited_name k then Inl (frozen_error k)
           else bind_sum (decrypt_inputs E key ps) (\<lambda>rest. Inr (if k = ''__proto__'' then rest else (k, x) # rest)))"

definition is_wasm :: "bytes \<Rightarrow> bool" where
  "is_wasm b \<longleftrightarrow> take 4 b = [0x00, 0x61, 0x73, 0x6d]"

text \<open>Steps 1 to 3: the payload that is run, the inputs, the session secret.\<close>

definition open_payload :: "worker_env \<Rightarrow> worker_data \<Rightarrow> string + ((bytes \<times> bool) \<times> (string \<times> jsval) list \<times> bytes)" where
  "open_payload E d =
     (if wd_isEncrypted d then
        bind_sum (we_kem_decap E (wd_ciphertext d) (wd_secretKeyObj d)) (\<lambda>aesKey.
        bind_sum (we_gcm_open E aesKey (case wd_aesNonce d of None \<Rightarrow> replicate 12 0 | Some n \<Rightarrow> n)
                    (without_tag (wd_wasmBinary d)) (auth_tag (wd_wasmBinary d))) (\<lambda>plain.
        bind_sum (decrypt_inputs E aesKey (wd_inputs d)) (\<lambda>inputs.
          Inr ((plain, is_wasm plain), inputs, aesKey))))
      else Inr ((wd_wasmBinary d, is_wasm (wd_wasmBinary d)), [], replicate 32 0))"

definition runnable :: "worker_env \<Rightarrow> bytes \<times> bool \<Rightarrow> string + (bytes + string)" where
  "runnable E p =
     (if snd p then (case we_inspect E (fst p) of Some e \<Rightarrow> Inl e | None \<Rightarrow> Inr (Inl (fst p)))
      else Inr (Inr (normalize_logic_source (utf8_text (fst p)))))"

definition logic_bytes :: "bytes + string \<Rightarrow> bytes" where
  "logic_bytes p = (case p of Inl b \<Rightarrow> b | Inr s \<Rightarrow> utf8 s)"

text \<open>A fresh tree for a value, as the noise walk builds it.\<close>

fun fresh :: "nat \<Rightarrow> jsval \<Rightarrow> tval \<times> nat"
  and fresh_items :: "nat \<Rightarrow> jsval list \<Rightarrow> tval list \<times> nat"
  and fresh_props :: "nat \<Rightarrow> (string \<times> jsval) list \<Rightarrow> (string \<times> tval) list \<times> nat" where
  "fresh n JUndef = (TUndef, n)"
| "fresh n JNull = (TNull, n)"
| "fresh n (JBool b) = (TBool b, n)"
| "fresh n (JNum x) = (TNum x, n)"
| "fresh n (JStr s) = (TStr s, n)"
| "fresh n (JArr xs) = (case fresh_items (n + 1) xs of (ys, m) \<Rightarrow> (TArr n ys, m))"
| "fresh n (JObj ps) = (case fresh_props (n + 1) ps of (qs, m) \<Rightarrow> (TObj n qs, m))"
| "fresh_items n [] = ([], n)"
| "fresh_items n (x # xs) =
     (case fresh n x of (y, m) \<Rightarrow> (case fresh_items m xs of (ys, l) \<Rightarrow> (y # ys, l)))"
| "fresh_props n [] = ([], n)"
| "fresh_props n ((k, x) # ps) =
     (case fresh n x of (y, m) \<Rightarrow> (case fresh_props m ps of (qs, l) \<Rightarrow> ((k, y) # qs, l)))"

definition worker_dp_env :: "worker_env \<Rightarrow> dp_env" where
  "worker_dp_env E = \<lparr>de_sha256 = (\<lambda>s. we_sha256 E (utf8 s)), de_randomBytes = we_randomBytes E, de_fl = we_fl E\<rparr>"

definition records_of :: "worker_data \<Rightarrow> jsval list" where
  "records_of d = (case wd_records d of None \<Rightarrow> [] | Some rs \<Rightarrow> rs)"

definition dataset_hash :: "worker_env \<Rightarrow> worker_data \<Rightarrow> string" where
  "dataset_hash E d = hex_text (we_sha256 E (utf8 (we_stringify E (JArr (records_of d)))))"

text \<open>The noise, with the seed of the audit mode. \<open>None\<close>: the sampler does not return.\<close>

definition dp_stage :: "worker_env \<Rightarrow> worker_data \<Rightarrow> string \<Rightarrow> tval \<Rightarrow> tval option" where
  "dp_stage E d imageId v =
     (case wd_dpConfig d of None \<Rightarrow> Some v
      | Some c \<Rightarrow>
          (let config = c\<lparr>dq_seed := Some (dataset_hash E d @ '':'' @ imageId)\<rparr>;
               n = int (length (records_of d))
           in if dp_smallDatasetThreshold (merge_config config) \<le> n then Some v
              else map_option (\<lambda>w. fst (fresh 0 w)) (apply_dp_to_output (worker_dp_env E) 0 (erase v) config n)))"

definition output_text :: "(jsval \<Rightarrow> string) \<Rightarrow> jsval \<Rightarrow> string" where
  "output_text stringify v = (case v of JStr s \<Rightarrow> s | JUndef \<Rightarrow> ''undefined'' | _ \<Rightarrow> stringify v)"

definition text_digest :: "(bytes \<Rightarrow> bytes) \<Rightarrow> string \<Rightarrow> string" where
  "text_digest sha256 s = hex_text (sha256 (utf8 s))"

definition journal_of :: "worker_env \<Rightarrow> string \<Rightarrow> string \<Rightarrow> jsval \<Rightarrow> jsnum \<Rightarrow> int \<Rightarrow> jsval" where
  "journal_of E imageId datasetHash out fuel ts =
     JObj [(''image_id'', JStr imageId), (''dataset_hash'', JStr datasetHash),
           (''output_hash'', JStr (text_digest (we_sha256 E) (output_text (we_stringify E) out))),
           (''fuel'', JNum fuel), (''ts'', JNum (Fin (of_int ts)))]"

definition be16 :: "nat \<Rightarrow> bytes" where
  "be16 n = [of_nat (n div 2 ^ 8), of_nat n]"

definition read_be16 :: "bytes \<Rightarrow> nat" where
  "read_be16 bs = unat (bs ! 0) * 2 ^ 8 + unat (bs ! 1)"

definition seal_receipt :: "worker_env \<Rightarrow> bytes \<Rightarrow> bytes \<Rightarrow> string + bytes" where
  "seal_receipt E sessionSecret journal =
     (if 65535 < length journal then Inl ''The value of value is out of range.''
      else Inr ([0x01] @ be16 (length journal) @ journal @ we_hmac E sessionSecret journal))"

text \<open>From the computed output to the result: noise, sanitizer, commitment.\<close>

definition commit_output ::
    "worker_env \<Rightarrow> worker_data \<Rightarrow> bytes \<Rightarrow> bytes + string \<Rightarrow> tval \<Rightarrow> jsnum \<Rightarrow> int \<Rightarrow> (string + logic_result) option" where
  "commit_output E d sessionSecret p out fuel ts =
     (let imageId = hex_text (derive_logic_image_digest (we_sha256 E) (logic_bytes p)) in
      case find inherited_name (own_keys (erase out)) of
        Some k \<Rightarrow> Some (Inl (frozen_error k))
      | None \<Rightarrow>
          map_option (\<lambda>noisy.
             let finalOutput = sanitize_output (we_fl E) None noisy;
                 journal = utf8 (we_stringify E (journal_of E imageId (dataset_hash E d) finalOutput fuel ts))
             in bind_sum (seal_receipt E sessionSecret journal) (\<lambda>receipt.
                  Inr \<lparr>lr_image_id = imageId, lr_output = finalOutput, lr_fuel_consumed = fuel,
                       lr_zk_receipt = Some receipt\<rparr>))
           (dp_stage E d imageId out))"

definition process_logic_execution ::
    "worker_env \<Rightarrow> worker_data \<Rightarrow> int \<Rightarrow> int \<Rightarrow> (string + logic_result) option" where
  "process_logic_execution E d now ts =
     (if wd_isWarmup d
      then Some (Inr \<lparr>lr_image_id = [], lr_output = JStr ''warm'', lr_fuel_consumed = Fin 0, lr_zk_receipt = None\<rparr>)
      else case session_error (wd_sessionTimestamp d) now of
        Some e \<Rightarrow> Some (Inl e)
      | None \<Rightarrow>
          (case open_payload E d of
             Inl e \<Rightarrow> Some (Inl e)
           | Inr (payload, inputs, sessionSecret) \<Rightarrow>
               (case runnable E payload of
                  Inl e \<Rightarrow> Some (Inl e)
                | Inr p \<Rightarrow>
                    (case we_execute E p (wd_records d) inputs of
                       Inl e \<Rightarrow> Some (Inl e)
                     | Inr (out, fuel) \<Rightarrow> commit_output E d sessionSecret p out fuel ts))))"

section \<open>The brace scanner\<close>

record scan_state =
  ss_count :: int
  ss_double :: bool
  ss_single :: bool
  ss_backtick :: bool
  ss_escaped :: bool

definition scan_start :: scan_state where
  "scan_start = \<lparr>ss_count = 0, ss_double = False, ss_single = False, ss_backtick = False, ss_escaped = False\<rparr>"

text \<open>The number of characters up to and including the brace that closes the first one.\<close>

fun scan_braces :: "scan_state \<Rightarrow> string \<Rightarrow> nat option" where
  "scan_braces s [] = None"
| "scan_braces s (c # cs) =
     map_option Suc
      (if ss_escaped s then scan_braces (s\<lparr>ss_escaped := False\<rparr>) cs
       else if c = CHR 0x5C then scan_braces (s\<lparr>ss_escaped := True\<rparr>) cs
       else if c = CHR 0x22 \<and> \<not> ss_single s \<and> \<not> ss_backtick s then scan_braces (s\<lparr>ss_double := \<not> ss_double s\<rparr>) cs
       else if c = CHR 0x27 \<and> \<not> ss_double s \<and> \<not> ss_backtick s then scan_braces (s\<lparr>ss_single := \<not> ss_single s\<rparr>) cs
       else if c = CHR 0x60 \<and> \<not> ss_double s \<and> \<not> ss_single s then scan_braces (s\<lparr>ss_backtick := \<not> ss_backtick s\<rparr>) cs
       else if \<not> ss_double s \<and> \<not> ss_single s \<and> \<not> ss_backtick s then
         (if c = CHR ''{'' then scan_braces (s\<lparr>ss_count := ss_count s + 1\<rparr>) cs
          else if c = CHR ''}'' then
            (if ss_count s - 1 = 0 then Some 0 else scan_braces (s\<lparr>ss_count := ss_count s - 1\<rparr>) cs)
          else scan_braces s cs)
       else scan_braces s cs)"

definition truthy :: "jsval \<Rightarrow> bool" where
  "truthy v =
     (case v of JUndef \<Rightarrow> False | JNull \<Rightarrow> False | JBool b \<Rightarrow> b | JNum NaN \<Rightarrow> False | JNum (Fin r) \<Rightarrow> r \<noteq> 0
      | JStr s \<Rightarrow> s \<noteq> [] | _ \<Rightarrow> True)"

text \<open>\<open>v.k\<close> for a value that is not null: only an object has the property.\<close>

definition prop_of :: "jsval \<Rightarrow> string \<Rightarrow> jsval" where
  "prop_of v k = (case v of JObj ps \<Rightarrow> get_prop ps k | _ \<Rightarrow> JUndef)"

definition first_object_text :: "string \<Rightarrow> string option" where
  "first_object_text s =
     (case index_of s ''{'' of None \<Rightarrow> None
      | Some i \<Rightarrow> map_option (\<lambda>n. take n (drop i s)) (scan_braces scan_start (drop i s)))"

definition try_extract_proxy_output :: "json_parser \<Rightarrow> bytes \<Rightarrow> jsval option" where
  "try_extract_proxy_output parse logicPayload =
     (let logicStr = js_trim (utf8_text logicPayload) in
      if \<not> js_includes logicStr ''__liop_proxy_tool'' then None
      else case first_object_text logicStr of None \<Rightarrow> None
      | Some jsonStr \<Rightarrow>
          (case parse jsonStr of None \<Rightarrow> None
           | Some v \<Rightarrow> if truthy (prop_of v ''__liop_proxy_tool'') then Some v else None))"

text \<open>The logic the router sends for a remote tool call.\<close>

definition proxy_logic :: "string \<Rightarrow> string \<Rightarrow> string" where
  "proxy_logic toolName embeddedArgsJson =
     ''return { '' @ [CHR 0x22] @ ''__liop_proxy_tool'' @ [CHR 0x22] @ '': '' @ [CHR 0x22] @ toolName @ [CHR 0x22] @ '', '' @
     [CHR 0x22] @ ''__liop_proxy_args'' @ [CHR 0x22] @ '': '' @ embeddedArgsJson @ '' };''"

section \<open>The verifying worker\<close>

record zk_payload =
  zp_logicPayload :: "bytes option"
  zp_remoteImageIdHex :: "string option"
  zp_zkReceipt :: "bytes option"
  zp_sessionSecret :: "bytes option"
  zp_expectedOutput :: jsval                \<comment> \<open>\<open>undefined\<close> when it is not checked\<close>

text \<open>The verdicts, with what their messages interpolate.\<close>

datatype verdict =
    Verified
  | MissingFields
  | IntegrityViolation string string
  | ReceiptTooShort
  | UnknownVersion nat
  | InvalidSealLength
  | JournalMismatch jsval string
  | JournalUnparsed
  | InvalidSeal
  | OutputHashMismatch jsval string
  | VerificationError

definition sliceable :: "jsval \<Rightarrow> bool" where
  "sliceable v = (case v of JStr _ \<Rightarrow> True | JArr _ \<Rightarrow> True | _ \<Rightarrow> False)"

text \<open>Step 3: the journal, or the verdict. Reading \<open>image_id\<close> of null throws, and so does \<open>slice\<close> on
  anything but a text or an array; both are caught.\<close>

definition check_journal :: "json_parser \<Rightarrow> string \<Rightarrow> bytes \<Rightarrow> verdict + jsval" where
  "check_journal parse localImageIdHex journal =
     (case parse (utf8_text journal) of None \<Rightarrow> Inl JournalUnparsed
      | Some j \<Rightarrow>
          if j = JNull then Inl JournalUnparsed
          else if prop_of j ''image_id'' = JStr localImageIdHex then Inr j
          else if sliceable (prop_of j ''image_id'') then Inl (JournalMismatch (prop_of j ''image_id'') localImageIdHex)
          else Inl JournalUnparsed)"

definition check_output :: "worker_env \<Rightarrow> bytes \<Rightarrow> jsval \<Rightarrow> jsval \<Rightarrow> verdict" where
  "check_output E logicPayload expectedOutput journalData =
     (if expectedOutput = JUndef then Verified
      else
        (let actualExpected =
               (case try_extract_proxy_output (we_parse E) logicPayload of None \<Rightarrow> expectedOutput | Some v \<Rightarrow> v);
             expectedOutputHash = text_digest (we_sha256 E) (output_text (we_stringify E) actualExpected)
         in if prop_of journalData ''output_hash'' = JStr expectedOutputHash then Verified
            else if sliceable (prop_of journalData ''output_hash'')
            then OutputHashMismatch (prop_of journalData ''output_hash'') expectedOutputHash
            else VerificationError))"

definition seal_valid :: "worker_env \<Rightarrow> bytes option \<Rightarrow> bytes \<Rightarrow> bytes \<Rightarrow> bool" where
  "seal_valid E sessionSecret journal sl \<longleftrightarrow>
     (case sessionSecret of None \<Rightarrow> True | Some k \<Rightarrow> k = [] \<or> sl = we_hmac E k journal)"

definition verify_zk_receipt :: "worker_env \<Rightarrow> zk_payload \<Rightarrow> verdict" where
  "verify_zk_receipt E z =
     (case (zp_logicPayload z, zp_remoteImageIdHex z, zp_zkReceipt z) of
        (Some logicPayload, Some remote, Some receiptBuf) \<Rightarrow>
          if remote = [] then MissingFields
          else
            (let localImageIdHex = hex_text (derive_logic_image_digest (we_sha256 E) logicPayload) in
             if localImageIdHex \<noteq> remote then IntegrityViolation localImageIdHex remote
             else if length receiptBuf < 35 then ReceiptTooShort
             else if receiptBuf ! 0 \<noteq> 0x01 then UnknownVersion (unat (receiptBuf ! 0))
             else
               (let journalLen = read_be16 (drop 1 receiptBuf);
                    journal = take journalLen (drop 3 receiptBuf);
                    sl = drop (3 + journalLen) receiptBuf
                in if length sl \<noteq> 32 then InvalidSealLength
                   else case check_journal (we_parse E) localImageIdHex journal of
                     Inl v \<Rightarrow> v
                   | Inr journalData \<Rightarrow>
                       if \<not> seal_valid E (zp_sessionSecret z) journal sl then InvalidSeal
                       else check_output E logicPayload (zp_expectedOutput z) journalData))
      | _ \<Rightarrow> MissingFields)"

text \<open>\<open>verifyZkReceipt\<close> and \<open>verifyTeeAttestation\<close> of \<open>LiopVerifier\<close>.\<close>

definition liop_verify_zk_receipt ::
    "worker_env \<Rightarrow> bytes \<Rightarrow> string \<Rightarrow> bytes \<Rightarrow> bytes option \<Rightarrow> jsval \<Rightarrow> bool" where
  "liop_verify_zk_receipt E logicPayload remoteImageIdHex zkReceipt sessionSecret expectedOutput =
     (verify_zk_receipt E \<lparr>zp_logicPayload = Some logicPayload, zp_remoteImageIdHex = Some remoteImageIdHex,
        zp_zkReceipt = Some zkReceipt, zp_sessionSecret = sessionSecret, zp_expectedOutput = expectedOutput\<rparr> = Verified)"

definition verify_tee_attestation :: "bytes \<Rightarrow> bool" where
  "verify_tee_attestation attestationReport = True"

section \<open>The structural verifier\<close>

record zk_receipt =
  zr_proof :: bytes
  zr_journal :: bytes
  zr_imageId :: bytes

datatype zk_error = ImageIdMismatch | EmptyProof | MalformedReceipt | BadSealLength | JournalNotParsed | BadSeal

definition zk_verify :: "worker_env \<Rightarrow> zk_receipt \<Rightarrow> bytes \<Rightarrow> bytes option \<Rightarrow> zk_error option" where
  "zk_verify E r expectedImageId sessionSecret =
     (if zr_imageId r \<noteq> expectedImageId then Some ImageIdMismatch
      else if length (zr_proof r) = 0 then Some EmptyProof
      else if length (zr_proof r) < 35 \<or> zr_proof r ! 0 \<noteq> 0x01 then Some MalformedReceipt
      else
        (let journalLen = read_be16 (drop 1 (zr_proof r));
             journal = take journalLen (drop 3 (zr_proof r));
             sl = drop (3 + journalLen) (zr_proof r)
         in if length sl \<noteq> 32 then Some BadSealLength
            else case we_parse E (utf8_text journal) of
              None \<Rightarrow> Some JournalNotParsed
            | Some j \<Rightarrow>
                if j = JNull \<or> prop_of j ''image_id'' \<noteq> JStr (hex_text (zr_imageId r)) then Some JournalNotParsed
                else if \<not> seal_valid E sessionSecret journal sl then Some BadSeal
                else None))"

section \<open>Receipts as bytes\<close>

lemma read_be16_be16: "n < 65536 \<Longrightarrow> read_be16 (be16 n @ r) = n"
proof -
  assume n: "n < 65536"
  then have "n div 256 < 256" by (simp add: less_mult_imp_div_less)
  then show ?thesis by (simp add: read_be16_def be16_def unat_of_nat)
qed

lemma length_be16 [simp]: "length (be16 n) = 2"
  by (simp add: be16_def)

lemma receipt_parts:
  assumes "length j < 65536"
  shows "read_be16 (drop 1 ([1] @ be16 (length j) @ j @ sl)) = length j"
    and "take (length j) (drop 3 ([1] @ be16 (length j) @ j @ sl)) = j"
    and "drop (3 + length j) ([1] @ be16 (length j) @ j @ sl) = sl"
  using read_be16_be16 [OF assms, of "j @ sl"] by (simp_all add: be16_def numeral_3_eq_3)

lemma read_be16_less: "read_be16 bs < 65536"
proof -
  have b: "unat (x :: byte) \<le> 255" for x using unsigned_less [of x, where ?'a = nat] by simp
  show ?thesis using b [of "bs ! 0"] b [of "bs ! 1"] by (simp add: read_be16_def)
qed

lemma be16_read_be16:
  assumes "2 \<le> length bs"
  shows "be16 (read_be16 bs) = take 2 bs"
proof -
  obtain a b r where bs: "bs = a # b # r" using assms by (metis Suc_le_length_iff numeral_2_eq_2)
  have b: "unat (x :: byte) < 256" for x using unsigned_less [of x, where ?'a = nat] by simp
  have "(unat a * 256 + unat b) div 256 = unat a" using b [of b] by simp
  moreover have "(of_nat (unat a * 256 + unat b) :: byte) = b"
  proof -
    have "(of_nat (unat a * 256 + unat b) :: byte) = of_nat (unat a * 256) + of_nat (unat b)" by (rule of_nat_add)
    also have "(of_nat (unat a * 256) :: byte) = 0" by (rule word_of_nat_eq_0_iff [THEN iffD2]) simp
    finally show ?thesis by simp
  qed
  ultimately show ?thesis by (simp add: bs be16_def read_be16_def)
qed

text \<open>The bytes that pass the structural checks are exactly those of the format.\<close>

lemma receipt_shape:
  fixes r :: bytes
  assumes "35 \<le> length r" and "r ! 0 = 1" and "length (drop (3 + read_be16 (drop 1 r)) r) = 32"
  shows "r = [1] @ be16 (read_be16 (drop 1 r)) @ take (read_be16 (drop 1 r)) (drop 3 r) @ drop (3 + read_be16 (drop 1 r)) r"
    and "length (take (read_be16 (drop 1 r)) (drop 3 r)) = read_be16 (drop 1 r)"
proof -
  let ?n = "read_be16 (drop 1 r)"
  have "r = take 1 r @ take 2 (drop 1 r) @ drop 3 r"
    by (metis append_take_drop_id drop_drop numeral_3_eq_3 numeral_2_eq_2 add_Suc_right add_0_right One_nat_def add.commute)
  moreover have "take 1 r = [1]" using assms(1,2) by (cases r) simp_all
  moreover have "take 2 (drop 1 r) = be16 ?n" using assms(1) by (simp add: be16_read_be16)
  moreover have "drop 3 r = take ?n (drop 3 r) @ drop (3 + ?n) r" by (metis append_take_drop_id drop_drop add.commute)
  ultimately show "r = [1] @ be16 ?n @ take ?n (drop 3 r) @ drop (3 + ?n) r" by simp
  show "length (take ?n (drop 3 r)) = ?n" using assms(1,3) by simp
qed

section \<open>Normalisation\<close>

lemma dropWhile_idem: "dropWhile P (dropWhile P xs) = dropWhile P xs"
  by (induction xs) auto

lemma dropWhile_rev_front: "dropWhile P (rev (dropWhile P (rev (dropWhile P xs)))) = rev (dropWhile P (rev (dropWhile P xs)))"
proof -
  let ?t = "dropWhile P xs"
  show ?thesis
  proof (cases "rev (dropWhile P (rev ?t))")
    case Nil
    show ?thesis unfolding Nil by simp
  next
    case (Cons x r)
    have "?t = rev (dropWhile P (rev ?t)) @ rev (takeWhile P (rev ?t))"
      by (metis rev_append rev_rev_ident takeWhile_dropWhile_id)
    with Cons have "hd ?t = x" "?t \<noteq> []" by (metis append_Cons list.sel(1), metis append_Cons list.distinct(1))
    with hd_dropWhile [of P xs] have "\<not> P x" by simp
    with Cons show ?thesis by simp
  qed
qed

lemma js_trim_idem: "js_trim (js_trim s) = js_trim s"
  by (simp add: js_trim_def trim_start_def trim_end_def dropWhile_rev_front dropWhile_idem)

lemma js_trim_no_space: "js_trim s = c # r \<Longrightarrow> \<not> is_space c"
proof -
  assume e: "js_trim s = c # r"
  have "dropWhile is_space (js_trim s) = js_trim s"
    by (simp add: js_trim_def trim_start_def trim_end_def dropWhile_rev_front)
  with e show ?thesis by (metis dropWhile.simps(2) dropWhile_eq_Cons_conv list.inject)
qed

lemma lit_match: "re_match (lit w) (b, s) = (if starts_with s w then [(rev w @ b, drop (length w) s)] else [])"
proof (induction w arbitrary: b s)
  case (Cons c w)
  then show ?case by (cases s) (auto simp: lit_def chr_def)
qed (simp add: lit_def)

lemma star_pred_stuck: "\<not> P c \<Longrightarrow> re_match (star (Pred P)) (b, c # s) = [(b, c # s)]"
  by (simp add: star_def)

lemma envelope_open_fails:
  assumes "t = [] \<or> \<not> is_space (hd t)" and "\<not> starts_with t ''@LIOP{''"
  shows "re_match envelope_open ([], t) = []"
proof (cases t)
  case Nil
  then show ?thesis by (simp add: envelope_open_def star_def lit_match)
next
  case (Cons c r)
  with assms have "re_match (star (Pred is_space)) ([], t) = [([], t)]" by (simp add: star_pred_stuck)
  with assms(2) show ?thesis by (simp add: envelope_open_def lit_match)
qed

lemma normalize_trimmed:
  "js_trim t = t \<Longrightarrow> \<not> starts_with t ''@LIOP{'' \<Longrightarrow> normalize_logic_source t = t"
proof -
  assume t: "js_trim t = t" and n: "\<not> starts_with t ''@LIOP{''"
  have "t = [] \<or> \<not> is_space (hd t)" using js_trim_no_space [of t] t by (cases t) auto
  with n have "re_match envelope_open ([], t) = []" by (intro envelope_open_fails) auto
  with t show ?thesis by (simp add: normalize_logic_source_def envelope_body_def)
qed

lemma normalize_is_trimmed: "js_trim (normalize_logic_source s) = normalize_logic_source s"
  by (simp add: normalize_logic_source_def js_trim_idem split: option.split)

text \<open>Payloads for which the worker, which normalises twice, and the sender agree.\<close>

definition stable_payload :: "bytes \<Rightarrow> bool" where
  "stable_payload p \<longleftrightarrow>
     is_wasm p \<or>
     (let n = normalize_logic_source (utf8_text p)
      in \<not> starts_like_wasm p \<and> \<not> starts_like_wasm (utf8 n) \<and> \<not> starts_with n ''@LIOP{'')"

lemma is_wasm_starts: "is_wasm p \<Longrightarrow> starts_like_wasm p"
  by (cases p rule: starts_like_wasm.cases) (auto simp: is_wasm_def)

lemma worker_image_id:
  assumes "stable_payload p" and "runnable E (p, is_wasm p) = Inr q"
  shows "derive_logic_image_digest sha (logic_bytes q) = derive_logic_image_digest sha p"
proof (cases "is_wasm p")
  case True
  with assms(2) show ?thesis by (auto simp: runnable_def logic_bytes_def split: option.splits)
next
  case False
  with assms(2) have q: "q = Inr (normalize_logic_source (utf8_text p))" by (simp add: runnable_def)
  from False assms(1) show ?thesis
    by (simp add: stable_payload_def Let_def q logic_bytes_def derive_logic_image_digest_def
        normalize_trimmed [OF normalize_is_trimmed])
qed

end
