(* ===== verification/ReceiptClaims.thy ===== *)
theory ReceiptClaims
  imports Receipt
begin

text \<open>
  What receipts are worth: an honest worker's receipt is accepted; an accepted receipt is exactly a
  well-formed one that commits to the logic and the output; the two verifiers agree; the brace
  scanner finds the object the router wrote, and with it the result of a proxied call goes
  unchecked; the seed of the noise is readable in the journal.
\<close>

section \<open>The brace scanner on printed objects\<close>

definition scanning :: "int \<Rightarrow> bool \<Rightarrow> scan_state" where
  "scanning n q = \<lparr>ss_count = n, ss_double = q, ss_single = False, ss_backtick = False, ss_escaped = False\<rparr>"

definition plain_char :: "char \<Rightarrow> bool" where
  "plain_char c \<longleftrightarrow> c \<notin> {CHR 0x5C, CHR 0x22, CHR 0x27, CHR 0x60, CHR ''{'', CHR ''}''}"

text \<open>Texts the scanner passes over inside an object, leaving its state as it was.\<close>

definition neutral :: "string \<Rightarrow> bool" where
  "neutral t \<longleftrightarrow> (\<forall>n r. 1 \<le> n \<longrightarrow>
     scan_braces (scanning n False) (t @ r) = map_option (\<lambda>m. length t + m) (scan_braces (scanning n False) r))"

lemma neutral_Nil: "neutral []"
  by (simp add: neutral_def option.map_ident)

lemma neutral_append: "neutral s \<Longrightarrow> neutral t \<Longrightarrow> neutral (s @ t)"
  by (simp add: neutral_def option.map_comp comp_def add.assoc)

lemma neutral_char: "plain_char c \<Longrightarrow> neutral [c]"
  by (simp add: neutral_def plain_char_def scanning_def)

lemma neutral_Cons: "plain_char c \<Longrightarrow> neutral t \<Longrightarrow> neutral (c # t)"
  using neutral_append [OF neutral_char] by (metis append_Cons append_Nil)

lemma neutral_plain: "list_all plain_char t \<Longrightarrow> neutral t"
  by (induction t) (simp_all add: neutral_Nil neutral_Cons)

lemma neutral_braces: "neutral t \<Longrightarrow> neutral (''{'' @ t @ ''}'')"
  by (auto simp: neutral_def scanning_def option.map_comp comp_def)

text \<open>Inside a literal.\<close>

definition quoted :: "string \<Rightarrow> bool" where
  "quoted t \<longleftrightarrow> (\<forall>n r. scan_braces (scanning n True) (t @ r) =
     map_option (\<lambda>m. length t + m) (scan_braces (scanning n True) r))"

lemma quoted_Nil: "quoted []"
  by (simp add: quoted_def option.map_ident)

lemma quoted_append: "quoted s \<Longrightarrow> quoted t \<Longrightarrow> quoted (s @ t)"
  by (simp add: quoted_def option.map_comp comp_def add.assoc)

lemma quoted_char: "c \<noteq> CHR 0x5C \<Longrightarrow> c \<noteq> CHR 0x22 \<Longrightarrow> quoted [c]"
  by (simp add: quoted_def scanning_def)

lemma quoted_Cons: "c \<noteq> CHR 0x5C \<Longrightarrow> c \<noteq> CHR 0x22 \<Longrightarrow> quoted t \<Longrightarrow> quoted (c # t)"
  using quoted_append [OF quoted_char] by (metis append_Cons append_Nil)

lemma quoted_plain: "CHR 0x5C \<notin> set t \<Longrightarrow> CHR 0x22 \<notin> set t \<Longrightarrow> quoted t"
  by (induction t) (auto simp: quoted_Nil intro: quoted_Cons)

lemma quoted_pair: "quoted [CHR 0x5C, c]"
  by (simp add: quoted_def scanning_def option.map_comp comp_def)

lemma lower_hex_plain: "d < 16 \<Longrightarrow> lower_hex d \<notin> {CHR 0x5C, CHR 0x22}"
proof
  assume d: "d < 16" and m: "lower_hex d \<in> {CHR 0x5C, CHR 0x22}"
  have "code_of (lower_hex d) = (if d < 10 then 48 + d else 87 + d)"
    using d by (simp add: lower_hex_def code_of_def)
  moreover have "code_of (lower_hex d) \<in> {92, 34}" using m by (auto simp: code_of_def)
  ultimately show False using d by (auto split: if_splits)
qed

lemma quoted_escape: "quoted (json_escape c)"
proof (cases "map_of short_escapes c")
  case None
  then have "c \<noteq> CHR 0x5C" "c \<noteq> CHR 0x22" by (auto simp: short_escapes_def split: if_splits)
  moreover have "quoted (CHR 0x5C # ''u00'' @ [lower_hex (code_of c div 16), lower_hex (code_of c mod 16)])"
    if "code_of c < 32"
  proof -
    have "code_of c div 16 < 16" "code_of c mod 16 < 16" using that by simp_all
    then have "quoted (''00'' @ [lower_hex (code_of c div 16), lower_hex (code_of c mod 16)])"
      using lower_hex_plain [of "code_of c div 16"] lower_hex_plain [of "code_of c mod 16"]
      by (intro quoted_plain) auto
    from quoted_append [OF quoted_pair [of "CHR ''u''"] this] show ?thesis by simp
  qed
  ultimately show ?thesis using None by (simp add: json_escape_def quoted_char)
qed (simp add: json_escape_def quoted_pair)

lemma neutral_literal: "quoted t \<Longrightarrow> neutral (CHR 0x22 # t @ [CHR 0x22])"
  by (auto simp: neutral_def quoted_def scanning_def option.map_comp comp_def)

lemma neutral_json_string: "neutral (json_string s)"
  unfolding json_string_def
proof (rule neutral_literal)
  show "quoted (concat (map json_escape s))"
    by (induction s) (simp_all add: quoted_Nil quoted_append quoted_escape)
qed

lemma neutral_join: "neutral sep \<Longrightarrow> (\<And>t. t \<in> set ts \<Longrightarrow> neutral t) \<Longrightarrow> neutral (js_join sep ts)"
  by (induction sep ts rule: js_join.induct) (auto simp: neutral_Nil intro!: neutral_append)

lemma neutral_comma: "neutral '',''" "neutral '':''"
  by (simp_all add: neutral_char plain_char_def)

lemma neutral_json_print:
  assumes "\<And>r. list_all plain_char (num r)"
  shows "neutral (json_print num v)"
  using assms
proof (induction num v rule: json_print.induct [case_names Num Bool Str Arr Obj Undef Null NaN Pos Neg])
  case (Arr num' xs)
  then have "neutral (js_join '','' (map (json_print num') xs))"
    by (intro neutral_join neutral_comma) auto
  then show ?case
    unfolding json_print.simps by (intro neutral_append) (simp_all add: neutral_char plain_char_def)
next
  case (Obj num' ps)
  then show ?case
    unfolding json_print.simps
    by (intro neutral_braces neutral_join neutral_comma)
      (auto intro!: neutral_append neutral_json_string neutral_Cons simp: plain_char_def)
qed (auto intro: neutral_plain neutral_json_string simp: plain_char_def)

lemma scan_object:
  assumes "neutral t"
  shows "scan_braces scan_start (''{'' @ t @ ''}'' @ r) = Some (length t + 2)"
proof -
  have "scan_braces scan_start (''{'' @ t @ ''}'' @ r) = map_option Suc (scan_braces (scanning 1 False) (t @ ''}'' @ r))"
    by (simp add: scan_start_def scanning_def)
  also have "scan_braces (scanning 1 False) (t @ ''}'' @ r) = Some (length t + 1)"
    using assms by (simp add: neutral_def scanning_def)
  finally show ?thesis by simp
qed

lemma index_of_char: "c \<notin> set a \<Longrightarrow> index_of (a @ c # r) [c] = Some (length a)"
  by (induction a) auto

lemma first_object:
  assumes "CHR ''{'' \<notin> set a" and "neutral t"
  shows "first_object_text (a @ ''{'' @ t @ ''}'' @ r) = Some (''{'' @ t @ ''}'')"
  using scan_object [OF assms(2), of r] index_of_char [OF assms(1), of "t @ ''}'' @ r"]
  by (simp add: first_object_text_def)

text \<open>The object text inside the router's proxy logic.\<close>

definition proxy_body :: "string \<Rightarrow> string \<Rightarrow> string" where
  "proxy_body toolName args =
     '' '' @ [CHR 0x22] @ ''__liop_proxy_tool'' @ [CHR 0x22] @ '': '' @ [CHR 0x22] @ toolName @ [CHR 0x22] @ '', '' @
     [CHR 0x22] @ ''__liop_proxy_args'' @ [CHR 0x22] @ '': '' @ args @ '' ''"

lemma proxy_logic_body: "proxy_logic toolName args = ''return '' @ ''{'' @ proxy_body toolName args @ ''}'' @ '';''"
  by (simp add: proxy_logic_def proxy_body_def)

lemma neutral_proxy_body:
  assumes "CHR 0x5C \<notin> set toolName" and "CHR 0x22 \<notin> set toolName" and "neutral args"
  shows "neutral (proxy_body toolName args)"
proof -
  have n: "neutral (CHR 0x22 # ''__liop_proxy_tool'' @ [CHR 0x22])" "neutral (CHR 0x22 # ''__liop_proxy_args'' @ [CHR 0x22])"
    "neutral (CHR 0x22 # toolName @ [CHR 0x22])"
    using assms(1,2) by (intro neutral_literal quoted_plain; simp)+
  have p: "neutral '' ''" "neutral '': ''" "neutral '', ''"
    by (auto intro!: neutral_plain simp: plain_char_def)
  have "proxy_body toolName args =
      '' '' @ (CHR 0x22 # ''__liop_proxy_tool'' @ [CHR 0x22]) @ '': '' @ (CHR 0x22 # toolName @ [CHR 0x22]) @ '', '' @
      (CHR 0x22 # ''__liop_proxy_args'' @ [CHR 0x22]) @ '': '' @ args @ '' ''"
    by (simp add: proxy_body_def)
  also have "neutral \<dots>" by (intro neutral_append n p assms(3))
  finally show ?thesis .
qed

lemma trim_proxy_logic: "js_trim (proxy_logic toolName args) = proxy_logic toolName args"
proof -
  have "proxy_logic toolName args = CHR ''r'' # (''eturn {'' @ proxy_body toolName args @ ''}'') @ [CHR '';'']"
    by (simp add: proxy_logic_body)
  moreover have "\<not> is_space (CHR ''r'')" "\<not> is_space (CHR '';'')" by (simp_all add: is_space_def code_of_def)
  ultimately show ?thesis by (metis trim_bracketed)
qed

lemma proxy_logic_marked: "js_includes (proxy_logic toolName args) ''__liop_proxy_tool''"
  unfolding js_includes_iff
  by (rule exI [of _ "''return { '' @ [CHR 0x22]"]) (simp add: proxy_logic_def)

lemma extract_proxy:
  assumes "CHR 0x5C \<notin> set toolName" and "CHR 0x22 \<notin> set toolName" and "neutral args"
    and "parse (''{'' @ proxy_body toolName args @ ''}'') = Some v" and "truthy (prop_of v ''__liop_proxy_tool'')"
  shows "try_extract_proxy_output parse (utf8 (proxy_logic toolName args)) = Some v"
proof -
  have "first_object_text (proxy_logic toolName args) = Some (''{'' @ proxy_body toolName args @ ''}'')"
    unfolding proxy_logic_body by (rule first_object [OF _ neutral_proxy_body [OF assms(1-3)]]) simp
  then show ?thesis
    using assms(4,5) by (simp add: try_extract_proxy_output_def trim_proxy_logic proxy_logic_marked Let_def)
qed

section \<open>Acceptance\<close>

definition image_hex :: "worker_env \<Rightarrow> bytes \<Rightarrow> string" where
  "image_hex E p = hex_text (derive_logic_image_digest (we_sha256 E) p)"

definition expected_digest :: "worker_env \<Rightarrow> bytes \<Rightarrow> jsval \<Rightarrow> string" where
  "expected_digest E p e =
     text_digest (we_sha256 E) (output_text (we_stringify E)
       (case try_extract_proxy_output (we_parse E) p of None \<Rightarrow> e | Some v \<Rightarrow> v))"

lemma verify_unfold:
  "liop_verify_zk_receipt E p remote r k e \<longleftrightarrow>
     remote \<noteq> [] \<and> remote = image_hex E p \<and> 35 \<le> length r \<and> r ! 0 = 1 \<and>
     (let n = read_be16 (drop 1 r); journal = take n (drop 3 r); sl = drop (3 + n) r
      in length sl = 32 \<and>
         (\<exists>j. we_parse E (utf8_text journal) = Some j \<and> prop_of j ''image_id'' = JStr (image_hex E p) \<and>
            seal_valid E k journal sl \<and>
            (e = JUndef \<or> prop_of j ''output_hash'' = JStr (expected_digest E p e))))"
  unfolding liop_verify_zk_receipt_def verify_zk_receipt_def check_journal_def check_output_def
    image_hex_def expected_digest_def Let_def
  by (auto simp: prop_of_def split: option.splits if_splits)

lemma verify_sealed:
  assumes "length journal < 65536" and "length sl = 32"
  shows "liop_verify_zk_receipt E p remote ([1] @ be16 (length journal) @ journal @ sl) k e \<longleftrightarrow>
     remote \<noteq> [] \<and> remote = image_hex E p \<and>
     (\<exists>j. we_parse E (utf8_text journal) = Some j \<and> prop_of j ''image_id'' = JStr (image_hex E p) \<and>
        seal_valid E k journal sl \<and> (e = JUndef \<or> prop_of j ''output_hash'' = JStr (expected_digest E p e)))"
  unfolding verify_unfold receipt_parts [OF assms(1)] Let_def
  using assms(2) by auto

text \<open>C3: a receipt is accepted under a session secret exactly when it is one version byte, the
  length, a journal and its HMAC under that secret; the journal parses to an object whose image id is
  that of the logic sent, which is also the image id reported, and whose output hash is the digest
  of the expected output.\<close>

theorem receipt_accepted_iff:
  assumes "k \<noteq> []" and "e \<noteq> JUndef"
    and "\<And>m. length (we_hmac E k m) = 32" and "\<And>m. 0 < length (we_sha256 E m)"
  shows "liop_verify_zk_receipt E p remote r (Some k) e \<longleftrightarrow>
     remote = image_hex E p \<and>
     (\<exists>journal j. length journal < 65536 \<and>
        r = [1] @ be16 (length journal) @ journal @ we_hmac E k journal \<and>
        we_parse E (utf8_text journal) = Some j \<and>
        prop_of j ''image_id'' = JStr (image_hex E p) \<and>
        prop_of j ''output_hash'' = JStr (expected_digest E p e))" (is "?l \<longleftrightarrow> ?r")
proof
  assume l: ?l
  let ?n = "read_be16 (drop 1 r)"
  from l obtain j where v: "remote = image_hex E p" "35 \<le> length r" "r ! 0 = 1" "length (drop (3 + ?n) r) = 32"
      "we_parse E (utf8_text (take ?n (drop 3 r))) = Some j" "prop_of j ''image_id'' = JStr (image_hex E p)"
      "seal_valid E (Some k) (take ?n (drop 3 r)) (drop (3 + ?n) r)" "prop_of j ''output_hash'' = JStr (expected_digest E p e)"
    using assms(2) unfolding verify_unfold Let_def by blast
  have s: "drop (3 + ?n) r = we_hmac E k (take ?n (drop 3 r))" using v(7) assms(1) by (simp add: seal_valid_def)
  have len: "length (take ?n (drop 3 r)) = ?n" by (rule receipt_shape(2) [OF v(2-4)])
  have "r = [1] @ be16 ?n @ take ?n (drop 3 r) @ we_hmac E k (take ?n (drop 3 r))"
    using receipt_shape(1) [OF v(2-4)] by (simp only: s)
  with v len read_be16_less [of "drop 1 r"] show ?r
    by (intro conjI exI [of _ "take ?n (drop 3 r)"] exI [of _ j]) (simp_all only: len)
next
  assume ?r
  then obtain journal j where r: "remote = image_hex E p" "length journal < 65536"
      "r = [1] @ be16 (length journal) @ journal @ we_hmac E k journal"
      "we_parse E (utf8_text journal) = Some j" "prop_of j ''image_id'' = JStr (image_hex E p)"
      "prop_of j ''output_hash'' = JStr (expected_digest E p e)" by blast
  have "image_hex E p \<noteq> []"
    using assms(4) length_hex_text [of "derive_logic_image_digest (we_sha256 E) p"]
    by (metis derive_logic_image_digest_def image_hex_def length_0_conv mult_eq_0_iff not_less_zero zero_neq_numeral)
  then show ?l
    using r verify_sealed [OF r(2) assms(3)] by (auto simp: seal_valid_def)
qed

lemma honest_receipt:
  assumes "process_logic_execution E d now ts = Some (Inr r)" and "\<not> wd_isWarmup d"
    and "open_payload E d = Inr ((p, is_wasm p), inputs, secret)" and "stable_payload p"
    and "lr_zk_receipt r = Some receipt"
    and "we_parse E (we_stringify E (journal_of E (lr_image_id r) (dataset_hash E d) (lr_output r) (lr_fuel_consumed r) ts)) =
           Some (journal_of E (lr_image_id r) (dataset_hash E d) (lr_output r) (lr_fuel_consumed r) ts)"
    and "\<And>m. length (we_hmac E secret m) = 32" and "\<And>m. 0 < length (we_sha256 E m)"
    and "try_extract_proxy_output (we_parse E) p = None"
    and "output_text (we_stringify E) e = output_text (we_stringify E) (lr_output r)"
  shows "liop_verify_zk_receipt E p (lr_image_id r) receipt (Some secret) e"
proof -
  from assms(1-3) obtain q out fuel where q: "runnable E (p, is_wasm p) = Inr q"
      and c: "commit_output E d secret q out fuel ts = Some (Inr r)"
    by (auto simp: process_logic_execution_def split: option.splits sum.splits prod.splits)
  let ?img = "hex_text (derive_logic_image_digest (we_sha256 E) (logic_bytes q))"
  let ?journal = "utf8 (we_stringify E (journal_of E (lr_image_id r) (dataset_hash E d) (lr_output r) (lr_fuel_consumed r) ts))"
  from c have seal: "seal_receipt E secret ?journal = Inr receipt" and img: "lr_image_id r = ?img"
    using assms(5)
    by (auto simp: commit_output_def Let_def bind_sum_Inr split: option.splits)
  have hex: "lr_image_id r = image_hex E p"
    unfolding img image_hex_def worker_image_id [OF assms(4) q] by (rule refl)
  have ne: "lr_image_id r \<noteq> []"
    unfolding img using assms(8) length_hex_text [of "derive_logic_image_digest (we_sha256 E) (logic_bytes q)"]
    by (metis derive_logic_image_digest_def length_0_conv mult_eq_0_iff not_less_zero zero_neq_numeral)
  have r: "receipt = [1] @ be16 (length ?journal) @ ?journal @ we_hmac E secret ?journal" and l: "length ?journal < 65536"
    using seal by (auto simp: seal_receipt_def split: if_splits)
  have "prop_of (journal_of E i h o' f t) ''image_id'' = JStr i" for i h o' f t
    by (simp add: journal_of_def prop_of_def get_prop_def)
  moreover have "prop_of (journal_of E i h o' f t) ''output_hash'' = JStr (text_digest (we_sha256 E) (output_text (we_stringify E) o'))" for i h o' f t
    by (simp add: journal_of_def prop_of_def get_prop_def)
  ultimately show ?thesis
    unfolding r verify_sealed [OF l assms(7)]
    using assms(6,9,10) hex ne by (auto simp: seal_valid_def expected_digest_def)
qed

text \<open>A receipt that is accepted for one output is accepted for another exactly when the two have the same digest.\<close>

lemma verify_other_output:
  assumes "liop_verify_zk_receipt E p remote r k e" and "e \<noteq> JUndef" and "e' \<noteq> JUndef"
  shows "liop_verify_zk_receipt E p remote r k e' \<longleftrightarrow> expected_digest E p e' = expected_digest E p e"
  using assms unfolding verify_unfold Let_def by auto

lemma verify_other_text:
  assumes "liop_verify_zk_receipt E p remote r k (JStr t)" and "try_extract_proxy_output (we_parse E) p = None" and "e \<noteq> JUndef"
  shows "liop_verify_zk_receipt E p remote r k e \<longleftrightarrow>
    text_digest (we_sha256 E) (output_text (we_stringify E) e) = text_digest (we_sha256 E) t"
  using verify_other_output [OF assms(1) _ assms(3)] assms(2) by (simp add: expected_digest_def output_text_def)

text \<open>C26: the receipt of an honest worker is accepted by the caller who knows the session secret for an output exactly
  when the text of that output has the digest of the text of what the worker computed. This holds for a payload that is
  its own normal form (the worker digests what it runs, the caller what was sent: they differ for nested
  envelopes) and that is no proxied request (the worker commits to the output, the caller checks the request), when
  JSON reads the journal back and digests and seals have their lengths.\<close>

theorem honest_receipt_accepted:
  assumes "process_logic_execution E d now ts = Some (Inr r)" and "\<not> wd_isWarmup d"
    and "open_payload E d = Inr ((p, is_wasm p), inputs, secret)" and "stable_payload p"
    and "lr_zk_receipt r = Some receipt"
    and "we_parse E (we_stringify E (journal_of E (lr_image_id r) (dataset_hash E d) (lr_output r) (lr_fuel_consumed r) ts)) =
           Some (journal_of E (lr_image_id r) (dataset_hash E d) (lr_output r) (lr_fuel_consumed r) ts)"
    and "\<And>m. length (we_hmac E secret m) = 32" and "\<And>m. 0 < length (we_sha256 E m)"
    and "try_extract_proxy_output (we_parse E) p = None" and "e \<noteq> JUndef"
  shows "liop_verify_zk_receipt E p (lr_image_id r) receipt (Some secret) e \<longleftrightarrow>
    text_digest (we_sha256 E) (output_text (we_stringify E) e) =
      text_digest (we_sha256 E) (output_text (we_stringify E) (lr_output r))"
proof -
  have "liop_verify_zk_receipt E p (lr_image_id r) receipt (Some secret) (JStr (output_text (we_stringify E) (lr_output r)))"
    by (rule honest_receipt [OF assms(1-9)]) (simp add: output_text_def)
  from verify_other_text [OF this assms(9,10)] show ?thesis .
qed

text \<open>For the logic the router sends for a remote tool call, verification does not depend on
  the result received: the digest is compared with that of the request.\<close>

theorem proxied_result_unchecked:
  assumes "CHR 0x5C \<notin> set toolName" and "CHR 0x22 \<notin> set toolName" and "\<And>r. list_all plain_char (num r)"
    and "we_parse E (''{'' @ proxy_body toolName (json_print num args) @ ''}'') = Some v"
    and "truthy (prop_of v ''__liop_proxy_tool'')"
    and "e \<noteq> JUndef" and "e' \<noteq> JUndef"
  shows "liop_verify_zk_receipt E (utf8 (proxy_logic toolName (json_print num args))) remote r k e \<longleftrightarrow>
         liop_verify_zk_receipt E (utf8 (proxy_logic toolName (json_print num args))) remote r k e'"
proof -
  have "neutral (json_print num args)" by (rule neutral_json_print) (rule assms(3))
  then have "try_extract_proxy_output (we_parse E) (utf8 (proxy_logic toolName (json_print num args))) = Some v"
    by (rule extract_proxy [where parse = "we_parse E", OF assms(1,2) _ assms(4,5)])
  then show ?thesis
    using assms(6,7) by (simp add: verify_unfold expected_digest_def)
qed

text \<open>The structural verifier and the worker agree on image id, format, journal and seal when no
  output is compared; the journal field of the structural receipt is not looked at.\<close>

theorem verifiers_agree:
  assumes "\<And>m. 0 < length (we_sha256 E m)"
  shows "zk_verify E \<lparr>zr_proof = r, zr_journal = ignored, zr_imageId = derive_logic_image_digest (we_sha256 E) p\<rparr>
            (derive_logic_image_digest (we_sha256 E) p) k = None \<longleftrightarrow>
         liop_verify_zk_receipt E p (image_hex E p) r k JUndef"
proof -
  have "image_hex E p \<noteq> []"
    using assms length_hex_text [of "derive_logic_image_digest (we_sha256 E) p"]
    by (metis derive_logic_image_digest_def image_hex_def length_0_conv mult_eq_0_iff not_less_zero zero_neq_numeral)
  then show ?thesis
    unfolding verify_unfold zk_verify_def Let_def
    by (auto simp: image_hex_def prop_of_def split: option.splits if_splits)
qed

text \<open>When the policy asks for noise on a small data set, the receipt that is handed to the
  caller carries a journal in clear from which the seed of that noise is read off.\<close>

theorem noise_seed_published:
  assumes "process_logic_execution E d now ts = Some (Inr r)" and "\<not> wd_isWarmup d"
    and "wd_dpConfig d = Some c" and "int (length (records_of d)) < dp_smallDatasetThreshold (merge_config c)"
  shows "\<exists>secret out w h i j. j = journal_of E i h (lr_output r) (lr_fuel_consumed r) ts \<and>
     lr_zk_receipt r = Some ([1] @ be16 (length (utf8 (we_stringify E j))) @ utf8 (we_stringify E j) @
                             we_hmac E secret (utf8 (we_stringify E j))) \<and>
     prop_of j ''dataset_hash'' = JStr h \<and> prop_of j ''image_id'' = JStr i \<and>
     apply_dp_to_output (worker_dp_env E) 0 (erase out) (c\<lparr>dq_seed := Some (h @ '':'' @ i)\<rparr>) (int (length (records_of d))) = Some w \<and>
     lr_output r = sanitize_output (we_fl E) None (fst (fresh 0 w))"
proof -
  from assms(1,2) obtain secret q out fuel where c: "commit_output E d secret q out fuel ts = Some (Inr r)"
    by (auto simp: process_logic_execution_def split: option.splits sum.splits prod.splits)
  have m: "merge_config (c\<lparr>dq_seed := s\<rparr>) = (merge_config c)\<lparr>dp_seed := s\<rparr>" for s
    by (simp add: merge_config_def)
  let ?J = "journal_of E (lr_image_id r) (dataset_hash E d) (lr_output r) (lr_fuel_consumed r) ts"
  let ?j = "utf8 (we_stringify E ?J)"
  from c obtain noisy where noisy: "dp_stage E d (lr_image_id r) out = Some noisy"
      and out: "lr_output r = sanitize_output (we_fl E) None noisy"
      and rec: "lr_zk_receipt r = Some ([1] @ be16 (length ?j) @ ?j @ we_hmac E secret ?j)"
    by (auto simp: commit_output_def Let_def bind_sum_Inr seal_receipt_def split: option.splits if_splits)
  from noisy assms(3,4) obtain w where
      w: "apply_dp_to_output (worker_dp_env E) 0 (erase out)
            (c\<lparr>dq_seed := Some (dataset_hash E d @ '':'' @ lr_image_id r)\<rparr>) (int (length (records_of d))) = Some w"
      and n: "noisy = fst (fresh 0 w)"
    by (auto simp: dp_stage_def Let_def m)
  show ?thesis
    using w out rec unfolding n
    by (intro exI [of _ secret] exI [of _ out] exI [of _ w] exI [of _ "dataset_hash E d"] exI [of _ "lr_image_id r"] exI [of _ ?J])
      (simp add: journal_of_def prop_of_def get_prop_def)
qed

text \<open>In the router's proxy logic the brace scanner finds exactly the object, whatever the
  arguments contain, braces and quotes inside texts included.\<close>

theorem proxy_object_found:
  assumes "CHR 0x5C \<notin> set toolName" and "CHR 0x22 \<notin> set toolName" and "\<And>r. list_all plain_char (num r)"
  shows "first_object_text (js_trim (utf8_text (utf8 (proxy_logic toolName (json_print num args))))) =
           Some (''{'' @ proxy_body toolName (json_print num args) @ ''}'')"
  unfolding utf8_text_utf8 trim_proxy_logic
  unfolding proxy_logic_body by (rule first_object [OF _ neutral_proxy_body [OF assms(1,2) neutral_json_print [OF assms(3)]]]) simp

section \<open>Witnesses\<close>

definition example_journal :: jsval where
  "example_journal =
     JObj [(''image_id'', JStr (hex_text (replicate 32 1))), (''dataset_hash'', JStr (hex_text (replicate 32 1))),
           (''output_hash'', JStr (hex_text (replicate 32 1))), (''fuel'', JNum (Fin 0)), (''ts'', JNum (Fin 5))]"

definition example_worker :: worker_env where
  "example_worker =
     \<lparr>we_sha256 = (\<lambda>m. replicate 32 1), we_hmac = (\<lambda>k m. replicate 32 2),
      we_kem_decap = (\<lambda>c k. Inl []), we_gcm_open = (\<lambda>k n c t. Inl []),
      we_parse = (\<lambda>s. if s = ''j'' then Some example_journal else Some (JObj [(''__liop_proxy_tool'', JStr ''sum'')])),
      we_stringify = (\<lambda>v. ''j''), we_inspect = (\<lambda>b. None),
      we_execute = (\<lambda>p rs is. Inr (TStr ''ok'', Fin 0)), we_fl = Fin, we_randomBytes = (\<lambda>i. [192, 0, 0, 0])\<rparr>"

definition example_task :: worker_data where
  "example_task =
     \<lparr>wd_isWarmup = False, wd_ciphertext = [], wd_secretKeyObj = [], wd_wasmBinary = [0x31], wd_inputs = [],
      wd_records = None, wd_sessionTimestamp = None, wd_isEncrypted = False, wd_aesNonce = None,
      wd_dpConfig = Some \<lparr>dq_epsilon = None, dq_sensitivity = None, dq_smallDatasetThreshold = None, dq_seed = None\<rparr>\<rparr>"

definition example_receipt :: bytes where
  "example_receipt = [1] @ be16 1 @ utf8 ''j'' @ replicate 32 2"

definition example_result :: logic_result where
  "example_result =
     \<lparr>lr_image_id = hex_text (replicate 32 1), lr_output = JStr ''ok'', lr_fuel_consumed = Fin 0,
      lr_zk_receipt = Some example_receipt\<rparr>"

lemma example_open: "open_payload example_worker example_task = Inr (([0x31], is_wasm [0x31]), [], replicate 32 0)"
  by (simp add: open_payload_def example_task_def)

lemma example_digests:
  "we_sha256 example_worker = (\<lambda>m. replicate 32 1)" "we_hmac example_worker = (\<lambda>k m. replicate 32 2)"
  "we_stringify example_worker = (\<lambda>v. ''j'')"
  by (simp_all add: example_worker_def)

lemma example_commits:
  "commit_output example_worker example_task (replicate 32 0) q (TStr ''ok'') (Fin 0) 5 = Some (Inr example_result)"
proof -
  have dp: "dp_stage example_worker example_task i (TStr ''ok'') = Some (TStr ''ok'')" for i
    by (simp add: dp_stage_def example_task_def records_of_def merge_config_def default_to_def default_dp_config_def
        apply_dp_to_output_def Let_def)
  have img: "derive_logic_image_digest (\<lambda>m. replicate 32 1) m = replicate 32 1" for m
    by (simp add: derive_logic_image_digest_def)
  have seal: "seal_receipt example_worker k (utf8 ''j'') = Inr example_receipt" for k
  proof -
    have "length (utf8 ''j'') = 1" by (simp add: utf8_def utf8_char_def code_of_def)
    then show ?thesis by (simp add: seal_receipt_def example_receipt_def example_digests)
  qed
  show ?thesis
    by (simp add: commit_output_def Let_def dp img seal example_digests example_result_def sanitize_output_def)
qed

lemma example_runs: "process_logic_execution example_worker example_task 5 5 = Some (Inr example_result)"
proof -
  have run: "runnable example_worker ([0x31], is_wasm [0x31]) = Inr (Inr (normalize_logic_source (utf8_text [0x31])))"
    by (simp add: runnable_def is_wasm_def)
  have exec: "we_execute example_worker = (\<lambda>p rs is. Inr (TStr ''ok'', Fin 0))"
    and task: "\<not> wd_isWarmup example_task" "wd_sessionTimestamp example_task = None"
    by (simp_all add: example_worker_def example_task_def)
  show ?thesis
    by (simp only: process_logic_execution_def task session_error_def example_open run exec example_commits
        if_False option.case sum.case prod.case simp_thms)
qed

lemma one_text: "utf8_text [0x31] = ''1''" "js_trim ''1'' = ''1''"
  by code_simp+

lemma example_stable: "stable_payload [0x31]"
proof -
  have "normalize_logic_source ''1'' = ''1''" by (simp add: normalize_trimmed one_text)
  then show ?thesis unfolding stable_payload_def one_text Let_def by (simp add: utf8_def utf8_char_def code_of_def)
qed

lemma example_not_proxy: "try_extract_proxy_output parse [0x31] = None"
  unfolding try_extract_proxy_output_def one_text Let_def by (simp add: js_includes_def)

theorem receipt_accepted_iff_witness:
  "liop_verify_zk_receipt example_worker [0x31] (lr_image_id example_result) example_receipt (Some [7]) (JStr ''ok'') \<longleftrightarrow>
     lr_image_id example_result = image_hex example_worker [0x31] \<and>
     (\<exists>journal j. length journal < 65536 \<and>
        example_receipt = [1] @ be16 (length journal) @ journal @ we_hmac example_worker [7] journal \<and>
        we_parse example_worker (utf8_text journal) = Some j \<and>
        prop_of j ''image_id'' = JStr (image_hex example_worker [0x31]) \<and>
        prop_of j ''output_hash'' = JStr (expected_digest example_worker [0x31] (JStr ''ok'')))"
  by (rule receipt_accepted_iff) (simp_all add: example_digests)

theorem honest_receipt_accepted_witness:
  "liop_verify_zk_receipt example_worker [0x31] (lr_image_id example_result) example_receipt (Some (replicate 32 0)) (JStr ''ok'')"
proof -
  have "journal_of example_worker (lr_image_id example_result) (dataset_hash example_worker example_task)
      (lr_output example_result) (lr_fuel_consumed example_result) 5 = example_journal"
    by (simp add: journal_of_def example_result_def dataset_hash_def text_digest_def example_digests example_journal_def)
  then have "we_parse example_worker (we_stringify example_worker (journal_of example_worker (lr_image_id example_result)
      (dataset_hash example_worker example_task) (lr_output example_result) (lr_fuel_consumed example_result) 5)) =
    Some (journal_of example_worker (lr_image_id example_result)
      (dataset_hash example_worker example_task) (lr_output example_result) (lr_fuel_consumed example_result) 5)"
    by (simp add: example_worker_def)
  from honest_receipt_accepted [OF example_runs _ example_open example_stable _ this, of example_receipt "JStr ''ok''"]
  show ?thesis by (simp add: example_task_def example_result_def example_digests example_not_proxy text_digest_def)
qed

theorem proxied_result_unchecked_witness:
  "liop_verify_zk_receipt example_worker (utf8 (proxy_logic ''sum'' (json_print (\<lambda>r. ''0'') (JArr [JNum (Fin 1)])))) ''id'' [] None (JStr ''6'') \<longleftrightarrow>
   liop_verify_zk_receipt example_worker (utf8 (proxy_logic ''sum'' (json_print (\<lambda>r. ''0'') (JArr [JNum (Fin 1)])))) ''id'' [] None (JStr ''9999'')"
  by (rule proxied_result_unchecked [where v = "JObj [(''__liop_proxy_tool'', JStr ''sum'')]"])
    (simp_all add: plain_char_def example_worker_def truthy_def prop_of_def get_prop_def)

theorem verifiers_agree_witness:
  "zk_verify example_worker \<lparr>zr_proof = example_receipt, zr_journal = [], zr_imageId = derive_logic_image_digest (we_sha256 example_worker) [0x31]\<rparr>
      (derive_logic_image_digest (we_sha256 example_worker) [0x31]) (Some [7]) = None \<longleftrightarrow>
   liop_verify_zk_receipt example_worker [0x31] (image_hex example_worker [0x31]) example_receipt (Some [7]) JUndef"
  by (rule verifiers_agree) (simp add: example_digests)

theorem noise_seed_published_witness:
  "\<exists>secret out w h i j. j = journal_of example_worker i h (lr_output example_result) (lr_fuel_consumed example_result) 5 \<and>
     lr_zk_receipt example_result = Some ([1] @ be16 (length (utf8 (we_stringify example_worker j))) @ utf8 (we_stringify example_worker j) @
                             we_hmac example_worker secret (utf8 (we_stringify example_worker j))) \<and>
     prop_of j ''dataset_hash'' = JStr h \<and> prop_of j ''image_id'' = JStr i \<and>
     apply_dp_to_output (worker_dp_env example_worker) 0 (erase out)
       (\<lparr>dq_epsilon = None, dq_sensitivity = None, dq_smallDatasetThreshold = None, dq_seed = None\<rparr>\<lparr>dq_seed := Some (h @ '':'' @ i)\<rparr>)
       (int (length (records_of example_task))) = Some w \<and>
     lr_output example_result = sanitize_output (we_fl example_worker) None (fst (fresh 0 w))"
  by (rule noise_seed_published [OF example_runs])
    (simp_all add: example_task_def records_of_def merge_config_def default_to_def default_dp_config_def)

theorem proxy_object_found_witness:
  "first_object_text (js_trim (utf8_text (utf8 (proxy_logic ''sum'' (json_print (\<lambda>r. ''0'') (JStr ''}{x''))))))
    = Some (''{'' @ proxy_body ''sum'' (json_print (\<lambda>r. ''0'') (JStr ''}{x'')) @ ''}'')"
  by (rule proxy_object_found) (simp_all add: plain_char_def)

end
