(* ===== verification/AuditLog.thy ===== *)
theory AuditLog
  imports Json "HOL-Library.Char_ord" "HOL-Library.List_Lexorder"
begin

text \<open>
  The audit log of \<open>security/audit-logger.ts\<close>: entries chained by SHA-256 over their canonical JSON
  text, kept in memory and appended to a file of lines. An entry is the object it is, a list of
  properties, since entries read from a file are not checked. SHA-256 (\<open>sha\<close>), the decimal text of a
  number (\<open>num\<close>), \<open>JSON.parse\<close>, the clock and the random identifiers are parameters; the file is its
  content. A line of the file that parses to something other than an object is not modelled: loading
  it is taken to throw.
\<close>

type_synonym entry = "(string \<times> jsval) list"

definition genesis_hash :: string where
  "genesis_hash = replicate 64 (CHR ''0'')"

text \<open>Sorting by code units.\<close>

definition canonicalize :: "(real \<Rightarrow> string) \<Rightarrow> entry \<Rightarrow> string" where
  "canonicalize num obj = json_print num (JObj (sort_key fst obj))"

definition compute_entry_hash :: "(bytes \<Rightarrow> bytes) \<Rightarrow> (real \<Rightarrow> string) \<Rightarrow> entry \<Rightarrow> string" where
  "compute_entry_hash sha num e = hex_text (sha (utf8 (canonicalize num e)))"

record audit_params =
  ap_timestamp :: "string option"
  ap_traceId :: "string option"
  ap_agentDid :: string
  ap_peerId :: string
  ap_toolName :: string
  ap_datasetHash :: "string option"
  ap_fuelConsumed :: jsnum
  ap_outputHash :: "string option"
  ap_zkReceiptSig :: "string option"
  ap_status :: string

record audit_logger =
  al_entries :: "entry list"
  al_lastEntryHash :: jsval
  al_filePath :: bool                  \<comment> \<open>whether the logger writes to a file\<close>

text \<open>\<open>x || d\<close> on an optional text.\<close>

definition or_else :: "string option \<Rightarrow> string \<Rightarrow> string" where
  "or_else x d = (case x of None \<Rightarrow> d | Some s \<Rightarrow> if s = [] then d else s)"

definition empty_digest :: "(bytes \<Rightarrow> bytes) \<Rightarrow> string" where
  "empty_digest sha = hex_text (sha [])"

text \<open>The fresh values of one call: the UUID, the current time, the random trace id; and whether the file
  system takes the line appended to the file.\<close>

record nonces =
  nc_uuid :: string
  nc_now :: string
  nc_trace :: string
  nc_written :: bool

definition partial_entry :: "(bytes \<Rightarrow> bytes) \<Rightarrow> jsval \<Rightarrow> nonces \<Rightarrow> audit_params \<Rightarrow> entry" where
  "partial_entry sha lastHash r p =
     [(''id'', JStr (nc_uuid r)), (''timestamp'', JStr (or_else (ap_timestamp p) (nc_now r))),
      (''traceId'', JStr (or_else (ap_traceId p) (nc_trace r))), (''agentDid'', JStr (ap_agentDid p)),
      (''peerId'', JStr (ap_peerId p)), (''toolName'', JStr (ap_toolName p)),
      (''datasetHash'', JStr (or_else (ap_datasetHash p) (empty_digest sha))),
      (''fuelConsumed'', JNum (ap_fuelConsumed p)),
      (''outputHash'', JStr (or_else (ap_outputHash p) (empty_digest sha))),
      (''zkReceiptSig'', JStr (or_else (ap_zkReceiptSig p) [])), (''status'', JStr (ap_status p)),
      (''prevEntryHash'', lastHash)]"

definition entry_line :: "(real \<Rightarrow> string) \<Rightarrow> entry \<Rightarrow> string" where
  "entry_line num e = json_print num (JObj e) @ [CHR 0x0A]"

text \<open>The logger after the call, and the content of its file. When the line cannot be appended the call raises,
  but the entry is in memory and the next one is chained to it.\<close>

definition record_execution ::
    "(bytes \<Rightarrow> bytes) \<Rightarrow> (real \<Rightarrow> string) \<Rightarrow> nonces \<Rightarrow> audit_params \<Rightarrow> audit_logger \<times> string \<Rightarrow> audit_logger \<times> string" where
  "record_execution sha num r p S =
     (case S of (L, file) \<Rightarrow>
       (let partial = partial_entry sha (al_lastEntryHash L) r p;
            entryHash = compute_entry_hash sha num partial;
            full = partial @ [(''entryHash'', JStr entryHash)]
        in (L\<lparr>al_entries := al_entries L @ [full], al_lastEntryHash := JStr entryHash\<rparr>,
            if al_filePath L \<and> nc_written r then file @ entry_line num full else file)))"

definition get_entry_count :: "audit_logger \<Rightarrow> nat" where
  "get_entry_count L = length (al_entries L)"

definition export_jsonl :: "(real \<Rightarrow> string) \<Rightarrow> audit_logger \<Rightarrow> string" where
  "export_jsonl num L = js_join [CHR 0x0A] (map (\<lambda>e. json_print num (JObj e)) (al_entries L))"

section \<open>Verification\<close>

datatype broken_reason = BrokenChain jsval jsval | TamperedEntry string jsval

record integrity =
  in_valid :: bool
  in_totalEntries :: nat
  in_broken :: "(nat \<times> broken_reason) option"

definition without_hash :: "entry \<Rightarrow> entry" where
  "without_hash e = filter (\<lambda>p. fst p \<noteq> ''entryHash'') e"

fun find_broken :: "(bytes \<Rightarrow> bytes) \<Rightarrow> (real \<Rightarrow> string) \<Rightarrow> jsval \<Rightarrow> nat \<Rightarrow> entry list \<Rightarrow> (nat \<times> broken_reason) option" where
  "find_broken sha num expectedPrevHash i [] = None"
| "find_broken sha num expectedPrevHash i (e # es) =
     (if get_prop e ''prevEntryHash'' \<noteq> expectedPrevHash
      then Some (i, BrokenChain expectedPrevHash (get_prop e ''prevEntryHash''))
      else
        (let recalculated = compute_entry_hash sha num (without_hash e)
         in if JStr recalculated \<noteq> get_prop e ''entryHash''
            then Some (i, TamperedEntry recalculated (get_prop e ''entryHash''))
            else find_broken sha num (get_prop e ''entryHash'') (i + 1) es))"

definition verify_integrity :: "(bytes \<Rightarrow> bytes) \<Rightarrow> (real \<Rightarrow> string) \<Rightarrow> audit_logger \<Rightarrow> integrity" where
  "verify_integrity sha num L =
     (let b = find_broken sha num (JStr genesis_hash) 0 (al_entries L)
      in \<lparr>in_valid = (b = None), in_totalEntries = length (al_entries L), in_broken = b\<rparr>)"

section \<open>The file\<close>

text \<open>\<open>content.split("\n")\<close>.\<close>

fun split_lines :: "string \<Rightarrow> string list" where
  "split_lines [] = [[]]"
| "split_lines (c # s) =
     (if c = CHR 0x0A then [] # split_lines s
      else case split_lines s of [] \<Rightarrow> [[c]] | l # ls \<Rightarrow> (c # l) # ls)"

fun parse_entries :: "json_parser \<Rightarrow> string list \<Rightarrow> entry list option" where
  "parse_entries parse [] = Some []"
| "parse_entries parse (l # ls) =
     (case parse l of
        Some (JObj e) \<Rightarrow> map_option (\<lambda>es. e # es) (parse_entries parse ls)
      | _ \<Rightarrow> None)"

definition load_from_file :: "json_parser \<Rightarrow> string \<Rightarrow> audit_logger \<Rightarrow> audit_logger option" where
  "load_from_file parse content L =
     map_option (\<lambda>es. L\<lparr>al_entries := al_entries L @ es,
                        al_lastEntryHash := (if es = [] then al_lastEntryHash L else get_prop (last es) ''entryHash'')\<rparr>)
       (parse_entries parse (filter (\<lambda>l. js_trim l \<noteq> []) (split_lines content)))"

text \<open>The constructor: with a path, the file is loaded when it exists. \<open>None\<close>: it throws.\<close>

definition new_logger :: "json_parser \<Rightarrow> bool \<Rightarrow> string option \<Rightarrow> audit_logger option" where
  "new_logger parse filePath file =
     (let L = \<lparr>al_entries = [], al_lastEntryHash = JStr genesis_hash, al_filePath = filePath\<rparr>
      in case file of None \<Rightarrow> Some L
         | Some content \<Rightarrow> if filePath then load_from_file parse content L else Some L)"

section \<open>Chains\<close>

fun chain_end :: "jsval \<Rightarrow> entry list \<Rightarrow> jsval" where
  "chain_end h [] = h"
| "chain_end h (e # es) = chain_end (get_prop e ''entryHash'') es"

definition next_broken :: "(bytes \<Rightarrow> bytes) \<Rightarrow> (real \<Rightarrow> string) \<Rightarrow> jsval \<Rightarrow> nat \<Rightarrow> entry list \<Rightarrow> entry list \<Rightarrow> (nat \<times> broken_reason) option" where
  "next_broken sha num h i es fs =
     (case find_broken sha num h i es of None \<Rightarrow> find_broken sha num (chain_end h es) (i + length es) fs | Some b \<Rightarrow> Some b)"

lemma find_broken_append: "find_broken sha num h i (es @ fs) = next_broken sha num h i es fs"
proof (induction es arbitrary: h i)
  case (Cons e es)
  show ?case
    by (simp add: next_broken_def Let_def) (auto simp: Cons.IH next_broken_def split: option.split)
qed (simp add: next_broken_def)

lemma chain_end_snoc [simp]: "chain_end h (es @ [e]) = get_prop e ''entryHash''"
  by (induction es arbitrary: h) auto

lemma chain_end_last: "es \<noteq> [] \<Longrightarrow> chain_end h es = get_prop (last es) ''entryHash''"
  by (metis append_butlast_last_id chain_end_snoc)

text \<open>What every operation keeps: the remembered hash is that of the last entry.\<close>

definition linked :: "audit_logger \<Rightarrow> bool" where
  "linked L \<longleftrightarrow> al_lastEntryHash L = chain_end (JStr genesis_hash) (al_entries L)"

lemma new_logger_linked: "new_logger parse fp file = Some L \<Longrightarrow> linked L"
  by (auto simp: new_logger_def load_from_file_def linked_def chain_end_last Let_def split: option.splits if_splits)

text \<open>A run of calls.\<close>

definition run_calls ::
    "(bytes \<Rightarrow> bytes) \<Rightarrow> (real \<Rightarrow> string) \<Rightarrow> (nonces \<times> audit_params) list \<Rightarrow> audit_logger \<times> string \<Rightarrow> audit_logger \<times> string" where
  "run_calls sha num cs S = fold (\<lambda>(r, p). record_execution sha num r p) cs S"

definition full_entry :: "(bytes \<Rightarrow> bytes) \<Rightarrow> (real \<Rightarrow> string) \<Rightarrow> jsval \<Rightarrow> nonces \<Rightarrow> audit_params \<Rightarrow> entry" where
  "full_entry sha num h r p =
     partial_entry sha h r p @ [(''entryHash'', JStr (compute_entry_hash sha num (partial_entry sha h r p)))]"

lemma full_entry_props:
  "get_prop (full_entry sha num h r p) ''prevEntryHash'' = h"
  "get_prop (full_entry sha num h r p) ''entryHash'' = JStr (compute_entry_hash sha num (partial_entry sha h r p))"
  "without_hash (full_entry sha num h r p) = partial_entry sha h r p"
  by (simp_all add: full_entry_def partial_entry_def get_prop_def without_hash_def)

lemma record_execution_eq:
  "record_execution sha num r p (L, file) =
     (L\<lparr>al_entries := al_entries L @ [full_entry sha num (al_lastEntryHash L) r p],
        al_lastEntryHash := JStr (compute_entry_hash sha num (partial_entry sha (al_lastEntryHash L) r p))\<rparr>,
      if al_filePath L \<and> nc_written r then file @ entry_line num (full_entry sha num (al_lastEntryHash L) r p) else file)"
  by (simp add: record_execution_def full_entry_def Let_def)

lemma record_linked: "linked L \<Longrightarrow> linked (fst (record_execution sha num r p (L, file)))"
  by (simp add: record_execution_eq linked_def full_entry_props)

lemma record_verdict:
  assumes "linked L"
  shows "find_broken sha num (JStr genesis_hash) 0 (al_entries (fst (record_execution sha num r p (L, file)))) =
         find_broken sha num (JStr genesis_hash) 0 (al_entries L)"
  using assms
  by (simp add: record_execution_eq find_broken_append next_broken_def linked_def full_entry_props Let_def split: option.split)

lemma run_calls_simps [simp]:
  "run_calls sha num [] S = S"
  "run_calls sha num ((r, p) # cs) S = run_calls sha num cs (record_execution sha num r p S)"
  by (simp_all add: run_calls_def)

lemma run_verdict:
  "linked L \<Longrightarrow>
   find_broken sha num (JStr genesis_hash) 0 (al_entries (fst (run_calls sha num cs (L, out)))) =
     find_broken sha num (JStr genesis_hash) 0 (al_entries L) \<and>
   length (al_entries (fst (run_calls sha num cs (L, out)))) = length (al_entries L) + length cs"
proof (induction cs arbitrary: L out)
  case (Cons c cs)
  obtain r p where c: "c = (r, p)" by (cases c)
  obtain L' out' where s: "record_execution sha num r p (L, out) = (L', out')" by (cases "record_execution sha num r p (L, out)")
  have "length (al_entries L') = length (al_entries L) + 1" using s by (auto simp: record_execution_eq)
  moreover have "linked L'" using record_linked [OF Cons.prems, of sha num r p out] s by simp
  moreover have "find_broken sha num (JStr genesis_hash) 0 (al_entries L') = find_broken sha num (JStr genesis_hash) 0 (al_entries L)"
    using record_verdict [OF Cons.prems, of sha num r p out] s by simp
  ultimately show ?case using Cons.IH [of L' out'] by (simp add: c s)
qed simp

section \<open>Canonical texts determine entries\<close>

text \<open>The entries of this program: the fields of \<open>AuditEntry\<close>, a number in \<open>fuelConsumed\<close> and texts
  elsewhere. Numbers are compared through their decimal text.\<close>

definition audit_fields :: "string list" where
  "audit_fields = [''id'', ''timestamp'', ''traceId'', ''agentDid'', ''peerId'', ''toolName'', ''datasetHash'',
     ''fuelConsumed'', ''outputHash'', ''zkReceiptSig'', ''status'', ''prevEntryHash'']"

definition field_ok :: "string \<times> jsval \<Rightarrow> bool" where
  "field_ok p = (if fst p = ''fuelConsumed'' then (\<exists>x. snd p = JNum x) else (\<exists>s. snd p = JStr s))"

definition well_formed :: "entry \<Rightarrow> bool" where
  "well_formed e \<longleftrightarrow> map fst (without_hash e) = audit_fields \<and> list_all field_ok (without_hash e)"

definition same_value :: "(real \<Rightarrow> string) \<Rightarrow> jsval \<Rightarrow> jsval \<Rightarrow> bool" where
  "same_value num v w \<longleftrightarrow> v = w \<or> (\<exists>x y. v = JNum x \<and> w = JNum y \<and> json_print num v = json_print num w)"

definition no_separator :: "char \<Rightarrow> bool" where
  "no_separator c \<longleftrightarrow> c \<noteq> CHR '','' \<and> c \<noteq> CHR ''}''"

lemma take_until_separator:
  "\<not> no_separator c \<Longrightarrow> list_all no_separator s \<Longrightarrow>
   takeWhile no_separator (s @ c # r) = s \<and> dropWhile no_separator (s @ c # r) = c # r"
  by (induction s) auto

lemma until_separator:
  assumes "\<not> no_separator c" and "\<not> no_separator c'" and "list_all no_separator s" and "list_all no_separator t"
    and "s @ c # r = t @ c' # r'"
  shows "s = t \<and> c = c' \<and> r = r'"
  using take_until_separator [OF assms(1,3), of r] take_until_separator [OF assms(2,4), of r'] assms(5)
  by (metis list.inject)

definition separator_free :: "(real \<Rightarrow> string) \<Rightarrow> bool" where
  "separator_free num \<longleftrightarrow> (\<forall>r. list_all no_separator (num r))"

lemma number_text: "separator_free num \<Longrightarrow> list_all no_separator (json_print num (JNum x))"
  by (cases x) (auto simp: separator_free_def no_separator_def)

lemma value_determined:
  assumes "separator_free num" and "\<not> no_separator c" and "\<not> no_separator c'"
    and "(\<exists>x y. v = JNum x \<and> w = JNum y) \<or> (\<exists>s t. v = JStr s \<and> w = JStr t)"
    and "json_print num v @ c # r = json_print num w @ c' # r'"
  shows "same_value num v w \<and> c = c' \<and> r = r'"
  using assms(4)
proof
  assume "\<exists>x y. v = JNum x \<and> w = JNum y"
  then obtain x y where n: "v = JNum x" "w = JNum y" by blast
  from until_separator [OF assms(2,3) number_text [OF assms(1)] number_text [OF assms(1)] assms(5) [unfolded n]]
  show ?thesis by (auto simp: same_value_def n)
next
  assume "\<exists>s t. v = JStr s \<and> w = JStr t"
  then obtain s t where n: "v = JStr s" "w = JStr t" by blast
  from assms(5) have "json_string s @ c # r = json_string t @ c' # r'" by (simp add: n)
  from json_string_determines [OF this] show ?thesis by (simp add: same_value_def n)
qed

definition pair_text :: "(real \<Rightarrow> string) \<Rightarrow> string \<times> jsval \<Rightarrow> string" where
  "pair_text num p = json_string (fst p) @ '':'' @ json_print num (snd p)"

lemma pair_determined:
  assumes "separator_free num" and "\<not> no_separator c" and "\<not> no_separator c'"
    and "field_ok p" and "field_ok q" and "pair_text num p @ c # r = pair_text num q @ c' # r'"
  shows "fst p = fst q \<and> same_value num (snd p) (snd q) \<and> c = c' \<and> r = r'"
proof -
  from assms(6) have "json_string (fst p) @ '':'' @ json_print num (snd p) @ c # r =
      json_string (fst q) @ '':'' @ json_print num (snd q) @ c' # r'" by (simp add: pair_text_def)
  from json_string_determines [OF this] have k: "fst p = fst q" and
    v: "json_print num (snd p) @ c # r = json_print num (snd q) @ c' # r'" by simp_all
  from k assms(4,5) have "(\<exists>x y. snd p = JNum x \<and> snd q = JNum y) \<or> (\<exists>s t. snd p = JStr s \<and> snd q = JStr t)"
    by (auto simp: field_ok_def split: if_splits)
  from value_determined [OF assms(1-3) this v] k show ?thesis by simp
qed

lemma join_determined:
  assumes "separator_free num"
  shows "list_all field_ok ps \<Longrightarrow> list_all field_ok qs \<Longrightarrow> length ps = length qs \<Longrightarrow>
    js_join '','' (map (pair_text num) ps) @ ''}'' = js_join '','' (map (pair_text num) qs) @ ''}'' \<Longrightarrow>
    list_all2 (\<lambda>p q. fst p = fst q \<and> same_value num (snd p) (snd q)) ps qs"
proof (induction ps arbitrary: qs)
  case (Cons p ps)
  then obtain q qs' where q: "qs = q # qs'" by (cases qs) auto
  show ?case
  proof (cases ps)
    case Nil
    with Cons q have qn: "qs' = []" by simp
    from Cons.prems Nil q qn have "pair_text num p @ CHR ''}'' # [] = pair_text num q @ CHR ''}'' # []" by simp
    from pair_determined [OF assms _ _ _ _ this] Cons.prems q show ?thesis by (simp add: Nil qn no_separator_def)
  next
    case (Cons p2 ps2)
    note ps = this
    with Cons.prems q obtain q2 qs2 where q2: "qs' = q2 # qs2" by (cases qs') auto
    let ?r = "js_join '','' (map (pair_text num) ps) @ ''}''" and ?r' = "js_join '','' (map (pair_text num) qs') @ ''}''"
    from Cons.prems(4) have "pair_text num p @ CHR '','' # ?r = pair_text num q @ CHR '','' # ?r'"
      by (simp add: q ps q2)
    from pair_determined [OF assms _ _ _ _ this] Cons.prems(1,2)
    have "fst p = fst q \<and> same_value num (snd p) (snd q)" and "?r = ?r'" by (simp_all add: q no_separator_def)
    with Cons.IH [of qs'] Cons.prems show ?thesis by (simp add: q)
  qed
qed simp

lemma distinct_fields: "distinct audit_fields"
  by (simp add: audit_fields_def)

lemma map_fst_sort:
  fixes xs :: entry
  assumes "distinct (map fst xs)"
  shows "map fst (sort_key fst xs) = sort (map fst xs)"
proof (rule sorted_distinct_set_unique)
  show "distinct (map fst (sort_key fst xs))" using assms by (simp add: distinct_map)
qed (use assms in simp_all)

lemma sorted_entry:
  assumes "well_formed e"
  shows "map fst (sort_key fst (without_hash e)) = sort audit_fields" and "list_all field_ok (sort_key fst (without_hash e))"
proof -
  have "map fst (without_hash e) = audit_fields" using assms by (simp add: well_formed_def)
  with map_fst_sort [of "without_hash e"] distinct_fields
  show "map fst (sort_key fst (without_hash e)) = sort audit_fields" by simp
  show "list_all field_ok (sort_key fst (without_hash e))" using assms by (simp add: well_formed_def list_all_iff)
qed

lemma not_undefined_field: "field_ok p \<Longrightarrow> not_undefined (snd p)"
  by (auto simp: field_ok_def not_undefined_def split: if_splits)

lemma canonical_text:
  assumes "list_all field_ok ps"
  shows "json_print num (JObj ps) = ''{'' @ js_join '','' (map (pair_text num) ps) @ ''}''"
proof -
  have "filter (\<lambda>p. not_undefined (snd p)) ps = ps"
    using assms not_undefined_field by (simp add: list_all_iff filter_id_conv)
  then show ?thesis by (simp add: pair_text_def cong: map_cong)
qed

lemma same_lookup:
  "list_all2 (\<lambda>p q. fst p = fst q \<and> R (snd p) (snd q)) ps qs \<Longrightarrow>
   rel_option R (map_of ps k) (map_of qs k)"
  by (induction rule: list_all2_induct) auto

lemma map_of_sort: "distinct (map fst xs) \<Longrightarrow> map_of (sort_key fst xs) k = map_of xs k"
  by (rule map_of_inject_set [THEN iffD2, THEN fun_cong])
    (simp_all add: distinct_map inj_on_def)

definition same_fields :: "(real \<Rightarrow> string) \<Rightarrow> entry \<Rightarrow> entry \<Rightarrow> bool" where
  "same_fields num e e' \<longleftrightarrow> (\<forall>k. k \<noteq> ''entryHash'' \<longrightarrow> same_value num (get_prop e k) (get_prop e' k))"

lemma get_prop_without_hash: "k \<noteq> ''entryHash'' \<Longrightarrow> get_prop (without_hash e) k = get_prop e k"
  by (induction e) (auto simp: get_prop_def without_hash_def)

lemma canonical_determines:
  assumes "separator_free num" and "well_formed e" and "well_formed e'"
    and "canonicalize num (without_hash e) = canonicalize num (without_hash e')"
  shows "same_fields num e e'"
proof -
  let ?p = "sort_key fst (without_hash e)" and ?q = "sort_key fst (without_hash e')"
  note p = sorted_entry [OF assms(2)] and q = sorted_entry [OF assms(3)]
  have "js_join '','' (map (pair_text num) ?p) @ ''}'' = js_join '','' (map (pair_text num) ?q) @ ''}''"
    using assms(4) unfolding canonicalize_def canonical_text [OF p(2)] canonical_text [OF q(2)] by simp
  moreover have "length ?p = length ?q" using p(1) q(1) by (metis length_map)
  ultimately have rel: "list_all2 (\<lambda>x y. fst x = fst y \<and> same_value num (snd x) (snd y)) ?p ?q"
    using join_determined [OF assms(1) p(2) q(2)] by blast
  have d: "distinct (map fst (without_hash e))" "distinct (map fst (without_hash e'))"
    using assms(2,3) distinct_fields by (simp_all add: well_formed_def)
  show ?thesis unfolding same_fields_def
  proof (intro allI impI)
    fix k :: string
    assume k: "k \<noteq> ''entryHash''"
    from same_lookup [OF rel, of k] have "rel_option (same_value num) (map_of (without_hash e) k) (map_of (without_hash e') k)"
      by (simp add: map_of_sort d)
    then have "same_value num (get_prop (without_hash e) k) (get_prop (without_hash e') k)"
      by (cases "map_of (without_hash e) k"; cases "map_of (without_hash e') k") (auto simp: get_prop_def same_value_def)
    with k show "same_value num (get_prop e k) (get_prop e' k)" by (simp add: get_prop_without_hash)
  qed
qed

section \<open>Reading a file back\<close>

lemma split_line: "CHR 0x0A \<notin> set l \<Longrightarrow> split_lines (l @ CHR 0x0A # s) = l # split_lines s"
  by (induction l) auto

lemma line_not_blank: "js_trim (json_print num (JObj e)) \<noteq> []"
proof -
  have "\<not> is_space (CHR ''{'')" "\<not> is_space (CHR ''}'')" by (simp_all add: is_space_def code_of_def)
  from trim_bracketed [OF this] show ?thesis by simp
qed

lemma read_lines:
  assumes "\<And>r. CHR 0x0A \<notin> set (num r)" and "\<And>e. e \<in> set es \<Longrightarrow> parse (json_print num (JObj e)) = Some (JObj e)"
  shows "parse_entries parse (filter (\<lambda>l. js_trim l \<noteq> []) (split_lines (concat (map (entry_line num) es)))) = Some es"
  using assms(2)
proof (induction es)
  case Nil
  then show ?case by (simp add: js_trim_def trim_start_def trim_end_def)
next
  case (Cons e es)
  have "CHR 0x0A \<notin> set (json_print num (JObj e))" by (rule newline_free_print) (rule assms(1))
  from split_line [OF this] have "split_lines (entry_line num e @ s) = json_print num (JObj e) # split_lines s" for s
    unfolding entry_line_def append_assoc by simp
  then show ?case using Cons line_not_blank [of num e] by (simp del: json_print.simps)
qed

lemma run_file:
  "al_filePath L \<Longrightarrow> list_all (\<lambda>(r, p). nc_written r) cs \<Longrightarrow>
   \<exists>es. al_entries (fst (run_calls sha num cs (L, out))) = al_entries L @ es \<and>
        snd (run_calls sha num cs (L, out)) = out @ concat (map (entry_line num) es) \<and>
        al_filePath (fst (run_calls sha num cs (L, out)))"
proof (induction cs arbitrary: L out)
  case (Cons c cs)
  obtain r p where c: "c = (r, p)" by (cases c)
  let ?e = "full_entry sha num (al_lastEntryHash L) r p"
  obtain L' out' where s: "record_execution sha num r p (L, out) = (L', out')" by (cases "record_execution sha num r p (L, out)")
  from s Cons.prems have L: "al_entries L' = al_entries L @ [?e]" "out' = out @ entry_line num ?e" "al_filePath L'"
    by (auto simp: record_execution_eq c)
  have "list_all (\<lambda>(r, p). nc_written r) cs" using Cons.prems(2) by simp
  from Cons.IH [OF L(3) this, of out'] L(1,2) show ?case by (fastforce simp: c s)
qed simp

lemma run_linked: "linked L \<Longrightarrow> linked (fst (run_calls sha num cs (L, out)))"
proof (induction cs arbitrary: L out)
  case (Cons c cs)
  obtain r p where c: "c = (r, p)" by (cases c)
  obtain L' out' where s: "record_execution sha num r p (L, out) = (L', out')" by (cases "record_execution sha num r p (L, out)")
  have "linked L'" using record_linked [OF Cons.prems, of sha num r p out] s by simp
  from Cons.IH [OF this, of out'] show ?case by (simp add: c s)
qed simp

section \<open>Properties\<close>

text \<open>Recording never changes the verdict on a log: however the logger was started, after any
  calls the check still reports the same broken entry, or none, and counts the new entries. So a log
  begun without a file, or from a file that verifies, verifies.\<close>

theorem recording_keeps_verdict:
  assumes "new_logger parse filePath content = Some L"
  shows "verify_integrity sha num (fst (run_calls sha num cs (L, out))) =
     \<lparr>in_valid = in_valid (verify_integrity sha num L), in_totalEntries = length (al_entries L) + length cs,
      in_broken = in_broken (verify_integrity sha num L)\<rparr>"
  using run_verdict [OF new_logger_linked [OF assms], of sha num cs out]
  by (simp add: verify_integrity_def Let_def)

definition example_calls :: "(nonces \<times> audit_params) list" where
  "example_calls =
     [(\<lparr>nc_uuid = ''u1'', nc_now = ''t1'', nc_trace = ''r1'', nc_written = True\<rparr>,
       \<lparr>ap_timestamp = None, ap_traceId = None, ap_agentDid = ''did:a'', ap_peerId = ''p'', ap_toolName = ''sum'',
        ap_datasetHash = None, ap_fuelConsumed = Fin 3, ap_outputHash = None, ap_zkReceiptSig = None, ap_status = ''SUCCESS''\<rparr>)]"

theorem recording_keeps_verdict_witness:
  "verify_integrity (\<lambda>m. m) (\<lambda>r. ''3'') (fst (run_calls (\<lambda>m. m) (\<lambda>r. ''3'') example_calls
      (\<lparr>al_entries = [], al_lastEntryHash = JStr genesis_hash, al_filePath = False\<rparr>, []))) =
     \<lparr>in_valid = in_valid (verify_integrity (\<lambda>m. m) (\<lambda>r. ''3'') \<lparr>al_entries = [], al_lastEntryHash = JStr genesis_hash, al_filePath = False\<rparr>),
      in_totalEntries = length (al_entries \<lparr>al_entries = [], al_lastEntryHash = JStr genesis_hash, al_filePath = False\<rparr>) + length example_calls,
      in_broken = in_broken (verify_integrity (\<lambda>m. m) (\<lambda>r. ''3'') \<lparr>al_entries = [], al_lastEntryHash = JStr genesis_hash, al_filePath = False\<rparr>)\<rparr>"
  by (rule recording_keeps_verdict [of "\<lambda>s. None" False None]) (simp add: new_logger_def)

text \<open>The texts two entries are hashed from differ and have the same digest.\<close>

definition hash_collision :: "(bytes \<Rightarrow> bytes) \<Rightarrow> (real \<Rightarrow> string) \<Rightarrow> entry \<Rightarrow> entry \<Rightarrow> bool" where
  "hash_collision sha num e e' \<longleftrightarrow>
     (let x = utf8 (canonicalize num (without_hash e)); y = utf8 (canonicalize num (without_hash e'))
      in x \<noteq> y \<and> sha x = sha y)"

text \<open>C20: tamper evidence. Two logs of the same length that both verify and end with the same entry
  hash have the same fields entry by entry, up to numbers with the same text, or else at some index the texts of
  their two entries are different and have the same SHA-256 digest.\<close>

theorem log_bound_to_last_hash:
  assumes "separator_free num" and "list_all well_formed es" and "list_all well_formed es'"
    and "length es = length es'" and "chain_end (JStr genesis_hash) es = chain_end (JStr genesis_hash) es'"
    and "in_valid (verify_integrity sha num \<lparr>al_entries = es, al_lastEntryHash = h, al_filePath = b\<rparr>)"
    and "in_valid (verify_integrity sha num \<lparr>al_entries = es', al_lastEntryHash = h', al_filePath = b'\<rparr>)"
  shows "list_all2 (same_fields num) es es' \<or> (\<exists>i < length es. hash_collision sha num (es ! i) (es' ! i))"
proof -
  have "find_broken sha num (JStr genesis_hash) 0 es = None" "find_broken sha num (JStr genesis_hash) 0 es' = None"
    using assms(6,7) by (simp_all add: verify_integrity_def Let_def)
  with assms(2-5) show ?thesis
  proof (induction es arbitrary: es' rule: rev_induct)
    case Nil
    then show ?case by simp
  next
    case (snoc e es)
    from snoc.prems(3) obtain fs f where f: "es' = fs @ [f]" "length fs = length es"
      by (cases es' rule: rev_cases) auto
    from snoc.prems(5,6) f have e: "find_broken sha num (JStr genesis_hash) 0 es = None"
        "get_prop e ''prevEntryHash'' = chain_end (JStr genesis_hash) es"
        "get_prop e ''entryHash'' = JStr (compute_entry_hash sha num (without_hash e))"
      and f': "find_broken sha num (JStr genesis_hash) 0 fs = None"
        "get_prop f ''prevEntryHash'' = chain_end (JStr genesis_hash) fs"
        "get_prop f ''entryHash'' = JStr (compute_entry_hash sha num (without_hash f))"
      by (auto simp: find_broken_append next_broken_def Let_def split: option.splits if_splits)
    have digests: "sha (utf8 (canonicalize num (without_hash e))) = sha (utf8 (canonicalize num (without_hash f)))"
      using snoc.prems(4) f e(3) f'(3) by (simp add: compute_entry_hash_def hex_text_inject)
    show ?case
    proof (cases "canonicalize num (without_hash e) = canonicalize num (without_hash f)")
      case True
      have w: "well_formed e" "well_formed f" using snoc.prems(1,2) f by simp_all
      have sf: "same_fields num e f" by (rule canonical_determines [OF assms(1) w True])
      then have "same_value num (get_prop e ''prevEntryHash'') (get_prop f ''prevEntryHash'')" by (simp add: same_fields_def)
      moreover have "\<exists>s. get_prop e ''prevEntryHash'' = JStr s"
        using e(2) e(1) by (cases es rule: rev_cases)
          (auto simp: find_broken_append next_broken_def Let_def intro: sym split: option.splits if_splits)
      ultimately have "chain_end (JStr genesis_hash) es = chain_end (JStr genesis_hash) fs"
        using e(2) f'(2) by (auto simp: same_value_def)
      then consider "list_all2 (same_fields num) es fs" | i where "i < length es" "hash_collision sha num (es ! i) (fs ! i)"
        using snoc.IH [of fs] snoc.prems(1,2) f e(1) f'(1) by auto
      then show ?thesis
      proof cases
        case 1
        then show ?thesis using f sf by (auto intro: list_all2_appendI)
      next
        case 2
        then have "hash_collision sha num ((es @ [e]) ! i) (es' ! i)" using f by (simp add: nth_append)
        with 2 show ?thesis by (intro disjI2 exI [of _ i]) simp
      qed
    next
      case False
      then have "hash_collision sha num ((es @ [e]) ! length es) (es' ! length es)"
        using f digests by (simp add: hash_collision_def Let_def nth_append utf8_inject)
      then show ?thesis by (intro disjI2 exI [of _ "length es"]) simp
    qed
  qed
qed

text \<open>What a logger writes to a new file, another logger reads back: the same entries and the
  same last hash, so the chain goes on where it ended.\<close>

theorem log_file_roundtrip:
  assumes "new_logger parse True None = Some L" and "run_calls sha num cs (L, []) = (L', content)"
    and "list_all (\<lambda>(r, p). nc_written r) cs" and "\<And>r. CHR 0x0A \<notin> set (num r)"
    and "\<And>e. e \<in> set (al_entries L') \<Longrightarrow> parse (json_print num (JObj e)) = Some (JObj e)"
  shows "new_logger parse True (Some content) = Some L'"
proof -
  have L: "al_filePath L" "al_entries L = []" "linked L"
    using assms(1) new_logger_linked [OF assms(1)] by (auto simp: new_logger_def)
  from run_file [OF L(1) assms(3), of sha num "[]"] assms(2) L(2)
  have content: "content = concat (map (entry_line num) (al_entries L'))" and path: "al_filePath L'" by auto
  have "linked L'" using run_linked [OF L(3), of sha num cs "[]"] assms(2) by simp
  then have last: "al_lastEntryHash L' = (if al_entries L' = [] then JStr genesis_hash else get_prop (last (al_entries L')) ''entryHash'')"
    by (simp add: linked_def chain_end_last)
  have rd: "parse_entries parse (filter (\<lambda>l. js_trim l \<noteq> []) (split_lines content)) = Some (al_entries L')"
    unfolding content by (rule read_lines [where num = num, OF assms(4)]) (rule assms(5))
  obtain es h where es: "L' = \<lparr>al_entries = es, al_lastEntryHash = h, al_filePath = True\<rparr>"
    using path by (cases L') simp
  have h: "h = (if es = [] then JStr genesis_hash else get_prop (last es) ''entryHash'')" using last by (simp only: es audit_logger.select_convs)
  show ?thesis
    using rd by (simp add: new_logger_def load_from_file_def es h)
qed

definition blank_logger :: audit_logger where
  "blank_logger = \<lparr>al_entries = [], al_lastEntryHash = JStr genesis_hash, al_filePath = True\<rparr>"

definition no_hash :: "bytes \<Rightarrow> bytes" where
  "no_hash m = []"

definition three :: "real \<Rightarrow> string" where
  "three r = ''3''"

definition example_log :: "audit_logger \<times> string" where
  "example_log = run_calls no_hash three example_calls (blank_logger, [])"

theorem log_file_roundtrip_witness:
  "new_logger (\<lambda>s. Some (JObj (hd (al_entries (fst example_log))))) True (Some (snd example_log)) = Some (fst example_log)"
proof (rule log_file_roundtrip)
  show "new_logger (\<lambda>s. Some (JObj (hd (al_entries (fst example_log))))) True None = Some blank_logger"
    by (simp add: new_logger_def blank_logger_def)
  show "run_calls no_hash three example_calls (blank_logger, []) = (fst example_log, snd example_log)"
    by (simp add: example_log_def)
  have "\<exists>e. al_entries (fst example_log) = [e]"
    by (simp add: example_log_def example_calls_def record_execution_eq blank_logger_def)
  then show "Some (JObj (hd (al_entries (fst example_log)))) = Some (JObj e)" if "e \<in> set (al_entries (fst example_log))" for e
    using that by auto
qed (simp_all add: three_def example_calls_def)

text \<open>Two logs that differ in the fuel consumed, when every number has the same text and the digest is injective.\<close>

definition with_number :: "real \<Rightarrow> jsval \<Rightarrow> jsval" where
  "with_number x v = (case v of JNum (Fin r) \<Rightarrow> JNum (Fin x) | _ \<Rightarrow> v)"

lemma sort_with_number:
  fixes xs :: "(string \<times> 'a) list"
  shows "sort_key fst (map (apsnd f) xs) = map (apsnd f) (sort_key fst xs)"
proof -
  have "insort_key fst (apsnd f x) (map (apsnd f) ys) = map (apsnd f) (insort_key fst x ys)" for x :: "string \<times> 'a" and ys
    by (induction ys) auto
  then show ?thesis by (induction xs) auto
qed

lemma print_with_number: "json_print three (JObj (map (apsnd (with_number x)) ps)) = json_print three (JObj ps)"
proof -
  have v: "json_print three (with_number x v) = json_print three v" "not_undefined (with_number x v) = not_undefined v" for v
    by (auto simp: with_number_def three_def not_undefined_def split: jsval.split jsnum.split)
  then show ?thesis by (simp add: filter_map comp_def)
qed

definition fuel_log :: "real \<Rightarrow> entry list" where
  "fuel_log x = map (\<lambda>(r, p). full_entry id three (JStr genesis_hash) r (p\<lparr>ap_fuelConsumed := Fin x\<rparr>)) example_calls"

theorem log_bound_to_last_hash_witness:
  "fuel_log 3 \<noteq> fuel_log 4 \<and> list_all2 (same_fields three) (fuel_log 3) (fuel_log 4)"
proof -
  let ?e = "\<lambda>x. full_entry id three (JStr genesis_hash) (fst (hd example_calls)) ((snd (hd example_calls))\<lparr>ap_fuelConsumed := Fin x\<rparr>)"
  have log: "fuel_log x = [?e x]" for x by (simp add: fuel_log_def example_calls_def)
  have part: "canonicalize three (partial_entry id (JStr h) r (p\<lparr>ap_fuelConsumed := Fin x\<rparr>)) =
      canonicalize three (partial_entry id (JStr h) r p)" if "ap_fuelConsumed p = Fin y" for h r p x y
  proof -
    have "partial_entry id (JStr h) r (p\<lparr>ap_fuelConsumed := Fin x\<rparr>) = map (apsnd (with_number x)) (partial_entry id (JStr h) r p)"
      using that by (simp add: partial_entry_def with_number_def)
    then show ?thesis by (simp only: canonicalize_def sort_with_number print_with_number)
  qed
  have fuel: "ap_fuelConsumed (snd (hd example_calls)) = Fin 3" by (simp add: example_calls_def)
  have sep: "separator_free three" by (simp add: separator_free_def three_def no_separator_def)
  have wf: "list_all well_formed (fuel_log x)" for x
    by (simp add: log well_formed_def full_entry_props) (simp add: partial_entry_def audit_fields_def field_ok_def)
  have valid: "in_valid (verify_integrity id three \<lparr>al_entries = fuel_log x, al_lastEntryHash = JNull, al_filePath = True\<rparr>)" for x
    by (simp add: verify_integrity_def Let_def log full_entry_props)
  have ends: "chain_end (JStr genesis_hash) (fuel_log 3) = chain_end (JStr genesis_hash) (fuel_log 4)"
    by (simp add: log full_entry_props compute_entry_hash_def part [OF fuel])
  have len: "length (fuel_log 3) = length (fuel_log 4)" by (simp add: log)
  have same: "list_all2 (same_fields three) (fuel_log 3) (fuel_log 4)"
    using log_bound_to_last_hash [OF sep wf [of 3] wf [of 4] len ends valid [of 3] valid [of 4]]
    by (auto simp: hash_collision_def Let_def)
  have "get_prop (hd (fuel_log x)) ''fuelConsumed'' = JNum (Fin x)" for x
    by (simp add: log full_entry_def partial_entry_def get_prop_def)
  from this [of 3] this [of 4] have "fuel_log 3 \<noteq> fuel_log 4" by auto
  with same show ?thesis by blast
qed

text \<open>A line that could not be appended leaves a file that does not verify: the next entry is chained to one the
  file does not hold.\<close>

lemma lost_line_breaks_file:
  assumes "al_filePath L" and "\<not> nc_written r" and "nc_written r'" and "al_lastEntryHash L = JStr genesis_hash"
    and "compute_entry_hash sha num (partial_entry sha (JStr genesis_hash) r p) \<noteq> genesis_hash"
  shows "\<exists>e. snd (run_calls sha num [(r, p), (r', p')] (L, [])) = entry_line num e \<and>
    find_broken sha num (JStr genesis_hash) 0 [e] \<noteq> None"
proof -
  let ?h = "JStr (compute_entry_hash sha num (partial_entry sha (JStr genesis_hash) r p))"
  have "snd (run_calls sha num [(r, p), (r', p')] (L, [])) = entry_line num (full_entry sha num ?h r' p')"
    using assms(1-4) by (simp add: record_execution_eq)
  moreover have "find_broken sha num (JStr genesis_hash) 0 [full_entry sha num ?h r' p'] \<noteq> None"
    using assms(5) by (simp add: full_entry_props)
  ultimately show ?thesis by blast
qed

text \<open>Dropping entries at the end of a log, in memory or in the file, is not noticed: every prefix of a
  log that verifies verifies.\<close>

lemma truncation_unnoticed:
  assumes "find_broken sha num h i es = None"
  shows "find_broken sha num h i (take n es) = None"
  using assms find_broken_append [of sha num h i "take n es" "drop n es"]
  by (auto simp: next_broken_def split: option.splits)

end
