(* ===== verification/Revocation.thy ===== *)
theory Revocation
  imports Value
begin

text \<open>
  Token revocation in \<open>server/index.ts\<close>: \<open>loadRevocationList\<close>, \<open>revokeToken\<close>, \<open>revokeTokenHash\<close>. A
  server keeps a set of hashes and the time stamp of the list it has loaded; the list is a file that
  several servers may share. The file is its content and its modification time; JSON and SHA-256 are
  parameters, and whether a read or a write succeeds is decided at every call. Times are integers in
  the resolution of the file system.
\<close>

record rev_state =
  rv_hashes :: "string list"            \<comment> \<open>a \<open>Set\<close> in insertion order\<close>
  rv_lastLoad :: int

type_synonym rev_file = "(string \<times> int) option"

text \<open>One call's view of its surroundings: the clock, the modification time a write would get, and
  whether reading and writing work.\<close>

record rev_io =
  io_now :: int
  io_mtime :: int
  io_readable :: bool
  io_writable :: bool

record rev_env =
  re_path :: "string option"
  re_parse :: json_parser
  re_render :: "string list \<Rightarrow> string"  \<comment> \<open>\<open>JSON.stringify(hashes, null, 2)\<close>\<close>

definition set_add :: "string \<Rightarrow> string list \<Rightarrow> string list" where
  "set_add x S = (if x \<in> set S then S else S @ [x])"

text \<open>The texts of a list, trimmed and in lower case.\<close>

fun listed_hashes :: "jsval list \<Rightarrow> string list \<Rightarrow> string list" where
  "listed_hashes [] S = S"
| "listed_hashes (JStr s # xs) S = listed_hashes xs (set_add (js_lower (js_trim s)) S)"
| "listed_hashes (x # xs) S = listed_hashes xs S"

definition has_path :: "rev_env \<Rightarrow> bool" where
  "has_path E = (case re_path E of None \<Rightarrow> False | Some p \<Rightarrow> p \<noteq> [])"

definition load_revocation_list :: "rev_env \<Rightarrow> rev_io \<Rightarrow> rev_state \<times> rev_file \<Rightarrow> rev_state \<times> rev_file" where
  "load_revocation_list E io S =
     (case S of (R, F) \<Rightarrow>
       if \<not> has_path E then S
       else case F of
         Some (content, mtime) \<Rightarrow>
           if mtime \<le> rv_lastLoad R then S
           else if \<not> io_readable io then S
           else (case re_parse E content of
                   Some (JArr items) \<Rightarrow> (R\<lparr>rv_hashes := listed_hashes items [], rv_lastLoad := mtime\<rparr>, F)
                 | _ \<Rightarrow> S)
       | None \<Rightarrow>
           if io_writable io then (R\<lparr>rv_lastLoad := io_now io\<rparr>, Some (re_render E [], io_mtime io)) else S)"

definition revoke_token_hash :: "rev_env \<Rightarrow> rev_io \<Rightarrow> string \<Rightarrow> rev_state \<times> rev_file \<Rightarrow> rev_state \<times> rev_file" where
  "revoke_token_hash E io hash S =
     (if hash = [] then S
      else
        (case load_revocation_list E io S of (R, F) \<Rightarrow>
           (let R1 = R\<lparr>rv_hashes := set_add (js_lower hash) (rv_hashes R)\<rparr>
            in if has_path E \<and> io_writable io
               then (R1\<lparr>rv_lastLoad := io_mtime io\<rparr>, Some (re_render E (rv_hashes R1), io_mtime io))
               else (R1, F))))"

definition revoke_token :: "rev_env \<Rightarrow> (string \<Rightarrow> string) \<Rightarrow> rev_io \<Rightarrow> string \<Rightarrow> rev_state \<times> rev_file \<Rightarrow> rev_state \<times> rev_file" where
  "revoke_token E sha256hex io token S =
     (if token = [] then S else revoke_token_hash E io (js_lower (sha256hex token)) S)"

definition is_revoked :: "rev_state \<Rightarrow> string \<Rightarrow> bool" where
  "is_revoked R hash \<longleftrightarrow> hash \<in> set (rv_hashes R)"

section \<open>Servers that share a list\<close>

text \<open>Any number of servers over one file, each operation a step. Every write gets a modification
  time later than that of the file, and a call that can write the file can read it.\<close>

type_synonym rev_system = "(nat \<Rightarrow> rev_state) \<times> rev_file"

inductive rev_step :: "rev_env \<Rightarrow> rev_system \<Rightarrow> rev_system \<Rightarrow> bool" for E where
  load: "load_revocation_list E io (Ss i, F) = (R, F') \<Longrightarrow> rev_step E (Ss, F) (Ss(i := R), F')"
| revoke: "revoke_token_hash E io hash (Ss i, F) = (R, F') \<Longrightarrow>
    (case F of None \<Rightarrow> True | Some (c, m) \<Rightarrow> m < io_mtime io) \<Longrightarrow> (io_writable io \<Longrightarrow> io_readable io) \<Longrightarrow>
    rev_step E (Ss, F) (Ss(i := R), F')"

inductive_cases rev_stepE: "rev_step E S S'"

definition faithful_json :: "rev_env \<Rightarrow> bool" where
  "faithful_json E \<longleftrightarrow> (\<forall>hs. re_parse E (re_render E hs) = Some (JArr (map JStr hs)))"

text \<open>The file exists and lists a hash, no server is ahead of it, and a server up to date with it has
  the hash.\<close>

definition listed :: "rev_env \<Rightarrow> string \<Rightarrow> rev_system \<Rightarrow> bool" where
  "listed E h S \<longleftrightarrow>
     (\<exists>hs m. snd S = Some (re_render E hs, m) \<and> h \<in> set hs \<and>
        (\<forall>i. rv_lastLoad (fst S i) \<le> m \<and> (rv_lastLoad (fst S i) = m \<longrightarrow> is_revoked (fst S i) h)))"

lemma set_set_add [simp]: "set (set_add x S) = insert x (set S)"
  by (auto simp: set_add_def)

lemma listed_hashes_keep: "x \<in> set S \<Longrightarrow> x \<in> set (listed_hashes xs S)"
  by (induction xs S rule: listed_hashes.induct) auto

lemma listed_hashes_mem:
  "js_lower (js_trim h) = h \<Longrightarrow> h \<in> set hs \<Longrightarrow> h \<in> set (listed_hashes (map JStr hs) S)"
proof (induction hs arbitrary: S)
  case (Cons x hs)
  then show ?case by (cases "x = h") (auto intro: listed_hashes_keep)
qed simp

lemma load_listed:
  assumes "faithful_json E" and "has_path E" and "js_lower (js_trim h) = h" and "listed E h (Ss, F)"
    and "load_revocation_list E io (Ss i, F) = (R, F')"
  shows "F' = F" and "rv_lastLoad (Ss i) \<le> rv_lastLoad R"
    and "listed E h (Ss(i := R), F)" and "io_readable io \<Longrightarrow> is_revoked R h"
proof -
  from assms(4) obtain hs m where F: "F = Some (re_render E hs, m)" and h: "h \<in> set hs"
      and le: "\<And>i. rv_lastLoad (Ss i) \<le> m" and eq: "\<And>i. rv_lastLoad (Ss i) = m \<Longrightarrow> is_revoked (Ss i) h"
    by (auto simp: listed_def)
  have p: "re_parse E (re_render E hs) = Some (JArr (map JStr hs))" using assms(1) by (simp add: faithful_json_def)
  have mem: "h \<in> set (listed_hashes (map JStr hs) [])" by (rule listed_hashes_mem [OF assms(3) h])
  have c: "F' = F \<and> (R = Ss i \<and> (io_readable io \<longrightarrow> m \<le> rv_lastLoad (Ss i)) \<or>
      R = (Ss i)\<lparr>rv_hashes := listed_hashes (map JStr hs) [], rv_lastLoad := m\<rparr>)"
    using assms(2,5) p F by (auto simp: load_revocation_list_def split: if_splits)
  then show "F' = F" by simp
  from c show "rv_lastLoad (Ss i) \<le> rv_lastLoad R" using le [of i] by auto
  from c show "listed E h (Ss(i := R), F)" using F h le eq mem by (auto simp: listed_def is_revoked_def)
  assume "io_readable io"
  with c le [of i] eq [of i] mem show "is_revoked R h" by (auto simp: is_revoked_def)
qed

lemma written_listed:
  assumes "h \<in> set hs" and "\<And>j. rv_lastLoad (Ss j) < m"
  shows "listed E h (Ss(i := R\<lparr>rv_hashes := hs, rv_lastLoad := m\<rparr>), Some (re_render E hs, m))"
  unfolding listed_def
proof (intro exI [of _ hs] exI [of _ m] conjI allI)
  fix j
  show "rv_lastLoad (fst (Ss(i := R\<lparr>rv_hashes := hs, rv_lastLoad := m\<rparr>), Some (re_render E hs, m)) j) \<le> m"
    using assms(2) [of j] by simp
  show "rv_lastLoad (fst (Ss(i := R\<lparr>rv_hashes := hs, rv_lastLoad := m\<rparr>), Some (re_render E hs, m)) j) = m \<longrightarrow>
      is_revoked (fst (Ss(i := R\<lparr>rv_hashes := hs, rv_lastLoad := m\<rparr>), Some (re_render E hs, m)) j) h"
    using assms by (auto simp: is_revoked_def dest: less_imp_neq)
qed (use assms(1) in simp_all)

lemma listed_step:
  assumes "faithful_json E" and "has_path E" and "js_lower (js_trim h) = h" and "rev_step E S S'" and "listed E h S"
  shows "listed E h S'"
  using assms(4)
proof cases
  case (load io Ss i F R F')
  with load_listed [OF assms(1-3), of Ss F io i R F'] assms(5) show ?thesis by simp
next
  case (revoke io hash Ss i F R F')
  obtain R0 F0 where l: "load_revocation_list E io (Ss i, F) = (R0, F0)" by (cases "load_revocation_list E io (Ss i, F)")
  from revoke assms(5) have li: "listed E h (Ss, F)" by simp
  note L = load_listed [OF assms(1-3) li l]
  from li obtain hs m where F: "F = Some (re_render E hs, m)" "h \<in> set hs" "\<And>j. rv_lastLoad (Ss j) \<le> m" by (auto simp: listed_def)
  show ?thesis
  proof (cases "hash = [] \<or> \<not> io_writable io")
    case True
    with revoke l L li show ?thesis
      by (auto simp: revoke_token_hash_def Let_def listed_def is_revoked_def split: if_splits)
  next
    case False
    have late: "m < io_mtime io" using revoke F(1) by simp
    have "is_revoked R0 h" using False revoke L(4) by simp
    then have "h \<in> set (set_add (js_lower hash) (rv_hashes R0))" by (simp add: is_revoked_def)
    moreover have "R = R0\<lparr>rv_hashes := set_add (js_lower hash) (rv_hashes R0), rv_lastLoad := io_mtime io\<rparr>"
      and "F' = Some (re_render E (set_add (js_lower hash) (rv_hashes R0)), io_mtime io)"
      using False revoke l assms(2) by (auto simp: revoke_token_hash_def Let_def)
    moreover have "rv_lastLoad (Ss j) < io_mtime io" for j using F(3) [of j] late by simp
    ultimately show ?thesis unfolding revoke(2) using written_listed by simp
  qed
qed

inductive rev_steps :: "rev_env \<Rightarrow> rev_system \<Rightarrow> rev_system \<Rightarrow> bool" for E where
  here: "rev_steps E S S"
| onward: "rev_steps E S S' \<Longrightarrow> rev_step E S' S'' \<Longrightarrow> rev_steps E S S''"

lemma listed_steps:
  "rev_steps E S S' \<Longrightarrow> faithful_json E \<Longrightarrow> has_path E \<Longrightarrow> js_lower (js_trim h) = h \<Longrightarrow> listed E h S \<Longrightarrow> listed E h S'"
  by (induction rule: rev_steps.induct) (auto intro: listed_step)

lemma revoke_listed:
  assumes "has_path E" and "hash \<noteq> []" and "io_writable io"
    and "revoke_token_hash E io hash (Ss i, F) = (R, F')" and "\<And>j. rv_lastLoad (Ss j) < io_mtime io"
  shows "listed E (js_lower hash) (Ss(i := R), F')"
proof -
  obtain R0 F0 where l: "load_revocation_list E io (Ss i, F) = (R0, F0)" by (cases "load_revocation_list E io (Ss i, F)")
  let ?hs = "set_add (js_lower hash) (rv_hashes R0)"
  have r: "R = R0\<lparr>rv_hashes := ?hs, rv_lastLoad := io_mtime io\<rparr>" "F' = Some (re_render E ?hs, io_mtime io)"
    using assms(1-4) l by (auto simp: revoke_token_hash_def Let_def)
  show ?thesis unfolding r by (rule written_listed [OF _ assms(5)]) simp
qed

section \<open>Properties\<close>

text \<open>Once a server has written a revocation, every server that shares the list knows it after
  its next successful load, whatever loads and revocations of any servers come in between.\<close>

theorem revocation_reaches_all:
  assumes "faithful_json E" and "has_path E" and "hash \<noteq> []" and "js_trim (js_lower hash) = js_lower hash"
    and "io_writable io" and "revoke_token_hash E io hash (Ss i, F) = (R, F')"
    and "\<And>j. rv_lastLoad (Ss j) < io_mtime io"
    and "rev_steps E (Ss(i := R), F') (Ts, G)" and "io_readable io'"
  shows "is_revoked (fst (load_revocation_list E io' (Ts j, G))) (js_lower hash)"
proof -
  have h: "js_lower (js_trim (js_lower hash)) = js_lower hash" using assms(4) by simp
  have "listed E (js_lower hash) (Ss(i := R), F')" by (rule revoke_listed [where Ss = Ss and i = i, OF assms(2,3,5,6,7)])
  from listed_steps [OF assms(8) assms(1,2) h this] have "listed E (js_lower hash) (Ts, G)" .
  from load_listed(4) [OF assms(1,2) h this _ assms(9)] show ?thesis by (metis prod.collapse)
qed

text \<open>A server that can write the list but fails to read it replaces the list by its own set: the
  revocations of the other servers are lost.\<close>

lemma unreadable_list_overwritten:
  assumes "has_path E" and "hash \<noteq> []" and "io_writable io" and "\<not> io_readable io" and "rv_lastLoad R < m"
  shows "revoke_token_hash E io hash (R, Some (content, m)) =
     (R\<lparr>rv_hashes := set_add (js_lower hash) (rv_hashes R), rv_lastLoad := io_mtime io\<rparr>,
      Some (re_render E (set_add (js_lower hash) (rv_hashes R)), io_mtime io))"
  using assms by (simp add: revoke_token_hash_def load_revocation_list_def Let_def)

text \<open>A codec for the witness: every character after an \<open>a\<close>, every end of a text as \<open>b\<close>.\<close>

fun example_encode :: "string list \<Rightarrow> string" where
  "example_encode [] = []"
| "example_encode (h # hs) = concat (map (\<lambda>c. [CHR ''a'', c]) h) @ CHR ''b'' # example_encode hs"

fun example_decode :: "string \<Rightarrow> string \<Rightarrow> string list" where
  "example_decode acc [] = []"
| "example_decode acc [x] = [acc]"
| "example_decode acc (x # y # s) =
     (if x = CHR ''a'' then example_decode (acc @ [y]) s else acc # example_decode [] (y # s))"

lemma example_decode_text:
  "example_decode acc (concat (map (\<lambda>c. [CHR ''a'', c]) h) @ CHR ''b'' # s) = (acc @ h) # example_decode [] s"
proof (induction h arbitrary: acc)
  case Nil
  show ?case by (cases s) simp_all
qed simp

lemma example_codec: "example_decode [] (example_encode hs) = hs"
  by (induction hs) (simp_all add: example_decode_text)

definition example_rev_env :: rev_env where
  "example_rev_env =
     \<lparr>re_path = Some ''revoked.json'', re_parse = (\<lambda>c. Some (JArr (map JStr (example_decode [] c)))),
      re_render = example_encode\<rparr>"

definition example_io :: rev_io where
  "example_io = \<lparr>io_now = 7, io_mtime = 7, io_readable = True, io_writable = True\<rparr>"

definition empty_rev :: rev_state where
  "empty_rev = \<lparr>rv_hashes = [], rv_lastLoad = 0\<rparr>"

definition after_example :: "rev_state \<times> rev_file" where
  "after_example = revoke_token_hash example_rev_env example_io ''ab'' (empty_rev, Some ([], 3))"

theorem revocation_reaches_all_witness:
  "is_revoked (fst (load_revocation_list example_rev_env example_io (((\<lambda>_ :: nat. empty_rev)(0 := fst after_example)) 1, snd after_example))) (js_lower ''ab'')"
proof (rule revocation_reaches_all [where Ss = "\<lambda>_. empty_rev" and i = 0 and Ts = "(\<lambda>_. empty_rev)(0 := fst after_example)"])
  show "faithful_json example_rev_env" by (simp add: faithful_json_def example_rev_env_def example_codec)
  show "has_path example_rev_env" by (simp add: has_path_def example_rev_env_def)
  show "js_trim (js_lower ''ab'') = js_lower ''ab''" by code_simp
  show "revoke_token_hash example_rev_env example_io ''ab'' (empty_rev, Some ([], 3)) = (fst after_example, snd after_example)"
    by (simp add: after_example_def)
  show "rev_steps example_rev_env ((\<lambda>_. empty_rev)(0 := fst after_example), snd after_example)
      ((\<lambda>_. empty_rev)(0 := fst after_example), snd after_example)" by (rule rev_steps.here)
qed (simp_all add: example_io_def empty_rev_def)

end
