(* ===== verification/GrpcService.thy ===== *)
theory GrpcService
  imports Server Receipt AuditLog Revocation Rbac
begin

text \<open>
  The gRPC service of \<open>server/index.ts\<close>: \<open>negotiateIntent\<close> opens a session, \<open>executeLogic\<close> runs an
  encrypted logic in it. Both authenticate first (bearer token, revocation list, local access token,
  JWT and scopes); \<open>executeLogic\<close> then checks the session, decrypts for the preflight, runs the
  worker of \<open>Receipt\<close>, carries out a proxied tool call through \<open>call_tool\<close>, applies the output policy
  and the scans, and writes the audit log. The JWT library, the key generation, the UUIDs and the
  clock are parameters; metrics and log messages are left out.
\<close>

section \<open>State\<close>

record session =
  sn_capability_hash :: string
  sn_kyber_sk :: bytes
  sn_agent_did :: string
  sn_tokenHash :: "string option"
  sn_createdAt :: int

record 'f grpc_state =
  gs_server :: "'f server_state"
  gs_sessions :: "(string \<times> session) list"
  gs_revocation :: "rev_state \<times> rev_file"
  gs_audit :: "audit_logger \<times> string"

record 'f grpc_env =
  ge_server :: "'f server_env"
  ge_worker :: worker_env
  ge_rev :: rev_env
  ge_validator :: "(string \<Rightarrow> string + auth_info) option"
  ge_localTestToken :: "string option"
  ge_num :: "real \<Rightarrow> string"
  ge_base64 :: "bytes \<Rightarrow> string"
  ge_records :: "jsval list option"

text \<open>What one call takes from outside: the clock, the state of the file system at its two reads of
  the revocation list, and fresh values.\<close>

record call_io =
  ci_now :: int
  ci_rev :: rev_io
  ci_rev2 :: rev_io
  ci_uuid :: string
  ci_public_key :: bytes
  ci_secret_key :: bytes
  ci_ts :: int
  ci_nonces :: nonces

type_synonym grpc_error = "nat \<times> string"

definition unauthenticated :: nat where "unauthenticated = 16"
definition permission_denied :: nat where "permission_denied = 7"
definition internal :: nat where "internal = 13"

section \<open>Authentication\<close>

definition bearer_token :: "string \<Rightarrow> string" where
  "bearer_token authHeader = (if starts_with authHeader ''Bearer '' then drop 7 authHeader else authHeader)"

definition token_hash :: "worker_env \<Rightarrow> string \<Rightarrow> string" where
  "token_hash W token = js_lower (text_digest (we_sha256 W) token)"

definition test_token_pattern :: re where
  "test_token_pattern = cats [AtStart, plus (Pred (\<lambda>c. is_word c \<or> c = CHR ''-'')), lit ''-local-test-token'', AtEnd]"

definition revoked_error :: grpc_error where
  "revoked_error = (unauthenticated, ''Token has been revoked by the resource owner'')"

definition check_token :: "'f grpc_env \<Rightarrow> (string \<Rightarrow> string + auth_info) \<Rightarrow> string \<Rightarrow> grpc_error + string option" where
  "check_token E validate token =
     (case truthy_string (ge_localTestToken E) of
        Some localTestToken \<Rightarrow>
          if token = localTestToken then Inr (Some (token_hash (ge_worker E) token))
          else Inl (permission_denied,
            if token \<noteq> [] \<and> re_test test_token_pattern token
            then ''Pre-shared local test token is invalid for this resource domain (segregation violation).''
            else ''Access Denied: This restricted node requires its specific static access token.'')
      | None \<Rightarrow>
          (case validate token of
             Inl msg \<Rightarrow> Inl (unauthenticated, ''Invalid JWT token: '' @ msg)
           | Inr authInfo \<Rightarrow>
               (case authorize_request ''tools/call'' (Some authInfo) None of
                  Inl e \<Rightarrow> Inl (unauthenticated, ''Invalid JWT token: '')
                | Inr authResult \<Rightarrow>
                    if ar_allowed authResult then Inr (Some (token_hash (ge_worker E) token))
                    else Inl (permission_denied, or_else (ar_reason authResult) ''Access Denied''))))"

text \<open>The hash of the token presented (none without a validator), and the revocation state after the
  list was looked at.\<close>

definition authenticate ::
    "'f grpc_env \<Rightarrow> rev_io \<Rightarrow> string option \<Rightarrow> rev_state \<times> rev_file \<Rightarrow> (grpc_error + string option) \<times> (rev_state \<times> rev_file)" where
  "authenticate E io header R =
     (case ge_validator E of
        None \<Rightarrow> (Inr None, R)
      | Some validate \<Rightarrow>
          (case truthy_string header of
             None \<Rightarrow> (Inl (unauthenticated, ''Missing Authorization header in gRPC metadata''), R)
           | Some authHeader \<Rightarrow>
               (let token = bearer_token authHeader;
                    R' = load_revocation_list (ge_rev E) io R
                in if is_revoked (fst R') (token_hash (ge_worker E) token) then (Inl revoked_error, R')
                   else (check_token E validate token, R'))))"

section \<open>negotiateIntent\<close>

record intent_request =
  iq_agent_did :: string
  iq_capability_hash :: string

record intent_response =
  ir_accepted :: bool
  ir_session_token :: string
  ir_kyber_public_key :: bytes

definition negotiate_intent ::
    "'f grpc_env \<Rightarrow> call_io \<Rightarrow> string option \<Rightarrow> intent_request \<Rightarrow> 'f grpc_state \<Rightarrow> (grpc_error + intent_response) \<times> 'f grpc_state" where
  "negotiate_intent E io header request S =
     (case authenticate E (ci_rev io) header (gs_revocation S) of
        (Inl e, R) \<Rightarrow> (Inl e, S\<lparr>gs_revocation := R\<rparr>)
      | (Inr tokenHash, R) \<Rightarrow>
          (let session = \<lparr>sn_capability_hash = iq_capability_hash request, sn_kyber_sk = ci_secret_key io,
                          sn_agent_did = iq_agent_did request, sn_tokenHash = tokenHash, sn_createdAt = ci_now io\<rparr>
           in (Inr \<lparr>ir_accepted = True, ir_session_token = ci_uuid io, ir_kyber_public_key = ci_public_key io\<rparr>,
               S\<lparr>gs_revocation := R, gs_sessions := AList.update (ci_uuid io) session (gs_sessions S)\<rparr>)))"

section \<open>executeLogic\<close>

record logic_request =
  lq_session_token :: string
  lq_wasm_binary :: bytes
  lq_inputs :: "(string \<times> bytes) list"
  lq_pqc_ciphertext :: bytes
  lq_aes_nonce :: "bytes option"

record logic_response =
  rp_semantic_evidence :: string
  rp_cryptographic_proof :: string        \<comment> \<open>in hexadecimal\<close>
  rp_zk_receipt :: bytes
  rp_is_error :: bool

definition error_response :: "string \<Rightarrow> logic_response" where
  "error_response msg = \<lparr>rp_semantic_evidence = msg, rp_cryptographic_proof = [], rp_zk_receipt = [], rp_is_error = True\<rparr>"

definition max_session_ms :: int where
  "max_session_ms = 3600 * 1000"

text \<open>The session of the request, or the error; an expired session is deleted.\<close>

definition find_session :: "'f grpc_env \<Rightarrow> call_io \<Rightarrow> logic_request \<Rightarrow> 'f grpc_state \<Rightarrow> (grpc_error + session) \<times> 'f grpc_state" where
  "find_session E io request S =
     (case map_of (gs_sessions S) (lq_session_token request) of
        None \<Rightarrow> (Inl (unauthenticated, ''Invalid session token''), S)
      | Some session \<Rightarrow>
          if sn_createdAt session \<noteq> 0 \<and> max_session_ms < ci_now io - sn_createdAt session then
            (Inl (unauthenticated, expired_text (ci_now io - sn_createdAt session) @ '' Re-handshake required.''),
             S\<lparr>gs_sessions := AList.delete (lq_session_token request) (gs_sessions S)\<rparr>)
          else
            (case truthy_string (sn_tokenHash session) of
               None \<Rightarrow> (Inr session, S)
             | Some h \<Rightarrow>
                 (let R = load_revocation_list (ge_rev E) (ci_rev2 io) (gs_revocation S);
                      S1 = S\<lparr>gs_revocation := R\<rparr>
                  in if is_revoked (fst R) h then (Inl revoked_error, S1) else (Inr session, S1))))"

definition session_policy :: "session \<Rightarrow> 'f grpc_state \<Rightarrow> execution_policy option" where
  "session_policy session S =
     (if sn_capability_hash session = [] then None
      else case map_of (sv_tools (gs_server S)) (sn_capability_hash session) of None \<Rightarrow> None | Some t \<Rightarrow> te_policy t)"

definition session_tool :: "string \<Rightarrow> session \<Rightarrow> string" where
  "session_tool unnamed session = (if sn_capability_hash session = [] then unnamed else sn_capability_hash session)"

definition client_of :: "string \<Rightarrow> session \<Rightarrow> string" where
  "client_of fallback session = (if sn_agent_did session = [] then fallback else sn_agent_did session)"

text \<open>Decryption for the preflight: the logic in the clear, or the message of the error.\<close>

definition preflight_logic :: "worker_env \<Rightarrow> session \<Rightarrow> logic_request \<Rightarrow> string + string" where
  "preflight_logic W session request =
     bind_sum (we_kem_decap W (lq_pqc_ciphertext request) (sn_kyber_sk session)) (\<lambda>aesKey.
     bind_sum (we_gcm_open W aesKey (case lq_aes_nonce request of None \<Rightarrow> replicate 12 0 | Some n \<Rightarrow> n)
                 (without_tag (lq_wasm_binary request)) (auth_tag (lq_wasm_binary request))) (\<lambda>plain.
       let decryptedPayload = utf8_text plain
       in Inr (case truthy_string (extract_logic decryptedPayload) of Some l \<Rightarrow> l | None \<Rightarrow> js_trim decryptedPayload)))"

definition dp_partial_of :: "dp_config \<Rightarrow> dp_partial" where
  "dp_partial_of c =
     \<lparr>dq_epsilon = Some (Fin (dc_epsilon c)), dq_sensitivity = Some (Fin (dc_sensitivity c)),
      dq_smallDatasetThreshold = Some (dc_smallDatasetThreshold c), dq_seed = None\<rparr>"

definition worker_task :: "'f grpc_env \<Rightarrow> session \<Rightarrow> logic_request \<Rightarrow> execution_policy option \<Rightarrow> worker_data" where
  "worker_task E session request policy =
     \<lparr>wd_isWarmup = False, wd_ciphertext = lq_pqc_ciphertext request, wd_secretKeyObj = sn_kyber_sk session,
      wd_wasmBinary = lq_wasm_binary request, wd_inputs = lq_inputs request, wd_records = ge_records E,
      wd_sessionTimestamp = Some (sn_createdAt session), wd_isEncrypted = True, wd_aesNonce = lq_aes_nonce request,
      wd_dpConfig = map_option dp_partial_of (dp_config_of policy)\<rparr>"

text \<open>\<open>String(v)\<close>.\<close>

fun js_string :: "(real \<Rightarrow> string) \<Rightarrow> jsval \<Rightarrow> string" where
  "js_string num (JStr s) = s"
| "js_string num JUndef = ''undefined''"
| "js_string num JNull = ''null''"
| "js_string num (JBool b) = (if b then ''true'' else ''false'')"
| "js_string num (JNum NaN) = ''NaN''"
| "js_string num (JNum PosInf) = ''Infinity''"
| "js_string num (JNum NegInf) = ''-Infinity''"
| "js_string num (JNum (Fin r)) = num r"
| "js_string num (JArr xs) = js_join '','' (map (\<lambda>x. if x = JUndef \<or> x = JNull then [] else js_string num x) xs)"
| "js_string num (JObj ps) = ''[object Object]''"

text \<open>The result of a tool as the value that is serialised.\<close>

definition tool_result_value :: "call_result \<Rightarrow> jsval" where
  "tool_result_value r = JObj [(''content'', JArr (map (\<lambda>t. JObj [(''type'', JStr ''text''), (''text'', JStr t)]) (cr_content r)))]"

text \<open>The protocol transformer: what is sent as evidence and what is scanned, after a proxied tool call
  if the output asks for one. Errors thrown inside are caught.\<close>

datatype interpreted = ProxyFailed string | Interpreted string jsval

definition sanitize_value :: "'f grpc_env \<Rightarrow> jsval \<Rightarrow> jsval" where
  "sanitize_value E v = sanitize_output (se_round (ge_server E)) None (fst (fresh 0 v))"

definition interpret_output ::
    "'f grpc_env \<Rightarrow> int \<Rightarrow> session \<Rightarrow> jsval \<Rightarrow> 'f server_state \<Rightarrow> (interpreted \<times> 'f server_state) option" where
  "interpret_output E now session out S =
     (let caught = Interpreted (js_string (ge_num E) out) out;
          parse = se_parse (ge_server E); stringify = se_stringify (ge_server E)
      in case (case out of JStr s \<Rightarrow> Some s | JUndef \<Rightarrow> None | _ \<Rightarrow> Some (stringify out)) of
           None \<Rightarrow> Some (caught, S)
         | Some finalOutput \<Rightarrow>
             (case parse finalOutput of
                None \<Rightarrow> Some (caught, S)
              | Some decoded \<Rightarrow>
                  if decoded = JNull then Some (caught, S)
                  else if \<not> truthy (prop_of decoded ''__liop_proxy_tool'') then Some (Interpreted finalOutput out, S)
                  else
                    (case prop_of decoded ''__liop_proxy_tool'' of
                       JStr name \<Rightarrow>
                         (let proxyArgs = prop_of decoded ''__liop_proxy_args'' in
                          case call_tool (ge_server E) now name (if truthy proxyArgs then proxyArgs else JObj [])
                                 (client_of ''unknown-client'' session) S of
                            None \<Rightarrow> None
                          | Some (Inl e) \<Rightarrow> Some (caught, S)
                          | Some (Inr (r, S1)) \<Rightarrow>
                              if cr_isError r then
                                (case cr_content r of [] \<Rightarrow> Some (caught, S1)
                                 | t # _ \<Rightarrow> Some (ProxyFailed (if t = [] then ''Unknown error'' else t), S1))
                              else
                                (let sanitizedToolResult = sanitize_value E (tool_result_value r)
                                 in map_option (\<lambda>v. (Interpreted (stringify sanitizedToolResult) v, S1))
                                      (unwrap_for_scan parse (weight sanitizedToolResult) sanitizedToolResult)))
                     | _ \<Rightarrow> Some (caught, S))))"

definition audit_execution ::
    "'f grpc_env \<Rightarrow> call_io \<Rightarrow> session \<Rightarrow> jsnum \<Rightarrow> string \<Rightarrow> string \<Rightarrow> string \<Rightarrow> 'f grpc_state \<Rightarrow> 'f grpc_state" where
  "audit_execution E io session fuel evidence receiptSig status S =
     S\<lparr>gs_audit := record_execution (we_sha256 (ge_worker E)) (ge_num E) (ci_nonces io)
        \<lparr>ap_timestamp = None, ap_traceId = None, ap_agentDid = client_of ''unknown'' session,
         ap_peerId = or_else (sn_tokenHash session) ''unknown'', ap_toolName = session_tool ''unknown'' session,
         ap_datasetHash = Some (text_digest (we_sha256 (ge_worker E))
            (we_stringify (ge_worker E) (JArr (case ge_records E of None \<Rightarrow> [] | Some rs \<Rightarrow> rs)))),
         ap_fuelConsumed = (if fuel = NaN then Fin 0 else fuel),
         ap_outputHash = Some (text_digest (we_sha256 (ge_worker E)) evidence),
         ap_zkReceiptSig = Some receiptSig, ap_status = status\<rparr> (gs_audit S)\<rparr>"

definition plain_dev :: "(string \<Rightarrow> string option) \<Rightarrow> bool" where
  "plain_dev env \<longleftrightarrow> env ''NODE_ENV'' = Some ''development'' \<or> env ''NODE_ENV'' = Some ''test''"

definition execution_error :: "bool \<Rightarrow> string \<Rightarrow> string" where
  "execution_error isDev detail =
     (if isDev then ''Execution Error: '' @ detail
      else ''[LIOP] Execution Failed. The injected logic violated runtime constraints or encountered a fatal error.'')"

definition grpc_blocked_message :: string where
  "grpc_blocked_message = ''[LIOP] Egress Security Violation. Output blocked due to policy enforcement.''"

text \<open>The last checks, on what was scanned: whether the evidence is withheld.\<close>

definition final_block :: "'f grpc_env \<Rightarrow> int \<Rightarrow> execution_policy option \<Rightarrow> jsval \<Rightarrow> bool option" where
  "final_block E n policy v =
     (let parse = se_parse (ge_server E) in
      case pii_scan parse (se_ner (ge_server E)) (se_pii (ge_server E)) (weight v) v of
        None \<Rightarrow> None
      | Some violation \<Rightarrow>
          (case unwrap_for_scan parse (weight v) v of
             None \<Rightarrow> None
           | Some u \<Rightarrow>
               map_option (\<lambda>agg. truthy_string violation \<noteq> None \<or> agg)
                 (violates_aggregation_first parse (weight u)
                    (case policy of None \<Rightarrow> NotEnforced | Some p \<Rightarrow> lp_enforceAggregationFirst p) (Some n) u)))"

text \<open>From the worker's result to the response.\<close>

definition respond ::
    "'f grpc_env \<Rightarrow> call_io \<Rightarrow> session \<Rightarrow> execution_policy option \<Rightarrow> logic_result \<Rightarrow> 'f grpc_state
       \<Rightarrow> (logic_response \<times> 'f grpc_state) option" where
  "respond E io session policy r S =
     (let n = sv_recordCount (gs_server S) in
      case interpret_output E (ci_now io) session (sanitize_value E (lr_output r)) (gs_server S) of
        None \<Rightarrow> None
      | Some (ProxyFailed msg, S1) \<Rightarrow> Some (error_response msg, S\<lparr>gs_server := S1\<rparr>)
      | Some (Interpreted finalOutput v, S1) \<Rightarrow>
          (let S2 = S\<lparr>gs_server := S1\<rparr>; isDev = is_dev (se_environment (ge_server E)) in
           case validate_output_policy (se_parse (ge_server E)) (weight v) isDev n (session_tool ''unknown_tool'' session) v policy None of
             None \<Rightarrow> None
           | Some (Some policyViolation) \<Rightarrow>
               Some (error_response (if isDev then policyViolation else grpc_blocked_message), S2)
           | Some None \<Rightarrow>
               map_option (\<lambda>isBlocked.
                  let evidence = (if isBlocked then grpc_blocked_message else finalOutput);
                      receipt = (case lr_zk_receipt r of None \<Rightarrow> [] | Some b \<Rightarrow> b)
                  in (\<lparr>rp_semantic_evidence = evidence, rp_cryptographic_proof = lr_image_id r, rp_zk_receipt = receipt,
                       rp_is_error = isBlocked\<rparr>,
                      audit_execution E io session (lr_fuel_consumed r) evidence (ge_base64 E receipt)
                        (if isBlocked then ''BLOCKED_EGRESS'' else ''SUCCESS'') S2))
                 (final_block E n policy v)))"

text \<open>\<open>proceed\<close>. \<open>None\<close>: the call is never answered.\<close>

definition proceed ::
    "'f grpc_env \<Rightarrow> call_io \<Rightarrow> logic_request \<Rightarrow> 'f grpc_state \<Rightarrow> ((grpc_error + logic_response) \<times> 'f grpc_state) option" where
  "proceed E io request S =
     (case find_session E io request S of
        (Inl e, S1) \<Rightarrow> Some (Inl e, S1)
      | (Inr session, S1) \<Rightarrow>
          (let policy = session_policy session S1 in
           case preflight_logic (ge_worker E) session request of
             Inl msg \<Rightarrow> Some (Inl (internal, ''Preflight logic analysis failed: '' @ msg), S1)
           | Inr logic \<Rightarrow>
               (case server_preflight (ge_server E) (session_tool ''unknown_tool'' session) logic policy
                       (client_of (lq_session_token request) session) (gs_server S1) of
                  (rejection, V) \<Rightarrow>
                    (let S2 = S1\<lparr>gs_server := V\<rparr> in
                     case truthy_string rejection of
                       Some reason \<Rightarrow> Some (Inr (error_response reason), S2)
                     | None \<Rightarrow>
                         (case process_logic_execution (ge_worker E) (worker_task E session request policy) (ci_now io) (ci_ts io) of
                            None \<Rightarrow> None
                          | Some (Inl detail) \<Rightarrow>
                              (let msg = execution_error (plain_dev (se_environment (ge_server E))) detail
                               in Some (Inr (error_response msg), audit_execution E io session (Fin 0) msg [] ''ERROR'' S2))
                          | Some (Inr r) \<Rightarrow> map_option (\<lambda>(resp, S3). (Inr resp, S3)) (respond E io session policy r S2))))))"

definition execute_logic ::
    "'f grpc_env \<Rightarrow> call_io \<Rightarrow> string option \<Rightarrow> logic_request \<Rightarrow> 'f grpc_state
       \<Rightarrow> ((grpc_error + logic_response) \<times> 'f grpc_state) option" where
  "execute_logic E io header request S =
     (case authenticate E (ci_rev io) header (gs_revocation S) of
        (Inl e, R) \<Rightarrow> Some (Inl e, S\<lparr>gs_revocation := R\<rparr>)
      | (Inr tokenHash, R) \<Rightarrow> proceed E io request (S\<lparr>gs_revocation := R\<rparr>))"

end
