(* ===== verification/GrpcClaims.thy ===== *)
theory GrpcClaims
  imports GrpcService ReceiptClaims ServerClaims
begin

text \<open>
  Properties of the gRPC service: what an answer without error has passed, that its receipt verifies
  against the evidence, that revoked tokens are refused by every server that shares the list, the life
  of a session, and the invariant of all reachable states.
\<close>

section \<open>Sanitizing twice\<close>

text \<open>The sanitizer on a value without sharing.\<close>

fun renumber :: "(jsnum \<Rightarrow> jsnum) \<Rightarrow> jsval \<Rightarrow> jsval" where
  "renumber f (JNum x) = JNum (f x)"
| "renumber f (JArr xs) = JArr (map (renumber f) xs)"
| "renumber f (JObj ps) = JObj (map (\<lambda>p. (fst p, renumber f (snd p))) (filter (\<lambda>p. fst p \<noteq> ''__proto__'') ps))"
| "renumber f v = v"

lemma with_numbers_erase: "with_numbers f t = renumber f (erase t)"
  by (induction t) (auto simp: filter_map comp_def)

lemma renumber_idem:
  assumes "\<And>x. f (f x) = f x"
  shows "renumber f (renumber f v) = renumber f v"
  by (induction v) (auto simp: assms filter_map comp_def)

lemma fresh_shape:
  shows "erase (fst (fresh n v)) = v \<and> n \<le> snd (fresh n v) \<and> distinct (identities (fst (fresh n v))) \<and>
           set (identities (fst (fresh n v))) \<subseteq> {n..<snd (fresh n v)}"
    and "map erase (fst (fresh_items n xs)) = xs \<and> n \<le> snd (fresh_items n xs) \<and>
           distinct (concat (map identities (fst (fresh_items n xs)))) \<and>
           set (concat (map identities (fst (fresh_items n xs)))) \<subseteq> {n..<snd (fresh_items n xs)}"
    and "map (\<lambda>p. (fst p, erase (snd p))) (fst (fresh_props n ps)) = ps \<and> n \<le> snd (fresh_props n ps) \<and>
           distinct (concat (map (\<lambda>p. identities (snd p)) (fst (fresh_props n ps)))) \<and>
           set (concat (map (\<lambda>p. identities (snd p)) (fst (fresh_props n ps)))) \<subseteq> {n..<snd (fresh_props n ps)}"
proof (induction n v and n xs and n ps rule: fresh_fresh_items_fresh_props.induct)
case (6 n xs)
  obtain ys m where y: "fresh_items (n + 1) xs = (ys, m)" by (cases "fresh_items (n + 1) xs")
  let ?I = "set (concat (map identities ys))"
  from 6 y have b: "Suc n \<le> m" "distinct (concat (map identities ys))" "?I \<subseteq> {Suc n..<m}" by simp_all
  then have "n \<notin> ?I" "insert n ?I \<subseteq> {n..<m}" by (auto dest!: subsetD)
  with b 6 y show ?case by simp
next
  case (7 n ps)
  obtain qs m where y: "fresh_props (n + 1) ps = (qs, m)" by (cases "fresh_props (n + 1) ps")
  let ?I = "set (concat (map (\<lambda>p. identities (snd p)) qs))"
  from 7 y have b: "Suc n \<le> m" "distinct (concat (map (\<lambda>p. identities (snd p)) qs))" "?I \<subseteq> {Suc n..<m}" by simp_all
  then have "n \<notin> ?I" "insert n ?I \<subseteq> {n..<m}" by (auto dest!: subsetD)
  with b 7 y show ?case by simp
next
  case (9 n x xs)
  obtain y m where y: "fresh n x = (y, m)" by (cases "fresh n x")
  obtain ys l where ys: "fresh_items m xs = (ys, l)" by (cases "fresh_items m xs")
  from "9.IH"(1) y have a: "n \<le> m" "distinct (identities y)" "set (identities y) \<subseteq> {n..<m}" "erase y = x" by simp_all
  from "9.IH"(2) [OF y [symmetric]] ys
  have b: "m \<le> l" "distinct (concat (map identities ys))" "set (concat (map identities ys)) \<subseteq> {m..<l}" "map erase ys = xs" by simp_all
  have low: "i < m" if "i \<in> set (identities y)" for i using a(3) that by auto
  have high: "m \<le> i" if "i \<in> set (concat (map identities ys))" for i using b(3) that by auto
  have "set (identities y) \<inter> set (concat (map identities ys)) = {}" using low high by (meson disjoint_iff not_le)
  moreover have "set (identities y) \<subseteq> {n..<l}" "set (concat (map identities ys)) \<subseteq> {n..<l}"
    using a(1,3) b(1,3) by (auto intro: order_trans less_le_trans dest!: subsetD)
  ultimately show ?case using a b by (simp add: y ys)
next
  case (11 n k x ps)
  obtain y m where y: "fresh n x = (y, m)" by (cases "fresh n x")
  obtain qs l where qs: "fresh_props m ps = (qs, l)" by (cases "fresh_props m ps")
  from "11.IH"(1) y have a: "n \<le> m" "distinct (identities y)" "set (identities y) \<subseteq> {n..<m}" "erase y = x" by simp_all
  from "11.IH"(2) [OF y [symmetric]] qs
  have b: "m \<le> l" "distinct (concat (map (\<lambda>p. identities (snd p)) qs))"
      "set (concat (map (\<lambda>p. identities (snd p)) qs)) \<subseteq> {m..<l}" "map (\<lambda>p. (fst p, erase (snd p))) qs = ps" by simp_all
  have low: "i < m" if "i \<in> set (identities y)" for i using a(3) that by auto
  have high: "m \<le> i" if "i \<in> set (concat (map (\<lambda>p. identities (snd p)) qs))" for i using b(3) that by auto
  have "set (identities y) \<inter> set (concat (map (\<lambda>p. identities (snd p)) qs)) = {}" using low high by (meson disjoint_iff not_le)
  moreover have "set (identities y) \<subseteq> {n..<l}" "set (concat (map (\<lambda>p. identities (snd p)) qs)) \<subseteq> {n..<l}"
    using a(1,3) b(1,3) by (auto intro: order_trans less_le_trans dest!: subsetD)
  ultimately show ?case using a b by (simp add: y qs)
qed (auto split: prod.split)

lemma sanitize_unshared:
  assumes "distinct (identities t)"
  shows "sanitize_output fl None t = renumber (sanitize_number default_config fl) (erase t)"
  using walk_unshared(1) [OF assms, of "{}" default_config fl]
  by (simp add: sanitize_output_def with_numbers_erase)

lemma sanitize_fresh: "sanitize_output fl None (fst (fresh 0 v)) = renumber (sanitize_number default_config fl) v"
  using fresh_shape(1) [of 0 v] by (simp add: sanitize_unshared)

lemma sanitize_number_idem: "sanitize_number default_config Fin (sanitize_number default_config Fin x) = sanitize_number default_config Fin x"
proof (cases x)
  case (Fin r)
  define k where "k = \<lfloor>max r 0 * 10 ^ 4 + 1 / 2\<rfloor>"
  have "(0 :: real) \<le> max r 0 * 10 ^ 4 + 1 / 2" by simp
  then have k: "0 \<le> k" unfolding k_def by (simp only: zero_le_floor)
  have "(if r < 0 then 0 else r) = max r 0" by simp
  then have 1: "sanitize_number default_config Fin (Fin r) = Fin (of_int k / 10 ^ 4)"
    by (simp only: sanitize_number_def default_config_def math_round_def Let_def k_def jsnum.case sanitizer_config.simps simp_thms)
  have "\<not> of_int k / 10 ^ 4 < (0 :: real)" using k by (simp add: divide_less_0_iff)
  moreover have "math_round (of_int k / 10 ^ 4 * 10 ^ 4) = of_int k" by (simp add: math_round_def)
  ultimately have "sanitize_number default_config Fin (Fin (of_int k / 10 ^ 4)) = Fin (of_int k / 10 ^ 4)"
    by (simp only: sanitize_number_def default_config_def Let_def jsnum.case sanitizer_config.simps simp_thms if_False)
  with 1 show ?thesis by (simp only: Fin)
qed (simp_all add: sanitize_number_def)

section \<open>The stages of an execution\<close>

lemma server_preflight_frame:
  "server_preflight E name l policy c V = (r, V') \<Longrightarrow> sv_tools V' = sv_tools V \<and> sv_recordCount V' = sv_recordCount V"
  using server_preflight_same by metis

lemma find_session_frame:
  "find_session E io request S = (out, S1) \<Longrightarrow>
   gs_server S1 = gs_server S \<and> gs_audit S1 = gs_audit S \<and>
   (gs_sessions S1 = gs_sessions S \<or> gs_sessions S1 = AList.delete (lq_session_token request) (gs_sessions S))"
  by (auto simp: find_session_def Let_def split: option.splits if_splits)

lemma found_session:
  "find_session E io request S = (Inr session, S1) \<Longrightarrow>
   map_of (gs_sessions S) (lq_session_token request) = Some session \<and>
   (sn_createdAt session = 0 \<or> ci_now io - sn_createdAt session \<le> max_session_ms)"
  by (auto simp: find_session_def Let_def split: option.splits if_splits)

definition authenticated :: "'f grpc_env \<Rightarrow> rev_io \<Rightarrow> string option \<Rightarrow> rev_state \<times> rev_file \<Rightarrow> bool" where
  "authenticated E io header R \<longleftrightarrow>
     (case ge_validator E of None \<Rightarrow> True
      | Some validate \<Rightarrow>
          (\<exists>authHeader. header = Some authHeader \<and>
             \<not> is_revoked (fst (load_revocation_list (ge_rev E) io R)) (token_hash (ge_worker E) (bearer_token authHeader)) \<and>
             (Some (bearer_token authHeader) = truthy_string (ge_localTestToken E) \<or>
              (\<exists>info. validate (bearer_token authHeader) = Inr info \<and> is_allowed (authorize_request ''tools/call'' (Some info) None)))))"

lemma is_allowed_Inr: "is_allowed (Inr r) = ar_allowed r"
  by (simp add: is_allowed_def)

lemma authenticate_ok: "authenticate E io header R = (Inr th, R') \<Longrightarrow> authenticated E io header R"
  by (auto simp: authenticate_def authenticated_def check_token_def Let_def truthy_string_def is_allowed_Inr
      split: option.splits sum.splits if_splits)

text \<open>What an answer without error went through.\<close>

definition passed ::
    "'f grpc_env \<Rightarrow> call_io \<Rightarrow> logic_request \<Rightarrow> session \<Rightarrow> logic_result \<Rightarrow> jsval \<Rightarrow> logic_response \<Rightarrow> 'f grpc_state \<Rightarrow> bool" where
  "passed E io request session r v resp S \<longleftrightarrow>
     (\<exists>logic. preflight_logic (ge_worker E) session request = Inr logic \<and>
        truthy_string (fst (server_preflight (ge_server E) (session_tool ''unknown_tool'' session) logic (session_policy session S)
          (client_of (lq_session_token request) session) (gs_server S))) = None) \<and>
     process_logic_execution (ge_worker E) (worker_task E session request (session_policy session S)) (ci_now io) (ci_ts io) = Some (Inr r) \<and>
     (\<exists>V V'. interpret_output E (ci_now io) session (sanitize_value E (lr_output r)) V = Some (Interpreted (rp_semantic_evidence resp) v, V')) \<and>
     final_block E (sv_recordCount (gs_server S)) (session_policy session S) v = Some False \<and>
     validate_output_policy (se_parse (ge_server E)) (weight v) (is_dev (se_environment (ge_server E))) (sv_recordCount (gs_server S))
       (session_tool ''unknown_tool'' session) v (session_policy session S) None = Some None \<and>
     rp_cryptographic_proof resp = lr_image_id r \<and>
     rp_zk_receipt resp = (case lr_zk_receipt r of None \<Rightarrow> [] | Some b \<Rightarrow> b)"

lemma respond_ok:
  assumes "respond E io session policy r S = Some (resp, S')" and "\<not> rp_is_error resp"
  shows "\<exists>v V. interpret_output E (ci_now io) session (sanitize_value E (lr_output r)) (gs_server S) =
            Some (Interpreted (rp_semantic_evidence resp) v, V) \<and>
     validate_output_policy (se_parse (ge_server E)) (weight v) (is_dev (se_environment (ge_server E))) (sv_recordCount (gs_server S))
       (session_tool ''unknown_tool'' session) v policy None = Some None \<and>
     final_block E (sv_recordCount (gs_server S)) policy v = Some False \<and>
     rp_cryptographic_proof resp = lr_image_id r \<and>
     rp_zk_receipt resp = (case lr_zk_receipt r of None \<Rightarrow> [] | Some b \<Rightarrow> b) \<and>
     S' = audit_execution E io session (lr_fuel_consumed r) (rp_semantic_evidence resp) (ge_base64 E (rp_zk_receipt resp)) ''SUCCESS''
            (S\<lparr>gs_server := V\<rparr>)"
proof -
  obtain i V where i: "interpret_output E (ci_now io) session (sanitize_value E (lr_output r)) (gs_server S) = Some (i, V)"
    using assms(1) by (auto simp: respond_def Let_def split: option.splits)
  show ?thesis
  proof (cases i)
    case (ProxyFailed msg)
    with assms i show ?thesis by (auto simp: respond_def Let_def error_response_def)
  next
    case (Interpreted t v)
    obtain pv where pv: "validate_output_policy (se_parse (ge_server E)) (weight v) (is_dev (se_environment (ge_server E)))
        (sv_recordCount (gs_server S)) (session_tool ''unknown_tool'' session) v policy None = Some pv"
      using assms(1) i Interpreted by (auto simp: respond_def Let_def split: option.splits)
    have pvN: "pv = None"
      using assms i Interpreted pv by (cases pv) (auto simp: respond_def Let_def error_response_def)
    obtain b where b: "final_block E (sv_recordCount (gs_server S)) policy v = Some b"
      using assms(1) i Interpreted pv pvN by (auto simp: respond_def Let_def)
    have "\<not> b" using assms i Interpreted pv pvN b by (auto simp: respond_def Let_def)
    then show ?thesis
      using assms(1) i Interpreted pv pvN b
      by (intro exI [of _ v] exI [of _ V]) (auto simp: respond_def Let_def)
  qed
qed

lemma execute_ok:
  assumes "execute_logic E io header request S = Some (Inr resp, S')" and "\<not> rp_is_error resp"
  shows "\<exists>session r v V. authenticated E (ci_rev io) header (gs_revocation S) \<and>
     map_of (gs_sessions S) (lq_session_token request) = Some session \<and>
     (sn_createdAt session = 0 \<or> ci_now io - sn_createdAt session \<le> max_session_ms) \<and>
     passed E io request session r v resp S \<and>
     gs_audit S' = gs_audit (audit_execution E io session (lr_fuel_consumed r) (rp_semantic_evidence resp)
        (ge_base64 E (rp_zk_receipt resp)) ''SUCCESS'' (S\<lparr>gs_server := V\<rparr>))"
proof -
  obtain th R where a: "authenticate E (ci_rev io) header (gs_revocation S) = (Inr th, R)"
    and p: "proceed E io request (S\<lparr>gs_revocation := R\<rparr>) = Some (Inr resp, S')"
    using assms(1) by (auto simp: execute_logic_def split: prod.splits sum.splits)
  obtain session S1 where f: "find_session E io request (S\<lparr>gs_revocation := R\<rparr>) = (Inr session, S1)"
    using p by (auto simp: proceed_def split: prod.splits sum.splits)
  have fr: "gs_server S1 = gs_server S" "gs_audit S1 = gs_audit S" using find_session_frame [OF f] by auto
  have pol: "session_policy session S1 = session_policy session S" by (simp add: session_policy_def fr)
  obtain logic where l: "preflight_logic (ge_worker E) session request = Inr logic"
    using p f by (auto simp: proceed_def Let_def split: sum.splits)
  obtain rej V where pf: "server_preflight (ge_server E) (session_tool ''unknown_tool'' session) logic (session_policy session S)
      (client_of (lq_session_token request) session) (gs_server S) = (rej, V)"
    by (cases "server_preflight (ge_server E) (session_tool ''unknown_tool'' session) logic (session_policy session S)
      (client_of (lq_session_token request) session) (gs_server S)")
  have rej: "truthy_string rej = None"
    using p f l pf assms(2) by (auto simp: proceed_def Let_def fr pol error_response_def split: option.splits)
  obtain r where w: "process_logic_execution (ge_worker E) (worker_task E session request (session_policy session S)) (ci_now io) (ci_ts io) = Some (Inr r)"
    and re: "respond E io session (session_policy session S) r (S1\<lparr>gs_server := V\<rparr>) = Some (resp, S')"
    using p f l pf rej assms(2) by (auto simp: proceed_def Let_def fr pol error_response_def split: option.splits sum.splits)
  have n: "sv_recordCount V = sv_recordCount (gs_server S)" using server_preflight_frame [OF pf] by simp
  from respond_ok [OF re assms(2)] obtain v V2 where
      o: "interpret_output E (ci_now io) session (sanitize_value E (lr_output r)) V = Some (Interpreted (rp_semantic_evidence resp) v, V2)"
      "validate_output_policy (se_parse (ge_server E)) (weight v) (is_dev (se_environment (ge_server E))) (sv_recordCount (gs_server S))
         (session_tool ''unknown_tool'' session) v (session_policy session S) None = Some None"
      "final_block E (sv_recordCount (gs_server S)) (session_policy session S) v = Some False"
      "rp_cryptographic_proof resp = lr_image_id r"
      "rp_zk_receipt resp = (case lr_zk_receipt r of None \<Rightarrow> [] | Some b \<Rightarrow> b)"
      "S' = audit_execution E io session (lr_fuel_consumed r) (rp_semantic_evidence resp) (ge_base64 E (rp_zk_receipt resp)) ''SUCCESS''
         (S1\<lparr>gs_server := V, gs_server := V2\<rparr>)"
    by (auto simp: n)
  have "gs_audit S' = gs_audit (audit_execution E io session (lr_fuel_consumed r) (rp_semantic_evidence resp)
        (ge_base64 E (rp_zk_receipt resp)) ''SUCCESS'' (S\<lparr>gs_server := V\<rparr>))"
    by (simp add: o(6) audit_execution_def fr)
  moreover have "passed E io request session r v resp S"
    unfolding passed_def using l pf rej w o(1-5) by auto
  ultimately show ?thesis
    using authenticate_ok [OF a] found_session [OF f] by auto
qed

section \<open>The audit log of the service\<close>

text \<open>What any operation may do to the log.\<close>

definition log_grows :: "'f grpc_env \<Rightarrow> 'f grpc_state \<Rightarrow> 'f grpc_state \<Rightarrow> bool" where
  "log_grows E S S' \<longleftrightarrow>
     gs_audit S' = gs_audit S \<or>
     (\<exists>r p. gs_audit S' = record_execution (we_sha256 (ge_worker E)) (ge_num E) r p (gs_audit S))"

lemma log_grows_same [simp]: "gs_audit S' = gs_audit S \<Longrightarrow> log_grows E S S'"
  by (simp add: log_grows_def)

lemma log_grows_audit [simp]: "gs_audit S0 = gs_audit S \<Longrightarrow> log_grows E S (audit_execution E io session fuel ev sig st S0)"
  unfolding log_grows_def audit_execution_def by auto

lemma log_grows_from: "log_grows E S1 S' \<Longrightarrow> gs_audit S1 = gs_audit S \<Longrightarrow> log_grows E S S'"
  by (simp add: log_grows_def)

lemma respond_log: "respond E io session policy r S = Some (resp, S') \<Longrightarrow> log_grows E S S'"
  by (auto simp: respond_def Let_def split: option.splits interpreted.splits)

lemma proceed_log:
  assumes "proceed E io request S = Some (out, S')"
  shows "log_grows E S S'"
proof -
  obtain f S1 where f: "find_session E io request S = (f, S1)" by (cases "find_session E io request S")
  have a: "gs_audit S1 = gs_audit S" using find_session_frame [OF f] by simp
  show ?thesis
    using assms f a
    by (auto simp: proceed_def Let_def split: sum.splits prod.splits option.splits dest!: respond_log
        intro: log_grows_from)
qed

lemma execute_log: "execute_logic E io header request S = Some (out, S') \<Longrightarrow> log_grows E S S'"
  using proceed_log by (fastforce simp: execute_logic_def log_grows_def split: prod.splits sum.splits)

lemma negotiate_log: "negotiate_intent E io header request S = (out, S') \<Longrightarrow> gs_audit S' = gs_audit S"
  by (auto simp: negotiate_intent_def Let_def split: prod.splits sum.splits)

lemma proceed_sessions:
  assumes "proceed E io request S = Some (out, S')"
  shows "gs_sessions S' = gs_sessions S \<or> gs_sessions S' = AList.delete (lq_session_token request) (gs_sessions S)"
proof -
  obtain f S1 where f: "find_session E io request S = (f, S1)" by (cases "find_session E io request S")
  have "gs_sessions S' = gs_sessions S1"
    using assms f by (auto simp: proceed_def Let_def respond_def audit_execution_def
        split: sum.splits prod.splits option.splits interpreted.splits)
  then show ?thesis using find_session_frame [OF f] by simp
qed

lemma execute_sessions:
  "execute_logic E io header request S = Some (out, S') \<Longrightarrow>
   gs_sessions S' = gs_sessions S \<or> gs_sessions S' = AList.delete (lq_session_token request) (gs_sessions S)"
  using proceed_sessions by (fastforce simp: execute_logic_def split: prod.splits sum.splits)

section \<open>Reachable states\<close>

text \<open>Any order of negotiations, executions and revocations at non-decreasing times.\<close>

inductive grpc_reach :: "'f grpc_env \<Rightarrow> 'f grpc_state \<Rightarrow> int \<Rightarrow> 'f grpc_state \<Rightarrow> bool" for E S0 where
  start: "grpc_reach E S0 0 S0"
| negotiate: "grpc_reach E S0 t S \<Longrightarrow> t \<le> ci_now io \<Longrightarrow> negotiate_intent E io header req S = (out, S') \<Longrightarrow>
    grpc_reach E S0 (ci_now io) S'"
| execute: "grpc_reach E S0 t S \<Longrightarrow> t \<le> ci_now io \<Longrightarrow> execute_logic E io header lreq S = Some (res, S') \<Longrightarrow>
    grpc_reach E S0 (ci_now io) S'"
| revoke: "grpc_reach E S0 t S \<Longrightarrow>
    grpc_reach E S0 t (S\<lparr>gs_revocation := revoke_token_hash (ge_rev E) rio hash (gs_revocation S)\<rparr>)"

definition sessions_ok :: "'f grpc_env \<Rightarrow> int \<Rightarrow> (string \<times> session) list \<Rightarrow> bool" where
  "sessions_ok E t ss \<longleftrightarrow>
     distinct (map fst ss) \<and>
     (\<forall>k s. map_of ss k = Some s \<longrightarrow> sn_createdAt s \<le> t \<and> (sn_tokenHash s = None \<longleftrightarrow> ge_validator E = None))"

definition log_ok :: "'f grpc_env \<Rightarrow> 'f grpc_state \<Rightarrow> bool" where
  "log_ok E S \<longleftrightarrow> linked (fst (gs_audit S)) \<and>
     find_broken (we_sha256 (ge_worker E)) (ge_num E) (JStr genesis_hash) 0 (al_entries (fst (gs_audit S))) = None"

lemma log_ok_step: "log_ok E S \<Longrightarrow> log_grows E S S' \<Longrightarrow> log_ok E S'"
proof -
  obtain L out where S: "gs_audit S = (L, out)" by (cases "gs_audit S")
  assume "log_ok E S" "log_grows E S S'"
  then show ?thesis
    using record_linked [of L] record_verdict [of L] by (auto simp: log_ok_def log_grows_def S)
qed

lemma sessions_ok_mono: "sessions_ok E t ss \<Longrightarrow> t \<le> t' \<Longrightarrow> sessions_ok E t' ss"
  by (fastforce simp: sessions_ok_def)

lemma sessions_ok_delete: "sessions_ok E t ss \<Longrightarrow> sessions_ok E t (AList.delete k ss)"
  by (auto simp: sessions_ok_def distinct_delete)

lemma authenticate_hash:
  "authenticate E io header R = (Inr th, R') \<Longrightarrow> (th = None \<longleftrightarrow> ge_validator E = None)"
  by (auto simp: authenticate_def check_token_def Let_def split: option.splits sum.splits if_splits)

lemma negotiate_sessions:
  assumes "negotiate_intent E io header req S = (out, S')" and "sessions_ok E t (gs_sessions S)" and "t \<le> ci_now io"
  shows "sessions_ok E (ci_now io) (gs_sessions S')"
proof -
  obtain a R where auth: "authenticate E (ci_rev io) header (gs_revocation S) = (a, R)"
    by (cases "authenticate E (ci_rev io) header (gs_revocation S)")
  show ?thesis
  proof (cases a)
    case (Inl e)
    with auth assms sessions_ok_mono show ?thesis by (auto simp: negotiate_intent_def)
  next
    case (Inr th)
    from authenticate_hash auth Inr have "th = None \<longleftrightarrow> ge_validator E = None" by metis
    with auth Inr assms sessions_ok_mono [OF assms(2,3)] show ?thesis
      by (auto simp: negotiate_intent_def Let_def sessions_ok_def distinct_update split: if_splits dest: map_of_SomeD; fastforce)
  qed
qed

section \<open>Properties\<close>

text \<open>C2: an execution answered without error ran in a live session, and, when a validator is configured, was sent
  with a token that is not revoked and is the local test token or one the validator accepts with the scope of tool
  calls (without a validator no token is asked for). It decrypted to a logic the preflight accepted, was committed
  to by the worker, and what is sent passed the output policy and the last scans; the audit log grew by exactly one
  entry, with status SUCCESS and the digest of the evidence.\<close>

theorem answered_logic_was_checked:
  assumes "execute_logic E io header request S = Some (Inr resp, S')" and "\<not> rp_is_error resp"
    and "\<And>m. we_sha256 (ge_worker E) m \<noteq> []"
  shows "(case ge_validator E of None \<Rightarrow> True
      | Some validate \<Rightarrow>
          (\<exists>authHeader. header = Some authHeader \<and>
             \<not> is_revoked (fst (load_revocation_list (ge_rev E) (ci_rev io) (gs_revocation S)))
                 (token_hash (ge_worker E) (bearer_token authHeader)) \<and>
             (Some (bearer_token authHeader) = truthy_string (ge_localTestToken E) \<or>
              (\<exists>info. validate (bearer_token authHeader) = Inr info \<and>
                 is_allowed (authorize_request ''tools/call'' (Some info) None))))) \<and>
     (\<exists>session r v e. map_of (gs_sessions S) (lq_session_token request) = Some session \<and>
        (sn_createdAt session = 0 \<or> ci_now io - sn_createdAt session \<le> max_session_ms) \<and>
        passed E io request session r v resp S \<and>
        al_entries (fst (gs_audit S')) = al_entries (fst (gs_audit S)) @ [e] \<and>
        get_prop e ''status'' = JStr ''SUCCESS'' \<and>
        get_prop e ''outputHash'' = JStr (text_digest (we_sha256 (ge_worker E)) (rp_semantic_evidence resp)))"
proof -
  from execute_ok [OF assms(1,2)] obtain session r v V where
      o: "authenticated E (ci_rev io) header (gs_revocation S)"
        "map_of (gs_sessions S) (lq_session_token request) = Some session"
        "sn_createdAt session = 0 \<or> ci_now io - sn_createdAt session \<le> max_session_ms"
        "passed E io request session r v resp S"
      and log: "gs_audit S' = gs_audit (audit_execution E io session (lr_fuel_consumed r) (rp_semantic_evidence resp)
        (ge_base64 E (rp_zk_receipt resp)) ''SUCCESS'' (S\<lparr>gs_server := V\<rparr>))"
    by blast
  obtain L out where L: "gs_audit S = (L, out)" by (cases "gs_audit S")
  from log have "\<exists>e. al_entries (fst (gs_audit S')) = al_entries (fst (gs_audit S)) @ [e] \<and>
      get_prop e ''status'' = JStr ''SUCCESS'' \<and>
      get_prop e ''outputHash'' = JStr (or_else (Some (text_digest (we_sha256 (ge_worker E)) (rp_semantic_evidence resp))) (empty_digest (we_sha256 (ge_worker E))))"
    by (simp add: audit_execution_def L record_execution_eq full_entry_def partial_entry_def get_prop_def)
  moreover have "text_digest (we_sha256 (ge_worker E)) t \<noteq> []" for t
    using assms(3) length_hex_text [of "we_sha256 (ge_worker E) (utf8 t)"]
    by (metis length_0_conv mult_eq_0_iff text_digest_def zero_neq_numeral)
  ultimately show ?thesis
    unfolding authenticated_def [symmetric] using o by (simp add: or_else_def) blast
qed

text \<open>What the caller receives verifies. With exact arithmetic and outputs that are trees, an
  answer without error to a logic that is no proxy request carries a receipt which the caller
  accepts for the evidence, under the session secret.\<close>

theorem evidence_verifies_against_receipt:
  assumes "execute_logic E io header request S = Some (Inr resp, S')" and "\<not> rp_is_error resp"
    and "map_of (gs_sessions S) (lq_session_token request) = Some session"
    and "we_kem_decap (ge_worker E) (lq_pqc_ciphertext request) (sn_kyber_sk session) = Inr secret"
    and "we_gcm_open (ge_worker E) secret (case lq_aes_nonce request of None \<Rightarrow> replicate 12 0 | Some n \<Rightarrow> n)
           (without_tag (lq_wasm_binary request)) (auth_tag (lq_wasm_binary request)) = Inr p"
    and "stable_payload p" and "try_extract_proxy_output (we_parse (ge_worker E)) p = None"
    and "process_logic_execution (ge_worker E) (worker_task E session request (session_policy session S)) (ci_now io) (ci_ts io) = Some (Inr r)"
    and "renumber (sanitize_number default_config (se_round (ge_server E))) (lr_output r) = lr_output r"
    and "(\<exists>s. lr_output r = JStr s) \<or>
         (\<exists>d. is_object (lr_output r) \<and> se_parse (ge_server E) (se_stringify (ge_server E) (lr_output r)) = Some d \<and> d \<noteq> JNull)"
    and "\<And>d. se_parse (ge_server E) (output_text (se_stringify (ge_server E)) (lr_output r)) = Some d \<Longrightarrow> \<not> truthy (prop_of d ''__liop_proxy_tool'')"
    and "se_stringify (ge_server E) = we_stringify (ge_worker E)"
    and "we_parse (ge_worker E) (we_stringify (ge_worker E) (journal_of (ge_worker E) (lr_image_id r)
           (dataset_hash (ge_worker E) (worker_task E session request (session_policy session S))) (lr_output r) (lr_fuel_consumed r) (ci_ts io))) =
         Some (journal_of (ge_worker E) (lr_image_id r)
           (dataset_hash (ge_worker E) (worker_task E session request (session_policy session S))) (lr_output r) (lr_fuel_consumed r) (ci_ts io))"
    and "\<And>m. length (we_hmac (ge_worker E) secret m) = 32" and "\<And>m. 0 < length (we_sha256 (ge_worker E) m)"
  shows "liop_verify_zk_receipt (ge_worker E) p (rp_cryptographic_proof resp) (rp_zk_receipt resp) (Some secret)
     (JStr (rp_semantic_evidence resp))"
proof -
  let ?W = "ge_worker E" and ?d = "worker_task E session request (session_policy session S)"
  from execute_ok [OF assms(1,2)] assms(3,8) obtain v where pass: "passed E io request session r v resp S"
    by (auto simp: passed_def)
  have out: "sanitize_value E (lr_output r) = lr_output r"
    using assms(9) by (simp add: sanitize_value_def sanitize_fresh)
  from pass out obtain V V' where i: "interpret_output E (ci_now io) session (lr_output r) V = Some (Interpreted (rp_semantic_evidence resp) v, V')"
    by (auto simp: passed_def)
  have ev: "rp_semantic_evidence resp = output_text (we_stringify ?W) (lr_output r)"
    using assms(10)
  proof
    assume "\<exists>s. lr_output r = JStr s"
    then obtain s where s: "lr_output r = JStr s" by blast
    with assms(11) i show ?thesis by (auto simp: interpret_output_def Let_def output_text_def split: option.splits if_splits)
  next
    assume "\<exists>d. is_object (lr_output r) \<and> se_parse (ge_server E) (se_stringify (ge_server E) (lr_output r)) = Some d \<and> d \<noteq> JNull"
    then obtain d where d: "is_object (lr_output r)" "se_parse (ge_server E) (se_stringify (ge_server E) (lr_output r)) = Some d" "d \<noteq> JNull" by blast
    from d(1) have "(\<exists>xs. lr_output r = JArr xs) \<or> (\<exists>ps. lr_output r = JObj ps)" by (cases "lr_output r") auto
    then have t: "output_text f (lr_output r) = f (lr_output r)" and
      c: "(case lr_output r of JStr s \<Rightarrow> Some s | JUndef \<Rightarrow> None | _ \<Rightarrow> Some (f (lr_output r))) = Some (f (lr_output r))" for f
      by (auto simp: output_text_def)
    from assms(11) [of d] d(2) have "\<not> truthy (prop_of d ''__liop_proxy_tool'')" by (simp add: t)
    then have "interpret_output E (ci_now io) session (lr_output r) V = Some (Interpreted (we_stringify ?W (lr_output r)) (lr_output r), V)"
      using d(2,3) by (simp add: interpret_output_def Let_def c assms(12))
    from i [unfolded this option.inject prod.inject interpreted.inject]
    have "we_stringify ?W (lr_output r) = rp_semantic_evidence resp" by (elim conjE)
    then show ?thesis unfolding t by (rule sym)
  qed
  obtain inputs where op: "open_payload ?W ?d = Inr ((p, is_wasm p), inputs, secret)"
  proof -
    obtain x where "open_payload ?W ?d = Inr x"
      using assms(8) by (auto simp: process_logic_execution_def worker_task_def split: option.splits sum.splits)
    moreover have "open_payload ?W ?d = bind_sum (decrypt_inputs ?W secret (lq_inputs request)) (\<lambda>inputs. Inr ((p, is_wasm p), inputs, secret))"
      using assms(4,5) by (simp add: open_payload_def worker_task_def)
    ultimately show ?thesis using that by (auto simp: bind_sum_Inr)
  qed
  obtain receipt where rec: "lr_zk_receipt r = Some receipt"
    using assms(8) by (auto simp: process_logic_execution_def worker_task_def commit_output_def Let_def bind_sum_Inr
        split: option.splits sum.splits prod.splits)
  have "rp_zk_receipt resp = receipt" "rp_cryptographic_proof resp = lr_image_id r"
    using pass rec by (simp_all add: passed_def)
  moreover have "liop_verify_zk_receipt ?W p (lr_image_id r) receipt (Some secret) (JStr (rp_semantic_evidence resp))"
    by (rule honest_receipt [OF assms(8) _ op assms(6) rec assms(13) assms(14) assms(15) assms(7)])
      (simp_all add: worker_task_def output_text_def ev)
  ultimately show ?thesis by simp
qed

text \<open>C25: once a server has written the revocation of a token, every server that shares the list
  refuses it: it opens no session and executes nothing for that token, and executes nothing in a
  session that was opened with it.\<close>

theorem revoked_token_refused:
  assumes "faithful_json (ge_rev E)" and "has_path (ge_rev E)" and "io_writable rio"
    and "revoke_token (ge_rev E) (text_digest (we_sha256 (ge_worker E))) rio token (Ss i, F) = (R, F')"
    and "token \<noteq> []" and "\<And>j. rv_lastLoad (Ss j) < io_mtime rio" and "\<And>m. we_sha256 (ge_worker E) m \<noteq> []"
    and "rev_steps (ge_rev E) (Ss(i := R), F') (Ts, G)" and "gs_revocation S = (Ts j, G)"
    and "ge_validator E \<noteq> None" and "io_readable (ci_rev io)" and "io_readable (ci_rev2 io)"
    and "js_trim (token_hash (ge_worker E) token) = token_hash (ge_worker E) token"
  shows "fst (negotiate_intent E io (Some (''Bearer '' @ token)) req S) = Inl revoked_error \<and>
     (\<exists>S'. execute_logic E io (Some (''Bearer '' @ token)) lreq S = Some (Inl revoked_error, S')) \<and>
     (\<forall>session. map_of (gs_sessions S) (lq_session_token lreq) = Some session \<longrightarrow>
        sn_tokenHash session = Some (token_hash (ge_worker E) token) \<longrightarrow>
        (\<exists>e S'. proceed E io lreq S = Some (Inl e, S') \<and> fst e = unauthenticated))"
proof -
  let ?h = "token_hash (ge_worker E) token"
  have ne: "?h \<noteq> []"
    using assms(7) length_hex_text [of "we_sha256 (ge_worker E) (utf8 token)"]
    by (simp add: token_hash_def js_lower_def) (metis length_0_conv mult_eq_0_iff text_digest_def zero_neq_numeral)
  have low: "js_lower ?h = ?h" by (simp add: token_hash_def)
  have rt: "revoke_token_hash (ge_rev E) rio ?h (Ss i, F) = (R, F')"
    using assms(4,5) by (simp add: revoke_token_def token_hash_def)
  have "listed (ge_rev E) (js_lower ?h) (Ss(i := R), F')"
    by (rule revoke_listed [where Ss = Ss and i = i, OF assms(2) ne assms(3) rt assms(6)])
  from listed_steps [OF assms(8,1,2) _ this] have l: "listed (ge_rev E) ?h (Ts, G)" using assms(13) low by simp
  have load: "is_revoked (fst (load_revocation_list (ge_rev E) io' (gs_revocation S))) ?h" if "io_readable io'" for io'
    using load_listed(4) [OF assms(1,2) _ l _ that] assms(9,13) low by (metis prod.collapse)
  obtain validate where val: "ge_validator E = Some validate" using assms(10) by auto
  have b: "bearer_token (''Bearer '' @ token) = token" by (simp add: bearer_token_def)
  have auth: "authenticate E (ci_rev io) (Some (''Bearer '' @ token)) (gs_revocation S) =
      (Inl revoked_error, load_revocation_list (ge_rev E) (ci_rev io) (gs_revocation S))"
    using load [OF assms(11)] b val by (simp add: authenticate_def truthy_string_def Let_def)
  have "\<exists>e S'. proceed E io lreq S = Some (Inl e, S') \<and> fst e = unauthenticated"
    if s: "map_of (gs_sessions S) (lq_session_token lreq) = Some session" and h: "sn_tokenHash session = Some ?h" for session
    using load [OF assms(12)] ne
    by (auto simp: proceed_def find_session_def s h truthy_string_def Let_def revoked_error_def)
  then show ?thesis using auth by (auto simp: negotiate_intent_def execute_logic_def)
qed

text \<open>A negotiated session is found again, with the capability, the key and the agent it was opened
  for, for exactly one hour; the first request after that is refused and removes it.\<close>

theorem negotiated_session_lifetime:
  assumes "negotiate_intent E io header req S = (Inr resp, S')" and "lq_session_token lreq = ir_session_token resp"
    and "ci_now io \<noteq> 0" and "ge_validator E = None"
  shows "if ci_now io' - ci_now io \<le> max_session_ms
     then find_session E io' lreq S' =
       (Inr \<lparr>sn_capability_hash = iq_capability_hash req, sn_kyber_sk = ci_secret_key io, sn_agent_did = iq_agent_did req,
             sn_tokenHash = None, sn_createdAt = ci_now io\<rparr>, S')
     else (\<exists>e S''. proceed E io' lreq S' = Some (Inl e, S'') \<and> fst e = unauthenticated \<and>
             map_of (gs_sessions S'') (ir_session_token resp) = None)"
  using assms
  by (auto simp: negotiate_intent_def authenticate_def find_session_def proceed_def Let_def truthy_string_def)

text \<open>C24: in every state reachable by negotiations, executions and revocations in any order, there is
  one session per token, none dates from the future, a session carries a token hash exactly when the
  server validates tokens, and the audit log verifies.\<close>

theorem grpc_states_consistent:
  assumes "grpc_reach E S0 t S" and "gs_sessions S0 = []" and "new_logger parse fp content = Some (fst (gs_audit S0))"
    and "in_valid (verify_integrity (we_sha256 (ge_worker E)) (ge_num E) (fst (gs_audit S0)))"
  shows "sessions_ok E t (gs_sessions S) \<and>
     in_valid (verify_integrity (we_sha256 (ge_worker E)) (ge_num E) (fst (gs_audit S)))"
proof -
  have "sessions_ok E t (gs_sessions S) \<and> log_ok E S" using assms(1)
  proof (induction rule: grpc_reach.induct)
    case start
    show ?case
      using assms(2,4) new_logger_linked [OF assms(3)]
      by (simp add: sessions_ok_def log_ok_def verify_integrity_def Let_def)
  next
    case (negotiate t S io header req out S')
    then show ?case
      using negotiate_sessions [OF negotiate(3) _ negotiate(2)] log_ok_step [of E S S'] negotiate_log [OF negotiate(3)]
      by simp
  next
    case (execute t S io header lreq res S')
    then have "sessions_ok E t (gs_sessions S')"
      using execute_sessions [OF execute(3)] sessions_ok_delete by metis
    with execute show ?case using sessions_ok_mono log_ok_step execute_log by metis
  next
    case (revoke t S rio hash)
    then show ?case by (simp add: log_ok_def)
  qed
  then show ?thesis by (simp add: log_ok_def verify_integrity_def Let_def)
qed

section \<open>Witnesses\<close>

definition grpc_worker :: worker_env where
  "grpc_worker = example_worker\<lparr>we_kem_decap := (\<lambda>c k. Inr (replicate 32 9)), we_gcm_open := (\<lambda>k n c t. Inr [0x31]),
     we_stringify := (\<lambda>v. ''ok''), we_parse := (\<lambda>s. Some example_journal)\<rparr>"

definition grpc_demo :: "disk_budget grpc_env" where
  "grpc_demo = \<lparr>ge_server = demo_env, ge_worker = grpc_worker, ge_rev = example_rev_env, ge_validator = None,
     ge_localTestToken = None, ge_num = three, ge_base64 = (\<lambda>b. []), ge_records = None\<rparr>"

definition demo_session :: session where
  "demo_session = \<lparr>sn_capability_hash = ''sum'', sn_kyber_sk = [7], sn_agent_did = ''did:liop:a'', sn_tokenHash = None, sn_createdAt = 1\<rparr>"

definition grpc_state :: "disk_budget grpc_state" where
  "grpc_state = \<lparr>gs_server = demo_state, gs_sessions = [(''s'', demo_session)], gs_revocation = (empty_rev, None),
     gs_audit = (blank_logger\<lparr>al_filePath := False\<rparr>, [])\<rparr>"

definition demo_request :: logic_request where
  "demo_request = \<lparr>lq_session_token = ''s'', lq_wasm_binary = [5] @ replicate 16 6, lq_inputs = [], lq_pqc_ciphertext = [3], lq_aes_nonce = Some [4]\<rparr>"

definition demo_io :: call_io where
  "demo_io = \<lparr>ci_now = 5, ci_rev = example_io, ci_rev2 = example_io, ci_uuid = ''s'', ci_public_key = [1],
     ci_secret_key = [7], ci_ts = 5, ci_nonces = \<lparr>nc_uuid = ''u'', nc_now = ''t'', nc_trace = ''r'', nc_written = True\<rparr>\<rparr>"

lemmas grpc_demo_simps = grpc_demo_def grpc_worker_def demo_session_def grpc_state_def demo_request_def demo_io_def

lemma demo_policy: "session_policy demo_session grpc_state = te_policy demo_entry"
  by (simp add: session_policy_def grpc_demo_simps demo_state_def)

definition demo_task :: worker_data where
  "demo_task = worker_task grpc_demo demo_session demo_request (te_policy demo_entry)"

lemma demo_opens: "open_payload grpc_worker demo_task = Inr (([0x31], is_wasm [0x31]), [], replicate 32 9)"
  by (simp add: open_payload_def demo_task_def worker_task_def grpc_demo_simps)

lemma grpc_digests:
  "we_sha256 grpc_worker = (\<lambda>m. replicate 32 1)" "we_hmac grpc_worker = (\<lambda>k m. replicate 32 2)"
  "we_stringify grpc_worker = (\<lambda>v. ''ok'')" "we_parse grpc_worker = (\<lambda>s. Some example_journal)" "we_fl grpc_worker = Fin"
  by (simp_all add: grpc_worker_def example_worker_def)

lemma grpc_crypto: "we_kem_decap grpc_worker = (\<lambda>c k. Inr (replicate 32 9))" "we_gcm_open grpc_worker = (\<lambda>k n c t. Inr [0x31])"
  by (simp_all add: grpc_worker_def)

definition demo_receipt :: bytes where
  "demo_receipt = [1] @ be16 2 @ utf8 ''ok'' @ replicate 32 2"

definition demo_result :: logic_result where
  "demo_result = \<lparr>lr_image_id = hex_text (replicate 32 1), lr_output = JStr ''ok'', lr_fuel_consumed = Fin 0, lr_zk_receipt = Some demo_receipt\<rparr>"

lemma demo_commits: "commit_output grpc_worker demo_task (replicate 32 9) q (TStr ''ok'') (Fin 0) 5 = Some (Inr demo_result)"
proof -
  have dp: "dp_stage grpc_worker demo_task i (TStr ''ok'') = Some (TStr ''ok'')" for i
    by (auto simp: dp_stage_def apply_dp_to_output_def Let_def split: option.split)
  have img: "derive_logic_image_digest (\<lambda>m. replicate 32 1) m = replicate 32 1" for m
    by (simp add: derive_logic_image_digest_def)
  have "length (utf8 ''ok'') = 2" by (simp add: utf8_def utf8_char_def code_of_def)
  then have seal: "seal_receipt grpc_worker k (utf8 ''ok'') = Inr demo_receipt" for k
    by (simp add: seal_receipt_def demo_receipt_def grpc_digests)
  show ?thesis
    by (simp add: commit_output_def Let_def dp img seal grpc_digests demo_result_def sanitize_output_def)
qed

lemma demo_executes: "process_logic_execution grpc_worker demo_task 5 5 = Some (Inr demo_result)"
proof -
  have run: "runnable grpc_worker ([0x31], is_wasm [0x31]) = Inr (Inr (normalize_logic_source (utf8_text [0x31])))"
    by (simp add: runnable_def is_wasm_def)
  have exec: "we_execute grpc_worker = (\<lambda>p rs is. Inr (TStr ''ok'', Fin 0))"
    and task: "\<not> wd_isWarmup demo_task" "session_error (wd_sessionTimestamp demo_task) 5 = None"
    by (simp_all add: grpc_worker_def example_worker_def demo_task_def worker_task_def demo_session_def session_error_def)
  show ?thesis
    by (simp only: process_logic_execution_def task demo_opens run exec demo_commits if_False option.case sum.case prod.case simp_thms)
qed

lemma demo_preflight_logic: "preflight_logic grpc_worker demo_session demo_request = Inr ''1''"
proof -
  have "re_match envelope_head (b, ''1'') = []" "re_match envelope_head (b, []) = []" for b
    by (simp_all add: envelope_head_def re_match_lit)
  then have env: "envelope_logic [] ''1'' = None"
    by (subst envelope_logic.simps, simp, subst envelope_logic.simps) simp
  have x: "extract_logic ''1'' = None"
    by (simp add: extract_logic_def one_text(2) env truthy_string_def)
  show ?thesis
    by (simp only: preflight_logic_def Let_def grpc_crypto one_text sum.case bind_sum_def x) (simp add: truthy_string_def one_text(2))
qed

text \<open>The same service with a validator and another revocation list: a run does not depend on them.\<close>

definition demo_with :: "(string \<Rightarrow> string + auth_info) option \<Rightarrow> rev_env \<Rightarrow> disk_budget grpc_env" where
  "demo_with checker revs = grpc_demo\<lparr>ge_validator := checker, ge_rev := revs\<rparr>"

lemma demo_sanitized: "sanitize_value (demo_with checker revs) (JStr ''ok'') = JStr ''ok''"
  unfolding sanitize_value_def sanitize_fresh by simp

lemma demo_interpreted:
  "interpret_output (demo_with checker revs) 5 demo_session (JStr ''ok'') V = Some (Interpreted ''ok'' (JStr ''ok''), V)"
  by (simp add: interpret_output_def Let_def demo_with_def grpc_demo_def demo_env_def)

lemma demo_validated:
  "validate_output_policy (se_parse demo_env) (weight (JStr ''ok'')) d 50 t (JStr ''ok'') (te_policy demo_entry) None = Some None"
  by (simp add: validate_output_policy_def demo_env_def demo_entry_def parse_unknown_json_def is_error_result_def
      no_policy_def enforced_def looks_json_def js_trim_def trim_start_def trim_end_def is_space_def code_of_def)

lemma demo_final: "final_block (demo_with checker revs) 50 (te_policy demo_entry) (JStr ''ok'') = Some False"
  by (simp add: final_block_def Let_def demo_with_def grpc_demo_def demo_env_def demo_entry_def no_policy_def enforced_def
      looks_json_def js_trim_def trim_start_def trim_end_def is_space_def code_of_def
      new_pii_scanner_def string_violation_def ner_person_def truthy_string_def)

definition demo_response :: logic_response where
  "demo_response = \<lparr>rp_semantic_evidence = ''ok'', rp_cryptographic_proof = hex_text (replicate 32 1),
     rp_zk_receipt = demo_receipt, rp_is_error = False\<rparr>"

lemma demo_proceeds: "\<exists>S'. proceed (demo_with checker revs) demo_io demo_request grpc_state = Some (Inr demo_response, S')"
proof -
  let ?E = "demo_with checker revs"
  have fs: "find_session ?E demo_io demo_request grpc_state = (Inr demo_session, grpc_state)"
    by (simp add: find_session_def demo_with_def grpc_demo_simps max_session_ms_def)
  have W: "ge_worker ?E = grpc_worker" "ge_server ?E = demo_env" "ci_now demo_io = 5" "ci_ts demo_io = 5"
    "gs_server grpc_state = demo_state" "sv_recordCount demo_state = 50" "session_tool ''unknown_tool'' demo_session = ''sum''"
    by (simp_all add: demo_with_def grpc_demo_def demo_io_def grpc_state_def demo_state_def session_tool_def demo_session_def)
  have S: "grpc_state\<lparr>gs_server := demo_state\<rparr> = grpc_state" by (simp add: grpc_state_def)
  have re: "\<exists>S'. respond ?E demo_io demo_session (te_policy demo_entry) demo_result grpc_state = Some (demo_response, S')"
    by (simp add: respond_def Let_def W demo_result_def demo_sanitized demo_interpreted demo_validated demo_final demo_response_def del: weight.simps)
  have task: "worker_task ?E demo_session demo_request (te_policy demo_entry) = demo_task"
    by (simp add: demo_task_def demo_with_def worker_task_def)
  show ?thesis
    using re
    by (auto simp: S proceed_def fs Let_def W demo_policy demo_preflight_logic demo_preflight task demo_executes)
qed

lemma demo_answers: "\<exists>S'. execute_logic grpc_demo demo_io None demo_request grpc_state = Some (Inr demo_response, S')"
proof -
  have E: "demo_with None example_rev_env = grpc_demo" by (simp add: demo_with_def grpc_demo_def)
  have auth: "authenticate grpc_demo (ci_rev demo_io) None (gs_revocation grpc_state) = (Inr None, gs_revocation grpc_state)"
    by (simp add: authenticate_def grpc_demo_def)
  have S: "grpc_state\<lparr>gs_revocation := gs_revocation grpc_state\<rparr> = grpc_state" by simp
  show ?thesis using demo_proceeds [of None example_rev_env] by (simp add: execute_logic_def auth S E)
qed

text \<open>A service with a validator that accepts one token, and no revocation list.\<close>

definition demo_validator :: "string \<Rightarrow> string + auth_info" where
  "demo_validator t = (if t = ''tok''
     then Inr \<lparr>ai_token = t, ai_clientId = ''c'', ai_scopes = [''liop:tools:call''], ai_expiresAt = None\<rparr> else Inl ''bad token'')"

definition guarded_demo :: "disk_budget grpc_env" where
  "guarded_demo = demo_with (Some demo_validator) (example_rev_env\<lparr>re_path := None\<rparr>)"

lemma guarded_answers:
  "\<exists>S'. execute_logic guarded_demo demo_io (Some (''Bearer '' @ ''tok'')) demo_request grpc_state = Some (Inr demo_response, S')"
proof -
  have ok: "authorize_request ''tools/call'' (Some \<lparr>ai_token = t, ai_clientId = ''c'', ai_scopes = [''liop:tools:call''], ai_expiresAt = None\<rparr>) None =
      Inr \<lparr>ar_allowed = True, ar_reason = None\<rparr>" for t
    by (simp add: authorize_request_def scope_lookup_def scope_map_def entry_is_public_def spread_entry_def)
  have "\<exists>h. authenticate guarded_demo (ci_rev demo_io) (Some (''Bearer '' @ ''tok'')) (gs_revocation grpc_state) = (Inr h, gs_revocation grpc_state)"
    by (simp add: authenticate_def guarded_demo_def demo_with_def grpc_demo_def demo_validator_def bearer_token_def
        load_revocation_list_def has_path_def is_revoked_def check_token_def ok grpc_state_def empty_rev_def Let_def example_rev_env_def)
  then obtain h where a: "authenticate guarded_demo (ci_rev demo_io) (Some (''Bearer '' @ ''tok'')) (gs_revocation grpc_state) = (Inr h, gs_revocation grpc_state)"
    by blast
  have S: "grpc_state\<lparr>gs_revocation := gs_revocation grpc_state\<rparr> = grpc_state" by simp
  show ?thesis
    unfolding execute_logic_def a using demo_proceeds [of "Some demo_validator" "example_rev_env\<lparr>re_path := None\<rparr>"]
    by (simp add: S guarded_demo_def)
qed

theorem answered_logic_was_checked_witness:
  "(\<exists>info. demo_validator ''tok'' = Inr info \<and> is_allowed (authorize_request ''tools/call'' (Some info) None)) \<and>
   (\<exists>session r v. map_of (gs_sessions grpc_state) (lq_session_token demo_request) = Some session \<and>
      passed guarded_demo demo_io demo_request session r v demo_response grpc_state)"
proof -
  obtain S' where S': "execute_logic guarded_demo demo_io (Some (''Bearer '' @ ''tok'')) demo_request grpc_state = Some (Inr demo_response, S')"
    using guarded_answers by blast
  have ok: "\<not> rp_is_error demo_response" "\<And>m. we_sha256 (ge_worker guarded_demo) m \<noteq> []"
    by (simp_all add: demo_response_def guarded_demo_def demo_with_def grpc_demo_def grpc_digests)
  have v: "ge_validator guarded_demo = Some demo_validator" "ge_localTestToken guarded_demo = None"
      "bearer_token (''Bearer '' @ ''tok'') = ''tok''"
    by (simp_all add: guarded_demo_def demo_with_def grpc_demo_def bearer_token_def)
  from answered_logic_was_checked [OF S' ok] show ?thesis
    unfolding v option.case truthy_string_simps using v(3) by auto
qed

theorem evidence_verifies_against_receipt_witness:
  "liop_verify_zk_receipt grpc_worker [0x31] (rp_cryptographic_proof demo_response) (rp_zk_receipt demo_response) (Some (replicate 32 9))
     (JStr (rp_semantic_evidence demo_response))"
proof -
  obtain S' where S': "execute_logic grpc_demo demo_io None demo_request grpc_state = Some (Inr demo_response, S')"
    using demo_answers by blast
  have W: "ge_worker grpc_demo = grpc_worker" "ge_server grpc_demo = demo_env" by (simp_all add: grpc_demo_def)
  have j: "journal_of grpc_worker (lr_image_id demo_result) (dataset_hash grpc_worker demo_task)
      (lr_output demo_result) (lr_fuel_consumed demo_result) 5 = example_journal"
    by (simp add: journal_of_def demo_result_def dataset_hash_def text_digest_def grpc_digests example_journal_def)
  show ?thesis
  proof (rule evidence_verifies_against_receipt [OF S', where session = demo_session and r = demo_result, unfolded W])
    show "process_logic_execution grpc_worker (worker_task grpc_demo demo_session demo_request (session_policy demo_session grpc_state)) (ci_now demo_io) (ci_ts demo_io) =
        Some (Inr demo_result)"
      using demo_executes by (simp add: demo_policy demo_task_def [symmetric] demo_io_def)
    show "we_parse grpc_worker (we_stringify grpc_worker (journal_of grpc_worker (lr_image_id demo_result)
        (dataset_hash grpc_worker (worker_task grpc_demo demo_session demo_request (session_policy demo_session grpc_state))) (lr_output demo_result) (lr_fuel_consumed demo_result) (ci_ts demo_io))) =
      Some (journal_of grpc_worker (lr_image_id demo_result)
        (dataset_hash grpc_worker (worker_task grpc_demo demo_session demo_request (session_policy demo_session grpc_state))) (lr_output demo_result) (lr_fuel_consumed demo_result) (ci_ts demo_io))"
      using j by (simp add: demo_policy demo_task_def [symmetric] demo_io_def grpc_digests)
    show "stable_payload [0x31]" by (rule example_stable)
    show "try_extract_proxy_output (we_parse grpc_worker) [0x31] = None" by (rule example_not_proxy)
  qed (simp_all add: demo_response_def grpc_state_def demo_request_def demo_result_def grpc_digests grpc_crypto
      demo_env_def output_text_def)
qed

definition validating_demo :: "disk_budget grpc_env" where
  "validating_demo = grpc_demo\<lparr>ge_validator := Some (\<lambda>t. Inl ''no'')\<rparr>"

definition demo_token_revoked :: "rev_state \<times> rev_file" where
  "demo_token_revoked = revoke_token example_rev_env (text_digest (we_sha256 grpc_worker)) example_io ''tok'' (empty_rev, Some ([], 3))"

definition revoked_state :: "disk_budget grpc_state" where
  "revoked_state = grpc_state\<lparr>gs_revocation := (empty_rev, snd demo_token_revoked)\<rparr>"

theorem revoked_token_refused_witness:
  "fst (negotiate_intent validating_demo demo_io (Some (''Bearer '' @ ''tok'')) \<lparr>iq_agent_did = [], iq_capability_hash = []\<rparr> revoked_state) = Inl revoked_error \<and>
     (\<exists>S'. execute_logic validating_demo demo_io (Some (''Bearer '' @ ''tok'')) demo_request revoked_state = Some (Inl revoked_error, S'))"
proof -
  have "fst (negotiate_intent validating_demo demo_io (Some (''Bearer '' @ ''tok'')) \<lparr>iq_agent_did = [], iq_capability_hash = []\<rparr> revoked_state) = Inl revoked_error \<and>
     (\<exists>S'. execute_logic validating_demo demo_io (Some (''Bearer '' @ ''tok'')) demo_request revoked_state = Some (Inl revoked_error, S')) \<and>
     (\<forall>session. map_of (gs_sessions revoked_state) (lq_session_token demo_request) = Some session \<longrightarrow>
        sn_tokenHash session = Some (token_hash (ge_worker validating_demo) ''tok'') \<longrightarrow>
        (\<exists>e S'. proceed validating_demo demo_io demo_request revoked_state = Some (Inl e, S') \<and> fst e = unauthenticated))"
  proof (rule revoked_token_refused [where Ss = "\<lambda>_ :: nat. empty_rev" and i = 0 and j = 1
        and Ts = "(\<lambda>_ :: nat. empty_rev)(0 := fst demo_token_revoked)" and R = "fst demo_token_revoked" and F' = "snd demo_token_revoked" and rio = example_io])
    have W: "ge_worker validating_demo = grpc_worker" "ge_rev validating_demo = example_rev_env"
      by (simp_all add: validating_demo_def grpc_demo_def)
    show "faithful_json (ge_rev validating_demo)" by (simp add: W faithful_json_def example_rev_env_def example_codec)
    show "has_path (ge_rev validating_demo)" by (simp add: W has_path_def example_rev_env_def)
    show "revoke_token (ge_rev validating_demo) (text_digest (we_sha256 (ge_worker validating_demo))) example_io ''tok'' (empty_rev, Some ([], 3)) =
        (fst demo_token_revoked, snd demo_token_revoked)"
      by (simp add: W demo_token_revoked_def)
    show "rev_steps (ge_rev validating_demo) ((\<lambda>_ :: nat. empty_rev)(0 := fst demo_token_revoked), snd demo_token_revoked)
        ((\<lambda>_ :: nat. empty_rev)(0 := fst demo_token_revoked), snd demo_token_revoked)" by (rule rev_steps.here)
    show "gs_revocation revoked_state = (((\<lambda>_ :: nat. empty_rev)(0 := fst demo_token_revoked)) 1, snd demo_token_revoked)"
      by (simp add: revoked_state_def)
    have "js_trim (js_lower (hex_text (replicate 32 1))) = js_lower (hex_text (replicate 32 1))" by code_simp
    then show "js_trim (token_hash (ge_worker validating_demo) ''tok'') = token_hash (ge_worker validating_demo) ''tok''"
      by (simp add: W token_hash_def text_digest_def grpc_digests)
  qed (simp_all add: example_io_def empty_rev_def demo_io_def validating_demo_def grpc_demo_def grpc_digests)
  then show ?thesis by blast
qed

theorem negotiated_session_lifetime_witness:
  "if 3600005 - ci_now demo_io \<le> max_session_ms
   then find_session grpc_demo (demo_io\<lparr>ci_now := 3600005\<rparr>) demo_request
       (snd (negotiate_intent grpc_demo demo_io None \<lparr>iq_agent_did = ''b'', iq_capability_hash = []\<rparr> grpc_state)) =
     (Inr \<lparr>sn_capability_hash = [], sn_kyber_sk = [7], sn_agent_did = ''b'', sn_tokenHash = None, sn_createdAt = 5\<rparr>,
      snd (negotiate_intent grpc_demo demo_io None \<lparr>iq_agent_did = ''b'', iq_capability_hash = []\<rparr> grpc_state))
   else False"
  using negotiated_session_lifetime [of grpc_demo demo_io None "\<lparr>iq_agent_did = ''b'', iq_capability_hash = []\<rparr>" grpc_state
      "\<lparr>ir_accepted = True, ir_session_token = ''s'', ir_kyber_public_key = [1]\<rparr>"
      "snd (negotiate_intent grpc_demo demo_io None \<lparr>iq_agent_did = ''b'', iq_capability_hash = []\<rparr> grpc_state)"
      demo_request "demo_io\<lparr>ci_now := 3600005\<rparr>"]
  by (simp add: negotiate_intent_def authenticate_def grpc_demo_def demo_io_def demo_request_def max_session_ms_def Let_def)

theorem grpc_states_consistent_witness:
  "sessions_ok grpc_demo 0 (gs_sessions (grpc_state\<lparr>gs_sessions := []\<rparr>)) \<and>
     in_valid (verify_integrity (we_sha256 (ge_worker grpc_demo)) (ge_num grpc_demo) (fst (gs_audit (grpc_state\<lparr>gs_sessions := []\<rparr>))))"
proof (rule grpc_states_consistent [OF grpc_reach.start])
  show "new_logger (\<lambda>s. None) False None = Some (fst (gs_audit (grpc_state\<lparr>gs_sessions := []\<rparr>)))"
    by (simp add: new_logger_def grpc_state_def blank_logger_def)
qed (simp_all add: grpc_state_def verify_integrity_def blank_logger_def Let_def)

end
