(* ===== verification/Sandbox.thy ===== *)
theory Sandbox
  imports Ast Receipt
begin

text \<open>
  The sandbox in which a worker runs injected logic: \<open>sandbox/wasi.ts\<close> with the import guardian of
  \<open>sandbox/guardian.ts\<close>, and the second guardian of \<open>security/guardian.ts\<close>. The WebAssembly compiler
  and runtime, \<open>node:vm\<close>, the JavaScript parser, the walker and the file system are parameters. Values
  carry no prototypes, so stripping them (\<open>toNullPrototype\<close>) is not visible, nor is the freezing of
  the prototypes of the host.
\<close>

section \<open>The guardians\<close>

record wasm_import =
  wi_module :: string
  wi_name :: string

definition allowed_wasi_functions :: "string list" where
  "allowed_wasi_functions =
     [''fd_write'', ''fd_read'', ''fd_close'', ''fd_seek'', ''environ_get'', ''environ_sizes_get'', ''args_get'',
      ''args_sizes_get'', ''clock_time_get'', ''random_get'', ''proc_exit'', ''fd_prestat_get'',
      ''fd_prestat_dir_name'', ''fd_fdstat_get'']"

definition guardian_error :: "string \<Rightarrow> string" where
  "guardian_error msg = ''AST Sec-Policy Violation: '' @ msg"

text \<open>\<open>ASTGuardian.analyze\<close>, with the number of imports seen so far: the message thrown, if any.\<close>

fun guard_imports :: "nat \<Rightarrow> wasm_import list \<Rightarrow> string option" where
  "guard_imports n [] = None"
| "guard_imports n (i # is) =
     (if wi_module i = ''wasi_snapshot_preview1'' then
        (if wi_name i \<notin> set allowed_wasi_functions
         then Some (guardian_error (''Banned WASI Import Detected: '' @ wi_module i @ ''/'' @ wi_name i))
         else if 128 < n + 1 then Some (guardian_error ''Import limit exceeded. Possible resource exhaustion attack.'')
         else guard_imports (n + 1) is)
      else Some (guardian_error (''Banned Host Import Module Detected: '' @ wi_module i)))"

definition ast_guardian :: "wasm_import list \<Rightarrow> string option" where
  "ast_guardian = guard_imports 0"

text \<open>\<open>GuardianTS.analyzeAst\<close>: the imports of the compiled module, or the message thrown.\<close>

definition guardian_ts :: "(bytes \<Rightarrow> string + wasm_import list) \<Rightarrow> bytes \<Rightarrow> string + wasm_import list" where
  "guardian_ts compile wasmBytes =
     (case compile wasmBytes of
        Inl e \<Rightarrow> Inl (''[AST Security Violation]: Payload structurally invalid or potential bomb: '' @ e)
      | Inr imports \<Rightarrow>
          (case find (\<lambda>i. wi_module i \<noteq> ''wasi_snapshot_preview1'' \<and> wi_module i \<noteq> ''LIOP'') imports of
             Some i \<Rightarrow> Inl (''[AST Security Violation]: Banned Host Import Detected: '' @ wi_module i @ ''/'' @ wi_name i)
           | None \<Rightarrow> Inr imports))"

section \<open>The environment of a module\<close>

definition safe_keys :: "bool \<Rightarrow> string list" where
  "safe_keys isWindows =
     (if isWindows
      then [''APPDATA'', ''HOMEDRIVE'', ''HOMEPATH'', ''LOCALAPPDATA'', ''PATH'', ''PROCESSOR_ARCHITECTURE'', ''SYSTEMDRIVE'',
            ''SYSTEMROOT'', ''TEMP'', ''USERNAME'', ''USERPROFILE'', ''PROGRAMFILES'']
      else [''HOME'', ''LOGNAME'', ''PATH'', ''SHELL'', ''TERM'', ''USER''])"

fun copy_safe :: "(string \<Rightarrow> string option) \<Rightarrow> string list \<Rightarrow> (string \<times> string) list \<Rightarrow> (string \<times> string) list" where
  "copy_safe penv [] env = env"
| "copy_safe penv (key # keys) env =
     copy_safe penv keys
       (case penv key of
          Some val \<Rightarrow> if starts_with val ''()'' then env else AList.update key val env
        | None \<Rightarrow> env)"

definition get_default_environment :: "bool \<Rightarrow> (string \<Rightarrow> string option) \<Rightarrow> (string \<times> string) list" where
  "get_default_environment isWindows penv =
     copy_safe penv (safe_keys isWindows) [(''NODE_ENV'', ''production''), (''LIOP_NODE'', ''true'')]"

record sandbox_config =
  sc_allowEnv :: bool
  sc_allowedDirectories :: "(string \<times> string) list"   \<comment> \<open>path in the sandbox, path of the host\<close>

record wasi_options =
  wa_args :: "string list"
  wa_env :: "(string \<times> string) list"
  wa_preopens :: "(string \<times> string) list"

record sandbox_env =
  sb_isWindows :: bool
  sb_processEnv :: "string \<Rightarrow> string option"
  sb_sandboxId :: string
  sb_workingDir :: string
  sb_openFiles :: "string option"              \<comment> \<open>the message if the directory or a file cannot be made\<close>
  sb_compile :: "bytes \<Rightarrow> string + wasm_import list"
  sb_runModule :: "bytes \<Rightarrow> wasi_options \<Rightarrow> string + (string \<times> string)"    \<comment> \<open>standard output and error\<close>
  sb_duration :: real
  sb_parseAst :: parser
  sb_walk :: walker
  sb_runScript :: "string \<Rightarrow> (string \<times> jsval) list \<Rightarrow> string list \<Rightarrow> string + tval"
    \<comment> \<open>script, globals, names of the globals that are deeply frozen\<close>

text \<open>The options \<open>init\<close> gives to WASI.\<close>

definition wasi_options_of :: "sandbox_env \<Rightarrow> sandbox_config \<Rightarrow> wasi_options" where
  "wasi_options_of SB config =
     \<lparr>wa_args = [''liop_runtime''],
      wa_env = (if sc_allowEnv config
                then AList.update ''RUNTIME_ID'' (sb_sandboxId SB) (get_default_environment (sb_isWindows SB) (sb_processEnv SB))
                else [(''NODE_ENV'', ''production''), (''LIOP_NODE'', ''true''), (''RUNTIME_ID'', sb_sandboxId SB)]),
      wa_preopens = AList.updates (map fst (sc_allowedDirectories config)) (map snd (sc_allowedDirectories config))
                      [(''/sandbox'', sb_workingDir SB)]\<rparr>"

section \<open>Fuel\<close>

text \<open>What a visited node adds to the score.\<close>

fun node_fuel :: "node \<Rightarrow> nat" where
  "node_fuel (Identifier x) = 1"
| "node_fuel (Literal v) = 1"
| "node_fuel (BinaryExpression oper l r) = 2"
| "node_fuel (UnaryExpression oper e) = 2"
| "node_fuel (LogicalExpression oper l r) = 2"
| "node_fuel (VariableDeclaration ds) = 5 * (if ds = [] then 1 else length ds)"
| "node_fuel (AssignmentExpression l r) = 3"
| "node_fuel (MemberExpression ob pr c) = 3"
| "node_fuel (ObjectExpression ps) = 5 + length ps * 2"
| "node_fuel (ArrayExpression es) = 5 + length es * 2"
| "node_fuel (CallExpression f as) = 10 + length as * 2"
| "node_fuel (FunctionDeclaration i ps b) = 20"
| "node_fuel (FunctionExpression ps b) = 15"
| "node_fuel (ArrowFunctionExpression ps b) = 15"
| "node_fuel (ForOfStatement l r b) = 50"
| "node_fuel (ReturnStatement a l) = 2"
| "node_fuel (OtherNode t cs) =
     (if t = ''IfStatement'' then 5
      else if t = ''SwitchStatement'' then 10
      else if t \<in> {''ForStatement'', ''ForInStatement'', ''WhileStatement'', ''DoWhileStatement''} then 50
      else if t = ''TryStatement'' then 15
      else 0)"
| "node_fuel n = 0"

definition ast_score :: "walker \<Rightarrow> node \<Rightarrow> nat" where
  "ast_score visit ast = 100 + sum_list (map node_fuel (visit ast))"

definition calculate_ast_instruction_fuel :: "parser \<Rightarrow> walker \<Rightarrow> string \<Rightarrow> nat" where
  "calculate_ast_instruction_fuel parse visit code =
     (case parse code of
        None \<Rightarrow> 500
      | Some ast \<Rightarrow> (ast_score visit ast + 99) div 100 * 100)"

section \<open>The context of a script\<close>

text \<open>\<open>JSON.parse(JSON.stringify(v))\<close> for a value that is not \<open>undefined\<close>.\<close>

fun json_copy :: "jsval \<Rightarrow> jsval" where
  "json_copy (JNum (Fin r)) = JNum (Fin r)"
| "json_copy (JNum x) = JNull"
| "json_copy (JArr xs) = JArr (map (\<lambda>x. if x = JUndef then JNull else json_copy x) xs)"
| "json_copy (JObj ps) = JObj (map (\<lambda>(k, x). (k, json_copy x)) (filter (\<lambda>(k, x). x \<noteq> JUndef) ps))"
| "json_copy v = v"

definition poisoned_globals :: "string list" where
  "poisoned_globals =
     [''require'', ''process'', ''global'', ''globalThis'', ''Buffer'', ''setTimeout'', ''setInterval'', ''setImmediate'',
      ''queueMicrotask'', ''eval'', ''Function'', ''SharedArrayBuffer'', ''Date'', ''ArrayBuffer'', ''Uint8Array'', ''Int8Array'',
      ''Uint16Array'', ''Int16Array'', ''Uint32Array'', ''Int32Array'', ''Float32Array'', ''Float64Array'', ''BigInt64Array'',
      ''BigUint64Array'', ''DataView'']"

text \<open>The loop over the inputs; an \<open>undefined\<close> one cannot be copied.\<close>

fun inject_inputs :: "(string \<times> jsval) list \<Rightarrow> (string \<times> jsval) list \<Rightarrow> string + (string \<times> jsval) list" where
  "inject_inputs [] g = Inr g"
| "inject_inputs ((key, value) # ps) g =
     (if value = JUndef then Inl ([CHR 0x22] @ ''undefined'' @ [CHR 0x22] @ '' is not valid JSON'')
      else inject_inputs ps (AList.update key (json_copy value) g))"

definition sandbox_globals :: "jsval list \<Rightarrow> (string \<times> jsval) list \<Rightarrow> string + (string \<times> jsval) list" where
  "sandbox_globals records inputs =
     (let env = JObj (AList.updates (map fst inputs) (map snd inputs) [(''records'', JArr records)])
      in inject_inputs inputs
           (map (\<lambda>k. (k, JUndef)) poisoned_globals @
            [(''records'', json_copy (JArr records)), (''env'', json_copy env)]))"

definition deep_frozen :: "string list" where
  "deep_frozen = [''records'', ''env'']"

section \<open>The script\<close>

definition newline :: string where "newline = [CHR 0x0A]"
definition tabs :: "nat \<Rightarrow> string" where "tabs n = replicate n (CHR 0x09)"
definition code_line :: "nat \<Rightarrow> string \<Rightarrow> string" where "code_line n s = tabs n @ s @ newline"
definition in_quotes :: "string \<Rightarrow> string" where "in_quotes s = [CHR 0x22] @ s @ [CHR 0x22]"

definition processed_logic :: "string \<Rightarrow> string" where
  "processed_logic compiledLogic =
     (if js_includes compiledLogic ''function liop_main'' then compiledLogic
      else ''function liop_main(env) {'' @ newline @ compiledLogic @ newline @ ''}'')"

definition script_code :: "string \<Rightarrow> string" where
  "script_code processedLogic =
     newline @ code_line 4 ''(function() {'' @ code_line 5 (in_quotes ''use strict'' @ '';'') @ code_line 5 ''try {'' @
     code_line 6 ''// Pre-execution prototype freezing (PCI-DSS Compliance)'' @
     concat (map (\<lambda>c. code_line 6 (''Object.freeze('' @ c @ '');''))
       [''Object.prototype'', ''Array.prototype'', ''String.prototype'', ''Number.prototype'', ''Boolean.prototype'',
        ''RegExp.prototype'', ''Map.prototype'', ''Set.prototype'', ''Promise.prototype'', ''Error.prototype'',
        ''Object.getPrototypeOf(function(){})'']) @ newline @
     code_line 6 processedLogic @
     code_line 6 (''if (typeof liop_main === '' @ [CHR 0x27] @ ''function'' @ [CHR 0x27] @ '') {'') @
     code_line 7 ''return liop_main(env);'' @ code_line 6 ''}'' @
     code_line 6 (''return '' @ in_quotes ''ERR_NO_ENTRY_POINT'' @ '';'') @ code_line 5 ''} catch(e) {'' @
     code_line 6 (''return '' @ in_quotes ''LogicError: '' @ '' + e.message;'') @ code_line 5 ''}'' @
     code_line 4 ''})();'' @ tabs 3"

section \<open>Execution\<close>

definition execute_module :: "sandbox_env \<Rightarrow> sandbox_config \<Rightarrow> bytes \<Rightarrow> string + (tval \<times> jsnum)" where
  "execute_module SB config wasm =
     (let fault = (\<lambda>e. Inl (''WASM Runtime Error: '' @ e)) in
      case sb_compile SB wasm of
        Inl e \<Rightarrow> fault e
      | Inr imports \<Rightarrow>
          (case ast_guardian imports of
             Some e \<Rightarrow> fault e
           | None \<Rightarrow>
               (case sb_runModule SB wasm (wasi_options_of SB config) of
                  Inl e \<Rightarrow> fault e
                | Inr (stdout, stderr) \<Rightarrow>
                    Inr (TStr (if stdout \<noteq> [] then stdout
                               else if stderr \<noteq> [] then ''Error: '' @ stderr else ''WASM_EXECUTION_SUCCESS''),
                         Fin (of_int \<lfloor>sb_duration SB * 1000\<rfloor>)))))"

definition fuel_limit :: nat where "fuel_limit = 1000000"

definition execute_script :: "sandbox_env \<Rightarrow> string \<Rightarrow> jsval list \<Rightarrow> (string \<times> jsval) list \<Rightarrow> string + (tval \<times> jsnum)" where
  "execute_script SB compiledLogic records inputs =
     bind_sum (sandbox_globals records inputs) (\<lambda>globals.
       case sb_runScript SB (script_code (processed_logic compiledLogic)) globals deep_frozen of
         Inl e \<Rightarrow> Inl (''V8 Isolate Fault: '' @ e)
       | Inr out \<Rightarrow>
           (let fuelUsed = calculate_ast_instruction_fuel (sb_parseAst SB) (sb_walk SB) compiledLogic
            in if fuel_limit < fuelUsed
               then Inl (''V8 Isolate Fault: LIOP_RESOURCE_EXHAUSTED: Execution fuel limit exceeded.'')
               else Inr (out, Fin (of_nat fuelUsed))))"

definition sandbox_execute ::
    "sandbox_env \<Rightarrow> sandbox_config \<Rightarrow> bytes + string \<Rightarrow> jsval list option \<Rightarrow> (string \<times> jsval) list \<Rightarrow> string + (tval \<times> jsnum)" where
  "sandbox_execute SB config compiledLogic records inputs =
     (case compiledLogic of
        Inl wasm \<Rightarrow> execute_module SB config wasm
      | Inr code \<Rightarrow> execute_script SB code (case records of None \<Rightarrow> [] | Some rs \<Rightarrow> rs) inputs)"

text \<open>What the worker does: a new sandbox without configuration, \<open>init\<close>, \<open>execute\<close>.\<close>

definition run_in_sandbox ::
    "sandbox_env \<Rightarrow> bytes + string \<Rightarrow> jsval list option \<Rightarrow> (string \<times> jsval) list \<Rightarrow> string + (tval \<times> jsnum)" where
  "run_in_sandbox SB p records inputs =
     (case sb_openFiles SB of
        Some e \<Rightarrow> Inl (''Sandbox Initialization Failed: '' @ e)
      | None \<Rightarrow> sandbox_execute SB \<lparr>sc_allowEnv = False, sc_allowedDirectories = []\<rparr> p records inputs)"

definition inspect_module :: "sandbox_env \<Rightarrow> bytes \<Rightarrow> string option" where
  "inspect_module SB wasm = (case sb_compile SB wasm of Inl e \<Rightarrow> Some e | Inr imports \<Rightarrow> ast_guardian imports)"

text \<open>The worker with this sandbox.\<close>

definition with_sandbox :: "worker_env \<Rightarrow> sandbox_env \<Rightarrow> worker_env" where
  "with_sandbox W SB = W\<lparr>we_inspect := inspect_module SB, we_execute := run_in_sandbox SB\<rparr>"

end
