(* ===== verification/SandboxClaims.thy ===== *)
theory SandboxClaims
  imports Sandbox ReceiptClaims
begin

text \<open>
  What the sandbox guarantees to the worker that runs logic in it: which modules run, what a script
  can reach, what its fuel depends on, and which data set a receipt is about.
\<close>

section \<open>The guardians\<close>

lemma guard_imports_None:
  "guard_imports n is = None \<longleftrightarrow>
     (\<forall>i \<in> set is. wi_module i = ''wasi_snapshot_preview1'' \<and> wi_name i \<in> set allowed_wasi_functions) \<and>
     (is = [] \<or> n + length is \<le> 128)"
  by (induction n "is" rule: guard_imports.induct) auto

lemma ast_guardian_None:
  "ast_guardian is = None \<longleftrightarrow>
     (\<forall>i \<in> set is. wi_module i = ''wasi_snapshot_preview1'' \<and> wi_name i \<in> set allowed_wasi_functions) \<and> length is \<le> 128"
  by (auto simp: ast_guardian_def guard_imports_None)

text \<open>The other guardian accepts every module this one accepts, and others besides.\<close>

lemma ast_guardian_stricter: "compile b = Inr is \<Longrightarrow> ast_guardian is = None \<Longrightarrow> guardian_ts compile b = Inr is"
  by (auto simp: ast_guardian_None guardian_ts_def find_Some_iff split: option.split)

lemma path_open_accepted_by_second:
  "guardian_ts (\<lambda>b. Inr [\<lparr>wi_module = ''wasi_snapshot_preview1'', wi_name = ''path_open''\<rparr>]) b \<noteq> Inl e \<and>
   ast_guardian [\<lparr>wi_module = ''wasi_snapshot_preview1'', wi_name = ''path_open''\<rparr>] \<noteq> None"
  by (simp add: guardian_ts_def ast_guardian_None allowed_wasi_functions_def)

section \<open>Updates that are shadowed\<close>

lemma update_swap: "k \<noteq> k' \<Longrightarrow> k \<in> fst ` set al \<Longrightarrow> AList.update k' x (AList.update k v al) = AList.update k v (AList.update k' x al)"
  by (induction al) auto

lemma keys_update: "fst ` set (AList.update k v al) = insert k (fst ` set al)"
  by (induction al) auto

lemma updates_shadowed:
  assumes "k \<in> set ks" and "k \<in> fst ` set al" and "length ks = length vs"
  shows "AList.updates ks vs (AList.update k v al) = AList.updates ks vs al"
  using assms(3,1,2)
proof (induction ks vs arbitrary: al rule: list_induct2)
  case (Cons k' ks x vs)
  show ?case
  proof (cases "k = k'")
    case False
    with Cons.prems have "AList.updates ks vs (AList.update k v (AList.update k' x al)) = AList.updates ks vs (AList.update k' x al)"
      by (intro Cons.IH) (auto simp: keys_update)
    with False Cons.prems show ?thesis by (simp add: update_swap)
  qed simp
qed simp

lemma inject_shadowed:
  "k \<in> fst ` set ps \<Longrightarrow> k \<in> fst ` set g \<Longrightarrow> inject_inputs ps (AList.update k v g) = inject_inputs ps g"
proof (induction ps arbitrary: g)
  case (Cons p ps)
  obtain key x where p: "p = (key, x)" by (cases p)
  show ?case
  proof (cases "k = key")
    case False
    with Cons.prems p have "inject_inputs ps (AList.update k v (AList.update key (json_copy x) g)) = inject_inputs ps (AList.update key (json_copy x) g)"
      by (intro Cons.IH) (auto simp: keys_update)
    with False Cons.prems p show ?thesis by (simp add: update_swap)
  qed (simp add: p)
qed simp

lemma poisoned_names: "''records'' \<notin> set poisoned_globals" "''env'' \<notin> set poisoned_globals" "distinct poisoned_globals"
  by (simp_all add: poisoned_globals_def)

lemma globals_shadowed:
  assumes "map_of inputs ''records'' \<noteq> None"
  shows "sandbox_globals rs inputs = sandbox_globals rs' inputs"
proof -
  let ?ks = "map fst inputs" and ?vs = "map snd inputs"
  have k: "''records'' \<in> set ?ks" using assms by (auto simp: map_of_eq_None_iff)
  have env: "AList.updates ?ks ?vs [(''records'', JArr rs)] = AList.updates ?ks ?vs [(''records'', JArr rs')]"
    using updates_shadowed [OF k, of "[(''records'', JArr rs')]" ?vs "JArr rs"] by simp
  let ?g = "\<lambda>x e. map (\<lambda>k. (k, JUndef)) poisoned_globals @ [(''records'', x), (''env'', e)]"
  have "''records'' \<notin> set ks \<Longrightarrow> map (\<lambda>k. (k, JUndef)) ks @ [(''records'', x), (''env'', e)] =
      AList.update ''records'' x (map (\<lambda>k. (k, JUndef)) ks @ [(''records'', y), (''env'', e)])" for ks x y e
    by (induction ks) auto
  with poisoned_names(1) have "?g x e = AList.update ''records'' x (?g y e)" for x y e by blast
  then have "inject_inputs inputs (?g x e) = inject_inputs inputs (?g y e)" for x y e
    using inject_shadowed [of "''records''" inputs "?g y e" x] k by auto
  then show ?thesis unfolding sandbox_globals_def Let_def env by blast
qed

lemma execute_shadowed:
  assumes "map_of inputs ''records'' \<noteq> None"
  shows "run_in_sandbox SB (Inr code) rs inputs = run_in_sandbox SB (Inr code) rs' inputs"
proof -
  have "execute_script SB code xs inputs = execute_script SB code ys inputs" for xs ys
    unfolding execute_script_def globals_shadowed [OF assms, of xs ys] ..
  then show ?thesis unfolding run_in_sandbox_def sandbox_execute_def sum.case by metis
qed

section \<open>Scripts in the worker\<close>

lemma fuel_bounds:
  "100 dvd calculate_ast_instruction_fuel parse visit code \<and> 100 \<le> calculate_ast_instruction_fuel parse visit code"
  by (auto simp: calculate_ast_instruction_fuel_def ast_score_def split: option.split)

lemma script_fuel:
  assumes "run_in_sandbox SB (Inr code) rs inputs = Inr (out, fuel)"
  shows "fuel = Fin (of_nat (calculate_ast_instruction_fuel (sb_parseAst SB) (sb_walk SB) code)) \<and>
   calculate_ast_instruction_fuel (sb_parseAst SB) (sb_walk SB) code \<le> fuel_limit"
proof -
  from assms obtain rs' where "execute_script SB code rs' inputs = Inr (out, fuel)"
    by (auto simp: run_in_sandbox_def sandbox_execute_def split: option.splits)
  then obtain g where "(case sb_runScript SB (script_code (processed_logic code)) g deep_frozen of
      Inl e \<Rightarrow> Inl (''V8 Isolate Fault: '' @ e)
    | Inr out \<Rightarrow> (let fuelUsed = calculate_ast_instruction_fuel (sb_parseAst SB) (sb_walk SB) code
        in if fuel_limit < fuelUsed then Inl (''V8 Isolate Fault: LIOP_RESOURCE_EXHAUSTED: Execution fuel limit exceeded.'')
           else Inr (out, Fin (of_nat fuelUsed)))) = Inr (out, fuel)"
    unfolding execute_script_def by (auto simp only: bind_sum_Inr)
  then show ?thesis
    by (cases "sb_runScript SB (script_code (processed_logic code)) g deep_frozen") (auto simp: Let_def split: if_splits)
qed

lemma open_with_sandbox: "open_payload (with_sandbox W SB) d = open_payload W d"
proof -
  have "decrypt_inputs (with_sandbox W SB) key ps = decrypt_inputs W key ps" for key ps
    by (induction ps) (auto simp: with_sandbox_def cong: option.case_cong if_cong)
  then show ?thesis by (simp add: open_payload_def) (simp add: with_sandbox_def)
qed

lemma open_records: "open_payload W (d\<lparr>wd_records := rs\<rparr>) = open_payload W d"
  by (simp add: open_payload_def)

lemma worker_run:
  assumes "process_logic_execution (with_sandbox W SB) d now ts = Some (Inr r)" and "\<not> wd_isWarmup d"
    and "open_payload W d = Inr (payload, inputs, secret)"
  shows "\<exists>p out fuel. runnable (with_sandbox W SB) payload = Inr p \<and>
     run_in_sandbox SB p (wd_records d) inputs = Inr (out, fuel) \<and>
     commit_output (with_sandbox W SB) d secret p out fuel ts = Some (Inr r)"
proof -
  let ?E = "with_sandbox W SB"
  have ex: "we_execute ?E = run_in_sandbox SB" by (simp add: with_sandbox_def)
  have op: "open_payload ?E d = Inr (payload, inputs, secret)" using assms(3) by (simp add: open_with_sandbox)
  have "session_error (wd_sessionTimestamp d) now = None"
    using assms(1,2) by (auto simp: process_logic_execution_def split: option.splits)
  with assms(1,2) op have "(case runnable ?E payload of Inl e \<Rightarrow> Some (Inl e)
     | Inr p \<Rightarrow> (case run_in_sandbox SB p (wd_records d) inputs of Inl e \<Rightarrow> Some (Inl e)
         | Inr (out, fuel) \<Rightarrow> commit_output ?E d secret p out fuel ts)) = Some (Inr r)"
    unfolding ex [symmetric] by (simp add: process_logic_execution_def)
  then show ?thesis by (auto split: sum.splits)
qed

lemma committed: "commit_output E d secret p out fuel ts = Some (Inr r) \<Longrightarrow>
   lr_fuel_consumed r = fuel \<and> lr_image_id r = hex_text (derive_logic_image_digest (we_sha256 E) (logic_bytes p))"
  by (auto simp: commit_output_def Let_def bind_sum_Inr split: option.splits)

text \<open>Without noise the output is the sanitized result, and the journal is sealed.\<close>

lemma committed_plain:
  assumes "commit_output E d secret p out fuel ts = Some (Inr r)" and "wd_dpConfig d = None"
  shows "lr_output r = sanitize_output (we_fl E) None out \<and>
     seal_receipt E secret (utf8 (we_stringify E (journal_of E (lr_image_id r) (dataset_hash E d) (lr_output r) fuel ts))) =
       Inr (the (lr_zk_receipt r))"
  using assms by (auto simp: commit_output_def dp_stage_def Let_def bind_sum_Inr split: option.splits)

section \<open>Properties\<close>

text \<open>A module runs only if it compiles to at most 128 imports, each one of the fourteen functions
  of WASI allowed.\<close>

theorem executed_module_allowed:
  assumes "process_logic_execution (with_sandbox W SB) d now ts = Some (Inr r)" and "\<not> wd_isWarmup d"
    and "open_payload W d = Inr ((wasm, True), inputs, secret)"
  shows "\<exists>imports. sb_compile SB wasm = Inr imports \<and> length imports \<le> 128 \<and>
     (\<forall>i \<in> set imports. wi_module i = ''wasi_snapshot_preview1'' \<and> wi_name i \<in> set allowed_wasi_functions)"
proof -
  from worker_run [OF assms] obtain p where "runnable (with_sandbox W SB) (wasm, True) = Inr p" by blast
  then have "inspect_module SB wasm = None"
    by (auto simp: runnable_def with_sandbox_def split: option.splits)
  then show ?thesis by (auto simp: inspect_module_def ast_guardian_None split: sum.splits)
qed

text \<open>The fuel a receipt states for a script is a function of its source alone: the score of the
  syntax tree rounded up to a hundred, at most a million. It tells nothing about the data.\<close>

theorem committed_fuel_static:
  assumes "process_logic_execution (with_sandbox W SB) d now ts = Some (Inr r)" and "\<not> wd_isWarmup d"
    and "open_payload W d = Inr ((plain, False), inputs, secret)"
  shows "\<exists>n. lr_fuel_consumed r = Fin (of_nat n) \<and> 100 dvd n \<and> 100 \<le> n \<and> n \<le> 1000000 \<and>
     (case sb_parseAst SB (normalize_logic_source (utf8_text plain)) of
        None \<Rightarrow> n = 500
      | Some ast \<Rightarrow> ast_score (sb_walk SB) ast \<le> n \<and> n < ast_score (sb_walk SB) ast + 100)"
proof -
  let ?code = "normalize_logic_source (utf8_text plain)"
  let ?n = "calculate_ast_instruction_fuel (sb_parseAst SB) (sb_walk SB) ?code"
  from worker_run [OF assms] obtain out fuel where
      run: "run_in_sandbox SB (Inr ?code) (wd_records d) inputs = Inr (out, fuel)"
      and com: "commit_output (with_sandbox W SB) d secret (Inr ?code) out fuel ts = Some (Inr r)"
    by (auto simp: runnable_def)
  have "(s::nat) \<le> (s + 99) div 100 * 100 \<and> (s + 99) div 100 * 100 < s + 100" for s
    using div_mult_mod_eq [of "s + 99" 100] mod_less_divisor [of 100 "s + 99"] by linarith
  then have "case sb_parseAst SB ?code of None \<Rightarrow> ?n = 500
      | Some ast \<Rightarrow> ast_score (sb_walk SB) ast \<le> ?n \<and> ?n < ast_score (sb_walk SB) ast + 100"
    by (simp add: calculate_ast_instruction_fuel_def split: option.split)
  then show ?thesis
    using committed [OF com] script_fuel [OF run] fuel_bounds [of "sb_parseAst SB" "sb_walk SB" ?code]
    by (auto simp: fuel_limit_def)
qed

text \<open>What a script can reach. Besides the inputs of the request, the globals are the data set and
  \<open>env\<close>, in which an input shadows the data set, and the names that are set to \<open>undefined\<close>.\<close>

lemma inject_lookup:
  "inject_inputs ps g = Inr g' \<Longrightarrow> distinct (map fst ps) \<Longrightarrow>
     map_of g' k = (case map_of ps k of Some v \<Rightarrow> Some (json_copy v) | None \<Rightarrow> map_of g k)"
proof (induction ps arbitrary: g)
  case (Cons p ps)
  obtain key x where p: "p = (key, x)" by (cases p)
  from Cons.prems p have "map_of g' k = (case map_of ps k of Some v \<Rightarrow> Some (json_copy v) | None \<Rightarrow> map_of (AList.update key (json_copy x) g) k)"
    by (intro Cons.IH) (auto split: if_splits)
  moreover have "k = key \<Longrightarrow> map_of ps k = None" using Cons.prems(2) p by (simp add: map_of_eq_None_iff)
  ultimately show ?case by (auto simp: p split: option.split)
qed simp

theorem script_globals:
  assumes "sandbox_globals records inputs = Inr g" and "distinct (map fst inputs)"
  shows "map_of g k =
     (case map_of inputs k of
        Some v \<Rightarrow> Some (json_copy v)
      | None \<Rightarrow> if k = ''records'' then Some (json_copy (JArr records))
                else if k = ''env'' then Some (json_copy (JObj (AList.updates (map fst inputs) (map snd inputs) [(''records'', JArr records)])))
                else if k \<in> set poisoned_globals then Some JUndef else None)"
proof -
  have "map_of (map (\<lambda>k. (k, JUndef)) ks @ [(''records'', x), (''env'', e)]) k =
      (if k \<in> set ks then Some JUndef else if k = ''records'' then Some x else if k = ''env'' then Some e else None)" for ks x e
    by (induction ks) auto
  with inject_lookup [OF _ assms(2)] assms(1) show ?thesis
    using poisoned_names(1,2) by (auto simp: sandbox_globals_def Let_def split: option.split)
qed

text \<open>C39: an input named \<open>records\<close> takes the place of the data set of a script (no WebAssembly, no warm-up). The script's
  output is then the same for every data set, and so is what the worker returns when the task has no configuration for
  noise, as for a tool without a policy (with one, the noise for fewer than 50 records is seeded by the digest of the
  data set); the receipt nevertheless states the digest of the data set of the server.\<close>

theorem shadowed_dataset_attested:
  assumes "process_logic_execution (with_sandbox W SB) d now ts = Some (Inr r)"
    and "process_logic_execution (with_sandbox W SB) (d\<lparr>wd_records := rs\<rparr>) now ts = Some (Inr r')"
    and "\<not> wd_isWarmup d" and "wd_dpConfig d = None"
    and "open_payload W d = Inr ((plain, False), inputs, secret)" and "map_of inputs ''records'' \<noteq> None"
  shows "lr_output r' = lr_output r \<and> lr_image_id r' = lr_image_id r \<and> lr_fuel_consumed r' = lr_fuel_consumed r \<and>
     seal_receipt W secret (utf8 (we_stringify W (journal_of W (lr_image_id r')
       (text_digest (we_sha256 W) (we_stringify W (JArr (case rs of None \<Rightarrow> [] | Some xs \<Rightarrow> xs)))) (lr_output r') (lr_fuel_consumed r') ts))) =
       Inr (the (lr_zk_receipt r'))"
proof -
  let ?code = "normalize_logic_source (utf8_text plain)" and ?E = "with_sandbox W SB" and ?d = "d\<lparr>wd_records := rs\<rparr>"
  have op: "open_payload W ?d = Inr ((plain, False), inputs, secret)"
    using assms(5) by (simp add: open_records)
  from worker_run [OF assms(1,3,5)] obtain out fuel where
      run: "run_in_sandbox SB (Inr ?code) (wd_records d) inputs = Inr (out, fuel)"
      and com: "commit_output ?E d secret (Inr ?code) out fuel ts = Some (Inr r)"
    by (auto simp: runnable_def)
  from worker_run [OF assms(2) _ op] assms(3) obtain out' fuel' where
      run': "run_in_sandbox SB (Inr ?code) rs inputs = Inr (out', fuel')"
      and com': "commit_output ?E ?d secret (Inr ?code) out' fuel' ts = Some (Inr r')"
    by (auto simp: runnable_def)
  have same: "out' = out" "fuel' = fuel"
    using run run' execute_shadowed [OF assms(6), of SB ?code "wd_records d" rs] by auto
  have "we_sha256 ?E = we_sha256 W" "we_stringify ?E = we_stringify W" "we_hmac ?E = we_hmac W"
    by (simp_all add: with_sandbox_def)
  then have eqs: "journal_of ?E i h v f t = journal_of W i h v f t" "seal_receipt ?E k j = seal_receipt W k j"
      "dataset_hash ?E ?d = text_digest (we_sha256 W) (we_stringify W (JArr (case rs of None \<Rightarrow> [] | Some xs \<Rightarrow> xs)))"
      "we_stringify ?E = we_stringify W" for i h v f t k j
    by (simp_all add: journal_of_def seal_receipt_def dataset_hash_def text_digest_def records_of_def)
  have "lr_output r = sanitize_output (we_fl ?E) None out" using committed_plain [OF com assms(4)] by blast
  moreover have x: "wd_dpConfig ?d = None" using assms(4) by simp
  have "lr_output r' = sanitize_output (we_fl ?E) None out" and
    "seal_receipt W secret (utf8 (we_stringify W (journal_of W (lr_image_id r')
       (text_digest (we_sha256 W) (we_stringify W (JArr (case rs of None \<Rightarrow> [] | Some xs \<Rightarrow> xs)))) (lr_output r') fuel ts))) =
       Inr (the (lr_zk_receipt r'))"
    using committed_plain [OF com' x] unfolding eqs same by blast+
  moreover have "lr_fuel_consumed r = fuel" "lr_fuel_consumed r' = fuel" "lr_image_id r' = lr_image_id r"
    using committed [OF com] committed [OF com'] same by simp_all
  ultimately show ?thesis by simp
qed

section \<open>Witnesses\<close>

definition example_sandbox :: sandbox_env where
  "example_sandbox =
     \<lparr>sb_isWindows = False, sb_processEnv = (\<lambda>k. None), sb_sandboxId = ''id'', sb_workingDir = ''/tmp/id'', sb_openFiles = None,
      sb_compile = (\<lambda>b. Inr [\<lparr>wi_module = ''wasi_snapshot_preview1'', wi_name = ''fd_write''\<rparr>]),
      sb_runModule = (\<lambda>b w. Inr (''ok'', [])), sb_duration = 1, sb_parseAst = (\<lambda>s. None), sb_walk = walk_post,
      sb_runScript = (\<lambda>s g f. Inr (TStr ''ok''))\<rparr>"

definition sandbox_worker :: "bytes \<Rightarrow> worker_env" where
  "sandbox_worker p = example_worker\<lparr>we_kem_decap := (\<lambda>c k. Inr [9]), we_gcm_open := (\<lambda>k n c t. Inr p)\<rparr>"

definition sandbox_task :: "(string \<times> bytes) list \<Rightarrow> worker_data" where
  "sandbox_task inputs = example_task\<lparr>wd_isEncrypted := True, wd_inputs := inputs, wd_dpConfig := None\<rparr>"

definition sandbox_result :: "bytes + string \<Rightarrow> jsnum \<Rightarrow> logic_result" where
  "sandbox_result p fuel = \<lparr>lr_image_id = hex_text (replicate 32 1), lr_output = JStr ''ok'', lr_fuel_consumed = fuel,
     lr_zk_receipt = Some ([1] @ be16 1 @ utf8 ''j'' @ replicate 32 2)\<rparr>"

lemma sandbox_digests:
  "we_sha256 (with_sandbox (sandbox_worker p) SB) = (\<lambda>m. replicate 32 1)"
  "we_hmac (with_sandbox (sandbox_worker p) SB) = (\<lambda>k m. replicate 32 2)"
  "we_stringify (with_sandbox (sandbox_worker p) SB) = (\<lambda>v. ''j'')"
  "we_execute (with_sandbox (sandbox_worker p) SB) = run_in_sandbox SB"
  "we_inspect (with_sandbox (sandbox_worker p) SB) = inspect_module SB"
  by (simp_all add: with_sandbox_def sandbox_worker_def example_worker_def)

lemma sandbox_commits:
  "commit_output (with_sandbox (sandbox_worker p) SB) (sandbox_task inputs\<lparr>wd_records := rs\<rparr>) k q (TStr ''ok'') fuel 5 =
     Some (Inr (sandbox_result q fuel))"
proof -
  have img: "derive_logic_image_digest (\<lambda>m. replicate 32 1) m = replicate 32 1" for m
    by (simp add: derive_logic_image_digest_def)
  have "length (utf8 ''j'') = 1" by (simp add: utf8_def utf8_char_def code_of_def)
  then show ?thesis
    by (simp add: commit_output_def Let_def dp_stage_def sandbox_task_def img seal_receipt_def sandbox_digests
        sandbox_result_def sanitize_output_def bind_sum_def)
qed

lemma sandbox_opens:
  "open_payload (sandbox_worker p) (sandbox_task []) = Inr ((p, is_wasm p), [], [9])"
  "open_payload (sandbox_worker [0x31]) (sandbox_task [(''records'', [1])]) =
     Inr (([0x31], False), [(''records'', JObj [(''__liop_proxy_tool'', JStr ''sum'')])], [9])"
  by (simp_all add: open_payload_def sandbox_task_def sandbox_worker_def example_worker_def bind_sum_def one_text
      inherited_name_def object_prototype_def is_wasm_def del: utf8_text.simps)

lemma sandbox_runs_script:
  assumes "open_payload (sandbox_worker p) (sandbox_task inputs) = Inr ((p, False), xs, [9])"
    and "\<And>x. x \<in> set xs \<Longrightarrow> snd x \<noteq> JUndef"
  shows "process_logic_execution (with_sandbox (sandbox_worker p) example_sandbox) (sandbox_task inputs\<lparr>wd_records := rs\<rparr>) 5 5 =
    Some (Inr (sandbox_result (Inr (normalize_logic_source (utf8_text p))) (Fin 500)))"
proof -
  let ?E = "with_sandbox (sandbox_worker p) example_sandbox" and ?d = "sandbox_task inputs\<lparr>wd_records := rs\<rparr>"
  have "\<forall>x\<in>set xs. snd x \<noteq> JUndef \<Longrightarrow> \<exists>g'. inject_inputs xs g = Inr g'" for g by (induction xs arbitrary: g) auto
  with assms(2) have g: "\<exists>g. sandbox_globals rs' xs = Inr g" for rs' by (simp add: sandbox_globals_def Let_def)
  have run: "run_in_sandbox example_sandbox (Inr s) rs xs = Inr (TStr ''ok'', Fin 500)" for s
  proof -
    obtain g' where "sandbox_globals (case rs of None \<Rightarrow> [] | Some r \<Rightarrow> r) xs = Inr g'" using g by blast
    then show ?thesis
      by (simp add: run_in_sandbox_def sandbox_execute_def execute_script_def bind_sum_def example_sandbox_def
          calculate_ast_instruction_fuel_def fuel_limit_def)
  qed
  have op: "open_payload ?E ?d = Inr ((p, False), xs, [9])"
    using assms(1) unfolding open_with_sandbox open_records .
  have task: "\<not> wd_isWarmup ?d" "session_error (wd_sessionTimestamp ?d) 5 = None" "wd_records ?d = rs"
    by (simp_all add: sandbox_task_def example_task_def session_error_def)
  have r: "runnable ?E (p, False) = Inr (Inr (normalize_logic_source (utf8_text p)))" by (simp add: runnable_def)
  show ?thesis
    by (simp only: process_logic_execution_def task op r sandbox_digests run sandbox_commits if_False option.case sum.case prod.case simp_thms)
qed

theorem executed_module_allowed_witness:
  "\<exists>imports. sb_compile example_sandbox [0x00, 0x61, 0x73, 0x6d] = Inr imports \<and> length imports \<le> 128"
proof -
  have "\<exists>imports. sb_compile example_sandbox [0x00, 0x61, 0x73, 0x6d] = Inr imports \<and> length imports \<le> 128 \<and>
     (\<forall>i \<in> set imports. wi_module i = ''wasi_snapshot_preview1'' \<and> wi_name i \<in> set allowed_wasi_functions)"
  proof (rule executed_module_allowed)
    let ?p = "[0x00, 0x61, 0x73, 0x6d] :: bytes"
    let ?E = "with_sandbox (sandbox_worker ?p) example_sandbox" and ?d = "sandbox_task []\<lparr>wd_records := None\<rparr>"
    show op: "open_payload (sandbox_worker ?p) ?d = Inr ((?p, True), [], [9])"
      using sandbox_opens(1) [of ?p] unfolding open_records by (simp add: is_wasm_def)
    have i: "inspect_module example_sandbox ?p = None"
      by (simp add: inspect_module_def example_sandbox_def ast_guardian_None allowed_wasi_functions_def)
    have run: "run_in_sandbox example_sandbox (Inl ?p) None [] = Inr (TStr ''ok'', Fin 1000)"
      using i by (simp add: run_in_sandbox_def sandbox_execute_def execute_module_def inspect_module_def example_sandbox_def Let_def)
    have op': "open_payload ?E ?d = Inr ((?p, True), [], [9])" unfolding open_with_sandbox by (rule op)
    have task: "\<not> wd_isWarmup ?d" "session_error (wd_sessionTimestamp ?d) 5 = None" "wd_records ?d = None"
      by (simp_all add: sandbox_task_def example_task_def session_error_def)
    have r: "runnable ?E (?p, True) = Inr (Inl ?p)" by (simp add: runnable_def sandbox_digests i)
    show "process_logic_execution ?E ?d 5 5 = Some (Inr (sandbox_result (Inl ?p) (Fin 1000)))"
      by (simp only: process_logic_execution_def task op' r sandbox_digests run sandbox_commits if_False option.case sum.case prod.case simp_thms)
    show "\<not> wd_isWarmup ?d" by (rule task)
  qed
  then show ?thesis by blast
qed

theorem committed_fuel_static_witness:
  "\<exists>n. lr_fuel_consumed (sandbox_result (Inr ''1'') (Fin 500)) = Fin (of_nat n) \<and> 100 dvd n \<and> 100 \<le> n \<and> n \<le> 1000000 \<and>
     (case sb_parseAst example_sandbox (normalize_logic_source (utf8_text [0x31])) of
        None \<Rightarrow> n = 500
      | Some ast \<Rightarrow> ast_score (sb_walk example_sandbox) ast \<le> n \<and> n < ast_score (sb_walk example_sandbox) ast + 100)"
proof (rule committed_fuel_static)
  let ?d = "sandbox_task []\<lparr>wd_records := None\<rparr>"
  show op: "open_payload (sandbox_worker [0x31]) ?d = Inr (([0x31], False), [], [9])"
    using sandbox_opens(1) [of "[0x31]"] unfolding open_records by (simp add: is_wasm_def)
  have n: "normalize_logic_source ''1'' = ''1''" by (simp add: normalize_trimmed one_text)
  show "process_logic_execution (with_sandbox (sandbox_worker [0x31]) example_sandbox) ?d 5 5 = Some (Inr (sandbox_result (Inr ''1'') (Fin 500)))"
    using sandbox_runs_script [of "[0x31]" "[]" "[]" None] sandbox_opens(1) [of "[0x31]"] unfolding one_text n by (simp add: is_wasm_def)
  show "\<not> wd_isWarmup ?d" by (simp add: sandbox_task_def example_task_def)
qed

theorem shadowed_dataset_attested_witness:
  "seal_receipt (sandbox_worker [0x31]) [9] (utf8 (we_stringify (sandbox_worker [0x31])
     (journal_of (sandbox_worker [0x31]) (hex_text (replicate 32 1))
       (text_digest (we_sha256 (sandbox_worker [0x31])) (we_stringify (sandbox_worker [0x31]) (JArr [JNull])))
       (JStr ''ok'') (Fin 500) 5))) = Inr (the (lr_zk_receipt (sandbox_result (Inr ''1'') (Fin 500))))"
proof -
  let ?d = "\<lambda>rs. sandbox_task [(''records'', [1])]\<lparr>wd_records := rs\<rparr>"
  let ?r = "sandbox_result (Inr ''1'') (Fin 500)"
  have n: "normalize_logic_source ''1'' = ''1''" by (simp add: normalize_trimmed one_text)
  have run: "process_logic_execution (with_sandbox (sandbox_worker [0x31]) example_sandbox) (?d rs) 5 5 = Some (Inr ?r)" for rs
    using sandbox_runs_script [OF sandbox_opens(2), of rs] unfolding one_text n by simp
  from shadowed_dataset_attested [OF run [of None], of "Some [JNull]" ?r "[0x31]" "[(''records'', JObj [(''__liop_proxy_tool'', JStr ''sum'')])]" "[9]"]
  show ?thesis
    using run [of "Some [JNull]"] sandbox_opens(2)
    unfolding open_records by (simp add: sandbox_task_def example_task_def sandbox_result_def)
qed

theorem script_globals_witness:
  "\<exists>g. sandbox_globals [] [(''Date'', JNull)] = Inr g \<and> map_of g ''Date'' = Some JNull \<and> map_of g ''process'' = Some JUndef"
proof -
  obtain g where g: "sandbox_globals [] [(''Date'', JNull)] = Inr g" by (simp add: sandbox_globals_def Let_def)
  from script_globals [OF g, of "''Date''"] script_globals [OF g, of "''process''"] g show ?thesis
    by (simp add: poisoned_globals_def)
qed

end
