(* ===== verification/Registry.thy ===== *)
theory Registry
  imports GrpcService
begin

text \<open>
  The registries of \<open>server/index.ts\<close>: tools with their descriptions, prompts, resources and the data
  dictionary (\<open>tool\<close>, \<open>prompt\<close>, \<open>resource\<close>, \<open>dataDictionary\<close>, \<open>enableZeroShotAutonomy\<close>,
  \<open>listTools\<close>, \<open>listPrompts\<close>, \<open>getPrompt\<close>, \<open>listResources\<close>, \<open>readResource\<close>). The fixed documents
  (envelope specification, guidelines, rules of the analyst) and \<open>JSON.stringify\<close> with indentation are
  parameters; the shape of a tool is given by its JSON schema and by whether it has a text \<open>payload\<close>.
\<close>

section \<open>State\<close>

datatype content = NoContent | ContentText string | ContentFunction "string + string"

record resource =
  rs_name :: string
  rs_uri :: string
  rs_description :: "string option"
  rs_mimeType :: "string option"
  rs_content :: content

record tool_info =
  ti_name :: string
  ti_description :: string
  ti_inputSchema :: jsval
  ti_logic :: bool                     \<comment> \<open>\<open>shape.payload\<close> is a text\<close>

text \<open>The handler of a prompt gets the data dictionary of the moment and the request.\<close>

record prompt_info =
  pi_name :: string
  pi_description :: "string option"
  pi_arguments :: jsval
  pi_handler :: "jsval option \<Rightarrow> jsval \<Rightarrow> string + jsval"

record registry =
  rg_tools :: "(string \<times> tool_info) list"
  rg_prompts :: "(string \<times> prompt_info) list"
  rg_resources :: "(string \<times> resource) list"
  rg_activeSchema :: "jsval option"

record documents =
  dc_envelopeSpec :: string
  dc_guidelines :: string
  dc_analystRules :: string
  dc_pretty :: "jsval \<Rightarrow> string"
  dc_num :: "real \<Rightarrow> string"

section \<open>The summary of a schema\<close>

text \<open>\<open>Object.entries\<close> of a value that is neither null nor \<open>undefined\<close>.\<close>

definition object_entries :: "jsval \<Rightarrow> (string \<times> jsval) list" where
  "object_entries v =
     (case v of
        JObj ps \<Rightarrow> ps
      | JArr xs \<Rightarrow> zip (map nat_str [0..<length xs]) xs
      | JStr s \<Rightarrow> zip (map nat_str [0..<length s]) (map (\<lambda>c. JStr [c]) s)
      | _ \<Rightarrow> [])"

definition nullish :: "jsval \<Rightarrow> bool" where
  "nullish v \<longleftrightarrow> v = JUndef \<or> v = JNull"

text \<open>The first argument is what is left of the depth. \<open>None\<close>: a \<open>TypeError\<close> is thrown, since a property
  of null is read.\<close>

fun schema_summary :: "(real \<Rightarrow> string) \<Rightarrow> nat \<Rightarrow> jsval \<Rightarrow> string option" where
  "schema_summary num 0 v = Some ''{...}''"
| "schema_summary num (Suc n) v =
     (if nullish v then None
      else
        (let schemaType = prop_of v ''type''; properties = prop_of v ''properties''; items = prop_of v ''items'' in
         if truthy properties then
           map_option (\<lambda>fields. ''{'' @ js_join '', '' fields @ ''}'')
             (those (map (\<lambda>(key, p).
                if nullish p then None
                else if prop_of p ''type'' = JStr ''array'' \<and> truthy (prop_of p ''items'') then
                  map_option (\<lambda>nested. key @ ''(array of '' @ nested @ '')'') (schema_summary num n (prop_of p ''items''))
                else if prop_of p ''type'' = JStr ''object'' \<and> truthy (prop_of p ''properties'') then
                  map_option (\<lambda>nested. key @ ''('' @ nested @ '')'') (schema_summary num n p)
                else Some (key @ ''('' @ (if truthy (prop_of p ''type'') then js_string num (prop_of p ''type'') else ''unknown'') @ '')''))
                (object_entries properties)))
         else if schemaType = JStr ''array'' \<and> truthy items then
           map_option (\<lambda>s. ''Array of '' @ s) (schema_summary num n items)
         else if truthy schemaType then Some (js_string num schemaType)
         else Some (js_join '', '' (map fst (object_entries v)))))"

definition extract_schema_field_summary :: "(real \<Rightarrow> string) \<Rightarrow> jsval \<Rightarrow> string option" where
  "extract_schema_field_summary num schema = schema_summary num 4 schema"

section \<open>Registration\<close>

definition nl :: string where "nl = [CHR 0x0A]"
definition bsl :: string where "bsl = [CHR 0x5C]"

definition payload_hint :: string where
  "payload_hint =
     nl @ nl @ ''Payload: LIOP v1 envelope (WASI sandbox).'' @
     '' Format: @LIOP{wasi_v1,TaskName}'' @ bsl @ ''n<JS code>'' @ bsl @ ''n@END'' @
     '' | Access data: env.records. Return aggregated object.'' @
     '' | Note: If dataset size < 10 (synthetic demo), Egress K-Anonymity blocks output if it has >3 keys or any array/nested object.'' @
     '' | Full spec: resource liop://protocol/envelope-spec''"

definition final_description :: "documents \<Rightarrow> string list \<Rightarrow> jsval option \<Rightarrow> bool \<Rightarrow> string \<Rightarrow> string option" where
  "final_description D blockedKeys activeSchema logic description =
     (if \<not> logic then Some description
      else
        (let d1 = description @ payload_hint @
                  (if blockedKeys = [] then [] else nl @ ''Restricted fields: '' @ js_join '', '' blockedKeys @ ''.'')
         in case activeSchema of
              None \<Rightarrow> Some d1
            | Some schema \<Rightarrow>
                map_option (\<lambda>s. d1 @ nl @ ''Data structure: '' @ s @ ''. Full schema: resource liop://schema/global'')
                  (extract_schema_field_summary (dc_num D) schema)))"

text \<open>\<open>tool\<close>: a name is registered once; the table of \<open>Server\<close> gets the entry, this one the description.
  The middleware takes the place of the handler of a Logic-on-Origin tool.\<close>

definition add_tool ::
    "documents \<Rightarrow> string list \<Rightarrow> string \<Rightarrow> string \<Rightarrow> jsval \<Rightarrow> bool \<Rightarrow> tool_entry \<Rightarrow> 'f server_state \<times> registry
       \<Rightarrow> string + 'f server_state \<times> registry" where
  "add_tool D blockedKeys name description inputSchema logic entry SR =
     (case SR of (S, R) \<Rightarrow>
        (case map_of (sv_tools S) name of
           Some t \<Rightarrow> Inl (''Tool already registered: '' @ name)
         | None \<Rightarrow>
             (case final_description D blockedKeys (rg_activeSchema R) logic description of
                None \<Rightarrow> Inl ''Cannot read properties of null''
              | Some finalDescription \<Rightarrow>
                  bind_sum (register_tool name (if logic then entry\<lparr>te_handler := LogicMiddleware\<rparr> else entry) S) (\<lambda>S'.
                    Inr (S', R\<lparr>rg_tools := AList.update name
                      \<lparr>ti_name = name, ti_description = finalDescription, ti_inputSchema = inputSchema, ti_logic = logic\<rparr>
                      (rg_tools R)\<rparr>)))))"

definition add_prompt :: "prompt_info \<Rightarrow> registry \<Rightarrow> string + registry" where
  "add_prompt p R =
     (case map_of (rg_prompts R) (pi_name p) of
        Some q \<Rightarrow> Inl (''Prompt already registered: '' @ pi_name p)
      | None \<Rightarrow> Inr (R\<lparr>rg_prompts := AList.update (pi_name p) p (rg_prompts R)\<rparr>))"

definition add_resource :: "resource \<Rightarrow> registry \<Rightarrow> string + registry" where
  "add_resource r R =
     (case map_of (rg_resources R) (rs_uri r) of
        Some q \<Rightarrow> Inl (''Resource URI already registered: '' @ rs_uri r)
      | None \<Rightarrow> Inr (R\<lparr>rg_resources := AList.update (rs_uri r) r (rg_resources R)\<rparr>))"

text \<open>The registry a server starts with.\<close>

definition initial_registry :: "documents \<Rightarrow> registry" where
  "initial_registry D =
     \<lparr>rg_tools = [], rg_prompts = [],
      rg_resources = [(''liop://protocol/envelope-spec'',
        \<lparr>rs_name = ''LIOP Envelope Specification'', rs_uri = ''liop://protocol/envelope-spec'',
         rs_description = Some ''Complete Logic-on-Origin envelope format, execution rules, and security constraints'',
         rs_mimeType = Some ''text/plain'', rs_content = ContentFunction (Inr (dc_envelopeSpec D))\<rparr>)],
      rg_activeSchema = None\<rparr>"

definition blind_analyst :: "documents \<Rightarrow> prompt_info" where
  "blind_analyst D =
     \<lparr>pi_name = ''liop_blind_analyst'',
      pi_description = Some ''The official Logic-Injection-on-Origin Protocol system prompt. Instructs the LLM on how to securely inject Logic-on-Origin without violating PII or safety constraints.'',
      pi_arguments = JArr [],
      pi_handler = (\<lambda>activeSchema request. Inr (JObj
        [(''description'', JStr ''LIOP Blind Analyst Instructions''),
         (''messages'', JArr [JObj
           [(''role'', JStr ''user''),
            (''content'', JObj
              [(''type'', JStr ''text''),
               (''text'', JStr (dc_analystRules D @
                  (case activeSchema of None \<Rightarrow> []
                   | Some s \<Rightarrow> nl @ nl @ ''CURRENT DATA DICTIONARY (STRICT):'' @ nl @ dc_pretty D s) @
                  nl @ nl @ ''Protocol Adherence is mandatory for successful execution.''))])]])]))\<rparr>"

definition enable_zero_shot_autonomy :: "documents \<Rightarrow> registry \<Rightarrow> string + registry" where
  "enable_zero_shot_autonomy D R = add_prompt (blind_analyst D) R"

section \<open>The data dictionary\<close>

definition schema_comment :: string where
  "schema_comment = ''LIOP DIRECTIVES: 1. Date is undefined (Date.now(), new Date() throw). Workaround: use lexicographical string comparison on ISO 8601 string dates (e.g. record.date >= '' @
     [CHR 0x27] @ ''2024-01-01'' @ [CHR 0x27] @ ''). 2. Small datasets (<10 records) limit outputs to max 3 scalar keys with NO nesting. 3. DP counts must contain count/length/size/num/total_ prefix/suffix.''"

definition with_comment :: "(string \<times> jsval) list \<Rightarrow> jsval" where
  "with_comment ps = JObj (AList.update ''$comment'' (JStr schema_comment) ps)"

text \<open>The loop over the tools.\<close>

definition describe_tool :: "string \<Rightarrow> string \<Rightarrow> tool_info \<Rightarrow> tool_info" where
  "describe_tool schemaDigest uri t =
     (if ti_logic t \<and> ti_description t \<noteq> [] \<and> \<not> js_includes (ti_description t) ''Data structure:''
      then t\<lparr>ti_description := ti_description t @ nl @ ''Data structure: '' @ schemaDigest @ ''. Full schema: resource '' @ uri @
               ''. Guidelines: resource liop://schema/guidelines''\<rparr>
      else t)"

definition guidelines_resource :: "documents \<Rightarrow> resource" where
  "guidelines_resource D =
     \<lparr>rs_name = ''LIOP Execution Guidelines'', rs_uri = ''liop://schema/guidelines'',
      rs_description = Some ''Directives for generating compliant JavaScript code for the LIOP Sandbox runtime'',
      rs_mimeType = Some ''text/plain'', rs_content = ContentFunction (Inr (dc_guidelines D))\<rparr>"

text \<open>\<open>dataDictionary\<close>: the error thrown, if any, and the registry left behind.\<close>

definition data_dictionary ::
    "documents \<Rightarrow> (string \<times> jsval) list \<Rightarrow> string \<Rightarrow> string \<Rightarrow> string \<Rightarrow> registry \<Rightarrow> string option \<times> registry" where
  "data_dictionary D ps name uri description R =
     (let schema = with_comment ps; R1 = R\<lparr>rg_activeSchema := Some schema\<rparr> in
      case extract_schema_field_summary (dc_num D) schema of
        None \<Rightarrow> (Some ''Cannot read properties of null'', R1)
      | Some schemaDigest \<Rightarrow>
          (let R2 = R1\<lparr>rg_tools := map (\<lambda>(k, t). (k, describe_tool schemaDigest uri t)) (rg_tools R1)\<rparr>;
               R3 = (case map_of (rg_resources R2) ''liop://schema/guidelines'' of
                       Some r \<Rightarrow> R2
                     | None \<Rightarrow> R2\<lparr>rg_resources := AList.update ''liop://schema/guidelines'' (guidelines_resource D) (rg_resources R2)\<rparr>)
           in case add_resource \<lparr>rs_name = name, rs_uri = uri, rs_description = Some description,
                     rs_mimeType = Some ''application/json'', rs_content = ContentText (dc_pretty D schema)\<rparr> R3 of
                Inl e \<Rightarrow> (Some e, R3)
              | Inr R4 \<Rightarrow> (None, R4)))"

section \<open>Queries\<close>

definition opt_text :: "string option \<Rightarrow> jsval" where
  "opt_text x = (case x of None \<Rightarrow> JUndef | Some s \<Rightarrow> JStr s)"

definition list_tools :: "registry \<Rightarrow> (string \<times> jsval) list" where
  "list_tools R = map (\<lambda>(k, t). (ti_name t, JObj [(''name'', JStr (ti_name t)), (''description'', JStr (ti_description t)),
     (''inputSchema'', ti_inputSchema t)])) (rg_tools R)"

definition list_prompts :: "registry \<Rightarrow> (string \<times> jsval) list" where
  "list_prompts R = map (\<lambda>(k, p). (pi_name p, JObj [(''name'', JStr (pi_name p)), (''description'', opt_text (pi_description p)),
     (''arguments'', pi_arguments p)])) (rg_prompts R)"

text \<open>The objects of the map are returned as they are, with their content; a function is not serialised.\<close>

definition list_resources :: "registry \<Rightarrow> (string \<times> jsval) list" where
  "list_resources R = map (\<lambda>(k, r). (rs_uri r, JObj [(''name'', JStr (rs_name r)), (''uri'', JStr (rs_uri r)),
     (''description'', opt_text (rs_description r)), (''mimeType'', opt_text (rs_mimeType r)),
     (''content'', case rs_content r of ContentText t \<Rightarrow> JStr t | _ \<Rightarrow> JUndef)])) (rg_resources R)"

definition get_prompt :: "registry \<Rightarrow> string \<Rightarrow> jsval \<Rightarrow> string + jsval" where
  "get_prompt R name request =
     (case map_of (rg_prompts R) name of
        None \<Rightarrow> Inl (''Prompt not found: '' @ name)
      | Some p \<Rightarrow> pi_handler p (rg_activeSchema R) request)"

definition resource_text :: "resource \<Rightarrow> string + string" where
  "resource_text r =
     (case rs_content r of
        ContentFunction f \<Rightarrow> f
      | ContentText t \<Rightarrow> Inr t
      | NoContent \<Rightarrow> Inr (case truthy_string (rs_description r) of Some d \<Rightarrow> d | None \<Rightarrow> ''No description provided''))"

definition read_resource :: "registry \<Rightarrow> string \<Rightarrow> string + jsval" where
  "read_resource R uri =
     (case map_of (rg_resources R) uri of
        None \<Rightarrow> Inl (''Resource not found: '' @ uri)
      | Some r \<Rightarrow>
          bind_sum (resource_text r) (\<lambda>text.
            Inr (JObj [(''contents'', JArr [JObj [(''uri'', JStr (rs_uri r)),
              (''mimeType'', JStr (or_else (rs_mimeType r) ''text/plain'')), (''text'', JStr text)]])])))"

section \<open>Reachable registries\<close>

inductive registry_reach :: "documents \<Rightarrow> string list \<Rightarrow> 'f server_state \<Rightarrow> 'f server_state \<times> registry \<Rightarrow> bool" for D keys S0 where
  start: "registry_reach D keys S0 (S0, initial_registry D)"
| tool: "registry_reach D keys S0 (S, R) \<Longrightarrow> add_tool D keys name descr schema logic entry (S, R) = Inr (S', R') \<Longrightarrow>
    registry_reach D keys S0 (S', R')"
| prompt: "registry_reach D keys S0 (S, R) \<Longrightarrow> add_prompt p R = Inr R' \<Longrightarrow> registry_reach D keys S0 (S, R')"
| resource: "registry_reach D keys S0 (S, R) \<Longrightarrow> add_resource r R = Inr R' \<Longrightarrow> registry_reach D keys S0 (S, R')"
| dictionary: "registry_reach D keys S0 (S, R) \<Longrightarrow> data_dictionary D ps name uri descr R = (e, R') \<Longrightarrow>
    registry_reach D keys S0 (S, R')"

text \<open>Each map has one entry per key, the key of an entry is its own name, and the tools described are
  the tools that can be called, with the middleware exactly where the description speaks of a payload.\<close>

definition registry_ok :: "'f server_state \<times> registry \<Rightarrow> bool" where
  "registry_ok SR \<longleftrightarrow>
     (case SR of (S, R) \<Rightarrow>
        distinct (map fst (rg_tools R)) \<and> distinct (map fst (rg_prompts R)) \<and> distinct (map fst (rg_resources R)) \<and>
        (\<forall>k t. map_of (rg_tools R) k = Some t \<longrightarrow> ti_name t = k) \<and>
        (\<forall>k p. map_of (rg_prompts R) k = Some p \<longrightarrow> pi_name p = k) \<and>
        (\<forall>k r. map_of (rg_resources R) k = Some r \<longrightarrow> rs_uri r = k) \<and>
        map fst (sv_tools S) = map fst (rg_tools R))"

lemma add_tool_ok: "registry_ok (S, R) \<Longrightarrow> add_tool D keys name descr schema logic entry (S, R) = Inr SR' \<Longrightarrow> registry_ok SR'"
  by (auto simp: registry_ok_def add_tool_def register_tool_def bind_sum_Inr distinct_update AList.update_keys
      map_of_eq_None_iff split: option.splits if_splits)

lemma add_prompt_ok: "registry_ok (S, R) \<Longrightarrow> add_prompt p R = Inr R' \<Longrightarrow> registry_ok (S, R')"
  by (auto simp: registry_ok_def add_prompt_def distinct_update split: option.splits if_splits)

lemma add_resource_ok: "registry_ok (S, R) \<Longrightarrow> add_resource r R = Inr R' \<Longrightarrow> registry_ok (S, R')"
  by (auto simp: registry_ok_def add_resource_def distinct_update split: option.splits if_splits)

lemma describe_keys: "map fst (map (\<lambda>(k, t). (k, describe_tool d uri t)) ts) = map fst ts"
  by (induction ts) auto

lemma map_of_describe: "map_of (map (\<lambda>(k, t). (k, describe_tool d uri t)) ts) k = map_option (describe_tool d uri) (map_of ts k)"
  by (induction ts) auto

lemma describe_name: "ti_name (describe_tool d uri t) = ti_name t"
  by (simp add: describe_tool_def)

lemma describe_tools_ok:
  "registry_ok (S, R) \<Longrightarrow> registry_ok (S, R\<lparr>rg_activeSchema := s, rg_tools := map (\<lambda>(k, t). (k, describe_tool d uri t)) (rg_tools R)\<rparr>)"
proof -
  have "rg_tools (R\<lparr>rg_activeSchema := s, rg_tools := ts\<rparr>) = ts" "rg_prompts (R\<lparr>rg_activeSchema := s, rg_tools := ts\<rparr>) = rg_prompts R"
    "rg_resources (R\<lparr>rg_activeSchema := s, rg_tools := ts\<rparr>) = rg_resources R" for ts
    by simp_all
  then show "registry_ok (S, R) \<Longrightarrow> ?thesis"
    by (auto simp only: registry_ok_def describe_keys map_of_describe map_option_eq_Some describe_name prod.case)
qed

lemma data_dictionary_ok:
  assumes ok: "registry_ok (S, R)" and dd: "data_dictionary D ps name uri descr R = (e, R')"
  shows "registry_ok (S, R')"
proof (cases "extract_schema_field_summary (dc_num D) (with_comment ps)")
  case None
  with dd ok show ?thesis by (auto simp: data_dictionary_def Let_def registry_ok_def)
next
  case (Some d)
  let ?R2 = "R\<lparr>rg_activeSchema := Some (with_comment ps), rg_tools := map (\<lambda>(k, t). (k, describe_tool d uri t)) (rg_tools R)\<rparr>"
  let ?R3 = "case map_of (rg_resources ?R2) ''liop://schema/guidelines'' of Some r \<Rightarrow> ?R2
     | None \<Rightarrow> ?R2\<lparr>rg_resources := AList.update ''liop://schema/guidelines'' (guidelines_resource D) (rg_resources ?R2)\<rparr>"
  have "registry_ok (S, ?R3)"
  proof (cases "map_of (rg_resources ?R2) ''liop://schema/guidelines''")
    case None
    with add_resource_ok [OF describe_tools_ok [OF ok], of "guidelines_resource D"] show ?thesis
      by (simp add: add_resource_def guidelines_resource_def)
  qed (simp add: describe_tools_ok [OF ok])
  moreover have "R' = ?R3 \<or> (\<exists>r. add_resource r ?R3 = Inr R')"
    using dd Some by (auto simp: data_dictionary_def Let_def split: sum.splits)
  ultimately show ?thesis using add_resource_ok by blast
qed

lemma registry_reach_ok:
  assumes "registry_reach D keys S0 SR" and "sv_tools S0 = []"
  shows "registry_ok SR"
  using assms(1)
proof (induction rule: registry_reach.induct)
  case start
  show ?case using assms(2) by (simp add: registry_ok_def initial_registry_def)
qed (blast intro: add_tool_ok add_prompt_ok add_resource_ok data_dictionary_ok)+

text \<open>A second data dictionary under the same address is refused, but only after it has replaced the
  first one in the prompts; the resource keeps serving the old one.\<close>

lemma second_dictionary_half_applied:
  assumes "data_dictionary D ps name uri descr R = (None, R1)" and "uri \<noteq> ''liop://schema/guidelines''"
    and "extract_schema_field_summary (dc_num D) (with_comment ps') \<noteq> None"
  shows "\<exists>R2. data_dictionary D ps' name' uri descr' R1 = (Some (''Resource URI already registered: '' @ uri), R2) \<and>
     rg_activeSchema R2 = Some (with_comment ps') \<and>
     (\<exists>r. map_of (rg_resources R2) uri = Some r \<and> rs_content r = ContentText (dc_pretty D (with_comment ps)))"
proof -
  obtain R3 r where ar: "add_resource r R3 = Inr R1" and r: "rs_uri r = uri" "rs_content r = ContentText (dc_pretty D (with_comment ps))"
    using assms(1) by (fastforce simp: data_dictionary_def Let_def split: option.splits sum.splits)
  from ar have m: "map_of (rg_resources R1) uri = Some r"
    using r(1) by (auto simp: add_resource_def split: option.splits)
  obtain d where "extract_schema_field_summary (dc_num D) (with_comment ps') = Some d" using assms(3) by blast
  then show ?thesis
    using m r(2) assms(2)
    by (cases "map_of (rg_resources R1) ''liop://schema/guidelines''") (auto simp: data_dictionary_def Let_def add_resource_def)
qed

end
