(* ===== verification/McpBridge.thy ===== *)
theory McpBridge
  imports Registry
begin

text \<open>
  The bridge between MCP clients and a LIOP server: \<open>bridge/index.ts\<close> with the era detection of
  \<open>gateway/mcp-compat.ts\<close>. A JSON-RPC request is answered from the registries and by \<open>call_tool\<close>;
  receipts in the results of tools are verified on the way. \<open>localeCompare\<close>, \<open>Buffer.from\<close> and JSON
  are parameters.
\<close>

section \<open>Eras\<close>

definition mcp_protocol_version :: string where "mcp_protocol_version = ''2026-07-28''"
definition mcp_protocol_version_legacy :: string where "mcp_protocol_version_legacy = ''2025-11-25''"
definition mcp_legacy_support_enabled :: bool where "mcp_legacy_support_enabled = True"

definition is_legacy_request :: "jsval \<Rightarrow> jsval \<Rightarrow> bool" where
  "is_legacy_request method params =
     (if method = JStr ''initialize'' \<or> method = JStr ''notifications/initialized'' then True
      else
        (let meta = prop_of params ''_meta''; version = prop_of meta ''io.modelcontextprotocol/protocolVersion''
         in \<not> truthy version \<or> version = JStr mcp_protocol_version_legacy))"

definition list_changed :: jsval where
  "list_changed = JObj [(''listChanged'', JBool True)]"

definition build_legacy_initialize_response :: "jsval \<Rightarrow> jsval \<Rightarrow> jsval" where
  "build_legacy_initialize_response serverInfo rid =
     JObj [(''jsonrpc'', JStr ''2.0''), (''id'', if nullish rid then JNull else rid),
       (''result'', JObj [(''protocolVersion'', JStr mcp_protocol_version_legacy),
          (''capabilities'', JObj [(''tools'', list_changed), (''resources'', list_changed), (''prompts'', list_changed)]),
          (''serverInfo'', serverInfo)])]"

definition strip_modern :: "(string \<times> jsval) list \<Rightarrow> (string \<times> jsval) list" where
  "strip_modern ps = filter (\<lambda>(k, v). k \<notin> {''resultType'', ''ttlMs'', ''cacheScope''}) ps"

text \<open>The response has the properties \<open>ps\<close>.\<close>

definition adapt_response_for_legacy_client :: "(string \<times> jsval) list \<Rightarrow> (string \<times> jsval) list" where
  "adapt_response_for_legacy_client ps =
     (let res = get_prop ps ''result'' in
      if \<not> is_object res then ps
      else AList.update ''result'' (JObj (strip_modern (object_entries res))) ps)"

section \<open>JSON-RPC\<close>

definition success_response :: "jsval \<Rightarrow> jsval \<Rightarrow> jsval" where
  "success_response rid res = JObj [(''jsonrpc'', JStr ''2.0''), (''id'', rid), (''result'', res)]"

definition bridge_error :: "jsval \<Rightarrow> int \<Rightarrow> string \<Rightarrow> jsval" where
  "bridge_error rid code msg =
     JObj [(''jsonrpc'', JStr ''2.0''), (''id'', rid),
       (''error'', JObj [(''code'', JNum (Fin (of_int code))), (''message'', JStr msg)])]"

text \<open>\<open>{ ...fields, ...result }\<close>.\<close>

definition spread :: "(string \<times> jsval) list \<Rightarrow> jsval \<Rightarrow> jsval" where
  "spread base res = JObj (AList.updates (map fst (object_entries res)) (map snd (object_entries res)) base)"

definition ms :: "int \<Rightarrow> jsval" where "ms n = JNum (Fin (of_int n))"

text \<open>\<open>Array.prototype.sort\<close> with a comparison: stable.\<close>

fun insert_by :: "('a \<Rightarrow> 'a \<Rightarrow> bool) \<Rightarrow> 'a \<Rightarrow> 'a list \<Rightarrow> 'a list" where
  "insert_by le x [] = [x]"
| "insert_by le x (y # ys) = (if le x y then x # y # ys else y # insert_by le x ys)"

definition sort_by :: "('a \<Rightarrow> 'a \<Rightarrow> bool) \<Rightarrow> 'a list \<Rightarrow> 'a list" where
  "sort_by le xs = foldr (insert_by le) xs []"

record 'f bridge_env =
  be_server :: "'f server_env"
  be_worker :: worker_env
  be_compare :: "string \<Rightarrow> string \<Rightarrow> bool"          \<comment> \<open>\<open>localeCompare\<close> is at most 0\<close>
  be_bufferFrom :: "jsval \<Rightarrow> bytes option"             \<comment> \<open>\<open>Buffer.from(x, "base64")\<close>, which may throw\<close>
  be_poolFails :: bool                                 \<comment> \<open>the verification pool throws\<close>
  be_serverInfo :: jsval
  be_num :: "real \<Rightarrow> string"

type_synonym 'f bridge_state = "'f server_state \<times> registry"

definition sorted_listing :: "'f bridge_env \<Rightarrow> (string \<times> jsval) list \<Rightarrow> jsval" where
  "sorted_listing B xs = JArr (map snd (sort_by (\<lambda>a b. be_compare B (fst a) (fst b)) xs))"

section \<open>Receipts in results\<close>

text \<open>The value of a tool's result.\<close>

definition result_props :: "call_result \<Rightarrow> (string \<times> jsval) list" where
  "result_props r =
     (''content'', JArr (map (\<lambda>t. JObj [(''type'', JStr ''text''), (''text'', JStr t)]) (cr_content r))) #
     (if cr_isError r then [(''isError'', JBool True)] else [])"

definition audit_status :: string where
  "audit_status = ''VERIFIED: ZK-Receipt & ImageID Mathematically Verified by LiopMcpBridge''"

definition verify_in_pool :: "'f bridge_env \<Rightarrow> string \<Rightarrow> jsval \<Rightarrow> bytes \<Rightarrow> jsval \<Rightarrow> bool option" where
  "verify_in_pool B payload imageId receipt computationResult =
     (if be_poolFails B then None
      else Some (liop_verify_zk_receipt (be_worker B) (utf8 payload) (case imageId of JStr s \<Rightarrow> s | _ \<Rightarrow> []) receipt None computationResult))"

text \<open>\<open>verifyZkReceipt\<close>: the verdict, and the result with the note in its first text. Everything thrown
  while the text is parsed or verified ends in the same handler, which lets the result pass.\<close>

definition bridge_verify :: "'f bridge_env \<Rightarrow> jsval \<Rightarrow> call_result \<Rightarrow> bool \<times> call_result" where
  "bridge_verify B arguments r =
     (case prop_of arguments ''payload'' of
        JStr payload \<Rightarrow>
          if payload = [] then (True, r)
          else
            (case cr_content r of
               [] \<Rightarrow> (True, r)
             | contentText # rest \<Rightarrow>
                 if contentText = [] then (True, r)
                 else
                   (case se_parse (be_server B) contentText of
                      None \<Rightarrow> (True, r)
                    | Some data \<Rightarrow>
                        if data = JNull then (True, r)
                        else if \<not> truthy (prop_of data ''image_id'') \<and> \<not> truthy (prop_of data ''zk_receipt'') then (True, r)
                        else
                          (case be_bufferFrom B (if truthy (prop_of data ''zk_receipt'') then prop_of data ''zk_receipt'' else JStr []) of
                             None \<Rightarrow> (True, r)
                           | Some receipt \<Rightarrow>
                               (case verify_in_pool B payload (prop_of data ''image_id'') receipt (prop_of data ''computation_result'') of
                                  None \<Rightarrow> (True, r)
                                | Some False \<Rightarrow> (False, r)
                                | Some True \<Rightarrow>
                                    (True, r\<lparr>cr_content := se_stringify (be_server B)
                                       (JObj (AList.update ''audit_status'' (JStr audit_status) (object_entries data))) # rest\<rparr>)))))
      | _ \<Rightarrow> (True, r))"

definition shield_alert :: string where
  "shield_alert = ''ALERT [LIOP ZERO-TRUST SHIELD] ZK Verification Failed. The mathematical ImageID does not match the original payload.''"

section \<open>Methods\<close>

definition method_name :: "'f bridge_env \<Rightarrow> jsval \<Rightarrow> string" where
  "method_name B v = js_string (be_num B) v"

definition bridge_prompts_get :: "'f bridge_env \<Rightarrow> bool \<Rightarrow> jsval \<Rightarrow> jsval \<Rightarrow> registry \<Rightarrow> jsval" where
  "bridge_prompts_get B isLegacy rid params R =
     (if \<not> truthy (prop_of params ''name'') then bridge_error rid (- 32602) ''Missing prompt name''
      else
        (case (case prop_of params ''name'' of
                 JStr name \<Rightarrow> get_prompt R name (JObj [(''name'', JStr name), (''arguments'', prop_of params ''arguments'')])
               | v \<Rightarrow> Inl (''Prompt not found: '' @ method_name B v)) of
           Inl e \<Rightarrow> bridge_error rid (- 32000) e
         | Inr res \<Rightarrow>
             success_response rid (if isLegacy \<or> \<not> is_object res then res
                                  else spread [(''resultType'', JStr ''complete'')] res)))"

definition bridge_resources_read :: "'f bridge_env \<Rightarrow> bool \<Rightarrow> jsval \<Rightarrow> jsval \<Rightarrow> registry \<Rightarrow> jsval" where
  "bridge_resources_read B isLegacy rid params R =
     (if \<not> truthy (prop_of params ''uri'') then bridge_error rid (- 32602) ''Missing resource URI''
      else
        (case (case prop_of params ''uri'' of
                 JStr uri \<Rightarrow> read_resource R uri
               | v \<Rightarrow> Inl (''Resource not found: '' @ method_name B v)) of
           Inl e \<Rightarrow> bridge_error rid (- 32000) e
         | Inr res \<Rightarrow>
             success_response rid
               (let modern = [(''resultType'', JStr ''complete''), (''ttlMs'', ms 60000), (''cacheScope'', JStr ''private'')]
                in if isLegacy then res
                   else if is_object res then spread modern res
                   else JObj (modern @ [(''contents'', res)]))))"

text \<open>\<open>tools/call\<close>. \<open>None\<close>: the call is never answered.\<close>

definition bridge_tools_call ::
    "'f bridge_env \<Rightarrow> int \<Rightarrow> bool \<Rightarrow> jsval \<Rightarrow> jsval \<Rightarrow> 'f bridge_state \<Rightarrow> (jsval \<times> 'f bridge_state) option" where
  "bridge_tools_call B now isLegacy rid params SR =
     (case SR of (S, R) \<Rightarrow>
        if \<not> truthy (prop_of params ''name'') then Some (bridge_error rid (- 32602) ''Missing tool name'', SR)
        else
          (let arguments = (if truthy (prop_of params ''arguments'') then prop_of params ''arguments'' else JObj []) in
           case (case prop_of params ''name'' of
                   JStr name \<Rightarrow> call_tool (be_server B) now name arguments ''local-client'' S
                 | v \<Rightarrow> Some (Inl (ToolNotFound (method_name B v)))) of
             None \<Rightarrow> None
           | Some (Inl (ToolNotFound name)) \<Rightarrow> Some (bridge_error rid (- 32000) (''Tool not found: '' @ name), SR)
           | Some (Inr (r, S')) \<Rightarrow>
               (case (if cr_isError r then (True, r) else bridge_verify B arguments r) of
                  (isVerified, r') \<Rightarrow>
                    Some (success_response rid
                      (if \<not> isVerified then JObj (result_props (text_error shield_alert))
                       else if isLegacy then JObj (result_props r')
                       else spread [(''resultType'', JStr ''complete'')] (JObj (result_props r'))), (S', R)))))"

definition bridge_listing :: "bool \<Rightarrow> jsval \<Rightarrow> string \<Rightarrow> jsval \<Rightarrow> jsval" where
  "bridge_listing isLegacy rid name items =
     success_response rid
       (if isLegacy then JObj [(name, items)]
        else JObj [(''resultType'', JStr ''complete''), (''ttlMs'', ms 300000), (''cacheScope'', JStr ''public''), (name, items)])"

definition bridge_capabilities :: jsval where
  "bridge_capabilities = JObj [(''prompts'', list_changed), (''resources'', list_changed), (''tools'', list_changed)]"

definition bridge_initialize :: "'f bridge_env \<Rightarrow> jsval \<Rightarrow> jsval" where
  "bridge_initialize B rid =
     (if \<not> mcp_legacy_support_enabled then bridge_error rid (- 32601) ''Method retired: initialize''
      else success_response rid
        (JObj [(''protocolVersion'', JStr mcp_protocol_version_legacy), (''capabilities'', bridge_capabilities),
               (''serverInfo'', be_serverInfo B)]))"

definition bridge_discover :: "'f bridge_env \<Rightarrow> jsval \<Rightarrow> jsval" where
  "bridge_discover B rid =
     success_response rid
       (JObj [(''resultType'', JStr ''complete''),
              (''supportedVersions'', JArr (if mcp_legacy_support_enabled
                 then [JStr mcp_protocol_version, JStr mcp_protocol_version_legacy] else [JStr mcp_protocol_version])),
              (''capabilities'', bridge_capabilities), (''serverInfo'', be_serverInfo B)])"

text \<open>\<open>handleLiopToMcp\<close>: the response, \<open>JUndef\<close> for a notification.\<close>

definition handle_liop_to_mcp ::
    "'f bridge_env \<Rightarrow> int \<Rightarrow> jsval \<Rightarrow> jsval \<Rightarrow> jsval \<Rightarrow> 'f bridge_state \<Rightarrow> (jsval \<times> 'f bridge_state) option" where
  "handle_liop_to_mcp B now rid method params SR =
     (let R = snd SR; isLegacy = (mcp_legacy_support_enabled \<and> is_legacy_request method params); answer = (\<lambda>v. Some (v, SR))
      in if method = JStr ''initialize'' then answer (bridge_initialize B rid)
         else if method = JStr ''server/discover'' then answer (bridge_discover B rid)
         else if method = JStr ''notifications/initialized'' then answer JUndef
         else if method = JStr ''ping'' then answer (success_response rid (JObj []))
         else if method = JStr ''tools/list'' then answer (bridge_listing isLegacy rid ''tools'' (sorted_listing B (list_tools R)))
         else if method = JStr ''resources/list'' then answer (bridge_listing isLegacy rid ''resources'' (sorted_listing B (list_resources R)))
         else if method = JStr ''prompts/list'' then answer (bridge_listing isLegacy rid ''prompts'' (sorted_listing B (list_prompts R)))
         else if method = JStr ''prompts/get'' then answer (bridge_prompts_get B isLegacy rid params R)
         else if method = JStr ''resources/read'' then answer (bridge_resources_read B isLegacy rid params R)
         else if method = JStr ''tools/call'' then bridge_tools_call B now isLegacy rid params SR
         else answer (bridge_error rid (- 32601) ''Method not found''))"

text \<open>\<open>handleJsonRpcRequest\<close>; \<open>hasServer\<close>: there is a LIOP server, from the start or after \<open>connect\<close>.\<close>

definition handle_json_rpc_request ::
    "'f bridge_env \<Rightarrow> int \<Rightarrow> bool \<Rightarrow> (string \<times> jsval) list \<Rightarrow> 'f bridge_state \<Rightarrow> (jsval \<times> 'f bridge_state) option" where
  "handle_json_rpc_request B now hasServer payload SR =
     (let rid = get_prop payload ''id'' in
      if get_prop payload ''jsonrpc'' \<noteq> JStr ''2.0'' then Some (bridge_error rid (- 32600) ''Invalid Request'', SR)
      else if hasServer then handle_liop_to_mcp B now rid (get_prop payload ''method'') (get_prop payload ''params'') SR
      else Some (bridge_error rid (- 32601) ''Bridge source not configured'', SR))"

text \<open>One line of standard input: what is written to standard output.\<close>

definition handle_line ::
    "'f bridge_env \<Rightarrow> int \<Rightarrow> string \<Rightarrow> 'f bridge_state \<Rightarrow> (string \<times> 'f bridge_state) option" where
  "handle_line B now line SR =
     (if js_trim line = [] then Some ([], SR)
      else
        (case se_parse (be_server B) line of
           None \<Rightarrow> Some ([], SR)
         | Some payload \<Rightarrow>
             if nullish payload then Some ([], SR)
             else
               map_option (\<lambda>(response, SR').
                   (if truthy response then se_stringify (be_server B) response @ nl else [], SR'))
                 (handle_json_rpc_request B now True (case payload of JObj ps \<Rightarrow> ps | _ \<Rightarrow> []) SR)))"

end
