(* ===== verification/StreamBridge.thy ===== *)
theory StreamBridge
  imports McpBridge
begin

text \<open>
  The HTTP bridge \<open>bridge/stream.ts\<close>: bearer tokens, sessions of legacy clients with a limit per
  address and a timeout, and direct JSON-RPC requests. The session transports belong to the MCP SDK:
  a request handed to one of them is an outcome, and their callbacks (\<open>onsessioninitialized\<close>,
  \<open>onmessage\<close>, \<open>onclose\<close>) are operations of their own, which may come at any later time.
\<close>

section \<open>State\<close>

record session_entry =
  sx_lastActivity :: int
  sx_clientIp :: string

record stream_state =
  ss_sessions :: "(string \<times> session_entry) list"
  ss_maxSessionsPerIp :: int
  ss_sessionTimeoutMs :: int

definition default_max_sessions_per_ip :: int where "default_max_sessions_per_ip = 10"
definition default_session_timeout_ms :: int where "default_session_timeout_ms = 30 * 60 * 1000"

definition new_stream_bridge :: "int option \<Rightarrow> int option \<Rightarrow> stream_state" where
  "new_stream_bridge maxSessionsPerIp sessionTimeoutMs =
     \<lparr>ss_sessions = [],
      ss_maxSessionsPerIp = (case maxSessionsPerIp of None \<Rightarrow> default_max_sessions_per_ip | Some n \<Rightarrow> n),
      ss_sessionTimeoutMs = (case sessionTimeoutMs of None \<Rightarrow> default_session_timeout_ms | Some n \<Rightarrow> n)\<rparr>"

record http_request =
  hr_method :: string
  hr_authorization :: "string option"
  hr_sessionId :: "string option"
  hr_contentType :: "string option"
  hr_forwardedFor :: "string option"
  hr_realIp :: "string option"
  hr_body :: "jsval option"            \<comment> \<open>\<open>None\<close>: not JSON\<close>

datatype http_result =
    HttpJson nat jsval
  | HttpEmpty nat
  | ToTransport string                 \<comment> \<open>handed to the transport of a session\<close>
  | ToNewTransport string              \<comment> \<open>handed to a new transport, for a client address\<close>

definition http_error :: "nat \<Rightarrow> string \<Rightarrow> http_result" where
  "http_error status msg = HttpJson status (JObj [(''error'', JStr msg)])"

section \<open>Sessions\<close>

definition count_sessions_by_ip :: "string \<Rightarrow> stream_state \<Rightarrow> nat" where
  "count_sessions_by_ip ip T = length (filter (\<lambda>(k, e). sx_clientIp e = ip) (ss_sessions T))"

definition get_client_ip :: "http_request \<Rightarrow> string" where
  "get_client_ip r =
     (case truthy_string (map_option (\<lambda>h. js_trim (takeWhile (\<lambda>c. c \<noteq> CHR '','') h)) (hr_forwardedFor r)) of
        Some ip \<Rightarrow> ip
      | None \<Rightarrow> or_else (hr_realIp r) ''unknown'')"

text \<open>The callbacks of a transport.\<close>

definition on_session_initialized :: "int \<Rightarrow> string \<Rightarrow> string \<Rightarrow> stream_state \<Rightarrow> stream_state" where
  "on_session_initialized now sessionId clientIp T =
     T\<lparr>ss_sessions := AList.update sessionId \<lparr>sx_lastActivity = now, sx_clientIp = clientIp\<rparr> (ss_sessions T)\<rparr>"

definition touch :: "int \<Rightarrow> string \<Rightarrow> stream_state \<Rightarrow> stream_state" where
  "touch now sessionId T =
     (case map_of (ss_sessions T) sessionId of
        None \<Rightarrow> T
      | Some e \<Rightarrow> T\<lparr>ss_sessions := AList.update sessionId (e\<lparr>sx_lastActivity := now\<rparr>) (ss_sessions T)\<rparr>)"

text \<open>A message of an open session: what is sent back, if anything.\<close>

definition on_message ::
    "'f bridge_env \<Rightarrow> int \<Rightarrow> string \<Rightarrow> (string \<times> jsval) list \<Rightarrow> stream_state \<times> 'f bridge_state
       \<Rightarrow> (jsval option \<times> stream_state \<times> 'f bridge_state) option" where
  "on_message B now sessionId msg TS =
     (case TS of (T, SR) \<Rightarrow>
        map_option (\<lambda>(v, SR'). (if v = JUndef then None else Some v, touch now sessionId T, SR'))
          (handle_json_rpc_request B now True msg SR))"

definition on_close :: "string \<Rightarrow> stream_state \<Rightarrow> stream_state" where
  "on_close sessionId T = T\<lparr>ss_sessions := AList.delete sessionId (ss_sessions T)\<rparr>"

definition evict_idle_sessions :: "int \<Rightarrow> stream_state \<Rightarrow> stream_state" where
  "evict_idle_sessions now T =
     T\<lparr>ss_sessions := filter (\<lambda>(k, e). \<not> ss_sessionTimeoutMs T < now - sx_lastActivity e) (ss_sessions T)\<rparr>"

definition stop :: "stream_state \<Rightarrow> stream_state" where
  "stop T = T\<lparr>ss_sessions := []\<rparr>"

section \<open>The middleware\<close>

text \<open>The static token (never empty: without one a random token is set) and the validator of the server;
  \<open>None\<close> lets the request through.\<close>

definition zero_trust_error :: http_result where
  "zero_trust_error = http_error 401 ''Unauthorized: LIOP Zero-Trust Policy Enforced''"

definition zta_middleware :: "string \<Rightarrow> (string \<Rightarrow> string + 'a) option \<Rightarrow> http_request \<Rightarrow> http_result option" where
  "zta_middleware expectedToken validator r =
     (case hr_authorization r of
        None \<Rightarrow> Some zero_trust_error
      | Some auth \<Rightarrow>
          if \<not> starts_with auth ''Bearer '' then Some zero_trust_error
          else
            (let token = drop 7 auth in
             if expectedToken \<noteq> [] \<and> token = expectedToken then None
             else case validator of
               Some validate \<Rightarrow>
                 (case validate token of
                    Inl e \<Rightarrow> Some (http_error 401 (''Unauthorized: JWT Validation failed - '' @ e))
                  | Inr info \<Rightarrow> None)
             | None \<Rightarrow> Some zero_trust_error))"

section \<open>The handler\<close>

text \<open>A JSON-RPC body that is answered directly.\<close>

definition is_stateless :: "jsval \<Rightarrow> bool" where
  "is_stateless body \<longleftrightarrow> prop_of body ''method'' = JStr ''server/discover'' \<or>
     truthy (prop_of (prop_of body ''params'') ''_meta'') \<or> \<not> mcp_legacy_support_enabled"

definition open_new_session :: "http_request \<Rightarrow> stream_state \<Rightarrow> http_result" where
  "open_new_session r T =
     (if \<not> mcp_legacy_support_enabled
      then http_error 400 ''Stateless MCP 2026-07-28 is active. Direct JSON-RPC POST required.''
      else
        (let clientIp = get_client_ip r in
         if ss_maxSessionsPerIp T \<le> int (count_sessions_by_ip clientIp T)
         then http_error 429 ''Too Many Sessions: Rate limit exceeded''
         else ToNewTransport clientIp))"

text \<open>\<open>None\<close>: the request is never answered.\<close>

definition handle_mcp ::
    "'f bridge_env \<Rightarrow> int \<Rightarrow> http_request \<Rightarrow> stream_state \<times> 'f bridge_state
       \<Rightarrow> (http_result \<times> stream_state \<times> 'f bridge_state) option" where
  "handle_mcp B now r TS =
     (case TS of (T, SR) \<Rightarrow>
        (case truthy_string (hr_sessionId r) of
           Some sessionId \<Rightarrow>
             if \<not> mcp_legacy_support_enabled
             then Some (http_error 404 ''Session-based routing is retired. Use stateless MCP 2026-07-28 requests.'', TS)
             else
               (case map_of (ss_sessions T) sessionId of
                  None \<Rightarrow> Some (http_error 404 ''Session not found'', TS)
                | Some e \<Rightarrow>
                    (let T1 = touch now sessionId T
                     in Some (ToTransport sessionId, if hr_method r = ''DELETE'' then on_close sessionId T1 else T1, SR)))
         | None \<Rightarrow>
             (let newSession = Some (open_new_session r T, TS) in
              if hr_method r = ''POST'' \<and> js_includes (or_else (hr_contentType r) []) ''application/json'' then
                (case hr_body r of
                   Some (JObj body) \<Rightarrow>
                     if is_stateless (JObj body) then
                       map_option (\<lambda>(v, SR'). (if v = JUndef then HttpEmpty 204 else HttpJson 200 v, T, SR'))
                         (handle_json_rpc_request B now True body SR)
                     else newSession
                 | _ \<Rightarrow> newSession)
              else newSession)))"

text \<open>A request to \<open>/mcp\<close>.\<close>

definition handle_http ::
    "'f bridge_env \<Rightarrow> string \<Rightarrow> (string \<Rightarrow> string + 'a) option \<Rightarrow> int \<Rightarrow> http_request \<Rightarrow> stream_state \<times> 'f bridge_state
       \<Rightarrow> (http_result \<times> stream_state \<times> 'f bridge_state) option" where
  "handle_http B expectedToken validator now r TS =
     (case zta_middleware expectedToken validator r of
        Some rejection \<Rightarrow> Some (rejection, TS)
      | None \<Rightarrow> handle_mcp B now r TS)"

section \<open>Runs\<close>

text \<open>The events of a run, with the addresses of the transports whose session is not open yet.\<close>

inductive stream_step ::
    "'f bridge_env \<Rightarrow> string \<Rightarrow> (string \<Rightarrow> string + 'a) option \<Rightarrow> string list \<times> stream_state \<times> 'f bridge_state
       \<Rightarrow> string list \<times> stream_state \<times> 'f bridge_state \<Rightarrow> bool" for B tok vd where
  request: "handle_http B tok vd now r (T, SR) = Some (out, T', SR') \<Longrightarrow>
    stream_step B tok vd (pending, T, SR) (case out of ToNewTransport ip \<Rightarrow> ip # pending | _ \<Rightarrow> pending, T', SR')"
| opened: "ip \<in> set pending \<Longrightarrow> map_of (ss_sessions T) sid = None \<Longrightarrow>
    stream_step B tok vd (pending, T, SR) (remove1 ip pending, on_session_initialized now sid ip T, SR)"
| msg: "on_message B now sid m (T, SR) = Some (out, T', SR') \<Longrightarrow> stream_step B tok vd (pending, T, SR) (pending, T', SR')"
| closed: "stream_step B tok vd (pending, T, SR) (pending, on_close sid T, SR)"
| evict: "stream_step B tok vd (pending, T, SR) (pending, evict_idle_sessions now T, SR)"

inductive_cases stream_stepE: "stream_step B tok vd X Y"

inductive stream_reach ::
    "'f bridge_env \<Rightarrow> string \<Rightarrow> (string \<Rightarrow> string + 'a) option \<Rightarrow> stream_state \<times> 'f bridge_state
       \<Rightarrow> string list \<times> stream_state \<times> 'f bridge_state \<Rightarrow> bool" for B tok vd TS0 where
  start: "stream_reach B tok vd TS0 ([], TS0)"
| step: "stream_reach B tok vd TS0 X \<Longrightarrow> stream_step B tok vd X Y \<Longrightarrow> stream_reach B tok vd TS0 Y"

text \<open>Runs in which a new transport opens its session before the next request comes.\<close>

inductive serial_reach ::
    "'f bridge_env \<Rightarrow> string \<Rightarrow> (string \<Rightarrow> string + 'a) option \<Rightarrow> stream_state \<times> 'f bridge_state
       \<Rightarrow> string list \<times> stream_state \<times> 'f bridge_state \<Rightarrow> bool" for B tok vd TS0 where
  serial_start: "serial_reach B tok vd TS0 ([], TS0)"
| serial_step: "serial_reach B tok vd TS0 X \<Longrightarrow> stream_step B tok vd X Y \<Longrightarrow> length (fst Y) \<le> 1 \<Longrightarrow>
    (fst X \<noteq> [] \<Longrightarrow> fst Y = []) \<Longrightarrow> serial_reach B tok vd TS0 Y"

end
