(* ===== verification/BridgeClaims.thy ===== *)
theory BridgeClaims
  imports StreamBridge ReceiptClaims ServerClaims
begin

text \<open>
  What the bridges guarantee: the form of every response, that legacy clients get the modern answers
  without the modern fields, what the verification of receipts on the way is worth, and how many
  sessions an address can hold.
\<close>

section \<open>The form of a response\<close>

definition error_codes :: "int set" where
  "error_codes = {- 32600, - 32601, - 32602, - 32000}"

definition well_formed_response :: "jsval \<Rightarrow> jsval \<Rightarrow> bool" where
  "well_formed_response rid v \<longleftrightarrow>
     (\<exists>res. v = success_response rid res) \<or> (\<exists>code msg. code \<in> error_codes \<and> v = bridge_error rid code msg)"

lemma well_formed_success: "well_formed_response rid (success_response rid res)"
  by (auto simp: well_formed_response_def)

lemma well_formed_error: "code \<in> error_codes \<Longrightarrow> well_formed_response rid (bridge_error rid code msg)"
  by (auto simp: well_formed_response_def)

lemma codes [simp]: "- 32600 \<in> error_codes" "- 32601 \<in> error_codes" "- 32602 \<in> error_codes" "- 32000 \<in> error_codes"
  by (simp_all add: error_codes_def)

lemmas well_formed = well_formed_success well_formed_error codes

lemma tools_call_form:
  "bridge_tools_call B now l rid params SR = Some (v, SR') \<Longrightarrow> well_formed_response rid v \<and> snd SR' = snd SR"
  by (auto simp: bridge_tools_call_def Let_def well_formed split: prod.splits if_splits option.splits sum.splits call_error.splits)

lemma other_forms:
  "well_formed_response rid (bridge_prompts_get B l rid params R)" "well_formed_response rid (bridge_resources_read B l rid params R)"
  "well_formed_response rid (bridge_listing l rid name items)" "well_formed_response rid (bridge_initialize B rid)"
  "well_formed_response rid (bridge_discover B rid)"
  by (auto simp: bridge_prompts_get_def bridge_resources_read_def bridge_listing_def bridge_initialize_def bridge_discover_def
      well_formed split: sum.split)

lemma liop_to_mcp_form:
  assumes "handle_liop_to_mcp B now rid method params SR = Some (v, SR')"
  shows "(well_formed_response rid v \<or> v = JUndef \<and> method = JStr ''notifications/initialized'') \<and> snd SR' = snd SR \<and>
     (method \<noteq> JStr ''tools/call'' \<longrightarrow> SR' = SR)"
proof (cases "method = JStr ''tools/call''")
  case True
  with assms have "bridge_tools_call B now (mcp_legacy_support_enabled \<and> is_legacy_request method params) rid params SR = Some (v, SR')"
    by (simp add: handle_liop_to_mcp_def Let_def)
  from tools_call_form [OF this] True show ?thesis by simp
next
  case False
  with assms show ?thesis
    by (auto simp: handle_liop_to_mcp_def Let_def other_forms well_formed split: if_splits)
qed

text \<open>C40: every answer of the bridge is a JSON-RPC 2.0 response with the identifier of the request and
  either a result or one of four error codes; only the notification is not answered. No request
  changes the registries, and only tool calls change the server.\<close>

theorem bridge_responses:
  assumes "handle_json_rpc_request B now hasServer payload SR = Some (v, SR')"
  shows "(well_formed_response (get_prop payload ''id'') v \<or>
      v = JUndef \<and> get_prop payload ''method'' = JStr ''notifications/initialized'') \<and>
     snd SR' = snd SR \<and> (get_prop payload ''method'' \<noteq> JStr ''tools/call'' \<longrightarrow> SR' = SR)"
proof (cases "get_prop payload ''jsonrpc'' = JStr ''2.0'' \<and> hasServer")
  case True
  then show ?thesis using assms liop_to_mcp_form by (simp add: handle_json_rpc_request_def Let_def)
next
  case False
  then show ?thesis using assms by (auto simp: handle_json_rpc_request_def Let_def well_formed split: if_splits)
qed

section \<open>Legacy clients\<close>

definition legacy_response :: "jsval \<Rightarrow> jsval" where
  "legacy_response v = (case v of JObj ps \<Rightarrow> JObj (adapt_response_for_legacy_client ps) | _ \<Rightarrow> v)"

definition plain_props :: "(string \<times> jsval) list \<Rightarrow> bool" where
  "plain_props ps \<longleftrightarrow> distinct (map fst ps) \<and> (\<forall>k \<in> set (map fst ps). k \<notin> {''resultType'', ''ttlMs'', ''cacheScope''})"

lemma legacy_error: "legacy_response (bridge_error rid code msg) = bridge_error rid code msg"
  by (simp add: legacy_response_def adapt_response_for_legacy_client_def bridge_error_def get_prop_def)

lemma legacy_success:
  "legacy_response (success_response rid (JObj ps)) = success_response rid (JObj (strip_modern ps))"
  by (simp add: legacy_response_def adapt_response_for_legacy_client_def success_response_def get_prop_def object_entries_def)

lemma legacy_success_scalar: "\<not> is_object v \<Longrightarrow> legacy_response (success_response rid v) = success_response rid v"
  by (simp add: legacy_response_def adapt_response_for_legacy_client_def success_response_def get_prop_def)

lemma updates_fresh:
  "distinct (map fst ps) \<Longrightarrow> (\<forall>k \<in> set (map fst ps). k \<notin> fst ` set base) \<Longrightarrow> AList.updates (map fst ps) (map snd ps) base = base @ ps"
proof (induction ps arbitrary: base)
  case (Cons p ps)
  obtain k v where p: "p = (k, v)" by (cases p)
  have "k \<notin> fst ` set al \<Longrightarrow> AList.update k v al = al @ [(k, v)]" for al by (induction al) auto
  then have u: "AList.update k v base = base @ [(k, v)]" using Cons.prems(2) p by simp
  have "AList.updates (map fst ps) (map snd ps) (base @ [(k, v)]) = (base @ [(k, v)]) @ ps"
    using Cons.prems p by (intro Cons.IH) auto
  then show ?case by (simp add: p u)
qed simp

lemma strip_spread:
  assumes "plain_props ps" and "fst ` set base \<subseteq> {''resultType'', ''ttlMs'', ''cacheScope''}"
  shows "spread base (JObj ps) = JObj (base @ ps) \<and> strip_modern (base @ ps) = ps"
proof
  from assms show "spread base (JObj ps) = JObj (base @ ps)"
    by (fastforce simp: spread_def object_entries_def plain_props_def intro!: updates_fresh)
  have "filter (\<lambda>(k, v). k \<notin> {''resultType'', ''ttlMs'', ''cacheScope''}) ps = ps"
    using assms(1) by (intro filter_True) (fastforce simp: plain_props_def)
  moreover have "filter (\<lambda>(k, v). k \<notin> {''resultType'', ''ttlMs'', ''cacheScope''}) base = []"
    using assms(2) by (fastforce simp: filter_empty_conv)
  ultimately show "strip_modern (base @ ps) = ps" by (simp add: strip_modern_def)
qed

lemma result_props_plain: "plain_props (result_props r)"
  by (simp add: plain_props_def result_props_def)

lemma strip_plain: "plain_props ps \<Longrightarrow> strip_modern ps = ps"
  using strip_spread [of ps "[]"] by simp

lemma read_resource_plain: "read_resource R uri = Inr v \<Longrightarrow> \<exists>ps. v = JObj ps \<and> plain_props ps"
  by (auto simp: read_resource_def bind_sum_Inr plain_props_def split: option.splits)

lemma legacy_listing:
  "name \<notin> {''resultType'', ''ttlMs'', ''cacheScope''} \<Longrightarrow>
   legacy_response (bridge_listing False rid name items) = bridge_listing True rid name items"
  by (simp add: bridge_listing_def legacy_success strip_modern_def)

lemma legacy_resources:
  assumes "prop_of params ''uri'' = prop_of params' ''uri''"
  shows "legacy_response (bridge_resources_read B False rid params' R) = bridge_resources_read B True rid params R"
proof (cases "truthy (prop_of params' ''uri'')")
  case True
  note t = this
  let ?r = "case prop_of params' ''uri'' of JStr uri \<Rightarrow> read_resource R uri | v \<Rightarrow> Inl (''Resource not found: '' @ method_name B v)"
  show ?thesis
  proof (cases ?r)
    case (Inl e)
    then show ?thesis using t by (simp add: bridge_resources_read_def assms legacy_error)
  next
    case (Inr v)
    then obtain uri where "read_resource R uri = Inr v" by (auto split: jsval.splits)
    from read_resource_plain [OF this] obtain ps where ps: "v = JObj ps" "plain_props ps" by blast
    with strip_spread [OF ps(2), of "[(''resultType'', JStr ''complete''), (''ttlMs'', ms 60000), (''cacheScope'', JStr ''private'')]"]
    show ?thesis using t Inr by (simp add: bridge_resources_read_def assms legacy_success Let_def)
  qed
qed (simp add: bridge_resources_read_def assms legacy_error)

lemma legacy_prompts:
  assumes "prop_of params ''name'' = prop_of params' ''name''" "prop_of params ''arguments'' = prop_of params' ''arguments''"
    and "\<And>p q v. p \<in> snd ` set (rg_prompts R) \<Longrightarrow> pi_handler p (rg_activeSchema R) q = Inr v \<Longrightarrow> \<exists>ps. v = JObj ps \<and> plain_props ps"
  shows "legacy_response (bridge_prompts_get B False rid params' R) = bridge_prompts_get B True rid params R"
proof (cases "truthy (prop_of params' ''name'')")
  case True
  note t = this
  let ?r = "case prop_of params' ''name'' of
      JStr name \<Rightarrow> get_prompt R name (JObj [(''name'', JStr name), (''arguments'', prop_of params' ''arguments'')])
    | v \<Rightarrow> Inl (''Prompt not found: '' @ method_name B v)"
  show ?thesis
  proof (cases ?r)
    case (Inl e)
    then show ?thesis using t unfolding bridge_prompts_get_def assms(1,2) by (simp add: legacy_error)
  next
    case (Inr v)
    then obtain name q where "get_prompt R name q = Inr v" by (auto split: jsval.splits)
    then obtain p where "map_of (rg_prompts R) name = Some p" "pi_handler p (rg_activeSchema R) q = Inr v"
      by (auto simp: get_prompt_def split: option.splits)
    with assms(3) obtain ps where ps: "v = JObj ps" "plain_props ps" by (metis imageI map_of_SomeD snd_conv)
    with strip_spread [OF ps(2), of "[(''resultType'', JStr ''complete'')]"]
    show ?thesis using t Inr unfolding bridge_prompts_get_def assms(1,2) by (simp add: legacy_success)
  qed
qed (simp add: bridge_prompts_get_def assms legacy_error)

lemma legacy_tools:
  assumes "prop_of params ''name'' = prop_of params' ''name''" "prop_of params ''arguments'' = prop_of params' ''arguments''"
  shows "map_option (\<lambda>(v, SR'). (legacy_response v, SR')) (bridge_tools_call B now False rid params' SR) =
    bridge_tools_call B now True rid params SR"
proof -
  have "spread [(''resultType'', JStr ''complete'')] (JObj (result_props r)) = JObj ((''resultType'', JStr ''complete'') # result_props r)"
    "strip_modern ((''resultType'', JStr ''complete'') # result_props r) = result_props r" for r
    using strip_spread [OF result_props_plain, of "[(''resultType'', JStr ''complete'')]" r] by simp_all
  then show ?thesis
    using strip_plain [OF result_props_plain]
    unfolding bridge_tools_call_def assms Let_def
    by (auto simp: legacy_error legacy_success
        split: prod.split option.split sum.split call_error.split)
qed

text \<open>C29: a client of the legacy era gets what a modern client gets, without the modern fields: the
  two paths through the bridge differ by \<open>adaptResponseForLegacyClient\<close>, and the server ends in the
  same state. (The handshake and the discovery are the exceptions.)\<close>

theorem legacy_answer_is_adapted:
  assumes "is_legacy_request method params" and "\<not> is_legacy_request method params'"
    and "\<And>k. k \<in> {''name'', ''arguments'', ''uri''} \<Longrightarrow> prop_of params k = prop_of params' k"
    and "method \<noteq> JStr ''server/discover''"
    and "\<And>p q v. p \<in> snd ` set (rg_prompts (snd SR)) \<Longrightarrow> pi_handler p (rg_activeSchema (snd SR)) q = Inr v \<Longrightarrow>
           \<exists>ps. v = JObj ps \<and> plain_props ps"
  shows "handle_liop_to_mcp B now rid method params SR =
     map_option (\<lambda>(v, SR'). (legacy_response v, SR')) (handle_liop_to_mcp B now rid method params' SR)"
proof -
  have m: "method \<noteq> JStr ''initialize''" "method \<noteq> JStr ''notifications/initialized''"
    using assms(2) by (auto simp: is_legacy_request_def)
  have p: "prop_of params ''name'' = prop_of params' ''name''" "prop_of params ''arguments'' = prop_of params' ''arguments''"
    "prop_of params ''uri'' = prop_of params' ''uri''" using assms(3) by simp_all
  show ?thesis
    using assms(1,2,4) m legacy_tools [OF p(1,2), where B = B and now = now and rid = rid and SR = SR] legacy_prompts [OF p(1,2) assms(5), where B = B and rid = rid]
      legacy_resources [OF p(3), where B = B and rid = rid and R = "snd SR"]
    by (simp add: handle_liop_to_mcp_def Let_def mcp_legacy_support_enabled_def legacy_listing legacy_error legacy_success
        strip_modern_def)
qed

section \<open>Receipts on the way\<close>

lemma verify_unsealed:
  assumes "e \<noteq> JUndef" and "\<And>m. 0 < length (we_sha256 E m)"
  shows "liop_verify_zk_receipt E p remote r None e \<longleftrightarrow>
     remote = image_hex E p \<and>
     (\<exists>journal sl j. length journal < 65536 \<and> length sl = 32 \<and> r = [1] @ be16 (length journal) @ journal @ sl \<and>
        we_parse E (utf8_text journal) = Some j \<and> prop_of j ''image_id'' = JStr (image_hex E p) \<and>
        prop_of j ''output_hash'' = JStr (expected_digest E p e))" (is "?l \<longleftrightarrow> ?r")
proof
  assume l: ?l
  let ?n = "read_be16 (drop 1 r)"
  from l obtain j where v: "remote = image_hex E p" "35 \<le> length r" "r ! 0 = 1" "length (drop (3 + ?n) r) = 32"
      "we_parse E (utf8_text (take ?n (drop 3 r))) = Some j" "prop_of j ''image_id'' = JStr (image_hex E p)"
      "prop_of j ''output_hash'' = JStr (expected_digest E p e)"
    using assms(1) unfolding verify_unfold Let_def by blast
  have len: "length (take ?n (drop 3 r)) = ?n" by (rule receipt_shape(2) [OF v(2-4)])
  show ?r
    using receipt_shape(1) [OF v(2-4)] v len read_be16_less [of "drop 1 r"]
    by (intro conjI exI [of _ "take ?n (drop 3 r)"] exI [of _ "drop (3 + ?n) r"] exI [of _ j]) (simp_all only: len)
next
  assume ?r
  then obtain journal sl j where r: "remote = image_hex E p" "length journal < 65536" "length sl = 32"
      "r = [1] @ be16 (length journal) @ journal @ sl"
      "we_parse E (utf8_text journal) = Some j" "prop_of j ''image_id'' = JStr (image_hex E p)"
      "prop_of j ''output_hash'' = JStr (expected_digest E p e)" by blast
  have "image_hex E p \<noteq> []"
    using assms(2) length_hex_text [of "derive_logic_image_digest (we_sha256 E) p"]
    by (metis derive_logic_image_digest_def image_hex_def length_0_conv mult_eq_0_iff not_less_zero zero_neq_numeral)
  then show ?l using r verify_sealed [OF r(2,3)] by (auto simp: seal_valid_def)
qed

text \<open>The result claims a receipt that can be read.\<close>

definition claims_receipt :: "'f bridge_env \<Rightarrow> jsval \<Rightarrow> call_result \<Rightarrow> string \<Rightarrow> (string \<times> jsval) list \<Rightarrow> bytes \<Rightarrow> bool" where
  "claims_receipt B arguments r payload data receipt \<longleftrightarrow>
     prop_of arguments ''payload'' = JStr payload \<and> payload \<noteq> [] \<and>
     (\<exists>t rest. cr_content r = t # rest \<and> t \<noteq> [] \<and> se_parse (be_server B) t = Some (JObj data)) \<and>
     (truthy (get_prop data ''image_id'') \<or> truthy (get_prop data ''zk_receipt'')) \<and>
     be_bufferFrom B (if truthy (get_prop data ''zk_receipt'') then get_prop data ''zk_receipt'' else JStr []) = Some receipt"

text \<open>C28: when a result carries a receipt, the bridge passes it exactly when the image id reported is
  that of the payload and the receipt is a journal of that image id and of the output, followed by 32
  bytes. The bytes of the seal are not looked at: whoever knows the payload can make a receipt that
  the bridge reports as verified.\<close>

theorem bridge_verdict:
  assumes "claims_receipt B arguments r payload data receipt" and "\<not> be_poolFails B"
    and "get_prop data ''computation_result'' \<noteq> JUndef" and "\<And>m. 0 < length (we_sha256 (be_worker B) m)"
  shows "fst (bridge_verify B arguments r) \<longleftrightarrow>
     get_prop data ''image_id'' = JStr (image_hex (be_worker B) (utf8 payload)) \<and>
     (\<exists>journal sl j. length journal < 65536 \<and> length sl = 32 \<and>
        receipt = [1] @ be16 (length journal) @ journal @ sl \<and>
        we_parse (be_worker B) (utf8_text journal) = Some j \<and>
        prop_of j ''image_id'' = JStr (image_hex (be_worker B) (utf8 payload)) \<and>
        prop_of j ''output_hash'' = JStr (expected_digest (be_worker B) (utf8 payload) (get_prop data ''computation_result'')))"
proof -
  let ?W = "be_worker B" and ?id = "case get_prop data ''image_id'' of JStr s \<Rightarrow> s | _ \<Rightarrow> []"
  have "fst (bridge_verify B arguments r) \<longleftrightarrow> liop_verify_zk_receipt ?W (utf8 payload) ?id receipt None (get_prop data ''computation_result'')"
  proof -
    from assms(1) obtain t rest where c: "prop_of arguments ''payload'' = JStr payload" "payload \<noteq> []"
        "cr_content r = t # rest" "t \<noteq> []" "se_parse (be_server B) t = Some (JObj data)"
        "truthy (get_prop data ''image_id'') \<or> truthy (get_prop data ''zk_receipt'')"
        "be_bufferFrom B (if truthy (get_prop data ''zk_receipt'') then get_prop data ''zk_receipt'' else JStr []) = Some receipt"
      by (auto simp: claims_receipt_def)
    have p: "prop_of (JObj data) k = get_prop data k" for k by (simp add: prop_of_def)
    have "(\<not> truthy (get_prop data ''image_id'') \<and> \<not> truthy (get_prop data ''zk_receipt'')) = False" using c(6) by blast
    then have "bridge_verify B arguments r =
        (case verify_in_pool B payload (get_prop data ''image_id'') receipt (get_prop data ''computation_result'') of
           None \<Rightarrow> (True, r)
         | Some b \<Rightarrow> if b then (True, r\<lparr>cr_content := se_stringify (be_server B)
               (JObj (AList.update ''audit_status'' (JStr audit_status) (object_entries (JObj data)))) # rest\<rparr>) else (False, r))"
      by (simp only: bridge_verify_def c(1,3,5,7) p jsval.case list.case option.case c(2,4)
          jsval.distinct if_False not_False_eq_True split: option.split bool.split)
        (simp split: option.split bool.split)
    then show ?thesis using assms(2) by (simp add: verify_in_pool_def)
  qed
  moreover have "image_hex ?W (utf8 payload) \<noteq> []"
    using assms(4) length_hex_text [of "derive_logic_image_digest (we_sha256 ?W) (utf8 payload)"]
    by (metis derive_logic_image_digest_def image_hex_def length_0_conv mult_eq_0_iff not_less_zero zero_neq_numeral)
  then have "?id = image_hex ?W (utf8 payload) \<longleftrightarrow> get_prop data ''image_id'' = JStr (image_hex ?W (utf8 payload))"
    by (cases "get_prop data ''image_id''") auto
  ultimately show ?thesis using verify_unsealed [OF assms(3,4), where p = "utf8 payload" and remote = ?id and r = receipt] by simp
qed

text \<open>The check fails open: a receipt that cannot be read, such as a number, and a pool that fails let
  the result pass, whatever image id it reports.\<close>

lemma unreadable_receipt_passes:
  assumes "prop_of arguments ''payload'' = JStr payload" and "cr_content r = [t]"
    and "se_parse (be_server B) t = Some (JObj data)" and "get_prop data ''zk_receipt'' = JNum (Fin 1)"
    and "be_bufferFrom B (JNum (Fin 1)) = None \<or> be_poolFails B"
  shows "bridge_verify B arguments r = (True, r)"
  using assms by (auto simp: bridge_verify_def verify_in_pool_def prop_of_def truthy_def split: option.split)

section \<open>Sessions\<close>

definition sessions_of :: "string \<Rightarrow> (string \<times> session_entry) list \<Rightarrow> nat" where
  "sessions_of ip ss = length (filter (\<lambda>(k, e). sx_clientIp e = ip) ss)"

lemma count_is: "count_sessions_by_ip ip T = sessions_of ip (ss_sessions T)"
  by (simp add: count_sessions_by_ip_def sessions_of_def)

lemma sessions_touch: "map_of ss k = Some e \<Longrightarrow> sx_clientIp e' = sx_clientIp e \<Longrightarrow> sessions_of ip (AList.update k e' ss) = sessions_of ip ss"
  by (induction ss) (auto simp: sessions_of_def split: if_splits)

lemma sessions_open: "map_of ss k = None \<Longrightarrow> sessions_of ip (AList.update k e ss) = sessions_of ip ss + (if sx_clientIp e = ip then 1 else 0)"
  by (induction ss) (auto simp: sessions_of_def split: if_splits)

lemma sessions_delete: "sessions_of ip (AList.delete k ss) \<le> sessions_of ip ss"
  by (induction ss) (auto simp: sessions_of_def AList.delete_eq)

lemma sessions_filter: "sessions_of ip (filter P ss) \<le> sessions_of ip ss"
  by (induction ss) (auto simp: sessions_of_def)

lemma touch_same: "sessions_of ip (ss_sessions (touch now k T)) = sessions_of ip (ss_sessions T)"
  "ss_maxSessionsPerIp (touch now k T) = ss_maxSessionsPerIp T"
  by (auto simp: touch_def sessions_touch split: option.split)

lemma on_close_less: "sessions_of ip (ss_sessions (on_close k T)) \<le> sessions_of ip (ss_sessions T)"
  "ss_maxSessionsPerIp (on_close k T) = ss_maxSessionsPerIp T"
  by (simp_all add: on_close_def sessions_delete)

lemma new_transport: "open_new_session r T = ToNewTransport ip \<Longrightarrow> int (sessions_of ip (ss_sessions T)) < ss_maxSessionsPerIp T"
  by (auto simp: open_new_session_def http_error_def Let_def count_is split: if_splits)

lemma open_new_result: "\<exists>s v. open_new_session r T = HttpJson s v \<or> (\<exists>ip. open_new_session r T = ToNewTransport ip)"
  by (simp add: open_new_session_def http_error_def Let_def)

lemma http_sessions:
  assumes "handle_http B tok vd now r (T, SR) = Some (out, T', SR')"
  shows "ss_maxSessionsPerIp T' = ss_maxSessionsPerIp T \<and> sessions_of ip (ss_sessions T') \<le> sessions_of ip (ss_sessions T) \<and>
     (\<forall>a. out = ToNewTransport a \<longrightarrow> T' = T \<and> int (sessions_of a (ss_sessions T)) < ss_maxSessionsPerIp T)"
proof (cases "zta_middleware tok vd r")
  case None
  then have m: "handle_mcp B now r (T, SR) = Some (out, T', SR')" using assms by (simp add: handle_http_def)
  show ?thesis
  proof (cases "truthy_string (hr_sessionId r)")
    case None
    with m new_transport show ?thesis
      by (auto simp: handle_mcp_def Let_def split: if_splits option.splits jsval.splits)
  next
    case (Some sid)
    with m show ?thesis
      using on_close_less(1) [where ip = ip and k = sid and T = "touch now sid T"] touch_same [where now = now and k = sid and T = T]
        on_close_less(2) [where k = sid and T = "touch now sid T"]
      by (auto simp: handle_mcp_def mcp_legacy_support_enabled_def http_error_def Let_def split: option.splits)
  qed
next
  case (Some x)
  then have "out = x" "T' = T" using assms by (auto simp: handle_http_def)
  moreover have "\<nexists>a. x = ToNewTransport a"
    using Some by (auto simp: zta_middleware_def zero_trust_error_def http_error_def Let_def split: option.splits if_splits sum.splits)
  ultimately show ?thesis by auto
qed

text \<open>What holds along a serial run: an address has no more sessions than allowed, and one fewer while a
  transport for it is waiting.\<close>

definition limit_inv :: "int \<Rightarrow> string list \<times> stream_state \<times> 'f bridge_state \<Rightarrow> bool" where
  "limit_inv m X \<longleftrightarrow>
     (case X of (pending, T, SR) \<Rightarrow>
        ss_maxSessionsPerIp T = m \<and> (\<forall>ip. int (sessions_of ip (ss_sessions T)) \<le> max 0 m) \<and>
        (pending = [] \<or> (\<exists>ip. pending = [ip] \<and> int (sessions_of ip (ss_sessions T)) < m)))"

lemma limit_inv_smaller:
  "limit_inv m ([], T, SR) \<Longrightarrow> ss_maxSessionsPerIp T' = ss_maxSessionsPerIp T \<Longrightarrow>
   (\<And>ip. sessions_of ip (ss_sessions T') \<le> sessions_of ip (ss_sessions T)) \<Longrightarrow> limit_inv m ([], T', SR')"
  by (fastforce simp: limit_inv_def intro: order_trans [OF of_nat_mono])

lemma serial_limit_step:
  assumes "stream_step B tok vd X Y" and "limit_inv m X" and "length (fst Y) \<le> 1" and "fst X \<noteq> [] \<Longrightarrow> fst Y = []"
  shows "limit_inv m Y"
  using assms(1)
proof (cases rule: stream_step.cases)
  case (request now r T SR out T' SR' pending)
  then have p: "pending = []" using assms(2-4) by (cases pending) (auto simp: limit_inv_def split: http_result.splits)
  note h = http_sessions [OF request(3)]
  show ?thesis
  proof (cases "\<exists>ip. out = ToNewTransport ip")
    case True
    with request h assms(2) p show ?thesis by (auto simp: limit_inv_def)
  next
    case False
    then have Y: "Y = ([], T', SR')" using request(2) p by (cases out) auto
    show ?thesis
      unfolding Y by (rule limit_inv_smaller [of m T SR]) (use h assms(2) request(1) p in simp_all)
  qed
next
  case (opened ip pending T sid SR now)
  then have "pending = [ip]" using assms(2) by (auto simp: limit_inv_def)
  then show ?thesis
    using opened assms(2)
    by (auto simp: limit_inv_def on_session_initialized_def sessions_open)
next
  case (msg now sid ms T SR out T' SR' pending)
  then have T': "T' = touch now sid T" by (auto simp: on_message_def)
  show ?thesis using assms(2) unfolding msg T' by (simp add: limit_inv_def touch_same)
next
  case (closed pending T SR sid)
  then have p: "pending = []" using assms(4) by auto
  show ?thesis
    unfolding closed p by (rule limit_inv_smaller [of m T SR]) (use assms(2) closed p on_close_less in simp_all)
next
  case (evict pending T SR now)
  then have p: "pending = []" using assms(4) by auto
  show ?thesis
    unfolding evict p
    by (rule limit_inv_smaller [of m T SR]) (use assms(2) evict p in \<open>simp_all add: evict_idle_sessions_def sessions_filter\<close>)
qed

lemma serial_limit:
  assumes "serial_reach B tok vd (T0, SR0) X" and "ss_sessions T0 = []"
  shows "limit_inv (ss_maxSessionsPerIp T0) X"
  using assms(1)
proof (induction rule: serial_reach.induct)
  case serial_start
  show ?case using assms(2) by (simp add: limit_inv_def sessions_of_def)
qed (blast intro: serial_limit_step)

text \<open>A request that opens a session for an address.\<close>

definition opening_request :: "string \<Rightarrow> string \<Rightarrow> http_request" where
  "opening_request tok ip = \<lparr>hr_method = ''GET'', hr_authorization = Some (''Bearer '' @ tok), hr_sessionId = None, hr_contentType = None,
     hr_forwardedFor = None, hr_realIp = Some ip, hr_body = None\<rparr>"

lemma opening_step:
  assumes "tok \<noteq> []" and "ip \<noteq> []" and "ss_sessions T = []" and "0 < ss_maxSessionsPerIp T"
  shows "stream_step B tok vd (pending, T, SR) (ip # pending, T, SR)"
proof -
  have "handle_http B tok vd 0 (opening_request tok ip) (T, SR) = Some (ToNewTransport ip, T, SR)"
    using assms
    by (simp add: handle_http_def zta_middleware_def opening_request_def handle_mcp_def open_new_session_def get_client_ip_def
        mcp_legacy_support_enabled_def truthy_string_def or_else_def count_is sessions_of_def)
  from stream_step.request [OF this, where pending = pending] show ?thesis by simp
qed

lemma many_pending:
  assumes "tok \<noteq> []" and "ip \<noteq> []" and "ss_sessions T = []" and "0 < ss_maxSessionsPerIp T"
  shows "stream_reach B tok vd (T, SR) (replicate n ip, T, SR)"
proof (induction n)
  case 0
  show ?case by (simp add: stream_reach.start)
next
  case (Suc n)
  from stream_reach.step [OF this opening_step [OF assms]] show ?case by simp
qed

definition many_sessions :: "string \<Rightarrow> nat \<Rightarrow> stream_state \<Rightarrow> stream_state" where
  "many_sessions ip k T = fold (\<lambda>i T. on_session_initialized 0 (replicate i (CHR ''s'')) ip T) [0..<k] T"

lemma many_sessions_fresh: "ss_sessions T = [] \<Longrightarrow> k \<le> i \<Longrightarrow> map_of (ss_sessions (many_sessions ip k T)) (replicate i (CHR ''s'')) = None"
  by (induction k) (auto simp: many_sessions_def on_session_initialized_def)

lemma many_sessions_count: "ss_sessions T = [] \<Longrightarrow> sessions_of ip (ss_sessions (many_sessions ip k T)) = k"
proof (induction k)
  case (Suc k)
  then show ?case
    using many_sessions_fresh [OF Suc.prems, of k k ip]
    by (simp add: many_sessions_def on_session_initialized_def sessions_open)
qed (simp add: many_sessions_def sessions_of_def)

lemma open_many:
  assumes "stream_reach B tok vd (T, SR) (replicate n ip, T, SR)" and "ss_sessions T = []" and "k \<le> n"
  shows "stream_reach B tok vd (T, SR) (replicate (n - k) ip, many_sessions ip k T, SR)"
  using assms(3)
proof (induction k)
  case 0
  show ?case using assms(1) by (simp add: many_sessions_def)
next
  case (Suc k)
  then have IH: "stream_reach B tok vd (T, SR) (replicate (n - k) ip, many_sessions ip k T, SR)" by simp
  obtain j where j: "n - k = Suc j" using Suc.prems by (metis Suc_diff_Suc Suc_le_lessD)
  have "stream_step B tok vd (ip # replicate j ip, many_sessions ip k T, SR)
      (remove1 ip (ip # replicate j ip), on_session_initialized 0 (replicate k (CHR ''s'')) ip (many_sessions ip k T), SR)"
    using many_sessions_fresh [OF assms(2), of k k ip] by (intro stream_step.opened) simp_all
  moreover have "n - Suc k = j" using j by simp
  ultimately show ?case
    using stream_reach.step [OF IH] by (simp add: j many_sessions_def)
qed

text \<open>C32: the limit on the sessions of an address holds when every new transport opens its session before
  the next request comes. When requests overlap it does not: the check counts only sessions already
  open, so with a valid token any number can be opened.\<close>

theorem session_limit_needs_serial_requests:
  assumes "ss_sessions T = []" and "0 < ss_maxSessionsPerIp T" and "tok \<noteq> []" and "ip \<noteq> []"
  shows "(\<forall>pending T' SR'. serial_reach B tok vd (T, SR) (pending, T', SR') \<longrightarrow>
        int (count_sessions_by_ip a T') \<le> ss_maxSessionsPerIp T) \<and>
     (\<forall>n. \<exists>T'. stream_reach B tok vd (T, SR) ([], T', SR) \<and> count_sessions_by_ip ip T' = n)"
proof (intro conjI allI impI)
  fix pending T' SR'
  assume "serial_reach B tok vd (T, SR) (pending, T', SR')"
  from serial_limit [OF this assms(1)] have "int (sessions_of a (ss_sessions T')) \<le> max 0 (ss_maxSessionsPerIp T)"
    by (simp add: limit_inv_def)
  then show "int (count_sessions_by_ip a T') \<le> ss_maxSessionsPerIp T" using assms(2) by (simp add: count_is)
next
  fix n
  have "stream_reach B tok vd (T, SR) (replicate (n - n) ip, many_sessions ip n T, SR)"
    by (rule open_many [OF many_pending [OF assms(3,4,1,2)] assms(1) order_refl])
  then show "\<exists>T'. stream_reach B tok vd (T, SR) ([], T', SR) \<and> count_sessions_by_ip ip T' = n"
    using many_sessions_count [OF assms(1)] by (auto simp: count_is)
qed

section \<open>Witnesses\<close>

definition bridge_demo :: "disk_budget bridge_env" where
  "bridge_demo = \<lparr>be_server = demo_env\<lparr>se_parse := (\<lambda>s. Some (JObj [(''image_id'', JStr (hex_text (replicate 32 1))),
       (''zk_receipt'', JStr ''b64''), (''computation_result'', JNull)]))\<rparr>,
     be_worker = example_worker, be_compare = (\<lambda>a b. True), be_bufferFrom = (\<lambda>v. Some example_receipt), be_poolFails = False,
     be_serverInfo = JNull, be_num = (\<lambda>r. [])\<rparr>"

definition demo_registry :: registry where
  "demo_registry = \<lparr>rg_tools = [], rg_prompts = [], rg_resources = [], rg_activeSchema = None\<rparr>"

theorem bridge_responses_witness:
  "(well_formed_response (JStr ''1'') (success_response (JStr ''1'') (JObj [])) \<or> success_response (JStr ''1'') (JObj []) = JUndef \<and>
     get_prop [(''jsonrpc'', JStr ''2.0''), (''id'', JStr ''1''), (''method'', JStr ''ping'')] ''method'' = JStr ''notifications/initialized'') \<and>
   snd (demo_state, demo_registry) = snd (demo_state, demo_registry)"
  using bridge_responses [of bridge_demo 5 True "[(''jsonrpc'', JStr ''2.0''), (''id'', JStr ''1''), (''method'', JStr ''ping'')]"
      "(demo_state, demo_registry)" "success_response (JStr ''1'') (JObj [])" "(demo_state, demo_registry)"]
  by (simp add: handle_json_rpc_request_def handle_liop_to_mcp_def get_prop_def Let_def)

theorem legacy_answer_is_adapted_witness:
  "handle_liop_to_mcp bridge_demo 5 (JStr ''1'') (JStr ''tools/list'') JNull (demo_state, demo_registry) =
     map_option (\<lambda>(v, SR'). (legacy_response v, SR'))
       (handle_liop_to_mcp bridge_demo 5 (JStr ''1'') (JStr ''tools/list'')
          (JObj [(''_meta'', JObj [(''io.modelcontextprotocol/protocolVersion'', JStr ''2026-07-28'')])]) (demo_state, demo_registry))"
  by (rule legacy_answer_is_adapted)
    (auto simp: is_legacy_request_def prop_of_def get_prop_def truthy_def mcp_protocol_version_legacy_def demo_registry_def)

theorem bridge_verdict_witness:
  "fst (bridge_verify bridge_demo (JObj [(''payload'', JStr ''1'')]) \<lparr>cr_content = [''{}''], cr_isError = False\<rparr>) \<longleftrightarrow>
     get_prop [(''image_id'', JStr (hex_text (replicate 32 1))), (''zk_receipt'', JStr ''b64''), (''computation_result'', JNull)] ''image_id'' =
       JStr (image_hex example_worker (utf8 ''1'')) \<and>
     (\<exists>journal sl j. length journal < 65536 \<and> length sl = 32 \<and> example_receipt = [1] @ be16 (length journal) @ journal @ sl \<and>
        we_parse example_worker (utf8_text journal) = Some j \<and>
        prop_of j ''image_id'' = JStr (image_hex example_worker (utf8 ''1'')) \<and>
        prop_of j ''output_hash'' = JStr (expected_digest example_worker (utf8 ''1'') JNull))"
proof -
  let ?d = "[(''image_id'', JStr (hex_text (replicate 32 1))), (''zk_receipt'', JStr ''b64''), (''computation_result'', JNull)]"
  have "claims_receipt bridge_demo (JObj [(''payload'', JStr ''1'')]) \<lparr>cr_content = [''{}''], cr_isError = False\<rparr> ''1'' ?d example_receipt"
    by (simp add: claims_receipt_def bridge_demo_def prop_of_def get_prop_def truthy_def)
  moreover have "\<not> be_poolFails bridge_demo" "get_prop ?d ''computation_result'' \<noteq> JUndef" "0 < length (we_sha256 (be_worker bridge_demo) m)" for m
    by (simp_all add: bridge_demo_def get_prop_def example_digests)
  ultimately have "fst (bridge_verify bridge_demo (JObj [(''payload'', JStr ''1'')]) \<lparr>cr_content = [''{}''], cr_isError = False\<rparr>) \<longleftrightarrow>
     get_prop ?d ''image_id'' = JStr (image_hex (be_worker bridge_demo) (utf8 ''1'')) \<and>
     (\<exists>journal sl j. length journal < 65536 \<and> length sl = 32 \<and> example_receipt = [1] @ be16 (length journal) @ journal @ sl \<and>
        we_parse (be_worker bridge_demo) (utf8_text journal) = Some j \<and>
        prop_of j ''image_id'' = JStr (image_hex (be_worker bridge_demo) (utf8 ''1'')) \<and>
        prop_of j ''output_hash'' = JStr (expected_digest (be_worker bridge_demo) (utf8 ''1'') (get_prop ?d ''computation_result'')))"
    by (rule bridge_verdict)
  moreover have "be_worker bridge_demo = example_worker" "get_prop ?d ''computation_result'' = JNull"
    by (simp_all add: bridge_demo_def get_prop_def)
  ultimately show ?thesis by (simp only:)
qed

theorem session_limit_needs_serial_requests_witness:
  "\<exists>T'. stream_reach bridge_demo ''t'' (None :: (string \<Rightarrow> string + unit) option) (new_stream_bridge None None, demo_state, demo_registry)
       ([], T', demo_state, demo_registry) \<and> count_sessions_by_ip ''ip'' T' = 1000"
  using session_limit_needs_serial_requests [of "new_stream_bridge None None" "''t''" "''ip''" bridge_demo
      "None :: (string \<Rightarrow> string + unit) option" "(demo_state, demo_registry)" "''ip''"]
  by (simp add: new_stream_bridge_def default_max_sessions_per_ip_def)

end
