(* ===== verification/Manifest.thy ===== *)
theory Manifest
  imports McpBridge
begin

text \<open>
  Manifests and their attestation: \<open>LiopManifest\<close> of \<open>mesh/node.ts\<close>, the manifest a server signs
  (\<open>connectToMesh\<close> of \<open>server/index.ts\<close>), the manifest a router serves (constructor of
  \<open>gateway/router.ts\<close>) and the wrapper of \<open>rpc/crypto/dilithium.ts\<close>. ML-DSA-65 itself, base64 and
  JSON are parameters.
\<close>

section \<open>ML-DSA-65\<close>

record pq_env =
  pq_keygen :: "bytes option \<Rightarrow> bytes \<times> bytes"                    \<comment> \<open>public key, secret key\<close>
  pq_sign :: "bytes \<Rightarrow> bytes \<Rightarrow> bytes \<Rightarrow> bytes"                      \<comment> \<open>message, secret key, context\<close>
  pq_verify :: "bytes \<Rightarrow> bytes \<Rightarrow> bytes \<Rightarrow> bytes \<Rightarrow> bool option"     \<comment> \<open>signature, message, public key, context\<close>
  pq_toBase64 :: "bytes \<Rightarrow> string"
  pq_fromBase64 :: "string \<Rightarrow> bytes"
  pq_num :: "real \<Rightarrow> string"

definition public_key_bytes :: nat where "public_key_bytes = 1952"
definition secret_key_bytes :: nat where "secret_key_bytes = 4032"
definition signature_bytes :: nat where "signature_bytes = 3309"
definition default_context :: bytes where "default_context = utf8 ''LIOP-FIPS204-ML-DSA-65''"

definition received_text :: "string \<Rightarrow> nat \<Rightarrow> nat \<Rightarrow> string" where
  "received_text what expected n =
     ''ML-DSA-65 '' @ what @ '' must be exactly '' @ nat_str expected @ '' bytes (Received: '' @ nat_str n @ '')''"

definition generate_key_pair :: "pq_env \<Rightarrow> bytes option \<Rightarrow> string + bytes \<times> bytes" where
  "generate_key_pair P seed =
     (case seed of
        Some s \<Rightarrow> if length s \<noteq> 32 then Inl (received_text ''seed'' 32 (length s)) else Inr (pq_keygen P seed)
      | None \<Rightarrow> Inr (pq_keygen P None))"

definition import_public_key :: "bytes \<Rightarrow> string + bytes" where
  "import_public_key b =
     (if length b \<noteq> public_key_bytes then Inl (received_text ''Public Key'' public_key_bytes (length b)) else Inr b)"

definition dilithium_sign :: "pq_env \<Rightarrow> string \<Rightarrow> bytes \<Rightarrow> bytes option \<Rightarrow> string + bytes" where
  "dilithium_sign P message secretKey context =
     (if length secretKey \<noteq> secret_key_bytes then Inl (received_text ''Secret Key'' secret_key_bytes (length secretKey))
      else Inr (pq_sign P (utf8 message) secretKey (case context of None \<Rightarrow> default_context | Some c \<Rightarrow> c)))"

text \<open>An exception of the library counts as an invalid signature.\<close>

definition dilithium_verify :: "pq_env \<Rightarrow> bytes \<Rightarrow> string \<Rightarrow> bytes \<Rightarrow> bytes option \<Rightarrow> bool" where
  "dilithium_verify P sig message publicKey context =
     (if length sig \<noteq> signature_bytes then False
      else if length publicKey \<noteq> public_key_bytes then False
      else (case pq_verify P sig (utf8 message) publicKey (case context of None \<Rightarrow> default_context | Some c \<Rightarrow> c) of
              None \<Rightarrow> False | Some b \<Rightarrow> b))"

section \<open>Canonical JSON\<close>

text \<open>The result is \<open>undefined\<close> for \<open>undefined\<close>: \<open>join\<close> writes nothing for it, a template literal
  writes the word.\<close>

fun canonicalize_json :: "(real \<Rightarrow> string) \<Rightarrow> jsval \<Rightarrow> string option" where
  "canonicalize_json num JUndef = None"
| "canonicalize_json num (JArr xs) =
     Some (''['' @ js_join '','' (map (\<lambda>x. case canonicalize_json num x of None \<Rightarrow> [] | Some t \<Rightarrow> t) xs) @ '']'')"
| "canonicalize_json num (JObj ps) =
     Some (''{'' @ js_join '',''
       (map (\<lambda>p. json_string (fst p) @ '':'' @ (case canonicalize_json num (snd p) of None \<Rightarrow> ''undefined'' | Some t \<Rightarrow> t))
         (sort_key fst ps)) @ ''}'')"
| "canonicalize_json num v = Some (json_print num v)"

definition template_text :: "string option \<Rightarrow> string" where
  "template_text t = (case t of None \<Rightarrow> ''undefined'' | Some s \<Rightarrow> s)"

definition unsigned_part :: "(string \<times> jsval) list \<Rightarrow> (string \<times> jsval) list" where
  "unsigned_part ps = filter (\<lambda>p. fst p \<notin> {''pqcSignature'', ''pqcPublicKey''}) ps"

definition sign_manifest :: "pq_env \<Rightarrow> (string \<times> jsval) list \<Rightarrow> bytes \<Rightarrow> bytes \<Rightarrow> string + string \<times> string" where
  "sign_manifest P manifest secretKey publicKey =
     bind_sum (dilithium_sign P (template_text (canonicalize_json (pq_num P) (JObj (unsigned_part manifest)))) secretKey None) (\<lambda>sig.
       Inr (pq_toBase64 P sig, pq_toBase64 P publicKey))"

definition verify_manifest :: "pq_env \<Rightarrow> (string \<times> jsval) list \<Rightarrow> string \<Rightarrow> string \<Rightarrow> bool" where
  "verify_manifest P manifest signatureBase64 publicKeyBase64 =
     dilithium_verify P (pq_fromBase64 P signatureBase64)
       (template_text (canonicalize_json (pq_num P) (JObj (unsigned_part manifest)))) (pq_fromBase64 P publicKeyBase64) None"

section \<open>Manifests\<close>

record remote_tool =
  mt_name :: string
  mt_description :: "string option"
  mt_inputSchema :: jsval

record remote_resource =
  mr_name :: string
  mr_uri :: string
  mr_description :: "string option"
  mr_mimeType :: "string option"
  mr_text :: "string option"

record taxonomy =
  tx_domain :: string
  tx_clearanceTier :: int
  tx_executionTypes :: "string list"

text \<open>The last component is the object as it was received, which is what is verified.\<close>

record manifest =
  mf_peerId :: string
  mf_grpcPort :: int
  mf_tools :: "remote_tool list"
  mf_resources :: "remote_resource list"
  mf_serverName :: string
  mf_taxonomy :: "taxonomy option"
  mf_authRequired :: bool
  mf_tokenSlug :: "string option"
  mf_pqcSignature :: "string option"
  mf_pqcPublicKey :: "string option"
  mf_object :: "(string \<times> jsval) list"

text \<open>A received value of the declared interface; nothing checks the shape at run time, values of another
  shape are not modelled.\<close>

definition text_in :: "jsval \<Rightarrow> string \<Rightarrow> string option" where
  "text_in v k = (case prop_of v k of JStr s \<Rightarrow> Some s | _ \<Rightarrow> None)"

definition int_in :: "jsval \<Rightarrow> string \<Rightarrow> int option" where
  "int_in v k = (case prop_of v k of JNum (Fin r) \<Rightarrow> if r = of_int \<lfloor>r\<rfloor> then Some \<lfloor>r\<rfloor> else None | _ \<Rightarrow> None)"

definition items_in :: "jsval \<Rightarrow> string \<Rightarrow> jsval list option" where
  "items_in v k = (case prop_of v k of JArr xs \<Rightarrow> Some xs | _ \<Rightarrow> None)"

definition read_tool :: "jsval \<Rightarrow> remote_tool option" where
  "read_tool v = map_option (\<lambda>name. \<lparr>mt_name = name, mt_description = text_in v ''description'',
     mt_inputSchema = prop_of v ''inputSchema''\<rparr>) (text_in v ''name'')"

definition read_resource_entry :: "jsval \<Rightarrow> remote_resource option" where
  "read_resource_entry v =
     Option.bind (text_in v ''name'') (\<lambda>name. map_option (\<lambda>uri.
       \<lparr>mr_name = name, mr_uri = uri, mr_description = text_in v ''description'', mr_mimeType = text_in v ''mimeType'',
        mr_text = text_in v ''text''\<rparr>) (text_in v ''uri''))"

definition read_taxonomy :: "jsval \<Rightarrow> taxonomy option" where
  "read_taxonomy v =
     Option.bind (text_in v ''domain'') (\<lambda>domain. Option.bind (int_in v ''clearanceTier'') (\<lambda>tier.
     Option.bind (items_in v ''executionTypes'') (\<lambda>xs. map_option (\<lambda>ts.
       \<lparr>tx_domain = domain, tx_clearanceTier = tier, tx_executionTypes = ts\<rparr>)
       (those (map (\<lambda>x. case x of JStr s \<Rightarrow> Some s | _ \<Rightarrow> None) xs)))))"

definition read_manifest :: "jsval \<Rightarrow> manifest option" where
  "read_manifest v =
     Option.bind (text_in v ''peerId'') (\<lambda>peerId. Option.bind (int_in v ''grpcPort'') (\<lambda>port.
     Option.bind (items_in v ''tools'') (\<lambda>tools. Option.bind (those (map read_tool tools)) (\<lambda>ts.
     Option.bind (items_in v ''resources'') (\<lambda>resources. Option.bind (those (map read_resource_entry resources)) (\<lambda>rs.
     map_option (\<lambda>name.
       \<lparr>mf_peerId = peerId, mf_grpcPort = port, mf_tools = ts, mf_resources = rs, mf_serverName = name,
        mf_taxonomy = read_taxonomy (prop_of v ''taxonomy''), mf_authRequired = truthy (prop_of v ''authRequired''),
        mf_tokenSlug = text_in v ''tokenSlug'', mf_pqcSignature = text_in v ''pqcSignature'',
        mf_pqcPublicKey = text_in v ''pqcPublicKey'', mf_object = object_entries v\<rparr>)
       (text_in (prop_of v ''serverInfo'') ''name'')))))))"

section \<open>The manifests that are served\<close>

record taxonomy_config =
  tc_domain :: "string option"
  tc_clearanceTier :: "int option"
  tc_executionTypes :: "string list option"

record mesh_config =
  mc_peerId :: string
  mc_port :: int
  mc_serverInfo :: jsval
  mc_auth :: bool                     \<comment> \<open>there is a JWT validator\<close>
  mc_tokenSlug :: "string option"
  mc_taxonomy :: "taxonomy_config option"
  mc_secretKey :: bytes
  mc_publicKey :: bytes

definition taxonomy_value :: "taxonomy_config option \<Rightarrow> jsval" where
  "taxonomy_value t =
     (case t of None \<Rightarrow> JUndef
      | Some c \<Rightarrow> JObj [(''domain'', JStr (or_else (tc_domain c) ''Unknown Domain'')),
          (''clearanceTier'', ms (case tc_clearanceTier c of None \<Rightarrow> 0 | Some n \<Rightarrow> n)),
          (''executionTypes'', JArr (map JStr (case tc_executionTypes c of None \<Rightarrow> [] | Some xs \<Rightarrow> xs)))])"

definition manifest_resource :: "resource \<Rightarrow> jsval" where
  "manifest_resource r =
     JObj [(''name'', JStr (rs_name r)), (''uri'', JStr (rs_uri r)), (''description'', opt_text (rs_description r)),
       (''mimeType'', opt_text (rs_mimeType r)),
       (''text'', case rs_content r of ContentText t \<Rightarrow> JStr t | _ \<Rightarrow> opt_text (rs_description r))]"

definition manifest_object :: "mesh_config \<Rightarrow> jsval \<Rightarrow> registry \<Rightarrow> (string \<times> jsval) list" where
  "manifest_object C resources R =
     [(''peerId'', JStr (mc_peerId C)), (''grpcPort'', ms (mc_port C)), (''tools'', JArr (map snd (list_tools R))),
      (''resources'', resources), (''serverInfo'', mc_serverInfo C), (''authRequired'', JBool (mc_auth C)),
      (''tokenSlug'', opt_text (mc_tokenSlug C)), (''taxonomy'', taxonomy_value (mc_taxonomy C))]"

text \<open>The handler of the server: the manifest with its signature.\<close>

definition server_manifest :: "pq_env \<Rightarrow> mesh_config \<Rightarrow> registry \<Rightarrow> string + (string \<times> jsval) list" where
  "server_manifest P C R =
     (let unsigned = manifest_object C (JArr (map (\<lambda>r. manifest_resource (snd r)) (rg_resources R))) R in
      bind_sum (sign_manifest P unsigned (mc_secretKey C) (mc_publicKey C)) (\<lambda>attestation.
        Inr (unsigned @ [(''pqcSignature'', JStr (fst attestation)), (''pqcPublicKey'', JStr (snd attestation))])))"

text \<open>The handler a router registers on a mesh node: no signature, no texts of resources.\<close>

definition router_manifest :: "mesh_config \<Rightarrow> registry \<Rightarrow> (string \<times> jsval) list" where
  "router_manifest C R =
     manifest_object C (JArr (map (\<lambda>r. JObj [(''name'', JStr (rs_name (snd r))), (''uri'', JStr (rs_uri (snd r))),
       (''description'', opt_text (rs_description (snd r))), (''mimeType'', opt_text (rs_mimeType (snd r)))])
       (rg_resources R))) R"

text \<open>The slug a server accepts at its start.\<close>

definition upper_letter :: "char \<Rightarrow> bool" where
  "upper_letter c \<longleftrightarrow> 65 \<le> code_of c \<and> code_of c \<le> 90"

definition slug_char :: "char \<Rightarrow> bool" where
  "slug_char c \<longleftrightarrow> upper_letter c \<or> (48 \<le> code_of c \<and> code_of c \<le> 57) \<or> c = CHR ''_''"

definition valid_slug :: "string option \<Rightarrow> bool" where
  "valid_slug s = (case s of None \<Rightarrow> True | Some [] \<Rightarrow> True | Some (c # cs) \<Rightarrow> upper_letter c \<and> list_all slug_char cs)"

section \<open>Transport\<close>

text \<open>What \<open>JSON.parse(JSON.stringify(v))\<close> yields: \<open>undefined\<close> properties are dropped, \<open>undefined\<close>
  elements and numbers that are not finite become null.\<close>

fun json_image :: "jsval \<Rightarrow> jsval" where
  "json_image (JNum (Fin r)) = JNum (Fin r)"
| "json_image (JNum n) = JNull"
| "json_image (JArr xs) = JArr (map json_image xs)"
| "json_image (JObj ps) = JObj (map (\<lambda>p. (fst p, json_image (snd p))) (filter (\<lambda>p. not_undefined (snd p)) ps))"
| "json_image JUndef = JNull"
| "json_image v = v"

fun arrays_defined :: "jsval \<Rightarrow> bool" where
  "arrays_defined (JArr xs) = list_all (\<lambda>x. x \<noteq> JUndef \<and> arrays_defined x) xs"
| "arrays_defined (JObj ps) = list_all (\<lambda>p. arrays_defined (snd p)) ps"
| "arrays_defined v = True"

fun defined :: "jsval \<Rightarrow> bool" where
  "defined JUndef = False"
| "defined (JArr xs) = list_all defined xs"
| "defined (JObj ps) = list_all (\<lambda>p. defined (snd p)) ps"
| "defined v = True"

end
