(* ===== verification/ManifestClaims.thy ===== *)
theory ManifestClaims
  imports Manifest
begin

text \<open>
  The attestation of manifests: which manifests of a server are still valid when a router has received
  them.
\<close>

section \<open>Sorting\<close>

lemma sum_list_insort: "sum_list (map f (insort_key k x xs)) = (f x + sum_list (map f xs) :: nat)"
  by (induction xs) auto

lemma sum_list_sorted: "sum_list (map f (sort_key k xs)) = (sum_list (map f xs) :: nat)"
  by (induction xs) (simp_all add: sum_list_insort)

lemma insort_values:
  "insort_key fst (fst p, g (snd p)) (map (\<lambda>p. (fst p, g (snd p))) xs) = map (\<lambda>p. (fst p, g (snd p))) (insort_key fst p xs)"
  by (induction xs) auto

lemma sort_values: "sort_key fst (map (\<lambda>p. (fst p, g (snd p))) xs) = map (\<lambda>p. (fst p, g (snd p))) (sort_key fst xs)"
  by (induction xs) (simp_all add: insort_values)

section \<open>Canonical texts before and after transport\<close>

definition element_text :: "string option \<Rightarrow> string" where
  "element_text t = (case t of None \<Rightarrow> [] | Some s \<Rightarrow> s)"

definition canon_length :: "(real \<Rightarrow> string) \<Rightarrow> jsval \<Rightarrow> nat" where
  "canon_length num v = length (template_text (canonicalize_json num v))"

lemma length_js_join: "length (js_join [c] xs) = sum_list (map (\<lambda>x. length x + 1) xs) - 1"
  by (induction "[c]" xs rule: js_join.induct) auto

lemma image_not_undef [simp]: "json_image v \<noteq> JUndef"
  by (cases v rule: json_image.cases) auto

lemma canon_some: "v \<noteq> JUndef \<Longrightarrow> \<exists>t. canonicalize_json num v = Some t"
  by (cases "(num, v)" rule: canonicalize_json.cases) auto

lemma element_is_template: "v \<noteq> JUndef \<Longrightarrow> element_text (canonicalize_json num v) = template_text (canonicalize_json num v)"
  using canon_some [of v num] by (auto simp: element_text_def template_text_def)

lemma canon_arr: "canonicalize_json num (JArr xs) = Some (''['' @ js_join '','' (map (\<lambda>x. element_text (canonicalize_json num x)) xs) @ '']'')"
  by (simp add: element_text_def)

lemma canon_obj: "canonicalize_json num (JObj ps) = Some (''{'' @ js_join '',''
    (map (\<lambda>p. json_string (fst p) @ '':'' @ template_text (canonicalize_json num (snd p))) (sort_key fst ps)) @ ''}'')"
  by (simp add: template_text_def)

definition entry_length :: "(real \<Rightarrow> string) \<Rightarrow> string \<times> jsval \<Rightarrow> nat" where
  "entry_length num p = length (json_string (fst p)) + 1 + canon_length num (snd p) + 1"

lemma canon_length_obj: "canon_length num (JObj ps) = sum_list (map (entry_length num) ps) - 1 + 2"
proof -
  let ?t = "\<lambda>p. json_string (fst p) @ '':'' @ template_text (canonicalize_json num (snd p))"
  have e: "length (?t p) + 1 = entry_length num p" for p by (simp add: entry_length_def canon_length_def)
  have "canon_length num (JObj ps) = length (js_join '','' (map ?t (sort_key fst ps))) + 2"
    unfolding canon_length_def canon_obj by (simp add: template_text_def)
  also have "\<dots> = sum_list (map (\<lambda>p. length (?t p) + 1) (sort_key fst ps)) - 1 + 2"
    by (simp only: length_js_join map_map comp_def)
  finally show ?thesis by (simp only: e sum_list_sorted)
qed

lemma canon_length_arr:
  assumes "list_all (\<lambda>x. x \<noteq> JUndef) xs"
  shows "canon_length num (JArr xs) = sum_list (map (\<lambda>x. canon_length num x + 1) xs) - 1 + 2"
proof -
  let ?t = "\<lambda>x. element_text (canonicalize_json num x)"
  have "map (\<lambda>x. length (?t x) + 1) xs = map (\<lambda>x. canon_length num x + 1) xs"
    using assms by (auto simp: list_all_iff element_is_template canon_length_def)
  moreover have "canon_length num (JArr xs) = length (js_join '','' (map ?t xs)) + 2"
    unfolding canon_length_def canon_arr by (simp add: template_text_def)
  ultimately show ?thesis by (simp only: length_js_join map_map comp_def)
qed

lemma canon_length_undef: "canon_length num JUndef = 9"
  by (simp add: canon_length_def template_text_def)

definition image_props :: "(string \<times> jsval) list \<Rightarrow> (string \<times> jsval) list" where
  "image_props ps = map (\<lambda>p. (fst p, json_image (snd p))) (filter (\<lambda>p. not_undefined (snd p)) ps)"

lemma image_obj: "json_image (JObj ps) = JObj (image_props ps)"
  by (simp add: image_props_def)

text \<open>Transport never lengthens the canonical text, and shortens it when a property is undefined.\<close>

lemma shorter_props:
  assumes "\<And>p. p \<in> set ps \<Longrightarrow> snd p \<noteq> JUndef \<Longrightarrow>
      canon_length num (json_image (snd p)) \<le> canon_length num (snd p) \<and>
      (\<not> defined (snd p) \<longrightarrow> canon_length num (json_image (snd p)) < canon_length num (snd p))"
  shows "sum_list (map (entry_length num) (image_props ps)) \<le> sum_list (map (entry_length num) ps) \<and>
    (\<not> list_all (\<lambda>p. defined (snd p)) ps \<longrightarrow>
       sum_list (map (entry_length num) (image_props ps)) + 1 \<le> sum_list (map (entry_length num) ps) \<and>
       sum_list (map (entry_length num) ps) > 1)"
  using assms
proof (induction ps)
  case Nil
  then show ?case by (simp add: image_props_def)
next
  case (Cons p ps)
  have IH: "sum_list (map (entry_length num) (image_props ps)) \<le> sum_list (map (entry_length num) ps) \<and>
    (\<not> list_all (\<lambda>p. defined (snd p)) ps \<longrightarrow>
       sum_list (map (entry_length num) (image_props ps)) + 1 \<le> sum_list (map (entry_length num) ps) \<and>
       sum_list (map (entry_length num) ps) > 1)"
    using Cons by auto
  have big: "entry_length num p > 1" by (simp add: entry_length_def json_string_def)
  show ?case
  proof (cases "snd p = JUndef")
    case True
    then have "image_props (p # ps) = image_props ps" by (simp add: image_props_def not_undefined_def)
    with IH big show ?thesis by auto
  next
    case False
    then have "image_props (p # ps) = (fst p, json_image (snd p)) # image_props ps" by (simp add: image_props_def not_undefined_def)
    moreover have "entry_length num (fst p, json_image (snd p)) \<le> entry_length num p"
      "\<not> defined (snd p) \<Longrightarrow> entry_length num (fst p, json_image (snd p)) < entry_length num p"
      using Cons.prems [of p] False by (auto simp: entry_length_def)
    ultimately show ?thesis using IH big by (cases "defined (snd p)") auto
  qed
qed

lemma shorter_elements:
  assumes "\<And>x. x \<in> set xs \<Longrightarrow> canon_length num (json_image x) \<le> canon_length num x \<and>
      (\<not> defined x \<longrightarrow> canon_length num (json_image x) < canon_length num x)"
  shows "sum_list (map (\<lambda>x. canon_length num (json_image x) + 1) xs) \<le> sum_list (map (\<lambda>x. canon_length num x + 1) xs) \<and>
    (\<not> list_all defined xs \<longrightarrow>
       sum_list (map (\<lambda>x. canon_length num (json_image x) + 1) xs) + 1 \<le> sum_list (map (\<lambda>x. canon_length num x + 1) xs) \<and>
       sum_list (map (\<lambda>x. canon_length num x + 1) xs) > 1)"
  using assms
proof (induction xs)
  case (Cons x xs)
  from Cons.prems have "canon_length num (json_image x) \<le> canon_length num x"
    "\<not> defined x \<Longrightarrow> canon_length num (json_image x) < canon_length num x" by simp_all
  moreover note Cons.IH
  ultimately show ?case using Cons.prems by (cases "defined x") fastforce+
qed simp

lemma transport_length:
  "arrays_defined v \<Longrightarrow> v \<noteq> JUndef \<Longrightarrow>
    canon_length num (json_image v) \<le> canon_length num v \<and>
    (\<not> defined v \<longrightarrow> canon_length num (json_image v) < canon_length num v)"
proof (induction v)
  case (JNum n)
  then show ?case by (cases n) (simp_all add: canon_length_def)
next
  case (JArr xs)
  then have ok: "list_all (\<lambda>x. x \<noteq> JUndef) xs" by (simp add: list_all_iff)
  have ok': "list_all (\<lambda>x. x \<noteq> JUndef) (map json_image xs)" by (simp add: list_all_iff)
  have "sum_list (map (\<lambda>x. canon_length num (json_image x) + 1) xs) \<le> sum_list (map (\<lambda>x. canon_length num x + 1) xs) \<and>
    (\<not> list_all defined xs \<longrightarrow>
       sum_list (map (\<lambda>x. canon_length num (json_image x) + 1) xs) + 1 \<le> sum_list (map (\<lambda>x. canon_length num x + 1) xs) \<and>
       sum_list (map (\<lambda>x. canon_length num x + 1) xs) > 1)"
    by (rule shorter_elements) (use JArr in \<open>auto simp: list_all_iff\<close>)
  then show ?case
    unfolding canon_length_arr [OF ok] json_image.simps canon_length_arr [OF ok'] by (auto simp: comp_def)
next
  case (JObj ps)
  have "sum_list (map (entry_length num) (image_props ps)) \<le> sum_list (map (entry_length num) ps) \<and>
    (\<not> list_all (\<lambda>p. defined (snd p)) ps \<longrightarrow>
       sum_list (map (entry_length num) (image_props ps)) + 1 \<le> sum_list (map (entry_length num) ps) \<and>
       sum_list (map (entry_length num) ps) > 1)"
    by (rule shorter_props) (use JObj in \<open>fastforce simp: list_all_iff\<close>)
  then show ?case unfolding image_obj canon_length_obj by auto
qed (simp_all add: canon_length_def)

text \<open>Without undefined properties the canonical text survives.\<close>

lemma transport_same: "defined v \<Longrightarrow> canonicalize_json num (json_image v) = canonicalize_json num v"
proof (induction v)
  case (JNum n)
  then show ?case by (cases n) simp_all
next
  case (JArr xs)
  then have "map (\<lambda>x. element_text (canonicalize_json num (json_image x))) xs = map (\<lambda>x. element_text (canonicalize_json num x)) xs"
    by (auto simp: list_all_iff)
  then show ?case unfolding json_image.simps canon_arr by (simp only: map_map comp_def)
next
  case (JObj ps)
  then have d: "filter (\<lambda>p. not_undefined (snd p)) ps = ps"
    by (auto simp: filter_id_conv not_undefined_def list_all_iff)
  have same: "canonicalize_json num (json_image (snd p)) = canonicalize_json num (snd p)" if "p \<in> set ps" for p
    using JObj that by (cases p) (auto simp: list_all_iff)
  have "map (\<lambda>p. json_string (fst p) @ '':'' @ template_text (canonicalize_json num (json_image (snd p)))) (sort_key fst ps) =
      map (\<lambda>p. json_string (fst p) @ '':'' @ template_text (canonicalize_json num (snd p))) (sort_key fst ps)"
    by (rule map_cong) (simp_all add: same)
  then show ?case unfolding image_obj image_props_def d canon_obj sort_values map_map comp_def fst_conv snd_conv by (simp only:)
qed simp_all

lemma transport_iff:
  assumes "arrays_defined v" and "v \<noteq> JUndef"
  shows "canonicalize_json num (json_image v) = canonicalize_json num v \<longleftrightarrow> defined v"
  using transport_length [OF assms, of num] transport_same [of v num] by (auto simp: canon_length_def)

section \<open>Attestation\<close>

text \<open>The signature of a message, which is of the right length, is valid for this message only.\<close>

definition binds_message :: "pq_env \<Rightarrow> bytes \<Rightarrow> bytes \<Rightarrow> bytes \<Rightarrow> bool" where
  "binds_message P secretKey publicKey message \<longleftrightarrow>
     length secretKey = secret_key_bytes \<and> length publicKey = public_key_bytes \<and>
     length (pq_sign P message secretKey default_context) = signature_bytes \<and>
     (\<forall>m. pq_verify P (pq_sign P message secretKey default_context) m publicKey default_context = Some (m = message))"

definition server_resources :: "registry \<Rightarrow> jsval" where
  "server_resources R = JArr (map (\<lambda>r. manifest_resource (snd r)) (rg_resources R))"

definition manifest_message :: "pq_env \<Rightarrow> mesh_config \<Rightarrow> registry \<Rightarrow> bytes" where
  "manifest_message P C R = utf8 (template_text (canonicalize_json (pq_num P) (JObj (manifest_object C (server_resources R) R))))"

lemma unsigned_manifest: "unsigned_part (manifest_object C rs R) = manifest_object C rs R"
  by (simp add: unsigned_part_def manifest_object_def)

lemma image_props_append: "image_props (xs @ ys) = image_props xs @ image_props ys"
  by (simp add: image_props_def)

lemma unsigned_image_props: "unsigned_part (image_props ps) = image_props (unsigned_part ps)"
  by (induction ps) (auto simp: unsigned_part_def image_props_def)

lemma unsigned_image:
  "unsigned_part (image_props (manifest_object C rs R @ [(''pqcSignature'', JStr s), (''pqcPublicKey'', JStr p)])) =
     image_props (manifest_object C rs R)"
proof -
  have "unsigned_part (manifest_object C rs R @ [(''pqcSignature'', JStr s), (''pqcPublicKey'', JStr p)]) = manifest_object C rs R"
    by (simp add: unsigned_part_def manifest_object_def)
  then show ?thesis by (simp only: unsigned_image_props)
qed

lemma image_no_key: "k \<notin> fst ` set ps \<Longrightarrow> map_of (image_props ps) k = None"
  by (force simp: map_of_eq_None_iff image_props_def)

lemma image_signature:
  "get_prop (image_props (manifest_object C rs R @ [(''pqcSignature'', JStr s), (''pqcPublicKey'', JStr p)])) ''pqcSignature'' = JStr s"
  "get_prop (image_props (manifest_object C rs R @ [(''pqcSignature'', JStr s), (''pqcPublicKey'', JStr p)])) ''pqcPublicKey'' = JStr p"
proof -
  have k: "k \<in> {''pqcSignature'', ''pqcPublicKey''} \<Longrightarrow> map_of (image_props (manifest_object C rs R)) k = None" for k
    by (rule image_no_key) (auto simp: manifest_object_def)
  have t: "image_props [(''pqcSignature'', JStr s), (''pqcPublicKey'', JStr p)] = [(''pqcSignature'', JStr s), (''pqcPublicKey'', JStr p)]"
    by (simp add: image_props_def not_undefined_def)
  show "get_prop (image_props (manifest_object C rs R @ [(''pqcSignature'', JStr s), (''pqcPublicKey'', JStr p)])) ''pqcSignature'' = JStr s"
    "get_prop (image_props (manifest_object C rs R @ [(''pqcSignature'', JStr s), (''pqcPublicKey'', JStr p)])) ''pqcPublicKey'' = JStr p"
    unfolding image_props_append t get_prop_def using k by (simp_all add: map_add_def)
qed

lemma defined_opt_text: "defined (opt_text x) \<longleftrightarrow> x \<noteq> None"
  by (cases x) (simp_all add: opt_text_def)

lemma defined_taxonomy: "defined (taxonomy_value t) \<longleftrightarrow> t \<noteq> None"
  by (cases t) (simp_all add: taxonomy_value_def ms_def list_all_iff)

lemma defined_resource: "defined (manifest_resource r) \<longleftrightarrow> rs_description r \<noteq> None \<and> rs_mimeType r \<noteq> None"
  by (cases "rs_content r") (auto simp: manifest_resource_def defined_opt_text)

lemma defined_tools: "defined (JArr (map snd (list_tools R))) \<longleftrightarrow> list_all (\<lambda>t. defined (ti_inputSchema (snd t))) (rg_tools R)"
  by (simp add: list_tools_def list_all_iff split_beta)

lemma defined_manifest:
  "defined (JObj (manifest_object C (server_resources R) R)) \<longleftrightarrow>
     mc_tokenSlug C \<noteq> None \<and> mc_taxonomy C \<noteq> None \<and> defined (mc_serverInfo C) \<and>
     list_all (\<lambda>t. defined (ti_inputSchema (snd t))) (rg_tools R) \<and>
     list_all (\<lambda>r. rs_description (snd r) \<noteq> None \<and> rs_mimeType (snd r) \<noteq> None) (rg_resources R)"
proof -
  have "defined (server_resources R) \<longleftrightarrow>
      list_all (\<lambda>r. rs_description (snd r) \<noteq> None \<and> rs_mimeType (snd r) \<noteq> None) (rg_resources R)"
    by (simp add: server_resources_def list_all_iff defined_resource)
  then show ?thesis
    using defined_tools [of R] by (auto simp: manifest_object_def ms_def defined_opt_text defined_taxonomy simp del: defined.simps(2))
qed

text \<open>C21: the signed manifest of a server is accepted after its transport as JSON exactly when the server
  has a token slug and a taxonomy, every resource has a description and a type, and no schema has an
  undefined property: what is undefined is signed as a word that the transport drops.\<close>

theorem attestation_survives_transport:
  assumes "binds_message P (mc_secretKey C) (mc_publicKey C) (manifest_message P C R)"
    and "\<And>b. pq_fromBase64 P (pq_toBase64 P b) = b"
    and "server_manifest P C R = Inr ps" and "arrays_defined (JObj ps)"
  shows "\<exists>qs sig pub. json_image (JObj ps) = JObj qs \<and> get_prop qs ''pqcSignature'' = JStr sig \<and>
    get_prop qs ''pqcPublicKey'' = JStr pub \<and>
    (verify_manifest P qs sig pub \<longleftrightarrow>
       mc_tokenSlug C \<noteq> None \<and> mc_taxonomy C \<noteq> None \<and> defined (mc_serverInfo C) \<and>
       list_all (\<lambda>t. defined (ti_inputSchema (snd t))) (rg_tools R) \<and>
       list_all (\<lambda>r. rs_description (snd r) \<noteq> None \<and> rs_mimeType (snd r) \<noteq> None) (rg_resources R))"
proof -
  let ?u = "manifest_object C (server_resources R) R" and ?ctx = default_context
  let ?sig = "pq_sign P (manifest_message P C R) (mc_secretKey C) ?ctx"
  let ?s = "pq_toBase64 P ?sig" and ?p = "pq_toBase64 P (mc_publicKey C)"
  have ps: "ps = ?u @ [(''pqcSignature'', JStr ?s), (''pqcPublicKey'', JStr ?p)]"
    using assms(1, 3) by (simp add: server_manifest_def sign_manifest_def dilithium_sign_def binds_message_def Let_def
        unsigned_manifest manifest_message_def flip: server_resources_def)
  have arrays: "arrays_defined (JObj ?u)" using assms(4) by (simp add: ps)
  have "verify_manifest P (image_props ps) ?s ?p \<longleftrightarrow>
      utf8 (template_text (canonicalize_json (pq_num P) (JObj (image_props ?u)))) = manifest_message P C R"
    using assms(1, 2) by (simp add: verify_manifest_def dilithium_verify_def binds_message_def ps unsigned_image)
  also have "\<dots> \<longleftrightarrow> canonicalize_json (pq_num P) (json_image (JObj ?u)) = canonicalize_json (pq_num P) (JObj ?u)"
    using canon_some [of "JObj ?u" "pq_num P"] canon_some [of "json_image (JObj ?u)" "pq_num P"]
    by (auto simp: manifest_message_def template_text_def image_obj dest!: utf8_inject [THEN iffD1] simp del: json_image.simps)
  also have "\<dots> \<longleftrightarrow> defined (JObj ?u)" using transport_iff [OF arrays] by simp
  finally show ?thesis
    unfolding defined_manifest [symmetric]
    by (intro exI [of _ "image_props ps"] exI [of _ ?s] exI [of _ ?p])
      (simp add: image_obj image_signature ps del: json_image.simps defined.simps)
qed

text \<open>A server without slug and taxonomy.\<close>

definition demo_pq :: "string \<Rightarrow> pq_env" where
  "demo_pq text =
     \<lparr>pq_keygen = (\<lambda>s. ([], [])), pq_sign = (\<lambda>m k c. replicate signature_bytes 0),
      pq_verify = (\<lambda>s m k c. Some (m = utf8 text)), pq_toBase64 = map (\<lambda>b. char_of (unat b)),
      pq_fromBase64 = map (\<lambda>c. of_nat (of_char c)), pq_num = (\<lambda>r. ''1'')\<rparr>"

definition demo_mesh :: mesh_config where
  "demo_mesh = \<lparr>mc_peerId = ''p'', mc_port = 50051, mc_serverInfo = JObj [(''name'', JStr ''vault''), (''version'', JStr ''1'')],
     mc_auth = False, mc_tokenSlug = None, mc_taxonomy = None, mc_secretKey = replicate secret_key_bytes 0,
     mc_publicKey = replicate public_key_bytes 0\<rparr>"

definition manifest_registry :: registry where
  "manifest_registry = \<lparr>rg_tools = [], rg_prompts = [], rg_resources = [], rg_activeSchema = None\<rparr>"

definition demo_pq_env :: pq_env where
  "demo_pq_env = demo_pq (template_text (canonicalize_json (\<lambda>r. ''1'') (JObj (manifest_object demo_mesh (server_resources manifest_registry) manifest_registry))))"

lemma demo_binds: "binds_message demo_pq_env (mc_secretKey demo_mesh) (mc_publicKey demo_mesh) (manifest_message demo_pq_env demo_mesh manifest_registry)"
  by (simp add: binds_message_def demo_pq_env_def demo_pq_def manifest_message_def demo_mesh_def del: canonicalize_json.simps)

lemma demo_base64: "pq_fromBase64 demo_pq_env (pq_toBase64 demo_pq_env b) = b"
proof -
  have "word_of_nat (of_char (char_of (unat w) :: char)) = w" for w :: byte
    using unsigned_less [of w, where ?'a = nat] by simp
  then show ?thesis by (simp add: demo_pq_env_def demo_pq_def comp_def)
qed

definition demo_signed :: "(string \<times> jsval) list" where
  "demo_signed = manifest_object demo_mesh (JArr []) manifest_registry @
     [(''pqcSignature'', JStr (pq_toBase64 demo_pq_env (replicate signature_bytes 0))),
      (''pqcPublicKey'', JStr (pq_toBase64 demo_pq_env (replicate public_key_bytes 0)))]"

lemma demo_server_manifest: "server_manifest demo_pq_env demo_mesh manifest_registry = Inr demo_signed"
  by (simp add: server_manifest_def sign_manifest_def dilithium_sign_def demo_signed_def demo_mesh_def manifest_registry_def
      demo_pq_env_def demo_pq_def Let_def server_resources_def del: canonicalize_json.simps)

lemma demo_arrays: "arrays_defined (JObj demo_signed)"
  by (simp add: demo_signed_def manifest_object_def demo_mesh_def manifest_registry_def list_tools_def ms_def opt_text_def taxonomy_value_def)

theorem attestation_survives_transport_witness:
  "\<exists>qs sig pub. json_image (JObj demo_signed) = JObj qs \<and> get_prop qs ''pqcSignature'' = JStr sig \<and>
     get_prop qs ''pqcPublicKey'' = JStr pub \<and> \<not> verify_manifest demo_pq_env qs sig pub"
  using attestation_survives_transport [OF demo_binds demo_base64 demo_server_manifest demo_arrays]
  by (simp add: demo_mesh_def)

end
