(* ===== verification/MeshCache.thy ===== *)
theory MeshCache
  imports Manifest
begin

text \<open>
  What the router of \<open>gateway/router.ts\<close> knows of the mesh: the cache of manifests with the breaker
  for failing peers, discovery, the names under which remote tools and resources are listed and the
  resolution of names, with \<open>utils/mcpCompact.ts\<close>. One discovery is one step: a call during a discovery
  waits for it. What the mesh answers is a \<open>mesh_view\<close>.
\<close>

section \<open>State\<close>

definition manifest_cache_ttl_s :: int where "manifest_cache_ttl_s = 300"
definition manifest_discovery_retries :: nat where "manifest_discovery_retries = 5"
definition manifest_failure_base_cooldown_ms :: int where "manifest_failure_base_cooldown_ms = 15000"
definition manifest_failure_max_cooldown_ms :: int where "manifest_failure_max_cooldown_ms = 5 * 60000"
definition manifest_skip_log_throttle_ms :: int where "manifest_skip_log_throttle_ms = 30000"

record failure_state =
  fs_failures :: nat
  fs_cooldownUntil :: int
  fs_lastSkipLogAt :: int

record discovery_stats =
  ds_candidates :: nat
  ds_success :: nat
  ds_failures :: nat

text \<open>\<open>ro_notified\<close> counts the calls of \<open>onToolsChanged\<close>.\<close>

record router =
  ro_cache :: "(string \<times> manifest \<times> int) list"
  ro_failures :: "(string \<times> failure_state) list"
  ro_stats :: "discovery_stats option"
  ro_listening :: bool
  ro_notified :: nat
  ro_token :: "string option"

definition new_router :: "bool \<Rightarrow> router" where
  "new_router listening = \<lparr>ro_cache = [], ro_failures = [], ro_stats = None, ro_listening = listening, ro_notified = 0, ro_token = None\<rparr>"

section \<open>The breaker\<close>

definition should_skip_manifest_query :: "int \<Rightarrow> string \<Rightarrow> router \<Rightarrow> bool \<times> router" where
  "should_skip_manifest_query now peerId R =
     (case map_of (ro_failures R) peerId of
        None \<Rightarrow> (False, R)
      | Some state \<Rightarrow>
          if fs_cooldownUntil state \<le> now then (False, R)
          else if now - fs_lastSkipLogAt state > manifest_skip_log_throttle_ms then
            (True, R\<lparr>ro_failures := AList.update peerId (state\<lparr>fs_lastSkipLogAt := now\<rparr>) (ro_failures R)\<rparr>)
          else (True, R))"

definition record_manifest_query_success :: "string \<Rightarrow> router \<Rightarrow> router" where
  "record_manifest_query_success peerId R = R\<lparr>ro_failures := AList.delete peerId (ro_failures R)\<rparr>"

definition backoff :: "nat \<Rightarrow> int" where
  "backoff failures = min (manifest_failure_base_cooldown_ms * 2 ^ (failures - 1)) manifest_failure_max_cooldown_ms"

definition record_manifest_query_failure :: "int \<Rightarrow> string \<Rightarrow> router \<Rightarrow> router" where
  "record_manifest_query_failure now peerId R =
     (let failures = (case map_of (ro_failures R) peerId of None \<Rightarrow> 0 | Some prev \<Rightarrow> fs_failures prev) + 1 in
      R\<lparr>ro_failures := AList.update peerId
         \<lparr>fs_failures = failures, fs_cooldownUntil = now + backoff failures, fs_lastSkipLogAt = 0\<rparr> (ro_failures R)\<rparr>)"

section \<open>Discovery\<close>

datatype query_result = QueryRejected | QueryNull | QueryManifest manifest

text \<open>What one discovery meets: the answers of the DHT to every attempt, the connections, the answers of
  the peers, the clock before and after the queries.\<close>

record mesh_view =
  mv_now :: int
  mv_done :: int
  mv_self :: string
  mv_discover :: "nat \<Rightarrow> nat \<Rightarrow> string list"      \<comment> \<open>cold attempt, attempt\<close>
  mv_connections :: "nat \<Rightarrow> string list"
  mv_connected :: "string list"
  mv_query :: "string \<Rightarrow> query_result"

definition tool_count :: "router \<Rightarrow> nat" where
  "tool_count R = sum_list (map (\<lambda>(peerId, manifest, cachedAt). length (mf_tools manifest)) (ro_cache R))"

definition cache_fresh :: "int \<Rightarrow> int \<Rightarrow> bool" where
  "cache_fresh now cachedAt \<longleftrightarrow> now - cachedAt < manifest_cache_ttl_s * 1000"

definition remote_ids :: "mesh_view \<Rightarrow> string list \<Rightarrow> string list" where
  "remote_ids V ids = filter (\<lambda>p. p \<noteq> mv_self V) ids"

fun dht_attempts :: "mesh_view \<Rightarrow> nat \<Rightarrow> nat \<Rightarrow> nat \<Rightarrow> string list \<Rightarrow> string list" where
  "dht_attempts V cold i 0 ids = ids"
| "dht_attempts V cold i (Suc n) ids =
     (let found = mv_discover V cold i in
      if remote_ids V found \<noteq> [] then found else dht_attempts V cold (Suc i) n found)"

definition distinct_ids :: "string list \<Rightarrow> string list" where
  "distinct_ids ids = rev (remdups (rev ids))"

fun cold_attempts :: "mesh_view \<Rightarrow> nat \<Rightarrow> nat \<Rightarrow> string list \<Rightarrow> string list" where
  "cold_attempts V cold 0 ids = ids"
| "cold_attempts V cold (Suc n) ids =
     (let found = dht_attempts V cold 0 manifest_discovery_retries ids;
          merged = (if mv_connections V cold = [] then found else distinct_ids (found @ mv_connections V cold))
      in if remote_ids V merged \<noteq> [] then merged else cold_attempts V (Suc cold) n merged)"

definition provider_ids :: "mesh_view \<Rightarrow> router \<Rightarrow> string list" where
  "provider_ids V R = cold_attempts V 0 (if ro_cache R = [] then 5 else 1) []"

definition connected_first :: "mesh_view \<Rightarrow> string list \<Rightarrow> string list" where
  "connected_first V ids = sort_by (\<lambda>a b. a \<in> set (mv_connected V) \<or> b \<notin> set (mv_connected V)) ids"

text \<open>The peers to be queried, and how many are in the cache already.\<close>

fun eligible_peers :: "mesh_view \<Rightarrow> string list \<Rightarrow> router \<Rightarrow> string list \<times> nat \<times> router" where
  "eligible_peers V [] R = ([], 0, R)"
| "eligible_peers V (p # ps) R =
     (if p = mv_self V then eligible_peers V ps R
      else (case should_skip_manifest_query (mv_now V) p R of
        (True, R1) \<Rightarrow> eligible_peers V ps R1
      | (False, R1) \<Rightarrow>
          (case map_of (ro_cache R1) p of
             Some (manifest, cachedAt) \<Rightarrow>
               if cache_fresh (mv_now V) cachedAt
               then (case eligible_peers V ps R1 of (qs, n, R2) \<Rightarrow> (qs, Suc n, R2))
               else (case eligible_peers V ps R1 of (qs, n, R2) \<Rightarrow> (p # qs, n, R2))
           | None \<Rightarrow> (case eligible_peers V ps R1 of (qs, n, R2) \<Rightarrow> (p # qs, n, R2)))))"

text \<open>A manifest without signature or without key is not verified.\<close>

definition manifest_accepted :: "pq_env \<Rightarrow> manifest \<Rightarrow> bool" where
  "manifest_accepted P m =
     (case (truthy_string (mf_pqcSignature m), truthy_string (mf_pqcPublicKey m)) of
        (Some sig, Some pub) \<Rightarrow> verify_manifest P (mf_object m) sig pub
      | _ \<Rightarrow> True)"

record discovery =
  dy_router :: router
  dy_success :: nat
  dy_errors :: nat
  dy_updated :: bool

definition take_result :: "pq_env \<Rightarrow> int \<Rightarrow> string \<Rightarrow> query_result \<Rightarrow> discovery \<Rightarrow> discovery" where
  "take_result P now peerId res d =
     (case res of
        QueryManifest manifest \<Rightarrow>
          if manifest_accepted P manifest then
            d\<lparr>dy_router := record_manifest_query_success peerId
                ((dy_router d)\<lparr>ro_cache := AList.update peerId (manifest, now) (ro_cache (dy_router d))\<rparr>),
              dy_success := dy_success d + 1, dy_updated := True\<rparr>
          else d\<lparr>dy_router := record_manifest_query_failure now peerId (dy_router d), dy_errors := dy_errors d + 1\<rparr>
      | QueryNull \<Rightarrow>
          d\<lparr>dy_router := record_manifest_query_failure now peerId (dy_router d), dy_errors := dy_errors d + 1\<rparr>
      | QueryRejected \<Rightarrow> d\<lparr>dy_errors := dy_errors d + 1\<rparr>)"

definition take_results :: "pq_env \<Rightarrow> mesh_view \<Rightarrow> string list \<Rightarrow> discovery \<Rightarrow> discovery" where
  "take_results P V peers d = fold (\<lambda>p. take_result P (mv_done V) p (mv_query V p)) peers d"

definition discover :: "pq_env \<Rightarrow> mesh_view \<Rightarrow> router \<Rightarrow> router" where
  "discover P V R =
     (let ids = provider_ids V R in
      if ids = [] then R
      else
        (case eligible_peers V (connected_first V ids) R of
           (peers, cached, R1) \<Rightarrow>
             (let d = take_results P V peers \<lparr>dy_router = R1, dy_success = cached, dy_errors = 0, dy_updated = False\<rparr>;
                  R2 = (dy_router d)\<lparr>ro_stats := Some \<lparr>ds_candidates = length ids, ds_success = dy_success d, ds_failures = dy_errors d\<rparr>\<rparr>
              in if dy_updated d \<and> tool_count R2 \<noteq> tool_count R \<and> ro_listening R2
                 then R2\<lparr>ro_notified := ro_notified R2 + 1\<rparr> else R2)))"

text \<open>\<open>refreshManifestCache\<close>; \<open>None\<close>: there is no mesh node.\<close>

definition refresh_manifest_cache :: "pq_env \<Rightarrow> bool \<Rightarrow> mesh_view option \<Rightarrow> router \<Rightarrow> router" where
  "refresh_manifest_cache P silent view R =
     (case view of
        None \<Rightarrow> R
      | Some V \<Rightarrow>
          if \<not> silent \<and> ro_cache R \<noteq> [] \<and> list_all (\<lambda>(peerId, manifest, cachedAt). cache_fresh (mv_now V) cachedAt) (ro_cache R)
          then R else discover P V R)"

section \<open>The warm-up before a listing\<close>

record warm_step =
  ws_now :: int
  ws_refresh :: "mesh_view option"        \<comment> \<open>\<open>None\<close>: no answer within three seconds\<close>

definition bounded_timeout_ms :: "int option \<Rightarrow> int" where
  "bounded_timeout_ms t = (case t of Some n \<Rightarrow> if n > 0 then n else 12000 | None \<Rightarrow> 12000)"

fun warm_up :: "pq_env \<Rightarrow> int \<Rightarrow> int \<Rightarrow> warm_step list \<Rightarrow> nat \<Rightarrow> int \<Rightarrow> router \<Rightarrow> router" where
  "warm_up P expected deadline [] steady previous R = R"
| "warm_up P expected deadline (s # ss) steady previous R =
     (if \<not> ws_now s < deadline then R
      else if int (length (ro_cache R)) \<ge> expected then R
      else
        (let R1 = (case ws_refresh s of None \<Rightarrow> R | Some V \<Rightarrow> refresh_manifest_cache P True (Some V) R);
             size = int (length (ro_cache R1))
         in if size \<ge> expected then R1
            else if size = previous then
              (if steady + 1 \<ge> 3 \<and> size > 0 then R1 else warm_up P expected deadline ss (steady + 1) previous R1)
            else warm_up P expected deadline ss 0 size R1))"

text \<open>\<open>expected\<close> is \<open>None\<close> when the environment variable is not a number.\<close>

definition smart_warm_up :: "pq_env \<Rightarrow> bool \<Rightarrow> int option \<Rightarrow> int option \<Rightarrow> warm_step list \<Rightarrow> router \<Rightarrow> router" where
  "smart_warm_up P meshed expected initialTimeout steps R =
     (case (expected, steps) of
        (Some n, s # ss) \<Rightarrow>
          if int (length (ro_cache R)) < n \<and> meshed
          then warm_up P n (ws_now s + bounded_timeout_ms initialTimeout) steps 0 (- 1) R else R
      | _ \<Rightarrow> R)"

section \<open>Compact descriptions\<close>

definition mcp_compact_tool_descriptions :: "string option \<Rightarrow> bool" where
  "mcp_compact_tool_descriptions v =
     (case v of None \<Rightarrow> True | Some s \<Rightarrow> js_trim (js_lower s) \<notin> {''0'', ''false'', ''no''})"

definition crlf :: string where "crlf = [CHR 0x0D, CHR 0x0A]"

definition verbose_markers :: "string list" where
  "verbose_markers = [nl @ nl @ ''[LIOP-PROTO-V1:'', crlf @ crlf @ ''[LIOP-PROTO-V1:'', nl @ ''[LIOP-PROTO-V1:'']"

fun cut_at_marker :: "string list \<Rightarrow> string \<Rightarrow> string" where
  "cut_at_marker [] d = d"
| "cut_at_marker (m # marks) d = (case index_of d m of Some i \<Rightarrow> take i d | None \<Rightarrow> cut_at_marker marks d)"

definition strip_verbose_liop_tool_description :: "string \<Rightarrow> string" where
  "strip_verbose_liop_tool_description d = trim_end (cut_at_marker verbose_markers d)"

section \<open>Remote tools\<close>

definition slice_last :: "nat \<Rightarrow> string \<Rightarrow> string" where
  "slice_last n s = drop (length s - n) s"

type_synonym cached_tool = "string \<times> manifest \<times> remote_tool"

definition cached_tools :: "router \<Rightarrow> cached_tool list" where
  "cached_tools R = concat (map (\<lambda>(peerId, manifest, cachedAt). map (\<lambda>t. (peerId, manifest, t)) (mf_tools manifest)) (ro_cache R))"

definition suffixed_name :: "string \<Rightarrow> string \<Rightarrow> string" where
  "suffixed_name name peerId = name @ ''_'' @ slice_last 4 peerId"

fun name_tools :: "string list \<Rightarrow> string list \<Rightarrow> cached_tool list \<Rightarrow> (string \<times> cached_tool) list" where
  "name_tools localNames seen [] = []"
| "name_tools localNames seen ((p, m, t) # ts) =
     (if mt_name t = ''LiopMeshStatus'' then name_tools localNames seen ts
      else
        (let finalName = (if mt_name t \<in> set seen \<or> mt_name t \<in> set localNames then suffixed_name (mt_name t) p else mt_name t)
         in (finalName, p, m, t) # name_tools localNames (finalName # seen) ts))"

definition empty_schema :: jsval where
  "empty_schema = JObj [(''type'', JStr ''object''), (''properties'', JObj [])]"

definition set_missing :: "string \<Rightarrow> jsval \<Rightarrow> jsval \<Rightarrow> jsval" where
  "set_missing k d v =
     (case v of JObj ps \<Rightarrow> if truthy (get_prop ps k) then v else JObj (AList.update k d ps) | _ \<Rightarrow> v)"

text \<open>The schema is completed in place; doing so again changes nothing, so the cached object is left as it
  is here.\<close>

definition clean_schema :: "jsval \<Rightarrow> jsval" where
  "clean_schema schema =
     set_missing ''properties'' (JObj []) (set_missing ''type'' (JStr ''object'') (if truthy schema then schema else empty_schema))"

definition adherence :: string where "adherence = ''STRICT SCHEMA ADHERENCE:''"
definition industrial :: string where "industrial = ''[INDUSTRIAL-REQUISITE] STRICT SCHEMA ADHERENCE (MANDATORY):''"

definition remote_description :: "bool \<Rightarrow> string \<Rightarrow> manifest \<Rightarrow> remote_tool \<Rightarrow> string" where
  "remote_description terse p m t =
     (let provider = (if mf_serverName m = [] then ''Unknown Provider'' else mf_serverName m);
          baseDesc = or_else (mt_description t) (''Remote tool from '' @ provider);
          d = (if terse then strip_verbose_liop_tool_description baseDesc else baseDesc);
          blueprint = (case mf_taxonomy m of None \<Rightarrow> [] | Some x \<Rightarrow> nl @ ''[LIOP-DOMAIN: '' @ tx_domain x @ '']'');
          payload = truthy (prop_of (prop_of (clean_schema (mt_inputSchema t)) ''properties'') ''payload'');
          envelopeDoc = (if \<not> terse \<and> payload then nl @ ''[REQUIRES: LIOP-PROTO-V1 ENVELOPE]'' else []);
          d' = (if \<not> terse \<and> js_includes d ''STRICT SCHEMA ADHERENCE'' then js_replace_first d adherence industrial else d)
      in d' @ (if terse then nl @ ''(Peer: '' @ slice_last 8 p @ '')'' @ blueprint
               else nl @ ''(Origin: '' @ slice_last 8 p @ '')'' @ blueprint @ envelopeDoc))"

definition tool_object :: "bool \<Rightarrow> string \<times> cached_tool \<Rightarrow> string \<times> jsval" where
  "tool_object terse x =
     (case x of (finalName, p, m, t) \<Rightarrow>
        (finalName, JObj [(''name'', JStr finalName), (''description'', JStr (remote_description terse p m t)),
           (''inputSchema'', clean_schema (mt_inputSchema t))]))"

definition remote_tools :: "bool \<Rightarrow> string list \<Rightarrow> router \<Rightarrow> (string \<times> jsval) list" where
  "remote_tools terse localNames R = map (tool_object terse) (name_tools localNames [] (cached_tools R))"

section \<open>Remote resources\<close>

definition resource_blueprint :: "manifest \<Rightarrow> string" where
  "resource_blueprint m =
     (case mf_taxonomy m of
        None \<Rightarrow> []
      | Some x \<Rightarrow> nl @ nl @ ''[LIOP Zero-Trust Blueprint]'' @ nl @ ''Domain: '' @ tx_domain x @ nl @ ''Clearance Tier: '' @
          int_str (tx_clearanceTier x) @
          (if tx_executionTypes x = [] then [] else nl @ ''Execution Types: '' @ js_join '', '' (tx_executionTypes x)))"

definition origin_stamp :: "string \<Rightarrow> manifest \<Rightarrow> string" where
  "origin_stamp p m =
     nl @ nl @ ''[LIOP Zero-Trust Origin]'' @ nl @ ''Provider: '' @
     (if mf_serverName m = [] then ''Unknown Provider'' else mf_serverName m) @ nl @ ''Network ID: '' @ p @ resource_blueprint m"

definition augmented_resource :: "string \<Rightarrow> manifest \<Rightarrow> remote_resource \<Rightarrow> remote_resource" where
  "augmented_resource p m r =
     (if starts_with (mr_uri r) ''liop://schema/'' then
        r\<lparr>mr_name := ''[SCHEMA] '' @ mr_name r,
          mr_description := Some (''[CRITICAL SCHEMA] '' @ or_else (mr_description r) ''Data Dictionary for Zero-Shot Autonomy'' @ origin_stamp p m)\<rparr>
      else
        r\<lparr>mr_description := Some (case truthy_string (mr_description r) of Some d \<Rightarrow> d @ origin_stamp p m
            | None \<Rightarrow> js_trim (origin_stamp p m))\<rparr>)"

fun name_resources :: "string list \<Rightarrow> (string \<times> manifest \<times> remote_resource) list \<Rightarrow> remote_resource list" where
  "name_resources seen [] = []"
| "name_resources seen ((p, m, r) # rs) =
     (if mr_uri r \<in> set seen then name_resources seen rs
      else augmented_resource p m r # name_resources (mr_uri r # seen) rs)"

definition resource_object :: "remote_resource \<Rightarrow> string \<times> jsval" where
  "resource_object r =
     (mr_uri r, JObj [(''name'', JStr (mr_name r)), (''uri'', JStr (mr_uri r)), (''description'', opt_text (mr_description r)),
        (''mimeType'', opt_text (mr_mimeType r)), (''text'', opt_text (mr_text r))])"

definition remote_resources :: "string list \<Rightarrow> router \<Rightarrow> (string \<times> jsval) list" where
  "remote_resources localUris R =
     map resource_object (name_resources localUris
       (concat (map (\<lambda>(p, m, cachedAt). map (\<lambda>r. (p, m, r)) (mf_resources m)) (ro_cache R))))"

section \<open>Resolution\<close>

definition has_tool :: "manifest \<Rightarrow> string \<Rightarrow> bool" where
  "has_tool m name = list_ex (\<lambda>t. mt_name t = name) (mf_tools m)"

text \<open>The parts before and after the last underscore.\<close>

definition split_last_underscore :: "string \<Rightarrow> (string \<times> string) option" where
  "split_last_underscore s =
     (let suffix = rev (takeWhile (\<lambda>c. c \<noteq> CHR ''_'') (rev s)) in
      if length suffix = length s then None else Some (take (length s - length suffix - 1) s, suffix))"

definition resolve_manifest_target :: "string \<Rightarrow> router \<Rightarrow> (string \<times> string) option" where
  "resolve_manifest_target toolName R =
     (case find (\<lambda>(p, m, cachedAt). has_tool m toolName) (ro_cache R) of
        Some (p, e) \<Rightarrow> Some (p, toolName)
      | None \<Rightarrow>
          (case split_last_underscore toolName of
             None \<Rightarrow> None
           | Some (baseName, suffix) \<Rightarrow>
               (case find (\<lambda>(p, m, cachedAt). ends_with p suffix \<and> has_tool m baseName) (ro_cache R) of
                  Some (p, e) \<Rightarrow> Some (p, baseName)
                | None \<Rightarrow> None)))"

end
