(* ===== verification/Router.thy ===== *)
theory Router
  imports MeshCache Rbac
begin

text \<open>
  The router of \<open>gateway/router.ts\<close>: dispatch of MCP requests to the server of this node or, over gRPC,
  to another one. The remote node, ML-KEM and AES-GCM, the HTTP client and the mesh node are
  parameters. A refresh the code starts without waiting for it is an event of its own
  (\<open>refresh_manifest_cache\<close>) and no part of the step that starts it. Telemetry and logs are left out.
\<close>

section \<open>Environment\<close>

text \<open>How a stream of responses goes on after its last message: the event \<open>end\<close>, the event \<open>error\<close>, or
  neither (no call sets a deadline).\<close>

datatype stream_end = StreamEnds | StreamFails string | StreamSilent

record 'f router_env =
  rv_bridge :: "'f bridge_env"
  rv_pq :: pq_env
  rv_jwt :: bool                                  \<comment> \<open>the server has a JWT validator\<close>
  rv_mesh :: bool                                 \<comment> \<open>there is a mesh node\<close>
  rv_peerId :: string
  rv_connections :: nat
  rv_bootstrapNodes :: "string list"
  rv_routingTableSize :: nat
  rv_defaultRpcPort :: int
  rv_env :: "string \<Rightarrow> string option"
  rv_localIps :: "string list"
  rv_telemetry :: string
  rv_fetchToken :: "string \<Rightarrow> (string \<times> string) list \<Rightarrow> string option"   \<comment> \<open>address, form: the access token\<close>
  rv_resolvePeer :: "string \<Rightarrow> string list"
  rv_findProviders :: "string \<Rightarrow> nat \<Rightarrow> string list"
  rv_queryManifest :: "string \<Rightarrow> query_result"
  rv_encapsulate :: "bytes \<Rightarrow> (bytes \<times> bytes) option"                 \<comment> \<open>ciphertext, shared secret; \<open>None\<close>: ML-KEM refuses the key\<close>
  rv_gcmSeal :: "bytes \<Rightarrow> bytes \<Rightarrow> bytes \<Rightarrow> bytes"                      \<comment> \<open>key, nonce, data: ciphertext and tag\<close>
  rv_nonce :: bytes
  rv_negotiate :: "string \<Rightarrow> string option \<Rightarrow> intent_request \<Rightarrow> (string + intent_response) option"  \<comment> \<open>\<open>None\<close>: never calls back\<close>
  rv_execute :: "string \<Rightarrow> string option \<Rightarrow> logic_request \<Rightarrow> logic_response list \<times> stream_end"

text \<open>What one request meets: the clock, the refresh it waits for and the steps of the warm-up.\<close>

record request_io =
  io_now :: int
  io_view :: "mesh_view option"
  io_warm :: "warm_step list"
  io_expected :: "int option"
  io_timeout :: "int option"

type_synonym 'f router_state = "router \<times> 'f bridge_state"

datatype outcome = Rejects string | Pending | Answers jsval

section \<open>Tokens\<close>

text \<open>\<open>a || b || \<dots>\<close> on environment variables.\<close>

fun env_or :: "(string \<Rightarrow> string option) \<Rightarrow> string list \<Rightarrow> string option" where
  "env_or env [] = None"
| "env_or env (k # ks) = (case truthy_string (env k) of Some t \<Rightarrow> Some t | None \<Rightarrow> env_or env ks)"

text \<open>\<open>toUpperCase\<close>; the two letters whose capitals are beyond the range stay as they are.\<close>

definition upper_text :: "char \<Rightarrow> string" where
  "upper_text c =
     (let n = code_of c in
      if (97 \<le> n \<and> n \<le> 122) \<or> (224 \<le> n \<and> n \<le> 254 \<and> n \<noteq> 247) then [char_of (n - 32)]
      else if n = 223 then ''SS'' else [c])"

definition js_upper :: "string \<Rightarrow> string" where
  "js_upper s = concat (map upper_text s)"

definition clean_name :: "string \<Rightarrow> string" where
  "clean_name s = map (\<lambda>c. if slug_char c then c else CHR ''_'') (js_upper s)"

definition token_keys :: "string \<Rightarrow> string list" where
  "token_keys x = [''LIOP_TOKEN_'' @ x, ''LIOP_OAUTH_TOKEN_'' @ x]"

definition provider_name :: "manifest option \<Rightarrow> string" where
  "provider_name m = (case m of None \<Rightarrow> [] | Some x \<Rightarrow> js_lower (mf_serverName x))"

definition cached_manifest :: "string \<Rightarrow> router \<Rightarrow> manifest option" where
  "cached_manifest peerId R = map_option fst (map_of (ro_cache R) peerId)"

text \<open>The token for one peer: by the slug its manifest names, by the end of its identifier, by the name
  its manifest gives.\<close>

definition node_token :: "(string \<Rightarrow> string option) \<Rightarrow> string \<Rightarrow> manifest option \<Rightarrow> string option" where
  "node_token env peerId m =
     (case (case Option.bind m (\<lambda>x. truthy_string (mf_tokenSlug x)) of Some slug \<Rightarrow> env_or env (token_keys slug) | None \<Rightarrow> None) of
        Some t \<Rightarrow> Some t
      | None \<Rightarrow>
          (case env_or env (token_keys (js_upper (slice_last 8 peerId))) of
             Some t \<Rightarrow> Some t
           | None \<Rightarrow> if provider_name m = [] then None else env_or env (token_keys (clean_name (provider_name m)))))"

definition token_url :: "string \<Rightarrow> string" where
  "token_url nexusUrl = (if ends_with nexusUrl ''/oidc'' then nexusUrl else nexusUrl @ ''/oidc'') @ ''/token''"

definition token_form :: "(string \<Rightarrow> string option) \<Rightarrow> (string \<times> string) list" where
  "token_form env =
     [(''grant_type'', ''client_credentials''),
      (''scope'', ''liop:tools:call liop:tools:list liop:resources:read liop:schema:read liop:mesh:query''),
      (''resource'', or_else (env_or env [''LIOP_OAUTH_AUDIENCE'', ''LIOP_AUDIENCE'']) ''urn:liop:mesh:api''),
      (''client_id'', or_else (env_or env [''LIOP_OAUTH_CLIENT_ID'', ''LIOP_CLIENT_ID'']) ''liop-mesh-agent''),
      (''client_secret'', or_else (env_or env [''LIOP_OAUTH_CLIENT_SECRET'', ''LIOP_CLIENT_SECRET'']) ''dev-secret-change-me'')]"

definition shared_token :: "'f router_env \<Rightarrow> router \<Rightarrow> string option \<times> router" where
  "shared_token E R =
     (case truthy_string (ro_token R) of
        Some t \<Rightarrow> (Some t, R)
      | None \<Rightarrow>
          (case env_or (rv_env E) [''LIOP_OAUTH_TOKEN'', ''LIOP_TOKEN''] of
             Some t \<Rightarrow> (Some t, R\<lparr>ro_token := Some t\<rparr>)
           | None \<Rightarrow>
               (case truthy_string (rv_env E ''LIOP_NEXUS_URL'') of
                  None \<Rightarrow> (None, R)
                | Some nexusUrl \<Rightarrow>
                    (case truthy_string (rv_fetchToken E (token_url nexusUrl) (token_form (rv_env E))) of
                       None \<Rightarrow> (None, R)
                     | Some t \<Rightarrow> (Some t, R\<lparr>ro_token := Some t\<rparr>)))))"

definition get_or_acquire_mesh_agent_token :: "'f router_env \<Rightarrow> string \<Rightarrow> router \<Rightarrow> string option \<times> router" where
  "get_or_acquire_mesh_agent_token E peerId R =
     (case node_token (rv_env E) peerId (cached_manifest peerId R) of
        Some t \<Rightarrow> (Some t, R)
      | None \<Rightarrow> shared_token E R)"

definition caller_or_agent_token :: "'f router_env \<Rightarrow> string \<Rightarrow> string option \<Rightarrow> router \<Rightarrow> string option \<times> router" where
  "caller_or_agent_token E peerId token R =
     (case truthy_string token of Some t \<Rightarrow> (Some t, R) | None \<Rightarrow> get_or_acquire_mesh_agent_token E peerId R)"

section \<open>Results\<close>

definition error_result :: "jsval \<Rightarrow> string \<Rightarrow> jsval" where
  "error_result rid msg = success_response rid (JObj (result_props (text_error msg)))"

definition text_result :: "jsval \<Rightarrow> string \<Rightarrow> jsval" where
  "text_result rid msg = success_response rid (JObj (result_props \<lparr>cr_content = [msg], cr_isError = False\<rparr>))"

definition authentication_required :: "string \<Rightarrow> manifest \<Rightarrow> string" where
  "authentication_required peerId m =
     (let name = (if mf_serverName m = [] then ''unknown'' else js_lower (mf_serverName m));
          primaryVar = ''LIOP_TOKEN_'' @ (case truthy_string (mf_tokenSlug m) of Some slug \<Rightarrow> slug | None \<Rightarrow> clean_name name)
      in ''Authentication Required: The restricted node ('' @ name @ '') requires an access token. Please define the '' @
         primaryVar @ '' or LIOP_TOKEN_'' @ js_upper (slice_last 8 peerId) @ '' environment variable on your agent/client host.'')"

section \<open>A call at a remote node\<close>

definition kyber_public_key_bytes :: nat where "kyber_public_key_bytes = 1184"

definition encapsulate_asymmetric :: "'f router_env \<Rightarrow> bytes \<Rightarrow> (bytes \<times> bytes) option" where
  "encapsulate_asymmetric E publicKey =
     (if length publicKey \<noteq> kyber_public_key_bytes then None else rv_encapsulate E publicKey)"

definition encrypt_with_nonce :: "'f router_env \<Rightarrow> bytes \<Rightarrow> bytes \<Rightarrow> bytes \<Rightarrow> bytes" where
  "encrypt_with_nonce E payload key nonce = rv_gcmSeal E key nonce payload"

definition bearer :: "string option \<Rightarrow> string option" where
  "bearer token = map_option (\<lambda>t. ''Bearer '' @ t) (truthy_string token)"

definition embedded_args :: "'f router_env \<Rightarrow> jsval \<Rightarrow> string" where
  "embedded_args E params =
     se_stringify (be_server (rv_bridge E))
       (if \<not> nullish (prop_of params ''arguments'') then prop_of params ''arguments''
        else if prop_of params ''payload'' \<noteq> JUndef then params else JObj [])"

definition proxied_call :: "'f router_env \<Rightarrow> string \<Rightarrow> jsval \<Rightarrow> bytes" where
  "proxied_call E toolName params = utf8 (proxy_logic toolName (embedded_args E params))"

definition integrity_alert :: string where
  "integrity_alert = ''SECURITY ALERT: Remote response failed cryptographic integrity audit.''"

text \<open>\<open>None\<close>: the verification pool fails, which is caught like a body that is not JSON.\<close>

definition response_verified :: "'f router_env \<Rightarrow> bytes \<Rightarrow> bytes \<Rightarrow> string \<Rightarrow> logic_response \<Rightarrow> bool option" where
  "response_verified E logic sharedSecret resultBody r =
     (if be_poolFails (rv_bridge E) then None
      else Some (liop_verify_zk_receipt (be_worker (rv_bridge E)) logic (rp_cryptographic_proof r) (rp_zk_receipt r)
                   (Some sharedSecret) (JStr resultBody)))"

text \<open>The end of the stream of responses.\<close>

definition parsed_result :: "'f router_env \<Rightarrow> jsval \<Rightarrow> string \<Rightarrow> jsval" where
  "parsed_result E rid resultBody =
     (case se_parse (be_server (rv_bridge E)) resultBody of
        Some parsed \<Rightarrow> success_response rid parsed
      | None \<Rightarrow> text_result rid resultBody)"

definition finish_stream :: "'f router_env \<Rightarrow> jsval \<Rightarrow> bytes \<Rightarrow> bytes \<Rightarrow> logic_response list \<Rightarrow> jsval" where
  "finish_stream E rid logic sharedSecret rs =
     (let resultBody = concat (map rp_semantic_evidence rs) in
      if rs \<noteq> [] \<and> \<not> rp_is_error (last rs) then
        (case response_verified E logic sharedSecret resultBody (last rs) of
           None \<Rightarrow> text_result rid resultBody
         | Some False \<Rightarrow> error_result rid integrity_alert
         | Some True \<Rightarrow> parsed_result E rid resultBody)
      else parsed_result E rid resultBody)"

definition logic_request_of :: "'f router_env \<Rightarrow> intent_response \<Rightarrow> bytes \<Rightarrow> bytes \<Rightarrow> bytes \<Rightarrow> logic_request" where
  "logic_request_of E r ciphertext sharedSecret logic =
     \<lparr>lq_session_token = ir_session_token r, lq_wasm_binary = encrypt_with_nonce E logic sharedSecret (rv_nonce E),
      lq_inputs = [], lq_pqc_ciphertext = ciphertext, lq_aes_nonce = Some (rv_nonce E)\<rparr>"

text \<open>A key of the wrong length, or one that ML-KEM refuses, makes the callback throw, and nothing answers the
  call; nor does anything when the node leaves the stream open.\<close>

definition execute_remote :: "'f router_env \<Rightarrow> jsval \<Rightarrow> string \<Rightarrow> string option \<Rightarrow> bytes \<Rightarrow> intent_response \<Rightarrow> outcome" where
  "execute_remote E rid addr token logic r =
     (case encapsulate_asymmetric E (ir_kyber_public_key r) of
        None \<Rightarrow> Pending
      | Some (ciphertext, sharedSecret) \<Rightarrow>
          (case rv_execute E addr (bearer token) (logic_request_of E r ciphertext sharedSecret logic) of
             (rs, StreamFails e) \<Rightarrow> Answers (error_result rid (''LIOP gRPC Error: '' @ e))
           | (rs, StreamEnds) \<Rightarrow> Answers (finish_stream E rid logic sharedSecret rs)
           | (rs, StreamSilent) \<Rightarrow> Pending))"

definition intent_of :: "'f router_env \<Rightarrow> string \<Rightarrow> intent_request" where
  "intent_of E toolName = \<lparr>iq_agent_did = ''did:liop:'' @ (if rv_mesh E then rv_peerId E else ''mcp-proxy''), iq_capability_hash = toolName\<rparr>"

definition negotiate_remote :: "'f router_env \<Rightarrow> jsval \<Rightarrow> string \<Rightarrow> string option \<Rightarrow> string \<Rightarrow> jsval \<Rightarrow> outcome" where
  "negotiate_remote E rid addr token toolName params =
     (case rv_negotiate E addr (bearer token) (intent_of E toolName) of
        None \<Rightarrow> Pending
      | Some (Inl e) \<Rightarrow> Answers (error_result rid (''PQC Handshake Failed: '' @ (if e = [] then ''Rejected'' else e)))
      | Some (Inr r) \<Rightarrow>
          if \<not> ir_accepted r then Answers (error_result rid ''PQC Handshake Failed: Rejected'')
          else execute_remote E rid addr token (proxied_call E toolName params) r)"

definition perform_transcoding ::
    "'f router_env \<Rightarrow> jsval \<Rightarrow> string \<Rightarrow> string \<Rightarrow> jsval \<Rightarrow> string \<Rightarrow> string option \<Rightarrow> router \<Rightarrow> outcome \<times> router" where
  "perform_transcoding E rid addr toolName params peerId token R =
     (case caller_or_agent_token E peerId token R of
        (activeToken, R1) \<Rightarrow>
          (case cached_manifest peerId R1 of
             Some m \<Rightarrow>
               if mf_authRequired m \<and> truthy_string activeToken = None
               then (Answers (error_result rid (authentication_required peerId m)), R1)
               else (negotiate_remote E rid addr activeToken toolName params, R1)
           | None \<Rightarrow> (negotiate_remote E rid addr activeToken toolName params, R1)))"

section \<open>The address of a remote node\<close>

definition docker_ports :: "string list" where
  "docker_ports = [''13001'', ''13003'', ''13004'', ''13005'', ''13011'', ''13021'', ''13031'']"

definition demo_urls :: "string list" where
  "demo_urls = [''127.0.0.1:13000'', ''localhost:13000'', ''127.0.0.1:13001'', ''localhost:13001'']"

definition should_remap_grpc_ports :: "(string \<Rightarrow> string option) \<Rightarrow> string list \<Rightarrow> bool" where
  "should_remap_grpc_ports env addrs \<longleftrightarrow>
     env ''LIOP_USE_PUBLISHED_GRPC_PORTS'' = Some ''1'' \<or> env ''LIOP_DOCKER_MAP'' = Some ''true'' \<or>
     env ''LIOP_DEV_MODE'' = Some ''true'' \<or> env ''NODE_ENV'' = Some ''development'' \<or> env ''NODE_ENV'' = Some ''test'' \<or>
     list_ex (js_includes (or_else (env ''LIOP_NEXUS_URL'') [])) demo_urls \<or>
     list_ex (\<lambda>a. list_ex (js_includes a) docker_ports) addrs"

definition remapped_port :: "string \<Rightarrow> string \<Rightarrow> int \<Rightarrow> int" where
  "remapped_port providerName toolName grpcPort =
     (let tn = js_lower toolName in
      if js_includes providerName ''vault'' \<or> js_includes tn ''medical'' then 13011
      else if js_includes providerName ''bank'' \<or> js_includes tn ''bank'' then 13021
      else if js_includes providerName ''oracle'' \<or> js_includes tn ''hft'' \<or> js_includes tn ''market'' then 13031
      else grpcPort)"

fun split_slash :: "string \<Rightarrow> string list" where
  "split_slash [] = [[]]"
| "split_slash (c # s) =
     (if c = CHR ''/'' then [] # split_slash s
      else case split_slash s of [] \<Rightarrow> [[c]] | w # ws \<Rightarrow> (c # w) # ws)"

text \<open>The part after the first \<open>ip4\<close>.\<close>

fun advertised_ip :: "string list \<Rightarrow> string option" where
  "advertised_ip [] = None"
| "advertised_ip (w # ws) = (if w = ''ip4'' then Some (case ws of [] \<Rightarrow> ''undefined'' | x # xs \<Rightarrow> x) else advertised_ip ws)"

definition at_port :: "string \<Rightarrow> int \<Rightarrow> string" where
  "at_port ip port = ip @ '':'' @ int_str port"

fun select_address :: "string list \<Rightarrow> int \<Rightarrow> string list \<Rightarrow> string option \<Rightarrow> string option" where
  "select_address localIps port [] found = found"
| "select_address localIps port (a # addrs) found =
     (case advertised_ip (split_slash a) of
        None \<Rightarrow> select_address localIps port addrs found
      | Some ip \<Rightarrow>
          if ip = ''127.0.0.1'' \<or> ip \<in> set localIps then Some (at_port ''127.0.0.1'' port)
          else select_address localIps port addrs (case found of None \<Rightarrow> Some (at_port ip port) | Some t \<Rightarrow> Some t))"

definition target_address :: "'f router_env \<Rightarrow> string list \<Rightarrow> string \<Rightarrow> manifest option \<Rightarrow> string" where
  "target_address E addrs toolName m =
     (let port = (case m of None \<Rightarrow> rv_defaultRpcPort E | Some x \<Rightarrow> mf_grpcPort x) in
      if should_remap_grpc_ports (rv_env E) addrs then at_port ''127.0.0.1'' (remapped_port (provider_name m) toolName port)
      else (case select_address (rv_localIps E) port addrs None of Some t \<Rightarrow> t | None \<Rightarrow> at_port ''127.0.0.1'' port))"

text \<open>A peer that is not in the cache is asked for its manifest, which is stored without any check.\<close>

definition route_to_remote_provider ::
    "'f router_env \<Rightarrow> int \<Rightarrow> jsval \<Rightarrow> string \<Rightarrow> string \<Rightarrow> jsval \<Rightarrow> string option \<Rightarrow> router \<Rightarrow> outcome \<times> router" where
  "route_to_remote_provider E now rid toolName peerId params token R =
     (if \<not> rv_mesh E then (Answers (bridge_error rid (- 32603) ''Mesh Node inactive''), R)
      else
        (let transcode = (\<lambda>R1. perform_transcoding E rid
               (target_address E (rv_resolvePeer E peerId) toolName (cached_manifest peerId R1)) toolName params peerId token R1)
         in case cached_manifest peerId R of
              Some m \<Rightarrow> transcode R
            | None \<Rightarrow>
                (case rv_queryManifest E peerId of
                   QueryRejected \<Rightarrow> (Rejects ''Mesh Node is not running'', R)
                 | QueryNull \<Rightarrow> transcode R
                 | QueryManifest m \<Rightarrow> transcode (R\<lparr>ro_cache := AList.update peerId (m, now) (ro_cache R)\<rparr>))))"

section \<open>Tool calls\<close>

definition redact_peer_id :: "(string \<Rightarrow> string option) \<Rightarrow> string \<Rightarrow> string" where
  "redact_peer_id env peerId =
     (if or_else (env ''LIOP_DIAGNOSTIC_LEVEL'') ''redacted'' = ''full'' then peerId else ''***'' @ slice_last 8 peerId)"

text \<open>Stands for the bullet U+2022.\<close>

definition bullet :: string where "bullet = ''  '' @ [CHR 0x95] @ '' ''"

definition bootstrap_line :: "string \<Rightarrow> string" where
  "bootstrap_line addr =
     (let ident = last (split_slash addr) in
      bullet @ (if ident = [] then ''Unknown'' else slice_last 8 ident) @ '' (bootstrap)'')"

definition status_lines :: "'f router_env \<Rightarrow> router \<Rightarrow> string list" where
  "status_lines E R =
     (let stats = (case ro_stats R of None \<Rightarrow> \<lparr>ds_candidates = 0, ds_success = 0, ds_failures = 0\<rparr> | Some s \<Rightarrow> s);
          showBootstraps = (or_else (rv_env E ''LIOP_DIAGNOSTIC_LEVEL'') ''redacted'' \<noteq> ''minimal'');
          bootstraps = (if rv_mesh E then rv_bootstrapNodes E else []);
          toolList = map (\<lambda>(p, m, t). bullet @ mt_name t @ '' (from origin: '' @ redact_peer_id (rv_env E) p @ '')'') (cached_tools R)
      in [''LIOP Mesh Status: '' @ (if rv_mesh E then ''Active'' else ''Offline''),
          ''Local Agent Identity: '' @ (if rv_mesh E \<and> rv_peerId E \<noteq> [] then redact_peer_id (rv_env E) (rv_peerId E) else ''Offline''),
          ''Network: '' @ nat_str (if rv_mesh E then rv_connections E else 0) @ '' Conns | '' @
            nat_str (if rv_mesh E then rv_routingTableSize E else 0) @ '' Mesh Nodes | '' @ nat_str (length bootstraps) @ '' Bootstraps'',
          (if showBootstraps \<and> bootstraps \<noteq> []
           then nl @ ''Active Bootstraps:'' @ nl @ js_join nl (map bootstrap_line bootstraps) @ nl else []),
          ''Discovery: '' @ nat_str (ds_candidates stats) @ '' Candidates | '' @ nat_str (ds_success stats) @ '' OK | '' @
            nat_str (ds_failures stats) @ '' FAIL'',
          ''Tooling: '' @ nat_str (length (ro_cache R)) @ '' Providers | '' @ nat_str (tool_count R) @ '' Total Remote Tools'',
          (if tool_count R > 0 then nl @ ''Discovered Remote Tools (Zero-Trust Origins):'' @ nl @ js_join nl toolList
           else nl @ ''No remote tools discovered yet.''),
          rv_telemetry E])"

definition mesh_status :: "'f router_env \<Rightarrow> router \<Rightarrow> string" where
  "mesh_status E R = js_join nl (filter (\<lambda>l. l \<noteq> []) (status_lines E R))"

fun find_providers :: "'f router_env \<Rightarrow> string \<Rightarrow> nat \<Rightarrow> nat \<Rightarrow> string list" where
  "find_providers E toolName i 0 = []"
| "find_providers E toolName i (Suc n) =
     (if rv_findProviders E toolName i \<noteq> [] then rv_findProviders E toolName i else find_providers E toolName (Suc i) n)"

definition call_local :: "'f router_env \<Rightarrow> int \<Rightarrow> jsval \<Rightarrow> string \<Rightarrow> jsval \<Rightarrow> 'f bridge_state \<Rightarrow> outcome \<times> 'f bridge_state" where
  "call_local E now rid toolName params SR =
     (case SR of (S, Reg) \<Rightarrow>
        (case call_tool (be_server (rv_bridge E)) now toolName
                (if truthy (prop_of params ''arguments'') then prop_of params ''arguments'' else JObj []) ''local-client'' S of
           None \<Rightarrow> (Pending, SR)
         | Some (Inl (ToolNotFound name)) \<Rightarrow> (Answers (bridge_error rid (- 32000) (''Tool not found: '' @ name)), SR)
         | Some (Inr (r, S')) \<Rightarrow> (Answers (success_response rid (JObj (result_props r))), (S', Reg))))"

definition call_resolved ::
    "'f router_env \<Rightarrow> int \<Rightarrow> jsval \<Rightarrow> string \<times> string \<Rightarrow> jsval \<Rightarrow> string option \<Rightarrow> router \<Rightarrow> outcome \<times> router" where
  "call_resolved E now rid target params token R =
     (case target of (peerId, originalToolName) \<Rightarrow>
        (case cached_manifest peerId R of
           Some m \<Rightarrow>
             if mf_authRequired m then
               (case caller_or_agent_token E peerId token R of
                  (None, R1) \<Rightarrow> (Answers (error_result rid (authentication_required peerId m)), R1)
                | (Some t, R1) \<Rightarrow> route_to_remote_provider E now rid originalToolName peerId params (Some t) R1)
             else route_to_remote_provider E now rid originalToolName peerId params token R
         | None \<Rightarrow> route_to_remote_provider E now rid originalToolName peerId params token R))"

definition local_names :: "registry \<Rightarrow> string list" where
  "local_names Reg = map fst (list_tools Reg)"

definition not_found_text :: "string \<Rightarrow> string" where
  "not_found_text toolName =
     ''No provider found for tool: '' @ toolName @ ''. Ensure the provider node is active and connected to the mesh.''"

definition call_remote ::
    "'f router_env \<Rightarrow> request_io \<Rightarrow> jsval \<Rightarrow> string \<Rightarrow> jsval \<Rightarrow> string option \<Rightarrow> router \<Rightarrow> outcome \<times> router" where
  "call_remote E io rid toolName params token R =
     (let R1 = (if resolve_manifest_target toolName R = None then refresh_manifest_cache (rv_pq E) False (io_view io) R else R) in
      case resolve_manifest_target toolName R1 of
        Some target \<Rightarrow> call_resolved E (io_now io) rid target params token R1
      | None \<Rightarrow>
          (case find_providers E toolName 0 3 of
             p # ps \<Rightarrow> route_to_remote_provider E (io_now io) rid toolName p params token R1
           | [] \<Rightarrow> (Answers (bridge_error rid (- 32002) (not_found_text toolName)), R1)))"

text \<open>A name that is not a text cannot be split, which is not caught.\<close>

definition transcode_mcp_to_liop ::
    "'f router_env \<Rightarrow> request_io \<Rightarrow> jsval \<Rightarrow> jsval \<Rightarrow> string option \<Rightarrow> 'f router_state \<Rightarrow> outcome \<times> 'f router_state" where
  "transcode_mcp_to_liop E io rid params token RS =
     (case (prop_of params ''name'', RS) of
        (JStr toolName, R, SR) \<Rightarrow>
          if toolName = ''LiopMeshStatus'' then (Answers (text_result rid (mesh_status E R)), RS)
          else if toolName \<in> set (local_names (snd SR)) then
            (case call_local E (io_now io) rid toolName params SR of (a, SR') \<Rightarrow> (a, (R, SR')))
          else if rv_mesh E then
            (case call_remote E io rid toolName params token R of (a, R') \<Rightarrow> (a, (R', SR)))
          else (Answers (bridge_error rid (- 32002) (not_found_text toolName)), RS)
      | (v, R, SR) \<Rightarrow>
          if rv_mesh E then (Rejects ''toolName.split is not a function'', RS)
          else (Answers (bridge_error rid (- 32002) (not_found_text (js_string (be_num (rv_bridge E)) v))), RS))"

section \<open>Dispatch\<close>

definition is_modern_version :: "jsval \<Rightarrow> bool" where
  "is_modern_version params \<longleftrightarrow> prop_of (prop_of params ''_meta'') ''io.modelcontextprotocol/protocolVersion'' = JStr mcp_protocol_version"

text \<open>\<open>detectEra\<close>: true for the legacy era.\<close>

definition detect_legacy :: "string \<Rightarrow> jsval \<Rightarrow> bool" where
  "detect_legacy method params \<longleftrightarrow>
     \<not> is_modern_version params \<and> mcp_legacy_support_enabled \<and> is_legacy_request (JStr method) params"

definition for_era :: "string \<Rightarrow> jsval \<Rightarrow> jsval \<Rightarrow> jsval" where
  "for_era method params response =
     (case response of
        JObj ps \<Rightarrow> if detect_legacy method params then JObj (adapt_response_for_legacy_client ps) else response
      | _ \<Rightarrow> response)"

definition complete :: "(string \<times> jsval) list" where
  "complete = [(''resultType'', JStr ''complete'')]"

definition cached_for :: "int \<Rightarrow> string \<Rightarrow> (string \<times> jsval) list" where
  "cached_for ttl scope = complete @ [(''ttlMs'', ms ttl), (''cacheScope'', JStr scope)]"

definition diagnostic_tool :: "string \<times> jsval" where
  "diagnostic_tool =
     (''LiopMeshStatus'', JObj [(''name'', JStr ''LiopMeshStatus''),
        (''description'', JStr ''LiopMeshStatus: Returns the current dynamic diagnostic status of the Zero-Trust Neural Mesh.''),
        (''inputSchema'', JObj [(''type'', JStr ''object''), (''properties'', JObj []), (''additionalProperties'', JBool False)])])"

definition listed_local :: "bool \<Rightarrow> string \<times> jsval \<Rightarrow> string \<times> jsval" where
  "listed_local terse t =
     (if terse then
        (fst t, JObj (AList.update ''description''
           (JStr (strip_verbose_liop_tool_description (case prop_of (snd t) ''description'' of JStr d \<Rightarrow> d | _ \<Rightarrow> [])))
           (object_entries (snd t))))
      else t)"

definition all_tools :: "'f router_env \<Rightarrow> registry \<Rightarrow> router \<Rightarrow> (string \<times> jsval) list" where
  "all_tools E Reg R =
     (let terse = mcp_compact_tool_descriptions (rv_env E ''LIOP_MCP_COMPACT_TOOL_DESCRIPTIONS'') in
      diagnostic_tool # map (listed_local terse) (list_tools Reg) @ remote_tools terse (local_names Reg) R)"

definition router_tools_list :: "'f router_env \<Rightarrow> registry \<Rightarrow> router \<Rightarrow> jsval \<Rightarrow> jsval" where
  "router_tools_list E Reg R rid =
     success_response rid (JObj (cached_for 300000 ''public'' @ [(''tools'', sorted_listing (rv_bridge E) (all_tools E Reg R))]))"

definition router_resources_list :: "'f router_env \<Rightarrow> registry \<Rightarrow> router \<Rightarrow> jsval \<Rightarrow> jsval" where
  "router_resources_list E Reg R rid =
     success_response rid (JObj (cached_for 300000 ''public'' @
       [(''resources'', sorted_listing (rv_bridge E) (list_resources Reg @ remote_resources (map fst (list_resources Reg)) R))]))"

definition router_prompts_list :: "'f router_env \<Rightarrow> registry \<Rightarrow> jsval \<Rightarrow> jsval" where
  "router_prompts_list E Reg rid =
     success_response rid (JObj (cached_for 300000 ''public'' @ [(''prompts'', sorted_listing (rv_bridge E) (list_prompts Reg))]))"

definition cached_resource :: "jsval \<Rightarrow> router \<Rightarrow> remote_resource option" where
  "cached_resource uri R =
     find (\<lambda>r. JStr (mr_uri r) = uri) (concat (map (\<lambda>(p, m, cachedAt). mf_resources m) (ro_cache R)))"

definition resource_contents :: "remote_resource \<Rightarrow> jsval" where
  "resource_contents r =
     JArr [JObj [(''uri'', JStr (mr_uri r)), (''mimeType'', JStr (or_else (mr_mimeType r) ''text/plain'')),
       (''text'', JStr (or_else (truthy_string (mr_text r)) (or_else (mr_description r) ''No content provided'')))]]"

definition router_resources_read :: "'f router_env \<Rightarrow> registry \<Rightarrow> router \<Rightarrow> jsval \<Rightarrow> jsval \<Rightarrow> jsval" where
  "router_resources_read E Reg R rid params =
     (let uri = prop_of params ''uri''; fresh = cached_for 60000 ''private'' in
      if \<not> truthy uri then bridge_error rid (- 32602) ''Missing resource uri''
      else
        (case (case uri of JStr u \<Rightarrow> read_resource Reg u
               | v \<Rightarrow> Inl (''Resource not found: '' @ js_string (be_num (rv_bridge E)) v)) of
           Inr res \<Rightarrow> success_response rid (if is_object res then spread fresh res else JObj (fresh @ [(''contents'', res)]))
         | Inl e \<Rightarrow>
             (case cached_resource uri R of
                Some r \<Rightarrow> success_response rid (JObj (fresh @ [(''contents'', resource_contents r)]))
              | None \<Rightarrow> bridge_error rid (- 32000) e)))"

definition router_prompts_get :: "'f router_env \<Rightarrow> registry \<Rightarrow> jsval \<Rightarrow> jsval \<Rightarrow> jsval" where
  "router_prompts_get E Reg rid params =
     (let name = prop_of params ''name''; arguments = prop_of params ''arguments'' in
      if \<not> truthy name then bridge_error rid (- 32602) ''Missing prompt name''
      else
        (case (case name of
                 JStr n \<Rightarrow> get_prompt Reg n (JObj [(''name'', name), (''arguments'', if truthy arguments then arguments else JObj [])])
               | v \<Rightarrow> Inl (''Prompt not found: '' @ js_string (be_num (rv_bridge E)) v)) of
           Inr res \<Rightarrow> success_response rid (if is_object res then spread complete res else res)
         | Inl e \<Rightarrow> bridge_error rid (- 32000) e))"

text \<open>A modern answer to a tool call gets \<open>resultType\<close> when it has none.\<close>

definition completed :: "jsval \<Rightarrow> jsval" where
  "completed response =
     (case response of
        JObj ps \<Rightarrow>
          (case get_prop ps ''result'' of
             JObj rs \<Rightarrow> if truthy (get_prop rs ''resultType'') then response
                       else JObj (AList.update ''result'' (JObj (AList.update ''resultType'' (JStr ''complete'') rs)) ps)
           | _ \<Rightarrow> response)
      | _ \<Rightarrow> response)"

definition router_tools_call ::
    "'f router_env \<Rightarrow> request_io \<Rightarrow> jsval \<Rightarrow> jsval \<Rightarrow> string option \<Rightarrow> 'f router_state \<Rightarrow> outcome \<times> 'f router_state" where
  "router_tools_call E io rid params token RS =
     (if nullish params then (Rejects ''Cannot read properties of undefined'', RS)
      else
        (case transcode_mcp_to_liop E io rid params token RS of
           (Answers v, RS') \<Rightarrow>
             (Answers (if detect_legacy ''tools/call'' params then for_era ''tools/call'' params v else completed v), RS')
         | (a, RS') \<Rightarrow> (a, RS')))"

definition router_discover :: "'f router_env \<Rightarrow> jsval \<Rightarrow> jsval" where
  "router_discover E rid =
     success_response rid (JObj (complete @
       [(''supportedVersions'', JArr (if mcp_legacy_support_enabled
           then [JStr mcp_protocol_version, JStr mcp_protocol_version_legacy] else [JStr mcp_protocol_version])),
        (''capabilities'', JObj [(''tools'', list_changed), (''resources'', list_changed), (''prompts'', list_changed)]),
        (''serverInfo'', be_serverInfo (rv_bridge E))]))"

definition route_method ::
    "'f router_env \<Rightarrow> request_io \<Rightarrow> jsval \<Rightarrow> string \<Rightarrow> jsval \<Rightarrow> string option \<Rightarrow> 'f router_state \<Rightarrow> outcome \<times> 'f router_state" where
  "route_method E io rid method params token RS =
     (case RS of (R, S, Reg) \<Rightarrow>
        (let answer = (\<lambda>v. (Answers v, RS)); era = for_era method params in
         if method = ''initialize'' then
           answer (if \<not> mcp_legacy_support_enabled
                   then bridge_error rid (- 32601) ''Method retired: initialize (MCP 2026-07-28 is stateless)''
                   else build_legacy_initialize_response (be_serverInfo (rv_bridge E)) rid)
         else if method = ''notifications/initialized'' then answer JNull
         else if method = ''notifications/cancelled'' then answer JNull
         else if method = ''server/discover'' then answer (router_discover E rid)
         else if method = ''ping'' then answer (success_response rid (JObj []))
         else if method = ''tools/list'' then
           (let R' = smart_warm_up (rv_pq E) (rv_mesh E) (io_expected io) (io_timeout io) (io_warm io) R
            in (Answers (era (router_tools_list E Reg R' rid)), (R', S, Reg)))
         else if method = ''tools/call'' then router_tools_call E io rid params token RS
         else if method = ''resources/list'' then answer (era (router_resources_list E Reg R rid))
         else if method = ''resources/read'' then answer (era (router_resources_read E Reg R rid params))
         else if method = ''prompts/list'' then answer (era (router_prompts_list E Reg rid))
         else if method = ''prompts/get'' then answer (era (router_prompts_get E Reg rid params))
         else if method = ''resources/templates/list'' then
           answer (era (success_response rid (JObj (cached_for 300000 ''public'' @ [(''resourceTemplates'', JArr [])]))))
         else if method = ''subscriptions/listen'' then answer (era (success_response rid (JObj complete)))
         else answer (bridge_error rid (- 32601) (''Method not found: '' @ method))))"

text \<open>\<open>dispatch\<close>: with a JWT validator the scopes are checked first.\<close>

definition dispatch ::
    "'f router_env \<Rightarrow> request_io \<Rightarrow> jsval \<Rightarrow> string \<Rightarrow> jsval \<Rightarrow> auth_info option \<Rightarrow> 'f router_state \<Rightarrow> outcome \<times> 'f router_state" where
  "dispatch E io rid method params auth RS =
     (if rv_jwt E then
        (case authorize_request method auth None of
           Inl NotIterable \<Rightarrow> (Rejects ''methodScopes is not iterable'', RS)
         | Inr a \<Rightarrow>
             if \<not> ar_allowed a then (Answers (bridge_error rid (- 32099) (or_else (ar_reason a) ''Access Denied'')), RS)
             else route_method E io rid method params (map_option ai_token auth) RS)
      else route_method E io rid method params (map_option ai_token auth) RS)"

end
