(* ===== verification/RouterClaims.thy ===== *)
theory RouterClaims
  imports Router ReceiptClaims BridgeClaims ManifestClaims
begin

text \<open>
  The router: which peer a listed tool leads to, what enters the cache of manifests, how failing peers
  are spared, what the result of a remote call is bound to, and when a call is answered.
\<close>

section \<open>Names of remote tools\<close>

lemma name_tools_cases:
  assumes "(n, p, m, t) \<in> set (name_tools localNames seen ts)"
  shows "mt_name t \<noteq> ''LiopMeshStatus'' \<and> (p, m, t) \<in> set ts \<and>
    (n = suffixed_name (mt_name t) p \<or>
     (n = mt_name t \<and> n \<notin> set seen \<and> n \<notin> set localNames \<and>
        (\<exists>as bs. ts = as @ (p, m, t) # bs \<and> (\<forall>x \<in> set as. mt_name (snd (snd x)) \<noteq> n))))"
  using assms
proof (induction localNames seen ts rule: name_tools.induct)
  case (2 localNames seen q m' t' ts)
  show ?case
  proof (cases "mt_name t' = ''LiopMeshStatus''")
    case True
    with 2 have "(n, p, m, t) \<in> set (name_tools localNames seen ts)" by simp
    from "2.IH"(1) [OF True this] True show ?thesis
      by (metis append_Cons list.set_intros(2) set_ConsD snd_conv)
  next
    case False
    define f where "f = (if mt_name t' \<in> set seen \<or> mt_name t' \<in> set localNames then suffixed_name (mt_name t') q else mt_name t')"
    from "2.prems" False have "(n, p, m, t) = (f, q, m', t') \<or> (n, p, m, t) \<in> set (name_tools localNames (f # seen) ts)"
      by (auto simp: f_def Let_def split: if_splits)
    then show ?thesis
    proof
      assume "(n, p, m, t) = (f, q, m', t')"
      with False show ?thesis
        by (auto simp: f_def intro: exI [of _ "[]"])
    next
      assume "(n, p, m, t) \<in> set (name_tools localNames (f # seen) ts)"
      from "2.IH"(2) [OF False f_def this]
      have IH: "mt_name t \<noteq> ''LiopMeshStatus''" "(p, m, t) \<in> set ts"
        "n = suffixed_name (mt_name t) p \<or> (n = mt_name t \<and> n \<notin> set (f # seen) \<and> n \<notin> set localNames \<and>
        (\<exists>as bs. ts = as @ (p, m, t) # bs \<and> (\<forall>x \<in> set as. mt_name (snd (snd x)) \<noteq> n)))" by simp_all
      from IH(3) show ?thesis
      proof
        assume r: "n = mt_name t \<and> n \<notin> set (f # seen) \<and> n \<notin> set localNames \<and>
          (\<exists>as bs. ts = as @ (p, m, t) # bs \<and> (\<forall>x \<in> set as. mt_name (snd (snd x)) \<noteq> n))"
        then obtain as bs where ab: "ts = as @ (p, m, t) # bs" "\<forall>x \<in> set as. mt_name (snd (snd x)) \<noteq> n" by blast
        from r have "mt_name t' \<noteq> n" by (auto simp: f_def split: if_splits)
        with ab have "(q, m', t') # ts = ((q, m', t') # as) @ (p, m, t) # bs"
          "\<forall>x \<in> set ((q, m', t') # as). mt_name (snd (snd x)) \<noteq> n" by auto
        with r IH show ?thesis by (metis list.set_intros(2))
      qed (use IH in auto)
    qed
  qed
qed simp

definition tools_of :: "(string \<times> manifest \<times> int) list \<Rightarrow> cached_tool list" where
  "tools_of cache = concat (map (\<lambda>(peerId, manifest, cachedAt). map (\<lambda>t. (peerId, manifest, t)) (mf_tools manifest)) cache)"

lemma cached_tools_of: "cached_tools R = tools_of (ro_cache R)"
  by (simp add: cached_tools_def tools_of_def)

lemma tools_of_Cons: "tools_of ((q, m, c) # cache) = map (\<lambda>t. (q, m, t)) (mf_tools m) @ tools_of cache"
  by (simp add: tools_of_def)

lemma in_tools_of: "(p, m, t) \<in> set (tools_of cache) \<Longrightarrow> \<exists>c. (p, m, c) \<in> set cache \<and> has_tool m (mt_name t)"
  by (force simp: tools_of_def has_tool_def list_ex_iff)

text \<open>The first cached tool of a name is in the manifest that resolution finds.\<close>

lemma first_tool_found:
  assumes "tools_of cache = as @ (p, m, t) # bs" and "\<forall>x \<in> set as. mt_name (snd (snd x)) \<noteq> n" and "mt_name t = n"
  shows "\<exists>c. find (\<lambda>(p, m, cachedAt). has_tool m n) cache = Some (p, m, c)"
  using assms
proof (induction cache arbitrary: as)
  case Nil
  then show ?case by (simp add: tools_of_def)
next
  case (Cons e cache)
  obtain q m' c where e: "e = (q, m', c)" by (cases e)
  let ?h = "map (\<lambda>t. (q, m', t)) (mf_tools m')"
  from Cons.prems(1) have split: "?h @ tools_of cache = as @ (p, m, t) # bs" by (simp add: e tools_of_Cons)
  show ?case
  proof (cases "has_tool m' n")
    case True
    then obtain t' where t': "(q, m', t') \<in> set ?h" "mt_name t' = n" by (auto simp: has_tool_def list_ex_iff)
    from split have "(p, m, t) \<in> set ?h"
      unfolding append_eq_append_conv2
    proof (elim exE disjE conjE)
      fix us assume "?h = as @ us" and us: "us @ tools_of cache = (p, m, t) # bs"
      then show ?thesis
        using t' Cons.prems(2) by (cases us) auto
    next
      fix us assume "?h @ us = as"
      with t'(1) have "(q, m', t') \<in> set as" by auto
      with t'(2) Cons.prems(2) have False by fastforce
      then show ?thesis ..
    qed
    then have "p = q" "m = m'" by auto
    with True show ?thesis by (simp add: e)
  next
    case False
    then have nh: "x \<in> set ?h \<Longrightarrow> mt_name (snd (snd x)) \<noteq> n" for x by (auto simp: has_tool_def list_ex_iff)
    from split have "\<exists>us. as = ?h @ us \<and> tools_of cache = us @ (p, m, t) # bs"
      unfolding append_eq_append_conv2
    proof (elim exE disjE conjE)
      fix us assume h: "?h = as @ us" and us: "us @ tools_of cache = (p, m, t) # bs"
      show ?thesis
      proof (cases us)
        case Nil
        with h us show ?thesis by simp
      next
        case (Cons u us')
        with h us have "(p, m, t) \<in> set ?h" by auto
        with nh Cons.prems(3) show ?thesis by force
      qed
    qed auto
    then obtain us where us: "as = ?h @ us" "tools_of cache = us @ (p, m, t) # bs" by blast
    from Cons.IH [OF us(2)] us(1) Cons.prems(2,3) False show ?thesis by (simp add: e)
  qed
qed

lemma find_in: "find P xs = Some x \<Longrightarrow> x \<in> set xs \<and> P x"
  by (induction xs) (auto split: if_splits)

lemma takeWhile_suffix: "CHR ''_'' \<notin> set suffix \<Longrightarrow> takeWhile (\<lambda>c. c \<noteq> CHR ''_'') (rev suffix @ CHR ''_'' # xs) = rev suffix"
  by (induction suffix rule: rev_induct) auto

lemma split_suffixed:
  assumes "CHR ''_'' \<notin> set p"
  shows "split_last_underscore (suffixed_name name p) = Some (name, slice_last 4 p)"
proof -
  have "CHR ''_'' \<notin> set (slice_last 4 p)" using assms in_set_dropD by (fastforce simp: slice_last_def)
  then have "takeWhile (\<lambda>c. c \<noteq> CHR ''_'') (rev (suffixed_name name p)) = rev (slice_last 4 p)"
    using takeWhile_suffix [of "slice_last 4 p" "rev name"] by (simp add: suffixed_name_def)
  then show ?thesis by (simp add: split_last_underscore_def suffixed_name_def Let_def)
qed

lemma ends_with_slice: "4 \<le> length q \<Longrightarrow> ends_with q (slice_last 4 p) \<Longrightarrow> 4 \<le> length p \<Longrightarrow> slice_last 4 q = slice_last 4 p"
  by (auto simp: ends_with_iff slice_last_def)

lemma ends_with_own: "ends_with p (slice_last 4 p)"
  unfolding ends_with_iff slice_last_def by (metis append_take_drop_id)

text \<open>Peer identifiers are base58, hence without underscore, and long.\<close>

definition plain_peers :: "router \<Rightarrow> bool" where
  "plain_peers R \<longleftrightarrow> distinct (map fst (ro_cache R)) \<and> list_all (\<lambda>e. CHR ''_'' \<notin> set (fst e) \<and> 4 \<le> length (fst e)) (ro_cache R)"

definition short_ids_distinct :: "router \<Rightarrow> bool" where
  "short_ids_distinct R \<longleftrightarrow>
     (\<forall>(p, m, c) \<in> set (ro_cache R). \<forall>(q, m', c') \<in> set (ro_cache R).
        (\<exists>n. has_tool m n \<and> has_tool m' n) \<and> slice_last 4 p = slice_last 4 q \<longrightarrow> p = q)"

definition no_suffixed_names :: "router \<Rightarrow> bool" where
  "no_suffixed_names R \<longleftrightarrow>
     (\<forall>(p, m, t) \<in> set (cached_tools R). \<forall>(q, m', t') \<in> set (cached_tools R). mt_name t \<noteq> suffixed_name (mt_name t') q)"

text \<open>C23: the name under which a remote tool is listed resolves to the peer that offers it and to its name
  there, provided no tool has a name that ends like a suffix and no two peers with a tool of the same name
  share the last four characters.\<close>

theorem listed_tool_resolves:
  assumes "plain_peers R" and "short_ids_distinct R" and "no_suffixed_names R"
    and "(n, p, m, t) \<in> set (name_tools localNames [] (cached_tools R))"
  shows "resolve_manifest_target n R = Some (p, mt_name t)"
proof -
  note c = name_tools_cases [OF assms(4)]
  from c have mem: "(p, m, t) \<in> set (tools_of (ro_cache R))" by (simp add: cached_tools_of)
  from in_tools_of [OF mem] obtain k where k: "(p, m, k) \<in> set (ro_cache R)" "has_tool m (mt_name t)" by blast
  from c consider "n = suffixed_name (mt_name t) p"
    | as bs where "n = mt_name t" "tools_of (ro_cache R) = as @ (p, m, t) # bs" "\<forall>x \<in> set as. mt_name (snd (snd x)) \<noteq> n"
    by (auto simp: cached_tools_of)
  then show ?thesis
  proof cases
    case 1
    have none: "find (\<lambda>(p, m, cachedAt). has_tool m n) (ro_cache R) = None"
    proof (rule ccontr)
      assume "find (\<lambda>(p, m, cachedAt). has_tool m n) (ro_cache R) \<noteq> None"
      then obtain q m' c' where e: "(q, m', c') \<in> set (ro_cache R)" "has_tool m' n"
        by (auto simp: find_None_iff)
      then obtain t' where "(q, m', t') \<in> set (cached_tools R)" "mt_name t' = n"
        by (fastforce simp: cached_tools_def has_tool_def list_ex_iff)
      with assms(3) mem 1 show False by (fastforce simp: no_suffixed_names_def cached_tools_of)
    qed
    have u: "CHR ''_'' \<notin> set p" "4 \<le> length p" using assms(1) k(1) by (auto simp: plain_peers_def list_all_iff)
    have own: "find (\<lambda>(q, m', cachedAt). ends_with q (slice_last 4 p) \<and> has_tool m' (mt_name t)) (ro_cache R) \<noteq> None"
    proof -
      have "\<exists>x \<in> set (ro_cache R). (case x of (q, m', cachedAt) \<Rightarrow> ends_with q (slice_last 4 p) \<and> has_tool m' (mt_name t))"
        using k ends_with_own [of p] by (intro bexI [of _ "(p, m, k)"]) auto
      then show ?thesis by (auto simp: find_None_iff)
    qed
    then obtain q m' c' where f: "find (\<lambda>(q, m', cachedAt). ends_with q (slice_last 4 p) \<and> has_tool m' (mt_name t)) (ro_cache R) = Some (q, m', c')"
      by fastforce
    then have q: "(q, m', c') \<in> set (ro_cache R)" "ends_with q (slice_last 4 p)" "has_tool m' (mt_name t)"
      using find_in by fastforce+
    then have "slice_last 4 q = slice_last 4 p"
      using assms(1) u(2) by (intro ends_with_slice) (auto simp: plain_peers_def list_all_iff)
    with assms(2) q k have "q = p" by (fastforce simp: short_ids_distinct_def)
    with none f show ?thesis by (simp add: resolve_manifest_target_def 1 split_suffixed [OF u(1)])
  next
    case 2
    from first_tool_found [OF 2(2,3)] 2(1) show ?thesis by (auto simp: resolve_manifest_target_def)
  qed
qed

text \<open>Resolution looks for the exact name first, so a peer that publishes a tool under the listed name of
  another peer's tool gets its calls.\<close>

definition plain_manifest :: "string \<Rightarrow> string list \<Rightarrow> manifest" where
  "plain_manifest p names =
     \<lparr>mf_peerId = p, mf_grpcPort = 50051, mf_tools = map (\<lambda>n. \<lparr>mt_name = n, mt_description = None, mt_inputSchema = JUndef\<rparr>) names,
      mf_resources = [], mf_serverName = p, mf_taxonomy = None, mf_authRequired = False, mf_tokenSlug = None,
      mf_pqcSignature = None, mf_pqcPublicKey = None, mf_object = []\<rparr>"

definition two_peers :: "string list \<Rightarrow> string list \<Rightarrow> router" where
  "two_peers xs ys = (new_router False)\<lparr>ro_cache :=
     [(''peerAAAA'', plain_manifest ''peerAAAA'' xs, 0), (''peerBBBB'', plain_manifest ''peerBBBB'' ys, 0)]\<rparr>"

lemma suffixed_name_hijacked:
  "map fst (name_tools [''query''] [] (cached_tools (two_peers [''query_BBBB''] [''query'']))) = [''query_BBBB'', ''query_BBBB'']"
  "resolve_manifest_target ''query_BBBB'' (two_peers [''query_BBBB''] [''query'']) = Some (''peerAAAA'', ''query_BBBB'')"
  by (simp_all add: two_peers_def new_router_def cached_tools_def plain_manifest_def suffixed_name_def slice_last_def
      resolve_manifest_target_def has_tool_def)

lemma two_peers_plain: "plain_peers (two_peers xs ys)"
  by (simp add: plain_peers_def two_peers_def new_router_def)

lemma two_peers_short: "short_ids_distinct (two_peers xs ys)"
  by (auto simp: short_ids_distinct_def two_peers_def new_router_def slice_last_def)

definition sum_tool :: remote_tool where
  "sum_tool = \<lparr>mt_name = ''sum'', mt_description = None, mt_inputSchema = JUndef\<rparr>"

lemma two_sums: "cached_tools (two_peers [''sum''] [''sum'']) =
    [(''peerAAAA'', plain_manifest ''peerAAAA'' [''sum''], sum_tool), (''peerBBBB'', plain_manifest ''peerBBBB'' [''sum''], sum_tool)]"
  by (simp add: cached_tools_def two_peers_def new_router_def plain_manifest_def sum_tool_def)

theorem listed_tool_resolves_witness:
  "resolve_manifest_target ''sum_BBBB'' (two_peers [''sum''] [''sum'']) = Some (''peerBBBB'', mt_name sum_tool)"
proof (rule listed_tool_resolves [OF two_peers_plain two_peers_short, where localNames = "[]"])
  show "no_suffixed_names (two_peers [''sum''] [''sum''])"
    by (simp add: no_suffixed_names_def two_sums sum_tool_def suffixed_name_def)
  show "(''sum_BBBB'', ''peerBBBB'', plain_manifest ''peerBBBB'' [''sum''], sum_tool) \<in>
      set (name_tools [] [] (cached_tools (two_peers [''sum''] [''sum''])))"
    by (simp add: two_sums sum_tool_def suffixed_name_def slice_last_def Let_def)
qed

section \<open>Discovery\<close>

lemma skip_cache: "ro_cache (snd (should_skip_manifest_query now p R)) = ro_cache R"
  by (simp add: should_skip_manifest_query_def split: option.split)

definition cooling :: "int \<Rightarrow> router \<Rightarrow> string \<Rightarrow> bool" where
  "cooling now R p \<longleftrightarrow> (case map_of (ro_failures R) p of None \<Rightarrow> False | Some s \<Rightarrow> now < fs_cooldownUntil s)"

lemma skip_cooling: "fst (should_skip_manifest_query now p R) \<longleftrightarrow> cooling now R p"
  by (auto simp: should_skip_manifest_query_def cooling_def split: option.split)

lemma skip_keeps_cooling: "cooling now' (snd (should_skip_manifest_query now p R)) q \<longleftrightarrow> cooling now' R q"
  by (auto simp: should_skip_manifest_query_def cooling_def map_of_alist_update split: option.split)

definition fresh_entry :: "int \<Rightarrow> router \<Rightarrow> string \<Rightarrow> bool" where
  "fresh_entry now R p \<longleftrightarrow> (case map_of (ro_cache R) p of None \<Rightarrow> False | Some (m, c) \<Rightarrow> cache_fresh now c)"

lemma eligible_cases:
  assumes "eligible_peers V (p # ids) R = (ps, n, R')"
  obtains "p = mv_self V" "eligible_peers V ids R = (ps, n, R')"
  | R1 where "p \<noteq> mv_self V" "should_skip_manifest_query (mv_now V) p R = (True, R1)" "eligible_peers V ids R1 = (ps, n, R')"
  | R1 n' where "p \<noteq> mv_self V" "should_skip_manifest_query (mv_now V) p R = (False, R1)" "fresh_entry (mv_now V) R1 p"
      "eligible_peers V ids R1 = (ps, n', R')"
  | R1 qs where "p \<noteq> mv_self V" "should_skip_manifest_query (mv_now V) p R = (False, R1)" "\<not> fresh_entry (mv_now V) R1 p"
      "eligible_peers V ids R1 = (qs, n, R')" "ps = p # qs"
  using assms by (auto simp: fresh_entry_def split: if_splits prod.splits bool.splits option.splits)

lemma eligible_iff:
  "eligible_peers V ids R = (ps, n, R') \<Longrightarrow> ro_cache R' = ro_cache R \<and> (\<forall>q now. cooling now R' q \<longleftrightarrow> cooling now R q) \<and>
     set ps = {p \<in> set ids. p \<noteq> mv_self V \<and> \<not> cooling (mv_now V) R p \<and> \<not> fresh_entry (mv_now V) R p}"
proof (induction ids arbitrary: ps n R R')
  case (Cons p ids)
  have same: "ro_cache R1 = ro_cache R \<and> (\<forall>q now. cooling now R1 q \<longleftrightarrow> cooling now R q) \<and>
      (\<forall>q. fresh_entry (mv_now V) R1 q \<longleftrightarrow> fresh_entry (mv_now V) R q) \<and> (b \<longleftrightarrow> cooling (mv_now V) R p)"
    if "should_skip_manifest_query (mv_now V) p R = (b, R1)" for b R1
    using skip_keeps_cooling [of _ "mv_now V" p R] skip_cache [of "mv_now V" p R] skip_cooling [of "mv_now V" p R] that
    by (auto simp: fresh_entry_def)
  from Cons.prems show ?case
  proof (cases rule: eligible_cases)
    case 1
    with Cons.IH [OF 1(2)] show ?thesis by auto
  next
    case (2 R1)
    with Cons.IH [OF 2(3)] same [OF 2(2)] show ?thesis by auto
  next
    case (3 R1 n')
    with Cons.IH [OF 3(4)] same [OF 3(2)] show ?thesis by auto
  next
    case (4 R1 qs)
    with Cons.IH [OF 4(4)] same [OF 4(2)] show ?thesis by auto
  qed
qed simp

section \<open>What enters the cache\<close>

definition query_accepted :: "pq_env \<Rightarrow> mesh_view \<Rightarrow> string \<Rightarrow> manifest \<Rightarrow> bool" where
  "query_accepted P V p m \<longleftrightarrow> mv_query V p = QueryManifest m \<and> manifest_accepted P m"

lemma take_result_cache:
  "map_of (ro_cache (dy_router (take_result P now p res d))) q = Some e \<Longrightarrow>
     map_of (ro_cache (dy_router d)) q = Some e \<or> (q = p \<and> (\<exists>m. res = QueryManifest m \<and> manifest_accepted P m \<and> e = (m, now)))"
  by (auto simp: take_result_def record_manifest_query_success_def record_manifest_query_failure_def Let_def map_of_alist_update
      split: query_result.splits if_splits)

lemma take_results_cache:
  "map_of (ro_cache (dy_router (take_results P V ps d))) q = Some e \<Longrightarrow>
     map_of (ro_cache (dy_router d)) q = Some e \<or> (q \<in> set ps \<and> (\<exists>m. query_accepted P V q m \<and> e = (m, mv_done V)))"
proof (induction ps arbitrary: d)
  case (Cons p ps)
  from Cons.prems have "map_of (ro_cache (dy_router (take_results P V ps (take_result P (mv_done V) p (mv_query V p) d)))) q = Some e"
    by (simp add: take_results_def)
  from Cons.IH [OF this] take_result_cache [of P "mv_done V" p "mv_query V p" d q e] show ?case
    by (auto simp: query_accepted_def)
qed (simp add: take_results_def)

lemma set_insert_by: "set (insert_by le x xs) = insert x (set xs)"
  by (induction xs) auto

lemma set_sort_by: "set (sort_by le xs) = set xs"
  by (induction xs) (simp_all add: sort_by_def set_insert_by)

text \<open>C22: what a discovery adds to the cache is the answer of a remote peer that is neither fresh in the
  cache nor in its cooldown, and its signature is valid or absent; every other entry stays.\<close>

theorem discovered_manifests:
  assumes "map_of (ro_cache (refresh_manifest_cache P silent view R)) p = Some (m, c)"
    and "map_of (ro_cache R) p \<noteq> Some (m, c)"
  shows "\<exists>V. view = Some V \<and> p \<in> set (provider_ids V R) \<and> p \<noteq> mv_self V \<and> \<not> cooling (mv_now V) R p \<and>
    \<not> fresh_entry (mv_now V) R p \<and> mv_query V p = QueryManifest m \<and> c = mv_done V \<and>
    (mf_pqcSignature m \<in> {None, Some []} \<or> mf_pqcPublicKey m \<in> {None, Some []} \<or>
     verify_manifest P (mf_object m) (the (mf_pqcSignature m)) (the (mf_pqcPublicKey m)))"
proof -
  from assms obtain V where V: "view = Some V" "map_of (ro_cache (discover P V R)) p = Some (m, c)"
    by (auto simp: refresh_manifest_cache_def split: option.splits if_splits)
  obtain ps n R1 where e: "eligible_peers V (connected_first V (provider_ids V R)) R = (ps, n, R1)"
    by (cases "eligible_peers V (connected_first V (provider_ids V R)) R") auto
  from V(2) assms(2) have ne: "provider_ids V R \<noteq> []" by (auto simp: discover_def)
  have "map_of (ro_cache (dy_router (take_results P V ps \<lparr>dy_router = R1, dy_success = n, dy_errors = 0, dy_updated = False\<rparr>))) p = Some (m, c)"
    using V(2) ne by (auto simp: discover_def e Let_def split: if_splits)
  from take_results_cache [OF this] eligible_iff [OF e] assms(2) have "p \<in> set ps" "query_accepted P V p m" "c = mv_done V" by auto
  with eligible_iff [OF e] V(1) show ?thesis
    by (auto simp: connected_first_def set_sort_by query_accepted_def manifest_accepted_def truthy_string_def
        split: option.splits if_splits)
qed

definition demo_view :: mesh_view where
  "demo_view = \<lparr>mv_now = 1000, mv_done = 1005, mv_self = ''self'', mv_discover = (\<lambda>c i. [''self'', ''peerAAAA'']),
     mv_connections = (\<lambda>c. []), mv_connected = [], mv_query = (\<lambda>p. QueryManifest (plain_manifest p [''sum'']))\<rparr>"

lemma demo_providers: "provider_ids demo_view (new_router True) = [''self'', ''peerAAAA'']"
  by (simp add: provider_ids_def new_router_def demo_view_def manifest_discovery_retries_def remote_ids_def Let_def eval_nat_numeral)

lemma demo_refresh: "ro_cache (refresh_manifest_cache P True (Some demo_view) (new_router True)) = [(''peerAAAA'', plain_manifest ''peerAAAA'' [''sum''], 1005)]"
  by (simp add: refresh_manifest_cache_def discover_def demo_providers connected_first_def sort_by_def)
    (simp add: demo_view_def new_router_def should_skip_manifest_query_def take_results_def take_result_def manifest_accepted_def
      plain_manifest_def truthy_string_def record_manifest_query_success_def Let_def)

theorem discovered_manifests_witness:
  "\<exists>V. Some demo_view = Some V \<and> ''peerAAAA'' \<in> set (provider_ids V (new_router True)) \<and> ''peerAAAA'' \<noteq> mv_self V \<and>
    \<not> cooling (mv_now V) (new_router True) ''peerAAAA'' \<and> \<not> fresh_entry (mv_now V) (new_router True) ''peerAAAA'' \<and>
    mv_query V ''peerAAAA'' = QueryManifest (plain_manifest ''peerAAAA'' [''sum'']) \<and> 1005 = mv_done V \<and>
    (mf_pqcSignature (plain_manifest ''peerAAAA'' [''sum'']) \<in> {None, Some []} \<or>
     mf_pqcPublicKey (plain_manifest ''peerAAAA'' [''sum'']) \<in> {None, Some []} \<or>
     verify_manifest demo_pq_env (mf_object (plain_manifest ''peerAAAA'' [''sum'']))
       (the (mf_pqcSignature (plain_manifest ''peerAAAA'' [''sum'']))) (the (mf_pqcPublicKey (plain_manifest ''peerAAAA'' [''sum'']))))"
proof (rule discovered_manifests [where P = demo_pq_env and silent = True])
  show "map_of (ro_cache (refresh_manifest_cache demo_pq_env True (Some demo_view) (new_router True))) ''peerAAAA'' =
      Some (plain_manifest ''peerAAAA'' [''sum''], 1005)"
    by (simp add: demo_refresh)
qed (simp add: new_router_def)

text \<open>A call of a peer that is not cached stores whatever manifest the peer sends, whatever its signature.\<close>

lemma shared_token_cache: "ro_cache (snd (shared_token E R)) = ro_cache R"
  by (auto simp: shared_token_def split: option.split)

lemma agent_token_cache: "ro_cache (snd (get_or_acquire_mesh_agent_token E p R)) = ro_cache R"
  using shared_token_cache [of E R] by (auto simp: get_or_acquire_mesh_agent_token_def split: option.split)

lemma caller_token_cache: "ro_cache (snd (caller_or_agent_token E p t R)) = ro_cache R"
  using agent_token_cache [of E p R] by (auto simp: caller_or_agent_token_def split: option.split)

lemma transcoding_cache: "ro_cache (snd (perform_transcoding E rid addr n params p t R)) = ro_cache R"
  using caller_token_cache [of E p t R] by (auto simp: perform_transcoding_def split: prod.split option.split)

lemma route_stores_unverified:
  assumes "rv_mesh E" and "map_of (ro_cache R) p = None" and "rv_queryManifest E p = QueryManifest m"
  shows "map_of (ro_cache (snd (route_to_remote_provider E now rid n p params t R))) p = Some (m, now)"
  using assms by (simp add: route_to_remote_provider_def cached_manifest_def transcoding_cache map_of_alist_update)

section \<open>Failing peers\<close>

fun fail_at :: "int list \<Rightarrow> string \<Rightarrow> router \<Rightarrow> router" where
  "fail_at [] p R = R"
| "fail_at (t # ts) p R = fail_at ts p (record_manifest_query_failure t p R)"

lemma backoff_values: "1 \<le> n \<Longrightarrow> backoff n = (if n \<le> 5 then 15000 * 2 ^ (n - 1) else 300000)"
proof -
  assume n: "1 \<le> n"
  show ?thesis
  proof (cases "n \<le> 5")
    case True
    with n have "n \<in> {1, 2, 3, 4, 5}" by auto
    then show ?thesis
      by (auto simp: backoff_def manifest_failure_base_cooldown_ms_def manifest_failure_max_cooldown_ms_def)
  next
    case False
    then have "(2::int) ^ 5 \<le> 2 ^ (n - 1)" by (intro power_increasing) auto
    with False show ?thesis
      by (simp add: backoff_def manifest_failure_base_cooldown_ms_def manifest_failure_max_cooldown_ms_def min_def)
  qed
qed

lemma fail_at_state:
  assumes "map_of (ro_failures R) p = Some \<lparr>fs_failures = k, fs_cooldownUntil = c, fs_lastSkipLogAt = l\<rparr>"
  shows "map_of (ro_failures (fail_at (ts @ [t]) p R)) p =
    Some \<lparr>fs_failures = k + length ts + 1, fs_cooldownUntil = t + backoff (k + length ts + 1), fs_lastSkipLogAt = 0\<rparr>"
  using assms
proof (induction ts arbitrary: R k c l)
  case Nil
  then show ?case by (simp add: record_manifest_query_failure_def Let_def map_of_alist_update)
next
  case (Cons u ts)
  have "map_of (ro_failures (record_manifest_query_failure u p R)) p =
      Some \<lparr>fs_failures = k + 1, fs_cooldownUntil = u + backoff (k + 1), fs_lastSkipLogAt = 0\<rparr>"
    using Cons.prems by (simp add: record_manifest_query_failure_def Let_def map_of_alist_update)
  from Cons.IH [OF this] show ?case by simp
qed

text \<open>After n failures in a row, the last at time t, a peer is left alone for 15 seconds doubled with
  every failure, at most five minutes: it is skipped at a later time exactly while the time is below t plus
  that, and one success makes it eligible at once.\<close>

theorem failing_peer_cooldown:
  assumes "map_of (ro_failures R) p = None" and "ts \<noteq> []"
  shows "(fst (should_skip_manifest_query now p (fail_at ts p R)) \<longleftrightarrow>
      now < last ts + (if length ts \<le> 5 then 15000 * 2 ^ (length ts - 1) else 300000)) \<and>
    \<not> fst (should_skip_manifest_query now p (record_manifest_query_success p (fail_at ts p R)))"
proof -
  obtain us t where ts: "ts = us @ [t]" using assms(2) by (cases ts rule: rev_cases) auto
  have "map_of (ro_failures (fail_at ts p R)) p =
      Some \<lparr>fs_failures = length ts, fs_cooldownUntil = t + backoff (length ts), fs_lastSkipLogAt = 0\<rparr>"
  proof (cases us)
    case Nil
    with ts assms(1) show ?thesis by (simp add: record_manifest_query_failure_def Let_def map_of_alist_update)
  next
    case (Cons u vs)
    have "map_of (ro_failures (record_manifest_query_failure u p R)) p =
        Some \<lparr>fs_failures = 1, fs_cooldownUntil = u + backoff 1, fs_lastSkipLogAt = 0\<rparr>"
      using assms(1) by (simp add: record_manifest_query_failure_def Let_def map_of_alist_update)
    from fail_at_state [OF this, of vs t] Cons ts show ?thesis by simp
  qed
  then have "cooling now (fail_at ts p R) p \<longleftrightarrow> now < last ts + backoff (length ts)"
    by (simp add: cooling_def ts)
  moreover have "1 \<le> length ts" using ts by simp
  moreover have "\<not> cooling now (record_manifest_query_success p (fail_at ts p R)) p"
    by (simp add: cooling_def record_manifest_query_success_def)
  ultimately show ?thesis by (simp only: skip_cooling backoff_values) simp
qed

theorem failing_peer_cooldown_witness:
  "fst (should_skip_manifest_query 120099 ''p'' (fail_at [100, 20000, 60100] ''p'' (new_router True))) \<and>
   \<not> fst (should_skip_manifest_query 120100 ''p'' (fail_at [100, 20000, 60100] ''p'' (new_router True)))"
  using failing_peer_cooldown [of "new_router True" "''p''" "[100, 20000, 60100]" 120099]
    failing_peer_cooldown [of "new_router True" "''p''" "[100, 20000, 60100]" 120100]
  by (simp add: new_router_def)

section \<open>Results of remote calls\<close>

lemma verified_any_body:
  assumes "CHR 0x5C \<notin> set toolName" and "CHR 0x22 \<notin> set toolName" and "\<And>r. list_all plain_char (num r)"
    and "embedded_args E params = json_print num args"
    and "we_parse (be_worker (rv_bridge E)) (''{'' @ proxy_body toolName (embedded_args E params) @ ''}'') = Some v"
    and "truthy (prop_of v ''__liop_proxy_tool'')"
  shows "liop_verify_zk_receipt (be_worker (rv_bridge E)) (proxied_call E toolName params) i r k (JStr b) \<longleftrightarrow>
         liop_verify_zk_receipt (be_worker (rv_bridge E)) (proxied_call E toolName params) i r k (JStr b')"
proof -
  have "neutral (embedded_args E params)" unfolding assms(4) by (rule neutral_json_print) (rule assms(3))
  from extract_proxy [where parse = "we_parse (be_worker (rv_bridge E))", OF assms(1,2) this assms(5,6)]
  show ?thesis by (simp add: verify_unfold expected_digest_def proxied_call_def)
qed

text \<open>C12: the audit of a remote result binds the request, not the result: when the answer of a node to a
  tool call is accepted, so is any other answer of it with the same receipt, and with the error flag set any
  answer is accepted without a receipt; what is returned is the value the text denotes, as a success.\<close>

theorem remote_result_unbound:
  assumes "CHR 0x5C \<notin> set toolName" and "CHR 0x22 \<notin> set toolName" and "\<And>r. list_all plain_char (num r)"
    and "embedded_args E params = json_print num args"
    and "we_parse (be_worker (rv_bridge E)) (''{'' @ proxy_body toolName (embedded_args E params) @ ''}'') = Some v"
    and "truthy (prop_of v ''__liop_proxy_tool'')"
    and "finish_stream E rid (proxied_call E toolName params) k [r] \<noteq> error_result rid integrity_alert"
    and "\<not> be_poolFails (rv_bridge E)" and "se_parse (be_server (rv_bridge E)) forged = Some w"
  shows "finish_stream E rid (proxied_call E toolName params) k [r\<lparr>rp_semantic_evidence := forged\<rparr>] = success_response rid w \<and>
    finish_stream E rid (proxied_call E toolName params) k
      [\<lparr>rp_semantic_evidence = forged, rp_cryptographic_proof = [], rp_zk_receipt = [], rp_is_error = True\<rparr>] = success_response rid w"
  using assms(7-9)
    verified_any_body [OF assms(1-6), of "rp_cryptographic_proof r" "rp_zk_receipt r" "Some k" "rp_semantic_evidence r" forged]
  by (auto simp: finish_stream_def response_verified_def parsed_result_def split: if_splits)

section \<open>Answers\<close>













text \<open>The token sent to a node is chosen by what its own manifest says: by naming the slug of another node, a
  node gets the token of that one.\<close>

lemma slug_chooses_token:
  assumes "map_of (ro_cache R) p = Some (m, c)" and "mf_tokenSlug m = Some slug" and "slug \<noteq> []"
    and "rv_env E (''LIOP_TOKEN_'' @ slug) = Some secret" and "secret \<noteq> []" and "truthy_string token = None"
    and "rv_negotiate E addr = (\<lambda>header intent. Some (Inl (case header of Some h \<Rightarrow> h | None \<Rightarrow> [])))"
  shows "fst (perform_transcoding E rid addr toolName params p token R) =
    Answers (error_result rid (''PQC Handshake Failed: Bearer '' @ secret))"
  using assms by (simp add: perform_transcoding_def caller_or_agent_token_def get_or_acquire_mesh_agent_token_def cached_manifest_def
      node_token_def token_keys_def truthy_string_def negotiate_remote_def bearer_def)

section \<open>Dispatch\<close>

definition router_codes :: "int set" where
  "router_codes = {- 32601, - 32602, - 32603, - 32000, - 32002}"

definition router_response :: "jsval \<Rightarrow> jsval \<Rightarrow> bool" where
  "router_response rid v \<longleftrightarrow>
     (\<exists>res. v = success_response rid res) \<or> (\<exists>code msg. code \<in> router_codes \<and> v = bridge_error rid code msg)"

lemma router_success: "router_response rid (success_response rid res)"
  by (auto simp: router_response_def)

lemma router_error: "code \<in> router_codes \<Longrightarrow> router_response rid (bridge_error rid code msg)"
  by (auto simp: router_response_def)

lemma router_code_values: "- 32601 \<in> router_codes" "- 32602 \<in> router_codes" "- 32603 \<in> router_codes" "- 32000 \<in> router_codes" "- 32002 \<in> router_codes"
  by (simp_all add: router_codes_def)

lemmas responses = router_success router_error router_code_values

lemma for_era_response: "router_response rid v \<Longrightarrow> router_response rid (for_era method params v)"
proof -
  have "for_era method params (bridge_error rid code msg) = bridge_error rid code msg" for code msg
    by (simp add: for_era_def bridge_error_def adapt_response_for_legacy_client_def get_prop_def)
  moreover have "\<exists>res'. for_era method params (success_response rid res) = success_response rid res'" for res
    by (auto simp: for_era_def success_response_def adapt_response_for_legacy_client_def get_prop_def)
  ultimately show "router_response rid v \<Longrightarrow> router_response rid (for_era method params v)"
    unfolding router_response_def by metis
qed

lemma completed_response: "router_response rid v \<Longrightarrow> router_response rid (completed v)"
proof -
  have "completed (bridge_error rid code msg) = bridge_error rid code msg" for code msg
    by (simp add: completed_def bridge_error_def get_prop_def)
  moreover have "\<exists>res'. completed (success_response rid res) = success_response rid res'" for res
    by (cases res) (auto simp: completed_def success_response_def get_prop_def)
  ultimately show "router_response rid v \<Longrightarrow> router_response rid (completed v)"
    unfolding router_response_def by metis
qed

definition answers_well :: "jsval \<Rightarrow> outcome \<Rightarrow> bool" where
  "answers_well rid a \<longleftrightarrow> (case a of Answers v \<Rightarrow> router_response rid v | _ \<Rightarrow> True)"

lemma negotiate_response: "answers_well rid (negotiate_remote E rid addr t n params)"
  by (auto simp: answers_well_def negotiate_remote_def execute_remote_def error_result_def finish_stream_def parsed_result_def
      text_result_def responses Let_def split: sum.split prod.split option.split bool.split stream_end.split)

lemma transcoding_response: "answers_well rid (fst (perform_transcoding E rid addr n params p t R))"
  using negotiate_response by (auto simp: perform_transcoding_def answers_well_def error_result_def responses split: prod.split option.split)

lemma route_response: "answers_well rid (fst (route_to_remote_provider E now rid n p params t R))"
  using transcoding_response
  by (auto simp: route_to_remote_provider_def answers_well_def responses Let_def split: option.split query_result.split)

lemma call_remote_response: "answers_well rid (fst (call_remote E io rid n params t R))"
proof -
  have "answers_well rid (fst (call_resolved E now rid target params t R))" for now target R
    using route_response
    by (auto simp: call_resolved_def answers_well_def error_result_def responses split: prod.split option.split)
  then show ?thesis
    using route_response by (auto simp: call_remote_def Let_def answers_well_def responses split: option.split list.split prod.split)
qed

lemma call_local_response: "answers_well rid (fst (call_local E now rid n params SR)) \<and> snd (snd (call_local E now rid n params SR)) = snd SR"
  by (auto simp: call_local_def answers_well_def responses split: prod.split option.split sum.split call_error.split)

lemma call_local_step: "call_local E now rid n params SR = (a, SR') \<Longrightarrow> answers_well rid a \<and> snd SR' = snd SR"
  using call_local_response [of rid E now n params SR] by simp

lemma call_remote_step: "call_remote E io rid n params t R = (a, R') \<Longrightarrow> answers_well rid a"
  using call_remote_response [of rid E io n params t R] by simp

lemma answers_well_simps [simp]:
  "answers_well rid (Answers v) \<longleftrightarrow> router_response rid v" "answers_well rid (Rejects e)" "answers_well rid Pending"
  by (simp_all add: answers_well_def)

lemma transcode_response:
  "transcode_mcp_to_liop E io rid params t RS = (a, RS') \<Longrightarrow> answers_well rid a \<and> snd (snd RS') = snd (snd RS)"
  by (auto simp: transcode_mcp_to_liop_def text_result_def responses dest: call_local_step call_remote_step
      split: prod.splits jsval.splits if_splits)

lemma tools_call_response:
  "router_tools_call E io rid params t RS = (a, RS') \<Longrightarrow> answers_well rid a \<and> snd (snd RS') = snd (snd RS)"
  using transcode_response [of E io rid params t RS]
  by (auto simp: router_tools_call_def for_era_response completed_response split: prod.splits outcome.splits if_splits)

lemma method_responses:
  "router_response rid (router_tools_list E Reg R rid)" "router_response rid (router_resources_list E Reg R rid)"
  "router_response rid (router_prompts_list E Reg rid)" "router_response rid (router_resources_read E Reg R rid params)"
  "router_response rid (router_prompts_get E Reg rid params)" "router_response rid (router_discover E rid)"
  by (auto simp: router_tools_list_def router_resources_list_def router_prompts_list_def router_resources_read_def
      router_prompts_get_def router_discover_def Let_def responses split: sum.split option.split)

text \<open>The answer to one request: a response, the one of \<open>initialize\<close>, or nothing.\<close>

definition expected_answer :: "jsval \<Rightarrow> string \<Rightarrow> jsval \<Rightarrow> bool" where
  "expected_answer rid method v \<longleftrightarrow>
     (if method \<in> {''notifications/initialized'', ''notifications/cancelled''} then v = JNull
      else if method = ''initialize'' then \<exists>res. v = success_response (if nullish rid then JNull else rid) res
      else router_response rid v)"

lemma route_method_response:
  "route_method E io rid method params t RS = (a, RS') \<Longrightarrow>
     (case a of Answers v \<Rightarrow> expected_answer rid method v | _ \<Rightarrow> method = ''tools/call'') \<and> snd (snd RS') = snd (snd RS) \<and>
     (method \<notin> {''tools/list'', ''tools/call''} \<longrightarrow> RS' = RS)"
proof -
  assume r: "route_method E io rid method params t RS = (a, RS')"
  obtain R S Reg where RS: "RS = (R, S, Reg)" by (cases RS) auto
  show ?thesis
  proof (cases "method = ''tools/call''")
    case True
    with r RS have "router_tools_call E io rid params t RS = (a, RS')" by (simp add: route_method_def Let_def)
    from tools_call_response [OF this] True show ?thesis by (cases a) (auto simp: expected_answer_def)
  next
    case False
    have "router_response rid (success_response rid res)" for res by (rule router_success)
    with False r show ?thesis
      unfolding RS route_method_def Let_def prod.case
      by (auto simp: expected_answer_def for_era_response method_responses responses mcp_legacy_support_enabled_def
          build_legacy_initialize_response_def success_response_def split: if_splits)
  qed
qed

text \<open>C13: with a validator, a request whose method the scopes of the token do not cover is answered with the
  refusal and changes nothing; every other answer is a JSON-RPC response with the identifier of the request, a
  result or one of five error codes; only tool calls may end without an answer, and only these and the listing of tools
  change the state, never the registry.\<close>

theorem dispatch_responses:
  assumes "dispatch E io rid method params auth RS = (a, RS')"
  shows "if rv_jwt E \<and> \<not> is_allowed (authorize_request method auth None)
    then RS' = RS \<and> (a = Rejects ''methodScopes is not iterable'' \<or> (\<exists>msg. a = Answers (bridge_error rid (- 32099) msg)))
    else (case a of Answers v \<Rightarrow> expected_answer rid method v | _ \<Rightarrow> method = ''tools/call'') \<and> snd (snd RS') = snd (snd RS) \<and>
      (method \<in> {''tools/list'', ''tools/call''} \<or> RS' = RS)"
proof (cases "rv_jwt E \<and> \<not> is_allowed (authorize_request method auth None)")
  case True
  with assms show ?thesis
    by (auto simp: dispatch_def is_allowed_def split: sum.splits if_splits rbac_error.splits)
next
  case False
  with assms have "route_method E io rid method params (map_option ai_token auth) RS = (a, RS')"
    by (auto simp: dispatch_def is_allowed_def split: sum.splits if_splits)
  from route_method_response [OF this] show ?thesis unfolding if_not_P [OF False] by blast
qed


section \<open>Example\<close>

definition router_demo :: "disk_budget router_env" where
  "router_demo =
     \<lparr>rv_bridge = bridge_demo, rv_pq = demo_pq_env, rv_jwt = True, rv_mesh = True, rv_peerId = ''self'', rv_connections = 0,
      rv_bootstrapNodes = [], rv_routingTableSize = 0, rv_defaultRpcPort = 50051, rv_env = (\<lambda>k. None), rv_localIps = [],
      rv_telemetry = [], rv_fetchToken = (\<lambda>u f. None), rv_resolvePeer = (\<lambda>p. []), rv_findProviders = (\<lambda>n i. []),
      rv_queryManifest = (\<lambda>p. QueryNull), rv_encapsulate = (\<lambda>k. Some ([], [])), rv_gcmSeal = (\<lambda>k n d. d), rv_nonce = [],
      rv_negotiate = (\<lambda>a h r. Some (Inl [])), rv_execute = (\<lambda>a h r. ([], StreamEnds))\<rparr>"

definition demo_io :: request_io where
  "demo_io = \<lparr>io_now = 5, io_view = None, io_warm = [], io_expected = None, io_timeout = None\<rparr>"






theorem dispatch_responses_witness:
  "fst (dispatch router_demo demo_io (JStr ''1'') ''tools/list'' JUndef None (new_router True, demo_state, BridgeClaims.demo_registry)) =
     Answers (bridge_error (JStr ''1'') (- 32099) ''Authentication required for method: tools/list'') \<and>
   snd (dispatch router_demo demo_io (JStr ''1'') ''tools/list'' JUndef None (new_router True, demo_state, BridgeClaims.demo_registry)) =
     (new_router True, demo_state, BridgeClaims.demo_registry)"
proof -
  let ?d = "dispatch router_demo demo_io (JStr ''1'') ''tools/list'' JUndef None (new_router True, demo_state, BridgeClaims.demo_registry)"
  have a: "authorize_request ''tools/list'' None None =
      Inr \<lparr>ar_allowed = False, ar_reason = Some (''Authentication required for method: '' @ ''tools/list'')\<rparr>"
    by (simp add: authorize_request_def scope_lookup_def scope_map_def entry_is_public_def)
  have "fst ?d = Answers (bridge_error (JStr ''1'') (- 32099) ''Authentication required for method: tools/list'')"
    by (simp add: dispatch_def a or_else_def) (simp add: router_demo_def)
  moreover have "rv_jwt router_demo" by (simp add: router_demo_def)
  moreover have "\<not> is_allowed (authorize_request ''tools/list'' None None)" by (simp add: is_allowed_def a)
  ultimately show ?thesis
    using dispatch_responses [OF prod.collapse [of ?d, symmetric]] by simp
qed

lemma example_image: "image_hex example_worker p = hex_text (replicate 32 1)"
  by (simp add: image_hex_def derive_logic_image_digest_def example_digests)

lemma example_receipt_accepted:
  "liop_verify_zk_receipt example_worker p (hex_text (replicate 32 1)) example_receipt (Some k) (JStr b)"
proof -
  have j: "length (utf8 ''j'') = 1" "utf8_text (utf8 ''j'') = ''j''" by (simp add: utf8_def utf8_char_def code_of_def) simp
  have r: "example_receipt = [1] @ be16 (length (utf8 ''j'')) @ utf8 ''j'' @ replicate 32 2" by (simp add: example_receipt_def j)
  have ne: "hex_text (replicate 32 1) \<noteq> []" using length_hex_text [of "replicate 32 1"] by auto
  show ?thesis
    unfolding r
  proof (subst verify_sealed)
    show "hex_text (replicate 32 1) \<noteq> [] \<and> hex_text (replicate 32 1) = image_hex example_worker p \<and>
      (\<exists>j. we_parse example_worker (utf8_text (utf8 ''j'')) = Some j \<and> prop_of j ''image_id'' = JStr (image_hex example_worker p) \<and>
        seal_valid example_worker (Some k) (utf8 ''j'') (replicate 32 2) \<and>
        (JStr b = JUndef \<or> prop_of j ''output_hash'' = JStr (expected_digest example_worker p (JStr b))))"
      unfolding j(2) example_image using ne
      by (simp add: example_worker_def example_journal_def prop_of_def get_prop_def seal_valid_def expected_digest_def text_digest_def)
  qed (simp_all add: j)
qed

theorem remote_result_unbound_witness:
  "finish_stream router_demo JNull (proxied_call router_demo ''sum'' JUndef) [7]
      [\<lparr>rp_semantic_evidence = ''1'', rp_cryptographic_proof = hex_text (replicate 32 1), rp_zk_receipt = example_receipt,
        rp_is_error = False\<rparr>\<lparr>rp_semantic_evidence := ''2''\<rparr>] =
     success_response JNull (JObj [(''image_id'', JStr (hex_text (replicate 32 1))), (''zk_receipt'', JStr ''b64''), (''computation_result'', JNull)])"
proof -
  let ?r = "\<lparr>rp_semantic_evidence = ''1'', rp_cryptographic_proof = hex_text (replicate 32 1), rp_zk_receipt = example_receipt,
        rp_is_error = False\<rparr>"
  have w: "be_worker (rv_bridge router_demo) = example_worker" "\<not> be_poolFails (rv_bridge router_demo)"
    by (simp_all add: router_demo_def bridge_demo_def)
  have p: "se_parse (be_server (rv_bridge router_demo)) t =
      Some (JObj [(''image_id'', JStr (hex_text (replicate 32 1))), (''zk_receipt'', JStr ''b64''), (''computation_result'', JNull)])" for t
    by (simp add: router_demo_def bridge_demo_def)
  have args: "embedded_args router_demo JUndef = json_print (\<lambda>r. ''ok'') (JNum (Fin 0))"
    by (simp add: embedded_args_def router_demo_def bridge_demo_def demo_env_def)
  have parse: "we_parse (be_worker (rv_bridge router_demo)) (''{'' @ proxy_body ''sum'' (embedded_args router_demo JUndef) @ ''}'') =
      Some (JObj [(''__liop_proxy_tool'', JStr ''sum'')])"
    unfolding w by (simp add: example_worker_def)
  have ok: "finish_stream router_demo JNull (proxied_call router_demo ''sum'' JUndef) [7] [?r] \<noteq> error_result JNull integrity_alert"
    by (simp add: finish_stream_def response_verified_def w example_receipt_accepted parsed_result_def p error_result_def
        success_response_def result_props_def text_error_def)
  show ?thesis
    using remote_result_unbound [OF _ _ _ args parse _ ok w(2) p] by (simp add: plain_char_def truthy_def prop_of_def get_prop_def)
qed

end
