(* ===== verification/Jwt.thy ===== *)
theory Jwt
  imports Rbac Value Analyzer
begin

text \<open>
  The token validator of \<open>security/jwt-validator.ts\<close>: the aliases of the issuer and the claims read of
  a token. \<open>jose.jwtVerify\<close> and \<open>new URL\<close> are parameters.
\<close>

section \<open>Aliases of the issuer\<close>

definition nexus_authorities :: "string list" where
  "nexus_authorities =
     [''nexus:3000'', ''liop-nexus:3000'', ''127.0.0.1:3000'', ''localhost:3000'', ''127.0.0.1:13000'', ''localhost:13000'',
      ''127.0.0.1:13001'', ''localhost:13001'']"

definition without_slash :: "string \<Rightarrow> string" where
  "without_slash s = (if ends_with s ''/'' then butlast s else s)"

text \<open>\<open>s.replace(/^https?:\/\/[^/]+/, "")\<close>.\<close>

definition after_authority :: "string \<Rightarrow> string" where
  "after_authority s =
     (let r = (if starts_with s ''https://'' then drop 8 s else if starts_with s ''http://'' then drop 7 s else [])
      in if r \<noteq> [] \<and> hd r \<noteq> CHR ''/'' then dropWhile (\<lambda>c. c \<noteq> CHR ''/'') r else s)"

definition http :: "string \<Rightarrow> string" where "http authority = ''http://'' @ authority"

definition add_aliases :: "string \<Rightarrow> string list \<Rightarrow> string list" where
  "add_aliases suffix issuers = fold (\<lambda>a. set_add (http a @ suffix)) nexus_authorities issuers"

record jwt_payload =
  jp_sub :: "string option"
  jp_scope :: jsval
  jp_exp :: "int option"

text \<open>The host name and the port of an address, and the verification: token, issuers, audience.\<close>

record jwt_env =
  jw_url :: "string \<Rightarrow> (string \<times> string) option"
  jw_verify :: "string \<Rightarrow> string list \<Rightarrow> string \<Rightarrow> string + jwt_payload"
  jw_issuer :: string
  jw_audience :: string

definition build_issuer_aliases :: "jwt_env \<Rightarrow> string list" where
  "build_issuer_aliases J =
     (let issuers = [jw_issuer J]; cleanIssuer = without_slash (jw_issuer J) in
      case jw_url J cleanIssuer of
        None \<Rightarrow> issuers
      | Some (hostname, port) \<Rightarrow>
          if hostname @ '':'' @ (if port = [] then ''3000'' else port) \<notin> set nexus_authorities then issuers
          else
            (let pathSuffix = after_authority cleanIssuer in
             add_aliases (if pathSuffix \<noteq> [] then [] else ''/oidc'') (add_aliases pathSuffix issuers)))"

section \<open>Validation\<close>

fun split_on :: "char \<Rightarrow> string \<Rightarrow> string list" where
  "split_on d [] = [[]]"
| "split_on d (c # s) =
     (if c = d then [] # split_on d s else case split_on d s of [] \<Rightarrow> [[c]] | w # ws \<Rightarrow> (c # w) # ws)"

definition validate :: "jwt_env \<Rightarrow> string \<Rightarrow> string + auth_info" where
  "validate J token =
     (case jw_verify J token (build_issuer_aliases J) (jw_audience J) of
        Inl e \<Rightarrow> Inl e
      | Inr payload \<Rightarrow>
          Inr \<lparr>ai_token = token, ai_clientId = (case jp_sub payload of None \<Rightarrow> ''unknown'' | Some s \<Rightarrow> s),
            ai_scopes = (case jp_scope payload of JStr s \<Rightarrow> split_on CHR '' '' s | _ \<Rightarrow> []), ai_expiresAt = jp_exp payload\<rparr>)"

section \<open>The aliases are one class\<close>

definition nexus_issuers :: "string list" where
  "nexus_issuers = map http nexus_authorities @ map (\<lambda>a. http a @ ''/oidc'') nexus_authorities"

text \<open>The library splits the sixteen addresses into host and port.\<close>

definition splits_nexus :: "(string \<Rightarrow> (string \<times> string) option) \<Rightarrow> bool" where
  "splits_nexus url \<longleftrightarrow>
     list_all (\<lambda>i. case url i of None \<Rightarrow> False | Some (h, p) \<Rightarrow> p \<noteq> [] \<and> h @ '':'' @ p \<in> set nexus_authorities) nexus_issuers"

lemma set_fold_add: "set (fold (\<lambda>a. set_add (f a)) xs ys) = set ys \<union> f ` set xs"
  by (induction xs arbitrary: ys) (auto simp: set_add_def)

lemma after_nexus: "a \<in> set nexus_authorities \<Longrightarrow> after_authority (http a) = [] \<and> after_authority (http a @ ''/oidc'') = ''/oidc''"
  by (auto simp: nexus_authorities_def after_authority_def http_def)

lemma no_slash_nexus: "i \<in> set nexus_issuers \<Longrightarrow> without_slash i = i"
  by (auto simp: nexus_issuers_def nexus_authorities_def without_slash_def http_def ends_with_def)

lemma set_add_aliases: "set (add_aliases x ys) = set ys \<union> (\<lambda>a. http a @ x) ` set nexus_authorities"
  by (simp add: add_aliases_def set_fold_add)

lemma aliases_of_nexus:
  assumes "splits_nexus (jw_url J)" and "jw_issuer J \<in> set nexus_issuers"
  shows "set (build_issuer_aliases J) = set nexus_issuers"
proof -
  let ?i = "jw_issuer J"
  from assms obtain h p where hp: "jw_url J ?i = Some (h, p)" "p \<noteq> []" "h @ '':'' @ p \<in> set nexus_authorities"
    by (auto simp: splits_nexus_def list_all_iff split: option.splits)
  from assms(2) obtain a where a: "a \<in> set nexus_authorities" "?i = http a \<or> ?i = http a @ ''/oidc''"
    by (auto simp: nexus_issuers_def)
  have "set (build_issuer_aliases J) = {?i} \<union> http ` set nexus_authorities \<union> (\<lambda>a. http a @ ''/oidc'') ` set nexus_authorities"
    using a(2) after_nexus [OF a(1)] hp by (auto simp: build_issuer_aliases_def Let_def no_slash_nexus [OF assms(2)] set_add_aliases)
  with assms(2) show ?thesis by (auto simp: nexus_issuers_def)
qed

text \<open>A token of one of the sixteen addresses of the authorisation server is judged alike by validators
  configured with any of them, when the library looks only at the set of issuers.\<close>

theorem issuer_aliases_symmetric:
  assumes "splits_nexus (jw_url J)" and "jw_issuer J \<in> set nexus_issuers" and "i \<in> set nexus_issuers"
    and "\<And>xs ys. set xs = set ys \<Longrightarrow> jw_verify J token xs (jw_audience J) = jw_verify J token ys (jw_audience J)"
  shows "validate (J\<lparr>jw_issuer := i\<rparr>) token = validate J token"
proof -
  have "set (build_issuer_aliases (J\<lparr>jw_issuer := i\<rparr>)) = set (build_issuer_aliases J)"
    using aliases_of_nexus [of "J\<lparr>jw_issuer := i\<rparr>"] aliases_of_nexus [of J] assms(1-3) by simp
  from assms(4) [OF this] show ?thesis by (simp add: validate_def)
qed

text \<open>The port 443 of an https address is taken for 3000: a validator of such an issuer accepts issuers
  without transport security.\<close>

lemma https_issuer_aliased:
  assumes "jw_issuer J = ''https://localhost''" and "jw_url J ''https://localhost'' = Some (''localhost'', [])"
  shows "''http://127.0.0.1:13000'' \<in> set (build_issuer_aliases J)"
proof -
  have "''127.0.0.1:13000'' \<in> set nexus_authorities" "''localhost'' @ '':'' @ ''3000'' \<in> set nexus_authorities"
    by (simp_all add: nexus_authorities_def)
  moreover have "without_slash ''https://localhost'' = ''https://localhost''" "after_authority ''https://localhost'' = []"
    by (simp_all add: without_slash_def ends_with_def after_authority_def)
  ultimately show ?thesis
    using assms by (auto simp: build_issuer_aliases_def Let_def set_add_aliases http_def)
qed

end
