(* ===== verification/MeshNode.thy ===== *)
theory MeshNode
  imports MeshCache
begin

text \<open>
  The mesh node of \<open>mesh/node.ts\<close>: its effective configuration, the breaker for dials, the manifest
  protocol on the wire, discovery of providers, announcements, addresses of peers, the stored identity
  and the stored routing table. libp2p (dials, streams, DHT, peer store), the file system and JSON are
  parameters; one entry of a list stands for what one call of them yields.
\<close>

section \<open>Configuration\<close>

record mesh_options =
  mo_listenAddresses :: "string list option"
  mo_bootstrapNodes :: "string list option"
  mo_identityPath :: "string option"
  mo_enableWAN :: "bool option"
  mo_dhtStoragePath :: "string option"
  mo_enableAutoNAT :: "bool option"
  mo_enableRelay :: "bool option"
  mo_enableDcutr :: "bool option"
  mo_enableMdns :: "bool option"

definition or_default :: "'a option \<Rightarrow> 'a \<Rightarrow> 'a" where
  "or_default x d = (case x of None \<Rightarrow> d | Some v \<Rightarrow> v)"

text \<open>The constructor copies some of the options.\<close>

definition mesh_node_config :: "mesh_options \<Rightarrow> mesh_options" where
  "mesh_node_config c =
     \<lparr>mo_listenAddresses = Some (or_default (mo_listenAddresses c) [''/ip4/0.0.0.0/tcp/0/ws'', ''/ip4/0.0.0.0/tcp/0'']),
      mo_bootstrapNodes = Some (or_default (mo_bootstrapNodes c) []), mo_identityPath = mo_identityPath c,
      mo_enableWAN = Some (or_default (mo_enableWAN c) False), mo_dhtStoragePath = mo_dhtStoragePath c,
      mo_enableAutoNAT = None, mo_enableRelay = None, mo_enableDcutr = None, mo_enableMdns = None\<rparr>"

record services =
  sc_bootstrap :: "string list"
  sc_mdns :: bool
  sc_relay :: bool
  sc_autoNAT :: bool
  sc_dcutr :: bool
  sc_dhtProtocol :: string

definition default_bootstrap_nodes :: "string list" where
  "default_bootstrap_nodes =
     [''/dnsaddr/bootstrap.libp2p.io/p2p/QmNnooDuVkcruPhcoXdia1vAHm1qrCEYWvmqVkMBjeEbFR'',
      ''/dnsaddr/bootstrap.libp2p.io/p2p/QmQCU2EcMqAqQPR2i9bChDtGNJchTbq5TbXJJ16u19uLTa'',
      ''/dnsaddr/bootstrap.libp2p.io/p2p/QmbLHAnMoJPWSCR5Zhtx6BHJX9KiKNN6tpvbUcqanj75Nb'',
      ''/dnsaddr/bootstrap.libp2p.io/p2p/QmcZf59bWwK5XFi76CZX8cbJ4BhTzzA3gU1ZjWZcYW7dwt'']"

definition boot_nodes :: "mesh_options \<Rightarrow> string list" where
  "boot_nodes c =
     (let nodes = or_default (mo_bootstrapNodes c) [] in
      if nodes = [] \<and> or_default (mo_enableWAN c) False then default_bootstrap_nodes else nodes)"

text \<open>What \<open>start\<close> hands to libp2p.\<close>

definition start_services :: "mesh_options \<Rightarrow> services" where
  "start_services c =
     \<lparr>sc_bootstrap = boot_nodes c, sc_mdns = or_default (mo_enableMdns c) (\<not> or_default (mo_enableWAN c) False),
      sc_relay = or_default (mo_enableRelay c) True, sc_autoNAT = or_default (mo_enableAutoNAT c) True,
      sc_dcutr = or_default (mo_enableDcutr c) True,
      sc_dhtProtocol = (if or_default (mo_enableWAN c) False then ''/ipfs/kad/1.0.0'' else ''/ipfs/lan/kad/1.0.0'')\<rparr>"

text \<open>The bootstrap nodes are dialled one after the other, each at most five times; the number of the
  attempt that succeeds.\<close>

fun dial_attempts :: "(nat \<Rightarrow> bool) \<Rightarrow> nat \<Rightarrow> nat \<Rightarrow> nat option" where
  "dial_attempts dial attempt 0 = None"
| "dial_attempts dial attempt (Suc n) = (if dial attempt then Some attempt else dial_attempts dial (Suc attempt) n)"

definition dial_bootstrap :: "(string \<Rightarrow> nat \<Rightarrow> bool) \<Rightarrow> mesh_options \<Rightarrow> (string \<times> nat option) list" where
  "dial_bootstrap dial c = map (\<lambda>addr. (addr, dial_attempts (dial addr) 1 5)) (boot_nodes c)"

section \<open>State\<close>

record mesh_node =
  mn_failures :: "(string \<times> failure_state) list"
  mn_announced :: "string list"
  mn_reannouncing :: bool
  mn_hasProvider :: bool
  mn_registered :: bool

definition new_mesh_node :: mesh_node where
  "new_mesh_node = \<lparr>mn_failures = [], mn_announced = [], mn_reannouncing = False, mn_hasProvider = False, mn_registered = False\<rparr>"

definition manifest_dial_base_cooldown_ms :: int where "manifest_dial_base_cooldown_ms = 10000"
definition manifest_dial_max_cooldown_ms :: int where "manifest_dial_max_cooldown_ms = 2 * 60000"
definition manifest_dial_skip_log_throttle_ms :: int where "manifest_dial_skip_log_throttle_ms = 30000"

definition should_skip_manifest_dial :: "int \<Rightarrow> string \<Rightarrow> mesh_node \<Rightarrow> bool \<times> mesh_node" where
  "should_skip_manifest_dial now peerId N =
     (case map_of (mn_failures N) peerId of
        None \<Rightarrow> (False, N)
      | Some state \<Rightarrow>
          if fs_cooldownUntil state \<le> now then (False, N)
          else if now - fs_lastSkipLogAt state > manifest_dial_skip_log_throttle_ms then
            (True, N\<lparr>mn_failures := AList.update peerId (state\<lparr>fs_lastSkipLogAt := now\<rparr>) (mn_failures N)\<rparr>)
          else (True, N))"

definition record_manifest_dial_failure :: "int \<Rightarrow> string \<Rightarrow> mesh_node \<Rightarrow> mesh_node" where
  "record_manifest_dial_failure now peerId N =
     (let failures = (case map_of (mn_failures N) peerId of None \<Rightarrow> 0 | Some prev \<Rightarrow> fs_failures prev) + 1;
          wait = min (manifest_dial_base_cooldown_ms * 2 ^ (failures - 1)) manifest_dial_max_cooldown_ms
      in N\<lparr>mn_failures := AList.update peerId
            \<lparr>fs_failures = failures, fs_cooldownUntil = now + wait, fs_lastSkipLogAt = 0\<rparr> (mn_failures N)\<rparr>)"

definition clear_manifest_dial_failure :: "string \<Rightarrow> mesh_node \<Rightarrow> mesh_node" where
  "clear_manifest_dial_failure peerId N = N\<lparr>mn_failures := AList.delete peerId (mn_failures N)\<rparr>"

section \<open>Manifests on the wire\<close>

text \<open>The packet: the length of the payload in four bytes, the payload.\<close>

definition manifest_packet :: "bytes \<Rightarrow> bytes" where
  "manifest_packet payload = be32 (length payload) @ payload"

definition serve_manifest :: "(jsval \<Rightarrow> string) \<Rightarrow> (string \<times> jsval) list option \<Rightarrow> bytes option" where
  "serve_manifest stringify provided = map_option (\<lambda>ps. manifest_packet (utf8 (stringify (JObj ps)))) provided"

text \<open>The bytes taken from a stream: reading stops when the announced length is reached.\<close>

fun read_chunks :: "bytes \<Rightarrow> bytes list \<Rightarrow> bytes" where
  "read_chunks received [] = received"
| "read_chunks received (c # cs) =
     (if c = [] then read_chunks received cs
      else if 4 \<le> length (received @ c) \<and> 4 + read_be32 (received @ c) \<le> length (received @ c) then received @ c
      else read_chunks (received @ c) cs)"

text \<open>One attempt: the dial fails, something else fails, or a stream yields chunks and ends, by an error or
  the timeout when \<open>broken\<close>.\<close>

datatype attempt = DialError | OtherError | Stream "bytes list" bool

definition received_json :: "bytes list \<Rightarrow> bool \<Rightarrow> string option" where
  "received_json chunks broken =
     (let raw = read_chunks [] chunks in
      if broken \<and> raw = [] then None
      else if length raw < 4 then None
      else Some (utf8_text (take (read_be32 raw) (drop 4 raw))))"

definition received_manifest :: "json_parser \<Rightarrow> bytes list \<Rightarrow> bool \<Rightarrow> manifest option" where
  "received_manifest parse chunks broken =
     Option.bind (received_json chunks broken) (\<lambda>s. Option.bind (parse s) read_manifest)"

text \<open>The attempts that are left. A dial that fails at the last attempt ends the query before the failure is
  recorded.\<close>

fun query_attempts :: "json_parser \<Rightarrow> int \<Rightarrow> string \<Rightarrow> attempt list \<Rightarrow> mesh_node \<Rightarrow> manifest option \<times> mesh_node" where
  "query_attempts parse now peerId [] N = (None, N)"
| "query_attempts parse now peerId (a # as) N =
     (case (case a of Stream chunks broken \<Rightarrow> received_manifest parse chunks broken | _ \<Rightarrow> None) of
        Some m \<Rightarrow> (Some m, clear_manifest_dial_failure peerId N)
      | None \<Rightarrow>
          if as \<noteq> [] then query_attempts parse now peerId as N
          else if a = DialError then (None, N)
          else (None, record_manifest_dial_failure now peerId N))"

definition max_attempts :: nat where "max_attempts = 3"

text \<open>\<open>queryManifest\<close>; \<open>own\<close> is the manifest of this node.\<close>

definition query_manifest ::
    "json_parser \<Rightarrow> int \<Rightarrow> string \<Rightarrow> manifest option \<Rightarrow> attempt list \<Rightarrow> string \<Rightarrow> mesh_node \<Rightarrow> manifest option \<times> mesh_node" where
  "query_manifest parse now self own attempts peerId N =
     (if peerId = self then (own, N)
      else (case should_skip_manifest_dial now peerId N of
              (True, N1) \<Rightarrow> (None, N1)
            | (False, N1) \<Rightarrow> query_attempts parse now peerId (take max_attempts attempts) N1))"

section \<open>Capabilities\<close>

text \<open>What the iteration over the DHT yields next.\<close>

datatype dht_event = Found string | Finished | IdleTimeout | IterationError

definition idle_timeout_ms :: "nat \<Rightarrow> int" where
  "idle_timeout_ms connections = (if connections > 1 then 1500 else 3000)"

fun iterate_dht :: "dht_event list \<Rightarrow> string list \<Rightarrow> string list" where
  "iterate_dht (Found p # es) providers = iterate_dht es (if p \<in> set providers then providers else providers @ [p])"
| "iterate_dht es providers = providers"

definition mesh_find_providers :: "string \<Rightarrow> dht_event list \<Rightarrow> string \<Rightarrow> mesh_node \<Rightarrow> string list" where
  "mesh_find_providers self events hash N =
     (let providers = iterate_dht events [] in
      if hash \<in> set (mn_announced N) \<and> self \<notin> set providers then providers @ [self] else providers)"

definition liop_manifest_capability :: string where "liop_manifest_capability = ''liop:manifest''"
definition liop_manifest_protocol :: string where "liop_manifest_protocol = ''/liop/manifest/1.0.0''"

text \<open>The hash is remembered whether or not the DHT takes it.\<close>

definition announce_capability :: "string \<Rightarrow> mesh_node \<Rightarrow> mesh_node" where
  "announce_capability hash N = N\<lparr>mn_announced := (if hash \<in> set (mn_announced N) then mn_announced N else mn_announced N @ [hash])\<rparr>"

text \<open>A connection starts a round unless one is running or there is nothing to announce; the round ends by
  offering every hash.\<close>

definition begin_reannounce :: "mesh_node \<Rightarrow> mesh_node option" where
  "begin_reannounce N = (if mn_reannouncing N \<or> mn_announced N = [] then None else Some (N\<lparr>mn_reannouncing := True\<rparr>))"

definition end_reannounce :: "(string \<Rightarrow> bool) \<Rightarrow> mesh_node \<Rightarrow> string list \<times> mesh_node" where
  "end_reannounce provide N = (filter provide (mn_announced N), N\<lparr>mn_reannouncing := False\<rparr>)"

definition apply_handlers :: "mesh_node \<Rightarrow> mesh_node" where
  "apply_handlers N =
     (if mn_registered N then N
      else if \<not> mn_hasProvider N then N
      else announce_capability liop_manifest_capability (N\<lparr>mn_registered := True\<rparr>))"

definition register_manifest_handler :: "bool \<Rightarrow> mesh_node \<Rightarrow> mesh_node" where
  "register_manifest_handler running N =
     (let N1 = N\<lparr>mn_hasProvider := True\<rparr> in if running then apply_handlers N1 else N1)"

section \<open>Addresses\<close>

definition resolve_peer :: "(string \<times> string) list \<Rightarrow> (string \<times> string list) list \<Rightarrow> string \<Rightarrow> string list" where
  "resolve_peer connections peerStore peerId =
     (case map_of connections peerId of
        Some addr \<Rightarrow> [addr]
      | None \<Rightarrow>
          (case find (\<lambda>(p, addrs). p = peerId \<and> addrs \<noteq> []) peerStore of Some (p, addrs) \<Rightarrow> addrs | None \<Rightarrow> []))"

text \<open>The address that is dialled: the first translated one that is plain TCP.\<close>

definition is_direct_tcp :: "string \<Rightarrow> bool" where
  "is_direct_tcp a \<longleftrightarrow> js_includes a ''/tcp/'' \<and> \<not> js_includes a ''/ws''"

definition translated_target :: "(string \<Rightarrow> string option) \<Rightarrow> string list \<Rightarrow> string option" where
  "translated_target mapper addrs = find is_direct_tcp (List.map_filter (\<lambda>a. truthy_string (mapper a)) addrs)"

section \<open>Stored state\<close>

datatype identity = Stored bytes | Fresh bytes

text \<open>\<open>file\<close> is the decoded key of the file, \<open>None\<close> when it cannot be read; \<open>decode\<close> may refuse it.\<close>

definition load_or_create_identity :: "bool \<Rightarrow> bytes option \<Rightarrow> (bytes \<Rightarrow> bytes option) \<Rightarrow> bytes \<Rightarrow> identity" where
  "load_or_create_identity hasPath file decode generated =
     (if hasPath then (case Option.bind file decode of Some k \<Rightarrow> Stored k | None \<Rightarrow> Fresh generated) else Fresh generated)"

text \<open>The key that is written at the end of \<open>start\<close>, if any.\<close>

definition saved_identity :: "bool \<Rightarrow> identity \<Rightarrow> bytes option" where
  "saved_identity hasPath i = (case i of Fresh k \<Rightarrow> if hasPath then Some k else None | Stored k \<Rightarrow> None)"

definition save_routing_table :: "(string \<times> string list) list \<Rightarrow> jsval" where
  "save_routing_table peers =
     JArr (map (\<lambda>(p, addrs). JObj [(''id'', JStr p), (''addresses'', JArr (map JStr addrs))])
       (filter (\<lambda>(p, addrs). addrs \<noteq> []) peers))"

definition text_items :: "jsval list \<Rightarrow> string list option" where
  "text_items xs = those (map (\<lambda>x. case x of JStr s \<Rightarrow> Some s | _ \<Rightarrow> None) xs)"

text \<open>Entries that are incomplete or that libp2p does not accept are passed over; null ends the loop.\<close>

definition read_peer :: "(string \<Rightarrow> string list \<Rightarrow> bool) \<Rightarrow> jsval \<Rightarrow> (string \<times> string list) option" where
  "read_peer accepts v =
     (case (prop_of v ''id'', prop_of v ''addresses'') of
        (JStr p, JArr xs) \<Rightarrow>
          if p = [] then None
          else Option.bind (text_items xs) (\<lambda>addrs. if accepts p addrs then Some (p, addrs) else None)
      | _ \<Rightarrow> None)"

fun load_peers :: "(string \<Rightarrow> string list \<Rightarrow> bool) \<Rightarrow> jsval list \<Rightarrow> (string \<times> string list) list" where
  "load_peers accepts [] = []"
| "load_peers accepts (v # vs) =
     (if nullish v then []
      else case read_peer accepts v of None \<Rightarrow> load_peers accepts vs | Some p \<Rightarrow> p # load_peers accepts vs)"

definition load_routing_table :: "(string \<Rightarrow> string list \<Rightarrow> bool) \<Rightarrow> jsval option \<Rightarrow> (string \<times> string list) list" where
  "load_routing_table accepts stored = (case stored of Some (JArr xs) \<Rightarrow> load_peers accepts xs | _ \<Rightarrow> [])"

end
