(* ===== verification/Client.thy ===== *)
theory Client
  imports Router MeshNode
begin

text \<open>
  The client of \<open>client/index.ts\<close> with \<open>rpc/client.ts\<close> and the AES wrapper of \<open>rpc/crypto/aes.ts\<close>:
  connection, choice of provider and address, tokens, discovery, tool calls and resources. The mesh node,
  the remote nodes, \<open>fetch\<close>, ML-KEM and AES-GCM are parameters. A call ends with the first response:
  responses are taken to be verified in the order in which they arrive.
\<close>

section \<open>State and environment\<close>

text \<open>A gRPC client is its address and its token.\<close>

type_synonym rpc_client = "string \<times> string option"

record client =
  lc_connected :: bool
  lc_rpcClients :: "(string \<times> rpc_client) list"
  lc_manifests :: "(string \<times> manifest) list"
  lc_oauthToken :: "string option"
  lc_serverInfo :: "(string \<times> string) option"
  lc_legacy :: bool
  lc_protocolVersion :: string

definition new_client :: client where
  "new_client = \<lparr>lc_connected = False, lc_rpcClients = [], lc_manifests = [], lc_oauthToken = None, lc_serverInfo = None,
     lc_legacy = False, lc_protocolVersion = mcp_protocol_version\<rparr>"

record client_env =
  ce_env :: "string \<Rightarrow> string option"
  ce_peerId :: string
  ce_findProviders :: "string \<Rightarrow> string list"
  ce_queryManifest :: "string \<Rightarrow> manifest option"
  ce_resolvePeer :: "string \<Rightarrow> string list"
  ce_fetchToken :: "string \<Rightarrow> (string \<times> string) list \<Rightarrow> string + string"   \<comment> \<open>a failure, or the token (it may be empty)\<close>
  ce_probe :: "string \<Rightarrow> string option \<Rightarrow> string list option"            \<comment> \<open>address, header: the versions of an answer\<close>
  ce_negotiate :: "string \<Rightarrow> string option \<Rightarrow> intent_request \<Rightarrow> string + intent_response"
  ce_denial :: "intent_response \<Rightarrow> string"                              \<comment> \<open>its \<open>error_message\<close>\<close>
  ce_execute :: "string \<Rightarrow> string option \<Rightarrow> logic_request \<Rightarrow> logic_response list \<times> string option"
  ce_encapsulate :: "bytes \<Rightarrow> bytes \<times> bytes"
  ce_gcmSeal :: "bytes \<Rightarrow> bytes \<Rightarrow> bytes \<Rightarrow> bytes \<times> bytes"             \<comment> \<open>key, nonce, data: ciphertext, tag\<close>
  ce_gcmOpen :: "bytes \<Rightarrow> bytes \<Rightarrow> bytes \<Rightarrow> bytes \<Rightarrow> string + bytes"
  ce_worker :: worker_env
  ce_stringify :: "jsval \<Rightarrow> string"
  ce_pretty :: "jsval \<Rightarrow> string"

section \<open>AES-GCM\<close>

definition encrypt_payload :: "client_env \<Rightarrow> bytes \<Rightarrow> bytes \<Rightarrow> bytes \<Rightarrow> string + bytes \<times> bytes" where
  "encrypt_payload K nonce payload sharedSecret =
     (if length sharedSecret \<noteq> 32 then Inl ''Symmetric Key must be exactly 32 bytes (256 bits).''
      else (case ce_gcmSeal K sharedSecret nonce payload of (encrypted, tag) \<Rightarrow> Inr (encrypted @ tag, nonce)))"

definition decrypt_payload :: "client_env \<Rightarrow> bytes \<Rightarrow> bytes \<Rightarrow> bytes \<Rightarrow> string + bytes" where
  "decrypt_payload K buffer nonce sharedSecret =
     (if length buffer < 16 then Inl ''Invalid GCM Ciphertext; missing authentication tag length''
      else ce_gcmOpen K sharedSecret nonce (take (length buffer - 16) buffer) (drop (length buffer - 16) buffer))"

section \<open>Connection\<close>

record auth_options =
  ao_clientId :: "string option"
  ao_clientSecret :: "string option"
  ao_nexusUrl :: "string option"
  ao_audience :: "string option"
  ao_scope :: "string option"
  ao_token :: "string option"

definition default_scope :: string where
  "default_scope = ''liop:tools:call liop:tools:list liop:resources:read liop:schema:read liop:mesh:query''"

definition option_or_env :: "client_env \<Rightarrow> string option \<Rightarrow> string list \<Rightarrow> string option" where
  "option_or_env K given keys = (case truthy_string given of Some x \<Rightarrow> Some x | None \<Rightarrow> env_or (ce_env K) keys)"

definition acquire_m2m_token :: "client_env \<Rightarrow> string \<Rightarrow> string \<Rightarrow> string \<Rightarrow> string \<Rightarrow> string \<Rightarrow> string + string" where
  "acquire_m2m_token K clientId clientSecret nexusUrl audience scope =
     bind_sum (ce_fetchToken K (token_url nexusUrl)
        [(''grant_type'', ''client_credentials''), (''scope'', if scope = [] then default_scope else scope), (''resource'', audience),
         (''client_id'', clientId), (''client_secret'', clientSecret)]) (\<lambda>t.
       if t = [] then Inl ''OAuth token response did not contain an access_token.'' else Inr t)"

text \<open>A token that cannot be acquired leaves the static one in place.\<close>

definition connect_token :: "client_env \<Rightarrow> auth_options \<Rightarrow> string option" where
  "connect_token K a =
     (let staticToken = option_or_env K (ao_token a) [''LIOP_OAUTH_TOKEN'', ''LIOP_TOKEN''];
          nexusUrl = or_else (option_or_env K (ao_nexusUrl a) [''LIOP_NEXUS_URL'']) ''http://localhost:3000'';
          audience = or_else (option_or_env K (ao_audience a) [''LIOP_OAUTH_AUDIENCE'']) ''urn:liop:mesh:api'';
          scope = or_else (option_or_env K (ao_scope a) [''LIOP_OAUTH_SCOPE'']) default_scope
      in case (option_or_env K (ao_clientId a) [''LIOP_OAUTH_CLIENT_ID'', ''LIOP_CLIENT_ID''],
               option_or_env K (ao_clientSecret a) [''LIOP_OAUTH_CLIENT_SECRET'', ''LIOP_CLIENT_SECRET'']) of
           (Some clientId, Some clientSecret) \<Rightarrow>
             (case acquire_m2m_token K clientId clientSecret nexusUrl audience scope of Inr t \<Rightarrow> Some t | Inl e \<Rightarrow> staticToken)
         | _ \<Rightarrow> staticToken)"

definition client_connect :: "client_env \<Rightarrow> string option \<Rightarrow> auth_options \<Rightarrow> client \<Rightarrow> client" where
  "client_connect K address a C =
     (let token = connect_token K a; C1 = C\<lparr>lc_oauthToken := token, lc_connected := True\<rparr> in
      case truthy_string address of
        Some addr \<Rightarrow> C1\<lparr>lc_rpcClients := AList.update ''static'' (addr, token) (lc_rpcClients C1),
                        lc_serverInfo := Some (''LiopServer ('' @ addr @ '')'', ''1.0.0'')\<rparr>
      | None \<Rightarrow> C1\<lparr>lc_serverInfo := Some (''LiopServer (Mesh Alpha)'', ''1.0.0'')\<rparr>)"

text \<open>\<open>probeServerDiscover\<close>: whether the modern era was agreed.\<close>

definition probe_server_discover :: "client_env \<Rightarrow> string \<Rightarrow> client \<Rightarrow> string list \<times> client" where
  "probe_server_discover K mcpUrl C =
     (let supported = (case ce_probe K mcpUrl (bearer (lc_oauthToken C)) of None \<Rightarrow> [] | Some vs \<Rightarrow> vs) in
      if mcp_protocol_version \<in> set supported
      then (supported, C\<lparr>lc_legacy := False, lc_protocolVersion := mcp_protocol_version\<rparr>)
      else ([mcp_protocol_version_legacy], C\<lparr>lc_legacy := True, lc_protocolVersion := mcp_protocol_version_legacy\<rparr>))"

section \<open>Addresses\<close>

fun declared_ip :: "string list \<Rightarrow> string option" where
  "declared_ip [] = None"
| "declared_ip (w # ws) = (if w = ''ip4'' then (case ws of [] \<Rightarrow> None | x # xs \<Rightarrow> Some x) else declared_ip ws)"

definition routable :: "string \<Rightarrow> bool" where
  "routable ip \<longleftrightarrow> ip \<noteq> ''127.0.0.1'' \<and> \<not> starts_with ip ''127.'' \<and> ip \<noteq> ''0.0.0.0'' \<and> ip \<noteq> ''localhost''"

definition select_optimal_ip :: "string list \<Rightarrow> string option" where
  "select_optimal_ip addrs =
     (let ips = List.map_filter (\<lambda>a. declared_ip (split_slash a)) addrs in
      case find routable ips of Some ip \<Rightarrow> Some ip | None \<Rightarrow> (case ips of [] \<Rightarrow> None | ip # rest \<Rightarrow> Some ip))"

definition resolve_capability :: "client_env \<Rightarrow> string \<Rightarrow> client \<Rightarrow> string + string \<times> client" where
  "resolve_capability K toolName C =
     (case ce_findProviders K toolName of
        [] \<Rightarrow> Inl (''Kademlia DHT found zero providers for capability: '' @ toolName)
      | providerId # ps \<Rightarrow>
          (let manifest = ce_queryManifest K providerId;
               grpcPort = (case manifest of None \<Rightarrow> 50051 | Some m \<Rightarrow> mf_grpcPort m);
               C1 = (case manifest of None \<Rightarrow> C | Some m \<Rightarrow> C\<lparr>lc_manifests := AList.update providerId m (lc_manifests C)\<rparr>)
           in Inr (at_port (case select_optimal_ip (ce_resolvePeer K providerId) of None \<Rightarrow> ''127.0.0.1'' | Some ip \<Rightarrow> ip) grpcPort, C1)))"

section \<open>Discovery\<close>

definition fetch_manifest :: "client_env \<Rightarrow> bool \<Rightarrow> string \<Rightarrow> client \<Rightarrow> manifest option \<times> client" where
  "fetch_manifest K forceRefresh peerId C =
     (case (if forceRefresh then None else map_of (lc_manifests C) peerId) of
        Some m \<Rightarrow> (Some m, C)
      | None \<Rightarrow>
          (case ce_queryManifest K peerId of
             None \<Rightarrow> (None, C)
           | Some m \<Rightarrow> (Some m, C\<lparr>lc_manifests := AList.update peerId m (lc_manifests C)\<rparr>)))"

fun merge_tools :: "remote_tool list \<Rightarrow> (string \<times> string option) list \<Rightarrow> (string \<times> string option) list" where
  "merge_tools [] tools = tools"
| "merge_tools (t # ts) tools =
     merge_tools ts (if mt_name t \<in> fst ` set tools then tools else tools @ [(mt_name t, mt_description t)])"

fun discover_from :: "client_env \<Rightarrow> bool \<Rightarrow> string list \<Rightarrow> (string \<times> string option) list \<Rightarrow> client \<Rightarrow> (string \<times> string option) list \<times> client" where
  "discover_from K forceRefresh [] tools C = (tools, C)"
| "discover_from K forceRefresh (p # ps) tools C =
     (case fetch_manifest K forceRefresh p C of
        (None, C1) \<Rightarrow> discover_from K forceRefresh ps tools C1
      | (Some m, C1) \<Rightarrow> discover_from K forceRefresh ps (merge_tools (mf_tools m) tools) C1)"

definition discover_tools :: "client_env \<Rightarrow> bool \<Rightarrow> client \<Rightarrow> string + (string \<times> string option) list \<times> client" where
  "discover_tools K forceRefresh C =
     (if \<not> lc_connected C then Inl ''Client must be connected before discovering tools.''
      else Inr (discover_from K forceRefresh (ce_findProviders K liop_manifest_capability) [] C))"

section \<open>Clients of remote nodes\<close>

text \<open>The manifest for a key, which is a peer or the name of a tool, with the peer.\<close>

definition manifest_for :: "string \<Rightarrow> client \<Rightarrow> string \<times> manifest option" where
  "manifest_for key C =
     (case map_of (lc_manifests C) key of
        Some m \<Rightarrow> (key, Some m)
      | None \<Rightarrow>
          (case find (\<lambda>(p, m). has_tool m key) (lc_manifests C) of Some (p, m) \<Rightarrow> (p, Some m) | None \<Rightarrow> (key, None)))"

definition client_token :: "client_env \<Rightarrow> string \<Rightarrow> client \<Rightarrow> string option" where
  "client_token K key C =
     (case manifest_for key C of
        (realPeerId, m) \<Rightarrow>
          (let slugToken = (case Option.bind m (\<lambda>x. truthy_string (mf_tokenSlug x)) of
                 Some slug \<Rightarrow> env_or (ce_env K) (token_keys slug) | None \<Rightarrow> None);
               idToken = (if realPeerId = [] then None else env_or (ce_env K) (token_keys (js_upper (slice_last 8 realPeerId))));
               nameToken = (if provider_name m = [] then None else env_or (ce_env K) (token_keys (clean_name (provider_name m))))
           in case slugToken of Some t \<Rightarrow> Some t
              | None \<Rightarrow> (case idToken of Some t \<Rightarrow> Some t
                | None \<Rightarrow> (case nameToken of Some t \<Rightarrow> Some t | None \<Rightarrow> lc_oauthToken C))))"

definition get_or_create_rpc_client :: "client_env \<Rightarrow> string \<Rightarrow> string \<Rightarrow> client \<Rightarrow> rpc_client \<times> client" where
  "get_or_create_rpc_client K key address C =
     (case map_of (lc_rpcClients C) key of
        Some c \<Rightarrow> (c, C)
      | None \<Rightarrow>
          (let c = (address, client_token K key C)
           in (c, C\<lparr>lc_rpcClients := AList.update key c (lc_rpcClients C)\<rparr>)))"

section \<open>Tool calls\<close>

text \<open>The fast path over the cached manifests: the first provider that has a client or an address.\<close>

fun cached_provider :: "client_env \<Rightarrow> string \<Rightarrow> (string \<times> manifest) list \<Rightarrow> client \<Rightarrow> (string \<times> rpc_client \<times> client) option" where
  "cached_provider K toolName [] C = None"
| "cached_provider K toolName ((p, m) # others) C =
     (if \<not> has_tool m toolName then cached_provider K toolName others C
      else
        (case map_of (lc_rpcClients C) p of
           Some c \<Rightarrow> Some (p, c, C)
         | None \<Rightarrow>
             (case select_optimal_ip (ce_resolvePeer K p) of
                Some ip \<Rightarrow> (case get_or_create_rpc_client K p (at_port ip (mf_grpcPort m)) C of (c, C1) \<Rightarrow> Some (p, c, C1))
              | None \<Rightarrow> cached_provider K toolName others C)))"

text \<open>The client for a tool and the key it is evicted under.\<close>

definition select_client :: "client_env \<Rightarrow> string \<Rightarrow> client \<Rightarrow> string + string \<times> rpc_client \<times> client" where
  "select_client K toolName C =
     (case map_of (lc_rpcClients C) ''static'' of
        Some c \<Rightarrow> Inr (''static'', c, C)
      | None \<Rightarrow>
          (case map_of (lc_rpcClients C) toolName of
             Some c \<Rightarrow> Inr (''static'', c, C)
           | None \<Rightarrow>
               (case cached_provider K toolName (lc_manifests C) C of
                  Some r \<Rightarrow> Inr r
                | None \<Rightarrow>
                    bind_sum (resolve_capability K toolName C) (\<lambda>(addr, C1).
                      case get_or_create_rpc_client K toolName addr C1 of (c, C2) \<Rightarrow> Inr (toolName, c, C2)))))"

text \<open>Every input is sealed under a nonce of its own, which precedes it.\<close>

definition seal_inputs :: "client_env \<Rightarrow> bytes \<Rightarrow> (nat \<Rightarrow> bytes) \<Rightarrow> (string \<times> jsval) list \<Rightarrow> (string \<times> bytes) list" where
  "seal_inputs K secret nonces ps =
     map (\<lambda>(i, k, v). case ce_gcmSeal K secret (nonces i) (utf8 (ce_stringify K v)) of
            (encrypted, tag) \<Rightarrow> (k, nonces i @ encrypted @ tag)) (enumerate 0 ps)"

definition client_request ::
    "client_env \<Rightarrow> bytes \<Rightarrow> (nat \<Rightarrow> bytes) \<Rightarrow> intent_response \<Rightarrow> jsval \<Rightarrow> bytes \<Rightarrow> string + logic_request \<times> bytes" where
  "client_request K nonce nonces r arguments payload =
     (if length (ir_kyber_public_key r) \<noteq> kyber_public_key_bytes then
        Inl ''Failed to perform PQC encapsulation: Kyber768 Public Key must be exactly 1184 bytes.''
      else
        (case ce_encapsulate K (ir_kyber_public_key r) of (ciphertext, secret) \<Rightarrow>
           bind_sum (encrypt_payload K nonce payload secret) (\<lambda>(wasm, n).
             Inr (\<lparr>lq_session_token = ir_session_token r, lq_wasm_binary = wasm,
                    lq_inputs = seal_inputs K secret nonces (object_entries arguments),
                    lq_pqc_ciphertext = ciphertext, lq_aes_nonce = Some n\<rparr>, secret))))"

definition integrity_violation :: string where
  "integrity_violation = ''PROTOCOL INTEGRITY VIOLATION: ZK-Receipt verification failed.''"

definition client_result :: "client_env \<Rightarrow> bytes \<Rightarrow> bytes \<Rightarrow> logic_response \<Rightarrow> string + call_result" where
  "client_result K payload secret r =
     (if \<not> rp_is_error r \<and>
         \<not> liop_verify_zk_receipt (ce_worker K) payload (rp_cryptographic_proof r) (rp_zk_receipt r) (Some secret)
             (JStr (rp_semantic_evidence r))
      then Inl integrity_violation
      else Inr \<lparr>cr_content = [rp_semantic_evidence r], cr_isError = rp_is_error r\<rparr>)"

definition evict_client :: "string \<Rightarrow> string \<Rightarrow> client \<Rightarrow> client" where
  "evict_client key toolName C = C\<lparr>lc_rpcClients := AList.delete toolName (AList.delete key (lc_rpcClients C))\<rparr>"

definition finish_call :: "client_env \<Rightarrow> bytes \<Rightarrow> bytes \<Rightarrow> logic_response list \<times> string option \<Rightarrow> string + call_result" where
  "finish_call K payload secret stream =
     (case stream of
        (r # rs, e) \<Rightarrow> client_result K payload secret r
      | ([], Some e) \<Rightarrow> Inl e
      | ([], None) \<Rightarrow> Inl ''Logic-on-Origin stream closed without results.'')"

definition run_remote ::
    "client_env \<Rightarrow> bytes \<Rightarrow> (nat \<Rightarrow> bytes) \<Rightarrow> string \<Rightarrow> string \<times> rpc_client \<times> client \<Rightarrow> jsval \<Rightarrow> bytes \<Rightarrow> (string + call_result) \<times> client" where
  "run_remote K nonce nonces toolName target arguments payload =
     (case target of (key, (addr, token), C) \<Rightarrow>
        (case ce_negotiate K addr (bearer token) \<lparr>iq_agent_did = ''did:liop:'' @ ce_peerId K, iq_capability_hash = toolName\<rparr> of
           Inl e \<Rightarrow> (Inl e, C)
         | Inr r \<Rightarrow>
             if \<not> ir_accepted r then (Inl (''Intent denied by host: '' @ ce_denial K r), C)
             else
               (case client_request K nonce nonces r arguments payload of
                  Inl e \<Rightarrow> (Inl e, C)
                | Inr (request, secret) \<Rightarrow>
                    (let stream = ce_execute K addr (bearer token) request
                     in (finish_call K payload secret stream, if snd stream = None then C else evict_client key toolName C)))))"

definition client_call_tool ::
    "client_env \<Rightarrow> bytes \<Rightarrow> (nat \<Rightarrow> bytes) \<Rightarrow> string \<Rightarrow> jsval \<Rightarrow> bytes option \<Rightarrow> client \<Rightarrow> (string + call_result) \<times> client" where
  "client_call_tool K nonce nonces toolName arguments payload C =
     (if \<not> lc_connected C then (Inl ''Client must be connected before calling tools.'', C)
      else
        (case select_client K toolName C of
           Inl e \<Rightarrow> (Inl e, C)
         | Inr target \<Rightarrow> run_remote K nonce nonces toolName target arguments (case payload of None \<Rightarrow> [] | Some p \<Rightarrow> p)))"

section \<open>Resources\<close>

definition client_read_resource :: "client_env \<Rightarrow> string \<Rightarrow> client \<Rightarrow> string + string \<times> string \<times> string" where
  "client_read_resource K uri C =
     (if \<not> lc_connected C then Inl ''Client must be connected before reading resources.''
      else
        (case ce_findProviders K uri of
           [] \<Rightarrow> Inl (''No mesh providers found for resource: '' @ uri)
         | p # ps \<Rightarrow>
             (case ce_queryManifest K p of
                None \<Rightarrow> Inl ''Target peer did not return a valid LIOP Manifest.''
              | Some m \<Rightarrow>
                  (case find (\<lambda>r. mr_uri r = uri) (mf_resources m) of
                     None \<Rightarrow> Inl (''Resource '' @ uri @ '' not listed in remote manifest.'')
                   | Some r \<Rightarrow> Inr (uri, or_else (mr_mimeType r) ''application/json'', ce_pretty K (snd (resource_object r)))))))"

end
