(* ===== verification/ClientClaims.thy ===== *)
theory ClientClaims
  imports Client GrpcClaims
begin

text \<open>
  The client and the mesh node: manifests arrive as they were sent, stored peers return, an honest
  node's result is delivered, and which token and address a client uses.
\<close>

section \<open>Manifests on the wire\<close>

definition packet_complete :: "bytes \<Rightarrow> bool" where
  "packet_complete b \<longleftrightarrow> 4 \<le> length b \<and> 4 + read_be32 b \<le> length b"

lemma read_chunks_prefix: "\<exists>s. read_chunks r cs @ s = r @ concat cs"
proof (induction r cs rule: read_chunks.induct)
  case (2 r c cs)
  then show ?case by (auto split: if_splits)
qed simp

lemma read_chunks_complete: "packet_complete (r @ concat cs) \<Longrightarrow> packet_complete (read_chunks r cs)"
proof (induction r cs rule: read_chunks.induct)
  case (2 r c cs)
  then show ?case by (auto simp: packet_complete_def split: if_splits)
qed simp

text \<open>However the packet of a manifest is cut into chunks, and whatever follows it, the payload is read, even
  when the stream breaks after it.\<close>

theorem manifest_wire_roundtrip:
  assumes "concat chunks = manifest_packet (utf8 text) @ rest" and "length (utf8 text) < 2 ^ 32"
  shows "received_json chunks broken = Some text"
proof -
  let ?u = "utf8 text" and ?r = "read_chunks [] chunks"
  have w: "concat chunks = be32 (length ?u) @ ?u @ rest" using assms(1) by (simp add: manifest_packet_def)
  have n: "read_be32 (be32 (length ?u) @ ?u @ rest) = length ?u"
    unfolding read_be32_be32 using assms(2) by (rule mod_less)
  have "packet_complete ([] @ concat chunks)" unfolding packet_complete_def w append_Nil n by simp
  then have c: "packet_complete ?r" by (rule read_chunks_complete)
  obtain s where s: "?r @ s = be32 (length ?u) @ ?u @ rest" using read_chunks_prefix [of "[]" chunks] w by auto
  from c have l: "4 \<le> length ?r" by (simp add: packet_complete_def)
  have rn: "read_be32 ?r = length ?u" unfolding read_be32_append [OF l, of s, symmetric] s by (rule n)
  from c have m: "4 + length ?u \<le> length ?r" unfolding packet_complete_def rn by simp
  have "take (length ?u) (drop 4 ?r) = take (length ?u) (drop 4 (?r @ s))" using m by simp
  also have "\<dots> = ?u" unfolding s by simp
  finally have "take (read_be32 ?r) (drop 4 ?r) = ?u" unfolding rn .
  moreover have "?r \<noteq> []" using l by auto
  ultimately show ?thesis using l by (simp add: received_json_def Let_def)
qed

section \<open>The mesh node\<close>

text \<open>The constructor drops the switches of the services, so they are fixed by the kind of network.\<close>

lemma service_options_dropped:
  "start_services (mesh_node_config c) = start_services (mesh_node_config
     (c\<lparr>mo_enableAutoNAT := a, mo_enableRelay := r, mo_enableDcutr := d, mo_enableMdns := m\<rparr>))"
  by (simp add: mesh_node_config_def)

text \<open>The breaker for dials never counts a dial that fails.\<close>

lemma dial_errors_uncounted: "query_attempts parse now p (replicate n DialError) N = (None, N)"
  by (induction n) auto

lemma iterate_dht_distinct: "distinct ps \<Longrightarrow> distinct (iterate_dht es ps)"
  by (induction es ps rule: iterate_dht.induct) auto

lemma iterate_dht_set: "set (iterate_dht es ps) = set ps \<union> {p. Found p \<in> set (takeWhile (\<lambda>e. \<exists>p. e = Found p) es)}"
  by (induction es ps rule: iterate_dht.induct) auto

text \<open>Every provider once, in the order of the DHT, this node among them when it announced the
  capability.\<close>

lemma providers_found:
  "distinct (mesh_find_providers self es h N)"
  "h \<in> set (mn_announced N) \<Longrightarrow> self \<in> set (mesh_find_providers self es h N)"
  "p \<noteq> self \<Longrightarrow> p \<in> set (mesh_find_providers self es h N) \<longleftrightarrow> Found p \<in> set (takeWhile (\<lambda>e. \<exists>p. e = Found p) es)"
  using iterate_dht_distinct [of "[]" es] iterate_dht_set [of es "[]"]
  by (auto simp: mesh_find_providers_def Let_def)

lemma those_texts: "text_items (map JStr xs) = Some xs"
  by (induction xs) (simp_all add: text_items_def)

text \<open>The peers with an address return when the stored table is read again.\<close>

lemma routing_table_roundtrip:
  assumes "list_all (\<lambda>(p, addrs). p \<noteq> [] \<and> okPeer p addrs) peers"
  shows "load_routing_table okPeer (Some (save_routing_table peers)) = filter (\<lambda>(p, addrs). addrs \<noteq> []) peers"
proof -
  have "load_peers okPeer (map (\<lambda>(p, addrs). JObj [(''id'', JStr p), (''addresses'', JArr (map JStr addrs))]) ps) = ps"
    if "list_all (\<lambda>(p, addrs). p \<noteq> [] \<and> okPeer p addrs) ps" for ps
    using that by (induction ps) (auto simp: nullish_def read_peer_def prop_of_def get_prop_def those_texts)
  moreover have "list_all (\<lambda>(p, addrs). p \<noteq> [] \<and> okPeer p addrs) (filter (\<lambda>(p, addrs). addrs \<noteq> []) peers)"
    using assms by (auto simp: list_all_iff)
  ultimately show ?thesis by (simp add: load_routing_table_def save_routing_table_def)
qed

text \<open>Announcements are kept and repeated in every round.\<close>

lemma announced_again:
  "h \<in> set (mn_announced N) \<Longrightarrow> h \<in> set (mn_announced (announce_capability h' N))"
  "begin_reannounce N = Some N' \<Longrightarrow> end_reannounce (\<lambda>h. True) N' = (mn_announced N, N)"
  by (auto simp: announce_capability_def begin_reannounce_def end_reannounce_def split: if_splits)

section \<open>Tokens and addresses of the client\<close>

text \<open>For a peer with a cached manifest the client chooses the token the router chooses.\<close>

lemma client_and_router_tokens_agree:
  assumes "map_of (lc_manifests C) p = Some m" and "map_of (ro_cache R) p = Some (m, c)" and "p \<noteq> []"
  shows "client_token K p C = (case node_token (ce_env K) p (cached_manifest p R) of Some t \<Rightarrow> Some t | None \<Rightarrow> lc_oauthToken C)"
  using assms by (auto simp: client_token_def manifest_for_def node_token_def cached_manifest_def Let_def split: option.split)

text \<open>A loopback address is chosen only when no other address is announced.\<close>

lemma loopback_is_last:
  assumes "select_optimal_ip addrs = Some ip" and "\<not> routable ip"
  shows "list_all (\<lambda>a. case declared_ip (split_slash a) of None \<Rightarrow> True | Some x \<Rightarrow> \<not> routable x) addrs"
proof -
  let ?ips = "List.map_filter (\<lambda>a. declared_ip (split_slash a)) addrs"
  have "find routable ?ips = None"
  proof (rule ccontr)
    assume "find routable ?ips \<noteq> None"
    then obtain x where "find routable ?ips = Some x" by auto
    with assms show False by (auto simp: select_optimal_ip_def find_Some_iff)
  qed
  then have "\<forall>x \<in> set ?ips. \<not> routable x" by (simp add: find_None_iff)
  then show ?thesis by (force simp: list_all_iff List.map_filter_def split: option.split)
qed

section \<open>An honest node\<close>

lemma tag_parts: "length t = 16 \<Longrightarrow> auth_tag (c @ t) = t \<and> without_tag (c @ t) = c"
  by (simp add: auth_tag_def without_tag_def)

text \<open>What the client needs of the node it talks to: the two calls are those of the server's model, and what is
  sealed of the payload under the shared secret opens.\<close>

definition talks_to ::
    "client_env \<Rightarrow> string \<Rightarrow> string option \<Rightarrow> string \<Rightarrow> 'f grpc_env \<Rightarrow> call_io \<Rightarrow> call_io \<Rightarrow> 'f grpc_state \<Rightarrow> bool" where
  "talks_to K addr token toolName E io0 io S0 \<longleftrightarrow>
     (let intent = \<lparr>iq_agent_did = ''did:liop:'' @ ce_peerId K, iq_capability_hash = toolName\<rparr>;
          offer = negotiate_intent E io0 (bearer token) intent S0
      in ce_negotiate K addr (bearer token) intent = (case fst offer of Inl (code, msg) \<Rightarrow> Inl msg | Inr r \<Rightarrow> Inr r) \<and>
         (\<forall>request. ce_execute K addr (bearer token) request =
            (case execute_logic E io (bearer token) request (snd offer) of
               None \<Rightarrow> ([], None)
             | Some (Inl (code, msg), S) \<Rightarrow> ([], Some msg)
             | Some (Inr resp, S) \<Rightarrow> ([resp], None))))"

definition shares_secret :: "client_env \<Rightarrow> 'f grpc_env \<Rightarrow> call_io \<Rightarrow> bytes \<Rightarrow> bool" where
  "shares_secret K E io0 m \<longleftrightarrow>
     ce_worker K = ge_worker E \<and> length (ci_public_key io0) = kyber_public_key_bytes \<and>
     (case ce_encapsulate K (ci_public_key io0) of (ct, ss) \<Rightarrow>
        length ss = 32 \<and> we_kem_decap (ge_worker E) ct (ci_secret_key io0) = Inr ss) \<and>
     (\<forall>k n. case ce_gcmSeal K k n m of (c, t) \<Rightarrow> length t = 16 \<and> we_gcm_open (ge_worker E) k n c t = Inr m)"

text \<open>The output as the model of the server returns it: a tree the sanitizer leaves alone, a text or an object
  whose JSON reads back, and no proxy request.\<close>

definition plain_output :: "'f grpc_env \<Rightarrow> jsval \<Rightarrow> bool" where
  "plain_output E out \<longleftrightarrow>
     renumber (sanitize_number default_config (se_round (ge_server E))) out = out \<and>
     ((\<exists>s. out = JStr s) \<or>
      (\<exists>d. is_object out \<and> se_parse (ge_server E) (se_stringify (ge_server E) out) = Some d \<and> d \<noteq> JNull)) \<and>
     (\<forall>d. se_parse (ge_server E) (output_text (se_stringify (ge_server E)) out) = Some d \<longrightarrow>
        \<not> truthy (prop_of d ''__liop_proxy_tool''))"

definition journal_reads_back :: "'f grpc_env \<Rightarrow> worker_data \<Rightarrow> logic_result \<Rightarrow> int \<Rightarrow> bool" where
  "journal_reads_back E d r ts \<longleftrightarrow>
     (let j = journal_of (ge_worker E) (lr_image_id r) (dataset_hash (ge_worker E) d) (lr_output r) (lr_fuel_consumed r) ts
      in we_parse (ge_worker E) (we_stringify (ge_worker E) j) = Some j)"

text \<open>C4: a call of the client at an honest node: when the node executes the logic without error, the client gets
  the evidence of that execution, and its verification succeeds; and when somebody on the way replaces the evidence,
  the client returns it only if it has the same digest, and otherwise reports a violation of integrity. The logic is
  its own normal form and no proxied request; its output is a text or an object (not a bare number) that the sanitizer
  leaves alone and that is no proxy request; JSON reads the output and the journal back; client and node share a
  secret, what the client seals opens, and digests and seals have their lengths.\<close>

theorem honest_call_delivers:
  assumes node: "talks_to K addr token toolName E io0 io S0" and secret: "shares_secret K E io0 payload"
    and offer: "negotiate_intent E io0 (bearer token) \<lparr>iq_agent_did = ''did:liop:'' @ ce_peerId K, iq_capability_hash = toolName\<rparr> S0 = (Inr offer, S)"
    and request: "client_request K nonce nonces offer arguments payload = Inr (request, ss)"
    and answer: "execute_logic E io (bearer token) request S = Some (Inr resp, S')" "\<not> rp_is_error resp"
    and run: "map_of (gs_sessions S) (lq_session_token request) = Some session"
      "process_logic_execution (ge_worker E) (worker_task E session request (session_policy session S)) (ci_now io) (ci_ts io) = Some (Inr r)"
    and stable: "stable_payload payload" "try_extract_proxy_output (we_parse (ge_worker E)) payload = None"
    and out: "plain_output E (lr_output r)" "se_stringify (ge_server E) = we_stringify (ge_worker E)"
      "journal_reads_back E (worker_task E session request (session_policy session S)) r (ci_ts io)"
    and digests: "\<And>m. length (we_hmac (ge_worker E) ss m) = 32" "\<And>m. 0 < length (we_sha256 (ge_worker E) m)"
  shows "fst (run_remote K nonce nonces toolName (key, (addr, token), C) arguments payload) =
      Inr \<lparr>cr_content = [rp_semantic_evidence resp], cr_isError = False\<rparr> \<and>
    fst (run_remote (K\<lparr>ce_execute := (\<lambda>a h q. ([resp\<lparr>rp_semantic_evidence := forged\<rparr>], None))\<rparr>)
        nonce nonces toolName (key, (addr, token), C) arguments payload) =
      (if text_digest (we_sha256 (ge_worker E)) forged = text_digest (we_sha256 (ge_worker E)) (rp_semantic_evidence resp)
       then Inr \<lparr>cr_content = [forged], cr_isError = False\<rparr> else Inl integrity_violation)"
proof -
  obtain ct ss' where e: "ce_encapsulate K (ci_public_key io0) = (ct, ss')" by (cases "ce_encapsulate K (ci_public_key io0)")
  obtain c t where g: "ce_gcmSeal K ss' nonce payload = (c, t)" by (cases "ce_gcmSeal K ss' nonce payload")
  from secret e have k: "length ss' = 32" "we_kem_decap (ge_worker E) ct (ci_secret_key io0) = Inr ss'"
      "length (ci_public_key io0) = kyber_public_key_bytes" "ce_worker K = ge_worker E"
    by (simp_all add: shares_secret_def)
  from secret have "\<forall>k n. case ce_gcmSeal K k n payload of (c, t) \<Rightarrow> length t = 16 \<and> we_gcm_open (ge_worker E) k n c t = Inr payload"
    unfolding shares_secret_def by (elim conjE)
  then have "case ce_gcmSeal K ss' nonce payload of (c, t) \<Rightarrow> length t = 16 \<and> we_gcm_open (ge_worker E) ss' nonce c t = Inr payload"
    by (elim allE)
  with g have gcm: "length t = 16" "we_gcm_open (ge_worker E) ss' nonce c t = Inr payload" by simp_all
  from offer have o: "ir_accepted offer" "ir_session_token offer = ci_uuid io0" "ir_kyber_public_key offer = ci_public_key io0"
      and sess: "\<exists>h. map_of (gs_sessions S) (ci_uuid io0) = Some \<lparr>sn_capability_hash = toolName, sn_kyber_sk = ci_secret_key io0,
         sn_agent_did = ''did:liop:'' @ ce_peerId K, sn_tokenHash = h, sn_createdAt = ci_now io0\<rparr>"
    by (auto simp: negotiate_intent_def split: prod.splits sum.splits)
  from request have r: "request = \<lparr>lq_session_token = ci_uuid io0, lq_wasm_binary = c @ t,
       lq_inputs = seal_inputs K ss' nonces (object_entries arguments), lq_pqc_ciphertext = ct, lq_aes_nonce = Some nonce\<rparr>" and ss: "ss = ss'"
    by (auto simp: client_request_def o k e encrypt_payload_def g split: if_splits)
  from run(1) sess r have sk: "sn_kyber_sk session = ci_secret_key io0" by auto
  have v: "liop_verify_zk_receipt (ge_worker E) payload (rp_cryptographic_proof resp) (rp_zk_receipt resp) (Some ss)
     (JStr (rp_semantic_evidence resp))"
  proof (rule evidence_verifies_against_receipt [OF answer run(1) _ _ stable run(2)])
    show "we_kem_decap (ge_worker E) (lq_pqc_ciphertext request) (sn_kyber_sk session) = Inr ss" by (simp add: r sk k ss)
    show "we_gcm_open (ge_worker E) ss (case lq_aes_nonce request of None \<Rightarrow> replicate 12 0 | Some n \<Rightarrow> n)
        (without_tag (lq_wasm_binary request)) (auth_tag (lq_wasm_binary request)) = Inr payload"
      by (simp add: r tag_parts gcm ss)
  qed (use out digests in \<open>simp_all add: plain_output_def journal_reads_back_def Let_def\<close>)
  have "ce_negotiate K addr (bearer token) \<lparr>iq_agent_did = ''did:liop:'' @ ce_peerId K, iq_capability_hash = toolName\<rparr> = Inr offer"
    "ce_execute K addr (bearer token) request = ([resp], None)"
    using node offer answer(1) by (simp_all add: talks_to_def Let_def)
  moreover have "client_request (K\<lparr>ce_execute := f\<rparr>) nonce nonces offer arguments payload = Inr (request, ss)" for f
  proof -
    have "encrypt_payload (K\<lparr>ce_execute := f\<rparr>) n m k = encrypt_payload K n m k" for n m k by (simp add: encrypt_payload_def)
    moreover have "seal_inputs (K\<lparr>ce_execute := f\<rparr>) k ns ps = seal_inputs K k ns ps" for k ns ps by (simp add: seal_inputs_def)
    ultimately have "client_request (K\<lparr>ce_execute := f\<rparr>) nonce nonces offer arguments payload =
        client_request K nonce nonces offer arguments payload"
      by (simp add: client_request_def)
    with request show ?thesis by simp
  qed
  moreover have "liop_verify_zk_receipt (ge_worker E) payload (rp_cryptographic_proof resp) (rp_zk_receipt resp) (Some ss) (JStr forged) \<longleftrightarrow>
      text_digest (we_sha256 (ge_worker E)) forged = text_digest (we_sha256 (ge_worker E)) (rp_semantic_evidence resp)"
    using verify_other_text [OF v stable(2), of "JStr forged"] by (simp add: output_text_def)
  ultimately show ?thesis
    using v answer(2) by (simp add: run_remote_def o(1) request finish_call_def client_result_def k(4))
qed

section \<open>Witnesses\<close>

theorem manifest_wire_roundtrip_witness:
  "received_json [[0, 0, 0], [2, 0x6F], [0x6B, 9]] True = Some ''ok''"
  by (rule manifest_wire_roundtrip [where rest = "[9]"])
    (simp_all add: manifest_packet_def utf8_def utf8_char_def code_of_def be32_def)

definition offer_io :: call_io where
  "offer_io = demo_io\<lparr>ci_now := 1, ci_public_key := replicate 1184 1\<rparr>"

definition no_sessions :: "disk_budget grpc_state" where
  "no_sessions = grpc_state\<lparr>gs_sessions := []\<rparr>"

definition demo_client_env :: client_env where
  "demo_client_env =
     \<lparr>ce_env = (\<lambda>k. None), ce_peerId = ''a'', ce_findProviders = (\<lambda>h. []), ce_queryManifest = (\<lambda>p. None), ce_resolvePeer = (\<lambda>p. []),
      ce_fetchToken = (\<lambda>u ps. Inl []), ce_probe = (\<lambda>u h. None),
      ce_negotiate = (\<lambda>a h q. case fst (negotiate_intent grpc_demo offer_io h q no_sessions) of Inl (code, msg) \<Rightarrow> Inl msg | Inr r \<Rightarrow> Inr r),
      ce_denial = (\<lambda>r. []),
      ce_execute = (\<lambda>a h q. case execute_logic grpc_demo demo_io h q grpc_state of None \<Rightarrow> ([], None)
        | Some (Inl (code, msg), S) \<Rightarrow> ([], Some msg) | Some (Inr resp, S) \<Rightarrow> ([resp], None)),
      ce_encapsulate = (\<lambda>p. ([3], replicate 32 9)), ce_gcmSeal = (\<lambda>k n m. ([5], replicate 16 6)), ce_gcmOpen = (\<lambda>k n c t. Inr []),
      ce_worker = grpc_worker, ce_stringify = (\<lambda>v. []), ce_pretty = (\<lambda>v. [])\<rparr>"

definition demo_offer :: intent_response where
  "demo_offer = \<lparr>ir_accepted = True, ir_session_token = ''s'', ir_kyber_public_key = replicate 1184 1\<rparr>"

lemma demo_negotiates:
  "negotiate_intent grpc_demo offer_io h \<lparr>iq_agent_did = ''did:liop:'' @ ce_peerId demo_client_env, iq_capability_hash = ''sum''\<rparr> no_sessions =
     (Inr demo_offer, grpc_state)"
  by (simp add: negotiate_intent_def authenticate_def grpc_demo_def offer_io_def demo_io_def no_sessions_def grpc_state_def
      demo_session_def demo_offer_def demo_client_env_def)

lemma demo_requested: "client_request demo_client_env [4] n demo_offer (JObj []) [0x31] = Inr (demo_request, replicate 32 9)"
  by (simp add: client_request_def demo_offer_def kyber_public_key_bytes_def demo_client_env_def encrypt_payload_def demo_request_def
      seal_inputs_def object_entries_def)

theorem honest_call_delivers_witness:
  "fst (run_remote demo_client_env [4] (\<lambda>i. []) ''sum'' (''static'', (''a'', None), new_client) (JObj []) [0x31]) =
     Inr \<lparr>cr_content = [''ok''], cr_isError = False\<rparr>"
proof -
  obtain S' where S': "execute_logic grpc_demo demo_io None demo_request grpc_state = Some (Inr demo_response, S')"
    using demo_answers by blast
  have W: "ge_worker grpc_demo = grpc_worker" "ge_server grpc_demo = demo_env" "bearer None = None" by (simp_all add: grpc_demo_def bearer_def truthy_string_def)
  have S'': "execute_logic grpc_demo demo_io (bearer None) demo_request grpc_state = Some (Inr demo_response, S')"
    by (simp only: W S')
  have task: "worker_task grpc_demo demo_session demo_request (session_policy demo_session grpc_state) = demo_task"
    by (simp add: demo_policy demo_task_def)
  have j: "journal_of grpc_worker (lr_image_id demo_result) (dataset_hash grpc_worker demo_task)
      (lr_output demo_result) (lr_fuel_consumed demo_result) 5 = example_journal"
    by (simp add: journal_of_def demo_result_def dataset_hash_def text_digest_def grpc_digests example_journal_def)
  have "fst (run_remote demo_client_env [4] (\<lambda>i. []) ''sum'' (''static'', (''a'', None), new_client) (JObj []) [0x31]) =
     Inr \<lparr>cr_content = [rp_semantic_evidence demo_response], cr_isError = False\<rparr>"
  proof (rule honest_call_delivers [where E = grpc_demo and io = demo_io and session = demo_session and r = demo_result,
        OF _ _ demo_negotiates demo_requested S'', unfolded W(1,2), THEN conjunct1])
    show "talks_to demo_client_env ''a'' None ''sum'' grpc_demo offer_io demo_io no_sessions"
      by (simp add: talks_to_def Let_def demo_negotiates W) (simp add: demo_client_env_def demo_negotiates [unfolded demo_client_env_def, simplified])
    show "shares_secret demo_client_env grpc_demo offer_io [0x31]"
      by (simp add: shares_secret_def demo_client_env_def W offer_io_def kyber_public_key_bytes_def grpc_crypto)
    show "process_logic_execution grpc_worker (worker_task grpc_demo demo_session demo_request (session_policy demo_session grpc_state)) (ci_now demo_io) (ci_ts demo_io) =
        Some (Inr demo_result)"
      unfolding task using demo_executes by (simp add: demo_io_def)
    show "journal_reads_back grpc_demo (worker_task grpc_demo demo_session demo_request (session_policy demo_session grpc_state)) demo_result (ci_ts demo_io)"
      unfolding task using j by (simp add: journal_reads_back_def W demo_io_def grpc_digests)
    show "stable_payload [0x31]" by (rule example_stable)
    show "try_extract_proxy_output (we_parse grpc_worker) [0x31] = None" by (rule example_not_proxy)
  qed (simp_all add: demo_response_def grpc_state_def demo_request_def demo_result_def grpc_digests
      demo_env_def plain_output_def W output_text_def)
  then show ?thesis by (simp add: demo_response_def)
qed

end
