(* ===== verification/Gateway.thy ===== *)
theory Gateway
  imports Router RateLimiter Jwt Framing
begin

text \<open>
  The hybrid gateway of \<open>gateway/hybrid.ts\<close>: the choice of protocol on a connection, the HTTP/1.1
  endpoints, MCP requests over HTTP/1.1 and HTTP/2, draining, announcements. Sockets, the OIDC
  provider, the mesh node and the text of the metrics are parameters; the landing page is one value.
  \<open>_meta\<close> set on an array of parameters is not modelled: such a request goes on unchanged.
\<close>

section \<open>Environment, state and answers\<close>

record 'f gateway_env =
  ga_router :: "'f router_env"
  ga_jwt :: "jwt_env option"                \<comment> \<open>the validator the server had when the gateway was made\<close>
  ga_oauth :: bool
  ga_parse :: json_parser
  ga_multiaddrs :: "string list"
  ga_meshStarted :: bool

record 'f gateway =
  gw_limiter :: limiter
  gw_router :: "'f router_state"
  gw_draining :: bool
  gw_active :: int

definition new_gateway :: "int option \<Rightarrow> int option \<Rightarrow> 'f router_state \<Rightarrow> 'f gateway" where
  "new_gateway windowMs maxRequests RS =
     \<lparr>gw_limiter = limiter_new windowMs maxRequests, gw_router = RS, gw_draining = False, gw_active = 0\<rparr>"

record gateway_request =
  gq_method :: string
  gq_url :: string
  gq_header :: "string \<Rightarrow> string option"
  gq_ip :: "string option"

text \<open>What the clock and the process yield for one request.\<close>

record moment =
  mt_timestamp :: string
  mt_uptime :: int
  mt_metrics :: string

datatype gateway_body = NoBody | JsonBody jsval | TextBody string | LandingPage | ByteBody bytes

record gateway_response =
  gp_status :: nat
  gp_headers :: "(string \<times> string) list"
  gp_body :: gateway_body

definition respond_json :: "nat \<Rightarrow> jsval \<Rightarrow> gateway_response" where
  "respond_json status v =
     \<lparr>gp_status = status, gp_headers = [(''Content-Type'', ''application/json'')], gp_body = JsonBody v\<rparr>"

text \<open>What a request meets at first: an answer, the OIDC provider with its address, or the wait for its
  body, for the gRPC-Web dispatcher or the router.\<close>

datatype reply = Reply gateway_response | Oidc string | GrpcWebBody | McpBody "auth_info option"

section \<open>Connections\<close>

definition is_http2 :: "bytes \<Rightarrow> bool" where
  "is_http2 buffer \<longleftrightarrow> starts_with (utf8_text buffer) ''PRI * HTTP/2.0''"

datatype h2_route = GrpcStream | McpStream | Unrouted

definition h2_route_of :: "string option \<Rightarrow> string option \<Rightarrow> h2_route" where
  "h2_route_of contentType path =
     (if contentType = Some ''application/grpc'' then GrpcStream
      else if path = Some ''/mcp'' then McpStream else Unrouted)"

text \<open>A gRPC stream is answered at once, whatever it carries.\<close>

definition grpc_stream_response :: gateway_response where
  "grpc_stream_response = \<lparr>gp_status = 200, gp_headers = [(''content-type'', ''application/grpc'')], gp_body = NoBody\<rparr>"

section \<open>Probes and documents\<close>

definition draining_document :: "moment \<Rightarrow> jsval" where
  "draining_document mt = JObj [(''status'', JStr ''draining''), (''timestamp'', JStr (mt_timestamp mt))]"

definition healthz_reply :: "moment \<Rightarrow> 'f gateway \<Rightarrow> gateway_response" where
  "healthz_reply mt S =
     (if gw_draining S then respond_json 503 (draining_document mt)
      else respond_json 200 (JObj [(''status'', JStr ''ok''), (''uptime'', ms (mt_uptime mt)), (''timestamp'', JStr (mt_timestamp mt))]))"

definition readyz_reply :: "'f gateway_env \<Rightarrow> moment \<Rightarrow> 'f gateway \<Rightarrow> gateway_response" where
  "readyz_reply G mt S =
     (let mesh = rv_mesh (ga_router G) in
      if gw_draining S then respond_json 503 (draining_document mt)
      else if mesh \<and> \<not> ga_meshStarted G then
        respond_json 503 (JObj [(''status'', JStr ''unready''), (''meshStarted'', JBool False), (''timestamp'', JStr (mt_timestamp mt))])
      else respond_json 200 (JObj [(''status'', JStr ''ready''), (''meshStarted'', JBool True),
        (''peers'', ms (if mesh then int (rv_connections (ga_router G)) else 0)), (''timestamp'', JStr (mt_timestamp mt))]))"

definition draining_reply :: gateway_response where
  "draining_reply = respond_json 503 (JObj [(''jsonrpc'', JStr ''2.0''),
     (''error'', JObj [(''code'', ms (- 32000)), (''message'', JStr ''Gateway is draining connections for shutdown'')])])"

definition not_found :: gateway_response where
  "not_found = \<lparr>gp_status = 404, gp_headers = [], gp_body = TextBody ''Not Found''\<rparr>"

definition metadata_reply :: "'f gateway_env \<Rightarrow> gateway_response" where
  "metadata_reply G =
     (case ga_jwt G of
        None \<Rightarrow> not_found
      | Some J \<Rightarrow>
          (let prm = build_protected_resource_metadata (jw_issuer J) (jw_audience J) in
           respond_json 200 (JObj
             [(''resource'', JStr (rm_resource prm)), (''authorization_servers'', JArr (map JStr (rm_authorization_servers prm))),
              (''scopes_supported'', JArr (map JStr (rm_scopes_supported prm))),
              (''bearer_methods_supported'', JArr (map JStr (rm_bearer_methods_supported prm))),
              (''resource_documentation'', JStr (rm_resource_documentation prm))])))"

definition oidc_base :: "string \<Rightarrow> string" where
  "oidc_base issuer = (if ends_with issuer ''/oidc'' then issuer else issuer @ ''/oidc'')"

definition auth_document :: "'f gateway_env \<Rightarrow> jsval" where
  "auth_document G =
     (case ga_jwt G of
        None \<Rightarrow> JUndef
      | Some J \<Rightarrow>
          if jw_issuer J = [] then JUndef
          else JObj ([(''issuer'', JStr (jw_issuer J)), (''jwks_uri'', JStr (oidc_base (jw_issuer J) @ ''/jwks''))] @
                (if ga_oauth G then [(''token_endpoint'', JStr (oidc_base (jw_issuer J) @ ''/token''))] else [])))"

definition health_document :: "'f gateway_env \<Rightarrow> moment \<Rightarrow> 'f gateway \<Rightarrow> jsval" where
  "health_document G mt S =
     JObj [(''status'', JStr ''healthy''), (''node'', be_serverInfo (rv_bridge (ga_router G))),
       (''mesh'', if rv_mesh (ga_router G)
          then JObj [(''peerId'', JStr (rv_peerId (ga_router G))), (''multiaddrs'', JArr (map JStr (ga_multiaddrs G)))] else JNull),
       (''tools'', JArr (map (\<lambda>t. JStr (fst t)) (list_tools (snd (snd (gw_router S)))))),
       (''auth'', auth_document G), (''timestamp'', JStr (mt_timestamp mt))]"

section \<open>Authentication\<close>

definition missing_header :: string where
  "missing_header = ''Bearer error=\"invalid_token\", error_description=\"Missing or malformed Authorization header\"''"

definition unauthorized :: "string \<Rightarrow> string \<Rightarrow> gateway_response" where
  "unauthorized header e =
     \<lparr>gp_status = 401, gp_headers = [(''WWW-Authenticate'', header), (''Content-Type'', ''application/json'')],
      gp_body = JsonBody (JObj [(''error'', JStr e)])\<rparr>"

definition authenticate_bearer :: "jwt_env option \<Rightarrow> string option \<Rightarrow> gateway_response + auth_info option" where
  "authenticate_bearer jwt header =
     (case jwt of
        None \<Rightarrow> Inr None
      | Some J \<Rightarrow>
          (case header of
             None \<Rightarrow> Inl (unauthorized missing_header ''Unauthorized'')
           | Some h \<Rightarrow>
               if \<not> starts_with h ''Bearer '' then Inl (unauthorized missing_header ''Unauthorized'')
               else
                 (case validate J (drop 7 h) of
                    Inl e \<Rightarrow> Inl (unauthorized (''Bearer error=\"invalid_token\", error_description=\"'' @ e @ ''\"'') ''Invalid token'')
                  | Inr a \<Rightarrow> Inr (Some a))))"

section \<open>HTTP/1.1: the head of a request\<close>

definition h1_request :: "'f gateway_env \<Rightarrow> moment \<Rightarrow> gateway_request \<Rightarrow> 'f gateway \<Rightarrow> reply" where
  "h1_request G mt q S =
     (let url = gq_url q; get = (gq_method q = ''GET'') in
      if get \<and> url = ''/metrics'' then
        Reply \<lparr>gp_status = 200, gp_headers = [(''Content-Type'', ''text/plain; version=0.0.4; charset=utf-8'')],
               gp_body = TextBody (mt_metrics mt)\<rparr>
      else if get \<and> url = ''/healthz'' then Reply (healthz_reply mt S)
      else if get \<and> url = ''/readyz'' then Reply (readyz_reply G mt S)
      else if gw_draining S \<and> url = ''/mcp'' then Reply draining_reply
      else if is_grpc_web_request (gq_header q ''content-type'') then GrpcWebBody
      else if starts_with url ''/oidc'' \<and> ga_oauth G then Oidc (if drop 5 url = [] then ''/'' else drop 5 url)
      else if get \<and> url = ''/.well-known/oauth-protected-resource'' then Reply (metadata_reply G)
      else if get \<and> url \<in> {''/'', ''/mcp'', ''/health''} then
        (if url = ''/health'' \<and> (case gq_header q ''accept'' of None \<Rightarrow> False | Some a \<Rightarrow> js_includes a ''application/json'')
         then Reply (respond_json 200 (health_document G mt S))
         else Reply \<lparr>gp_status = 200, gp_headers = [(''Content-Type'', ''text/html; charset=utf-8'')], gp_body = LandingPage\<rparr>)
      else if url = ''/mcp'' \<and> gq_method q = ''POST'' then
        (case authenticate_bearer (ga_jwt G) (gq_header q ''authorization'') of Inl r \<Rightarrow> Reply r | Inr a \<Rightarrow> McpBody a)
      else Reply not_found)"

text \<open>The handler of the gRPC-Web dispatcher, which calls nothing.\<close>

definition gateway_grpc_web :: "gateway_request \<Rightarrow> bytes list \<Rightarrow> gateway_response" where
  "gateway_grpc_web q chunks =
     \<lparr>gp_status = 200, gp_headers = [],
      gp_body = ByteBody (dispatch_grpc_web_request
        (\<lambda>path payload. Inr \<lparr>hr_status = 0, hr_message = Some ''OK'', hr_data = Some []\<rparr>) (Some (gq_url q)) chunks)\<rparr>"

section \<open>MCP requests\<close>

definition request_id :: "jsval \<Rightarrow> jsval" where
  "request_id q = (if nullish (prop_of q ''id'') then JNull else prop_of q ''id'')"

definition header_mismatch :: "jsval \<Rightarrow> string \<Rightarrow> jsval" where
  "header_mismatch q msg =
     JObj [(''jsonrpc'', JStr ''2.0''), (''id'', request_id q),
       (''error'', JObj [(''code'', ms (- 32020)), (''message'', JStr (''HeaderMismatch: '' @ msg))])]"

text \<open>The routing headers against the request; empty headers are ignored.\<close>

definition mismatch_text :: "string \<Rightarrow> string \<Rightarrow> string \<Rightarrow> string \<Rightarrow> string" where
  "mismatch_text header given what actual =
     quoted header @ '' header ('' @ given @ '') does not match '' @ what @ '' ('' @ actual @ '')''"

definition method_mismatch :: "(real \<Rightarrow> string) \<Rightarrow> string option \<Rightarrow> jsval \<Rightarrow> jsval option" where
  "method_mismatch num mcpMethod q =
     (case truthy_string mcpMethod of
        None \<Rightarrow> None
      | Some m \<Rightarrow>
          if JStr m \<noteq> prop_of q ''method''
          then Some (header_mismatch q (mismatch_text ''Mcp-Method'' m ''JSON-RPC method'' (js_string num (prop_of q ''method''))))
          else None)"

definition name_mismatch :: "(real \<Rightarrow> string) \<Rightarrow> string option \<Rightarrow> jsval \<Rightarrow> jsval option" where
  "name_mismatch num mcpName q =
     (let name = prop_of (prop_of q ''params'') ''name'' in
      case truthy_string mcpName of
        None \<Rightarrow> None
      | Some n \<Rightarrow>
          if truthy name \<and> JStr n \<noteq> name
          then Some (header_mismatch q (mismatch_text ''Mcp-Name'' n ''target name'' (js_string num name)))
          else None)"

text \<open>The version header goes into \<open>_meta\<close> when the request has none; a property cannot be set on a
  text, a number or a truth value.\<close>

definition version_key :: string where "version_key = ''io.modelcontextprotocol/protocolVersion''"

definition meta_with_version :: "string \<Rightarrow> jsval \<Rightarrow> string + jsval" where
  "meta_with_version version meta =
     (if \<not> truthy meta then Inr (JObj [(version_key, JStr version)])
      else
        (case meta of
           JObj ps \<Rightarrow> Inr (if truthy (get_prop ps version_key) then meta else JObj (AList.update version_key (JStr version) ps))
         | JArr xs \<Rightarrow> Inr meta
         | _ \<Rightarrow> Inl ''Cannot create property''))"

definition with_version :: "string option \<Rightarrow> jsval \<Rightarrow> string + jsval" where
  "with_version mcpVersion q =
     (case truthy_string mcpVersion of
        None \<Rightarrow> Inr q
      | Some version \<Rightarrow>
          (let params = prop_of q ''params'' in
           if \<not> truthy params then Inr q
           else
             (case params of
                JObj ps \<Rightarrow>
                  bind_sum (meta_with_version version (get_prop ps ''_meta'')) (\<lambda>meta.
                    Inr (JObj (AList.update ''params'' (JObj (AList.update ''_meta'' meta ps)) (object_entries q))))
              | JArr xs \<Rightarrow> Inr q
              | _ \<Rightarrow> Inl ''Cannot create property'')))"

text \<open>\<open>dispatch\<close> of the router on a parsed request; a method that is not a text matches no case.\<close>

definition dispatch_request ::
    "'f router_env \<Rightarrow> request_io \<Rightarrow> jsval \<Rightarrow> auth_info option \<Rightarrow> 'f router_state \<Rightarrow> outcome \<times> 'f router_state" where
  "dispatch_request E io q auth RS =
     (let rid = prop_of q ''id''; params = prop_of q ''params'' in
      case prop_of q ''method'' of
        JStr m \<Rightarrow> dispatch E io rid m params auth RS
      | v \<Rightarrow>
          (let name = js_string (be_num (rv_bridge E)) v;
               unknown = Answers (bridge_error rid (- 32601) (''Method not found: '' @ name)) in
           if rv_jwt E then
             (case authorize_request name auth None of
                Inl NotIterable \<Rightarrow> (Rejects ''methodScopes is not iterable'', RS)
              | Inr a \<Rightarrow> if \<not> ar_allowed a then (Answers (bridge_error rid (- 32099) (or_else (ar_reason a) ''Access Denied'')), RS)
                        else (unknown, RS))
           else (unknown, RS)))"

text \<open>Every chunk of a body is decoded on its own.\<close>

definition body_text :: "bytes list \<Rightarrow> string" where
  "body_text chunks = concat (map utf8_text chunks)"

section \<open>HTTP/1.1: the end of an MCP request\<close>

definition rate_limit_key :: "auth_info option \<Rightarrow> string option \<Rightarrow> string" where
  "rate_limit_key auth ip =
     (case auth of
        Some a \<Rightarrow> if ai_clientId a \<noteq> [] then ''client:'' @ ai_clientId a else ''ip:'' @ or_else (truthy_string ip) ''127.0.0.1''
      | None \<Rightarrow> ''ip:'' @ or_else (truthy_string ip) ''127.0.0.1'')"

definition rate_limited :: "rate_status \<Rightarrow> gateway_response" where
  "rate_limited status =
     \<lparr>gp_status = 429, gp_headers = [(''Content-Type'', ''application/json''), (''Retry-After'', int_str ((rs_resetMs status + 999) div 1000))],
      gp_body = JsonBody (JObj [(''jsonrpc'', JStr ''2.0''), (''id'', JNull),
        (''error'', JObj [(''code'', ms (- 32029)), (''message'', JStr ''Rate limit exceeded. Too many requests.'')])])\<rparr>"

definition parse_error :: gateway_response where
  "parse_error =
     \<lparr>gp_status = 400, gp_headers = [],
      gp_body = JsonBody (JObj [(''jsonrpc'', JStr ''2.0''), (''error'', JObj [(''code'', ms (- 32700)), (''message'', JStr ''Parse error'')])])\<rparr>"

text \<open>The text of a request, once the limiter admits it: the response, \<open>None\<close> when there is never one, and the
  router afterwards.\<close>

definition h1_json_rpc ::
    "'f gateway_env \<Rightarrow> request_io \<Rightarrow> (string \<Rightarrow> string option) \<Rightarrow> auth_info option \<Rightarrow> string \<Rightarrow> 'f router_state \<Rightarrow>
      gateway_response option \<times> 'f router_state" where
  "h1_json_rpc G io header auth body RS =
     (let num = be_num (rv_bridge (ga_router G)) in
      case ga_parse G body of
        None \<Rightarrow> (Some parse_error, RS)
      | Some q \<Rightarrow>
          if nullish q then (Some parse_error, RS)
          else
            (case method_mismatch num (header ''mcp-method'') q of
               Some e \<Rightarrow> (Some (respond_json 400 e), RS)
             | None \<Rightarrow>
                 (case name_mismatch num (header ''mcp-name'') q of
                    Some e \<Rightarrow> (Some (respond_json 400 e), RS)
                  | None \<Rightarrow>
                      (case with_version (header ''mcp-protocol-version'') q of
                         Inl e \<Rightarrow> (Some parse_error, RS)
                       | Inr q' \<Rightarrow>
                           (case dispatch_request (ga_router G) io q' auth RS of
                              (Answers v, RS') \<Rightarrow> (Some (respond_json 200 v), RS')
                            | (Rejects e, RS') \<Rightarrow> (Some parse_error, RS')
                            | (Pending, RS') \<Rightarrow> (None, RS'))))))"

definition h1_mcp_body ::
    "'f gateway_env \<Rightarrow> request_io \<Rightarrow> gateway_request \<Rightarrow> auth_info option \<Rightarrow> bytes list \<Rightarrow> 'f gateway \<Rightarrow> gateway_response option \<times> 'f gateway" where
  "h1_mcp_body G io q auth chunks S =
     (case check (io_now io) (rate_limit_key auth (gq_ip q)) (gw_limiter S) of
        (status, l) \<Rightarrow>
          (let S1 = S\<lparr>gw_limiter := l\<rparr> in
           if \<not> rs_allowed status then (Some (rate_limited status), S1)
           else
             (case h1_json_rpc G io (gq_header q) auth (body_text chunks) (gw_router S1) of
                (r, RS) \<Rightarrow> (r, S1\<lparr>gw_router := RS\<rparr>))))"

section \<open>HTTP/2\<close>

text \<open>An MCP stream: a response, the stream closed without one, or nothing at all.\<close>

datatype h2_reply = H2Response gateway_response | H2Closed | H2Silent

definition h2_failed :: h2_reply where
  "h2_failed = H2Response \<lparr>gp_status = 400, gp_headers = [], gp_body = NoBody\<rparr>"

text \<open>The text of a request: the code repeats the steps of HTTP/1.1, and so does this definition.\<close>

definition h2_json_rpc ::
    "'f gateway_env \<Rightarrow> request_io \<Rightarrow> (string \<Rightarrow> string option) \<Rightarrow> auth_info option \<Rightarrow> string \<Rightarrow> 'f router_state \<Rightarrow>
      h2_reply \<times> 'f router_state" where
  "h2_json_rpc G io header auth body RS =
     (case ga_parse G body of
        None \<Rightarrow> (h2_failed, RS)
      | Some q \<Rightarrow>
          (let mcpMethod = or_else (header ''mcp-method'') []; mcpName = or_else (header ''mcp-name'') [];
               name = prop_of (prop_of q ''params'') ''name''; str = js_string (be_num (rv_bridge (ga_router G)));
               respond = (\<lambda>e. (H2Response (respond_json 400 e), RS))
           in
           if nullish q then (h2_failed, RS)
           else if mcpMethod \<noteq> [] \<and> JStr mcpMethod \<noteq> prop_of q ''method'' then
             respond (header_mismatch q (quoted ''Mcp-Method'' @ '' header ('' @ mcpMethod @ '') does not match JSON-RPC method ('' @ str (prop_of q ''method'') @ '')''))
           else if mcpName \<noteq> [] \<and> truthy name \<and> JStr mcpName \<noteq> name then
             respond (header_mismatch q (quoted ''Mcp-Name'' @ '' header ('' @ mcpName @ '') does not match target name ('' @ str name @ '')''))
           else
             (case with_version (header ''mcp-protocol-version'') q of
                Inl e \<Rightarrow> (h2_failed, RS)
              | Inr q' \<Rightarrow>
                  (case dispatch_request (ga_router G) io q' auth RS of
                     (Answers v, RS') \<Rightarrow> (if truthy v then H2Response (respond_json 200 v) else H2Closed, RS')
                   | (Rejects e, RS') \<Rightarrow> (h2_failed, RS')
                   | (Pending, RS') \<Rightarrow> (H2Silent, RS')))))"

definition h2_mcp_stream ::
    "'f gateway_env \<Rightarrow> request_io \<Rightarrow> (string \<Rightarrow> string option) \<Rightarrow> bytes list \<Rightarrow> 'f gateway \<Rightarrow> h2_reply \<times> 'f gateway" where
  "h2_mcp_stream G io header chunks S =
     (case authenticate_bearer (ga_jwt G) (header ''authorization'') of
        Inl r \<Rightarrow> (H2Response r, S)
      | Inr auth \<Rightarrow>
          (case h2_json_rpc G io header auth (body_text chunks) (gw_router S) of
             (r, RS) \<Rightarrow> (r, S\<lparr>gw_router := RS\<rparr>)))"

section \<open>Requests in flight\<close>

datatype phase = WaitsForMcp gateway_request "auth_info option" | WaitsForGrpcWeb gateway_request | Finishing

definition phase_of :: "gateway_request \<Rightarrow> reply \<Rightarrow> phase" where
  "phase_of q r = (case r of McpBody a \<Rightarrow> WaitsForMcp q a | GrpcWebBody \<Rightarrow> WaitsForGrpcWeb q | _ \<Rightarrow> Finishing)"

text \<open>A request with its response: the events on which \<open>onDone\<close> is registered, and those the response has
  emitted so far, which the code does not record.\<close>

datatype response_event = FinishEvent | CloseEvent

record flight =
  ft_phase :: phase
  ft_listeners :: "response_event list"
  ft_emitted :: "response_event list"

type_synonym 'f in_flight = "'f gateway \<times> (nat \<times> flight) list"

definition on_request :: "'f gateway_env \<Rightarrow> moment \<Rightarrow> nat \<Rightarrow> gateway_request \<Rightarrow> 'f in_flight \<Rightarrow> 'f in_flight" where
  "on_request G mt i q s =
     (case s of (S, fl) \<Rightarrow>
        (S\<lparr>gw_active := gw_active S + 1\<rparr>,
         (i, \<lparr>ft_phase = phase_of q (h1_request G mt q S), ft_listeners = [FinishEvent, CloseEvent], ft_emitted = []\<rparr>) # fl))"

definition remove_listener :: "response_event \<Rightarrow> flight \<Rightarrow> flight" where
  "remove_listener e f = f\<lparr>ft_listeners := remove1 e (ft_listeners f)\<rparr>"

definition on_done :: "nat \<Rightarrow> flight \<Rightarrow> 'f in_flight \<Rightarrow> 'f in_flight" where
  "on_done i f s =
     (case s of (S, fl) \<Rightarrow>
        (S\<lparr>gw_active := max 0 (gw_active S - 1)\<rparr>,
         AList.update i (remove_listener CloseEvent (remove_listener FinishEvent f)) fl))"

text \<open>The response emits an event: its listener runs if it is registered.\<close>

definition emit_event :: "response_event \<Rightarrow> nat \<Rightarrow> flight \<Rightarrow> 'f in_flight \<Rightarrow> 'f in_flight" where
  "emit_event e i f s =
     (let f' = f\<lparr>ft_emitted := e # ft_emitted f\<rparr> in
      if e \<in> set (ft_listeners f) then on_done i f' s
      else (fst s, AList.update i f' (snd s)))"

text \<open>A request arrives, an HTTP/2 stream is served, a body ends, a response emits \<open>finish\<close> or \<open>close\<close>, in any
  order and any number of times, the gateway drains.\<close>

inductive gateway_step :: "'f gateway_env \<Rightarrow> 'f in_flight \<Rightarrow> 'f in_flight \<Rightarrow> bool" for G where
  arrive: "i \<notin> fst ` set fl \<Longrightarrow> gateway_step G (S, fl) (on_request G mt i q (S, fl))"
| mcp_body: "map_of fl i = Some f \<Longrightarrow> ft_phase f = WaitsForMcp q a \<Longrightarrow> h1_mcp_body G io q a chunks S = (r, S') \<Longrightarrow>
     gateway_step G (S, fl) (S', AList.update i (f\<lparr>ft_phase := Finishing\<rparr>) fl)"
| grpc_web_body: "map_of fl i = Some f \<Longrightarrow> ft_phase f = WaitsForGrpcWeb q \<Longrightarrow>
     gateway_step G (S, fl) (S, AList.update i (f\<lparr>ft_phase := Finishing\<rparr>) fl)"
| event: "map_of fl i = Some f \<Longrightarrow> gateway_step G (S, fl) (emit_event e i f (S, fl))"
| h2_stream: "h2_mcp_stream G io header chunks S = (r, S') \<Longrightarrow> gateway_step G (S, fl) (S', fl)"
| drain: "gateway_step G (S, fl) (S\<lparr>gw_draining := True\<rparr>, fl)"

inductive gateway_run :: "'f gateway_env \<Rightarrow> 'f in_flight \<Rightarrow> 'f in_flight \<Rightarrow> bool" for G where
  start: "gateway_run G s s"
| more: "gateway_run G s t \<Longrightarrow> gateway_step G t u \<Longrightarrow> gateway_run G s u"

inductive_cases gateway_stepE: "gateway_step G s t"

text \<open>The loop of \<open>drain\<close>: the numbers of active requests and the time passed, at every turn.\<close>

fun drain_loop :: "int \<Rightarrow> (int \<times> int) list \<Rightarrow> nat" where
  "drain_loop timeoutMs [] = 0"
| "drain_loop timeoutMs ((active, elapsed) # ts) =
     (if 0 < active \<and> elapsed < timeoutMs then Suc (drain_loop timeoutMs ts) else 0)"

definition stop_gateway :: "'f gateway \<Rightarrow> 'f gateway" where
  "stop_gateway S = S\<lparr>gw_limiter := close_limiter (gw_limiter S)\<rparr>"

text \<open>What \<open>listen\<close> announces to the mesh.\<close>

definition announced_tools :: "'f gateway_env \<Rightarrow> 'f gateway \<Rightarrow> string list" where
  "announced_tools G S = (if rv_mesh (ga_router G) then map fst (list_tools (snd (snd (gw_router S)))) else [])"

end
