(* ===== verification/GatewayClaims.thy ===== *)
theory GatewayClaims
  imports Gateway RouterClaims
begin

text \<open>
  What guards an MCP request at the gateway, how HTTP/1.1 and HTTP/2 differ, what draining means, and
  that the count of active requests is exact.
\<close>

section \<open>The head of a request\<close>

lemma mcp_body_iff:
  "h1_request G mt q S = McpBody auth \<longleftrightarrow>
     \<not> gw_draining S \<and> gq_url q = ''/mcp'' \<and> gq_method q = ''POST'' \<and> \<not> is_grpc_web_request (gq_header q ''content-type'') \<and>
     authenticate_bearer (ga_jwt G) (gq_header q ''authorization'') = Inr auth"
  by (auto simp: h1_request_def Let_def split: sum.splits)

lemma authenticate_bearer_iff:
  "authenticate_bearer jwt header = Inr auth \<longleftrightarrow>
     (case jwt of None \<Rightarrow> auth = None
      | Some J \<Rightarrow> \<exists>token a. header = Some (''Bearer '' @ token) \<and> validate J token = Inr a \<and> auth = Some a)"
  by (auto simp: authenticate_bearer_def starts_with_iff split: option.splits sum.splits)

section \<open>The text of a request\<close>

lemma method_mismatch_None: "method_mismatch num h q = None \<longleftrightarrow> (\<forall>m. truthy_string h = Some m \<longrightarrow> prop_of q ''method'' = JStr m)"
  by (auto simp: method_mismatch_def split: option.splits)

text \<open>The method header of a request the router has is its method.\<close>

lemma answered_method:
  assumes "h1_json_rpc G io header auth body RS = (Some (respond_json 200 v), RS')" and "header ''mcp-method'' = Some m" and "m \<noteq> []"
  shows "\<exists>q. ga_parse G body = Some q \<and> prop_of q ''method'' = JStr m"
  using assms
  by (auto simp: h1_json_rpc_def Let_def parse_error_def respond_json_def method_mismatch_def
      split: option.splits if_splits sum.splits prod.splits outcome.splits)

section \<open>HTTP/1.1\<close>

text \<open>C14: an MCP request over HTTP/1.1 that is answered by the router, or changes its state, arrived before the
  gateway drained, carries a token the validator accepts when there is one, and is within the limit of
  its client.\<close>

theorem mcp_post_guarded:
  assumes "h1_request G mt q S = McpBody auth" and "h1_mcp_body G io q auth chunks S1 = (r, S2)"
    and "gw_router S2 \<noteq> gw_router S1 \<or> r = Some (respond_json 200 v)"
  shows "\<not> gw_draining S \<and>
    (case ga_jwt G of None \<Rightarrow> auth = None
     | Some J \<Rightarrow> \<exists>token a. gq_header q ''authorization'' = Some (''Bearer '' @ token) \<and> validate J token = Inr a \<and> auth = Some a) \<and>
    rs_allowed (fst (check (io_now io) (rate_limit_key auth (gq_ip q)) (gw_limiter S1)))"
proof -
  have "rs_allowed (fst (check (io_now io) (rate_limit_key auth (gq_ip q)) (gw_limiter S1)))"
  proof (rule ccontr)
    assume "\<not> ?thesis"
    then have "gw_router S2 = gw_router S1" "\<exists>s. r = Some (rate_limited s)"
      using assms(2) by (auto simp: h1_mcp_body_def Let_def split: prod.splits)
    with assms(3) show False by (auto simp: rate_limited_def respond_json_def)
  qed
  with assms(1) show ?thesis by (simp add: mcp_body_iff authenticate_bearer_iff)
qed

section \<open>HTTP/2\<close>

text \<open>HTTP/2 consults neither the limiter nor the state of draining.\<close>

lemma http2_unlimited:
  "h2_mcp_stream G io header chunks (S\<lparr>gw_limiter := l, gw_draining := d\<rparr>) =
     apsnd (\<lambda>S'. S'\<lparr>gw_limiter := l, gw_draining := d\<rparr>) (h2_mcp_stream G io header chunks S)"
  by (simp add: h2_mcp_stream_def split: sum.split prod.split)

lemma h2_keeps: "h2_mcp_stream G io header chunks S = (r, S') \<Longrightarrow>
    gw_limiter S' = gw_limiter S \<and> gw_draining S' = gw_draining S \<and> gw_active S' = gw_active S"
  by (auto simp: h2_mcp_stream_def split: sum.splits prod.splits)

lemma h1_keeps: "h1_mcp_body G io q auth chunks S = (r, S') \<Longrightarrow> gw_draining S' = gw_draining S \<and> gw_active S' = gw_active S"
  by (auto simp: h1_mcp_body_def Let_def split: prod.splits if_splits)

text \<open>What HTTP/2 does where HTTP/1.1 gives a response: an answer that is null closes the stream, a parse
  error is an empty response, and every other response is the same; where HTTP/1.1 gives none, neither does HTTP/2.\<close>

definition h2_counterpart :: "gateway_response option \<Rightarrow> h2_reply" where
  "h2_counterpart r =
     (case r of
        None \<Rightarrow> H2Silent
      | Some a \<Rightarrow>
          if a = parse_error then h2_failed
          else
            (case gp_body a of
               JsonBody v \<Rightarrow> if gp_status a = 200 \<and> \<not> truthy v then H2Closed else H2Response a
             | _ \<Rightarrow> H2Response a))"

lemma h2_counterpart_simps [simp]:
  "h2_counterpart None = H2Silent" "h2_counterpart (Some parse_error) = h2_failed"
  "h2_counterpart (Some (respond_json 200 v)) = (if truthy v then H2Response (respond_json 200 v) else H2Closed)"
  "h2_counterpart (Some (respond_json 400 v)) = H2Response (respond_json 400 v)"
  by (simp_all add: h2_counterpart_def parse_error_def respond_json_def)

lemma json_rpc_agree:
  "h2_json_rpc G io header auth body RS = apfst h2_counterpart (h1_json_rpc G io header auth body RS)"
proof (cases "ga_parse G body")
  case None
  then show ?thesis by (simp add: h1_json_rpc_def h2_json_rpc_def)
next
  case (Some q)
  have str: "truthy_string t = None \<Longrightarrow> or_else t [] = []" "truthy_string t = Some m \<Longrightarrow> or_else t [] = m \<and> m \<noteq> []" for t m
    by (auto simp: or_else_def truthy_string_def split: option.splits if_splits)
  have rest: "truthy_string (header ''mcp-name'') = None \<or> (\<exists>n. truthy_string (header ''mcp-name'') = Some n)"
    by (cases "truthy_string (header ''mcp-name'')") auto
  note defs = h1_json_rpc_def h2_json_rpc_def Some Let_def method_mismatch_def name_mismatch_def mismatch_text_def
  show ?thesis
  proof (cases "truthy_string (header ''mcp-method'')")
    case None
    with rest show ?thesis
      by (elim disjE exE) (simp_all add: defs str(1) [OF None] str split: sum.split prod.split outcome.split)
  next
    case Some': (Some m)
    with rest show ?thesis
      by (elim disjE exE) (simp_all add: defs str(2) [OF Some'] str split: sum.split prod.split outcome.split)
  qed
qed

text \<open>C27: a request whose token is accepted, and that the limiter admits over HTTP/1.1, does the same over both
  transports: it leaves the router in the same state, and gets the same response, or none over both, with two
  exceptions: where HTTP/1.1 answers with null, to a notification, HTTP/2 closes the stream, and where HTTP/1.1 answers
  with a JSON parse error, HTTP/2 answers with an empty response of status 400.\<close>

theorem transports_agree:
  assumes "authenticate_bearer (ga_jwt G) (gq_header q ''authorization'') = Inr auth"
    and "rs_allowed (fst (check (io_now io) (rate_limit_key auth (gq_ip q)) (gw_limiter S)))"
  shows "fst (h2_mcp_stream G io (gq_header q) chunks S) = h2_counterpart (fst (h1_mcp_body G io q auth chunks S)) \<and>
    gw_router (snd (h2_mcp_stream G io (gq_header q) chunks S)) = gw_router (snd (h1_mcp_body G io q auth chunks S))"
proof -
  obtain status l where c: "check (io_now io) (rate_limit_key auth (gq_ip q)) (gw_limiter S) = (status, l)"
    by (cases "check (io_now io) (rate_limit_key auth (gq_ip q)) (gw_limiter S)")
  obtain r RS where r: "h1_json_rpc G io (gq_header q) auth (body_text chunks) (gw_router S) = (r, RS)"
    by (cases "h1_json_rpc G io (gq_header q) auth (body_text chunks) (gw_router S)")
  then have "h2_json_rpc G io (gq_header q) auth (body_text chunks) (gw_router S) = (h2_counterpart r, RS)"
    by (simp add: json_rpc_agree)
  with assms c r show ?thesis by (simp add: h1_mcp_body_def h2_mcp_stream_def Let_def)
qed

text \<open>A gRPC-Web call gets the same answer whatever it asks for.\<close>

lemma grpc_web_constant: "gateway_grpc_web q chunks = gateway_grpc_web q' chunks'"
  by (simp add: gateway_grpc_web_def dispatch_grpc_web_request_def)

text \<open>A character cut by the border of two chunks is lost.\<close>

lemma cut_character_lost: "body_text [[195], [169]] = ''??'' \<and> body_text [[195, 169]] = [char_of (233 :: nat)]"
  by (simp add: body_text_def)

section \<open>Requests in flight\<close>

definition waits_for_mcp :: "(nat \<times> flight) list \<Rightarrow> nat set" where
  "waits_for_mcp fl = {i. \<exists>f q a. map_of fl i = Some f \<and> ft_phase f = WaitsForMcp q a}"

text \<open>The requests whose response has emitted neither \<open>finish\<close> nor \<open>close\<close>.\<close>

definition unfinished :: "(nat \<times> flight) list \<Rightarrow> nat" where
  "unfinished fl = length (filter (\<lambda>(i, f). ft_emitted f = []) fl)"

text \<open>Both listeners are registered until the first event, and none afterwards.\<close>

definition listeners_ok :: "flight \<Rightarrow> bool" where
  "listeners_ok f \<longleftrightarrow> ft_listeners f = (if ft_emitted f = [] then [FinishEvent, CloseEvent] else [])"

definition in_flight_ok :: "'f in_flight \<Rightarrow> bool" where
  "in_flight_ok s \<longleftrightarrow> distinct (map fst (snd s)) \<and> list_all (\<lambda>(i, f). listeners_ok f) (snd s) \<and>
     gw_active (fst s) = int (unfinished (snd s))"

lemma unfinished_update:
  "distinct (map fst fl) \<Longrightarrow> map_of fl i = Some f \<Longrightarrow>
     unfinished (AList.update i f' fl) + (if ft_emitted f = [] then 1 else 0) =
     unfinished fl + (if ft_emitted f' = [] then 1 else 0)"
proof (induction fl)
  case (Cons x fl)
  then show ?case by (cases x) (auto simp: unfinished_def split: if_splits)
qed simp

lemma listeners_update:
  "list_all (\<lambda>(i, f). listeners_ok f) fl \<Longrightarrow> listeners_ok f' \<Longrightarrow> list_all (\<lambda>(i, f). listeners_ok f) (AList.update i f' fl)"
  by (induction fl) auto

lemma listeners_at: "list_all (\<lambda>(i, f). listeners_ok f) fl \<Longrightarrow> map_of fl i = Some f \<Longrightarrow> listeners_ok f"
  by (auto simp: list_all_iff dest: map_of_SomeD)

lemma ok_update:
  assumes "in_flight_ok (S, fl)" and f: "map_of fl i = Some f" and "listeners_ok f'"
    and "gw_active S' + (if ft_emitted f = [] then 1 else 0) = gw_active S + (if ft_emitted f' = [] then 1 else 0)"
  shows "in_flight_ok (S', AList.update i f' fl)"
  using assms unfinished_update [of fl i f f']
  by (auto simp: in_flight_ok_def distinct_update listeners_update split: if_splits)

lemma ok_at: "in_flight_ok (S, fl) \<Longrightarrow> map_of fl i = Some f \<Longrightarrow> listeners_ok f"
  by (auto simp: in_flight_ok_def intro: listeners_at)

lemma ok_gateway: "in_flight_ok (S, fl) \<Longrightarrow> gw_active S' = gw_active S \<Longrightarrow> in_flight_ok (S', fl)"
  by (simp add: in_flight_ok_def)

lemma phase_keeps_ok:
  assumes "in_flight_ok (S, fl)" and f: "map_of fl i = Some f" and "gw_active S' = gw_active S"
  shows "in_flight_ok (S', AList.update i (f\<lparr>ft_phase := p\<rparr>) fl)"
  using ok_at [OF assms(1,2)] assms(3) by (intro ok_update [OF assms(1,2)]) (simp_all add: listeners_ok_def)

lemma counted: "in_flight_ok (S, fl) \<Longrightarrow> map_of fl i = Some f \<Longrightarrow> ft_emitted f = [] \<Longrightarrow> 0 < gw_active S"
proof -
  assume ok: "in_flight_ok (S, fl)" and f: "map_of fl i = Some f" "ft_emitted f = []"
  then have "(i, f) \<in> set (filter (\<lambda>(i, f). ft_emitted f = []) fl)" by (auto dest: map_of_SomeD)
  then have "0 < unfinished fl" unfolding unfinished_def by (rule length_pos_if_in_set)
  with ok show ?thesis by (simp add: in_flight_ok_def)
qed

lemma event_keeps_ok:
  assumes "in_flight_ok (S, fl)" and f: "map_of fl i = Some f"
  shows "in_flight_ok (emit_event e i f (S, fl))"
proof (cases "ft_emitted f = []")
  case True
  then have ls: "ft_listeners f = [FinishEvent, CloseEvent]" using ok_at [OF assms] by (simp add: listeners_ok_def)
  then have "e \<in> set (ft_listeners f)" by (cases e) simp_all
  then have "emit_event e i f (S, fl) = on_done i (f\<lparr>ft_emitted := [e]\<rparr>) (S, fl)" using True by (simp add: emit_event_def)
  also have "in_flight_ok \<dots>"
    unfolding on_done_def prod.case using counted [OF assms True] True ls
    by (intro ok_update [OF assms]) (simp_all add: listeners_ok_def remove_listener_def)
  finally show ?thesis .
next
  case False
  then have "ft_listeners f = []" using ok_at [OF assms] by (simp add: listeners_ok_def)
  then show ?thesis
    using False by (simp add: emit_event_def Let_def) (intro ok_update [OF assms]; simp add: listeners_ok_def)
qed

lemma in_flight_step: "gateway_step G s t \<Longrightarrow> in_flight_ok s \<Longrightarrow> in_flight_ok t"
proof (induction rule: gateway_step.induct)
  case (arrive i fl S mt q)
  then show ?case by (auto simp: on_request_def in_flight_ok_def unfinished_def listeners_ok_def)
next
  case (event fl i f S e)
  then show ?case by (intro event_keeps_ok)
next
  case (mcp_body fl i f q a io chunks S r S')
  then show ?case using h1_keeps by (blast intro: phase_keeps_ok)
next
  case (grpc_web_body fl i f q S)
  then show ?case by (blast intro: phase_keeps_ok)
next
  case (h2_stream io header chunks S r S' fl)
  then show ?case using h2_keeps by (blast intro: ok_gateway)
next
  case (drain S fl)
  then show ?case by (auto intro: ok_gateway)
qed

text \<open>C36: in every interleaving the count of active requests is the number of those whose response has emitted
  neither \<open>finish\<close> nor \<open>close\<close>: a response that emits both, in whatever order and however often, is
  counted down once, because the first event takes both listeners away.\<close>

theorem active_requests_exact:
  assumes "gateway_run G (new_gateway w m RS, []) (S, fl)"
  shows "gw_active S = int (length (filter (\<lambda>(i, f). ft_emitted f = []) fl))"
proof -
  have "in_flight_ok t" if "gateway_run G s t" "in_flight_ok s" for s t :: "'a in_flight"
    using that by (induction rule: gateway_run.induct) (auto intro: in_flight_step)
  from this [OF assms] show ?thesis by (simp add: in_flight_ok_def new_gateway_def unfinished_def)
qed

text \<open>C35: once the gateway drains no further HTTP/1.1 request reaches the router, whatever else happens.\<close>

theorem drained_gateway_closes:
  assumes "gateway_run G (S, fl) (S', fl')" and "gw_draining S"
  shows "gw_draining S' \<and> waits_for_mcp fl' \<subseteq> waits_for_mcp fl"
proof -
  have step: "gw_draining (fst t) \<and> waits_for_mcp (snd t) \<subseteq> waits_for_mcp (snd s)"
    if "gateway_step G s t" "gw_draining (fst s)" for s t
    using that
  proof (induction rule: gateway_step.induct)
    case (arrive i fl S mt q)
    then have "\<nexists>a. h1_request G mt q S = McpBody a" by (simp add: mcp_body_iff)
    then show ?case using arrive by (auto simp: waits_for_mcp_def on_request_def phase_of_def split: reply.splits if_splits)
  qed (auto simp: waits_for_mcp_def emit_event_def Let_def on_done_def remove_listener_def dest: h1_keeps h2_keeps split: if_splits)
  have "gw_draining (fst t) \<and> waits_for_mcp (snd t) \<subseteq> waits_for_mcp (snd s)"
    if "gateway_run G s t" "gw_draining (fst s)" for s t
    using that by (induction rule: gateway_run.induct) (auto dest: step)
  from this [OF assms(1)] assms(2) show ?thesis by simp
qed

section \<open>Example\<close>

definition gate_jwt :: jwt_env where
  "gate_jwt = \<lparr>jw_url = (\<lambda>u. None),
     jw_verify = (\<lambda>t is a. Inr \<lparr>jp_sub = Some ''c'', jp_scope = JStr ''liop:tools:call'', jp_exp = None\<rparr>), jw_issuer = [], jw_audience = []\<rparr>"

definition gate_auth :: auth_info where
  "gate_auth = \<lparr>ai_token = ''t'', ai_clientId = ''c'', ai_scopes = [''liop:tools:call''], ai_expiresAt = None\<rparr>"

definition gate_env :: "disk_budget gateway_env" where
  "gate_env = \<lparr>ga_router = router_demo, ga_jwt = Some gate_jwt, ga_oauth = False,
     ga_parse = (\<lambda>s. Some (JObj [(''id'', JStr ''1''), (''method'', JStr ''ping'')])), ga_multiaddrs = [], ga_meshStarted = True\<rparr>"

definition gate_request :: gateway_request where
  "gate_request = \<lparr>gq_method = ''POST'', gq_url = ''/mcp'',
     gq_header = (\<lambda>h. if h = ''authorization'' then Some (''Bearer '' @ ''t'') else None), gq_ip = None\<rparr>"

definition gate_state :: "disk_budget gateway" where
  "gate_state = new_gateway None None (new_router True, demo_state, BridgeClaims.demo_registry)"

definition gate_moment :: moment where
  "gate_moment = \<lparr>mt_timestamp = [], mt_uptime = 0, mt_metrics = []\<rparr>"

definition pong :: jsval where "pong = success_response (JStr ''1'') (JObj [])"

lemma gate_validates: "validate gate_jwt ''t'' = Inr gate_auth"
  by (simp add: validate_def gate_jwt_def gate_auth_def split: sum.split)

lemma gate_authenticates: "authenticate_bearer (ga_jwt gate_env) (gq_header gate_request ''authorization'') = Inr (Some gate_auth)"
  using gate_validates by (auto simp: authenticate_bearer_iff gate_env_def gate_request_def)

lemma gate_routed: "h1_json_rpc gate_env demo_io (gq_header gate_request) (Some gate_auth) body (gw_router gate_state) =
    (Some (respond_json 200 pong), gw_router gate_state)"
proof -
  have a: "authorize_request ''ping'' (Some gate_auth) None = Inr \<lparr>ar_allowed = True, ar_reason = None\<rparr>"
    by (simp add: authorize_request_def scope_lookup_def scope_map_def entry_is_public_def)
  have "dispatch_request router_demo demo_io (JObj [(''id'', JStr ''1''), (''method'', JStr ''ping'')]) (Some gate_auth) RS = (Answers pong, RS)" for RS
    by (cases RS) (simp add: dispatch_request_def Let_def prop_of_def get_prop_def dispatch_def a route_method_def pong_def)
  then show ?thesis
    by (simp add: h1_json_rpc_def Let_def gate_env_def nullish_def method_mismatch_def name_mismatch_def with_version_def
        gate_request_def truthy_string_def)
qed

lemma gate_admits: "check 5 k (gw_limiter gate_state) =
    (\<lparr>rs_allowed = True, rs_remaining = 119, rs_limit = 120, rs_resetMs = 60000\<rparr>,
     (gw_limiter gate_state)\<lparr>lm_records := [(k, \<lparr>wr_count = 1, wr_resetTime = 60005\<rparr>)]\<rparr>)"
  by (simp add: check_def gate_state_def new_gateway_def limiter_new_def Let_def)

lemma gate_answers: "fst (h1_mcp_body gate_env demo_io gate_request (Some gate_auth) [] gate_state) = Some (respond_json 200 pong)"
  by (simp add: h1_mcp_body_def demo_io_def gate_admits gate_routed [unfolded demo_io_def] Let_def)

theorem mcp_post_guarded_witness:
  "\<not> gw_draining gate_state \<and>
   (\<exists>token a. gq_header gate_request ''authorization'' = Some (''Bearer '' @ token) \<and> validate gate_jwt token = Inr a \<and> Some gate_auth = Some a) \<and>
   rs_allowed (fst (check 5 ''client:c'' (gw_limiter gate_state)))"
proof -
  let ?r = "h1_mcp_body gate_env demo_io gate_request (Some gate_auth) [] gate_state"
  have head: "h1_request gate_env gate_moment gate_request gate_state = McpBody (Some gate_auth)"
    unfolding mcp_body_iff
    by (simp add: gate_authenticates) (simp add: gate_request_def gate_state_def new_gateway_def is_grpc_web_request_def)
  have J: "ga_jwt gate_env = Some gate_jwt" "io_now demo_io = 5" "rate_limit_key (Some gate_auth) (gq_ip gate_request) = ''client:c''"
    by (simp_all add: gate_env_def demo_io_def rate_limit_key_def gate_auth_def)
  from mcp_post_guarded [OF head prod.collapse [of ?r, symmetric], where v = pong] gate_answers
  show ?thesis by (simp only: J option.case simp_thms)
qed

theorem transports_agree_witness:
  "fst (h2_mcp_stream gate_env demo_io (gq_header gate_request) [] gate_state) = H2Response (respond_json 200 pong) \<and>
   gw_router (snd (h2_mcp_stream gate_env demo_io (gq_header gate_request) [] gate_state)) =
     gw_router (snd (h1_mcp_body gate_env demo_io gate_request (Some gate_auth) [] gate_state))"
proof -
  have "rs_allowed (fst (check (io_now demo_io) (rate_limit_key (Some gate_auth) (gq_ip gate_request)) (gw_limiter gate_state)))"
    by (simp add: demo_io_def gate_admits)
  from transports_agree [OF gate_authenticates this, of "[]"] gate_answers
  show ?thesis by (simp add: pong_def success_response_def truthy_def)
qed

lemma gate_arrives:
  "gateway_run gate_env (gate_state\<lparr>gw_draining := d\<rparr>, [])
     (on_request gate_env gate_moment 7 gate_request (gate_state\<lparr>gw_draining := d\<rparr>, []))"
  by (intro gateway_run.more [OF gateway_run.start] gateway_step.arrive) simp

text \<open>Two requests arrive; the response of the first emits \<open>finish\<close> and then \<open>close\<close>.\<close>

definition gate_flight :: "response_event list \<Rightarrow> response_event list \<Rightarrow> flight" where
  "gate_flight ls es = \<lparr>ft_phase = phase_of gate_request (h1_request gate_env gate_moment gate_request gate_state),
     ft_listeners = ls, ft_emitted = es\<rparr>"

lemma gate_two_events:
  "gateway_run gate_env (gate_state, [])
     (gate_state\<lparr>gw_active := 1\<rparr>,
      [(8, gate_flight [FinishEvent, CloseEvent] []), (7, gate_flight [] [CloseEvent, FinishEvent])])"
proof -
  let ?two = "\<lambda>f. [(8, gate_flight [FinishEvent, CloseEvent] []), (7, f)]"
  have head: "h1_request gate_env gate_moment gate_request (S\<lparr>gw_active := n\<rparr>) = h1_request gate_env gate_moment gate_request S"
    for S :: "disk_budget gateway" and n
    by (cases S) (simp only: h1_request_def healthz_reply_def readyz_reply_def health_document_def gateway.simps)
  have zero: "gw_active gate_state = 0" by (simp add: gate_state_def new_gateway_def)
  have one: "gateway_step gate_env (gate_state, []) (gate_state\<lparr>gw_active := 1\<rparr>, [(7, gate_flight [FinishEvent, CloseEvent] [])])"
    using gateway_step.arrive [of 7 "[]" gate_env gate_state gate_moment gate_request]
    by (simp add: on_request_def gate_flight_def zero)
  have two: "gateway_step gate_env (gate_state\<lparr>gw_active := 1\<rparr>, [(7, gate_flight [FinishEvent, CloseEvent] [])])
      (gate_state\<lparr>gw_active := 2\<rparr>, ?two (gate_flight [FinishEvent, CloseEvent] []))"
    using gateway_step.arrive [of 8 "[(7, gate_flight [FinishEvent, CloseEvent] [])]" gate_env "gate_state\<lparr>gw_active := 1\<rparr>" gate_moment gate_request]
    by (simp add: on_request_def gate_flight_def head)
  have three: "gateway_step gate_env (gate_state\<lparr>gw_active := 2\<rparr>, ?two (gate_flight [FinishEvent, CloseEvent] []))
      (gate_state\<lparr>gw_active := 1\<rparr>, ?two (gate_flight [] [FinishEvent]))"
    using gateway_step.event [of "?two (gate_flight [FinishEvent, CloseEvent] [])" 7 _ gate_env "gate_state\<lparr>gw_active := 2\<rparr>" FinishEvent]
    by (simp add: emit_event_def on_done_def remove_listener_def gate_flight_def)
  have four: "gateway_step gate_env (gate_state\<lparr>gw_active := 1\<rparr>, ?two (gate_flight [] [FinishEvent]))
      (gate_state\<lparr>gw_active := 1\<rparr>, ?two (gate_flight [] [CloseEvent, FinishEvent]))"
    using gateway_step.event [of "?two (gate_flight [] [FinishEvent])" 7 _ gate_env "gate_state\<lparr>gw_active := 1\<rparr>" CloseEvent]
    by (simp add: emit_event_def gate_flight_def)
  show ?thesis
    by (rule gateway_run.more [OF gateway_run.more [OF gateway_run.more [OF gateway_run.more [OF gateway_run.start one] two] three] four])
qed

theorem active_requests_exact_witness:
  "gw_active (gate_state\<lparr>gw_active := 1\<rparr>) = 1"
  using active_requests_exact [OF gate_two_events [unfolded gate_state_def]]
  by (simp add: gate_flight_def)

theorem drained_gateway_closes_witness:
  "gw_draining (fst (on_request gate_env gate_moment 7 gate_request (gate_state\<lparr>gw_draining := True\<rparr>, []))) \<and>
   waits_for_mcp (snd (on_request gate_env gate_moment 7 gate_request (gate_state\<lparr>gw_draining := True\<rparr>, []))) \<subseteq> waits_for_mcp []"
proof -
  obtain S fl where s: "on_request gate_env gate_moment 7 gate_request (gate_state\<lparr>gw_draining := True\<rparr>, []) = (S, fl)"
    by (cases "on_request gate_env gate_moment 7 gate_request (gate_state\<lparr>gw_draining := True\<rparr>, [])")
  from gate_arrives [of True] have "gateway_run gate_env (gate_state\<lparr>gw_draining := True\<rparr>, []) (S, fl)" by (simp only: s)
  from drained_gateway_closes [OF this] show ?thesis by (simp add: s)
qed

end
