(* ===== verification/Observability.thy ===== *)
theory Observability
  imports McpBridge
begin

text \<open>
  Metrics, traces and the log: \<open>observability/metrics.ts\<close>, \<open>observability/tracing.ts\<close> and
  \<open>utils/logger.ts\<close>. A label value is given by its text, numbers are reals (sums are not rounded) and \<open>localeCompare\<close>, the text of a
  number, the process and the random source are parameters.
\<close>

section \<open>Labels\<close>

type_synonym labels = "(string \<times> string) list"

record metric_env =
  me_compare :: "string \<Rightarrow> string \<Rightarrow> bool"
  me_num :: "real \<Rightarrow> string"

definition sorted_labels :: "metric_env \<Rightarrow> labels \<Rightarrow> labels" where
  "sorted_labels E ls = sort_by (\<lambda>a b. me_compare E (fst a) (fst b)) ls"

definition escape_quotes :: "string \<Rightarrow> string" where
  "escape_quotes s = concat (map (\<lambda>c. if c = CHR 0x22 then [CHR 0x5C, CHR 0x22] else [c]) s)"

definition format_labels :: "metric_env \<Rightarrow> labels option \<Rightarrow> string" where
  "format_labels E ls =
     (case ls of None \<Rightarrow> []
      | Some xs \<Rightarrow>
          if xs = [] then []
          else ''{'' @ js_join '','' (map (\<lambda>(k, v). k @ ''=\"'' @ escape_quotes v @ ''\"'') (sorted_labels E xs)) @ ''}'')"

definition labels_to_key :: "metric_env \<Rightarrow> labels option \<Rightarrow> string" where
  "labels_to_key E ls =
     (case ls of None \<Rightarrow> [] | Some xs \<Rightarrow> js_join ''|'' (map (\<lambda>(k, v). k @ '':'' @ v) (sorted_labels E xs)))"

section \<open>Counters and gauges\<close>

type_synonym series = "(string \<times> real \<times> labels option) list"

definition series_add :: "metric_env \<Rightarrow> labels option \<Rightarrow> real \<Rightarrow> series \<Rightarrow> series" where
  "series_add E ls x vs =
     (let key = labels_to_key E ls in
      case map_of vs key of
        None \<Rightarrow> AList.update key (x, ls) vs
      | Some (v, ls0) \<Rightarrow> AList.update key (v + x, ls0) vs)"

definition series_get :: "metric_env \<Rightarrow> labels option \<Rightarrow> series \<Rightarrow> real" where
  "series_get E ls vs = (case map_of vs (labels_to_key E ls) of None \<Rightarrow> 0 | Some (v, ls0) \<Rightarrow> v)"

definition counter_inc :: "metric_env \<Rightarrow> labels option \<Rightarrow> real \<Rightarrow> series \<Rightarrow> string + series" where
  "counter_inc E ls x vs = (if x < 0 then Inl ''Counter increments must be non-negative'' else Inr (series_add E ls x vs))"

definition gauge_set :: "metric_env \<Rightarrow> labels \<Rightarrow> real option \<Rightarrow> series \<Rightarrow> series" where
  "gauge_set E ls x vs = AList.update (labels_to_key E (Some ls)) (case x of None \<Rightarrow> 0 | Some y \<Rightarrow> y, Some ls) vs"

definition gauge_set_value :: "real \<Rightarrow> series \<Rightarrow> series" where
  "gauge_set_value x vs = AList.update [] (x, None) vs"

definition gauge_dec :: "metric_env \<Rightarrow> labels option \<Rightarrow> real \<Rightarrow> series \<Rightarrow> series" where
  "gauge_dec E ls x vs = series_add E ls (- x) vs"

definition metric_head :: "string \<Rightarrow> string \<Rightarrow> string \<Rightarrow> string list" where
  "metric_head name help kind = [''# HELP '' @ name @ '' '' @ help, ''# TYPE '' @ name @ '' '' @ kind]"

definition series_lines :: "metric_env \<Rightarrow> string \<Rightarrow> string \<Rightarrow> string \<Rightarrow> series \<Rightarrow> string list" where
  "series_lines E name help kind vs =
     metric_head name help kind @
     (if vs = [] then [name @ '' 0''] else map (\<lambda>(k, v, ls). name @ format_labels E ls @ '' '' @ me_num E v) vs)"

section \<open>Histograms\<close>

record observation =
  ob_count :: int
  ob_sum :: real
  ob_buckets :: "(real \<times> int) list"
  ob_labels :: "labels option"

record histogram =
  hi_buckets :: "real list"
  hi_observations :: "(string \<times> observation) list"

definition new_histogram :: "real list \<Rightarrow> histogram" where
  "new_histogram buckets = \<lparr>hi_buckets = sort buckets, hi_observations = []\<rparr>"

definition default_buckets :: "real list" where
  "default_buckets = [5, 10, 25, 50, 100, 250, 500, 1000, 2500, 5000, 10000]"

definition bucket_count :: "observation \<Rightarrow> real \<Rightarrow> int" where
  "bucket_count ob b = (case map_of (ob_buckets ob) b of None \<Rightarrow> 0 | Some n \<Rightarrow> n)"

definition empty_observation :: "real list \<Rightarrow> labels option \<Rightarrow> observation" where
  "empty_observation buckets ls =
     \<lparr>ob_count = 0, ob_sum = 0, ob_buckets = fold (\<lambda>b. AList.update b 0) buckets [], ob_labels = ls\<rparr>"

definition add_to_bucket :: "real \<Rightarrow> real \<Rightarrow> observation \<Rightarrow> observation" where
  "add_to_bucket x bound ob =
     (if x \<le> bound then ob\<lparr>ob_buckets := AList.update bound (bucket_count ob bound + 1) (ob_buckets ob)\<rparr> else ob)"

definition observe :: "metric_env \<Rightarrow> labels option \<Rightarrow> real \<Rightarrow> histogram \<Rightarrow> histogram" where
  "observe E ls x h =
     (let key = labels_to_key E ls;
          ob = (case map_of (hi_observations h) key of None \<Rightarrow> empty_observation (hi_buckets h) ls | Some ob \<Rightarrow> ob);
          ob1 = ob\<lparr>ob_count := ob_count ob + 1, ob_sum := ob_sum ob + x\<rparr>
      in h\<lparr>hi_observations := AList.update key (fold (add_to_bucket x) (hi_buckets h) ob1) (hi_observations h)\<rparr>)"

definition base_labels :: "observation \<Rightarrow> labels" where
  "base_labels ob = (case ob_labels ob of None \<Rightarrow> [] | Some ls \<Rightarrow> ls)"

definition bucket_line :: "metric_env \<Rightarrow> string \<Rightarrow> observation \<Rightarrow> string \<Rightarrow> int \<Rightarrow> string" where
  "bucket_line E name ob le n =
     name @ ''_bucket'' @ format_labels E (Some (AList.update ''le'' le (base_labels ob))) @ '' '' @ int_str n"

definition observation_lines :: "metric_env \<Rightarrow> string \<Rightarrow> real list \<Rightarrow> observation \<Rightarrow> string list" where
  "observation_lines E name buckets ob =
     map (\<lambda>b. bucket_line E name ob (me_num E b) (bucket_count ob b)) buckets @
     [bucket_line E name ob ''+Inf'' (ob_count ob),
      name @ ''_sum'' @ format_labels E (Some (base_labels ob)) @ '' '' @ me_num E (ob_sum ob),
      name @ ''_count'' @ format_labels E (Some (base_labels ob)) @ '' '' @ int_str (ob_count ob)]"

definition histogram_lines :: "metric_env \<Rightarrow> string \<Rightarrow> string \<Rightarrow> histogram \<Rightarrow> string list" where
  "histogram_lines E name help h =
     metric_head name help ''histogram'' @
     (if hi_observations h = [] then [name @ ''_count 0'', name @ ''_sum 0'']
      else concat (map (\<lambda>(k, ob). observation_lines E name (hi_buckets h) ob) (hi_observations h)))"

section \<open>The registry\<close>

text \<open>Metrics by name, with their help texts; a metric that exists keeps its first help text and buckets.\<close>

record metrics =
  mr_counters :: "(string \<times> string \<times> series) list"
  mr_gauges :: "(string \<times> string \<times> series) list"
  mr_histograms :: "(string \<times> string \<times> histogram) list"

definition no_metrics :: metrics where
  "no_metrics = \<lparr>mr_counters = [], mr_gauges = [], mr_histograms = []\<rparr>"

definition get_or_add :: "string \<Rightarrow> 'a \<Rightarrow> (string \<times> 'a) list \<Rightarrow> (string \<times> 'a) list" where
  "get_or_add name m0 known = (if map_of known name = None then known @ [(name, m0)] else known)"

definition metric_counter :: "string \<Rightarrow> string \<Rightarrow> metrics \<Rightarrow> metrics" where
  "metric_counter name help M = M\<lparr>mr_counters := get_or_add name (help, []) (mr_counters M)\<rparr>"

definition metric_gauge :: "string \<Rightarrow> string \<Rightarrow> metrics \<Rightarrow> metrics" where
  "metric_gauge name help M = M\<lparr>mr_gauges := get_or_add name (help, []) (mr_gauges M)\<rparr>"

definition metric_histogram :: "string \<Rightarrow> string \<Rightarrow> real list option \<Rightarrow> metrics \<Rightarrow> metrics" where
  "metric_histogram name help buckets M =
     M\<lparr>mr_histograms := get_or_add name (help, new_histogram (case buckets of None \<Rightarrow> default_buckets | Some b \<Rightarrow> b)) (mr_histograms M)\<rparr>"

definition set_gauge :: "string \<Rightarrow> string \<Rightarrow> real \<Rightarrow> metrics \<Rightarrow> metrics" where
  "set_gauge name help x M =
     (let M1 = metric_gauge name help M in
      M1\<lparr>mr_gauges := map (\<lambda>(n, t, vs). if n = name then (n, t, gauge_set_value x vs) else (n, t, vs)) (mr_gauges M1)\<rparr>)"

text \<open>The process: seconds, and its memory when it can tell.\<close>

definition collect_process_metrics :: "real \<Rightarrow> (real \<times> real) option \<Rightarrow> metrics \<Rightarrow> metrics" where
  "collect_process_metrics uptime memory M =
     (let M1 = set_gauge ''liop_process_uptime_seconds'' ''Process uptime in seconds'' (of_int \<lfloor>uptime\<rfloor>) M in
      case memory of
        None \<Rightarrow> M1
      | Some (rss, heapUsed) \<Rightarrow>
          set_gauge ''liop_process_memory_heap_used_bytes'' ''Heap memory used in bytes'' heapUsed
            (set_gauge ''liop_process_memory_rss_bytes'' ''Resident set size memory in bytes'' rss M1))"

definition export_lines :: "metric_env \<Rightarrow> metrics \<Rightarrow> string list" where
  "export_lines E M =
     concat (map (\<lambda>(n, help, vs). series_lines E n help ''counter'' vs) (mr_counters M)) @
     concat (map (\<lambda>(n, help, vs). series_lines E n help ''gauge'' vs) (mr_gauges M)) @
     concat (map (\<lambda>(n, help, h). histogram_lines E n help h) (mr_histograms M)) @ [[]]"

definition export_prometheus_text :: "metric_env \<Rightarrow> real \<Rightarrow> (real \<times> real) option \<Rightarrow> metrics \<Rightarrow> string \<times> metrics" where
  "export_prometheus_text E uptime memory M =
     (let M1 = collect_process_metrics uptime memory M in (js_join [CHR 0x0A] (export_lines E M1), M1))"

definition reset_all :: "metrics \<Rightarrow> metrics" where
  "reset_all M =
     \<lparr>mr_counters = map (\<lambda>(n, t, vs). (n, t, [])) (mr_counters M), mr_gauges = map (\<lambda>(n, t, vs). (n, t, [])) (mr_gauges M),
      mr_histograms = map (\<lambda>(n, t, h). (n, t, h\<lparr>hi_observations := []\<rparr>)) (mr_histograms M)\<rparr>"

text \<open>The metrics of the protocol, as the module creates them.\<close>

definition protocol_metrics :: metrics where
  "protocol_metrics =
     metric_histogram ''liop_zk_verification_duration_ms''
       ''Duration of ZK-Receipt and HMAC cryptographic attestation in ms'' (Some [1, 2, 5, 10, 25, 50, 100])
     (metric_counter ''liop_egress_blocks_total'' ''Total number of outputs blocked by Egress Shield''
     (metric_gauge ''liop_manifest_cache_size'' ''Number of verified remote tool manifests in cache''
     (metric_gauge ''liop_mesh_peers_connected'' ''Active peer connections in the P2P mesh''
     (metric_histogram ''liop_fuel_consumed_total'' ''Deterministic fuel units consumed by injected logic''
       (Some [100, 500, 1000, 2500, 5000, 10000, 50000, 100000])
     (metric_counter ''liop_tool_calls_total'' ''Total number of tool logic-injection executions'' no_metrics)))))"

section \<open>Traces\<close>

record span_context =
  sx_traceId :: string
  sx_spanId :: string
  sx_sampled :: bool

definition is_lower_hex :: "char \<Rightarrow> bool" where
  "is_lower_hex c \<longleftrightarrow> is_digit c \<or> (97 \<le> code_of c \<and> code_of c \<le> 102)"

text \<open>The first draw of \<open>n\<close> random bytes that are not all zero.\<close>

fun generate_id :: "nat \<Rightarrow> bytes list \<Rightarrow> string option" where
  "generate_id n [] = None"
| "generate_id n (draw # ds) = (if hex_text draw = replicate (2 * n) CHR ''0'' then generate_id n ds else Some (hex_text draw))"

definition format_traceparent :: "span_context \<Rightarrow> string" where
  "format_traceparent c =
     ''00-'' @ sx_traceId c @ ''-'' @ sx_spanId c @ ''-'' @ (if sx_sampled c then ''01'' else ''00'')"

text \<open>\<open>TRACEPARENT_REGEX\<close>: all parts have fixed lengths.\<close>

definition traceparent_match :: "string \<Rightarrow> bool" where
  "traceparent_match t \<longleftrightarrow>
     length t = 55 \<and> t ! 2 = CHR ''-'' \<and> t ! 35 = CHR ''-'' \<and> t ! 52 = CHR ''-'' \<and>
     list_all is_lower_hex (take 2 t) \<and> list_all is_lower_hex (take 32 (drop 3 t)) \<and>
     list_all is_lower_hex (take 16 (drop 36 t)) \<and> list_all is_lower_hex (drop 53 t)"

definition parse_traceparent :: "string option \<Rightarrow> span_context option" where
  "parse_traceparent header =
     (case truthy_string header of
        None \<Rightarrow> None
      | Some h \<Rightarrow>
          (let t = js_trim h; traceId = take 32 (drop 3 t); spanId = take 16 (drop 36 t) in
           if \<not> traceparent_match t then None
           else if take 2 t = ''00'' \<and> (traceId = replicate 32 CHR ''0'' \<or> spanId = replicate 16 CHR ''0'') then None
           else Some \<lparr>sx_traceId = traceId, sx_spanId = spanId, sx_sampled = odd (hex_val (t ! 53) * 16 + hex_val (t ! 54))\<rparr>))"

text \<open>The two spellings of the header; a header that occurs more than once is a list.\<close>

type_synonym header_value = "(string + string list) option"

definition extract_traceparent :: "(string \<Rightarrow> header_value) \<Rightarrow> span_context option" where
  "extract_traceparent carrier =
     (let lower = carrier ''traceparent'';
          v = (if lower = None \<or> lower = Some (Inl []) then carrier ''Traceparent'' else lower)
      in case v of
           None \<Rightarrow> None
         | Some (Inl h) \<Rightarrow> parse_traceparent (Some h)
         | Some (Inr hs) \<Rightarrow> parse_traceparent (case hs of [] \<Rightarrow> None | h # rest \<Rightarrow> Some h))"

definition start_span :: "span_context option \<Rightarrow> bytes list \<Rightarrow> bytes list \<Rightarrow> span_context option" where
  "start_span parent traceDraws spanDraws =
     (let traceId = (case parent of
            Some p \<Rightarrow> if sx_traceId p \<noteq> [] then Some (sx_traceId p) else generate_id 16 traceDraws
          | None \<Rightarrow> generate_id 16 traceDraws)
      in case (traceId, generate_id 8 spanDraws) of
           (Some t, Some s) \<Rightarrow> Some \<lparr>sx_traceId = t, sx_spanId = s, sx_sampled = (case parent of Some p \<Rightarrow> sx_sampled p | None \<Rightarrow> True)\<rparr>
         | _ \<Rightarrow> None)"

text \<open>A span: the parts that its methods change.\<close>

record span =
  sp_name :: string
  sp_context :: span_context
  sp_startTime :: int
  sp_endTime :: "int option"
  sp_attributes :: "(string \<times> jsval) list"
  sp_error :: "string option"
  sp_ok :: bool

definition new_span :: "string \<Rightarrow> span_context \<Rightarrow> int \<Rightarrow> (string \<times> jsval) list \<Rightarrow> span" where
  "new_span name context now attributes =
     \<lparr>sp_name = name, sp_context = context, sp_startTime = now, sp_endTime = None, sp_attributes = attributes,
      sp_error = None, sp_ok = True\<rparr>"

definition set_attribute :: "string \<Rightarrow> jsval \<Rightarrow> span \<Rightarrow> span" where
  "set_attribute key v s = s\<lparr>sp_attributes := AList.update key v (sp_attributes s)\<rparr>"

definition record_exception :: "string \<Rightarrow> span \<Rightarrow> span" where
  "record_exception message s = s\<lparr>sp_ok := False, sp_error := Some message\<rparr>"

definition end_span :: "int \<Rightarrow> span \<Rightarrow> span" where
  "end_span now s = s\<lparr>sp_endTime := Some now\<rparr>"

text \<open>\<open>injectTraceparent\<close>: the header is set in a carrier.\<close>

definition inject_traceparent :: "span_context \<Rightarrow> (string \<Rightarrow> header_value) \<Rightarrow> string \<Rightarrow> header_value" where
  "inject_traceparent c carrier = carrier(''traceparent'' := Some (Inl (format_traceparent c)))"

section \<open>The log\<close>

datatype log_level = LogSilent | LogError | LogWarn | LogInfo | LogDebug

definition level_rank :: "log_level \<Rightarrow> nat" where
  "level_rank l = (case l of LogSilent \<Rightarrow> 0 | LogError \<Rightarrow> 1 | LogWarn \<Rightarrow> 2 | LogInfo \<Rightarrow> 3 | LogDebug \<Rightarrow> 4)"

definition level_of_env :: "string option \<Rightarrow> log_level" where
  "level_of_env env =
     (case map_option js_lower env of
        Some l \<Rightarrow>
          if l = ''silent'' then LogSilent else if l = ''error'' then LogError else if l = ''warn'' then LogWarn
          else if l = ''debug'' then LogDebug else LogInfo
      | None \<Rightarrow> LogInfo)"

text \<open>The levels are ordered by how much they let through.\<close>

instantiation log_level :: linorder
begin

definition less_eq_log_level :: "log_level \<Rightarrow> log_level \<Rightarrow> bool" where
  "less_eq_log_level a b \<longleftrightarrow> level_rank a \<le> level_rank b"

definition less_log_level :: "log_level \<Rightarrow> log_level \<Rightarrow> bool" where
  "less_log_level a b \<longleftrightarrow> level_rank a < level_rank b"

instance
  by standard (auto simp: less_eq_log_level_def less_log_level_def level_rank_def split: log_level.splits)

end

definition should_log :: "log_level \<Rightarrow> log_level \<Rightarrow> bool" where
  "should_log level target \<longleftrightarrow> level_rank target \<le> level_rank level"

definition format_message :: "string \<Rightarrow> string \<Rightarrow> string \<Rightarrow> string" where
  "format_message timestamp level message = ''['' @ timestamp @ ''] ['' @ level @ ''] '' @ message"

definition log_line :: "log_level \<Rightarrow> log_level \<Rightarrow> string \<Rightarrow> string \<Rightarrow> string option" where
  "log_line level target timestamp message =
     (if should_log level target
      then Some (format_message timestamp
        (case target of LogError \<Rightarrow> ''ERROR'' | LogWarn \<Rightarrow> ''WARN'' | LogInfo \<Rightarrow> ''INFO'' | LogDebug \<Rightarrow> ''DEBUG'' | LogSilent \<Rightarrow> []) message)
      else None)"

section \<open>Histograms count exactly\<close>

lemma add_to_bucket_keeps [simp]: "ob_count (add_to_bucket x b ob) = ob_count ob" "ob_sum (add_to_bucket x b ob) = ob_sum ob"
  by (simp_all add: add_to_bucket_def)

lemma fold_add_keeps [simp]:
  "ob_count (fold (add_to_bucket x) bs ob) = ob_count ob" "ob_sum (fold (add_to_bucket x) bs ob) = ob_sum ob"
  by (induction bs arbitrary: ob) simp_all

lemma bucket_count_add: "bucket_count (add_to_bucket x c ob) b = bucket_count ob b + (if b = c \<and> x \<le> b then 1 else 0)"
  by (auto simp: add_to_bucket_def bucket_count_def)

lemma bucket_count_fold:
  "distinct bs \<Longrightarrow> bucket_count (fold (add_to_bucket x) bs ob) b = bucket_count ob b + (if b \<in> set bs \<and> x \<le> b then 1 else 0)"
  by (induction bs arbitrary: ob) (auto simp: bucket_count_add)

lemma empty_bucket_count: "bucket_count (empty_observation bs ls) b = 0"
proof -
  have "map_of (fold (\<lambda>b. AList.update b 0) bs m) b \<in> {None, Some (0 :: int)}"
    if "map_of m b \<in> {None, Some 0}" for m
    using that by (induction bs arbitrary: m) auto
  from this [of "[]"] show ?thesis by (auto simp: bucket_count_def empty_observation_def)
qed

definition histogram_of :: "metric_env \<Rightarrow> real list \<Rightarrow> (labels option \<times> real) list \<Rightarrow> histogram" where
  "histogram_of E buckets obs = fold (\<lambda>(ls, x). observe E ls x) obs (new_histogram buckets)"

definition observed :: "metric_env \<Rightarrow> string \<Rightarrow> (labels option \<times> real) list \<Rightarrow> real list" where
  "observed E k obs = map snd (filter (\<lambda>(ls, x). labels_to_key E ls = k) obs)"

definition counts_of :: "real list \<Rightarrow> real list \<Rightarrow> observation \<Rightarrow> bool" where
  "counts_of buckets xs ob \<longleftrightarrow> ob_count ob = int (length xs) \<and> ob_sum ob = sum_list xs \<and>
     list_all (\<lambda>b. bucket_count ob b = int (length (filter (\<lambda>x. x \<le> b) xs))) buckets"

lemma counts_of_empty: "counts_of bs [] (empty_observation bs' ls)"
  by (auto simp: counts_of_def empty_bucket_count list_all_iff) (simp_all add: empty_observation_def)

lemma counts_of_step:
  assumes "distinct bs" and "counts_of bs xs ob"
  shows "counts_of bs (xs @ [x]) (fold (add_to_bucket x) bs (ob\<lparr>ob_count := ob_count ob + 1, ob_sum := ob_sum ob + x\<rparr>))"
proof -
  have "bucket_count (ob\<lparr>ob_count := c, ob_sum := y\<rparr>) b = bucket_count ob b" for b c y by (simp add: bucket_count_def)
  with assms show ?thesis by (auto simp: counts_of_def list_all_iff bucket_count_fold)
qed

lemma counts_of_set: "set bs = set bs' \<Longrightarrow> counts_of bs xs ob = counts_of bs' xs ob"
  by (simp add: counts_of_def list_all_iff)

lemma histogram_state:
  assumes "distinct buckets"
  shows "hi_buckets (histogram_of E buckets obs) = sort buckets \<and>
    (case map_of (hi_observations (histogram_of E buckets obs)) k of
       None \<Rightarrow> observed E k obs = [] | Some ob \<Rightarrow> counts_of (sort buckets) (observed E k obs) ob)"
proof (induction obs rule: rev_induct)
  case Nil
  show ?case by (simp add: histogram_of_def new_histogram_def observed_def)
next
  case (snoc o1 obs)
  obtain ls x where o1: "o1 = (ls, x)" by (cases o1)
  have h: "histogram_of E buckets (obs @ [o1]) = observe E ls x (histogram_of E buckets obs)" by (simp add: histogram_of_def o1)
  show ?case
  proof (cases "labels_to_key E ls = k")
    case True
    then have xs: "observed E k (obs @ [o1]) = observed E k obs @ [x]" by (simp add: observed_def o1)
    from snoc have b: "hi_buckets (histogram_of E buckets obs) = sort buckets" by simp
    have d: "distinct (sort buckets)" using assms by simp
    show ?thesis
    proof (cases "map_of (hi_observations (histogram_of E buckets obs)) k")
      case None
      with snoc have "observed E k obs = []" by simp
      then show ?thesis
        using counts_of_step [OF d counts_of_empty [of _ "sort buckets" ls], of x] None True
        by (simp add: h xs observe_def Let_def b)
    next
      case (Some ob)
      with snoc show ?thesis using counts_of_step [OF d, of "observed E k obs" ob x] True
        by (simp add: h xs observe_def Let_def b)
    qed
  next
    case False
    then have e: "observed E k (obs @ [o1]) = observed E k obs" by (simp add: observed_def o1)
    show ?thesis unfolding h e using snoc False by (simp add: observe_def Let_def)
  qed
qed

text \<open>After any observations, the state for a set of labels holds their number, their sum and, for every
  bound, the number of those at most the bound: what is exported is cumulative.\<close>

theorem histogram_counts_exactly:
  assumes "distinct buckets" and "map_of (hi_observations (histogram_of E buckets obs)) k = Some ob" and "b \<in> set buckets"
  shows "ob_count ob = int (length (observed E k obs)) \<and> ob_sum ob = sum_list (observed E k obs) \<and>
    bucket_count ob b = int (length (filter (\<lambda>x. x \<le> b) (observed E k obs)))"
  using histogram_state [OF assms(1), of E obs k] assms(2,3) by (auto simp: counts_of_def list_all_iff)

lemma buckets_cumulative:
  assumes "distinct buckets" and "map_of (hi_observations (histogram_of E buckets obs)) k = Some ob" and "b \<in> set buckets"
    and "c \<in> set buckets" and "b \<le> c"
  shows "bucket_count ob b \<le> bucket_count ob c \<and> bucket_count ob c \<le> ob_count ob"
proof -
  have "length (filter (\<lambda>x. x \<le> b) xs) \<le> length (filter (\<lambda>x. x \<le> c) xs)" for xs
    using assms(5) by (induction xs) auto
  moreover have "counts_of (sort buckets) (observed E k obs) ob" using histogram_state [OF assms(1), of E obs k] assms(2) by simp
  ultimately show ?thesis using assms(3,4) by (auto simp: counts_of_def list_all_iff)
qed

text \<open>Counters never decrease.\<close>

lemma counter_grows: "counter_inc E ls x vs = Inr vs' \<Longrightarrow> series_get E ls' vs \<le> series_get E ls' vs' \<and> series_get E ls vs' = series_get E ls vs + x"
  by (auto simp: counter_inc_def series_add_def series_get_def Let_def split: if_splits option.splits)

text \<open>The key of the labels is not injective: label sets that contain its separators are one series. Line
  breaks and backslashes in label values go into the exported text as they are.\<close>

lemma label_keys_collide:
  "labels_to_key E (Some [(''a'', ''1|b:2'')]) = labels_to_key (E\<lparr>me_compare := (\<lambda>a b. True)\<rparr>) (Some [(''a'', ''1''), (''b'', ''2'')])"
  by (simp add: labels_to_key_def sorted_labels_def sort_by_def)

lemma line_break_exported: "CHR 0x0A \<in> set (format_labels E (Some [(''a'', [CHR 0x0A])]))"
  by (simp add: format_labels_def sorted_labels_def sort_by_def escape_quotes_def)

section \<open>Trace headers\<close>

definition valid_context :: "span_context \<Rightarrow> bool" where
  "valid_context c \<longleftrightarrow>
     length (sx_traceId c) = 32 \<and> length (sx_spanId c) = 16 \<and> list_all is_lower_hex (sx_traceId c) \<and>
     list_all is_lower_hex (sx_spanId c) \<and> sx_traceId c \<noteq> replicate 32 CHR ''0'' \<and> sx_spanId c \<noteq> replicate 16 CHR ''0''"

lemma parse_matching:
  assumes "t \<noteq> []" and "js_trim t = t" and "traceparent_match t"
  shows "parse_traceparent (Some t) =
    (if take 2 t = ''00'' \<and> (take 32 (drop 3 t) = replicate 32 CHR ''0'' \<or> take 16 (drop 36 t) = replicate 16 CHR ''0'') then None
     else Some \<lparr>sx_traceId = take 32 (drop 3 t), sx_spanId = take 16 (drop 36 t),
       sx_sampled = odd (hex_val (t ! 53) * 16 + hex_val (t ! 54))\<rparr>)"
proof -
  have "truthy_string (Some t) = Some t" using assms(1) by (simp add: truthy_string_def)
  then show ?thesis by (simp only: parse_traceparent_def Let_def assms(2,3) option.case not_True_eq_False if_False)
qed

text \<open>A header that is written reads back to its context.\<close>

theorem traceparent_roundtrip:
  assumes "valid_context c"
  shows "parse_traceparent (Some (format_traceparent c)) = Some c"
proof -
  let ?f = "if sx_sampled c then ''01'' else ''00''" and ?t = "format_traceparent c"
  have l: "length (sx_traceId c) = 32" "length (sx_spanId c) = 16" using assms by (simp_all add: valid_context_def)
  have t: "?t = ''00-'' @ sx_traceId c @ ''-'' @ sx_spanId c @ ''-'' @ ?f" by (simp add: format_traceparent_def)
  have e: "?t = CHR ''0'' # (''0-'' @ sx_traceId c @ ''-'' @ sx_spanId c @ ''-0'') @ [if sx_sampled c then CHR ''1'' else CHR ''0'']"
    by (simp add: t)
  have trim: "js_trim ?t = ?t" unfolding e by (rule trim_bracketed) (simp_all add: is_space_def code_of_def)
  have p: "take 2 ?t = ''00''" "take 32 (drop 3 ?t) = sx_traceId c" "take 16 (drop 36 ?t) = sx_spanId c" "drop 53 ?t = ?f"
    "?t ! 2 = CHR ''-''" "?t ! 35 = CHR ''-''" "?t ! 52 = CHR ''-''" "length ?t = 55"
    using l by (simp_all add: t nth_append)
  have "?t ! 53 = ?f ! 0" "?t ! 54 = ?f ! 1" using p(4,8) nth_drop [of 53 ?t 0] nth_drop [of 53 ?t 1] by simp_all
  then have f: "odd (hex_val (?t ! 53) * 16 + hex_val (?t ! 54)) = sx_sampled c" by (simp add: hex_val_def code_of_def)
  have "traceparent_match ?t"
    using assms p by (simp add: traceparent_match_def valid_context_def is_lower_hex_def is_digit_def code_of_def)
  from parse_matching [OF _ trim this] show ?thesis
    unfolding p f using assms by (simp add: t valid_context_def)
qed

text \<open>A span that is started has identifiers of the right lengths and continues the trace of its parent.\<close>

lemma generate_id_valid: "generate_id n ds = Some s \<Longrightarrow> s \<noteq> replicate (2 * n) CHR ''0'' \<and> (\<exists>d \<in> set ds. s = hex_text d)"
  by (induction n ds rule: generate_id.induct) (auto split: if_splits)

lemma child_span: "start_span (Some p) ts ss = Some c \<Longrightarrow> sx_traceId p \<noteq> [] \<Longrightarrow> sx_traceId c = sx_traceId p \<and> sx_sampled c = sx_sampled p"
  by (auto simp: start_span_def split: option.splits)

text \<open>A level lets through what every lower level does.\<close>

lemma should_log_mono: "should_log a t \<Longrightarrow> a \<le> b \<Longrightarrow> should_log b t"
  by (simp add: should_log_def less_eq_log_level_def)

text \<open>What is injected into a carrier is extracted from it.\<close>

lemma inject_extract:
  "parse_traceparent (Some (format_traceparent c)) = Some c \<Longrightarrow> extract_traceparent (inject_traceparent c carrier) = Some c"
  by (simp add: extract_traceparent_def inject_traceparent_def format_traceparent_def)

text \<open>Attributes set later win, and an exception is not taken back by the other methods.\<close>

lemma attribute_set: "map_of (sp_attributes (set_attribute k v s)) k = Some v"
  by (simp add: set_attribute_def)

lemma exception_stays:
  "\<not> sp_ok (record_exception m s) \<and> sp_ok (set_attribute k v t) = sp_ok t \<and> sp_ok (end_span now t) = sp_ok t"
  by (simp add: record_exception_def set_attribute_def end_span_def)

text \<open>The version \<open>ff\<close>, which the standard forbids, is accepted, and with it identifiers that are all zero.\<close>

lemma forbidden_version_accepted:
  "parse_traceparent (Some (''ff-'' @ replicate 32 CHR ''0'' @ ''-'' @ replicate 16 CHR ''0'' @ ''-01'')) \<noteq> None"
proof -
  let ?t = "''ff-'' @ replicate 32 CHR ''0'' @ ''-'' @ replicate 16 CHR ''0'' @ ''-01''"
  have e: "?t = CHR ''f'' # (''f-'' @ replicate 32 CHR ''0'' @ ''-'' @ replicate 16 CHR ''0'' @ ''-0'') @ [CHR ''1'']" by simp
  have trim: "js_trim ?t = ?t" unfolding e by (rule trim_bracketed) (simp_all add: is_space_def code_of_def)
  have p: "take 2 ?t = ''ff''" "take 32 (drop 3 ?t) = replicate 32 CHR ''0''" "take 16 (drop 36 ?t) = replicate 16 CHR ''0''"
    "drop 53 ?t = ''01''" "?t ! 2 = CHR ''-''" "?t ! 35 = CHR ''-''" "?t ! 52 = CHR ''-''" "length ?t = 55"
    by (simp_all add: nth_append)
  have "traceparent_match ?t" unfolding traceparent_match_def p
    by (simp add: is_lower_hex_def is_digit_def code_of_def list_all_iff)
  from parse_matching [OF _ trim this] show ?thesis unfolding p by simp
qed

section \<open>Examples\<close>

definition metric_demo :: metric_env where
  "metric_demo = \<lparr>me_compare = (\<lambda>a b. True), me_num = (\<lambda>r. [])\<rparr>"

theorem histogram_counts_exactly_witness:
  "ob_count (the (map_of (hi_observations (histogram_of metric_demo [5, 10] [(None, 7), (None, 3)])) [])) = 2"
proof -
  let ?h = "histogram_of metric_demo [5, 10] [(None, 7), (None, 3)]"
  have "map_of (hi_observations ?h) [] \<noteq> None" by (simp add: histogram_of_def observe_def Let_def labels_to_key_def)
  then obtain ob where ob: "map_of (hi_observations ?h) [] = Some ob" by blast
  from histogram_counts_exactly [OF _ this, of 5] ob show ?thesis by (simp add: observed_def labels_to_key_def)
qed

theorem traceparent_roundtrip_witness:
  "parse_traceparent (Some (''00-'' @ replicate 32 CHR ''a'' @ ''-'' @ replicate 16 CHR ''1'' @ ''-01'')) =
     Some \<lparr>sx_traceId = replicate 32 CHR ''a'', sx_spanId = replicate 16 CHR ''1'', sx_sampled = True\<rparr>"
proof -
  let ?c = "\<lparr>sx_traceId = replicate 32 CHR ''a'', sx_spanId = replicate 16 CHR ''1'', sx_sampled = True\<rparr>"
  have "replicate 32 CHR ''a'' ! 0 \<noteq> replicate 32 CHR ''0'' ! 0" "replicate 16 CHR ''1'' ! 0 \<noteq> replicate 16 CHR ''0'' ! 0"
    by (simp_all only: nth_replicate zero_less_numeral char.inject) simp_all
  then have "valid_context ?c"
    unfolding valid_context_def by (simp add: list_all_iff is_lower_hex_def is_digit_def code_of_def)
  from traceparent_roundtrip [OF this] show ?thesis by (simp add: format_traceparent_def)
qed

end
