(* ===== verification/Economy.thy ===== *)
theory Economy
  imports McpBridge
begin

text \<open>
  The token telemetry of \<open>economy/telemetry.ts\<close>, \<open>economy/estimator.ts\<close> and \<open>economy/otel.ts\<close>: what is
  recorded, what is handed to OpenTelemetry and the two reports. The tokenizer and the OpenTelemetry
  API are parameters; averages are real numbers without rounding; the status text, which is drawn
  with characters beyond the model's alphabet, is left out except for the uptime.
\<close>

section \<open>Estimators\<close>

text \<open>\<open>Math.ceil(length / 4)\<close>.\<close>

definition quarter :: "string \<Rightarrow> nat" where "quarter text = (length text + 3) div 4"

datatype estimator = RealEstimator "string \<Rightarrow> nat option" | Heuristic

definition estimator_name :: "estimator \<Rightarrow> string" where
  "estimator_name e = (case e of RealEstimator f \<Rightarrow> ''o200k_base'' | Heuristic \<Rightarrow> ''heuristic (chars/4)'')"

text \<open>\<open>None\<close> when the tokenizer throws.\<close>

definition estimate :: "estimator \<Rightarrow> string \<Rightarrow> nat option" where
  "estimate e text =
     (if text = [] then Some 0 else (case e of RealEstimator f \<Rightarrow> f text | Heuristic \<Rightarrow> Some (quarter text)))"

definition create_token_estimator :: "(string \<Rightarrow> nat option) option \<Rightarrow> estimator" where
  "create_token_estimator constructed = (case constructed of Some f \<Rightarrow> RealEstimator f | None \<Rightarrow> Heuristic)"

section \<open>Recording\<close>

datatype operation_type = ToolsList | ToolCall | ResourceRead | ResourceList | PromptGet | PromptList | Diagnostic

definition otel_operation :: "operation_type \<Rightarrow> string" where
  "otel_operation t = (case t of ToolCall \<Rightarrow> ''execute_tool'' | _ \<Rightarrow> ''chat'')"

record operation_metric =
  om_type :: operation_type
  om_method :: string
  om_input :: int
  om_output :: int
  om_timestamp :: int
  om_toolName :: "string option"
  om_peerId :: "string option"
  om_durationMs :: "real option"

record telemetry =
  te_operations :: "operation_metric list"
  te_sessionId :: string
  te_startedAt :: int
  te_estimator :: estimator

definition new_telemetry :: "string \<Rightarrow> int \<Rightarrow> (string \<Rightarrow> nat option) option \<Rightarrow> telemetry" where
  "new_telemetry uuid now constructed =
     \<lparr>te_operations = [], te_sessionId = uuid, te_startedAt = now, te_estimator = create_token_estimator constructed\<rparr>"

definition telemetry_count_tokens :: "telemetry \<Rightarrow> string \<Rightarrow> nat" where
  "telemetry_count_tokens T content = (case estimate (te_estimator T) content of Some n \<Rightarrow> n | None \<Rightarrow> quarter content)"

text \<open>What OpenTelemetry is given: tokens with their direction and tool, durations in seconds.\<close>

datatype emission = Tokens int string string "string option" | Duration real string

definition emissions :: "operation_metric \<Rightarrow> emission list" where
  "emissions o1 =
     (let op = otel_operation (om_type o1) in
      (if 0 < om_input o1 then [Tokens (om_input o1) ''input'' op (truthy_string (om_toolName o1))] else []) @
      (if 0 < om_output o1 then [Tokens (om_output o1) ''output'' op (truthy_string (om_toolName o1))] else []) @
      (case om_durationMs o1 of None \<Rightarrow> [] | Some d \<Rightarrow> [Duration (d / 1000) op]))"

definition record_operation :: "int \<Rightarrow> operation_metric \<Rightarrow> telemetry \<Rightarrow> emission list \<times> telemetry" where
  "record_operation now o1 T =
     (let full = o1\<lparr>om_timestamp := now\<rparr> in (emissions full, T\<lparr>te_operations := te_operations T @ [full]\<rparr>))"

definition reset_telemetry :: "telemetry \<Rightarrow> telemetry" where
  "reset_telemetry T = T\<lparr>te_operations := []\<rparr>"

text \<open>The singleton: the instance, if any, and the one \<open>getInstance\<close> yields.\<close>

definition get_instance :: "telemetry \<Rightarrow> telemetry option \<Rightarrow> telemetry \<times> telemetry option" where
  "get_instance made inst = (case inst of Some T \<Rightarrow> (T, inst) | None \<Rightarrow> (made, Some made))"

section \<open>Reports\<close>

record session_report =
  sr_sessionId :: string
  sr_operations :: "operation_metric list"
  sr_totalInputTokens :: int
  sr_totalOutputTokens :: int
  sr_estimatorName :: string
  sr_sessionUptimeMs :: int

definition get_report :: "int \<Rightarrow> telemetry \<Rightarrow> session_report" where
  "get_report now T =
     \<lparr>sr_sessionId = te_sessionId T, sr_operations = te_operations T,
      sr_totalInputTokens = foldl (\<lambda>s op. s + om_input op) 0 (te_operations T),
      sr_totalOutputTokens = foldl (\<lambda>s op. s + om_output op) 0 (te_operations T),
      sr_estimatorName = estimator_name (te_estimator T), sr_sessionUptimeMs = now - te_startedAt T\<rparr>"

record tool_breakdown =
  tb_input :: int
  tb_output :: int
  tb_calls :: nat
  tb_avgDurationMs :: real

definition report_key :: "operation_metric \<Rightarrow> string" where
  "report_key op = or_else (truthy_string (om_toolName op)) (om_method op)"

definition duration_of :: "operation_metric \<Rightarrow> real" where
  "duration_of op = (case om_durationMs op of None \<Rightarrow> 0 | Some d \<Rightarrow> d)"

definition add_to_breakdown ::
    "operation_metric \<Rightarrow> (string \<times> tool_breakdown) list \<Rightarrow> (string \<times> tool_breakdown) list" where
  "add_to_breakdown op m =
     (let existing = (case map_of m (report_key op) of
            None \<Rightarrow> \<lparr>tb_input = 0, tb_output = 0, tb_calls = 0, tb_avgDurationMs = 0\<rparr> | Some b \<Rightarrow> b);
          totalDuration = tb_avgDurationMs existing * of_nat (tb_calls existing) + duration_of op;
          newCalls = tb_calls existing + 1
      in AList.update (report_key op)
           \<lparr>tb_input = tb_input existing + om_input op, tb_output = tb_output existing + om_output op, tb_calls = newCalls,
            tb_avgDurationMs = (if 0 < newCalls then totalDuration / of_nat newCalls else 0)\<rparr> m)"

definition get_per_tool_report :: "telemetry \<Rightarrow> (string \<times> tool_breakdown) list" where
  "get_per_tool_report T = fold add_to_breakdown (te_operations T) []"

text \<open>Milliseconds as text.\<close>

definition format_uptime :: "int \<Rightarrow> string" where
  "format_uptime t =
     (let seconds = t div 1000; minutes = seconds div 60; hours = minutes div 60 in
      if seconds < 60 then int_str seconds @ ''s''
      else if minutes < 60 then int_str minutes @ ''m '' @ int_str (seconds mod 60) @ ''s''
      else int_str hours @ ''h '' @ int_str (minutes mod 60) @ ''m'')"

section \<open>The reports agree\<close>

definition of_key :: "string \<Rightarrow> operation_metric list \<Rightarrow> operation_metric list" where
  "of_key k ops = filter (\<lambda>op. report_key op = k) ops"

lemma foldl_sum: "foldl (\<lambda>s x. s + f x) (a :: int) xs = a + sum_list (map f xs)"
  by (induction xs arbitrary: a) simp_all

definition summarizes :: "operation_metric list \<Rightarrow> tool_breakdown \<Rightarrow> bool" where
  "summarizes ops b \<longleftrightarrow> tb_input b = sum_list (map om_input ops) \<and> tb_output b = sum_list (map om_output ops) \<and>
     tb_calls b = length ops \<and> tb_avgDurationMs b * of_nat (length ops) = sum_list (map duration_of ops)"

lemma breakdown_state:
  "case map_of (fold add_to_breakdown ops []) k of None \<Rightarrow> of_key k ops = [] | Some b \<Rightarrow> of_key k ops \<noteq> [] \<and> summarizes (of_key k ops) b"
proof (induction ops rule: rev_induct)
  case (snoc op ops)
  show ?case
  proof (cases "report_key op = k")
    case True
    then have k: "of_key k (ops @ [op]) = of_key k ops @ [op]" by (simp add: of_key_def)
    show ?thesis unfolding k using snoc True
      by (auto simp: add_to_breakdown_def Let_def summarizes_def split: option.splits)
  next
    case False
    then have k: "of_key k (ops @ [op]) = of_key k ops" by (simp add: of_key_def)
    show ?thesis unfolding k using snoc False by (simp add: add_to_breakdown_def Let_def)
  qed
qed (simp add: of_key_def)

lemma distinct_breakdown: "distinct (map fst m) \<Longrightarrow> distinct (map fst (fold add_to_breakdown ops m))"
  by (induction ops arbitrary: m) (simp_all add: add_to_breakdown_def Let_def distinct_update)

lemma update_sum:
  fixes f :: "'v \<Rightarrow> int"
  assumes "distinct (map fst m)"
  shows "sum_list (map (\<lambda>(k, b). f b) (AList.update k b m)) =
    sum_list (map (\<lambda>(k, b). f b) m) - (case map_of m k of None \<Rightarrow> 0 | Some c \<Rightarrow> f c) + f b"
  using assms
proof (induction m)
  case (Cons x m)
  then show ?case by (cases x) (auto simp: map_of_eq_None_iff split: option.splits)
qed simp

lemma add_to_breakdown_sums:
  assumes "distinct (map fst m)"
  shows "sum_list (map (\<lambda>(k, b). tb_input b) (add_to_breakdown op m)) = sum_list (map (\<lambda>(k, b). tb_input b) m) + om_input op"
    "sum_list (map (\<lambda>(k, b). tb_output b) (add_to_breakdown op m)) = sum_list (map (\<lambda>(k, b). tb_output b) m) + om_output op"
  by (simp_all add: add_to_breakdown_def Let_def update_sum [OF assms] split: option.split)

text \<open>The breakdown per tool holds, for every tool, the tokens, the number and the mean duration of its
  operations, and its columns add up to the totals of the session.\<close>

theorem breakdown_agrees:
  assumes "map_of (get_per_tool_report T) k = Some b"
  shows "summarizes (of_key k (te_operations T)) b \<and>
    sum_list (map (\<lambda>(k, b). tb_input b) (get_per_tool_report T)) = sr_totalInputTokens (get_report now T) \<and>
    sum_list (map (\<lambda>(k, b). tb_output b) (get_per_tool_report T)) = sr_totalOutputTokens (get_report now T)"
proof -
  have d: "distinct (map fst (fold add_to_breakdown ops []))" for ops by (simp add: distinct_breakdown)
  have "sum_list (map (\<lambda>(k, b). tb_input b) (fold add_to_breakdown ops [])) = sum_list (map om_input ops) \<and>
    sum_list (map (\<lambda>(k, b). tb_output b) (fold add_to_breakdown ops [])) = sum_list (map om_output ops)" for ops
  proof (induction ops rule: rev_induct)
    case (snoc op ops)
    show ?case
      using snoc by (simp add: add_to_breakdown_sums [OF d])
  qed simp
  with assms show ?thesis
    using breakdown_state [of k "te_operations T"] by (simp add: get_per_tool_report_def get_report_def foldl_sum)
qed

text \<open>An estimate is never lost: the fallback counts one token for four characters.\<close>

lemma heuristic_bounds: "length s \<le> 4 * quarter s \<and> 4 * quarter s < length s + 4"
  by (simp add: quarter_def) linarith

theorem breakdown_agrees_witness:
  "summarizes [\<lparr>om_type = ToolCall, om_method = ''m'', om_input = 3, om_output = 4, om_timestamp = 0, om_toolName = None,
       om_peerId = None, om_durationMs = Some 2\<rparr>] \<lparr>tb_input = 3, tb_output = 4, tb_calls = 1, tb_avgDurationMs = 2\<rparr>"
proof -
  let ?o = "\<lparr>om_type = ToolCall, om_method = ''m'', om_input = 3, om_output = 4, om_timestamp = 0, om_toolName = None,
       om_peerId = None, om_durationMs = Some (2 :: real)\<rparr>"
  let ?T = "snd (record_operation 0 ?o (new_telemetry [] 0 None))" and ?b = "\<lparr>tb_input = 3, tb_output = 4, tb_calls = 1, tb_avgDurationMs = 2\<rparr>"
  have T: "te_operations ?T = [?o]" by (simp add: record_operation_def Let_def new_telemetry_def)
  have k: "report_key ?o = ''m''" by (simp add: report_key_def truthy_string_def or_else_def)
  have "map_of (get_per_tool_report ?T) ''m'' = Some ?b"
    by (simp add: get_per_tool_report_def T add_to_breakdown_def Let_def k duration_of_def)
  from breakdown_agrees [OF this] show ?thesis by (simp add: T of_key_def k)
qed

end
