(* ===== verification/StatusBlock.thy ===== *)
theory StatusBlock
  imports Economy
begin

text \<open>
  The rest of the token telemetry: the status text of \<open>economy/telemetry.ts\<close> and the bridge to
  OpenTelemetry of \<open>economy/otel.ts\<close>. The drawing characters and the text of a number in the locale are
  parameters; averages are rounded as \<open>Math.round\<close> does.
\<close>

section \<open>OpenTelemetry\<close>

definition token_usage_buckets :: "int list" where
  "token_usage_buckets =
     [1, 4, 16, 64, 256, 1024, 4096, 16384, 65536, 262144, 1048576, 4194304, 16777216, 67108864]"

definition duration_buckets :: "real list" where
  "duration_buckets =
     [0.01, 0.02, 0.04, 0.08, 0.16, 0.32, 0.64, 1.28, 2.56, 5.12, 10.24, 20.48, 40.96, 81.92]"

record otel_histogram =
  oh_name :: string
  oh_unit :: string

record otel_bridge =
  ot_tokenUsage :: "otel_histogram option"
  ot_operationDuration :: "otel_histogram option"
  ot_active :: bool

text \<open>The constructor: one histogram after the other, both without effect when a call fails.\<close>

definition new_otel_bridge :: "(string \<Rightarrow> bool) \<Rightarrow> bool \<Rightarrow> otel_bridge" where
  "new_otel_bridge creates meter =
     (if meter \<and> creates ''gen_ai.client.token.usage'' \<and> creates ''gen_ai.client.operation.duration''
      then \<lparr>ot_tokenUsage = Some \<lparr>oh_name = ''gen_ai.client.token.usage'', oh_unit = ''{token}''\<rparr>,
            ot_operationDuration = Some \<lparr>oh_name = ''gen_ai.client.operation.duration'', oh_unit = ''s''\<rparr>, ot_active = True\<rparr>
      else \<lparr>ot_tokenUsage = None, ot_operationDuration = None, ot_active = False\<rparr>)"

text \<open>\<open>recordTokens\<close> and \<open>recordDuration\<close>: the histogram, the value and the attributes.\<close>

definition otel_record :: "otel_bridge \<Rightarrow> emission \<Rightarrow> (string \<times> real \<times> (string \<times> string) list) option" where
  "otel_record B e =
     (case e of
        Tokens n direction operation tool \<Rightarrow>
          map_option (\<lambda>h. (oh_name h, of_int n,
            [(''gen_ai.system'', ''liop''), (''gen_ai.operation.name'', operation), (''gen_ai.token.type'', direction),
             (''gen_ai.request.model'', ''liop-mesh'')] @
            (case truthy_string tool of None \<Rightarrow> [] | Some t \<Rightarrow> [(''liop.tool.name'', t)]))) (ot_tokenUsage B)
      | Duration seconds operation \<Rightarrow>
          map_option (\<lambda>h. (oh_name h, seconds, [(''gen_ai.system'', ''liop''), (''gen_ai.operation.name'', operation)]))
            (ot_operationDuration B))"

section \<open>The status text\<close>

record glyphs =
  gl_branch :: string
  gl_corner :: string
  gl_bar :: string
  gl_times :: string
  gl_arrow :: string
  gl_number :: "int \<Rightarrow> string"

fun operation_text :: "operation_type \<Rightarrow> string" where
  "operation_text ToolsList = ''tools_list''"
| "operation_text ToolCall = ''tool_call''"
| "operation_text ResourceRead = ''resource_read''"
| "operation_text ResourceList = ''resource_list''"
| "operation_text PromptGet = ''prompt_get''"
| "operation_text PromptList = ''prompt_list''"
| "operation_text Diagnostic = ''diagnostic''"

record type_total =
  tt_count :: int
  tt_input :: int
  tt_output :: int

definition add_to_type :: "operation_metric \<Rightarrow> (operation_type \<times> type_total) list \<Rightarrow> (operation_type \<times> type_total) list" where
  "add_to_type op m =
     (let t = (case map_of m (om_type op) of None \<Rightarrow> \<lparr>tt_count = 0, tt_input = 0, tt_output = 0\<rparr> | Some t \<Rightarrow> t)
      in AList.update (om_type op)
           \<lparr>tt_count = tt_count t + 1, tt_input = tt_input t + om_input op, tt_output = tt_output t + om_output op\<rparr> m)"

definition by_type :: "operation_metric list \<Rightarrow> (operation_type \<times> type_total) list" where
  "by_type ops = fold add_to_type ops []"

definition rounded :: "real \<Rightarrow> int" where "rounded x = \<lfloor>x + 1 / 2\<rfloor>"

definition output_part :: "glyphs \<Rightarrow> int \<Rightarrow> string" where
  "output_part G n = (if 0 < n then '' / '' @ gl_number G n @ '' out'' else [])"

text \<open>A line for each entry; the last one has a corner.\<close>

fun branch_lines :: "glyphs \<Rightarrow> ('a \<Rightarrow> string) \<Rightarrow> 'a list \<Rightarrow> string list" where
  "branch_lines G line [] = []"
| "branch_lines G line (x # xs) =
     (gl_bar G @ (if xs = [] then gl_corner G else gl_branch G) @ '' '' @ line x) # branch_lines G line xs"

definition type_line :: "glyphs \<Rightarrow> operation_type \<times> type_total \<Rightarrow> string" where
  "type_line G p =
     (case p of (t, d) \<Rightarrow> operation_text t @ '' '' @ gl_times G @ int_str (tt_count d) @ '' '' @ gl_arrow G @ '' '' @
        gl_number G (tt_input d) @ '' in'' @ output_part G (tt_output d))"

definition tool_line :: "glyphs \<Rightarrow> string \<times> tool_breakdown \<Rightarrow> string" where
  "tool_line G p =
     (case p of (name, d) \<Rightarrow> name @ '': '' @ gl_number G (tb_input d) @ '' in'' @ output_part G (tb_output d) @
        '' ('' @ gl_times G @ int_str (int (tb_calls d)) @ '')'' @
        (if 0 < tb_avgDurationMs d then '' ~'' @ int_str (rounded (tb_avgDurationMs d)) @ ''ms'' else []))"

definition listed_tools :: "telemetry \<Rightarrow> (string \<times> tool_breakdown) list" where
  "listed_tools T = filter (\<lambda>(k, d). k \<noteq> ''tools/list'' \<and> k \<noteq> ''LiopMeshStatus'') (get_per_tool_report T)"

definition tool_lines :: "glyphs \<Rightarrow> telemetry \<Rightarrow> string list" where
  "tool_lines G T =
     (if listed_tools T = [] then [] else (gl_branch G @ '' By Tool:'') # branch_lines G (tool_line G) (listed_tools T))"

definition average_latency :: "operation_metric list \<Rightarrow> int" where
  "average_latency ops =
     (let timed = filter (\<lambda>op. om_durationMs op \<noteq> None) ops in
      if timed = [] then 0 else rounded (foldl (\<lambda>s op. s + duration_of op) 0 timed / of_nat (length timed)))"

definition format_status_block :: "glyphs \<Rightarrow> otel_bridge \<Rightarrow> int \<Rightarrow> telemetry \<Rightarrow> string" where
  "format_status_block G B now T =
     (let r = get_report now T; ops = sr_operations r in
      if ops = [] then []
      else js_join [CHR 0x0A]
        ([[CHR 0x0A] @ ''Token Economy:'',
          gl_branch G @ '' Session: '' @ take 8 (sr_sessionId r) @ '' ('' @ format_uptime (sr_sessionUptimeMs r) @ '')'',
          gl_branch G @ '' Estimator: '' @ sr_estimatorName r,
          gl_branch G @ '' Operations: '' @ int_str (int (length ops))] @
         branch_lines G (type_line G) (by_type ops) @
         [gl_branch G @ '' Total: '' @ gl_number G (sr_totalInputTokens r) @ '' in / '' @ gl_number G (sr_totalOutputTokens r) @
          '' out ('' @ gl_number G (sr_totalInputTokens r + sr_totalOutputTokens r) @ '' combined)''] @
         tool_lines G T @
         (if 0 < average_latency ops then [gl_branch G @ '' Avg Latency: '' @ int_str (average_latency ops) @ ''ms''] else []) @
         [gl_corner G @ '' OTel: '' @
          (if ot_active B then ''gen_ai.client.token.usage '' @ gl_arrow G @ '' active'' else ''disabled'')]))"

section \<open>Properties\<close>

lemma buckets_are_powers:
  "token_usage_buckets = map (\<lambda>i. 4 ^ i) [0..<14]" "duration_buckets = map (\<lambda>i. 2 ^ i / 100) [0..<14]"
  by (simp_all add: token_usage_buckets_def duration_buckets_def upt_rec)

text \<open>A bridge that could not be set up records nothing; one that could records every emission.\<close>

lemma inactive_records_nothing: "\<not> ot_active (new_otel_bridge f m) \<Longrightarrow> otel_record (new_otel_bridge f m) e = None"
  by (auto simp: new_otel_bridge_def otel_record_def split: emission.split if_splits)

lemma active_records_all: "ot_active (new_otel_bridge f m) \<Longrightarrow> otel_record (new_otel_bridge f m) e \<noteq> None"
  by (auto simp: new_otel_bridge_def otel_record_def split: emission.split if_splits)

lemma distinct_by_type: "distinct (map fst m) \<Longrightarrow> distinct (map fst (fold add_to_type ops m))"
  by (induction ops arbitrary: m) (simp_all add: add_to_type_def Let_def distinct_update)

lemma add_to_type_sums:
  assumes "distinct (map fst m)"
  shows "sum_list (map (\<lambda>(k, t). tt_count t) (add_to_type op m)) = sum_list (map (\<lambda>(k, t). tt_count t) m) + 1"
    "sum_list (map (\<lambda>(k, t). tt_input t) (add_to_type op m)) = sum_list (map (\<lambda>(k, t). tt_input t) m) + om_input op"
    "sum_list (map (\<lambda>(k, t). tt_output t) (add_to_type op m)) = sum_list (map (\<lambda>(k, t). tt_output t) m) + om_output op"
  by (simp_all add: add_to_type_def Let_def update_sum [OF assms] split: option.split)

text \<open>The lines by type add up to the number of operations and to the totals of the report.\<close>

theorem status_totals_agree:
  "sum_list (map (\<lambda>(k, t). tt_count t) (by_type (te_operations T))) = int (length (te_operations T)) \<and>
   sum_list (map (\<lambda>(k, t). tt_input t) (by_type (te_operations T))) = sr_totalInputTokens (get_report now T) \<and>
   sum_list (map (\<lambda>(k, t). tt_output t) (by_type (te_operations T))) = sr_totalOutputTokens (get_report now T)"
proof -
  have d: "distinct (map fst (fold add_to_type ops []))" for ops by (simp add: distinct_by_type)
  have "sum_list (map (\<lambda>(k, t). tt_count t) (by_type ops)) = int (length ops) \<and>
     sum_list (map (\<lambda>(k, t). tt_input t) (by_type ops)) = sum_list (map om_input ops) \<and>
     sum_list (map (\<lambda>(k, t). tt_output t) (by_type ops)) = sum_list (map om_output ops)" for ops
    unfolding by_type_def
  proof (induction ops rule: rev_induct)
    case (snoc op ops)
    then show ?case by (simp add: add_to_type_sums [OF d])
  qed simp
  then show ?thesis by (simp add: get_report_def foldl_sum)
qed

lemma status_empty_iff: "format_status_block G B now T = [] \<longleftrightarrow> te_operations T = []"
  by (simp add: format_status_block_def get_report_def Let_def)

lemma branch_lines_length [simp]: "length (branch_lines G line xs) = length xs"
  by (induction xs) simp_all

end
