(* ===== verification/Agent.thy ===== *)
theory Agent
  imports Gateway Regex
begin

text \<open>
  The command-line agent of \<open>bin/agent.ts\<close>: its bootstrap nodes, the rewriting of addresses, the
  interval of its discovery and its answers on standard output. \<open>fetch\<close>, \<open>new URL\<close>, the file system
  and the parser of multiaddrs are parameters; the relaunch with another flag and the signal handlers
  are left out. A line is answered before the next is read.
\<close>

section \<open>Addresses\<close>

text \<open>\<open>s.replace(r, text)\<close> without the flag \<open>g\<close>.\<close>

definition re_replace_one :: "re \<Rightarrow> string \<Rightarrow> string \<Rightarrow> string" where
  "re_replace_one r text s =
     (case re_search r [] s of None \<Rightarrow> s | Some ((b, a), (b', a')) \<Rightarrow> rev b @ text @ a')"

definition digit_range :: "nat \<Rightarrow> nat \<Rightarrow> re" where
  "digit_range lo hi = Pred (\<lambda>c. 48 + lo \<le> code_of c \<and> code_of c \<le> 48 + hi)"

definition ip_byte :: re where "ip_byte = times_re 1 3 (Pred is_digit)"

definition docker_ip_regex :: re where
  "docker_ip_regex =
     cats [lit ''/ip4/172.'', alts [Cat (chr CHR ''1'') (digit_range 6 9), Cat (chr CHR ''2'') (digit_range 0 9), Cat (chr CHR ''3'') (digit_range 0 1)],
           chr CHR ''.'', ip_byte, chr CHR ''.'', ip_byte]"

definition loopback_regex :: re where "loopback_regex = lit ''/ip4/127.0.0.1''"

definition physical_ip_regex :: re where
  "physical_ip_regex = cats [lit ''/ip4/192.168.'', ip_byte, chr CHR ''.'', ip_byte]"

definition normalize_bootstrap :: "string \<Rightarrow> string" where
  "normalize_bootstrap addr =
     (let trimmed = js_trim addr; target = ''/ip4/127.0.0.1'' in
      if re_test docker_ip_regex trimmed \<or> re_test loopback_regex trimmed \<or> re_test physical_ip_regex trimmed
      then re_replace_one physical_ip_regex target (re_replace_one loopback_regex target (re_replace_one docker_ip_regex target trimmed))
      else trimmed)"

text \<open>The four nodes of the demo, by the last digit of their address.\<close>

definition demo_port_regex :: "string \<Rightarrow> re" where
  "demo_port_regex ip = Cat (lit (ip @ ''/tcp/'')) (plus (Pred is_digit))"

definition demo_nodes :: "(string \<times> string) list" where
  "demo_nodes =
     [(''/ip4/172.20.0.10'', ''/ip4/127.0.0.1/tcp/13001''), (''/ip4/172.20.0.11'', ''/ip4/127.0.0.1/tcp/13003''),
      (''/ip4/172.20.0.12'', ''/ip4/127.0.0.1/tcp/13004''), (''/ip4/172.20.0.13'', ''/ip4/127.0.0.1/tcp/13005'')]"

fun map_demo_node :: "(string \<times> string) list \<Rightarrow> string \<Rightarrow> string option" where
  "map_demo_node [] addr = None"
| "map_demo_node ((ip, target) # ns) addr =
     (if js_includes addr ip then Some (re_replace_one (demo_port_regex ip) target addr) else map_demo_node ns addr)"

definition industrial_address_mapper :: "string \<Rightarrow> string option" where
  "industrial_address_mapper addr =
     (case map_demo_node demo_nodes addr of
        Some a \<Rightarrow> Some a
      | None \<Rightarrow>
          if js_includes addr ''/ip4/127.0.0.1/tcp/4000'' \<or> js_includes addr ''/ip4/127.0.0.1/tcp/3000'' then None else Some addr)"

record agent_env =
  ag_env :: "string \<Rightarrow> string option"
  ag_url :: "string \<Rightarrow> (string \<times> string) option"       \<comment> \<open>host name and port\<close>
  ag_health :: "string \<Rightarrow> jsval option"                 \<comment> \<open>the document of a successful request\<close>
  ag_num :: "real \<Rightarrow> string"
  ag_valid :: "string \<Rightarrow> bool"                          \<comment> \<open>\<open>multiaddr\<close> accepts it\<close>

definition is_docker_demo_host :: "agent_env \<Rightarrow> string \<Rightarrow> bool" where
  "is_docker_demo_host A url =
     (case ag_url A url of None \<Rightarrow> False
      | Some (hostname, port) \<Rightarrow> hostname \<in> {''127.0.0.1'', ''localhost''} \<and> port \<in> {''13000'', ''13001''})"

definition should_enable_docker_map :: "agent_env \<Rightarrow> bool" where
  "should_enable_docker_map A \<longleftrightarrow>
     ag_env A ''NODE_ENV'' = Some ''development'' \<or> ag_env A ''NODE_ENV'' = Some ''test'' \<or> ag_env A ''LIOP_DOCKER_MAP'' = Some ''true'' \<or>
     ag_env A ''LIOP_DEV_MODE'' = Some ''true'' \<or>
     (case truthy_string (ag_env A ''LIOP_NEXUS_URL'') of None \<Rightarrow> False | Some u \<Rightarrow> is_docker_demo_host A u)"

section \<open>Bootstrap nodes\<close>

text \<open>The first plain TCP address; an item that is not a text throws, which yields none.\<close>

fun find_tcp :: "jsval list \<Rightarrow> string option" where
  "find_tcp [] = None"
| "find_tcp (JStr a # xs) =
     (if js_includes a ''/tcp/'' \<and> \<not> js_includes a ''/ws'' \<and> \<not> js_includes a ''/ip4/127.0.0.1/'' then Some a else find_tcp xs)"
| "find_tcp (x # xs) = None"

definition host_regex :: re where "host_regex = Cat (lit ''/ip4/'') (plus (Pred (\<lambda>c. c \<noteq> CHR ''/'')))"

definition rewrite_host :: "agent_env \<Rightarrow> string \<Rightarrow> string \<Rightarrow> string option" where
  "rewrite_host A url tcpAddr =
     (let mapped = (if should_enable_docker_map A then industrial_address_mapper tcpAddr else Some tcpAddr) in
      if mapped = None \<or> mapped = Some [] \<or> mapped = Some tcpAddr then
        (case ag_url A url of None \<Rightarrow> None | Some (hostname, port) \<Rightarrow> Some (re_replace_one host_regex (''/ip4/'' @ hostname) tcpAddr))
      else mapped)"

definition resolve_bootstrap_from_url :: "agent_env \<Rightarrow> string \<Rightarrow> string option" where
  "resolve_bootstrap_from_url A url =
     (case ag_health A (if ends_with url ''/health'' then url else url @ ''/health'') of
        None \<Rightarrow> None
      | Some data \<Rightarrow>
          (let mesh = prop_of data ''mesh''; peerId = prop_of mesh ''peerId'' in
           case prop_of mesh ''multiaddrs'' of
             JArr addrs \<Rightarrow>
               if addrs = [] \<or> \<not> truthy peerId then None
               else
                 Option.bind (find_tcp addrs) (\<lambda>tcpAddr.
                 Option.bind (rewrite_host A url tcpAddr) (\<lambda>resolved.
                   if resolved = [] then None
                   else Some (resolved @ (if js_includes resolved ''/p2p/'' then [] else ''/p2p/'' @ js_string (ag_num A) peerId))))
           | _ \<Rightarrow> None))"

definition add_new :: "string \<Rightarrow> string list \<Rightarrow> string list" where
  "add_new a nodes = (if a \<in> set nodes then nodes else nodes @ [a])"

text \<open>The beacons of a directory, in order: their names and contents, \<open>None\<close> when reading throws, which
  leaves the directory without the check that ends the search.\<close>

fun read_beacons :: "(string \<times> string option) list \<Rightarrow> string list \<Rightarrow> string list \<times> bool" where
  "read_beacons [] nodes = (nodes, nodes \<noteq> [])"
| "read_beacons ((file, content) # fs) nodes =
     (if \<not> ends_with file ''.multiaddr'' then read_beacons fs nodes
      else
        (case content of
           None \<Rightarrow> (nodes, False)
         | Some text \<Rightarrow> read_beacons fs (if js_trim text = [] then nodes else add_new (normalize_bootstrap (js_trim text)) nodes)))"

fun search_dirs :: "(string \<times> string option) list option list \<Rightarrow> string list \<Rightarrow> string list" where
  "search_dirs [] nodes = nodes"
| "search_dirs (None # ds) nodes = search_dirs ds nodes"
| "search_dirs (Some fs # ds) nodes = (case read_beacons fs nodes of (nodes', True) \<Rightarrow> nodes' | (nodes', False) \<Rightarrow> search_dirs ds nodes')"

text \<open>\<open>file\<close> is the content of the file that \<open>LIOP_BOOTSTRAP_FILE\<close> names.\<close>

definition beacon_nodes :: "string option \<Rightarrow> (string \<times> string option) list option list \<Rightarrow> string list" where
  "beacon_nodes beacon dirs =
     search_dirs dirs (case beacon of None \<Rightarrow> [] | Some text \<Rightarrow> if js_trim text = [] then [] else [normalize_bootstrap (js_trim text)])"

definition default_bootstrap :: string where
  "default_bootstrap = ''/ip4/127.0.0.1/tcp/13001/p2p/12D3KooWD8FUFdnLQzzLFNdicsaTknM5cpD7os9sK9NWVSVABJMD''"

definition candidate_nodes :: "agent_env \<Rightarrow> string list \<Rightarrow> string option \<Rightarrow> (string \<times> string option) list option list \<Rightarrow> string list" where
  "candidate_nodes A args beacon dirs =
     (let fromArgs = filter (\<lambda>a. starts_with a ''/'') args;
          found = (if fromArgs = [] then beacon_nodes beacon dirs else fromArgs);
          withNexus = (case Option.bind (truthy_string (ag_env A ''LIOP_NEXUS_URL'')) (resolve_bootstrap_from_url A) of
                         None \<Rightarrow> found | Some r \<Rightarrow> add_new (normalize_bootstrap r) found);
          withEnv = (if withNexus = [] then (case truthy_string (ag_env A ''LIOP_BOOTSTRAP'') of None \<Rightarrow> [] | Some b \<Rightarrow> [js_trim b]) else withNexus)
      in if withEnv = [] then [default_bootstrap] else withEnv)"

definition agent_bootstrap_nodes :: "agent_env \<Rightarrow> string list \<Rightarrow> string option \<Rightarrow> (string \<times> string option) list option list \<Rightarrow> string list" where
  "agent_bootstrap_nodes A args beacon dirs = filter (ag_valid A) (candidate_nodes A args beacon dirs)"

section \<open>Discovery\<close>

definition poll_base_ms :: int where "poll_base_ms = 10000"
definition poll_max_ms :: int where "poll_max_ms = 120000"

text \<open>\<open>Math.round(i * 1.5)\<close>.\<close>

definition next_interval :: "bool \<Rightarrow> int \<Rightarrow> int" where
  "next_interval changed i = (if changed then poll_base_ms else min ((3 * i + 1) div 2) poll_max_ms)"

definition poll :: "pq_env \<Rightarrow> mesh_view option \<Rightarrow> router \<times> int \<Rightarrow> router \<times> int" where
  "poll P view s =
     (case s of (R, i) \<Rightarrow>
        (let R' = refresh_manifest_cache P True view R
         in (R', next_interval (length (ro_cache R') \<noteq> length (ro_cache R)) i)))"

section \<open>Standard input and output\<close>

definition agent_line ::
    "'f router_env \<Rightarrow> json_parser \<Rightarrow> (jsval \<Rightarrow> string) \<Rightarrow> request_io \<Rightarrow> string \<Rightarrow> 'f router_state \<Rightarrow> string \<times> 'f router_state" where
  "agent_line E parse stringify io line RS =
     (let trimmed = js_trim line in
      if trimmed = [] then ([], RS)
      else
        (case parse trimmed of
           None \<Rightarrow> ([], RS)
         | Some q \<Rightarrow>
             if \<not> truthy (prop_of q ''method'') then ([], RS)
             else
               (case dispatch_request E io q None RS of
                  (Answers v, RS') \<Rightarrow> (if truthy v then stringify v @ [CHR 0x0A] else [], RS')
                | (a, RS') \<Rightarrow> ([], RS'))))"

fun agent_run ::
    "'f router_env \<Rightarrow> json_parser \<Rightarrow> (jsval \<Rightarrow> string) \<Rightarrow> (request_io \<times> string) list \<Rightarrow> 'f router_state \<Rightarrow> string \<times> 'f router_state" where
  "agent_run E parse stringify [] RS = ([], RS)"
| "agent_run E parse stringify ((io, line) # ls) RS =
     (case agent_line E parse stringify io line RS of
        (out, RS') \<Rightarrow> (case agent_run E parse stringify ls RS' of (outs, RS'') \<Rightarrow> (out @ outs, RS'')))"

text \<open>What \<open>onToolsChanged\<close> writes.\<close>

definition change_notifications :: string where
  "change_notifications =
     ''{\"jsonrpc\":\"2.0\",\"method\":\"notifications/tools/list_changed\"}'' @ [CHR 0x0A] @
     ''{\"jsonrpc\":\"2.0\",\"method\":\"notifications/resources/list_changed\"}'' @ [CHR 0x0A]"

section \<open>Properties\<close>

text \<open>Between ten seconds and two minutes pass between two discoveries, and after seven that changed nothing the
  interval is two minutes.\<close>

fun intervals :: "bool list \<Rightarrow> int \<Rightarrow> int" where
  "intervals [] i = i"
| "intervals (c # cs) i = intervals cs (next_interval c i)"

lemma next_interval_bounds:
  assumes "poll_base_ms \<le> i" and "i \<le> poll_max_ms"
  shows "poll_base_ms \<le> next_interval c i \<and> next_interval c i \<le> poll_max_ms \<and> (\<not> c \<longrightarrow> i \<le> next_interval c i)"
  using assms by (auto simp: next_interval_def poll_base_ms_def poll_max_ms_def)

lemma quiet_mono: "x \<le> i \<Longrightarrow> intervals (replicate n False) x \<le> intervals (replicate n False) i"
proof (induction n arbitrary: x i)
  case (Suc n)
  have "(3 * x + 1) div 2 \<le> (3 * i + 1) div 2" using Suc.prems by (intro zdiv_mono1) simp_all
  then have "next_interval False x \<le> next_interval False i" by (simp add: next_interval_def min_def)
  then show ?case using Suc.IH by simp
qed simp

lemma quiet_base: "intervals (replicate 7 False) poll_base_ms = poll_max_ms"
  by (simp add: numeral_eq_Suc next_interval_def poll_base_ms_def poll_max_ms_def)

theorem poll_interval_bounds:
  "poll_base_ms \<le> intervals cs poll_base_ms \<and> intervals cs poll_base_ms \<le> poll_max_ms \<and>
   intervals (cs @ replicate 7 False) poll_base_ms = poll_max_ms"
proof -
  have b: "poll_base_ms \<le> intervals cs i \<and> intervals cs i \<le> poll_max_ms" if "poll_base_ms \<le> i" "i \<le> poll_max_ms" for cs i
    using that next_interval_bounds by (induction cs arbitrary: i) auto
  have append: "intervals (as @ bs) i = intervals bs (intervals as i)" for as bs i
    by (induction as arbitrary: i) simp_all
  have seven: "intervals (replicate 7 False) i = poll_max_ms" if "poll_base_ms \<le> i" "i \<le> poll_max_ms" for i
    using that quiet_mono [of poll_base_ms i 7] b [of i "replicate 7 False"] by (simp add: quiet_base)
  show ?thesis using b [of poll_base_ms cs] seven [of "intervals cs poll_base_ms"] by (simp add: append poll_base_ms_def poll_max_ms_def)
qed

text \<open>Arguments that look like addresses take precedence over every other source but the nexus.\<close>

lemma arguments_first:
  assumes "a \<in> set args" and "starts_with a ''/''"
  shows "candidate_nodes A args b dirs = candidate_nodes A args None []"
proof -
  have "filter (\<lambda>a. starts_with a ''/'') args \<noteq> []" using assms by (auto simp: filter_empty_conv)
  then show ?thesis by (simp add: candidate_nodes_def Let_def)
qed

lemma candidates_nonempty: "candidate_nodes A args b dirs \<noteq> []"
  by (simp add: candidate_nodes_def Let_def)

text \<open>The addresses are checked after the fallback was decided, so one malformed beacon leaves the agent
  without any node.\<close>

lemma malformed_beacon_isolates:
  assumes "ag_env A ''LIOP_NEXUS_URL'' = None" and "js_trim text \<noteq> []" and "\<not> ag_valid A (normalize_bootstrap (js_trim text))"
  shows "agent_bootstrap_nodes A [] (Some text) [] = []"
  using assms by (simp add: agent_bootstrap_nodes_def candidate_nodes_def beacon_nodes_def Let_def truthy_string_def)

text \<open>The greedy match of the port.\<close>

lemma greedy_digits:
  assumes "list_all is_digit ds" and "rest = [] \<or> \<not> is_digit (hd rest)" and "length ds \<le> n"
  shows "\<exists>ps. rep_upto True (step_char is_digit) n (b, ds @ rest) = (rev ds @ b, rest) # ps"
  using assms
proof (induction ds arbitrary: b n)
  case Nil
  then have "step_char is_digit (b, rest) = []" by (cases rest) auto
  then show ?case by (cases n) (simp_all add: Let_def)
next
  case (Cons c ds)
  then obtain m where n: "n = Suc m" by (cases n) auto
  from Cons.IH [of m "c # b"] Cons.prems n show ?case by (auto simp: Let_def advances_def)
qed

lemma plus_digits:
  assumes "list_all is_digit ds" and "ds \<noteq> []" and "rest = [] \<or> \<not> is_digit (hd rest)"
  shows "\<exists>ps. re_match (plus (Pred is_digit)) (b, ds @ rest) = (rev ds @ b, rest) # ps"
proof -
  obtain c cs where ds: "ds = c # cs" using assms(2) by (cases ds) auto
  obtain ps where "rep_upto True (step_char is_digit) (length (cs @ rest)) (c # b, cs @ rest) = (rev cs @ c # b, rest) # ps"
    using greedy_digits [of cs rest "length (cs @ rest)" "c # b"] assms ds by auto
  then show ?thesis using assms(1) by (simp add: plus_def ds)
qed

text \<open>An address of a demo node is rewritten to the published port, and what follows the port stays.\<close>

lemma demo_port_rewritten:
  assumes "list_all is_digit ds" and "ds \<noteq> []" and "rest = [] \<or> \<not> is_digit (hd rest)"
  shows "re_replace_one (demo_port_regex ip) target (ip @ ''/tcp/'' @ ds @ rest) = target @ rest"
proof -
  let ?s = "ip @ ''/tcp/'' @ ds @ rest" and ?b = "rev (ip @ ''/tcp/'')"
  obtain ps where "re_match (plus (Pred is_digit)) (?b, ds @ rest) = (rev ds @ ?b, rest) # ps"
    using plus_digits [OF assms, of ?b] by blast
  moreover have "starts_with ?s (ip @ ''/tcp/'')" "drop (length (ip @ ''/tcp/'')) ?s = ds @ rest"
    by (auto simp: starts_with_iff)
  ultimately have "re_match (demo_port_regex ip) ([], ?s) = (rev ds @ ?b, rest) # ps"
    unfolding demo_port_regex_def re_match.simps re_match_lit by simp
  then have "re_search (demo_port_regex ip) [] ?s = Some (([], ?s), (rev ds @ ?b, rest))"
    by (subst re_search.simps) (simp only: list.case)
  then show ?thesis by (simp only: re_replace_one_def option.case prod.case rev.simps append_Nil)
qed

text \<open>Only lines with a method are answered, and nothing answers a notification.\<close>

lemma silent_lines:
  "parse (js_trim line) = Some q \<Longrightarrow> \<not> truthy (prop_of q ''method'') \<Longrightarrow> agent_line E parse stringify io line RS = ([], RS)"
  "parse (js_trim line) = None \<Longrightarrow> agent_line E parse stringify io line RS = ([], RS)"
  by (simp_all add: agent_line_def Let_def)

lemma notifications_silent:
  assumes "parse (js_trim line) = Some q" and "prop_of q ''method'' = JStr ''notifications/initialized''" and "\<not> rv_jwt E"
  shows "agent_line E parse stringify io line RS = ([], RS)"
  using assms by (cases RS) (auto simp: agent_line_def Let_def dispatch_request_def dispatch_def route_method_def truthy_def)

end
