(* ===== verification/MeshLife.thy ===== *)
theory MeshLife
  imports MeshNode
begin

text \<open>
  The life of a mesh node of \<open>mesh/node.ts\<close>: \<open>start\<close>, \<open>stop\<close> and the two listeners, cut at every
  \<open>await\<close>, so that calls interleave as they can in the program. libp2p is represented by the status of
  the node it made and by the calls it gets; the identity file is JSON with the key in base64.
\<close>

section \<open>The identity file\<close>

record identity_codec =
  ic_toBase64 :: "bytes \<Rightarrow> string"
  ic_fromBase64 :: "string \<Rightarrow> bytes"
  ic_toProtobuf :: "bytes \<Rightarrow> bytes"
  ic_fromProtobuf :: "bytes \<Rightarrow> bytes option"
  ic_stringify :: "jsval \<Rightarrow> string"
  ic_parse :: json_parser

text \<open>\<open>saveIdentity\<close>: the text it writes for a key.\<close>

definition identity_text :: "identity_codec \<Rightarrow> string \<Rightarrow> bytes \<Rightarrow> string" where
  "identity_text C peerId key =
     ic_stringify C (JObj [(''id'', JStr peerId), (''privKey'', JStr (ic_toBase64 C (ic_toProtobuf C key)))])"

text \<open>The bytes of the key of a file; \<open>None\<close> when there is no file, or it is not the JSON of an object
  with a text \<open>privKey\<close>.\<close>

definition read_identity_text :: "identity_codec \<Rightarrow> string option \<Rightarrow> bytes option" where
  "read_identity_text C file_text =
     Option.bind (Option.bind file_text (ic_parse C)) (\<lambda>v.
       case prop_of v ''privKey'' of JStr s \<Rightarrow> Some (ic_fromBase64 C s) | _ \<Rightarrow> None)"

definition load_identity :: "identity_codec \<Rightarrow> bool \<Rightarrow> string option \<Rightarrow> bytes \<Rightarrow> identity" where
  "load_identity C hasPath file_text generated =
     load_or_create_identity hasPath (read_identity_text C file_text) (ic_fromProtobuf C) generated"

definition identity_key :: "identity \<Rightarrow> bytes" where
  "identity_key i = (case i of Stored k \<Rightarrow> k | Fresh k \<Rightarrow> k)"

section \<open>States and events\<close>

text \<open>The status of \<open>this.node\<close>; \<open>NoNode\<close> is \<open>null\<close>.\<close>

datatype node_status = NoNode | Created | Started | Stopped

text \<open>How far a call of \<open>start\<close> has come: it waits for the identity, for \<open>createLibp2p\<close>, for the node to
  start, or it is past these.\<close>

datatype start_phase = Loading | Creating identity | Booting identity | Up

record mesh_life =
  ml_mesh :: mesh_node
  ml_status :: node_status
  ml_starts :: "start_phase list"
  ml_created :: nat
  ml_key :: "bytes option"
  ml_rounds :: nat

definition new_mesh_life :: mesh_life where
  "new_mesh_life =
     \<lparr>ml_mesh = new_mesh_node, ml_status = NoNode, ml_starts = [], ml_created = 0, ml_key = None, ml_rounds = 0\<rparr>"

record life_env =
  le_options :: mesh_options
  le_mapper :: "(string \<Rightarrow> string option) option"
  le_peerId :: string
  le_codec :: identity_codec

datatype mesh_action =
  WritesIdentity string
| DialsNode string
| AddsPeer string
| Provides string
| SavesTable
| StopsNode

datatype mesh_event =
  StartCalled
| IdentityLoaded nat identity
| NodeCreated nat
| NodeStarted nat
| PeerDiscovered string "string list"
| PeerConnected string
| RoundEnded "string \<Rightarrow> bool"
| StopCalled

section \<open>Handlers\<close>

text \<open>\<open>peer:discovery\<close>: the peer, or the first of its translated addresses that is plain TCP.\<close>

definition discovery_target :: "(string \<Rightarrow> string option) option \<Rightarrow> string \<Rightarrow> string list \<Rightarrow> string" where
  "discovery_target mapper peerId addrs =
     (case mapper of
        None \<Rightarrow> peerId
      | Some f \<Rightarrow> (case translated_target f addrs of Some a \<Rightarrow> a | None \<Rightarrow> peerId))"

text \<open>\<open>peer:connect\<close>: the peer enters the routing table, and a round of announcements begins unless one is
  running.\<close>

definition on_connect :: "string \<Rightarrow> mesh_life \<Rightarrow> mesh_life \<times> mesh_action list" where
  "on_connect peerId S =
     (case begin_reannounce (ml_mesh S) of
        None \<Rightarrow> (S, [AddsPeer peerId])
      | Some N \<Rightarrow> (S\<lparr>ml_mesh := N, ml_rounds := ml_rounds S + 1\<rparr>, [AddsPeer peerId]))"

definition round_ended :: "(string \<Rightarrow> bool) \<Rightarrow> mesh_life \<Rightarrow> mesh_life \<times> mesh_action list" where
  "round_ended provide S =
     (if ml_rounds S = 0 then (S, [])
      else (case end_reannounce provide (ml_mesh S) of
              (hashes, N) \<Rightarrow> (S\<lparr>ml_mesh := N, ml_rounds := ml_rounds S - 1\<rparr>, map Provides hashes)))"

definition begin_start :: "mesh_life \<Rightarrow> mesh_life" where
  "begin_start S = (if ml_status S \<noteq> NoNode then S else S\<lparr>ml_starts := ml_starts S @ [Loading]\<rparr>)"

definition identity_loaded :: "nat \<Rightarrow> identity \<Rightarrow> mesh_life \<Rightarrow> mesh_life" where
  "identity_loaded i ident S =
     (if i < length (ml_starts S) \<and> ml_starts S ! i = Loading
      then S\<lparr>ml_starts := (ml_starts S)[i := Creating ident], ml_key := Some (identity_key ident)\<rparr> else S)"

definition node_created :: "nat \<Rightarrow> mesh_life \<Rightarrow> mesh_life" where
  "node_created i S =
     (if i < length (ml_starts S) then
        (case ml_starts S ! i of
           Creating ident \<Rightarrow>
             S\<lparr>ml_starts := (ml_starts S)[i := Booting ident], ml_status := Created, ml_created := ml_created S + 1\<rparr>
         | _ \<Rightarrow> S)
      else S)"

text \<open>The node is up: the handlers are registered, a new identity is written, the bootstrap nodes are
  dialled.\<close>

definition node_started :: "life_env \<Rightarrow> nat \<Rightarrow> mesh_life \<Rightarrow> mesh_life \<times> mesh_action list" where
  "node_started E i S =
     (if i < length (ml_starts S) then
        (case ml_starts S ! i of
           Booting ident \<Rightarrow>
             (S\<lparr>ml_starts := (ml_starts S)[i := Up], ml_status := Started, ml_mesh := apply_handlers (ml_mesh S)\<rparr>,
              (case saved_identity (mo_identityPath (le_options E) \<noteq> None) ident of
                 None \<Rightarrow> [] | Some k \<Rightarrow> [WritesIdentity (identity_text (le_codec E) (le_peerId E) k)]) @
              map DialsNode (boot_nodes (le_options E)))
         | _ \<Rightarrow> (S, []))
      else (S, []))"

text \<open>\<open>stop\<close> keeps the stopped node in \<open>this.node\<close>.\<close>

definition stop_node :: "mesh_life \<Rightarrow> mesh_life \<times> mesh_action list" where
  "stop_node S = (if ml_status S = NoNode then (S, []) else (S\<lparr>ml_status := Stopped\<rparr>, [SavesTable, StopsNode]))"

definition mesh_life_step :: "life_env \<Rightarrow> mesh_event \<Rightarrow> mesh_life \<Rightarrow> mesh_life \<times> mesh_action list" where
  "mesh_life_step E e S =
     (case e of
        StartCalled \<Rightarrow> (begin_start S, [])
      | IdentityLoaded i ident \<Rightarrow> (identity_loaded i ident S, [])
      | NodeCreated i \<Rightarrow> (node_created i S, [])
      | NodeStarted i \<Rightarrow> node_started E i S
      | PeerDiscovered p addrs \<Rightarrow> (S, if ml_status S = NoNode then [] else [DialsNode (discovery_target (le_mapper E) p addrs)])
      | PeerConnected p \<Rightarrow> if ml_status S = NoNode then (S, []) else on_connect p S
      | RoundEnded provide \<Rightarrow> round_ended provide S
      | StopCalled \<Rightarrow> stop_node S)"

fun mesh_life_run :: "life_env \<Rightarrow> mesh_event list \<Rightarrow> mesh_life \<Rightarrow> mesh_life" where
  "mesh_life_run E [] S = S"
| "mesh_life_run E (e # es) S = mesh_life_run E es (fst (mesh_life_step E e S))"

text \<open>The other methods.\<close>

definition is_started :: "mesh_life \<Rightarrow> bool" where
  "is_started S \<longleftrightarrow> ml_status S = Started"

definition mesh_sign :: "(bytes \<Rightarrow> bytes \<Rightarrow> bytes) \<Rightarrow> bytes \<Rightarrow> mesh_life \<Rightarrow> string + bytes" where
  "mesh_sign sign message S =
     (case ml_key S of None \<Rightarrow> Inl ''Local identity not loaded or initialized'' | Some k \<Rightarrow> Inr (sign k message))"

definition when_running :: "mesh_life \<Rightarrow> 'a \<Rightarrow> string + 'a" where
  "when_running S x = (if ml_status S = NoNode then Inl ''Mesh Node is not running'' else Inr x)"

definition mesh_announce :: "string \<Rightarrow> mesh_life \<Rightarrow> string + mesh_life" where
  "mesh_announce hash S = when_running S (S\<lparr>ml_mesh := announce_capability hash (ml_mesh S)\<rparr>)"

section \<open>Reachable states\<close>

inductive life_reach :: "life_env \<Rightarrow> mesh_life \<Rightarrow> bool" for E where
  life_init: "life_reach E new_mesh_life"
| life_event: "life_reach E S \<Longrightarrow> life_reach E (fst (mesh_life_step E e S))"
| life_announce: "life_reach E S \<Longrightarrow> mesh_announce h S = Inr S' \<Longrightarrow> life_reach E S'"
| life_handler: "life_reach E S \<Longrightarrow> life_reach E (S\<lparr>ml_mesh := register_manifest_handler (ml_status S \<noteq> NoNode) (ml_mesh S)\<rparr>)"

text \<open>Runs in which \<open>start\<close> is not called while an earlier call is under way.\<close>

definition starts_settled :: "mesh_life \<Rightarrow> bool" where
  "starts_settled S \<longleftrightarrow> list_all (\<lambda>p. p = Up) (ml_starts S)"

inductive life_serial :: "life_env \<Rightarrow> mesh_life \<Rightarrow> bool" for E where
  serial_init: "life_serial E new_mesh_life"
| serial_event: "life_serial E S \<Longrightarrow> e = StartCalled \<longrightarrow> starts_settled S \<Longrightarrow> life_serial E (fst (mesh_life_step E e S))"

lemmas life_steps = mesh_life_step_def begin_start_def identity_loaded_def node_created_def node_started_def
  on_connect_def round_ended_def stop_node_def begin_reannounce_def end_reannounce_def

section \<open>Announcement rounds\<close>

lemma reannouncing_frame [simp]:
  "mn_reannouncing (announce_capability h N) = mn_reannouncing N"
  "mn_reannouncing (apply_handlers N) = mn_reannouncing N"
  "mn_reannouncing (register_manifest_handler b N) = mn_reannouncing N"
  by (simp_all add: announce_capability_def apply_handlers_def register_manifest_handler_def Let_def)

text \<open>However connections and rounds interleave, at most one round of announcements runs, and the flag says
  whether one does.\<close>

theorem one_announcement_round:
  "life_reach E S \<Longrightarrow> ml_rounds S = (if mn_reannouncing (ml_mesh S) then 1 else 0)"
proof (induction rule: life_reach.induct)
  case (life_event S e)
  then show ?case
    by (cases e) (auto simp: life_steps split: start_phase.splits if_splits)
next
  case (life_announce S h S')
  then show ?case by (auto simp: mesh_announce_def when_running_def split: if_splits)
qed (simp_all add: new_mesh_life_def new_mesh_node_def)

text \<open>A round that ends offers every capability announced until then that the DHT takes.\<close>

lemma round_offers_all:
  "0 < ml_rounds S \<Longrightarrow> snd (mesh_life_step E (RoundEnded provide) S) = map Provides (filter provide (mn_announced (ml_mesh S)))"
  by (simp add: life_steps)

section \<open>Starting and stopping\<close>

lemma serial_one_start:
  "life_serial E S \<Longrightarrow> length (ml_starts S) \<le> 1 \<and> ml_created S \<le> length (ml_starts S) \<and>
     (\<forall>p\<in>set (ml_starts S). (case p of Loading \<Rightarrow> ml_created S = 0 | Creating i \<Rightarrow> ml_created S = 0 | _ \<Rightarrow> ml_status S \<noteq> NoNode))"
proof (induction rule: life_serial.induct)
  case (serial_event S e)
  then show ?case
    by (cases e; cases "ml_starts S")
      (auto simp: life_steps starts_settled_def less_Suc0 split: start_phase.splits if_splits)
qed (simp add: new_mesh_life_def)

text \<open>Calls of \<open>start\<close> that do not overlap create at most one libp2p node, however often it is called.\<close>

theorem serial_starts_create_one: "life_serial E S \<Longrightarrow> ml_created S \<le> 1"
  using serial_one_start by fastforce

text \<open>Two calls that overlap both pass the test of \<open>this.node\<close>, which is set only after two \<open>await\<close>s, and
  create two nodes, of which the first is lost without being stopped.\<close>

theorem overlapping_starts_create_two:
  "ml_created (mesh_life_run E
     [StartCalled, StartCalled, IdentityLoaded 0 (Fresh k), IdentityLoaded 1 (Fresh l), NodeCreated 0, NodeCreated 1]
     new_mesh_life) = 2"
  by (simp add: life_steps new_mesh_life_def)

lemma stopped_step:
  assumes "ml_status S = Stopped" and "starts_settled S"
  shows "ml_status (fst (mesh_life_step E e S)) = Stopped \<and> starts_settled (fst (mesh_life_step E e S))"
  using assms
  by (cases e) (auto simp: life_steps starts_settled_def list_all_length nth_list_update split: start_phase.splits)

text \<open>A node that was stopped never runs again: \<open>stop\<close> leaves it in \<open>this.node\<close>, and \<open>start\<close> returns at once
  when there is a node.\<close>

theorem stopped_node_stays_stopped:
  assumes "ml_status S = Stopped" and "starts_settled S"
  shows "\<not> is_started (mesh_life_run E es S)"
  using assms
proof (induction es arbitrary: S)
  case (Cons e es)
  then show ?case using stopped_step [OF Cons.prems] by simp
qed (simp add: is_started_def)

lemma stopped_node_stays_stopped_example:
  "\<not> is_started (mesh_life_run E [StopCalled, StartCalled, IdentityLoaded 0 (Fresh k), NodeCreated 0, NodeStarted 0]
     (new_mesh_life\<lparr>ml_status := Started\<rparr>))"
  by (simp add: life_steps new_mesh_life_def is_started_def)

section \<open>Identity\<close>

text \<open>The key a first start writes is the one every later start loads, and no later start writes again.\<close>

theorem identity_survives_restart:
  assumes "\<And>v. ic_parse C (ic_stringify C v) = Some v" and "\<And>b. ic_fromBase64 C (ic_toBase64 C b) = b"
    and "\<And>k. ic_fromProtobuf C (ic_toProtobuf C k) = Some k"
  shows "load_identity C True (Some (identity_text C peerId k)) generated = Stored k \<and>
    saved_identity True (load_identity C True (Some (identity_text C peerId k)) generated) = None"
  by (simp add: load_identity_def read_identity_text_def identity_text_def assms load_or_create_identity_def
      saved_identity_def prop_of_def get_prop_def)

text \<open>The key for signatures is that of an identity that was loaded.\<close>

lemma sign_before_start: "mesh_sign sign m new_mesh_life = Inl ''Local identity not loaded or initialized''"
  by (simp add: mesh_sign_def new_mesh_life_def)

lemma announce_before_start: "mesh_announce h new_mesh_life = Inl ''Mesh Node is not running''"
  by (simp add: mesh_announce_def when_running_def new_mesh_life_def)

lemma discovery_dials_direct:
  "discovery_target (Some f) p addrs \<noteq> p \<Longrightarrow> is_direct_tcp (discovery_target (Some f) p addrs)"
  by (auto simp: discovery_target_def translated_target_def dest: find_Some_iff [THEN iffD1] split: option.splits)

end
