(* ===== verification/AgentLife.thy ===== *)
theory AgentLife
  imports Agent MeshLife
begin

text \<open>
  The life of the agent of \<open>bin/agent.ts\<close>: the relaunch with the certificates of the system, the
  configuration of its mesh node, and its standard input and output, where the handler of a line is
  asynchronous, so that answers come in any order and the end of the input ends the process.
\<close>

section \<open>Relaunch\<close>

definition system_ca_flag :: string where "system_ca_flag = ''--use-system-ca''"

definition needs_relaunch :: "string \<Rightarrow> string list \<Rightarrow> string option \<Rightarrow> bool" where
  "needs_relaunch platform execArgv nodeOptions \<longleftrightarrow>
     platform \<in> {''win32'', ''darwin''} \<and> system_ca_flag \<notin> set execArgv \<and>
     \<not> js_includes (case nodeOptions of None \<Rightarrow> [] | Some s \<Rightarrow> s) system_ca_flag"

text \<open>The arguments of the child; those before the script are its \<open>execArgv\<close>.\<close>

definition relaunch_arguments :: "string list \<Rightarrow> string list" where
  "relaunch_arguments argv = system_ca_flag # drop 1 argv"

definition relaunch_exit_code :: "int option \<Rightarrow> int" where
  "relaunch_exit_code code = (case code of None \<Rightarrow> 1 | Some c \<Rightarrow> c)"

section \<open>The mesh node of the agent\<close>

definition agent_identity_path :: "string \<Rightarrow> string" where
  "agent_identity_path home = home @ ''/.liop/identity.json''"

definition agent_mesh_options :: "string \<Rightarrow> string list \<Rightarrow> mesh_options" where
  "agent_mesh_options home nodes =
     mesh_node_config
       \<lparr>mo_listenAddresses = None, mo_bootstrapNodes = Some nodes, mo_identityPath = Some (agent_identity_path home),
        mo_enableWAN = None, mo_dhtStoragePath = None, mo_enableAutoNAT = None, mo_enableRelay = None, mo_enableDcutr = None,
        mo_enableMdns = None\<rparr>"

definition agent_life_env :: "agent_env \<Rightarrow> string \<Rightarrow> string list \<Rightarrow> string \<Rightarrow> identity_codec \<Rightarrow> life_env" where
  "agent_life_env A home nodes peerId C =
     \<lparr>le_options = agent_mesh_options home nodes,
      le_mapper = (if should_enable_docker_map A then Some industrial_address_mapper else None),
      le_peerId = peerId, le_codec = C\<rparr>"

section \<open>Standard input and output\<close>

text \<open>\<open>Dispatched\<close> is the end of the dispatch of a request: the answer, \<open>None\<close> when it throws.\<close>

datatype stdio_event = LineRead string | Dispatched nat "jsval option" | InputClosed | OutputBroken

record stdio =
  io_taken :: nat
  io_pending :: "nat list"
  io_written :: "string list"
  io_silent :: nat
  io_exited :: bool

definition new_stdio :: stdio where
  "new_stdio = \<lparr>io_taken = 0, io_pending = [], io_written = [], io_silent = 0, io_exited = False\<rparr>"

definition is_request_line :: "json_parser \<Rightarrow> string \<Rightarrow> bool" where
  "is_request_line parse line \<longleftrightarrow>
     js_trim line \<noteq> [] \<and> (case parse (js_trim line) of None \<Rightarrow> False | Some q \<Rightarrow> truthy (prop_of q ''method''))"

definition stdio_step :: "json_parser \<Rightarrow> (jsval \<Rightarrow> string) \<Rightarrow> stdio_event \<Rightarrow> stdio \<Rightarrow> stdio" where
  "stdio_step parse stringify e S =
     (if io_exited S then S
      else
        (case e of
           LineRead line \<Rightarrow>
             if is_request_line parse line
             then S\<lparr>io_taken := io_taken S + 1, io_pending := io_pending S @ [io_taken S]\<rparr> else S
         | Dispatched i answer \<Rightarrow>
             if i \<notin> set (io_pending S) then S
             else
               (let S1 = S\<lparr>io_pending := remove1 i (io_pending S)\<rparr> in
                case answer of
                  None \<Rightarrow> S1\<lparr>io_silent := io_silent S + 1\<rparr>
                | Some v \<Rightarrow>
                    if truthy v then S1\<lparr>io_written := io_written S @ [stringify v @ [CHR 0x0A]]\<rparr>
                    else S1\<lparr>io_silent := io_silent S + 1\<rparr>)
         | InputClosed \<Rightarrow> S\<lparr>io_exited := True\<rparr>
         | OutputBroken \<Rightarrow> S\<lparr>io_exited := True\<rparr>))"

inductive stdio_reach :: "json_parser \<Rightarrow> (jsval \<Rightarrow> string) \<Rightarrow> stdio \<Rightarrow> bool" for parse stringify where
  stdio_start: "stdio_reach parse stringify new_stdio"
| stdio_event: "stdio_reach parse stringify S \<Longrightarrow> stdio_reach parse stringify (stdio_step parse stringify e S)"

section \<open>Properties\<close>

text \<open>The child that was launched with the flag does not launch another.\<close>

lemma relaunch_once: "\<not> needs_relaunch platform (take 1 (relaunch_arguments argv)) nodeOptions"
  by (simp add: needs_relaunch_def relaunch_arguments_def)

text \<open>An agent whose candidates were all refused joins no network: it neither dials bootstrap nodes nor uses
  those of the public network.\<close>

lemma standalone_agent: "boot_nodes (agent_mesh_options home []) = []"
  by (simp add: boot_nodes_def agent_mesh_options_def mesh_node_config_def or_default_def)

lemma agent_dials_its_nodes: "boot_nodes (agent_mesh_options home nodes) = nodes"
  by (simp add: boot_nodes_def agent_mesh_options_def mesh_node_config_def or_default_def)

lemma agent_stores_identity: "mo_identityPath (agent_mesh_options home nodes) = Some (agent_identity_path home)"
  by (simp add: agent_mesh_options_def mesh_node_config_def)

text \<open>However the answers interleave, every request that was taken is answered once, passed over once, or still
  pending: no request is answered twice.\<close>

lemma stdio_pending:
  "stdio_reach parse stringify S \<Longrightarrow>
     distinct (io_pending S) \<and> (\<forall>i\<in>set (io_pending S). i < io_taken S) \<and>
     length (io_written S) + io_silent S + length (io_pending S) = io_taken S"
proof (induction rule: stdio_reach.induct)
  case stdio_start
  show ?case by (simp add: new_stdio_def)
next
  case (stdio_event S e)
  then show ?case
  proof (cases e)
    case (Dispatched i answer)
    have "i \<in> set (io_pending S) \<Longrightarrow> Suc (length (remove1 i (io_pending S))) = length (io_pending S)"
      by (metis One_nat_def Suc_pred length_pos_if_in_set length_remove1)
    with stdio_event Dispatched show ?thesis
      by (auto simp: stdio_step_def Let_def split: option.split dest: set_remove1_subset [THEN subsetD])
  qed (auto simp: stdio_step_def)
qed

theorem requests_accounted_for:
  assumes "stdio_reach parse stringify S" and "io_pending S = []"
  shows "io_taken S = length (io_written S) + io_silent S"
  using stdio_pending [OF assms(1)] assms(2) by simp

text \<open>The end of the input ends the process at once: a request that was read just before it is not answered.\<close>

lemma closing_drops_pending:
  assumes "is_request_line parse line"
  shows "\<exists>S. S = stdio_step parse stringify (Dispatched 0 (Some v)) (stdio_step parse stringify InputClosed
      (stdio_step parse stringify (LineRead line) new_stdio)) \<and>
    io_taken S = 1 \<and> io_written S = [] \<and> io_silent S = 0"
  using assms by (simp add: stdio_step_def new_stdio_def)

text \<open>Answers leave in the order in which the dispatches end.\<close>

lemma answers_overtake:
  assumes "is_request_line parse a" "is_request_line parse b" "truthy v" "truthy w"
  shows "io_written (stdio_step parse stringify (Dispatched 0 (Some v)) (stdio_step parse stringify (Dispatched 1 (Some w))
      (stdio_step parse stringify (LineRead b) (stdio_step parse stringify (LineRead a) new_stdio)))) =
    [stringify w @ [CHR 0x0A], stringify v @ [CHR 0x0A]]"
  using assms by (simp add: stdio_step_def new_stdio_def)

end
