(* ===== verification/NameTable.thy ===== *)
theory NameTable
  imports Registry
begin

text \<open>
  The contract that the registrations of \<open>server/index.ts\<close> share: tools, prompts and resources are each
  kept under a name that can be taken once. What a sequence of registrations does is proved once.
\<close>

section \<open>The interface\<close>

locale name_table =
  fixes keys :: "'s \<Rightarrow> string list"
    and name :: "'v \<Rightarrow> string"
    and add :: "'v \<Rightarrow> 's \<Rightarrow> string + 's"
  assumes added: "name v \<notin> set (keys s) \<Longrightarrow> \<exists>s'. add v s = Inr s' \<and> keys s' = keys s @ [name v]"
    and refused: "name v \<in> set (keys s) \<Longrightarrow> \<exists>e. add v s = Inl e"
begin

fun add_all :: "'v list \<Rightarrow> 's \<Rightarrow> string + 's" where
  "add_all [] s = Inr s"
| "add_all (v # vs) s = bind_sum (add v s) (add_all vs)"

text \<open>A list is registered exactly when its names are distinct and new, and then in its order.\<close>

lemma add_all_keys:
  "distinct (map name vs) \<Longrightarrow> set (map name vs) \<inter> set (keys s) = {} \<Longrightarrow>
     \<exists>s'. add_all vs s = Inr s' \<and> keys s' = keys s @ map name vs"
proof (induction vs arbitrary: s)
  case (Cons v vs)
  then obtain s1 where s1: "add v s = Inr s1" "keys s1 = keys s @ [name v]" using added [of v s] by auto
  have "set (map name vs) \<inter> set (keys s1) = {}" using Cons.prems by (auto simp: s1)
  from Cons.IH [OF _ this] Cons.prems(1) show ?case by (auto simp: s1)
qed simp

lemma add_all_iff:
  "(\<exists>s'. add_all vs s = Inr s') \<longleftrightarrow> distinct (map name vs) \<and> set (map name vs) \<inter> set (keys s) = {}"
proof (induction vs arbitrary: s)
  case (Cons v vs)
  show ?case
  proof (cases "name v \<in> set (keys s)")
    case True
    then show ?thesis using refused [of v s] by auto
  next
    case False
    then obtain s1 where "add v s = Inr s1" "keys s1 = keys s @ [name v]" using added [of v s] by auto
    then show ?thesis using Cons.IH [of s1] False by auto
  qed
qed simp

lemma add_all_result: "add_all vs s = Inr s' \<Longrightarrow> keys s' = keys s @ map name vs"
  using add_all_iff [of vs s] add_all_keys [of vs s] by auto

end

section \<open>The registries\<close>

lemma keys_new: "k \<notin> fst ` set xs \<Longrightarrow> AList.update k v xs = xs @ [(k, v)]"
  by (induction xs) auto

interpretation tool_table: name_table "\<lambda>S. map fst (sv_tools S)" fst "\<lambda>(n, e). register_tool n e"
proof
  fix v :: "string \<times> tool_entry" and S :: "'f server_state"
  show "fst v \<notin> set (map fst (sv_tools S)) \<Longrightarrow>
      \<exists>S'. (case v of (n, e) \<Rightarrow> register_tool n e) S = Inr S' \<and> map fst (sv_tools S') = map fst (sv_tools S) @ [fst v]"
    by (cases v) (simp add: register_tool_def keys_new map_of_eq_None_iff [THEN iffD2])
  show "fst v \<in> set (map fst (sv_tools S)) \<Longrightarrow> \<exists>e. (case v of (n, e) \<Rightarrow> register_tool n e) S = Inl e"
    by (cases v; cases "map_of (sv_tools S) (fst v)") (auto simp: register_tool_def map_of_eq_None_iff)
qed

interpretation prompt_table: name_table "\<lambda>R. map fst (rg_prompts R)" pi_name add_prompt
proof
  fix v and R
  show "pi_name v \<notin> set (map fst (rg_prompts R)) \<Longrightarrow>
      \<exists>R'. add_prompt v R = Inr R' \<and> map fst (rg_prompts R') = map fst (rg_prompts R) @ [pi_name v]"
    by (simp add: add_prompt_def keys_new map_of_eq_None_iff [THEN iffD2])
  show "pi_name v \<in> set (map fst (rg_prompts R)) \<Longrightarrow> \<exists>e. add_prompt v R = Inl e"
    by (cases "map_of (rg_prompts R) (pi_name v)") (auto simp: add_prompt_def map_of_eq_None_iff)
qed

interpretation resource_table: name_table "\<lambda>R. map fst (rg_resources R)" rs_uri add_resource
proof
  fix v and R
  show "rs_uri v \<notin> set (map fst (rg_resources R)) \<Longrightarrow>
      \<exists>R'. add_resource v R = Inr R' \<and> map fst (rg_resources R') = map fst (rg_resources R) @ [rs_uri v]"
    by (simp add: add_resource_def keys_new map_of_eq_None_iff [THEN iffD2])
  show "rs_uri v \<in> set (map fst (rg_resources R)) \<Longrightarrow> \<exists>e. add_resource v R = Inl e"
    by (cases "map_of (rg_resources R) (rs_uri v)") (auto simp: add_resource_def map_of_eq_None_iff)
qed

text \<open>The address of the specification is taken from the start.\<close>

lemma resources_registered_iff:
  "(\<exists>R. resource_table.add_all rs (initial_registry D) = Inr R) \<longleftrightarrow>
     distinct (map rs_uri rs) \<and> ''liop://protocol/envelope-spec'' \<notin> set (map rs_uri rs)"
  unfolding resource_table.add_all_iff by (auto simp: initial_registry_def)

end
