(* ===== verification/BridgeSetup.thy ===== *)
theory BridgeSetup
  imports StreamBridge NameTable
begin

text \<open>
  How the bridges are set up and shut down: the modes of \<open>bridge/index.ts\<close> and its \<open>connect\<close>, which
  copies the tools and resources of a wrapped MCP server into a new LIOP server; \<open>start\<close>, \<open>stop\<close> and the
  token of \<open>bridge/stream.ts\<close>; \<open>close\<close> of \<open>server/index.ts\<close>. The MCP server is what its tables of tools
  and resources hold; timers are numbered in the order they are made.
\<close>

section \<open>Modes\<close>

text \<open>The schema of a tool is the JSON schema made of its shape.\<close>

record legacy_tool =
  lt_description :: "string option"
  lt_inputSchema :: "jsval option"
  lt_logic :: bool
  lt_entry :: tool_entry

record legacy_resource =
  lr_name :: string
  lr_description :: "string option"
  lr_mimeType :: "string option"
  lr_read :: "string + string"

record legacy_server =
  ls_tools :: "(string \<times> legacy_tool) list option"
  ls_resources :: "(string \<times> legacy_resource) list option"

datatype bridge_mode = ExposeMode | WrapMode

definition mode_of_source :: "string option \<Rightarrow> bridge_mode" where
  "mode_of_source constructorName = (if constructorName = Some ''LiopServer'' then ExposeMode else WrapMode)"

section \<open>Wrapping\<close>

definition legacy_resource_of :: "string \<Rightarrow> legacy_resource \<Rightarrow> resource" where
  "legacy_resource_of uri r =
     \<lparr>rs_name = lr_name r, rs_uri = uri, rs_description = Some (or_else (truthy_string (lr_description r)) []),
      rs_mimeType = Some (or_else (truthy_string (lr_mimeType r)) ''application/octet-stream''),
      rs_content = ContentFunction (lr_read r)\<rparr>"

fun sync_tools ::
    "documents \<Rightarrow> string list \<Rightarrow> (string \<times> legacy_tool) list \<Rightarrow> 'f server_state \<times> registry \<Rightarrow> string + 'f server_state \<times> registry" where
  "sync_tools D blockedKeys [] SR = Inr SR"
| "sync_tools D blockedKeys ((name, t) # ts) SR =
     bind_sum (add_tool D blockedKeys name (or_else (truthy_string (lt_description t)) [])
                 (case lt_inputSchema t of Some s \<Rightarrow> s | None \<Rightarrow> JObj []) (lt_logic t) (lt_entry t) SR)
       (sync_tools D blockedKeys ts)"

fun sync_resources :: "(string \<times> legacy_resource) list \<Rightarrow> registry \<Rightarrow> string + registry" where
  "sync_resources [] R = Inr R"
| "sync_resources ((uri, r) # rs) R = bind_sum (add_resource (legacy_resource_of uri r) R) (sync_resources rs)"

text \<open>\<open>connect\<close> of a wrapping bridge; \<open>joined\<close> is the outcome of joining the mesh. Nothing is copied unless
  the bridge publishes to the mesh.\<close>

definition connect_wrapped ::
    "documents \<Rightarrow> string list \<Rightarrow> bool \<Rightarrow> string option \<Rightarrow> legacy_server \<Rightarrow> 'f server_state \<Rightarrow> string + 'f server_state \<times> registry" where
  "connect_wrapped D blockedKeys publishToMesh joinError L S =
     (if \<not> publishToMesh then Inr (S, initial_registry D)
      else
        (case joinError of
           Some e \<Rightarrow> Inl e
         | None \<Rightarrow>
             bind_sum (sync_tools D blockedKeys (case ls_tools L of Some ts \<Rightarrow> ts | None \<Rightarrow> []) (S, initial_registry D)) (\<lambda>(S', R).
               bind_sum (sync_resources (case ls_resources L of Some rs \<Rightarrow> rs | None \<Rightarrow> []) R) (\<lambda>R'. Inr (S', R')))))"

section \<open>Shutting down\<close>

datatype close_step = ClosePool | StopRpcServer | StopMeshNode

definition close_server :: "bool \<Rightarrow> bool \<Rightarrow> close_step list" where
  "close_server hasRpc hasMesh = [ClosePool] @ (if hasRpc then [StopRpcServer] else []) @ (if hasMesh then [StopMeshNode] else [])"

section \<open>The HTTP bridge\<close>

text \<open>The token the middleware expects: that of the environment, or a random one.\<close>

definition zero_trust_token :: "(string \<Rightarrow> string option) \<Rightarrow> string \<Rightarrow> string" where
  "zero_trust_token env uuid = or_else (truthy_string (env ''ZERO_TRUST_TOKEN'')) uuid"

record stream_life =
  sl_state :: stream_state
  sl_timer :: "nat option"
  sl_intervals :: "nat list"
  sl_made :: nat
  sl_port :: "int option"

definition new_stream_life :: "stream_state \<Rightarrow> stream_life" where
  "new_stream_life T = \<lparr>sl_state = T, sl_timer = None, sl_intervals = [], sl_made = 0, sl_port = None\<rparr>"

definition eviction_interval_ms :: int where "eviction_interval_ms = 60 * 1000"

definition start_stream :: "int option \<Rightarrow> int option \<Rightarrow> stream_life \<Rightarrow> stream_life" where
  "start_stream port configured L =
     L\<lparr>sl_timer := Some (sl_made L), sl_intervals := sl_intervals L @ [sl_made L], sl_made := sl_made L + 1,
       sl_port := Some (case port of Some p \<Rightarrow> p | None \<Rightarrow> (case configured of Some p \<Rightarrow> p | None \<Rightarrow> 3000))\<rparr>"

definition stop_stream :: "stream_life \<Rightarrow> stream_life" where
  "stop_stream L =
     L\<lparr>sl_intervals := (case sl_timer L of None \<Rightarrow> sl_intervals L | Some t \<Rightarrow> filter (\<lambda>i. i \<noteq> t) (sl_intervals L)),
       sl_timer := None, sl_state := stop (sl_state L), sl_port := None\<rparr>"

text \<open>A running timer fires.\<close>

definition eviction_tick :: "int \<Rightarrow> stream_life \<Rightarrow> stream_life" where
  "eviction_tick now L = (if sl_intervals L = [] then L else L\<lparr>sl_state := evict_idle_sessions now (sl_state L)\<rparr>)"

section \<open>What is published\<close>

lemma add_tool_fresh:
  assumes "name \<notin> fst ` set (sv_tools S)" "name \<notin> fst ` set (rg_tools R)" "rg_activeSchema R = None"
  shows "\<exists>S' R'. add_tool D b name d s l e (S, R) = Inr (S', R') \<and> map fst (sv_tools S') = map fst (sv_tools S) @ [name] \<and>
    map fst (rg_tools R') = map fst (rg_tools R) @ [name] \<and> rg_activeSchema R' = None \<and> rg_resources R' = rg_resources R"
proof -
  have n: "map_of (sv_tools S) name = None" using assms(1) by (simp add: map_of_eq_None_iff)
  show ?thesis
    using assms n
    by (cases l) (simp_all add: add_tool_def final_description_def Let_def register_tool_def keys_new)
qed

lemma sync_tools_all:
  assumes "distinct (map fst ts)" and "\<forall>n\<in>fst ` set ts. n \<notin> fst ` set (sv_tools S) \<and> n \<notin> fst ` set (rg_tools R)"
    and "rg_activeSchema R = None"
  shows "\<exists>S' R'. sync_tools D b ts (S, R) = Inr (S', R') \<and> map fst (sv_tools S') = map fst (sv_tools S) @ map fst ts \<and>
    map fst (rg_tools R') = map fst (rg_tools R) @ map fst ts \<and> rg_resources R' = rg_resources R"
  using assms
proof (induction ts arbitrary: S R)
  case (Cons t ts)
  obtain name l where t: "t = (name, l)" by (cases t)
  from Cons.prems have "name \<notin> fst ` set (sv_tools S)" "name \<notin> fst ` set (rg_tools R)" by (simp_all add: t)
  from add_tool_fresh [OF this Cons.prems(3)] obtain S1 R1 where
    a: "add_tool D b name (or_else (truthy_string (lt_description l)) []) (case lt_inputSchema l of Some s \<Rightarrow> s | None \<Rightarrow> JObj [])
        (lt_logic l) (lt_entry l) (S, R) = Inr (S1, R1)"
      "map fst (sv_tools S1) = map fst (sv_tools S) @ [name]" "map fst (rg_tools R1) = map fst (rg_tools R) @ [name]"
      "rg_activeSchema R1 = None" "rg_resources R1 = rg_resources R"
    by blast
  have k: "fst ` set (sv_tools S1) = insert name (fst ` set (sv_tools S))" "fst ` set (rg_tools R1) = insert name (fst ` set (rg_tools R))"
    using a(2,3) by (simp_all flip: set_map)
  have "\<forall>n\<in>fst ` set ts. n \<notin> fst ` set (sv_tools S1) \<and> n \<notin> fst ` set (rg_tools R1)"
    unfolding k using Cons.prems(1,2) by (auto simp: t)
  from Cons.IH [OF _ this a(4)] Cons.prems(1) show ?case using a by (auto simp: t)
qed simp

lemma add_resource_keeps: "add_resource r R = Inr R' \<Longrightarrow> rg_tools R' = rg_tools R"
  by (auto simp: add_resource_def split: option.splits)

lemma sync_resources_add_all: "sync_resources rs = resource_table.add_all (map (\<lambda>(u, r). legacy_resource_of u r) rs)"
  by (induction rs) auto

lemma sync_resources_keeps: "sync_resources rs R = Inr R' \<Longrightarrow> rg_tools R' = rg_tools R"
  by (induction rs R rule: sync_resources.induct) (auto simp: bind_sum_def add_resource_keeps split: sum.splits)

lemma sync_resources_all:
  assumes "distinct (map fst rs)" and "\<forall>u\<in>fst ` set rs. u \<notin> fst ` set (rg_resources R)"
  shows "\<exists>R'. sync_resources rs R = Inr R' \<and> map fst (rg_resources R') = map fst (rg_resources R) @ map fst rs \<and> rg_tools R' = rg_tools R"
proof -
  let ?rs = "map (\<lambda>(u, r). legacy_resource_of u r) rs"
  have n: "map rs_uri ?rs = map fst rs" by (auto simp: legacy_resource_of_def)
  have "set (map fst rs) \<inter> set (map fst (rg_resources R)) = {}" using assms(2) by auto
  from resource_table.add_all_keys [of ?rs R, unfolded n, OF assms(1) this]
  obtain R' where "sync_resources rs R = Inr R'" "map fst (rg_resources R') = map fst (rg_resources R) @ map fst rs"
    unfolding sync_resources_add_all by blast
  then show ?thesis using sync_resources_keeps by blast
qed

text \<open>A bridge that publishes offers exactly the tools of the server it wraps, in their order, and its
  resources after the envelope specification, whose address none of them may have.\<close>

theorem wrapped_server_published:
  assumes "distinct (map fst ts)" and "distinct (map fst rs)" and "''liop://protocol/envelope-spec'' \<notin> fst ` set rs"
    and "ls_tools L = Some ts" and "ls_resources L = Some rs" and "sv_tools S = []"
  shows "\<exists>S' R. connect_wrapped D b True None L S = Inr (S', R) \<and> map fst (sv_tools S') = map fst ts \<and>
    map fst (rg_tools R) = map fst ts \<and> map fst (rg_resources R) = ''liop://protocol/envelope-spec'' # map fst rs"
proof -
  let ?R = "initial_registry D"
  have r: "rg_tools ?R = []" "rg_activeSchema ?R = None" "map fst (rg_resources ?R) = [''liop://protocol/envelope-spec'']"
    by (simp_all add: initial_registry_def)
  then obtain S1 R1 where s: "sync_tools D b ts (S, ?R) = Inr (S1, R1)" "map fst (sv_tools S1) = map fst ts"
      "map fst (rg_tools R1) = map fst ts" "rg_resources R1 = rg_resources ?R"
    using sync_tools_all [OF assms(1), of S ?R D b] assms(6) by auto
  have "fst ` set (rg_resources R1) = set (map fst (rg_resources R1))" by simp
  also have "\<dots> = {''liop://protocol/envelope-spec''}" unfolding s(4) r(3) by simp
  finally have "fst ` set (rg_resources R1) = {''liop://protocol/envelope-spec''}" .
  with assms(3) have "\<forall>u\<in>fst ` set rs. u \<notin> fst ` set (rg_resources R1)" by (metis singletonD)
  from sync_resources_all [OF assms(2) this] obtain R2 where
      q: "sync_resources rs R1 = Inr R2" "map fst (rg_resources R2) = map fst (rg_resources R1) @ map fst rs" "rg_tools R2 = rg_tools R1"
    by blast
  have "connect_wrapped D b True None L S = Inr (S1, R2)"
    unfolding connect_wrapped_def assms(4,5) by (simp add: s(1) q(1))
  moreover have "map fst (rg_resources R2) = ''liop://protocol/envelope-spec'' # map fst rs" unfolding q(2) s(4) r(3) by simp
  moreover have "map fst (rg_tools R2) = map fst ts" unfolding q(3) s(3) by (rule refl)
  ultimately show ?thesis using s(2) by (intro exI [of _ S1] exI [of _ R2] conjI)
qed

text \<open>A wrapped resource with the address of the envelope specification makes \<open>connect\<close> fail.\<close>

lemma envelope_address_refused:
  "connect_wrapped D b True None \<lparr>ls_tools = None, ls_resources = Some [(''liop://protocol/envelope-spec'', r)]\<rparr> S =
     Inl ''Resource URI already registered: liop://protocol/envelope-spec''"
  by (simp add: connect_wrapped_def initial_registry_def add_resource_def legacy_resource_of_def)

text \<open>A bridge that does not publish copies nothing: it offers no tool of the server it wraps.\<close>

lemma unpublished_bridge_empty: "connect_wrapped D b False j L S = Inr (S, initial_registry D) \<and> rg_tools (initial_registry D) = []"
  by (simp add: connect_wrapped_def initial_registry_def)

section \<open>Timers\<close>

lemma stopped_timers:
  "sl_intervals L = [] \<Longrightarrow> sl_intervals (stop_stream (start_stream p c L)) = [] \<and> sl_port (stop_stream (start_stream p c L)) = None"
  by (simp add: stop_stream_def start_stream_def)

text \<open>A second \<open>start\<close> overwrites the handle of the first timer, which then no \<open>stop\<close> clears.\<close>

lemma second_start_leaks_timer:
  "sl_intervals (stop_stream (stop_stream (start_stream p c (start_stream p c (new_stream_life T))))) = [0]"
  by (simp add: stop_stream_def start_stream_def new_stream_life_def)

lemma zero_trust_token_nonempty: "uuid \<noteq> [] \<Longrightarrow> zero_trust_token env uuid \<noteq> []"
  by (auto simp: zero_trust_token_def or_else_def truthy_string_def split: option.splits)

end
