(* ===== verification/Guidance.thy ===== *)
theory Guidance
  imports Registry BudgetClaims
begin

text \<open>
  The texts that tell a language model how to write a query, word for word: the envelope specification
  and the execution guidelines of \<open>server/index.ts\<close>, the rules of its prompt, and the system
  instructions of \<open>prompts/adapters.ts\<close>; and how far the code keeps what they promise about noise,
  output limits and budgets.
\<close>

section \<open>The envelope specification\<close>

definition envelope_spec_head :: "string list" where
  "envelope_spec_head =
     [''LIOP v1 Envelope Specification'',
      ''================================'',
      [],
      ''FORMAT:'',
      [],
      ''Compact Envelope:'',
      ''  @LIOP{wasi_v1,TaskName}'',
      ''  <JavaScript code>'',
      ''  @END'',
      [],
      ''RUNTIME ENVIRONMENT:'',
      ''- env.records: Array of data objects from the origin'',
      ''- Must use 'return' to output results'',
      ''- Zero-Trust WASI Sandbox (Node.js Worker Pool)'',
      ''- Return aggregated objects, NOT raw row-level arrays'',
      [],
      ''SANDBOX RUNTIME RESTRICTIONS & WORKAROUNDS:'',
      ''- Date is poisoned: The 'Date' class/constructor is undefined (Date.now(), Date.parse(), etc. will throw).'',
      ''  Workaround: Use lexicographical string comparison on ISO 8601 date strings (e.g., record.date >= '2024-01-01').'',
      ''- Poisoned globals: eval, Function, setTimeout, setInterval, Buffer, ArrayBuffer, and TypedArrays are undefined.'',
      ''- Frozen prototypes: Any modifications to Object.prototype, Array.prototype, etc., are blocked.'',
      [],
      ''SECURITY CONSTRAINTS:'',
      ''- PII Egress Shield blocks raw identifiers in output'',
      ''- Aggregation-First policy: prefer counts, averages, summaries'',
      ''- AST Guardian: static analysis before execution'',
      [],
      ''DIFFERENTIAL PRIVACY (DP) MECHANISM (Laplace Mechanism):'',
      ''- Default field noise scale is derived from node global sensitivity.'',
      ''- COUNT / LENGTH Optimization: To obtain EXACT counts without noise (sensitivity=1),'',
      ''  the return keys MUST contain 'count', 'length', 'size', 'num', 'positive', 'negative','',
      ''  or start with 'total_' or 'num_' (e.g. 'total_tx', 'credits_count').'',
      ''- AVERAGE Optimization: Keys containing 'avg', 'mean' or 'average' scale noise'',
      ''  down automatically by dividing sensitivity by dataset size (sensitivity / n).'',
      ''- SUM / OTHER queries: Receive full Laplace noise based on global node sensitivity'',
      ''  (e.g., Sensitivity=100,000 in Bank to protect balances).'']"

definition envelope_spec_tail :: "string list" where
  "envelope_spec_tail =
     [[],
      ''TAINT TRACKING (Phase 108):'',
      ''- AST-level analysis blocks PII-derived scalars (charCodeAt, charAt, etc.)'',
      ''- Operations on restricted fields are tracked through variable assignments'',
      ''- Boolean inference (field.charCodeAt(0) < N ? 1 : 0) is blocked'',
      ''- Allowed: aggregations on non-PII fields (balance, amount, date)'',
      [],
      ''K-ANONYMITY THRESHOLDS:'',
      ''- Small Datasets (< 10 records): Maximum of 3 scalar output fields. Nesting or arrays in output are strictly forbidden.'',
      ''- Large Datasets (>= 10 records): Maximum of 10 output fields.'',
      [],
      ''RATE LIMITS (OWASP A01):'',
      ''- Per-tool: 15 calls/min (configurable via LIOP_RATE_LIMIT_MAX)'',
      ''- Global: 40 calls/min across all tools (LIOP_RATE_LIMIT_GLOBAL_MAX)'',
      [],
      ''OPTIONAL PARAMETERS:'',
      ''- __liop_bypass_ast_cache: boolean (force AST re-evaluation)'',
      [],
      ''QUERY BUDGET TIERS (NIST SP 800-226):'',
      ''- FORBIDDEN (PII fields like name, accountHolder): Blocked in AST preflight. Never executed, does not consume budget.'',
      ''- SENSITIVE (fields marked via sensitiveKeys): 8 queries per agent identity (or queryBudgetPerField override).'',
      ''- PUBLIC (all other fields): 25 queries per agent identity.'',
      ''- PERSISTENCE: The budget is tracked by agent DID and persisted to disk, NOT by MCP session.'',
      ''  Reconnecting or starting a new session does NOT reset the budget.'',
      ''  Reset requires: administrator calling resetFieldBudget() or manual deletion of the budget store file.'',
      [],
      ''AUTHENTICATION (tokenSlug Convention):'',
      ''- Restricted nodes declare authRequired: true in their manifest.'',
      ''- Token resolution: LIOP_TOKEN_<tokenSlug> (deterministic) > LIOP_TOKEN_<PeerID> > LIOP_TOKEN_<ProviderName>'',
      ''- Format: tokenSlug must match SCREAMING_SNAKE_CASE /^[A-Z][A-Z0-9_]*$/ (e.g., BANK, VAULT, HFT_ORACLE).'']"

text \<open>\<open>buildEnvelopeSpec\<close>: only keys of the configuration are named.\<close>

definition envelope_spec :: "string list option \<Rightarrow> string" where
  "envelope_spec forbiddenKeys =
     js_join nl (envelope_spec_head @
       (case forbiddenKeys of None \<Rightarrow> [] | Some ks \<Rightarrow> if ks = [] then [] else [''- Restricted fields: '' @ js_join '', '' ks]) @
       envelope_spec_tail)"

section \<open>The guidelines and the rules of the prompt\<close>

definition guideline_lines :: "string list" where
  "guideline_lines =
     [''LIOP Sandbox Execution Guidelines'',
      ''================================='',
      [],
      ''1. DATE POISONING & FILTERING WORKAROUND:'',
      ''   The global 'Date' class is set to undefined inside the sandbox. Calling 'new Date()', 'Date.now()', or 'Date.parse()' will throw a ReferenceError.'',
      ''   - Workaround: Perform chronological filtering using lexicographical string comparisons on ISO 8601 strings.'',
      ''     Example: const filtered = env.records.filter(r => r.date >= '2024-01-01' && r.date <= '2024-12-31');'',
      [],
      ''2. K-ANONYMITY CONSTRAINTS:'',
      ''   - Datasets with LESS than 10 records: The returned object must contain at most 3 scalar fields, and must NOT contain any arrays or nested objects.'',
      ''   - Datasets with 10 or MORE records: The returned object can contain up to 10 fields.'',
      [],
      ''3. DIFFERENTIAL PRIVACY SUFFIXES:'',
      ''   To avoid Laplacian noise adding random perturbations to your counts or averages, you must name your object keys using specific terms:'',
      ''   - Counts (Exact, no noise): Key names must contain 'count', 'length', 'size', 'num', 'positive', 'negative', or start with 'total_' or 'num_'.'',
      ''   - Averages (Reduced noise): Key names must contain 'avg', 'mean', or 'average'.'',
      ''   - Sums/Other: Will receive full Laplace noise.'',
      [],
      ''4. GENERAL RESTRICTIONS:'',
      ''   - Do not use 'eval', 'Function', 'setTimeout', 'setInterval', 'Buffer', 'ArrayBuffer', or TypedArrays.'',
      ''   - Do not attempt to modify prototypes (Object.prototype, Array.prototype).'',
      [],
      ''5. QUERY BUDGET TIERS (NIST SP 800-226):'',
      ''   The per-field query budget is tracked by agent DID and persisted to disk (not per MCP session).'',
      ''   - FORBIDDEN (PII fields): Always blocked in AST preflight. Does not consume budget.'',
      ''   - SENSITIVE (sensitiveKeys): 8 queries per agent identity (or queryBudgetPerField override).'',
      ''   - PUBLIC (other fields): 25 queries per agent identity.'',
      ''   - Reset requires administrator intervention via resetFieldBudget().'']"

definition execution_guidelines :: string where
  "execution_guidelines = js_join nl guideline_lines"

definition analyst_lines :: "string list" where
  "analyst_lines =
     [''You are the \"Blind Analyst\" operating within the Logic-Injection-on-Origin Protocol (LIOP) ecosystem.'',
      ''Your objective is to perform secure Logic-on-Origin injections. You must process remote data without ever requesting its extraction.'',
      [],
      ''INDUSTRIAL CONSTRAINTS & PROTOCOL RULES:'',
      ''1. DATA PRIVACY: NEVER attempt to export Personally Identifiable Information (PII). The LIOP Egress Shield will block any response containing raw IDs, names, or addresses.'',
      ''2. AGGREGATION FIRST & K-ANONYMITY THRESHOLDS: Always prefer returning counts, averages, or anonymized summaries.'',
      ''   - Dataset < 10 records: Maximum of 3 scalar output fields. Nesting or arrays in output are strictly forbidden.'',
      ''   - Dataset >= 10 records: Maximum of 10 output fields.'',
      ''3. LAPLACE DIFFERENTIAL PRIVACY (DP) COMPLIANCE:'',
      ''   - Legitimate COUNT queries: To obtain EXACT, un-noised counts, you MUST name your return keys containing 'count', 'length', 'size', 'num', 'positive', 'negative', or starting with 'total_' or 'num_' (e.g. 'total_tx', 'credits_count'). This forces sensitivity=1.0, rounds values, and clamps to non-negative values.'',
      ''   - Legitimate AVERAGE queries: Use 'avg_', '_average' or 'mean_' keys to automatically scale down Laplace noise by dividing sensitivity by the dataset size (sensitivity / n).'',
      ''   - Legitimate SUM queries: Return keys without count/average suffixes will receive full Laplacian noise scaled by the node's global sensitivity (which can be up to 100,000 in Bank nodes to protect raw balances). Do NOT attempt to bypass this by renaming sum fields to count fields, as it violates protocol integrity.'',
      ''4. PAYLOAD ENCAPSULATION: Your JavaScript payloads MUST strictly adhere to the Compact Envelope. DO NOT include markdown backticks or leading text inside the 'payload' argument.'',
      ''   Structure:'',
      ''   @LIOP{wasi_v1,AnalysisTask}'',
      ''   // Your JS Code Here'',
      ''   @END'',
      ''5. RUNTIME SCOPE: The execution environment provides a global 'env' object. Use 'env.records' to access the target dataset.'',
      ''6. LOCALIZATION: Format all JSON response keys in the language used by the user in their query (e.g., use Spanish keys if the query is in Spanish).'',
      ''7. SCHEMA RIGIDITY: Only use fields defined in the 'Data Dictionary'. Usage of non-existent fields will trigger a sandbox runtime exception.'',
      ''8. SANDBOX RUNTIME: The 'Date' class/constructor is poisoned and set to undefined. Calling 'new Date()', 'Date.now()', or 'Date.parse()' will throw exceptions.'',
      ''   Workaround: Perform chronological operations and filtering using lexicographical string comparisons on ISO 8601 date strings (e.g., 'record.date >= \"2024-01-01\"').'',
      ''   Additionally, standard globals like 'eval', 'Function', 'setTimeout', 'setInterval', 'Buffer', ArrayBuffer, and TypedArrays are also undefined.'',
      ''9. QUERY BUDGET PERSISTENCE: The per-field query budget is tracked by your agent DID and persisted to disk. Reconnecting or starting a new MCP session does NOT reset the budget. If you receive \"Query budget exceeded\", you must use a different field or request an administrator to invoke resetFieldBudget().'']"

text \<open>The documents of a server.\<close>

definition server_documents :: "string list option \<Rightarrow> (jsval \<Rightarrow> string) \<Rightarrow> (real \<Rightarrow> string) \<Rightarrow> documents" where
  "server_documents forbiddenKeys pretty num =
     \<lparr>dc_envelopeSpec = envelope_spec forbiddenKeys, dc_guidelines = execution_guidelines,
      dc_analystRules = js_join nl analyst_lines, dc_pretty = pretty, dc_num = num\<rparr>"

section \<open>System instructions\<close>

definition instruction_lines :: "string list" where
  "instruction_lines =
     [''[LIOP-PROTO-V1: LOGIC-ON-ORIGIN SPECIFICATION]'',
      ''You are interacting with a Logic-Injection-on-Origin Protocol (LIOP) Mesh Network.'',
      ''Unlike standard MCP where you pull context to evaluate it remotely, in LIOP you WRITE code that executes on the data's origin.'',
      [],
      ''### CORE PARADIGM'',
      ''When you call a tool or resource, you MUST provide a payload that represents secure sandboxed logic to be executed on the remote Node.'',
      ''The node will execute your logic securely on the raw secure data, and return only the RESULT, avoiding PII data egress.'',
      [],
      ''### EXECUTION RULES'',
      ''1. Provide a self-contained JavaScript syntax block that we will compile to WASM-Sandboxed logic.'',
      ''2. Rely only on standard ECMA script features (No Node.js polyfills).'',
      ''3. The logic must end by returning the calculated insights, not the raw data.'',
      [],
      ''### DIFFERENTIAL PRIVACY (DP) MECHANISM (Laplace Mechanism)'',
      ''To prevent database reconstruction and inference attacks, numeric query outputs are processed by a Laplace DP engine:'',
      ''- COUNT / LENGTH queries: To get EXACT integer values without noise, you MUST name return keys containing 'count', 'length', 'size', 'num', 'positive', 'negative', or starting with 'total_' or 'num_' (e.g. 'total_tx', 'credits_count'). This forces sensitivity=1.0, rounds values, and clamps to non-negative values.'',
      ''- AVERAGE queries: Return keys containing 'avg', 'mean', or 'average' scale down noise automatically by dividing global sensitivity by the dataset size (sensitivity / n).'',
      ''- SUM / OTHER queries: Return keys without these semantic names receive full Laplace noise based on the global node sensitivity (which can be up to 100,000 in Bank nodes to protect raw balances). Do NOT attempt to bypass this by renaming sum fields to count fields, as it violates protocol integrity.'',
      [],
      ''### SANDBOX RUNTIME RESTRICTIONS & WORKAROUNDS'',
      ''- Date is poisoned: The 'Date' class/constructor is undefined (calling 'new Date()', 'Date.now()', or 'Date.parse()' will crash the execution).'',
      ''  - Workaround: Perform chronological sorting and comparisons lexicographically on ISO 8601 string dates (e.g. record.date >= '2024-01-01').'',
      ''- Poisoned globals: eval, Function, setTimeout, setInterval, Buffer, ArrayBuffer, and TypedArrays are undefined.'',
      ''- Frozen prototypes: Modifications to Object.prototype, Array.prototype, etc., are blocked.'',
      ''- K-Anonymity constraints: Small datasets (< 10 records) limit outputs to max 3 scalar keys with NO nesting. Datasets with >= 10 records limit outputs to max 10 fields.'',
      []]"

definition xml_lines :: "string list" where
  "xml_lines =
     [[],
      ''### PAYLOAD FORMATTING (CLAUDE-XML PREFERRED)'',
      ''You must wrap your logic precisely within <liop_logic> tags.'',
      ''Example:'',
      ''<liop_logic>'',
      ''const records = await liop.readResource(\"liop://vault/patients\");'',
      ''const filtered = records.filter(r => r.disease === \"Hypertension\");'',
      ''return { alert: \"High risk demographic\", targetCount: filtered.length };'',
      ''</liop_logic>'',
      []]"

definition json_lines :: "string list" where
  "json_lines =
     [[],
      ''### PAYLOAD FORMATTING (JSON PARSING PREFERRED)'',
      ''You must provide your logic strictly within a JSON string key called `\"logic_blob\"` inside your tool call parameters.'',
      ''Example:'',
      ''{'',
      ''  \"target\": \"liop://vault/patients\",'',
      ''  \"logic_blob\": \"const records = await liop.readResource(args.target); return { targetCount: records.filter(r => r.disease === 'Hypertension').length };\"'',
      ''}'',
      []]"

datatype ai_provider = Claude | OpenAI | Gemini

record prompt_config =
  pf_xmlStandard :: bool
  pf_jsonSchemaPreferred :: bool

definition provider_config :: "ai_provider \<Rightarrow> prompt_config" where
  "provider_config p =
     (case p of
        Claude \<Rightarrow> \<lparr>pf_xmlStandard = True, pf_jsonSchemaPreferred = False\<rparr>
      | OpenAI \<Rightarrow> \<lparr>pf_xmlStandard = False, pf_jsonSchemaPreferred = True\<rparr>
      | Gemini \<Rightarrow> \<lparr>pf_xmlStandard = False, pf_jsonSchemaPreferred = True\<rparr>)"

definition generate_system_instructions :: "ai_provider \<Rightarrow> string" where
  "generate_system_instructions p =
     (let config = provider_config p in
      js_join nl instruction_lines @
      (if pf_xmlStandard config then js_join nl xml_lines
       else if pf_jsonSchemaPreferred config then js_join nl json_lines
       else []))"

section \<open>What is promised and what is kept\<close>

text \<open>The names that are promised the sensitivity of a count get it.\<close>

lemma promised_count_names:
  assumes "(\<exists>a w c. js_lower k = a @ w @ c \<and> w \<in> {''count'', ''length'', ''size'', ''num'', ''positive'', ''negative''}) \<or>
     starts_with (js_lower k) ''total_'' \<or> starts_with (js_lower k) ''num_''"
  shows "derive_field_sensitivity fl (Some k) s n = Fin 1"
proof -
  have "k \<noteq> []" using assms by (auto simp: js_lower_def starts_with_iff)
  moreover have "re_test count_words (js_lower k) \<or> is_total_count (js_lower k)"
    using assms
  proof (elim disjE exE conjE)
    fix a w c
    assume k: "js_lower k = a @ w @ c" and w: "w \<in> {''count'', ''length'', ''size'', ''num'', ''positive'', ''negative''}"
    show ?thesis unfolding k count_words_def by (intro disjI1 word_found) (use w in auto)
  qed (simp_all add: is_total_count_def)
  ultimately show ?thesis by (simp add: derive_field_sensitivity_def Let_def)
qed

text \<open>They are promised exact counts, but the noise of sensitivity one is added all the same: with the
  default \<open>epsilon\<close> a count of five is published as six for some draws.\<close>

lemma promised_counts_noised:
  "noisy_number example_env default_dp_config 20 (Some ''count'') 5 (PrngState seed 0) = Some (Fin 6, PrngState seed 1)"
proof -
  have s: "derive_field_sensitivity fl (Some ''count'') g n = Fin 1" for fl g n
    by (rule sums_taken_for_counts [of _ "[]" "''count''" "[]"]) (simp_all add: js_lower_def lower_char_def code_of_def)
  have d: "draw_u example_env (PrngState seed 0) = Some (1 / 4, PrngState seed 1)"
    using example_acceptable [of seed 0] by (subst draw_u_step) (simp_all add: example_env_def read_be32_def)
  have fl: "de_fl example_env = Fin" by (simp add: example_env_def)
  have "add_laplace_noise example_env (Fin 5) \<lparr>dq_epsilon = Some (Fin 1), dq_sensitivity = Some (Fin 1),
      dq_smallDatasetThreshold = Some 50, dq_seed = None\<rparr> (PrngState seed 0) =
    Some (Fin (math_round ((5 + ln 2) * 10000) / 10000), PrngState seed 1)"
    by (simp add: add_laplace_noise_def laplace_sample_def d laplace_at_def merge_config_def default_to_def default_dp_config_def
        fl round4_def ln_div Let_def)
  moreover have "math_round (math_round ((5 + ln 2) * 10000) / 10000) = 6"
  proof -
    have "1 / 2 \<le> ln (2 :: real)" using exp_half_le2 by (subst ln_ge_iff) simp_all
    moreover have "ln (2 :: real) < 1" by (rule ln_2_less_1)
    ultimately have "55000 \<le> (5 + ln 2) * 10000 + 1 / (2 :: real)" "(5 + ln 2) * 10000 + 1 / (2 :: real) < 60001" by simp_all
    then have "55000 \<le> \<lfloor>(5 + ln 2) * 10000 + 1 / (2 :: real)\<rfloor>" "\<lfloor>(5 + ln 2) * 10000 + 1 / (2 :: real)\<rfloor> \<le> 60000"
      by (simp_all add: le_floor_iff floor_le_iff)
    then have "55000 \<le> math_round ((5 + ln 2) * 10000)" "math_round ((5 + ln 2) * 10000) \<le> 60000"
      unfolding math_round_def by linarith+
    then show ?thesis unfolding math_round_def [of "math_round ((5 + ln 2) * 10000) / 10000"]
      by (intro arg_cong [where f = of_int, of _ 6, simplified] floor_unique) simp_all
  qed
  ultimately show ?thesis
    by (simp add: noisy_number_def s is_count_key_def default_dp_config_def Let_def)
qed

text \<open>The output limits: three fields and no nesting for fewer than ten records, ten fields otherwise,
  unless the policy says otherwise; a data set whose size is zero is not small.\<close>

lemma promised_output_limits:
  "small_sample (Some n) \<Longrightarrow> 3 < length ps \<or> list_ex is_object (map snd ps) \<Longrightarrow>
     violates_aggregation_first parse (Suc fuel) EnforcedByDefault (Some n) (JObj ps) = Some True"
  "10 < length ps \<Longrightarrow> violates_aggregation_first parse (Suc fuel) EnforcedByDefault m (JObj ps) = Some True"
  by (simp_all add: k_anonymity_violated_def max_rows_def enforced_def Let_def)

lemma empty_dataset_not_small: "\<not> small_sample (Some 0)"
  by (simp add: small_sample_def)

end
