(* ===== verification/Tls.thy ===== *)
theory Tls
  imports Receipt
begin

text \<open>
  Certificates and credentials: \<open>security/cert-manager.ts\<close>, \<open>rpc/tls.ts\<close> and the shutdown of
  \<open>rpc/server.ts\<close>. Files, X.509 parsing, the clock and the credential factories of gRPC are
  parameters; watchers are the calls of \<open>schedule_reload\<close> they make.
\<close>

section \<open>The certificate manager\<close>

datatype file_state = Missing | Unreadable string | Content bytes

type_synonym files = "string \<Rightarrow> file_state"

record cert_options =
  co_rootCertPath :: "string option"
  co_certChainPath :: string
  co_privateKeyPath :: string
  co_warningDays :: "int option"
  co_debounceMs :: "int option"

record cert_manager =
  cm_root :: "bytes option"
  cm_chain :: "bytes option"
  cm_key :: "bytes option"
  cm_timer :: "int option"        \<comment> \<open>when the pending reload is due\<close>

definition no_certificates :: cert_manager where
  "no_certificates = \<lparr>cm_root = None, cm_chain = None, cm_key = None, cm_timer = None\<rparr>"

text \<open>The steps of \<open>loadCertificates\<close>; each keeps what the steps before it have set.\<close>

definition load_root :: "cert_options \<Rightarrow> files \<Rightarrow> cert_manager \<Rightarrow> string option \<times> cert_manager" where
  "load_root opts fs M =
     (case co_rootCertPath opts of
        None \<Rightarrow> (None, M)
      | Some p \<Rightarrow>
          if p = [] then (None, M)
          else (case fs p of Missing \<Rightarrow> (None, M) | Unreadable e \<Rightarrow> (Some e, M) | Content b \<Rightarrow> (None, M\<lparr>cm_root := Some b\<rparr>)))"

definition load_pair :: "cert_options \<Rightarrow> files \<Rightarrow> cert_manager \<Rightarrow> string option \<times> cert_manager" where
  "load_pair opts fs M =
     (if fs (co_certChainPath opts) = Missing then (Some (''Certificate chain file not found: '' @ co_certChainPath opts), M)
      else if fs (co_privateKeyPath opts) = Missing then (Some (''Private key file not found: '' @ co_privateKeyPath opts), M)
      else
        (case fs (co_certChainPath opts) of
           Content chain \<Rightarrow>
             (case fs (co_privateKeyPath opts) of
                Content key \<Rightarrow> (None, M\<lparr>cm_chain := Some chain, cm_key := Some key\<rparr>)
              | Unreadable e \<Rightarrow> (Some e, M\<lparr>cm_chain := Some chain\<rparr>)
              | Missing \<Rightarrow> (None, M))
         | Unreadable e \<Rightarrow> (Some e, M)
         | Missing \<Rightarrow> (None, M)))"

definition load_certificates :: "cert_options \<Rightarrow> files \<Rightarrow> cert_manager \<Rightarrow> string option \<times> cert_manager" where
  "load_certificates opts fs M =
     (case load_root opts fs M of (Some e, M1) \<Rightarrow> (Some e, M1) | (None, M1) \<Rightarrow> load_pair opts fs M1)"

definition new_cert_manager :: "cert_options \<Rightarrow> files \<Rightarrow> string + cert_manager" where
  "new_cert_manager opts fs =
     (case load_certificates opts fs no_certificates of (Some e, M) \<Rightarrow> Inl e | (None, M) \<Rightarrow> Inr M)"

text \<open>A certificate as X.509 parsing yields it, with its end in milliseconds.\<close>

record x509 =
  xc_subject :: string
  xc_fingerprint :: string
  xc_validTo :: int

record cert_info =
  ci_certificate :: x509
  ci_daysRemaining :: int
  ci_isExpired :: bool
  ci_isExpiringSoon :: bool

definition ms_per_day :: int where "ms_per_day = 1000 * 60 * 60 * 24"

definition cert_status :: "int \<Rightarrow> int \<Rightarrow> x509 \<Rightarrow> cert_info" where
  "cert_status warningDays now c =
     (let msRemaining = xc_validTo c - now; days = max 0 (msRemaining div ms_per_day) in
      \<lparr>ci_certificate = c, ci_daysRemaining = days, ci_isExpired = (msRemaining \<le> 0), ci_isExpiringSoon = (days \<le> warningDays)\<rparr>)"

definition inspect_certificate ::
    "(bytes \<Rightarrow> string + x509) \<Rightarrow> cert_options \<Rightarrow> int \<Rightarrow> cert_manager \<Rightarrow> string + cert_info" where
  "inspect_certificate x509 opts now M =
     (case cm_chain M of
        None \<Rightarrow> Inl ''[CertManager] No certificate loaded to inspect.''
      | Some chain \<Rightarrow>
          (case x509 chain of
             Inl e \<Rightarrow> Inl e
           | Inr c \<Rightarrow> Inr (cert_status (case co_warningDays opts of None \<Rightarrow> 30 | Some d \<Rightarrow> d) now c)))"

text \<open>The files that are watched, and a change of one of them: the pending reload is put off.\<close>

definition files_to_watch :: "cert_options \<Rightarrow> files \<Rightarrow> string list" where
  "files_to_watch opts fs =
     filter (\<lambda>p. p \<noteq> [] \<and> fs p \<noteq> Missing)
       ([co_certChainPath opts, co_privateKeyPath opts] @ (case co_rootCertPath opts of None \<Rightarrow> [] | Some p \<Rightarrow> [p]))"

definition schedule_reload :: "cert_options \<Rightarrow> int \<Rightarrow> cert_manager \<Rightarrow> cert_manager" where
  "schedule_reload opts now M = M\<lparr>cm_timer := Some (now + (case co_debounceMs opts of None \<Rightarrow> 150 | Some d \<Rightarrow> d))\<rparr>"

datatype cert_event = Reloaded cert_info | ReloadFailed string

definition reload_now ::
    "(bytes \<Rightarrow> string + x509) \<Rightarrow> cert_options \<Rightarrow> int \<Rightarrow> files \<Rightarrow> cert_manager \<Rightarrow> cert_event \<times> cert_manager" where
  "reload_now x509 opts now fs M =
     (case load_certificates opts fs M of
        (Some e, M1) \<Rightarrow> (ReloadFailed e, M1)
      | (None, M1) \<Rightarrow>
          (case inspect_certificate x509 opts now M1 of Inl e \<Rightarrow> (ReloadFailed e, M1) | Inr i \<Rightarrow> (Reloaded i, M1)))"

text \<open>The timer at time \<open>now\<close>.\<close>

definition timer_tick ::
    "(bytes \<Rightarrow> string + x509) \<Rightarrow> cert_options \<Rightarrow> int \<Rightarrow> files \<Rightarrow> cert_manager \<Rightarrow> cert_event option \<times> cert_manager" where
  "timer_tick x509 opts now fs M =
     (case cm_timer M of
        None \<Rightarrow> (None, M)
      | Some due \<Rightarrow>
          if now < due then (None, M)
          else (case reload_now x509 opts now fs (M\<lparr>cm_timer := None\<rparr>) of (e, M1) \<Rightarrow> (Some e, M1)))"

definition get_cert_chain :: "cert_manager \<Rightarrow> string + bytes" where
  "get_cert_chain M = (case cm_chain M of None \<Rightarrow> Inl ''[CertManager] Certificate chain not loaded.'' | Some b \<Rightarrow> Inr b)"

definition get_private_key :: "cert_manager \<Rightarrow> string + bytes" where
  "get_private_key M = (case cm_key M of None \<Rightarrow> Inl ''[CertManager] Private key not loaded.'' | Some b \<Rightarrow> Inr b)"

definition dispose_manager :: "cert_manager \<Rightarrow> cert_manager" where
  "dispose_manager M = M\<lparr>cm_timer := None\<rparr>"

section \<open>Credentials\<close>

record tls_options =
  to_rootCert :: "string option"
  to_certChain :: "string option"
  to_privateKey :: "string option"
  to_mutualTls :: bool
  to_certManager :: "cert_manager option"

datatype server_credentials = InsecureServer | SslServer "bytes option" bytes bytes bool

datatype channel_credentials = InsecureChannel | SslChannel bytes "bytes option" "bytes option"

text \<open>The factories may refuse what they are given.\<close>

record tls_env =
  tv_env :: "string \<Rightarrow> string option"
  tv_read :: "string \<Rightarrow> string + bytes"
  tv_serverSsl :: "bytes option \<Rightarrow> bytes \<Rightarrow> bytes \<Rightarrow> bool \<Rightarrow> string option"
  tv_channelSsl :: "bytes \<Rightarrow> bytes option \<Rightarrow> bytes option \<Rightarrow> string option"

definition is_tls_enforced :: "tls_env \<Rightarrow> bool" where
  "is_tls_enforced E \<longleftrightarrow> tv_env E ''NODE_ENV'' = Some ''production'' \<or> tv_env E ''LIOP_ENFORCE_TLS'' = Some ''true''"

definition given :: "string option \<Rightarrow> bool" where "given p \<longleftrightarrow> p \<noteq> None \<and> p \<noteq> Some []"

definition read_given :: "tls_env \<Rightarrow> string option \<Rightarrow> string + bytes option" where
  "read_given E p =
     (case p of None \<Rightarrow> Inr None
      | Some q \<Rightarrow> if q = [] then Inr None else (case tv_read E q of Inl e \<Rightarrow> Inl e | Inr b \<Rightarrow> Inr (Some b)))"

text \<open>The \<open>try\<close> blocks: a failure is fatal when TLS is enforced, and insecure credentials otherwise.\<close>

definition or_fallback :: "tls_env \<Rightarrow> string \<Rightarrow> 'c \<Rightarrow> string + 'c \<Rightarrow> string + 'c" where
  "or_fallback E what insecure attempt =
     (case attempt of Inr c \<Rightarrow> Inr c | Inl e \<Rightarrow> if is_tls_enforced E then Inl (''[LIOP-TLS] FATAL: '' @ what @ '': '' @ e) else Inr insecure)"

definition server_ssl :: "tls_env \<Rightarrow> bool \<Rightarrow> string \<Rightarrow> bytes option \<Rightarrow> bytes \<Rightarrow> bytes \<Rightarrow> string + server_credentials" where
  "server_ssl E mutual noRoot ca chain key =
     (if mutual \<and> ca = None then Inl noRoot
      else (case tv_serverSsl E ca chain key mutual of Some e \<Rightarrow> Inl e | None \<Rightarrow> Inr (SslServer ca chain key mutual)))"

definition managed_server :: "tls_env \<Rightarrow> bool \<Rightarrow> cert_manager \<Rightarrow> string + server_credentials" where
  "managed_server E mutual M =
     bind_sum (get_cert_chain M) (\<lambda>chain. bind_sum (get_private_key M) (\<lambda>key.
       server_ssl E mutual ''[LIOP-TLS] FATAL: Mutual TLS (mTLS) enabled but CertManager has no root CA certificate loaded.''
         (cm_root M) chain key))"

definition create_server_credentials :: "tls_env \<Rightarrow> tls_options option \<Rightarrow> string + server_credentials" where
  "create_server_credentials E tls =
     (case tls of
        None \<Rightarrow>
          if is_tls_enforced E then Inl ''[LIOP-TLS] FATAL: TLS certificates required in production or when LIOP_ENFORCE_TLS=true.''
          else Inr InsecureServer
      | Some t \<Rightarrow>
          if to_mutualTls t \<and> \<not> given (to_rootCert t) \<and> Option.bind (to_certManager t) cm_root = None then
            Inl ''[LIOP-TLS] FATAL: Mutual TLS (mTLS) enabled but no root CA certificate (rootCert) provided to verify client certificates.''
          else
            (case to_certManager t of
               Some M \<Rightarrow>
                 or_fallback E ''CertManager server credential creation failed in enforced mode'' InsecureServer
                   (managed_server E (to_mutualTls t) M)
             | None \<Rightarrow>
                 if \<not> given (to_certChain t) \<or> \<not> given (to_privateKey t) then
                   (if is_tls_enforced E then Inl ''[LIOP-TLS] FATAL: TLS certificates required in production or when LIOP_ENFORCE_TLS=true.''
                    else Inr InsecureServer)
                 else
                   or_fallback E ''Server certificate loading failed in production or enforced mode. Refusing insecure fallback to prevent MITM/eavesdropping''
                     InsecureServer
                     (bind_sum (read_given E (to_rootCert t)) (\<lambda>ca.
                      bind_sum (tv_read E (the (to_certChain t))) (\<lambda>chain.
                      bind_sum (tv_read E (the (to_privateKey t))) (\<lambda>key.
                        server_ssl E (to_mutualTls t)
                          ''[LIOP-TLS] FATAL: Mutual TLS (mTLS) enabled but no root CA certificate (rootCert) provided to verify client certificates.''
                          ca chain key))))))"

definition channel_ssl :: "tls_env \<Rightarrow> bytes \<Rightarrow> bytes option \<Rightarrow> bytes option \<Rightarrow> string + channel_credentials" where
  "channel_ssl E ca key chain =
     (case tv_channelSsl E ca key chain of Some e \<Rightarrow> Inl e | None \<Rightarrow> Inr (SslChannel ca key chain))"

definition managed_channel :: "tls_env \<Rightarrow> cert_manager \<Rightarrow> string + channel_credentials" where
  "managed_channel E M =
     (case cm_root M of
        None \<Rightarrow> Inl ''[LIOP-TLS] FATAL: Channel TLS requires a root CA certificate in CertManager.''
      | Some ca \<Rightarrow>
          bind_sum (get_cert_chain M) (\<lambda>chain. bind_sum (get_private_key M) (\<lambda>key. channel_ssl E ca (Some key) (Some chain))))"

definition create_channel_credentials :: "tls_env \<Rightarrow> tls_options option \<Rightarrow> string + channel_credentials" where
  "create_channel_credentials E tls =
     (case Option.bind tls to_certManager of
        Some M \<Rightarrow>
          or_fallback E ''Channel certificate loading failed in enforced mode'' InsecureChannel (managed_channel E M)
      | None \<Rightarrow>
          (case tls of
             None \<Rightarrow>
               if is_tls_enforced E then Inl ''[LIOP-TLS] FATAL: TLS root certificate required in production or when LIOP_ENFORCE_TLS=true.''
               else Inr InsecureChannel
           | Some t \<Rightarrow>
               if \<not> given (to_rootCert t) then
                 (if is_tls_enforced E then Inl ''[LIOP-TLS] FATAL: TLS root certificate required in production or when LIOP_ENFORCE_TLS=true.''
                  else Inr InsecureChannel)
               else
                 or_fallback E ''Channel certificate loading failed in production or enforced mode. Refusing insecure fallback to prevent MITM/eavesdropping''
                   InsecureChannel
                   (bind_sum (tv_read E (the (to_rootCert t))) (\<lambda>ca.
                    bind_sum (read_given E (to_certChain t)) (\<lambda>chain.
                    bind_sum (read_given E (to_privateKey t)) (\<lambda>key.
                      channel_ssl E ca key chain))))))"

section \<open>Shutdown of the gRPC server\<close>

datatype shutdown_event = ShutdownDone | ShutdownTimeout

text \<open>Whether the shutdown is forced; \<open>None\<close> while it goes on. The first event settles it.\<close>

fun graceful_shutdown :: "shutdown_event list \<Rightarrow> bool option" where
  "graceful_shutdown [] = None"
| "graceful_shutdown (e # es) = Some (e = ShutdownTimeout)"

section \<open>Guarantees\<close>

lemma or_fallback_secure: "is_tls_enforced E \<Longrightarrow> or_fallback E w i x = Inr c \<Longrightarrow> x = Inr c"
  by (auto simp: or_fallback_def split: sum.splits)

lemma server_ssl_secure: "server_ssl E mutual e ca chain key = Inr c \<Longrightarrow>
    c = SslServer ca chain key mutual \<and> (mutual \<longrightarrow> ca \<noteq> None)"
  by (auto simp: server_ssl_def split: if_splits option.splits)

lemmas sum_steps = bind_sum_Inr or_fallback_def

lemma enforced_server_secure:
  assumes "is_tls_enforced E"
  shows "create_server_credentials E tls \<noteq> Inr InsecureServer"
proof
  assume "create_server_credentials E tls = Inr InsecureServer"
  then show False
    using assms
    by (auto simp: create_server_credentials_def managed_server_def bind_sum_Inr
        dest!: or_fallback_secure [OF assms] server_ssl_secure split: option.splits if_splits)
qed

lemma enforced_channel_secure:
  assumes "is_tls_enforced E"
  shows "create_channel_credentials E tls \<noteq> Inr InsecureChannel"
proof
  assume "create_channel_credentials E tls = Inr InsecureChannel"
  then show False
    using assms
    by (auto simp: create_channel_credentials_def managed_channel_def channel_ssl_def bind_sum_Inr
        dest!: or_fallback_secure [OF assms] split: option.splits if_splits)
qed

text \<open>C34: whatever the configuration and the files, with TLS enforced neither a server nor a channel gets
  insecure credentials.\<close>

theorem enforced_tls_never_insecure:
  assumes "is_tls_enforced E"
  shows "create_server_credentials E tls \<noteq> Inr InsecureServer \<and> create_channel_credentials E tls \<noteq> Inr InsecureChannel"
  using enforced_server_secure [OF assms] enforced_channel_secure [OF assms] by blast

text \<open>Credentials of a server with mutual TLS that are not insecure check the clients against a root.\<close>

lemma mutual_tls_checks_clients:
  assumes "create_server_credentials E (Some t) = Inr (SslServer ca chain key mutual)"
  shows "mutual = to_mutualTls t \<and> (mutual \<longrightarrow> ca \<noteq> None)"
  using assms
  by (auto simp: create_server_credentials_def managed_server_def bind_sum_Inr or_fallback_def
      dest!: server_ssl_secure split: option.splits if_splits sum.splits)

text \<open>Outside the enforced mode a server that asks for mutual TLS and whose root is at hand still starts
  without any TLS when a file cannot be read.\<close>

lemma mutual_tls_downgraded:
  assumes "\<not> is_tls_enforced E" and "tv_read E k = Inl e" and "k \<noteq> []" and "given (to_rootCert t)" and "given (to_certChain t)"
    and "to_mutualTls t" and "to_privateKey t = Some k" and "to_certManager t = None"
  shows "create_server_credentials E (Some t) = Inr InsecureServer"
  using assms by (auto simp: create_server_credentials_def given_def or_fallback_def bind_sum_def read_given_def split: sum.splits)

text \<open>A reload that fails at the key has already replaced the chain: the manager serves the new chain with
  the old key.\<close>

lemma failed_reload_mixes_pair:
  assumes "fs (co_certChainPath opts) = Content chain" and "fs (co_privateKeyPath opts) = Unreadable e" and "co_rootCertPath opts = None"
  shows "reload_now x opts now fs M = (ReloadFailed e, M\<lparr>cm_chain := Some chain\<rparr>)"
  using assms by (simp add: reload_now_def load_certificates_def load_root_def load_pair_def)

text \<open>A manager that was made holds a chain and a key, whatever reloads come later.\<close>

lemma load_keeps: "load_certificates opts fs M = (e, M') \<Longrightarrow>
    (cm_chain M \<noteq> None \<longrightarrow> cm_chain M' \<noteq> None) \<and> (cm_key M \<noteq> None \<longrightarrow> cm_key M' \<noteq> None) \<and> (cm_root M \<noteq> None \<longrightarrow> cm_root M' \<noteq> None)"
  by (auto simp: load_certificates_def load_root_def load_pair_def split: option.splits if_splits file_state.splits prod.splits)

lemma load_complete: "load_certificates opts fs M = (None, M') \<Longrightarrow> cm_chain M' \<noteq> None \<and> cm_key M' \<noteq> None"
  by (auto simp: load_certificates_def load_root_def load_pair_def split: option.splits if_splits file_state.splits prod.splits)

text \<open>The days that remain, for a certificate that has not expired.\<close>

lemma div_bounds:
  fixes r m :: int
  assumes "0 < m"
  shows "r div m * m \<le> r" and "r < (r div m + 1) * m"
proof -
  have "r = r div m * m + r mod m" "0 \<le> r mod m" "r mod m < m" "(r div m + 1) * m = r div m * m + m"
    using assms by (simp_all add: distrib_right)
  then show "r div m * m \<le> r" "r < (r div m + 1) * m" by linarith+
qed

lemma days_remaining:
  assumes "now < xc_validTo c"
  shows "ci_daysRemaining (cert_status w now c) * ms_per_day \<le> xc_validTo c - now"
    "xc_validTo c - now < (ci_daysRemaining (cert_status w now c) + 1) * ms_per_day"
proof -
  have m: "0 < ms_per_day" by (simp add: ms_per_day_def)
  then have "ci_daysRemaining (cert_status w now c) = (xc_validTo c - now) div ms_per_day"
    using assms by (simp add: cert_status_def Let_def pos_imp_zdiv_nonneg_iff)
  then show "ci_daysRemaining (cert_status w now c) * ms_per_day \<le> xc_validTo c - now"
    "xc_validTo c - now < (ci_daysRemaining (cert_status w now c) + 1) * ms_per_day"
    using div_bounds [OF m, of "xc_validTo c - now"] by simp_all
qed

lemma expired_is_expiring:
  assumes "0 \<le> w" and "ci_isExpired (cert_status w now c)"
  shows "ci_isExpiringSoon (cert_status w now c)"
proof -
  have m: "0 < ms_per_day" by (simp add: ms_per_day_def)
  from assms(2) have "xc_validTo c - now \<le> 0" by (simp add: cert_status_def Let_def)
  then have "(xc_validTo c - now) div ms_per_day \<le> 0" using m zdiv_mono1 [of _ 0 ms_per_day] by simp
  with assms(1) show ?thesis by (simp add: cert_status_def Let_def)
qed

text \<open>Changes of the files put the reload off until they have been quiet for the delay.\<close>

fun changes :: "cert_options \<Rightarrow> int list \<Rightarrow> cert_manager \<Rightarrow> cert_manager" where
  "changes opts [] M = M"
| "changes opts (t # ts) M = changes opts ts (schedule_reload opts t M)"

lemma reload_waits_for_quiet:
  assumes "now < t + (case co_debounceMs opts of None \<Rightarrow> 150 | Some d \<Rightarrow> d)"
  shows "timer_tick x opts now fs (changes opts (ts @ [t]) M) = (None, changes opts (ts @ [t]) M)"
proof -
  have "cm_timer (changes opts (ts @ [t]) M) = Some (t + (case co_debounceMs opts of None \<Rightarrow> 150 | Some d \<Rightarrow> d))"
    by (induction ts arbitrary: M) (simp_all add: schedule_reload_def)
  with assms show ?thesis by (simp add: timer_tick_def)
qed

definition production_env :: tls_env where
  "production_env = \<lparr>tv_env = (\<lambda>k. if k = ''NODE_ENV'' then Some ''production'' else None), tv_read = (\<lambda>p. Inl ''ENOENT''),
     tv_serverSsl = (\<lambda>r c k m. None), tv_channelSsl = (\<lambda>r k c. None)\<rparr>"

definition unreadable_options :: tls_options where
  "unreadable_options = \<lparr>to_rootCert = Some ''ca.pem'', to_certChain = Some ''c.pem'', to_privateKey = Some ''k.pem'', to_mutualTls = True,
     to_certManager = None\<rparr>"

theorem enforced_tls_never_insecure_witness:
  "create_server_credentials production_env (Some unreadable_options) \<noteq> Inr InsecureServer \<and>
   create_channel_credentials production_env (Some unreadable_options) \<noteq> Inr InsecureChannel"
  by (rule enforced_tls_never_insecure) (simp add: is_tls_enforced_def production_env_def)

end
