(* ===== verification/ServerSetup.thy ===== *)
theory ServerSetup
  imports Jwt Tls Manifest
begin

text \<open>
  How a server is set up: the settings the constructor of \<open>server/index.ts\<close> derives from its options and
  the environment, the authorisation server of \<open>security/oauth-server.ts\<close> with the defaults of
  \<open>security/auth-config.ts\<close>, and the steps of \<open>connectToMesh\<close>. oidc-provider, the key generator, the
  worker pool and the mesh node are parameters.
\<close>

section \<open>Numbers of the environment\<close>

text \<open>\<open>Number.parseInt(s, 10)\<close>; \<open>None\<close> is NaN.\<close>

definition digit_value :: "char \<Rightarrow> int" where "digit_value c = int (code_of c) - 48"

definition is_dec :: "char \<Rightarrow> bool" where "is_dec c \<longleftrightarrow> 48 \<le> code_of c \<and> code_of c \<le> 57"

definition parse_digits :: "string \<Rightarrow> int option" where
  "parse_digits s =
     (let ds = takeWhile is_dec s in if ds = [] then None else Some (foldl (\<lambda>n c. 10 * n + digit_value c) 0 ds))"

definition parse_int :: "string \<Rightarrow> int option" where
  "parse_int s =
     (case trim_start s of
        [] \<Rightarrow> None
      | c # cs \<Rightarrow>
          if c = CHR ''-'' then map_option uminus (parse_digits cs)
          else if c = CHR ''+'' then parse_digits cs
          else parse_digits (c # cs))"

section \<open>Limits and workers\<close>

record rate_config =
  rc_windowMs :: "int option"
  rc_maxPerWindow :: "int option"
  rc_globalMaxPerWindow :: "int option"

text \<open>The three settings; \<open>None\<close> is NaN.\<close>

definition setting :: "(string \<Rightarrow> string option) \<Rightarrow> int option \<Rightarrow> string \<Rightarrow> string \<Rightarrow> int option" where
  "setting env configured key fallback =
     (case configured of Some n \<Rightarrow> Some n | None \<Rightarrow> parse_int (case env key of Some v \<Rightarrow> v | None \<Rightarrow> fallback))"

definition rate_settings :: "(string \<Rightarrow> string option) \<Rightarrow> rate_config \<Rightarrow> int option \<times> int option \<times> int option" where
  "rate_settings env c =
     (setting env (rc_windowMs c) ''LIOP_RATE_LIMIT_WINDOW_MS'' ''60000'',
      setting env (rc_maxPerWindow c) ''LIOP_RATE_LIMIT_MAX'' ''15'',
      setting env (rc_globalMaxPerWindow c) ''LIOP_RATE_LIMIT_GLOBAL_MAX'' ''40'')"

text \<open>\<open>n < x\<close> and \<open>n >= x\<close>, which are false when \<open>x\<close> is NaN, and the test of a window on them.\<close>

definition js_less :: "int \<Rightarrow> int option \<Rightarrow> bool" where "js_less n x = (case x of None \<Rightarrow> False | Some m \<Rightarrow> n < m)"
definition js_at_least :: "int \<Rightarrow> int option \<Rightarrow> bool" where "js_at_least n x = (case x of None \<Rightarrow> False | Some m \<Rightarrow> m \<le> n)"

definition window_full :: "int option \<Rightarrow> int option \<Rightarrow> int \<Rightarrow> int list \<Rightarrow> bool" where
  "window_full windowMs limit now window = js_at_least (int (length (filter (\<lambda>t. js_less (now - t) windowMs) window))) limit"

record pool_config =
  pc_minThreads :: "int option"
  pc_maxThreads :: "int option"
  pc_idleTimeout :: "int option"
  pc_maxHeapMb :: "int option"

definition is_test :: "(string \<Rightarrow> string option) \<Rightarrow> bool" where
  "is_test env \<longleftrightarrow> env ''NODE_ENV'' = Some ''test'' \<or> truthy_string (env ''VITEST'') \<noteq> None"

definition or_setting :: "int option \<Rightarrow> int \<Rightarrow> int" where "or_setting x d = (case x of None \<Rightarrow> d | Some n \<Rightarrow> n)"

text \<open>Threads, idle time and heap of a worker, and the number of warm-up tasks.\<close>

definition pool_settings :: "(string \<Rightarrow> string option) \<Rightarrow> pool_config \<Rightarrow> int \<times> int \<times> int \<times> int option" where
  "pool_settings env c =
     (or_setting (pc_minThreads c) (if is_test env then 0 else 2), or_setting (pc_maxThreads c) (if is_test env then 1 else 8),
      or_setting (pc_idleTimeout c) (if is_test env then 500 else 5000),
      setting env (pc_maxHeapMb c) ''LIOP_WORKER_MAX_HEAP_MB'' ''64'')"

definition warmups :: "(string \<Rightarrow> string option) \<Rightarrow> pool_config \<Rightarrow> nat" where
  "warmups env c = nat (or_setting (pc_minThreads c) (if is_test env then 0 else 2))"

definition default_forbidden_keys :: "string list" where
  "default_forbidden_keys =
     [''id'', ''name'', ''fullName'', ''firstName'', ''lastName'', ''address'', ''street'', ''city'', ''postalCode'', ''zipCode'',
      ''phone'', ''email'', ''ssn'', ''accountHolder'', ''accountNumber'', ''account_number'', ''password'', ''token'', ''secret'', ''privateKey'']"

section \<open>The authorisation server\<close>

definition auth_default_audience :: string where "auth_default_audience = ''urn:liop:mesh:api''"
definition token_ttl_seconds :: int where "token_ttl_seconds = 3600"
definition jwks_cache_ttl_ms :: int where "jwks_cache_ttl_ms = 600000"
definition jwks_cooldown_ms :: int where "jwks_cooldown_ms = 30000"
definition clock_tolerance_sec :: int where "clock_tolerance_sec = 5"
definition signing_algorithm :: string where "signing_algorithm = ''EdDSA''"

record oauth_client =
  oc_client_id :: string
  oc_client_secret :: string
  oc_grant_types :: "string list"
  oc_scope :: string

record oidc_client =
  id_client_id :: string
  id_client_secret :: string
  id_grant_types :: "string list"
  id_scope :: string
  id_auth_method :: string
  id_signed_response_alg :: string

text \<open>A client is registered for client credentials whatever grant types it lists.\<close>

definition oidc_client_of :: "oauth_client \<Rightarrow> oidc_client" where
  "oidc_client_of c =
     \<lparr>id_client_id = oc_client_id c, id_client_secret = oc_client_secret c, id_grant_types = [''client_credentials''],
      id_scope = oc_scope c, id_auth_method = ''client_secret_post'', id_signed_response_alg = ''EdDSA''\<rparr>"

definition interactions_not_supported :: string where
  "interactions_not_supported =
     ''InteractionsNotSupportedException: This Authorization Server is strictly configured for Machine-to-Machine flows.''"

record oauth_server =
  os_issuer :: string
  os_scopes :: "string list"
  os_clients :: "oidc_client list"
  os_ttl :: int
  os_keyId :: string

text \<open>\<open>keyId\<close> is the digest of the public key as text.\<close>

definition create_oauth_server :: "string \<Rightarrow> string \<Rightarrow> oauth_client list \<Rightarrow> oauth_server" where
  "create_oauth_server keyDigest issuer clients =
     \<lparr>os_issuer = without_slash issuer, os_scopes = [''openid'', ''offline_access''] @ liop_scopes,
      os_clients = map oidc_client_of clients, os_ttl = token_ttl_seconds, os_keyId = take 16 keyDigest\<rparr>"

text \<open>The scope of a resource server for a client, and the claim put into a token.\<close>

definition resource_scope :: "string option \<Rightarrow> string" where "resource_scope scope = or_else scope []"

definition extra_token_claims :: "string \<Rightarrow> string \<Rightarrow> (string \<times> string) list" where
  "extra_token_claims kind scope = (if kind = ''AccessToken'' then [(''scope'', scope)] else [])"

definition default_client :: "(string \<Rightarrow> string option) \<Rightarrow> oauth_client" where
  "default_client env =
     \<lparr>oc_client_id = or_else (truthy_string (env ''LIOP_OAUTH_CLIENT_ID'')) ''liop-mesh-agent'',
      oc_client_secret = or_else (truthy_string (env ''LIOP_OAUTH_CLIENT_SECRET'')) ''dev-secret-change-me'',
      oc_grant_types = [''client_credentials''],
      oc_scope = ''liop:tools:call liop:tools:list liop:resources:read liop:schema:read liop:mesh:query''\<rparr>"

datatype auth_role = Nexus | Node | NoRole

record auth_config =
  ac_role :: auth_role
  ac_issuer :: "string option"
  ac_audience :: "string option"
  ac_nexusUrl :: "string option"
  ac_clients :: "oauth_client list option"

datatype jwks_source = LocalKeys string | RemoteKeys string

text \<open>The provider, if any, and the validator's issuer, audience and keys.\<close>

definition setup_auth ::
    "(string \<Rightarrow> string option) \<Rightarrow> string \<Rightarrow> auth_config option \<Rightarrow> oauth_server option \<times> (string \<times> string \<times> jwks_source) option" where
  "setup_auth env keyDigest config =
     (case config of
        None \<Rightarrow> (None, None)
      | Some a \<Rightarrow>
          (let audience = or_else (truthy_string (ac_audience a)) auth_default_audience in
           case ac_role a of
             Nexus \<Rightarrow>
               (let issuer = or_else (truthy_string (ac_issuer a)) ''http://localhost:3000'';
                    server = create_oauth_server keyDigest issuer (case ac_clients a of Some cs \<Rightarrow> cs | None \<Rightarrow> [default_client env])
                in (Some server, Some (issuer, audience, LocalKeys (os_keyId server))))
           | Node \<Rightarrow>
               (let nexusUrl = or_else (truthy_string (ac_nexusUrl a)) (or_else (truthy_string (env ''LIOP_NEXUS_URL'')) ''http://localhost:3000'');
                    baseUrl = (if ends_with nexusUrl ''/oidc'' then nexusUrl else nexusUrl @ ''/oidc'')
                in (None, Some (nexusUrl, audience, RemoteKeys (baseUrl @ ''/jwks''))))
           | NoRole \<Rightarrow> (None, None)))"

section \<open>Joining the mesh\<close>

text \<open>The steps of \<open>connectToMesh\<close>, in order, up to the one that fails.\<close>

datatype mesh_step = StartMesh | RegisterManifest "int option" | Announce string | AnnounceManifest | Listen "int option" server_credentials

text \<open>The port: \<open>None\<close> is NaN.\<close>

definition mesh_port :: "(string \<Rightarrow> string option) \<Rightarrow> int option \<Rightarrow> int option" where
  "mesh_port env port =
     (case port of Some p \<Rightarrow> Some p
      | None \<Rightarrow> (case truthy_string (env ''LIOP_GRPC_PORT'') of Some s \<Rightarrow> parse_int s | None \<Rightarrow> Some 50051))"

definition connect_to_mesh ::
    "tls_env \<Rightarrow> int option \<Rightarrow> string option \<Rightarrow> string list \<Rightarrow> mesh_step list \<times> string option" where
  "connect_to_mesh E port tokenSlug tools =
     (let p = mesh_port (tv_env E) port;
          steps = [StartMesh, RegisterManifest p] @ map Announce tools @ [AnnounceManifest]
      in if \<not> valid_slug tokenSlug then ([], Some (''Invalid tokenSlug''))
         else
           (case create_server_credentials E None of
              Inl e \<Rightarrow> (steps, Some e)
            | Inr c \<Rightarrow> (steps @ [Listen p c], None)))"

section \<open>Properties\<close>

text \<open>A setting that is no number switches the limit off: no window is ever full.\<close>

lemma malformed_limit_unlimited:
  assumes "env ''LIOP_RATE_LIMIT_MAX'' = Some v" and "parse_int v = None" and "rc_maxPerWindow c = None"
  shows "fst (snd (rate_settings env c)) = None \<and> \<not> window_full w None now window"
  using assms by (simp add: rate_settings_def setting_def window_full_def js_at_least_def)

lemma malformed_window_unlimited: "0 < limit \<Longrightarrow> \<not> window_full None (Some limit) now window"
  by (simp add: window_full_def js_at_least_def js_less_def)

lemma unlimited_is_malformed: "parse_int ''unlimited'' = None"
  by (simp add: parse_int_def parse_digits_def trim_start_def is_space_def is_dec_def code_of_def)

lemma default_settings: "(\<And>k. env k = None) \<Longrightarrow> rate_settings env \<lparr>rc_windowMs = None, rc_maxPerWindow = None, rc_globalMaxPerWindow = None\<rparr> =
    (Some 60000, Some 15, Some 40)"
  by (simp add: rate_settings_def setting_def parse_int_def parse_digits_def trim_start_def is_space_def is_dec_def code_of_def digit_value_def)

text \<open>Which issuers a validator accepts.\<close>

lemma issuer_accepted_iff:
  "i \<in> set (build_issuer_aliases J) \<longleftrightarrow>
     i = jw_issuer J \<or>
     (case jw_url J (without_slash (jw_issuer J)) of None \<Rightarrow> False
      | Some (hostname, port) \<Rightarrow>
          hostname @ '':'' @ (if port = [] then ''3000'' else port) \<in> set nexus_authorities \<and>
          (\<exists>a \<in> set nexus_authorities. i = http a @ after_authority (without_slash (jw_issuer J)) \<or>
             i = http a @ (if after_authority (without_slash (jw_issuer J)) \<noteq> [] then [] else ''/oidc'')))"
  by (auto simp: build_issuer_aliases_def Let_def set_add_aliases split: option.splits)

text \<open>A nexus whose issuer ends with a slash signs tokens of the issuer without it and validates against the
  issuer with it: unless its address is one of the demo, it refuses every token it issues.\<close>

theorem trailing_slash_refused:
  assumes "setup_auth env d (Some a) = (Some server, Some (issuer, audience, keys))" and "ac_issuer a = Some (u @ ''/'')"
    and "jw_issuer J = issuer" and "jw_url J u = Some (hostname, port)"
    and "hostname @ '':'' @ (if port = [] then ''3000'' else port) \<notin> set nexus_authorities"
  shows "os_issuer server \<notin> set (build_issuer_aliases J)"
proof -
  have "issuer = u @ ''/''" "os_issuer server = u"
    using assms(1,2)
    by (auto simp: setup_auth_def Let_def truthy_string_def or_else_def create_oauth_server_def without_slash_def ends_with_iff
        split: auth_role.splits)
  moreover have "without_slash (u @ ''/'') = u" by (simp add: without_slash_def ends_with_iff)
  ultimately show ?thesis using assms(3-5) by (auto simp: issuer_accepted_iff)
qed

text \<open>Joining the mesh hands no certificates to the gRPC server: where TLS is enforced it fails after the node
  has been announced, and elsewhere the server is insecure.\<close>

theorem mesh_server_never_secure:
  "connect_to_mesh E port slug tools =
     (if \<not> valid_slug slug then ([], Some (''Invalid tokenSlug''))
      else
        (let steps = [StartMesh, RegisterManifest (mesh_port (tv_env E) port)] @ map Announce tools @ [AnnounceManifest] in
         if is_tls_enforced E
         then (steps, Some ''[LIOP-TLS] FATAL: TLS certificates required in production or when LIOP_ENFORCE_TLS=true.'')
         else (steps @ [Listen (mesh_port (tv_env E) port) InsecureServer], None)))"
  by (simp add: connect_to_mesh_def create_server_credentials_def Let_def)

text \<open>The manifest names the port that was asked for, not the one the server got.\<close>

lemma manifest_port_requested:
  "valid_slug slug \<Longrightarrow> \<not> is_tls_enforced E \<Longrightarrow>
     RegisterManifest (Some 0) \<in> set (fst (connect_to_mesh E (Some 0) slug tools))"
  by (simp add: mesh_server_never_secure Let_def mesh_port_def)

lemma clients_only_credentials:
  "c \<in> set (os_clients (create_oauth_server d i cs)) \<Longrightarrow> id_grant_types c = [''client_credentials'']"
  by (auto simp: create_oauth_server_def oidc_client_of_def)

theorem trailing_slash_refused_witness:
  "''https://n'' \<notin> set (build_issuer_aliases
     \<lparr>jw_url = (\<lambda>u. Some (''n'', [])), jw_verify = (\<lambda>t i a. Inl []), jw_issuer = ''https://n/'', jw_audience = auth_default_audience\<rparr>)"
proof -
  let ?J = "\<lparr>jw_url = (\<lambda>u. Some (''n'', [])), jw_verify = (\<lambda>t i a. Inl []), jw_issuer = ''https://n/'', jw_audience = auth_default_audience\<rparr>"
  let ?a = "\<lparr>ac_role = Nexus, ac_issuer = Some (''https://n'' @ ''/''), ac_audience = None, ac_nexusUrl = None, ac_clients = Some []\<rparr>"
  let ?s = "create_oauth_server [] ''https://n/'' []"
  have "setup_auth (\<lambda>k. None) [] (Some ?a) = (Some ?s, Some (''https://n/'', auth_default_audience, LocalKeys (os_keyId ?s)))"
    by (simp add: setup_auth_def Let_def truthy_string_def or_else_def)
  from trailing_slash_refused [OF this, of "''https://n''" ?J "''n''" "[]"]
  have "os_issuer ?s \<notin> set (build_issuer_aliases ?J)" by (simp add: nexus_authorities_def)
  moreover have "os_issuer ?s = ''https://n''" by (simp add: create_oauth_server_def without_slash_def ends_with_def)
  ultimately show ?thesis by simp
qed

end
