(* ===== verification/Workers.thy ===== *)
theory Workers
  imports ReceiptClaims ServerSetup
begin

text \<open>
  What surrounds the workers: the choice of their files and flags in \<open>server/index.ts\<close> and
  \<open>crypto/verifier.ts\<close>, the pool of verifiers, the handler and the messages of
  \<open>workers/zk-verifier.ts\<close>, the checks of key sizes of \<open>rpc/crypto/kyber.ts\<close>, and the operations of
  a server for its cache and its data. The module resolver
  and the existence of files are parameters.
\<close>

section \<open>Files and flags\<close>

record module_env =
  mv_isTS :: bool
  mv_tsxLoader :: "string option"
  mv_exists :: "string \<Rightarrow> bool"

definition worker_exec_argv :: "module_env \<Rightarrow> string list" where
  "worker_exec_argv M =
     (if mv_isTS M then [''--import'', case mv_tsxLoader M of Some f \<Rightarrow> f | None \<Rightarrow> ''tsx''] else [])"

definition worker_paths :: "module_env \<Rightarrow> string \<Rightarrow> string list" where
  "worker_paths M name =
     (let ext = (if mv_isTS M then ''.ts'' else ''.js'') in [''./workers/'' @ name @ ext, ''../workers/'' @ name @ ext])"

definition worker_filename :: "module_env \<Rightarrow> string \<Rightarrow> string" where
  "worker_filename M name =
     (case find (mv_exists M) (worker_paths M name) of Some p \<Rightarrow> p | None \<Rightarrow> worker_paths M name ! 1)"

text \<open>The pool of verifiers is made once; every later request gets it.\<close>

record verifier_pool =
  vp_filename :: string
  vp_maxThreads :: nat
  vp_execArgv :: "string list"

definition get_zk_pool :: "module_env \<Rightarrow> verifier_pool option \<Rightarrow> verifier_pool" where
  "get_zk_pool M pool =
     (case pool of Some p \<Rightarrow> p
      | None \<Rightarrow> \<lparr>vp_filename = worker_filename M ''zk-verifier'', vp_maxThreads = 2, vp_execArgv = worker_exec_argv M\<rparr>)"

section \<open>The verifying worker\<close>

definition short_text :: "jsval \<Rightarrow> string" where
  "short_text v = (case v of JStr s \<Rightarrow> take 8 s | _ \<Rightarrow> [])"

text \<open>The message of a verdict; a value in the journal that is no text is left out of it, and so is what the
  engine says of an exception.\<close>

definition verdict_message :: "verdict \<Rightarrow> string" where
  "verdict_message v =
     (case v of
        Verified \<Rightarrow> ''HMAC Commitment Verified: Integrity intact.''
      | MissingFields \<Rightarrow> ''Missing required verification fields.''
      | IntegrityViolation l r \<Rightarrow> ''Integrity Violation: Local ('' @ take 8 l @ '') != Remote ('' @ take 8 r @ '')''
      | ReceiptTooShort \<Rightarrow> ''Receipt too short for binary format.''
      | UnknownVersion n \<Rightarrow> ''Unknown receipt version: '' @ nat_str n
      | InvalidSealLength \<Rightarrow> ''Invalid seal length (expected 32 bytes HMAC-SHA256).''
      | JournalMismatch j l \<Rightarrow> ''Journal ImageID mismatch: '' @ short_text j @ '' != '' @ take 8 l
      | JournalUnparsed \<Rightarrow> ''Failed to parse journal data.''
      | InvalidSeal \<Rightarrow> ''Invalid seal: HMAC verification failed.''
      | OutputHashMismatch j h \<Rightarrow>
          ''Output Hash Mismatch (Replay/Tamper attempt): Journal output_hash ('' @ short_text j @
          '') != Calculated output_hash ('' @ take 8 h @ '')''
      | VerificationError \<Rightarrow> ''Verification Error: '')"

datatype zk_action = Warmup | VerifyReceipt zk_payload | UnknownAction

definition zk_worker :: "worker_env \<Rightarrow> zk_action \<Rightarrow> bool \<times> string" where
  "zk_worker E a =
     (case a of
        Warmup \<Rightarrow> (True, ''warm'')
      | VerifyReceipt z \<Rightarrow> (let v = verify_zk_receipt E z in (v = Verified, verdict_message v))
      | UnknownAction \<Rightarrow> (False, ''Verification Error: Unknown action in ZkVerifier Worker.''))"

text \<open>\<open>LiopVerifier.verifyZkReceipt\<close> over the worker.\<close>

definition verify_over_worker :: "worker_env \<Rightarrow> bytes \<Rightarrow> string \<Rightarrow> bytes \<Rightarrow> bytes option \<Rightarrow> jsval \<Rightarrow> bool" where
  "verify_over_worker E logicPayload remoteImageIdHex zkReceipt sessionSecret expectedOutput =
     fst (zk_worker E (VerifyReceipt
       \<lparr>zp_logicPayload = Some logicPayload, zp_remoteImageIdHex = Some remoteImageIdHex, zp_zkReceipt = Some zkReceipt,
        zp_sessionSecret = sessionSecret, zp_expectedOutput = expectedOutput\<rparr>))"

section \<open>Key sizes\<close>

definition kyber_import_public_key :: "bytes \<Rightarrow> string + bytes" where
  "kyber_import_public_key buffer =
     (if length buffer \<noteq> 1184
      then Inl (''Kyber768 Public Key must be exactly 1184 bytes (Received: '' @ nat_str (length buffer) @ '')'')
      else Inr buffer)"

definition kyber_encapsulate :: "(bytes \<Rightarrow> string + bytes \<times> bytes) \<Rightarrow> bytes \<Rightarrow> string + bytes \<times> bytes" where
  "kyber_encapsulate encap publicKey =
     (if length publicKey \<noteq> 1184 then Inl ''Failed to perform PQC encapsulation: Kyber768 Public Key must be exactly 1184 bytes.''
      else
        (case encap publicKey of Inl e \<Rightarrow> Inl (''Failed to perform PQC encapsulation: '' @ e) | Inr p \<Rightarrow> Inr p))"

section \<open>Other operations of the server\<close>

definition synced_capabilities :: "jsval \<Rightarrow> jsval \<Rightarrow> jsval" where
  "synced_capabilities configured own = (if truthy configured \<and> \<not> truthy own then configured else own)"

definition clear_ast_cache :: "'f server_state \<Rightarrow> 'f server_state" where
  "clear_ast_cache S = S\<lparr>sv_logicCache := []\<rparr>"

definition set_sandbox_data :: "jsval list \<Rightarrow> 'f server_state \<Rightarrow> 'f server_state" where
  "set_sandbox_data records S = S\<lparr>sv_recordCount := int (length records)\<rparr>"

text \<open>\<open>getDatasetHash\<close>: the digest of the records as JSON.\<close>

definition get_dataset_hash :: "worker_env \<Rightarrow> jsval list \<Rightarrow> string" where
  "get_dataset_hash E records = text_digest (we_sha256 E) (we_stringify E (JArr records))"

section \<open>Properties\<close>

lemma worker_file_choice:
  "worker_filename M name \<in> set (worker_paths M name) \<and>
   ((\<exists>p\<in>set (worker_paths M name). mv_exists M p) \<longrightarrow> mv_exists M (worker_filename M name))"
  by (auto simp: worker_filename_def worker_paths_def Let_def split: option.splits if_splits)

lemma one_pool: "get_zk_pool M (Some (get_zk_pool N p)) = get_zk_pool N p"
  by (simp add: get_zk_pool_def)

text \<open>The verdict over the worker is that of the verification itself, and a verified receipt has the one
  message of success.\<close>

theorem worker_verifies_same:
  "verify_over_worker E logic remote receipt secret out = liop_verify_zk_receipt E logic remote receipt secret out"
  by (simp add: verify_over_worker_def zk_worker_def liop_verify_zk_receipt_def Let_def)

lemma success_message_exact: "verdict_message v = ''HMAC Commitment Verified: Integrity intact.'' \<longleftrightarrow> v = Verified"
  by (cases v) (simp_all add: verdict_message_def)

text \<open>A task that only warms the worker up is reported as verified; no receipt is looked at.\<close>

lemma warmup_counts_as_verified: "fst (zk_worker E Warmup)"
  by (simp add: zk_worker_def)

text \<open>Neither operation changes the budgets, the windows of the rate limits or the tools; a data set of at least
  ten records lifts the restriction on small samples.\<close>

lemma maintenance_keeps:
  "sv_memory (clear_ast_cache S) = sv_memory S" "sv_disk (clear_ast_cache S) = sv_disk S"
  "sv_toolWindows (clear_ast_cache S) = sv_toolWindows S" "sv_tools (clear_ast_cache S) = sv_tools S"
  "sv_memory (set_sandbox_data rs S) = sv_memory S" "sv_disk (set_sandbox_data rs S) = sv_disk S"
  by (simp_all add: clear_ast_cache_def set_sandbox_data_def)

lemma large_dataset_not_small: "10 \<le> length rs \<Longrightarrow> \<not> small_sample (Some (sv_recordCount (set_sandbox_data rs S)))"
  by (simp add: set_sandbox_data_def small_sample_def)

lemma kyber_sizes:
  "kyber_import_public_key b = Inr c \<longleftrightarrow> c = b \<and> length b = 1184"
  "kyber_encapsulate f k = Inr p \<Longrightarrow> length k = 1184 \<and> f k = Inr p"
  by (auto simp: kyber_import_public_key_def kyber_encapsulate_def split: if_splits sum.splits)

end
