(* ===== verification/Breaker.thy ===== *)
theory Breaker
  imports MeshNode
begin

text \<open>
  The two circuit breakers for peers that fail, of the router (\<open>gateway/router.ts\<close>) and of the mesh node
  (\<open>mesh/node.ts\<close>), under one interface: what recording a failure, recording a success and asking may do
  to the table of failures. What a peer's history makes of it is proved once, in the interface.
\<close>

section \<open>Histories\<close>

datatype breaker_event = PeerFailed int string | PeerAnswered string | PeerAsked int string

text \<open>The number of failures of a peer since its last success, and the time of the last one.\<close>

definition streak_step :: "string \<Rightarrow> nat \<times> int \<Rightarrow> breaker_event \<Rightarrow> nat \<times> int" where
  "streak_step p s e =
     (case e of
        PeerFailed t q \<Rightarrow> if q = p then (fst s + 1, t) else s
      | PeerAnswered q \<Rightarrow> if q = p then (0, 0) else s
      | PeerAsked t q \<Rightarrow> s)"

definition streak :: "string \<Rightarrow> breaker_event list \<Rightarrow> nat \<times> int" where
  "streak p es = foldl (streak_step p) (0, 0) es"

text \<open>The specification: a peer with \<open>k\<close> failures in a row is left alone for \<open>base\<close> doubled with every
  failure after the first, at most \<open>limit\<close>.\<close>

definition left_alone :: "int \<Rightarrow> int \<Rightarrow> int \<Rightarrow> string \<Rightarrow> breaker_event list \<Rightarrow> bool" where
  "left_alone base limit now p es \<longleftrightarrow>
     (let (k, t) = streak p es in 0 < k \<and> now < t + min (base * 2 ^ (k - 1)) limit)"

section \<open>The interface\<close>

locale dial_breaker =
  fixes failures :: "'s \<Rightarrow> string \<Rightarrow> failure_state option"
    and fails :: "int \<Rightarrow> string \<Rightarrow> 's \<Rightarrow> 's"
    and clears :: "string \<Rightarrow> 's \<Rightarrow> 's"
    and asks :: "int \<Rightarrow> string \<Rightarrow> 's \<Rightarrow> bool \<times> 's"
    and base :: int and limit :: int
  assumes failed: "failures (fails now p s) q =
      (if q = p then
         (let k = (case failures s p of None \<Rightarrow> 0 | Some f \<Rightarrow> fs_failures f) in
          Some \<lparr>fs_failures = k + 1, fs_cooldownUntil = now + min (base * 2 ^ k) limit, fs_lastSkipLogAt = 0\<rparr>)
       else failures s q)"
    and cleared: "failures (clears p s) q = (if q = p then None else failures s q)"
    and asked: "fst (asks now p s) \<longleftrightarrow> (\<exists>f. failures s p = Some f \<and> now < fs_cooldownUntil f)"
    and asked_keeps: "map_option (\<lambda>f. (fs_failures f, fs_cooldownUntil f)) (failures (snd (asks now p s)) q) =
      map_option (\<lambda>f. (fs_failures f, fs_cooldownUntil f)) (failures s q)"
begin

definition react :: "breaker_event \<Rightarrow> 's \<Rightarrow> 's" where
  "react e s = (case e of PeerFailed t p \<Rightarrow> fails t p s | PeerAnswered p \<Rightarrow> clears p s | PeerAsked t p \<Rightarrow> snd (asks t p s))"

text \<open>What the table holds after a history.\<close>

definition records :: "string \<Rightarrow> nat \<times> int \<Rightarrow> 's \<Rightarrow> bool" where
  "records p kt s \<longleftrightarrow>
     map_option (\<lambda>f. (fs_failures f, fs_cooldownUntil f)) (failures s p) =
       (if fst kt = 0 then None else Some (fst kt, snd kt + min (base * 2 ^ (fst kt - 1)) limit))"

lemma records_step: "records p kt s \<Longrightarrow> records p (streak_step p kt e) (react e s)"
  by (cases e)
    (auto simp: records_def streak_step_def react_def failed cleared asked_keeps Let_def split: option.splits if_splits)

lemma records_history: "failures s p = None \<Longrightarrow> records p (streak p es) (foldl (\<lambda>s e. react e s) s es)"
proof (induction es rule: rev_induct)
  case Nil
  then show ?case by (simp add: records_def streak_def)
next
  case (snoc e es)
  from records_step [OF snoc.IH [OF snoc.prems], of e] show ?case by (simp add: streak_def)
qed

text \<open>Whatever happened, and whatever happened to other peers, a peer is passed over exactly while the
  specification leaves it alone.\<close>

lemma asked_exact:
  assumes "failures s p = None"
  shows "fst (asks now p (foldl (\<lambda>s e. react e s) s es)) \<longleftrightarrow> left_alone base limit now p es"
  using records_history [OF assms, of es]
  by (cases "streak p es") (auto simp: asked records_def left_alone_def split: if_splits)

lemma wait_limited: "left_alone base limit now p es \<Longrightarrow> now < snd (streak p es) + limit"
  by (auto simp: left_alone_def split: prod.splits)

end

section \<open>The two breakers\<close>

interpretation query_breaker: dial_breaker "\<lambda>R p. map_of (ro_failures R) p" record_manifest_query_failure
    record_manifest_query_success should_skip_manifest_query manifest_failure_base_cooldown_ms manifest_failure_max_cooldown_ms
  by unfold_locales
    (auto simp: record_manifest_query_failure_def record_manifest_query_success_def should_skip_manifest_query_def backoff_def
      Let_def map_of_alist_update delete_conv' split: option.splits)

interpretation dial_breaker_of_node: dial_breaker "\<lambda>N p. map_of (mn_failures N) p" record_manifest_dial_failure
    clear_manifest_dial_failure should_skip_manifest_dial manifest_dial_base_cooldown_ms manifest_dial_max_cooldown_ms
  by unfold_locales
    (auto simp: record_manifest_dial_failure_def clear_manifest_dial_failure_def should_skip_manifest_dial_def
      Let_def map_of_alist_update delete_conv' split: option.splits)

text \<open>The reactions, written out for the two components.\<close>

definition router_reacts :: "breaker_event \<Rightarrow> router \<Rightarrow> router" where
  "router_reacts e R =
     (case e of
        PeerFailed t p \<Rightarrow> record_manifest_query_failure t p R
      | PeerAnswered p \<Rightarrow> record_manifest_query_success p R
      | PeerAsked t p \<Rightarrow> snd (should_skip_manifest_query t p R))"

definition node_reacts :: "breaker_event \<Rightarrow> mesh_node \<Rightarrow> mesh_node" where
  "node_reacts e N =
     (case e of
        PeerFailed t p \<Rightarrow> record_manifest_dial_failure t p N
      | PeerAnswered p \<Rightarrow> clear_manifest_dial_failure p N
      | PeerAsked t p \<Rightarrow> snd (should_skip_manifest_dial t p N))"

text \<open>After any history of failures, answers and questions, for any peers in any order, the router passes a
  peer over exactly while 15 seconds, doubled with every failure in a row and at most five minutes, have not
  passed since the last failure, and the mesh node exactly while 10 seconds, doubled and at most two minutes,
  have not.\<close>

theorem breakers_exact:
  "(fst (should_skip_manifest_query now p (foldl (\<lambda>R e. router_reacts e R) (new_router listening) es)) \<longleftrightarrow>
      left_alone 15000 300000 now p es) \<and>
   (fst (should_skip_manifest_dial now p (foldl (\<lambda>N e. node_reacts e N) new_mesh_node es)) \<longleftrightarrow>
      left_alone 10000 120000 now p es)"
proof -
  have "query_breaker.react = router_reacts"
    by (intro ext) (simp add: query_breaker.react_def router_reacts_def)
  moreover have "dial_breaker_of_node.react = node_reacts"
    by (intro ext) (simp add: dial_breaker_of_node.react_def node_reacts_def)
  ultimately show ?thesis
    using query_breaker.asked_exact [of "new_router listening" p now es] dial_breaker_of_node.asked_exact [of new_mesh_node p now es]
    by (simp add: new_router_def new_mesh_node_def manifest_failure_base_cooldown_ms_def manifest_failure_max_cooldown_ms_def
        manifest_dial_base_cooldown_ms_def manifest_dial_max_cooldown_ms_def)
qed

end
