(* ===== verification/RpcWrappers.thy ===== *)
theory RpcWrappers
  imports Tls GrpcClaims Client
begin

text \<open>
  The wrappers around the gRPC library: \<open>rpc/client.ts\<close>, \<open>rpc/server.ts\<close>, the channel options of
  \<open>rpc/channel-options.ts\<close> and the choice of the protocol file in \<open>rpc/proto.ts\<close>. The library is a
  parameter: the callbacks a call gets, one entry of a list for each, and the streams. A promise is
  settled by the first of its callbacks.
\<close>

section \<open>Promises over callbacks\<close>

datatype ('e, 'r) promise = Unsettled | Fulfilled 'r | Refused 'e

text \<open>A callback of the library gets an error or nothing, and a result.\<close>

fun settle :: "('e option \<times> 'r) list \<Rightarrow> ('e, 'r) promise" where
  "settle [] = Unsettled"
| "settle ((Some e, r) # cbs) = Refused e"
| "settle ((None, r) # cbs) = Fulfilled r"

section \<open>Options and the protocol file\<close>

definition grpc_channel_options :: "(string \<times> int) list" where
  "grpc_channel_options =
     [(''grpc.keepalive_time_ms'', 30000), (''grpc.keepalive_timeout_ms'', 10000),
      (''grpc.keepalive_permit_without_calls'', 1), (''grpc.max_send_message_length'', -1),
      (''grpc.max_receive_message_length'', -1), (''grpc.enable_retries'', 1)]"

definition prod_paths :: "(string \<Rightarrow> string) \<Rightarrow> string list" where
  "prod_paths resolve = [resolve ''./protocol/liop_core.proto'', resolve ''../protocol/liop_core.proto'']"

definition dev_proto_path :: "(string \<Rightarrow> string) \<Rightarrow> string" where
  "dev_proto_path resolve = resolve ''../../../../protocol/proto/liop_core.proto''"

text \<open>The file that is loaded, with whether the log says that it is missing. \<open>resolve\<close> makes a path
  absolute from the directory of the module.\<close>

definition proto_path :: "(string \<Rightarrow> string) \<Rightarrow> (string \<Rightarrow> bool) \<Rightarrow> string \<times> bool" where
  "proto_path resolve present =
     (let p = (case find present (prod_paths resolve) of
                 Some p \<Rightarrow> if p = [] then dev_proto_path resolve else p
               | None \<Rightarrow> dev_proto_path resolve)
      in (p, \<not> present p))"

section \<open>The client\<close>

type_synonym metadata = "(string \<times> string) list"

record rpc_client =
  rl_address :: string
  rl_credentials :: channel_credentials
  rl_options :: "(string \<times> int) list"
  rl_token :: "string option"
  rl_closed :: bool

definition new_rpc_client ::
    "tls_env \<Rightarrow> string \<Rightarrow> tls_options option \<Rightarrow> string option \<Rightarrow> string + rpc_client" where
  "new_rpc_client T address tls token =
     bind_sum (create_channel_credentials T tls) (\<lambda>credentials.
       Inr \<lparr>rl_address = address, rl_credentials = credentials, rl_options = grpc_channel_options,
            rl_token = token, rl_closed = False\<rparr>)"

definition auth_metadata :: "string option \<Rightarrow> metadata" where
  "auth_metadata token =
     (case truthy_string token of None \<Rightarrow> [] | Some t \<Rightarrow> [(''authorization'', ''Bearer '' @ t)])"

text \<open>\<open>library\<close>: the callbacks that a unary call to an address gets.\<close>

definition rpc_negotiate_intent ::
    "(rpc_client \<Rightarrow> intent_request \<Rightarrow> metadata \<Rightarrow> ('e option \<times> intent_response option) list) \<Rightarrow> rpc_client
       \<Rightarrow> intent_request \<Rightarrow> ('e, intent_response option) promise" where
  "rpc_negotiate_intent library c request = settle (library c request (auth_metadata (rl_token c)))"

definition rpc_execute_logic ::
    "(rpc_client \<Rightarrow> logic_request \<Rightarrow> metadata \<Rightarrow> 's) \<Rightarrow> rpc_client \<Rightarrow> logic_request \<Rightarrow> 's" where
  "rpc_execute_logic library c request = library c request (auth_metadata (rl_token c))"

definition rpc_close :: "rpc_client \<Rightarrow> rpc_client" where
  "rpc_close c = c\<lparr>rl_closed := True\<rparr>"

section \<open>The server\<close>

text \<open>\<open>call.metadata.get("authorization")[0]\<close>.\<close>

fun authorization_header :: "metadata \<Rightarrow> string option" where
  "authorization_header [] = None"
| "authorization_header ((k, v) # md) = (if k = ''authorization'' then Some v else authorization_header md)"

record ('n, 'x) rpc_server =
  rs_options :: "(string \<times> int) list"
  rs_service :: "('n \<times> 'x) option"

definition new_rpc_server :: "('n, 'x) rpc_server" where
  "new_rpc_server = \<lparr>rs_options = grpc_channel_options, rs_service = None\<rparr>"

definition add_service :: "'n \<Rightarrow> 'x \<Rightarrow> ('n, 'x) rpc_server \<Rightarrow> ('n, 'x) rpc_server" where
  "add_service negotiateIntent executeLogic S = S\<lparr>rs_service := Some (negotiateIntent, executeLogic)\<rparr>"

text \<open>\<open>bindAsync\<close> is the library: the callbacks for an address and credentials. Credentials that cannot
  be made reject the promise, the function being asynchronous.\<close>

definition rpc_listen ::
    "tls_env \<Rightarrow> (string \<Rightarrow> server_credentials \<Rightarrow> (string option \<times> int) list) \<Rightarrow> int option \<Rightarrow> tls_options option
       \<Rightarrow> (string, int) promise" where
  "rpc_listen T bindAsync port tls =
     (case create_server_credentials T tls of
        Inl e \<Rightarrow> Refused e
      | Inr credentials \<Rightarrow> settle (bindAsync (''0.0.0.0:'' @ int_str (case port of None \<Rightarrow> 50051 | Some p \<Rightarrow> p)) credentials))"

text \<open>\<open>stop\<close>: the time limit of the shutdown, and how it ends.\<close>

definition stop_timeout :: int where "stop_timeout = 5000"

text \<open>The callbacks the handler of the server makes: one for an answer. Where the module that makes the
  keys fails, the promise that would have called back is rejected and there is none.\<close>

definition negotiate_callbacks ::
    "'f grpc_env \<Rightarrow> call_io \<Rightarrow> bool \<Rightarrow> metadata \<Rightarrow> intent_request \<Rightarrow> 'f grpc_state
       \<Rightarrow> (grpc_error option \<times> intent_response option) list" where
  "negotiate_callbacks E io keysMade md request S =
     (case fst (negotiate_intent E io (authorization_header md) request S) of
        Inl e \<Rightarrow> [(Some e, None)]
      | Inr r \<Rightarrow> if keysMade then [(None, Some r)] else [])"

section \<open>The token on its way\<close>

lemma header_of_auth: "authorization_header (auth_metadata token) = bearer token"
  by (simp add: auth_metadata_def bearer_def split: option.splits)

lemma bearer_token_bearer: "map_option bearer_token (bearer token) = truthy_string token"
  by (cases "truthy_string token") (simp_all add: bearer_def bearer_token_def)

lemma bearer_truthy: "truthy_string (bearer token) = bearer token"
  by (cases "truthy_string token") (simp_all add: bearer_def truthy_string_def)

text \<open>The server reads exactly the token the client was made with; an empty one and none are the same.\<close>

lemma token_survives:
  "map_option bearer_token (authorization_header (auth_metadata token)) = truthy_string token"
  by (simp add: header_of_auth bearer_token_bearer)

text \<open>What the client and the router of the model send is what the wrapper sends.\<close>

lemmas wrapped_header = header_of_auth

section \<open>Sessions over the wrappers\<close>

lemma authenticate_needs_token:
  assumes "ge_validator E \<noteq> None"
  shows "authenticate E io (authorization_header (auth_metadata token)) R =
    (case truthy_string token of
       None \<Rightarrow> (Inl (unauthenticated, ''Missing Authorization header in gRPC metadata''), R)
     | Some t \<Rightarrow>
         (let R' = load_revocation_list (ge_rev E) io R
          in if is_revoked (fst R') (token_hash (ge_worker E) t) then (Inl revoked_error, R')
             else (check_token E (the (ge_validator E)) t, R')))"
proof (cases "truthy_string token")
  case None
  then show ?thesis using assms by (auto simp: authenticate_def header_of_auth bearer_def truthy_string_def [of None])
next
  case (Some t)
  then have "bearer token = Some (''Bearer '' @ t)" "truthy_string (Some (''Bearer '' @ t)) = Some (''Bearer '' @ t)"
    "bearer_token (''Bearer '' @ t) = t"
    by (simp_all add: bearer_def truthy_string_def bearer_token_def)
  then show ?thesis using assms Some by (auto simp: authenticate_def header_of_auth Let_def simp del: append.simps)
qed

lemma check_token_hash: "check_token E validate t = Inr h \<Longrightarrow> h = Some (token_hash (ge_worker E) t)"
  by (auto simp: check_token_def split: option.splits sum.splits if_splits)

lemma authenticated_hash:
  assumes "ge_validator E \<noteq> None" and "authenticate E io (authorization_header (auth_metadata token)) R = (Inr h, R')"
  shows "\<exists>t. truthy_string token = Some t \<and> h = Some (token_hash (ge_worker E) t)"
  using assms(2) check_token_hash
  by (auto simp: authenticate_needs_token [OF assms(1)] Let_def split: option.splits if_splits)

text \<open>On a server that validates tokens a negotiation over the wrapper that is fulfilled had a token, and
  the session it opened is bound to the hash of exactly that token; one that is refused opened none.\<close>

lemma wrapped_negotiation_binds_token:
  assumes "ge_validator E \<noteq> None"
    and "negotiate_intent E io (authorization_header (auth_metadata token)) req S = (answer, S')"
  shows "case answer of
      Inr r \<Rightarrow> \<exists>t session. truthy_string token = Some t \<and> map_of (gs_sessions S') (ir_session_token r) = Some session \<and>
                 sn_tokenHash session = Some (token_hash (ge_worker E) t) \<and> sn_capability_hash session = iq_capability_hash req
    | Inl e \<Rightarrow> gs_sessions S' = gs_sessions S"
proof -
  obtain a R where Pair: "authenticate E (ci_rev io) (authorization_header (auth_metadata token)) (gs_revocation S) = (a, R)"
    by (metis prod.collapse)
  show ?thesis
  proof (cases a)
    case (Inl e)
    with Pair assms(2) show ?thesis by (auto simp: negotiate_intent_def)
  next
    case (Inr h)
    with authenticated_hash [OF assms(1)] Pair obtain t where
      "truthy_string token = Some t" "h = Some (token_hash (ge_worker E) t)" by metis
    with Pair Inr assms(2) show ?thesis by (auto simp: negotiate_intent_def Let_def)
  qed
qed

text \<open>The promise of the client over the handler of the server: settled with the answer of the service,
  and settled at all exactly when the server refuses or its keys were made.\<close>

lemma wrapped_negotiation:
  "rpc_negotiate_intent (\<lambda>c r md. negotiate_callbacks E io keysMade md r S) c req =
     (case fst (negotiate_intent E io (bearer (rl_token c)) req S) of
        Inl e \<Rightarrow> Refused e
      | Inr r \<Rightarrow> if keysMade then Fulfilled (Some r) else Unsettled)"
  by (simp add: rpc_negotiate_intent_def negotiate_callbacks_def header_of_auth split: sum.splits)

lemma negotiation_left_unsettled:
  assumes "fst (negotiate_intent E io (bearer (rl_token c)) req S) = Inr r"
  shows "rpc_negotiate_intent (\<lambda>c r md. negotiate_callbacks E io False md r S) c req = Unsettled"
  by (simp add: wrapped_negotiation assms)

text \<open>Callbacks after the first change nothing.\<close>

lemma settle_once: "cbs \<noteq> [] \<Longrightarrow> settle (cbs @ later) = settle cbs"
  by (induction cbs rule: settle.induct) simp_all

text \<open>With TLS enforced a server is only ever bound with a certificate, and a channel only opened with one.\<close>

lemma listen_enforced:
  assumes "is_tls_enforced T"
  shows "rpc_listen T bindAsync port tls = rpc_listen T (\<lambda>a c. if c = InsecureServer then [] else bindAsync a c) port tls"
  using assms enforced_server_secure [OF assms] by (auto simp: rpc_listen_def split: sum.splits)

lemma new_client_enforced:
  assumes "is_tls_enforced T" and "new_rpc_client T address tls token = Inr c"
  shows "rl_credentials c \<noteq> InsecureChannel"
  using assms enforced_channel_secure [OF assms(1)] by (auto simp: new_rpc_client_def bind_sum_Inr)

end
