(* ===== verification/SandboxLife.thy ===== *)
theory SandboxLife
  imports Sandbox GrpcService
begin

text \<open>
  What surrounds an execution in \<open>sandbox/wasi.ts\<close>: the filter for warnings that the module puts
  before \<open>process.emit\<close>, the directory and the files of a sandbox from \<open>init\<close> to \<open>teardown\<close> with every
  failure in between, the bracket the worker puts around them, \<open>deepFreeze\<close> on a store of objects, and
  the locking of the globals.
\<close>

section \<open>The filter of warnings\<close>

text \<open>What the replaced \<open>process.emit\<close> does with an event: it throws, drops it or passes it on.\<close>

datatype emission = EmitThrows | Dropped | PassedOn

definition message_text :: "(real \<Rightarrow> string) \<Rightarrow> jsval \<Rightarrow> string" where
  "message_text num data = js_string num (prop_of data ''message'')"

definition emit_filter :: "(real \<Rightarrow> string) \<Rightarrow> string \<Rightarrow> jsval \<Rightarrow> emission" where
  "emit_filter num name data =
     (if data = JUndef \<or> data = JNull then EmitThrows
      else if (name = ''warning'' \<and> is_object data \<and> prop_of data ''name'' = JStr ''ExperimentalWarning'' \<and>
               js_includes (message_text num data) ''WASI'') \<or>
              js_includes (message_text num data) ''importing WASI''
           then Dropped
      else PassedOn)"

text \<open>The event decides only the first alternative: an event without data throws, and any event whose data
  speaks of importing WASI is dropped.\<close>

lemma emit_without_data: "emit_filter num name JUndef = EmitThrows" "emit_filter num name JNull = EmitThrows"
  by (simp_all add: emit_filter_def)

lemma emit_drops_any_event:
  assumes "js_includes (message_text num data) ''importing WASI''" and "is_object data"
  shows "emit_filter num name data = Dropped"
  using assms by (cases data) (simp_all add: emit_filter_def)

lemma unrelated_warning_passes:
  assumes "is_object data" and "\<not> js_includes (message_text num data) ''WASI''"
    and "\<not> js_includes (message_text num data) ''importing WASI''"
  shows "emit_filter num name data = PassedOn"
  using assms by (cases data) (simp_all add: emit_filter_def)

section \<open>The files of a sandbox\<close>

datatype handle = NoHandle | OpenHandle | ClosedHandle

record sandbox_files =
  sf_dir :: bool
  sf_stdout :: handle
  sf_stderr :: handle

definition working_dir :: "string \<Rightarrow> string \<Rightarrow> string" where
  "working_dir tmpdir sandboxId = js_join ''/'' [tmpdir, ''liop-mesh'', ''sandboxes'', sandboxId]"

definition new_sandbox :: sandbox_files where
  "new_sandbox = \<lparr>sf_dir = False, sf_stdout = NoHandle, sf_stderr = NoHandle\<rparr>"

text \<open>The faults of the operations of \<open>init\<close>: the message of each one that fails.\<close>

record init_faults =
  if_mkdir :: "string option"
  if_stdout :: "string option"
  if_stderr :: "string option"
  if_wasi :: "string option"

definition init_error :: "string \<Rightarrow> string" where
  "init_error e = ''Sandbox Initialization Failed: '' @ e"

definition sandbox_init :: "init_faults \<Rightarrow> sandbox_files \<Rightarrow> string option \<times> sandbox_files" where
  "sandbox_init f S =
     (case if_mkdir f of Some e \<Rightarrow> (Some (init_error e), S)
      | None \<Rightarrow>
          (let S1 = S\<lparr>sf_dir := True\<rparr> in
           case if_stdout f of Some e \<Rightarrow> (Some (init_error e), S1)
           | None \<Rightarrow>
               (let S2 = S1\<lparr>sf_stdout := OpenHandle\<rparr> in
                case if_stderr f of Some e \<Rightarrow> (Some (init_error e), S2)
                | None \<Rightarrow>
                    (let S3 = S2\<lparr>sf_stderr := OpenHandle\<rparr> in
                     case if_wasi f of Some e \<Rightarrow> (Some (init_error e), S3) | None \<Rightarrow> (None, S3)))))"

text \<open>\<open>teardown\<close>: the first operation that fails ends it, silently. Each flag says whether one fails.\<close>

record teardown_faults =
  tf_stdout :: bool
  tf_stderr :: bool
  tf_rm :: bool

definition close_handle :: "handle \<Rightarrow> handle" where
  "close_handle h = (if h = NoHandle then NoHandle else ClosedHandle)"

definition sandbox_teardown :: "teardown_faults \<Rightarrow> sandbox_files \<Rightarrow> sandbox_files" where
  "sandbox_teardown f S =
     (if sf_stdout S \<noteq> NoHandle \<and> tf_stdout f then S
      else let S1 = S\<lparr>sf_stdout := close_handle (sf_stdout S)\<rparr> in
           if sf_stderr S1 \<noteq> NoHandle \<and> tf_stderr f then S1
           else let S2 = S1\<lparr>sf_stderr := close_handle (sf_stderr S1)\<rparr> in
                if tf_rm f then S2 else S2\<lparr>sf_dir := False\<rparr>)"

text \<open>The bracket of the worker: the result of the body, or the error of \<open>init\<close>; \<open>teardown\<close> runs only
  where \<open>init\<close> succeeded.\<close>

definition in_sandbox ::
    "init_faults \<Rightarrow> teardown_faults \<Rightarrow> (string + 'a) \<Rightarrow> (string + 'a) \<times> sandbox_files" where
  "in_sandbox f g body =
     (case sandbox_init f new_sandbox of
        (Some e, S) \<Rightarrow> (Inl e, S)
      | (None, S) \<Rightarrow> (body, sandbox_teardown g S))"

definition released :: "sandbox_files \<Rightarrow> bool" where
  "released S \<longleftrightarrow> \<not> sf_dir S \<and> sf_stdout S \<noteq> OpenHandle \<and> sf_stderr S \<noteq> OpenHandle"

definition no_init_faults :: init_faults where
  "no_init_faults = \<lparr>if_mkdir = None, if_stdout = None, if_stderr = None, if_wasi = None\<rparr>"

lemma init_ok_iff: "fst (sandbox_init f S) = None \<longleftrightarrow> f = no_init_faults"
  by (cases f) (auto simp: sandbox_init_def no_init_faults_def Let_def split: option.splits)

lemma init_files: "snd (sandbox_init no_init_faults S) = \<lparr>sf_dir = True, sf_stdout = OpenHandle, sf_stderr = OpenHandle\<rparr>"
  by (simp add: sandbox_init_def no_init_faults_def Let_def)

text \<open>The worker leaves nothing behind exactly when no operation of the teardown fails and either the
  whole \<open>init\<close> succeeded or already its first operation failed.\<close>

lemma worker_releases_iff:
  "released (snd (in_sandbox f g body)) \<longleftrightarrow>
     (if f = no_init_faults then \<not> tf_stdout g \<and> \<not> tf_stderr g \<and> \<not> tf_rm g else if_mkdir f \<noteq> None)"
proof (cases "f = no_init_faults")
  case True
  then show ?thesis
    by (simp add: in_sandbox_def sandbox_init_def no_init_faults_def sandbox_teardown_def released_def close_handle_def new_sandbox_def Let_def)
next
  case False
  then obtain e S where i: "sandbox_init f new_sandbox = (Some e, S)"
    by (metis init_ok_iff not_None_eq prod.collapse)
  then have "released S \<longleftrightarrow> if_mkdir f \<noteq> None"
    by (auto simp: sandbox_init_def released_def new_sandbox_def Let_def split: option.splits)
  with False i show ?thesis by (simp add: in_sandbox_def)
qed

text \<open>A failure to open the second file leaves the directory and the first file.\<close>

lemma failed_init_leaks:
  assumes "if_mkdir f = None" and "if_stdout f = None" and "if_stderr f = Some e"
  shows "in_sandbox f g body = (Inl (init_error e), \<lparr>sf_dir = True, sf_stdout = OpenHandle, sf_stderr = NoHandle\<rparr>)"
  using assms by (simp add: in_sandbox_def sandbox_init_def new_sandbox_def Let_def)

text \<open>A second teardown changes nothing that the first one finished.\<close>

lemma teardown_twice:
  assumes "\<not> tf_stdout f" and "\<not> tf_stderr f" and "\<not> tf_rm f"
  shows "sandbox_teardown f (sandbox_teardown f S) = sandbox_teardown f S"
  using assms by (simp add: sandbox_teardown_def close_handle_def Let_def)

section \<open>Deep freezing\<close>

text \<open>Objects live at addresses, so that values may be shared and cyclic.\<close>

datatype hval = Prim jsval | Ref nat

record hobj =
  ho_frozen :: bool
  ho_fields :: "(string \<times> hval) list"

type_synonym hstore = "nat \<Rightarrow> hobj option"

text \<open>The loop over the keys of an object.\<close>

fun freeze_all :: "(hval \<Rightarrow> hstore \<Rightarrow> hstore option) \<Rightarrow> hval list \<Rightarrow> hstore \<Rightarrow> hstore option" where
  "freeze_all f [] h = Some h"
| "freeze_all f (v # vs) h = (case f v h of None \<Rightarrow> None | Some h' \<Rightarrow> freeze_all f vs h')"

text \<open>\<open>deepFreeze\<close>; \<open>None\<close>: the fuel ran out.\<close>

fun deep_freeze :: "nat \<Rightarrow> hval \<Rightarrow> hstore \<Rightarrow> hstore option" where
  "deep_freeze 0 v h = None"
| "deep_freeze (Suc n) v h =
     (case v of
        Prim p \<Rightarrow> Some h
      | Ref a \<Rightarrow>
          (case h a of
             None \<Rightarrow> Some h
           | Some ob \<Rightarrow>
               if ho_frozen ob then Some h
               else freeze_all (deep_freeze n) (map snd (ho_fields ob)) (h(a \<mapsto> ob\<lparr>ho_frozen := True\<rparr>))))"

definition unfrozen :: "hstore \<Rightarrow> nat set" where
  "unfrozen h = {a. \<exists>ob. h a = Some ob \<and> \<not> ho_frozen ob}"

definition is_frozen :: "hstore \<Rightarrow> hval \<Rightarrow> bool" where
  "is_frozen h v = (case v of Prim p \<Rightarrow> True | Ref a \<Rightarrow> a \<notin> unfrozen h)"

text \<open>Freezing changes nothing else, and never undoes itself.\<close>

definition frozen_more :: "hstore \<Rightarrow> hstore \<Rightarrow> bool" where
  "frozen_more h h' \<longleftrightarrow>
     (\<forall>a. map_option ho_fields (h' a) = map_option ho_fields (h a)) \<and> unfrozen h' \<subseteq> unfrozen h"

text \<open>What was frozen on the way has only frozen objects directly inside.\<close>

definition freeze_closed :: "hstore \<Rightarrow> hstore \<Rightarrow> bool" where
  "freeze_closed h h' \<longleftrightarrow>
     (\<forall>a ob w. a \<in> unfrozen h - unfrozen h' \<longrightarrow> h a = Some ob \<longrightarrow> w \<in> snd ` set (ho_fields ob) \<longrightarrow> is_frozen h' w)"

lemma frozen_more_refl [simp]: "frozen_more h h"
  by (simp add: frozen_more_def)

lemma frozen_more_trans: "frozen_more h h' \<Longrightarrow> frozen_more h' h'' \<Longrightarrow> frozen_more h h''"
  by (auto simp: frozen_more_def)

lemma is_frozen_mono: "is_frozen h v \<Longrightarrow> frozen_more h h' \<Longrightarrow> is_frozen h' v"
  by (auto simp: is_frozen_def frozen_more_def split: hval.splits)

lemma frozen_more_fields: "frozen_more h h' \<Longrightarrow> h a = Some ob \<Longrightarrow> \<exists>ob'. h' a = Some ob' \<and> ho_fields ob' = ho_fields ob"
  unfolding frozen_more_def by (metis map_option_eq_Some option.simps(9))

lemma unfrozen_upd: "h a = Some ob \<Longrightarrow> unfrozen (h(a \<mapsto> ob\<lparr>ho_frozen := True\<rparr>)) = unfrozen h - {a}"
  by (auto simp: unfrozen_def)

lemma frozen_more_upd: "h a = Some ob \<Longrightarrow> frozen_more h (h(a \<mapsto> ob\<lparr>ho_frozen := True\<rparr>))"
  using unfrozen_upd by (auto simp: frozen_more_def)

lemma freeze_closed_trans:
  assumes "freeze_closed h h'" and "freeze_closed h' h''" and "frozen_more h h'" and "frozen_more h' h''"
  shows "freeze_closed h h''"
  unfolding freeze_closed_def
proof (intro allI impI)
  fix a ob w
  assume a: "a \<in> unfrozen h - unfrozen h''" and ob: "h a = Some ob" and w: "w \<in> snd ` set (ho_fields ob)"
  obtain ob' where ob': "h' a = Some ob'" "ho_fields ob' = ho_fields ob" using frozen_more_fields [OF assms(3) ob] by blast
  show "is_frozen h'' w"
  proof (cases "a \<in> unfrozen h'")
    case True
    with assms(2) a ob' w show ?thesis unfolding freeze_closed_def by (metis DiffE DiffI)
  next
    case False
    with assms(1) a ob w have "is_frozen h' w" unfolding freeze_closed_def by (metis DiffE DiffI)
    then show ?thesis using assms(4) by (rule is_frozen_mono)
  qed
qed

definition freezes :: "hval set \<Rightarrow> hstore \<Rightarrow> hstore \<Rightarrow> bool" where
  "freezes vs h h' \<longleftrightarrow> frozen_more h h' \<and> freeze_closed h h' \<and> (\<forall>v\<in>vs. is_frozen h' v)"

lemma freeze_all_freezes:
  assumes "\<And>v h h'. f v h = Some h' \<Longrightarrow> freezes {v} h h'"
  shows "freeze_all f vs h = Some h' \<Longrightarrow> freezes (set vs) h h'"
proof (induction vs arbitrary: h)
  case Nil
  then show ?case by (simp add: freezes_def freeze_closed_def)
next
  case (Cons v vs)
  then obtain h1 where 1: "f v h = Some h1" "freeze_all f vs h1 = Some h'" by (auto split: option.splits)
  from assms [OF 1(1)] Cons.IH [OF 1(2)] show ?case
    by (auto simp: freezes_def intro: frozen_more_trans freeze_closed_trans is_frozen_mono)
qed

lemma deep_freeze_freezes: "deep_freeze n v h = Some h' \<Longrightarrow> freezes {v} h h'"
proof (induction n arbitrary: v h h')
  case (Suc n)
  show ?case
  proof (cases "\<exists>a ob. v = Ref a \<and> h a = Some ob \<and> \<not> ho_frozen ob")
    case False
    with Suc.prems have "h' = h" and "is_frozen h v"
      by (auto simp: is_frozen_def unfrozen_def split: hval.splits option.splits if_splits)
    then show ?thesis by (simp add: freezes_def freeze_closed_def)
  next
    case True
    then obtain a ob where v: "v = Ref a" "h a = Some ob" "\<not> ho_frozen ob" by blast
    let ?h = "h(a \<mapsto> ob\<lparr>ho_frozen := True\<rparr>)"
    from Suc.prems v have "freeze_all (deep_freeze n) (map snd (ho_fields ob)) ?h = Some h'" by simp
    from freeze_all_freezes [OF Suc.IH this]
    have f: "frozen_more ?h h'" "freeze_closed ?h h'" "\<forall>w\<in>snd ` set (ho_fields ob). is_frozen h' w"
      by (simp_all add: freezes_def)
    have u: "unfrozen ?h = unfrozen h - {a}" and m: "frozen_more h ?h"
      using v unfrozen_upd frozen_more_upd by simp_all
    have "freeze_closed h h'"
      unfolding freeze_closed_def
    proof (intro allI impI)
      fix b ob' w
      assume b: "b \<in> unfrozen h - unfrozen h'" "h b = Some ob'" "w \<in> snd ` set (ho_fields ob')"
      show "is_frozen h' w"
      proof (cases "b = a")
        case True
        with b(2) v(2) have "ob' = ob" by simp
        with b(3) f(3) show ?thesis by blast
      next
        case False
        with b u have "b \<in> unfrozen ?h - unfrozen h'" "?h b = Some ob'" by simp_all
        with b f(2) show ?thesis unfolding freeze_closed_def by blast
      qed
    qed
    moreover have "is_frozen h' v" using f(1) u v by (auto simp: is_frozen_def frozen_more_def)
    ultimately show ?thesis using frozen_more_trans [OF m f(1)] by (simp add: freezes_def)
  qed
qed simp

text \<open>It ends on every store, cycles included: as many objects as are not frozen yet bound its depth.\<close>

lemma freeze_all_total:
  assumes "\<And>v h'. unfrozen h' \<subseteq> unfrozen h \<Longrightarrow> \<exists>h''. f v h' = Some h'' \<and> unfrozen h'' \<subseteq> unfrozen h'"
    and "unfrozen h0 \<subseteq> unfrozen h"
  shows "\<exists>h'. freeze_all f vs h0 = Some h'"
  using assms(2)
proof (induction vs arbitrary: h0)
  case (Cons v vs)
  from assms(1) [OF Cons.prems] obtain h1 where "f v h0 = Some h1" "unfrozen h1 \<subseteq> unfrozen h0" by blast
  with Cons show ?case by auto
qed simp

lemma deep_freeze_total: "finite (unfrozen h) \<Longrightarrow> card (unfrozen h) < n \<Longrightarrow> \<exists>h'. deep_freeze n v h = Some h'"
proof (induction n arbitrary: v h)
  case (Suc n)
  show ?case
  proof (cases "\<exists>a ob. v = Ref a \<and> h a = Some ob \<and> \<not> ho_frozen ob")
    case False
    then show ?thesis by (auto split: hval.splits option.splits)
  next
    case True
    then obtain a ob where v: "v = Ref a" "h a = Some ob" "\<not> ho_frozen ob" by blast
    let ?h = "h(a \<mapsto> ob\<lparr>ho_frozen := True\<rparr>)"
    have u: "unfrozen ?h = unfrozen h - {a}" and a: "a \<in> unfrozen h"
      using v unfrozen_upd by (auto simp: unfrozen_def)
    have less: "finite (unfrozen ?h)" "card (unfrozen ?h) < n"
      using Suc.prems u a by (simp_all add: card_Diff_singleton) (metis card_gt_0_iff empty_iff less_imp_diff_less less_SucE Suc_pred diff_less zero_less_one)
    have "\<exists>h''. deep_freeze n w h' = Some h'' \<and> unfrozen h'' \<subseteq> unfrozen h'" if "unfrozen h' \<subseteq> unfrozen ?h" for w h'
    proof -
      from that less have "finite (unfrozen h')" "card (unfrozen h') < n"
        using finite_subset card_mono order_le_less_trans by metis+
      from Suc.IH [OF this] obtain h'' where "deep_freeze n w h' = Some h''" by blast
      with deep_freeze_freezes [OF this] show ?thesis by (auto simp: freezes_def frozen_more_def)
    qed
    from freeze_all_total [of ?h "deep_freeze n", OF this order_refl] v show ?thesis by simp
  qed
qed simp

text \<open>The objects that a value leads to.\<close>

inductive leads_to :: "hstore \<Rightarrow> hval \<Rightarrow> hval \<Rightarrow> bool" for h v where
  itself: "leads_to h v v"
| inside: "leads_to h v (Ref a) \<Longrightarrow> h a = Some ob \<Longrightarrow> w \<in> snd ` set (ho_fields ob) \<Longrightarrow> leads_to h v w"

text \<open>On a store where nothing is frozen, as after \<open>JSON.parse\<close>, \<open>deepFreeze\<close> ends and freezes everything the
  value leads to, sharing and cycles included.\<close>

lemma deep_freeze_complete:
  assumes "finite (dom h)" and "unfrozen h = dom h" and "card (dom h) < n"
  shows "\<exists>h'. deep_freeze n v h = Some h' \<and> (\<forall>w. leads_to h v w \<longrightarrow> is_frozen h' w) \<and>
     (\<forall>a. map_option ho_fields (h' a) = map_option ho_fields (h a))"
proof -
  obtain h' where h': "deep_freeze n v h = Some h'" using deep_freeze_total assms by metis
  from deep_freeze_freezes [OF h'] have f: "frozen_more h h'" "freeze_closed h h'" "is_frozen h' v"
    by (simp_all add: freezes_def)
  have "is_frozen h' w" if "leads_to h v w" for w
    using that
  proof (induction rule: leads_to.induct)
    case itself
    show ?case by (rule f(3))
  next
    case (inside a ob w)
    then have "a \<in> unfrozen h - unfrozen h'" using assms(2) by (auto simp: is_frozen_def)
    with f(2) inside show ?case unfolding freeze_closed_def by blast
  qed
  with h' f(1) show ?thesis by (auto simp: frozen_more_def)
qed

text \<open>An object that was frozen already hides what is inside it.\<close>

definition shallow_store :: hstore where
  "shallow_store = [0 \<mapsto> \<lparr>ho_frozen = True, ho_fields = [(''inner'', Ref 1)]\<rparr>, 1 \<mapsto> \<lparr>ho_frozen = False, ho_fields = []\<rparr>]"

lemma frozen_objects_hide: "deep_freeze (Suc n) (Ref 0) shallow_store = Some shallow_store \<and> \<not> is_frozen shallow_store (Ref 1)"
  by (simp add: shallow_store_def is_frozen_def unfrozen_def)

section \<open>The globals\<close>

text \<open>A property of the context with whether it can be written and configured.\<close>

record global =
  gl_value :: jsval
  gl_writable :: bool
  gl_configurable :: bool

definition lock_globals :: "(string \<times> global) list \<Rightarrow> (string \<times> global) list" where
  "lock_globals g = map (\<lambda>(k, x). (k, x\<lparr>gl_writable := False, gl_configurable := False\<rparr>)) g"

text \<open>An assignment to a global; the context stays extensible.\<close>

definition assign_global :: "string \<Rightarrow> jsval \<Rightarrow> (string \<times> global) list \<Rightarrow> (string \<times> global) list" where
  "assign_global k v g =
     (case map_of g k of
        None \<Rightarrow> g @ [(k, \<lparr>gl_value = v, gl_writable = True, gl_configurable = True\<rparr>)]
      | Some x \<Rightarrow> if gl_writable x then AList.update k (x\<lparr>gl_value := v\<rparr>) g else g)"

lemma map_of_locked: "map_of (lock_globals g) k = map_option (\<lambda>x. x\<lparr>gl_writable := False, gl_configurable := False\<rparr>) (map_of g k)"
  by (induction g) (auto simp: lock_globals_def)

text \<open>The poisoned names and the data stay what they are, whatever is assigned.\<close>

lemma locked_globals_keep:
  assumes "map_of g k = Some x"
  shows "map_option gl_value (map_of (assign_global k' v (lock_globals g)) k) = Some (gl_value x)"
proof (cases "map_of (lock_globals g) k'")
  case None
  then show ?thesis using assms by (simp add: assign_global_def map_of_locked map_add_def)
next
  case (Some y)
  then show ?thesis using assms by (auto simp: assign_global_def map_of_locked)
qed

text \<open>A new name can still be added.\<close>

lemma locked_globals_extensible:
  assumes "map_of g k = None"
  shows "map_option gl_value (map_of (assign_global k v (lock_globals g)) k) = Some v"
  using assms by (simp add: assign_global_def map_of_locked map_add_def)

end
