(* ===== verification/Envelope.thy ===== *)
theory Envelope
  imports GrpcClaims
begin

text \<open>
  The envelope \<open>@LIOP{target,name} ... @END\<close> is read in two places with two expressions:
  \<open>extractLogic\<close> of \<open>server/index.ts\<close> gives the logic the preflight analyses, \<open>normalizeLogicSource\<close> of
  \<open>crypto/logic-image-id.ts\<close> the logic the worker runs and the image identifier names. This theory says
  on which payloads the two agree, and which payloads they tell apart.
\<close>

section \<open>The preferred match\<close>

text \<open>Where the matcher gets first.\<close>

definition first_match :: "re \<Rightarrow> pos \<Rightarrow> pos \<Rightarrow> bool" where
  "first_match r p q \<longleftrightarrow> (\<exists>qs. re_match r p = q # qs)"

named_theorems first_match_intros \<open>how the preferred match is composed\<close>

lemma first_match_Cat [first_match_intros]: "first_match r p q \<Longrightarrow> first_match s q t \<Longrightarrow> first_match (Cat r s) p t"
  by (auto simp: first_match_def)

lemma first_match_cats2 [first_match_intros]:
  "first_match r p q \<Longrightarrow> first_match (cats (s # rs)) q t \<Longrightarrow> first_match (cats (r # s # rs)) p t"
  by (simp add: first_match_Cat)

lemma first_match_cats1 [first_match_intros]: "first_match r p q \<Longrightarrow> first_match (cats [r]) p q"
  by simp

lemma first_match_lit [first_match_intros]: "first_match (lit s) (b, s @ a) (rev s @ b, a)"
  by (simp add: first_match_def re_match_lit)

lemma first_match_chr [first_match_intros]: "first_match (chr c) (b, c # a) (c # b, a)"
  by (simp add: first_match_def chr_def)

lemma first_match_start [first_match_intros]: "first_match AtStart ([], a) ([], a)"
  by (simp add: first_match_def)

lemma first_match_end [first_match_intros]: "first_match AtEnd (b, []) (b, [])"
  by (simp add: first_match_def)

lemma first_match_opt [first_match_intros]:
  assumes "first_match r p q" and "length (snd q) < length (snd p)"
  shows "first_match (opt r) p q"
proof -
  obtain qs where "re_match r p = q # qs" using assms(1) by (auto simp: first_match_def)
  with assms(2) show ?thesis by (simp add: first_match_def opt_def advances_def)
qed

lemma greedy_run:
  assumes "\<forall>c\<in>set u. P c" and "a = [] \<or> \<not> P (hd a)" and "length u \<le> n"
  shows "\<exists>ps. rep_upto True (step_char P) n (b, u @ a) = (rev u @ b, a) # ps"
  using assms
proof (induction n arbitrary: b u)
  case 0
  then show ?case by simp
next
  case (Suc n)
  show ?case
  proof (cases u)
    case Nil
    with Suc.prems(2) have "step_char P (b, a) = []" by (cases a) auto
    with Nil show ?thesis by simp
  next
    case (Cons c u')
    with Suc.prems have "P c" and "\<exists>ps. rep_upto True (step_char P) n (c # b, u' @ a) = (rev u' @ c # b, a) # ps"
      using Suc.IH [of u' "c # b"] by auto
    with Cons show ?thesis by (auto simp: advances_def)
  qed
qed

lemma first_match_star:
  assumes "\<forall>c\<in>set u. P c" and "a = [] \<or> \<not> P (hd a)"
  shows "first_match (star (Pred P)) (b, u @ a) (rev u @ b, a)"
  using greedy_run [OF assms, of "length u + length a" b] by (auto simp: first_match_def star_def)

lemma first_match_plus:
  assumes "\<forall>c\<in>set u. P c" and "a = [] \<or> \<not> P (hd a)" and "u \<noteq> []"
  shows "first_match (plus (Pred P)) (b, u @ a) (rev u @ b, a)"
proof -
  obtain c u' where u: "u = c # u'" using assms(3) by (cases u) auto
  with assms have "\<exists>ps. rep_upto True (step_char P) (length u' + length a) (c # b, u' @ a) = (rev u' @ c # b, a) # ps"
    by (intro greedy_run) auto
  with u assms(1) show ?thesis by (auto simp: first_match_def plus_def)
qed

text \<open>A lazy run of any characters stops everywhere, the nearest place first.\<close>

lemma lazy_run:
  "re_match (Rep False 0 None (Pred (\<lambda>c. True))) (b, a) = map (\<lambda>i. (rev (take i a) @ b, drop i a)) [0..<Suc (length a)]"
proof -
  have "rep_upto False (step_char (\<lambda>c. True)) (length a) (b, a) = map (\<lambda>i. (rev (take i a) @ b, drop i a)) [0..<Suc (length a)]"
  proof (induction a arbitrary: b)
    case (Cons c a)
    have "[0..<Suc (length (c # a))] = 0 # map Suc [0..<Suc (length a)]"
      by (metis map_Suc_upt upt_rec zero_less_Suc length_Cons)
    with Cons show ?case by (simp add: advances_def comp_def)
  qed simp
  then show ?thesis by simp
qed

lemma find_first:
  assumes "P (f k)" and "k < n" and "\<And>i. i < k \<Longrightarrow> \<not> P (f i)"
  shows "find P (map f [0..<n]) = Some (f k)"
  using assms by (auto simp: find_Some_iff intro!: exI [of _ k])

lemma filter_of_find: "find P xs = Some x \<Longrightarrow> \<exists>ys. filter P xs = x # ys"
  by (induction xs) (auto split: if_splits)

section \<open>Lines that end an envelope\<close>

definition line_break :: "char \<Rightarrow> bool" where
  "line_break c \<longleftrightarrow> c = CHR 0x0D \<or> c = CHR 0x0A"

text \<open>A text with no \<open>@END\<close> at the start of a line.\<close>

definition no_end_line :: "string \<Rightarrow> bool" where
  "no_end_line s \<longleftrightarrow> (\<forall>x c y. s = x @ c # ''@END'' @ y \<longrightarrow> \<not> line_break c)"

lemma tail_matches_iff:
  "re_match envelope_tail (b, s) \<noteq> [] \<longleftrightarrow> (\<exists>u y. s = u @ ''@END'' @ y \<and> u \<noteq> [] \<and> (\<forall>c\<in>set u. line_break c))"
proof
  assume "re_match envelope_tail (b, s) \<noteq> []"
  then obtain t where t: "t \<in> set (re_match newline_re (b, s))" "re_match (lit ''@END'') t \<noteq> []"
    by (auto simp: envelope_tail_def)
  have run: "\<exists>u. snd p = u @ snd q \<and> (\<forall>c\<in>set u. line_break c)" if "q \<in> set (rep_upto True (step_char (\<lambda>c. c = CHR 0x0D \<or> c = CHR 0x0A)) n p)" for n p q
    using that
  proof (induction n arbitrary: p)
    case (Suc n)
    show ?case
    proof (cases "q = p")
      case True
      then show ?thesis by (intro exI [of _ "[]"]) simp
    next
      case False
      with Suc.prems obtain p' where p': "p' \<in> set (step_char (\<lambda>c. c = CHR 0x0D \<or> c = CHR 0x0A) p)"
        "q \<in> set (rep_upto True (step_char (\<lambda>c. c = CHR 0x0D \<or> c = CHR 0x0A)) n p')" by (auto simp: Let_def)
      obtain pb pa where p: "p = (pb, pa)" by (cases p)
      from p'(1) p obtain c r where c: "pa = c # r" "p' = (c # pb, r)" "line_break c"
        by (cases pa) (auto simp: line_break_def split: if_splits)
      from Suc.IH [OF p'(2)] c obtain u where "r = u @ snd q" "\<forall>c\<in>set u. line_break c" by auto
      with c p show ?thesis by (intro exI [of _ "c # u"]) simp
    qed
  qed simp
  from t(1) obtain c r where c: "s = c # r" "line_break c"
    and q: "t \<in> set (rep_upto True (step_char (\<lambda>c. c = CHR 0x0D \<or> c = CHR 0x0A)) (length r) (c # b, r))"
    by (cases s) (auto simp: newline_re_def plus_def line_break_def split: if_splits)
  from run [OF q] obtain u where u: "r = u @ snd t" "\<forall>c\<in>set u. line_break c" by auto
  from t(2) obtain y where "snd t = ''@END'' @ y"
    by (cases t) (auto simp: re_match_lit starts_with_iff split: if_splits)
  with c u show "\<exists>u y. s = u @ ''@END'' @ y \<and> u \<noteq> [] \<and> (\<forall>c\<in>set u. line_break c)"
    by (intro exI [of _ "c # u"] exI [of _ y]) simp
next
  assume "\<exists>u y. s = u @ ''@END'' @ y \<and> u \<noteq> [] \<and> (\<forall>c\<in>set u. line_break c)"
  then obtain u y where s: "s = u @ ''@END'' @ y" "u \<noteq> []" "\<forall>c\<in>set u. line_break c" by blast
  have "first_match newline_re (b, u @ ''@END'' @ y) (rev u @ b, ''@END'' @ y)"
    unfolding newline_re_def using s by (intro first_match_plus) (auto simp: line_break_def)
  then have "first_match envelope_tail (b, s) (rev ''@END'' @ rev u @ b, y)"
    unfolding envelope_tail_def s(1) by (rule first_match_Cat) (rule first_match_lit)
  then show "re_match envelope_tail (b, s) \<noteq> []" by (auto simp: first_match_def)
qed

definition pack :: "string \<Rightarrow> string \<Rightarrow> string \<Rightarrow> string" where
  "pack target name body = ''@LIOP{'' @ target @ '','' @ name @ ''}'' @ [CHR 0x0A] @ body @ [CHR 0x0A] @ ''@END''"

text \<open>What packs: a target and a name that do not end the head, and a trimmed body without a line that
  starts with the closing mark.\<close>

definition packable :: "string \<Rightarrow> string \<Rightarrow> string \<Rightarrow> bool" where
  "packable target name body \<longleftrightarrow>
     target \<noteq> [] \<and> CHR '','' \<notin> set target \<and> CHR ''}'' \<notin> set target \<and> CHR ''}'' \<notin> set name \<and>
     body \<noteq> [] \<and> js_trim body = body \<and> no_end_line body"

lemma trimmed_ends:
  assumes "js_trim s = s" and "s \<noteq> []"
  shows "\<not> is_space (hd s)" and "\<not> is_space (last s)"
proof -
  show "\<not> is_space (hd s)" using js_trim_no_space [of s "hd s" "tl s"] assms by simp
  have "trim_end (trim_start s) = s" using assms(1) by (simp add: js_trim_def)
  then have "rev s = dropWhile is_space (rev (trim_start s))" by (metis rev_rev_ident trim_end_def)
  then have "\<not> is_space (hd (rev s))" using assms(2) hd_dropWhile by (metis rev_is_Nil_conv)
  then show "\<not> is_space (last s)" by (simp add: hd_rev)
qed

lemma trim_idle:
  assumes "s \<noteq> []" and "\<not> is_space (hd s)" and "\<not> is_space (last s)"
  shows "js_trim s = s"
proof -
  have "dropWhile is_space s = s" using assms by (cases s) auto
  moreover have "dropWhile is_space (rev s) = rev s" using assms by (cases "rev s") (auto simp: last_conv_nth hd_rev [symmetric])
  ultimately show ?thesis by (simp add: js_trim_def trim_start_def trim_end_def)
qed

lemma line_break_space: "line_break c \<Longrightarrow> is_space c"
  by (auto simp: line_break_def is_space_def code_of_def)

text \<open>No end of the envelope is found before the body ends.\<close>

lemma no_early_tail:
  assumes "no_end_line body" and "\<not> line_break (last body)" and "i < length body"
  shows "re_match envelope_tail (b, drop i body @ CHR 0x0A # ''@END'' @ rest) = []"
proof (rule ccontr)
  let ?s = "drop i body"
  assume "re_match envelope_tail (b, ?s @ CHR 0x0A # ''@END'' @ rest) \<noteq> []"
  then obtain u y where u: "?s @ CHR 0x0A # ''@END'' @ rest = u @ ''@END'' @ y" "u \<noteq> []" "\<forall>c\<in>set u. line_break c"
    by (auto simp only: tail_matches_iff)
  have s: "?s \<noteq> []" "last ?s = last body" using assms(3) by simp_all
  from u(1) obtain t where "?s = u @ t \<and> t @ CHR 0x0A # ''@END'' @ rest = ''@END'' @ y \<or>
      ?s @ t = u \<and> CHR 0x0A # ''@END'' @ rest = t @ ''@END'' @ y"
    by (auto simp only: append_eq_append_conv2)
  then show False
  proof
    assume "?s @ t = u \<and> CHR 0x0A # ''@END'' @ rest = t @ ''@END'' @ y"
    with s have "last body \<in> set u" by (metis Un_iff last_in_set set_append)
    with u(3) assms(2) show False by blast
  next
    assume t: "?s = u @ t \<and> t @ CHR 0x0A # ''@END'' @ rest = ''@END'' @ y"
    have "t \<noteq> []" using t s u(2,3) assms(2) by (metis append_Nil2 last_in_set)
    with t obtain t' where "t = ''@END'' @ t'"
      by (auto simp: Cons_eq_append_conv append_eq_Cons_conv)
    moreover have "body = (take i body @ butlast u) @ last u # t"
      using t u(2) by (metis append.assoc append_butlast_last_id append_take_drop_id append_Cons append_Nil)
    ultimately have "\<not> line_break (last u)"
      using assms(1) unfolding no_end_line_def by metis
    with u(2,3) show False by simp
  qed
qed

lemma logic_from_body:
  assumes "no_end_line body" and "body \<noteq> []" and "\<not> line_break (last body)"
  shows "logic_from (b, body @ CHR 0x0A # ''@END'' @ rest) = Some body"
proof -
  let ?a = "body @ CHR 0x0A # ''@END'' @ rest" and ?f = "\<lambda>i. (rev (take i (body @ CHR 0x0A # ''@END'' @ rest)) @ b, drop i (body @ CHR 0x0A # ''@END'' @ rest))"
  have "re_match envelope_tail (?f (length body)) \<noteq> []"
    by (simp only: tail_matches_iff, intro exI [of _ "[CHR 0x0A]"] exI [of _ rest]) (simp add: line_break_def)
  moreover have "re_match envelope_tail (?f i) = []" if "i < length body" for i
    using no_early_tail [OF assms(1,3) that, of "rev (take i ?a) @ b" rest] that by simp
  ultimately have "find (\<lambda>r. re_match envelope_tail r \<noteq> []) (map ?f [0..<Suc (length ?a)]) = Some (?f (length body))"
    by (intro find_first) auto
  then show ?thesis by (simp add: logic_from_def lazy_run del: re_match.simps upt_Suc)
qed

section \<open>What the preflight extracts\<close>

definition pack_head :: "string \<Rightarrow> string \<Rightarrow> string" where
  "pack_head target name = ''@LIOP{'' @ target @ '','' @ name @ ''}'' @ [CHR 0x0A]"

lemma pack_split: "pack target name body = pack_head target name @ body @ CHR 0x0A # ''@END''"
  by (simp add: pack_def pack_head_def)

lemma head_first:
  assumes "target \<noteq> []" and "CHR '','' \<notin> set target" and "CHR ''}'' \<notin> set target" and "CHR ''}'' \<notin> set name"
    and "a = [] \<or> \<not> line_break (hd a)"
  shows "first_match envelope_head (b, pack_head target name @ a) (rev (pack_head target name) @ b, a)"
proof -
  let ?sp = "takeWhile is_space name" and ?nm = "dropWhile is_space name"
  have "first_match (lit ''@LIOP{'') (b, pack_head target name @ a)
      (rev ''@LIOP{'' @ b, target @ CHR '','' # name @ CHR ''}'' # CHR 0x0A # a)"
    using first_match_lit [of "''@LIOP{''" b] by (simp add: pack_head_def)
  moreover have "first_match (plus (Pred (\<lambda>c. c \<noteq> CHR '','' \<and> c \<noteq> CHR ''}'')))
      (rev ''@LIOP{'' @ b, target @ CHR '','' # name @ CHR ''}'' # CHR 0x0A # a)
      (rev target @ rev ''@LIOP{'' @ b, CHR '','' # name @ CHR ''}'' # CHR 0x0A # a)"
    using assms by (intro first_match_plus) auto
  moreover have "first_match (opt (cats [chr (CHR '',''), star blank, star (Pred (\<lambda>c. c \<noteq> CHR ''}''))]))
      (b', CHR '','' # name @ CHR ''}'' # CHR 0x0A # a) (rev ?nm @ rev ?sp @ CHR '','' # b', CHR ''}'' # CHR 0x0A # a)" for b'
  proof (rule first_match_opt)
    have "first_match (star blank) (CHR '','' # b', ?sp @ ?nm @ CHR ''}'' # CHR 0x0A # a)
        (rev ?sp @ CHR '','' # b', ?nm @ CHR ''}'' # CHR 0x0A # a)"
      unfolding blank_def
    proof (rule first_match_star)
      show "\<forall>c\<in>set ?sp. is_space c" by (auto dest: set_takeWhileD)
      show "?nm @ CHR ''}'' # CHR 0x0A # a = [] \<or> \<not> is_space (hd (?nm @ CHR ''}'' # CHR 0x0A # a))"
      proof (cases "?nm = []")
        case True
        then show ?thesis by (simp only: append_Nil list.sel) (simp add: is_space_def code_of_def)
      next
        case False
        with hd_dropWhile [of is_space name] show ?thesis by (metis hd_append2)
      qed
    qed
    moreover have "first_match (star (Pred (\<lambda>c. c \<noteq> CHR ''}''))) (rev ?sp @ CHR '','' # b', ?nm @ CHR ''}'' # CHR 0x0A # a)
        (rev ?nm @ rev ?sp @ CHR '','' # b', CHR ''}'' # CHR 0x0A # a)"
      using assms(4) by (intro first_match_star) (auto dest: set_dropWhileD)
    ultimately show "first_match (cats [chr (CHR '',''), star blank, star (Pred (\<lambda>c. c \<noteq> CHR ''}''))])
        (b', CHR '','' # name @ CHR ''}'' # CHR 0x0A # a) (rev ?nm @ rev ?sp @ CHR '','' # b', CHR ''}'' # CHR 0x0A # a)"
      by (simp only: cats.simps append.assoc [symmetric] takeWhile_dropWhile_id)
         (meson first_match_Cat first_match_chr)
  qed simp
  moreover have "first_match newline_re (b', CHR 0x0A # a) (CHR 0x0A # b', a)" for b'
    using first_match_plus [of "[CHR 0x0A]" "\<lambda>c. c = CHR 0x0D \<or> c = CHR 0x0A" a b'] assms(5)
    by (simp add: newline_re_def line_break_def)
  ultimately have "first_match envelope_head (b, pack_head target name @ a)
      (CHR 0x0A # CHR ''}'' # rev ?nm @ rev ?sp @ CHR '','' # rev target @ rev ''@LIOP{'' @ b, a)"
    unfolding envelope_head_def by (simp only: cats.simps) (meson first_match_Cat first_match_chr)
  moreover have n: "rev ?nm @ rev ?sp @ r = rev name @ r" for r by (metis append_assoc rev_append takeWhile_dropWhile_id)
  have "CHR 0x0A # CHR ''}'' # rev ?nm @ rev ?sp @ CHR '','' # rev target @ rev ''@LIOP{'' @ b = rev (pack_head target name) @ b"
    by (simp add: pack_head_def n)
  ultimately show ?thesis by metis
qed

lemma envelope_logic_pack:
  assumes "packable target name body"
  shows "envelope_logic b (pack target name body @ rest) = Some body"
proof -
  have t: "body \<noteq> []" "\<not> line_break (hd body)" "\<not> line_break (last body)"
    using assms trimmed_ends line_break_space by (auto simp: packable_def)
  have a: "pack target name body @ rest = pack_head target name @ body @ CHR 0x0A # ''@END'' @ rest"
    by (simp add: pack_split)
  obtain qs where q: "re_match envelope_head (b, pack target name body @ rest) =
      (rev (pack_head target name) @ b, body @ CHR 0x0A # ''@END'' @ rest) # qs"
    using head_first [of target name "body @ CHR 0x0A # ''@END'' @ rest" b] assms t(1,2)
    unfolding a by (auto simp: first_match_def packable_def)
  show ?thesis
    by (subst envelope_logic.simps)
       (simp only: q List.map_filter_simps logic_from_body [OF _ t(1,3)] assms [unfolded packable_def] option.case list.case)
qed

text \<open>A text without the first character of the head is passed over.\<close>

lemma envelope_logic_skip:
  assumes "CHR ''@'' \<notin> set u"
  shows "envelope_logic b (u @ a) = envelope_logic (rev u @ b) a"
  using assms
proof (induction u arbitrary: b)
  case (Cons c u)
  then have "c \<noteq> CHR ''@''" by auto
  then have "re_match envelope_head (b, c # u @ a) = []"
    by (simp add: envelope_head_def re_match_lit)
  with Cons show ?case by (simp add: envelope_logic.simps [of b "c # u @ a"] List.map_filter_simps)
qed simp

lemma pack_ends: "hd (pack target name body) = CHR ''@''" "last (pack target name body) = CHR ''D''" "pack target name body \<noteq> []"
  by (simp_all add: pack_def)

lemma pack_trimmed: "js_trim (pack target name body) = pack target name body"
  by (rule trim_idle) (simp_all add: pack_ends is_space_def code_of_def)

lemma extract_logic_pack:
  assumes "packable target name body"
  shows "extract_logic (pack target name body) = Some body"
  using envelope_logic_pack [OF assms, of "[]" "[]"] assms pack_ends(3)
  by (simp add: extract_logic_def pack_trimmed truthy_string_def packable_def)

section \<open>What the worker runs\<close>

lemma envelope_open_first:
  assumes "target \<noteq> []" and "CHR ''}'' \<notin> set target" and "CHR ''}'' \<notin> set name"
  shows "first_match envelope_open ([], pack_head target name @ a) (rev (pack_head target name), a)"
proof -
  have "first_match (star (Pred is_space)) ([], [] @ pack_head target name @ a) (rev [] @ [], pack_head target name @ a)"
    by (rule first_match_star) (simp_all add: pack_head_def is_space_def code_of_def)
  then have "first_match (star (Pred is_space)) ([], pack_head target name @ a) ([], pack_head target name @ a)" by simp
  moreover have "first_match (lit ''@LIOP{'') ([], pack_head target name @ a)
      (rev ''@LIOP{'', (target @ CHR '','' # name) @ CHR ''}'' # CHR 0x0A # a)"
    using first_match_lit [of "''@LIOP{''" "[]"] by (simp add: pack_head_def)
  moreover have "first_match (plus (Pred (\<lambda>c. c \<noteq> CHR ''}'')))
      (rev ''@LIOP{'', (target @ CHR '','' # name) @ CHR ''}'' # CHR 0x0A # a)
      (rev (target @ CHR '','' # name) @ rev ''@LIOP{'', CHR ''}'' # CHR 0x0A # a)"
    using assms by (intro first_match_plus) auto
  moreover have "first_match (opt (chr (CHR 0x0A))) (b', CHR 0x0A # a) (CHR 0x0A # b', a)" for b'
    by (rule first_match_opt) (simp_all add: first_match_chr)
  ultimately have "first_match envelope_open ([], pack_head target name @ a)
      (CHR 0x0A # CHR ''}'' # rev (target @ CHR '','' # name) @ rev ''@LIOP{'', a)"
    unfolding envelope_open_def by (simp only: cats.simps) (meson first_match_Cat first_match_chr first_match_start)
  then show ?thesis by (simp add: pack_head_def)
qed

text \<open>The closing mark must end the text, so the nearest end is the last one.\<close>

lemma close_needs_end:
  assumes "re_match envelope_close (b, s) \<noteq> []"
  shows "\<exists>w. (s = CHR 0x0A # ''@END'' @ w \<or> s = ''@END'' @ w) \<and> (\<forall>c\<in>set w. is_space c)"
proof -
  have opt: "q = (b, s) \<or> (\<exists>r. s = CHR 0x0A # r \<and> q = (CHR 0x0A # b, r))"
    if "q \<in> set (re_match (opt (chr (CHR 0x0A))) (b, s))" for q
    using that by (cases s) (auto simp: opt_def chr_def split: if_splits)
  have run: "\<exists>u. snd p = u @ snd q \<and> (\<forall>c\<in>set u. is_space c)" if "q \<in> set (rep_upto True (step_char is_space) n p)" for n p q
    using that
  proof (induction n arbitrary: p)
    case (Suc n)
    show ?case
    proof (cases "q = p")
      case True
      then show ?thesis by (intro exI [of _ "[]"]) simp
    next
      case False
      with Suc.prems obtain p' where p': "p' \<in> set (step_char is_space p)" "q \<in> set (rep_upto True (step_char is_space) n p')"
        by (auto simp: Let_def)
      obtain pb pa where p: "p = (pb, pa)" by (cases p)
      from p'(1) p obtain c r where c: "pa = c # r" "p' = (c # pb, r)" "is_space c" by (cases pa) (auto split: if_splits)
      from Suc.IH [OF p'(2)] c obtain u where "r = u @ snd q" "\<forall>c\<in>set u. is_space c" by auto
      with c p show ?thesis by (intro exI [of _ "c # u"]) simp
    qed
  qed simp
  have inside: "\<exists>q\<in>set (re_match r x). re_match r' q \<noteq> []" if "re_match (Cat r r') x \<noteq> []" for r r' x
    using that by auto
  from assms have "re_match (Cat (opt (chr (CHR 0x0A))) (Cat (lit ''@END'') (Cat (star (Pred is_space)) AtEnd))) (b, s) \<noteq> []"
    by (simp only: envelope_close_def cats.simps not_False_eq_True)
  from inside [OF this] obtain q where q: "q \<in> set (re_match (opt (chr (CHR 0x0A))) (b, s))"
    and q': "re_match (Cat (lit ''@END'') (Cat (star (Pred is_space)) AtEnd)) q \<noteq> []" by blast
  from inside [OF q'] obtain t where t: "t \<in> set (re_match (lit ''@END'') q)" "re_match (Cat (star (Pred is_space)) AtEnd) t \<noteq> []"
    by blast
  from inside [OF t(2)] obtain z where z: "z \<in> set (rep_upto True (step_char is_space) (length (snd t)) t)" "snd z = []"
    by (auto simp: star_def split: if_splits)
  from run [OF z(1)] z(2) have w: "\<forall>c\<in>set (snd t). is_space c" by auto
  from t(1) have "snd q = ''@END'' @ snd t"
    by (cases q) (auto simp: re_match_lit starts_with_iff split: if_splits)
  with opt [OF q] w show ?thesis by (intro exI [of _ "snd t"]) auto
qed

text \<open>With or without a line break before the mark.\<close>

definition closer :: "string \<Rightarrow> bool" where
  "closer m \<longleftrightarrow> m = CHR 0x0A # ''@END'' \<or> m = ''@END''"

lemma close_matches: "closer m \<Longrightarrow> re_match envelope_close (b, m) \<noteq> []"
proof -
  assume "closer m"
  then obtain b' where "first_match (opt (chr (CHR 0x0A))) (b, m) (b', ''@END'')"
  proof (cases "m = ''@END''")
    case True
    have "re_match (opt (chr (CHR 0x0A))) (b, ''@END'') = [(b, ''@END'')]" by (simp add: opt_def chr_def)
    with True show ?thesis using that [of b] by (simp add: first_match_def)
  next
    case False
    with \<open>closer m\<close> have "m = CHR 0x0A # ''@END''" by (auto simp: closer_def)
    moreover have "first_match (opt (chr (CHR 0x0A))) (b, CHR 0x0A # ''@END'') (CHR 0x0A # b, ''@END'')"
      by (rule first_match_opt) (simp_all add: first_match_chr)
    ultimately show ?thesis using that by simp
  qed
  moreover have "first_match (lit ''@END'') (b', ''@END'') (rev ''@END'' @ b', [])" for b'
    using first_match_lit [of "''@END''" b' "[]"] by simp
  moreover have "first_match (star (Pred is_space)) (b', []) (b', [])" for b'
    using first_match_star [of "[]" is_space "[]" b'] by simp
  ultimately have "first_match envelope_close (b, m) (rev ''@END'' @ b', [])"
    unfolding envelope_close_def by (simp only: cats.simps) (meson first_match_Cat first_match_end)
  then show ?thesis by (auto simp: first_match_def)
qed

lemma no_early_close:
  assumes "body \<noteq> []" and "\<not> is_space (last body)" and "i < length body" and "closer m"
  shows "re_match envelope_close (b, drop i body @ m) = []"
proof (rule ccontr)
  let ?s = "drop i body"
  assume "re_match envelope_close (b, ?s @ m) \<noteq> []"
  from close_needs_end [OF this] obtain v w where v: "?s @ m = v @ ''@END'' @ w" "v = [] \<or> v = [CHR 0x0A]"
    and w: "\<forall>c\<in>set w. is_space c" by (metis append_Cons append_Nil)
  obtain n where n: "m = n @ ''@END''" using assms(4) unfolding closer_def by (metis append_Cons append_Nil)
  have "w = []"
  proof (rule ccontr)
    assume "w \<noteq> []"
    with v(1) n have "last w = CHR ''D''" by (metis (no_types, lifting) append_is_Nil_conv last.simps last_appendR list.distinct(1))
    with w \<open>w \<noteq> []\<close> have "is_space (CHR ''D'')" by (metis last_in_set)
    then show False by (simp add: is_space_def code_of_def)
  qed
  with v(1) n have "?s @ n = v" by simp
  moreover have "?s \<noteq> []" "last ?s = last body" using assms(3) by simp_all
  ultimately have "last body = CHR 0x0A" using v(2) by (cases ?s) (auto simp: append_eq_Cons_conv)
  with assms(2) show False by (simp add: is_space_def code_of_def)
qed

text \<open>A whole-document envelope is stripped, whichever way it is closed.\<close>

lemma normalize_closed:
  assumes "target \<noteq> []" and "CHR ''}'' \<notin> set target" and "CHR ''}'' \<notin> set name"
    and "body \<noteq> []" and "js_trim body = body" and "closer m"
  shows "normalize_logic_source (pack_head target name @ body @ m) = body"
proof -
  have t: "\<not> is_space (last body)" using assms(4,5) trimmed_ends by auto
  let ?a = "body @ m" and ?b = "rev (pack_head target name)"
  let ?f = "\<lambda>i. (rev (take i (body @ m)) @ ?b, drop i (body @ m))"
  let ?P = "\<lambda>r. re_match envelope_close r \<noteq> []"
  have "?P (?f (length body))" using close_matches [OF assms(6)] by simp
  moreover have "\<not> ?P (?f i)" if "i < length body" for i
    using no_early_close [OF assms(4) t that assms(6), of "rev (take i ?a) @ ?b"] that by simp
  ultimately have "find ?P (map ?f [0..<Suc (length ?a)]) = Some (?f (length body))"
    by (intro find_first) auto
  from filter_of_find [OF this] obtain rs where "filter ?P (map ?f [0..<Suc (length ?a)]) = ?f (length body) # rs"
    by blast
  then have "bodies_from (?b, ?a) = body # map (\<lambda>r. take (length ?a - length (snd r)) ?a) rs"
    by (simp add: bodies_from_def lazy_run del: re_match.simps upt_Suc)
  moreover obtain qs where "re_match envelope_open ([], pack_head target name @ ?a) = (?b, ?a) # qs"
    using envelope_open_first [of target name ?a] assms by (auto simp: first_match_def)
  ultimately have "envelope_body (pack_head target name @ ?a) = Some body" by (simp add: envelope_body_def)
  then show ?thesis using assms(5) by (simp add: normalize_logic_source_def)
qed

lemma normalize_pack:
  assumes "packable target name body"
  shows "normalize_logic_source (pack target name body) = body"
  unfolding pack_split using assms by (intro normalize_closed) (auto simp: packable_def closer_def)

section \<open>The same text for both\<close>

lemma not_wasm_text:
  assumes "s \<noteq> []" and "code_of (hd s) \<noteq> 0"
  shows "\<not> starts_like_wasm (utf8 s)" and "\<not> is_wasm (utf8 s)"
proof -
  obtain c r where s: "s = c # r" using assms(1) by (cases s) auto
  let ?n = "code_of c"
  have n: "0 < ?n" "?n < 256" using assms(2) s by (auto simp: code_of_def)
  have z: "of_nat k \<noteq> (0 :: 8 word)" if "0 < k" "k < 256" for k :: nat
    using that by (simp add: word_of_nat_eq_0_iff nat_dvd_not_less)
  obtain x xs where u: "utf8 s = x # xs" "x \<noteq> 0"
  proof (cases "?n < 128")
    case True
    then show ?thesis using that [of "of_nat ?n" "utf8 r"] z n by (simp add: s utf8_def utf8_char_def)
  next
    case False
    have "?n div 64 < 64" using n by simp
    with z [of "192 + ?n div 64"] have "of_nat (192 + ?n div 64) \<noteq> (0 :: 8 word)" by simp
    moreover have "utf8 s = of_nat (192 + ?n div 64) # of_nat (128 + ?n mod 64) # utf8 r"
      using False by (simp add: s utf8_def utf8_char_def Let_def)
    ultimately show ?thesis using that by blast
  qed
  then show "\<not> starts_like_wasm (utf8 s)" by (cases xs) simp_all
  then show "\<not> is_wasm (utf8 s)" using is_wasm_starts by blast
qed

text \<open>What a request decrypts to in a session.\<close>

definition decrypts_to :: "worker_env \<Rightarrow> session \<Rightarrow> logic_request \<Rightarrow> bytes \<Rightarrow> bool" where
  "decrypts_to W session request p \<longleftrightarrow>
     (\<exists>key. we_kem_decap W (lq_pqc_ciphertext request) (sn_kyber_sk session) = Inr key \<and>
        we_gcm_open W key (case lq_aes_nonce request of None \<Rightarrow> replicate 12 0 | Some n \<Rightarrow> n)
          (without_tag (lq_wasm_binary request)) (auth_tag (lq_wasm_binary request)) = Inr p)"

lemma preflight_of_text:
  assumes "decrypts_to W session request (utf8 s)" and "extract_logic s = Some l" and "l \<noteq> []"
  shows "preflight_logic W session request = Inr l"
  using assms by (auto simp: decrypts_to_def preflight_logic_def bind_sum_def truthy_string_def)

lemma runnable_text:
  assumes "s \<noteq> []" and "code_of (hd s) \<noteq> 0"
  shows "runnable W (utf8 s, is_wasm (utf8 s)) = Inr (Inr (normalize_logic_source s))"
  using not_wasm_text [OF assms] by (simp add: runnable_def)

text \<open>C5: for a logic packed in the documented envelope, with a body that holds no closing line of its own,
  the preflight of the gRPC service analyses exactly the text that the worker runs and that the image
  identifier of the payload names.\<close>

theorem packed_logic_checked_and_run:
  assumes "packable target name body" and "decrypts_to W session request (utf8 (pack target name body))"
  shows "preflight_logic W session request = Inr body \<and>
     runnable W (utf8 (pack target name body), is_wasm (utf8 (pack target name body))) = Inr (Inr body) \<and>
     derive_logic_image_digest sha256 (utf8 (pack target name body)) = sha256 (utf8 body)"
proof -
  have h: "pack target name body \<noteq> []" "code_of (hd (pack target name body)) \<noteq> 0"
    by (simp_all add: pack_ends code_of_def)
  have "body \<noteq> []" using assms(1) by (simp add: packable_def)
  with preflight_of_text [OF assms(2) extract_logic_pack [OF assms(1)]] runnable_text [OF h, of W] not_wasm_text(1) [OF h]
  show ?thesis by (simp only: normalize_pack [OF assms(1)] derive_logic_image_digest_def utf8_text_utf8 if_False simp_thms)
qed

definition block_comment :: "string \<Rightarrow> string" where
  "block_comment s = ''/*'' @ [CHR 0x0A] @ s @ [CHR 0x0A] @ ''*/''"

lemma extract_logic_hidden:
  assumes "packable target name body" and "e \<noteq> []" and "CHR ''@'' \<notin> set e" and "\<not> is_space (hd e)"
  shows "extract_logic (e @ block_comment (pack target name body)) = Some body"
proof -
  let ?P = "e @ block_comment (pack target name body)" and ?u = "e @ ''/*'' @ [CHR 0x0A]"
  have "js_trim ?P = ?P"
    using assms(2,4) by (intro trim_idle) (auto simp: block_comment_def is_space_def code_of_def)
  moreover have "envelope_logic [] ?P = envelope_logic (rev ?u @ []) (pack target name body @ CHR 0x0A # ''*/'')"
    using envelope_logic_skip [of ?u "[]" "pack target name body @ CHR 0x0A # ''*/''"] assms(3)
    by (simp add: block_comment_def)
  ultimately show ?thesis
    using assms(1,2) envelope_logic_pack [OF assms(1)] by (simp add: extract_logic_def truthy_string_def packable_def)
qed

text \<open>C6: the preflight can be shown another logic than the one that runs. Whatever code \<open>e\<close> is, followed by
  a comment that holds a packed logic the preflight sees that logic only, while the worker runs the whole
  text: the taint analysis, the forbidden patterns and the query budget all judge the comment.\<close>

theorem comment_hides_logic:
  assumes "packable target name body" and "e \<noteq> []" and "CHR ''@'' \<notin> set e" and "\<not> is_space (hd e)" and "code_of (hd e) \<noteq> 0"
    and "decrypts_to W session request (utf8 (e @ block_comment (pack target name body)))"
  shows "preflight_logic W session request = Inr body \<and>
     runnable W (utf8 (e @ block_comment (pack target name body)), is_wasm (utf8 (e @ block_comment (pack target name body)))) =
       Inr (Inr (e @ block_comment (pack target name body)))"
proof -
  let ?P = "e @ block_comment (pack target name body)"
  have P: "?P \<noteq> []" "code_of (hd ?P) \<noteq> 0" using assms(2,5) by simp_all
  have "js_trim ?P = ?P"
    using assms(2,4) by (intro trim_idle) (auto simp: block_comment_def is_space_def code_of_def)
  moreover have "\<not> starts_with ?P ''@LIOP{''"
    using assms(2,3) by (cases e) auto
  ultimately have "normalize_logic_source ?P = ?P" by (rule normalize_trimmed)
  moreover have "body \<noteq> []" using assms(1) by (simp add: packable_def)
  ultimately show ?thesis
    using preflight_of_text [OF assms(6) extract_logic_hidden [OF assms(1-4)]] runnable_text [OF P] by metis
qed

text \<open>Of a payload that reaches a tool through MCP the extracted logic itself is run; but the worker strips an
  envelope once more. An inner envelope without a line break before its mark is no program for the analyser,
  which accepts what it cannot parse and finds no queried field in it, and is stripped for the run.\<close>

lemma nested_envelope_unanalysed:
  assumes "target \<noteq> []" and "CHR '','' \<notin> set target" and "CHR ''}'' \<notin> set target" and "CHR ''}'' \<notin> set name"
    and "body \<noteq> []" and "js_trim body = body" and "no_end_line (pack_head target name @ body @ ''@END'')"
    and "\<And>f. parse (wrap_source f (pack_head target name @ body @ ''@END'')) = None"
  shows "extract_logic (pack target name (pack_head target name @ body @ ''@END'')) = Some (pack_head target name @ body @ ''@END'') \<and>
     analyze A parse visit (pack_head target name @ body @ ''@END'') n k = None \<and>
     extract_queried_fields parse visit (pack_head target name @ body @ ''@END'') = [] \<and>
     normalize_logic_source (pack_head target name @ body @ ''@END'') = body"
proof -
  let ?l = "pack_head target name @ body @ ''@END''"
  have "js_trim ?l = ?l" by (rule trim_idle) (simp_all add: pack_head_def is_space_def code_of_def)
  then have "packable target name ?l" using assms by (simp add: packable_def pack_head_def)
  from extract_logic_pack [OF this] normalize_closed [of target name body "''@END''"] assms show ?thesis
    by (simp add: analyze_def extract_queried_fields_def closer_def)
qed

section \<open>Examples\<close>

text \<open>A worker whose decryption yields a given text.\<close>

definition text_worker :: "string \<Rightarrow> worker_env" where
  "text_worker s = grpc_worker\<lparr>we_gcm_open := (\<lambda>k n c t. Inr (utf8 s))\<rparr>"

lemma text_worker_decrypts: "decrypts_to (text_worker s) demo_session demo_request (utf8 s)"
  by (simp add: decrypts_to_def text_worker_def grpc_worker_def)

definition honest_body :: string where "honest_body = ''return 1;''"
definition leaking_code :: string where "leaking_code = ''return env.records;''"

lemma no_mark_no_end: "CHR ''@'' \<notin> set s \<Longrightarrow> no_end_line s"
  by (auto simp: no_end_line_def)

lemma honest_packable: "packable ''wasi_v1'' ''q'' honest_body"
  unfolding packable_def
  by (simp add: honest_body_def no_mark_no_end js_trim_def trim_start_def trim_end_def is_space_def code_of_def)

theorem packed_logic_checked_and_run_witness:
  "preflight_logic (text_worker (pack ''wasi_v1'' ''q'' honest_body)) demo_session demo_request = Inr honest_body \<and>
   runnable (text_worker (pack ''wasi_v1'' ''q'' honest_body)) (utf8 (pack ''wasi_v1'' ''q'' honest_body), is_wasm (utf8 (pack ''wasi_v1'' ''q'' honest_body))) = Inr (Inr honest_body)"
  using packed_logic_checked_and_run [OF honest_packable text_worker_decrypts, of id] by blast

theorem comment_hides_logic_witness:
  "preflight_logic (text_worker (leaking_code @ block_comment (pack ''wasi_v1'' ''q'' honest_body))) demo_session demo_request = Inr honest_body"
  by (rule comment_hides_logic [OF honest_packable _ _ _ _ text_worker_decrypts, THEN conjunct1])
     (simp_all add: leaking_code_def is_space_def code_of_def)

end
