(* ===== verification/DemoVault.thy ===== *)
theory DemoVault
  imports Envelope Sandbox Jwt
begin

text \<open>
  The high-fidelity demo under \<open>examples/demos/high-fidelity-demo\<close>: the compiler that packs an analysis
  into the envelope the SDK reads, the guardian with its list of patterns, the simulated sandbox with its
  receipt, and the choice of a scenario by the two agents. The patterns of the guardian carry the flag
  \<open>g\<close>, so \<open>test\<close> starts at \<open>lastIndex\<close> and moves it: the guardian has a state. \<open>node:vm\<close>, JSON, the
  digests and the clock are parameters.
\<close>

section \<open>The compiler\<close>

definition executable_body :: "string \<Rightarrow> string" where
  "executable_body f =
     js_trim (newline @ ''const _clientLogic = '' @ f @ '';'' @ newline @ newline @
       code_line 0 ''function liop_main(env) {'' @
       code_line 0 ''    if (!env || !env.records) {'' @
       code_line 0 (''        throw new Error('' @ in_quotes ''Missing records in LIOP Sandbox environment.'' @ '');'') @
       code_line 0 ''    }'' @
       code_line 0 ''    const result = _clientLogic(env.records);'' @
       code_line 0 (''    return typeof result === '' @ [CHR 0x27] @ ''object'' @ [CHR 0x27] @ '' ? JSON.stringify(result) : String(result);'') @
       code_line 0 ''}'' @ ''    '')"

definition compile_analysis :: "string \<Rightarrow> string option \<Rightarrow> string" where
  "compile_analysis f name =
     ''@LIOP{wasi_v1,'' @ (case name of None \<Rightarrow> ''DynamicAudit'' | Some n \<Rightarrow> n) @ ''}'' @ newline @ executable_body f @ newline @ ''@END''"

definition compile_raw :: "string \<Rightarrow> string option \<Rightarrow> string" where
  "compile_raw rawScript name =
     ''@LIOP{raw,'' @ (case name of None \<Rightarrow> ''RawScript'' | Some n \<Rightarrow> n) @ ''}'' @ newline @ rawScript @ newline @ ''@END''"

section \<open>The guardian\<close>

definition white :: re where "white = Pred is_space"

definition restricted_patterns :: "re list" where
  "restricted_patterns =
     [cats [lit ''require'', star white, lit ''(''],
      cats [lit ''import'', star white, lit ''(''],
      cats [WordBoundary, lit ''fs.''],
      lit ''child_process'',
      cats [WordBoundary, lit ''process'', WordBoundary],
      cats [WordBoundary, lit ''global'', WordBoundary],
      cats [WordBoundary, lit ''globalThis'', WordBoundary],
      cats [WordBoundary, lit ''window'', WordBoundary],
      cats [WordBoundary, lit ''eval'', star white, lit ''(''],
      cats [lit ''new'', plus white, lit ''Function'', star white, lit ''(''],
      cats [lit ''constructor'', star white, lit ''('', star white, Pred (\<lambda>c. c = CHR 0x27 \<or> c = CHR 0x22), lit ''return''],
      cats [WordBoundary, lit ''fetch'', star white, lit ''(''],
      cats [WordBoundary, lit ''XMLHttpRequest'', WordBoundary],
      lit ''__proto__'',
      lit ''Object.setPrototypeOf'']"

text \<open>\<open>RegExp.test\<close> under the flag \<open>g\<close>: from \<open>lastIndex\<close> on; it is left at the end of the match, or at 0.\<close>

definition test_global :: "re \<Rightarrow> string \<Rightarrow> nat \<Rightarrow> bool \<times> nat" where
  "test_global r s i =
     (if length s < i then (False, 0)
      else case re_search r (rev (take i s)) (drop i s) of
             None \<Rightarrow> (False, 0)
           | Some (p, q) \<Rightarrow> (True, length (fst q)))"

type_synonym guardian = "(re \<times> nat) list"

text \<open>\<open>inspect\<close>: whether it throws, and the patterns with their \<open>lastIndex\<close> after it. It stops at the first
  pattern that is found.\<close>

fun guardian_inspect :: "guardian \<Rightarrow> string \<Rightarrow> bool \<times> guardian" where
  "guardian_inspect [] code = (False, [])"
| "guardian_inspect ((r, i) # G) code =
     (case test_global r code i of
        (True, i') \<Rightarrow> (True, (r, i') # G)
      | (False, i') \<Rightarrow> (case guardian_inspect G code of (b, G') \<Rightarrow> (b, (r, i') # G')))"

definition fresh_guardian :: "re list \<Rightarrow> guardian" where
  "fresh_guardian rs = map (\<lambda>r. (r, 0)) rs"

section \<open>The simulated sandbox\<close>

definition demo_max_fuel :: int where "demo_max_fuel = 100000"

definition has_loop :: "string \<Rightarrow> bool" where
  "has_loop code = re_test (alts [cats [lit ''while'', star white, lit ''(true)''], cats [lit ''for'', star white, lit ''(;;)'']]) code"

record vault_env =
  vn_readRecords :: "string option"                       \<comment> \<open>the data file, if it can be read\<close>
  vn_runInContext :: "string \<Rightarrow> string \<Rightarrow> string + jsval"    \<comment> \<open>script, records: the message thrown, or the result\<close>
  vn_duration :: real                                     \<comment> \<open>milliseconds\<close>
  vn_sha256 :: "bytes \<Rightarrow> bytes"
  vn_sha512 :: "bytes \<Rightarrow> bytes"
  vn_stringify :: "jsval \<Rightarrow> string"
  vn_num :: "real \<Rightarrow> string"

definition wrapped_logic :: "string \<Rightarrow> string" where
  "wrapped_logic compiledLogic =
     newline @ code_line 4 ''(function() {'' @ code_line 5 ''try {'' @
     code_line 6 ''const db = JSON.parse(recordsRaw);'' @ code_line 6 ''const env = { records: db };'' @ code_line 6 [] @
     code_line 6 ''const __user_logic = function(env) {'' @ code_line 7 compiledLogic @ code_line 6 ''};'' @ code_line 6 [] @
     code_line 6 ''const userResult = __user_logic(env);'' @
     code_line 6 ''if (userResult !== undefined) return userResult;'' @ code_line 6 [] @
     code_line 6 (''return (typeof nmp_main === '' @ [CHR 0x27] @ ''function'' @ [CHR 0x27] @ '') ? nmp_main(env) : '' @
       in_quotes (''Execution completed successfully, but no data was returned by the script. Ensure you use '' @ [CHR 0x27] @ ''return'' @
         [CHR 0x27] @ '' at the end of your logic.'') @ '';'') @
     code_line 5 ''} catch(e) {'' @ code_line 6 (''return '' @ in_quotes ''RuntimeException: '' @ '' + e.message;'') @
     code_line 5 ''}'' @ code_line 4 ''})();'' @ tabs 3"

definition vault_receipt :: "vault_env \<Rightarrow> string \<Rightarrow> jsval \<Rightarrow> string" where
  "vault_receipt V compiledLogic out =
     (let outputForHash = (if is_object out \<or> out = JNull then vn_stringify V out else js_string (vn_num V) out)
      in text_digest (vn_sha512 V) (''RISC0_SEAL:'' @ text_digest (vn_sha256 V) compiledLogic @ '':'' @
           text_digest (vn_sha256 V) outputForHash @ '':NMP_V1''))"

definition vault_crash :: "string \<Rightarrow> string" where
  "vault_crash msg = ''[NMP Sandbox Crash] '' @ msg"

definition vault_execute :: "vault_env \<Rightarrow> string \<Rightarrow> string + (jsval \<times> int \<times> string)" where
  "vault_execute V compiledLogic =
     (let recordsData = (case vn_readRecords V of None \<Rightarrow> ''[]'' | Some t \<Rightarrow> t) in
      if has_loop compiledLogic then Inl (vault_crash ''Wasmtime: Resource Exhaustion (Fuel consumed overflow)'')
      else case vn_runInContext V (wrapped_logic compiledLogic) recordsData of
             Inl e \<Rightarrow> Inl (vault_crash e)
           | Inr resultOutput \<Rightarrow>
               (let fuelUsed = \<lfloor>vn_duration V * 1500 + 500\<rfloor>
                in if demo_max_fuel < fuelUsed then Inl (vault_crash ''Wasmtime: Resource Exhaustion (Fuel limit exceeded)'')
                   else Inr (resultOutput, fuelUsed, vault_receipt V compiledLogic resultOutput)))"

section \<open>The agents\<close>

text \<open>The scenario of \<open>agent.ts\<close>: the second part of the first argument of that form.\<close>

definition scenario_arg :: "string list \<Rightarrow> string" where
  "scenario_arg args =
     (case find (\<lambda>a. starts_with a ''--scenario='') args of
        None \<Rightarrow> ''average-age''
      | Some a \<Rightarrow> let v = split_on CHR ''='' a ! 1 in if v = [] then ''average-age'' else v)"

text \<open>The scripts of the scenarios.\<close>

definition in_ticks :: "string \<Rightarrow> string" where "in_ticks s = [CHR 0x27] @ s @ [CHR 0x27]"

definition scenario_hypertension :: string where
  "scenario_hypertension =
     newline @ code_line 0 ''function(records) {'' @ code_line 0 ''  let count = 0;'' @
     code_line 0 ''  for (const p of records) {'' @
     code_line 0 (''    if (p.condition === '' @ in_ticks ''Hypertension'' @ '' && p.riskScore > 0.8) count++;'') @
     code_line 0 ''  }'' @
     code_line 0 (''  return { analysis: '' @ in_quotes ''Critical Hypertension Patients'' @ '', count };'') @ ''}''"

definition scenario_average_age :: string where
  "scenario_average_age =
     newline @ code_line 0 ''function(records) {'' @
     code_line 0 ''  if (records.length === 0) return { meanAge: 0 };'' @ code_line 0 ''  let sum = 0;'' @
     code_line 0 ''  for (const p of records) { sum += p.age; }'' @
     code_line 0 (''  return { analysis: '' @ in_quotes ''Global Age Mean'' @ '', meanAge: Math.round(sum / records.length) };'') @ ''}''"

definition scenario_ast_attack :: string where
  "scenario_ast_attack =
     newline @ code_line 0 (''  const fs = require('' @ in_ticks ''fs'' @ '');'') @
     code_line 0 (''  const hackers_data = fs.readFileSync('' @ in_ticks ''/etc/passwd'' @ '', '' @ in_ticks ''utf8'' @ '');'') @
     code_line 0 (''  return '' @ in_quotes ''HACKED: '' @ '' + hackers_data;'')"

definition scenario_fuel_exhaustion :: string where
  "scenario_fuel_exhaustion =
     newline @ code_line 0 ''function(records) {'' @ code_line 0 ''  let infinite = 1;'' @
     code_line 0 ''  while(true) {'' @ code_line 0 ''    infinite++;'' @
     code_line 0 ''    if (infinite < 0) break; // Bypass simple static checks'' @ code_line 0 ''  }'' @
     code_line 0 (''  return { status: '' @ in_quotes ''This will never finish'' @ '' };'') @ ''}''"

text \<open>What it sends; \<open>None\<close>: it ends with an error.\<close>

definition scenario_payload :: "string \<Rightarrow> string option" where
  "scenario_payload s =
     (if s = ''hypertension'' then Some (compile_analysis scenario_hypertension (Some ''HypertensionAnalytics''))
      else if s = ''average-age'' then Some (compile_analysis scenario_average_age (Some ''AgeAnalytics''))
      else if s = ''ast-attack'' then Some (compile_raw scenario_ast_attack (Some ''MalwareAST''))
      else if s = ''fuel-exhaustion'' then Some (compile_analysis scenario_fuel_exhaustion (Some ''LogicBomb''))
      else None)"

text \<open>The scenario and the address of \<open>agent-network.ts\<close>, from the joined arguments.\<close>

definition network_scenario :: "string option \<Rightarrow> string \<Rightarrow> string" where
  "network_scenario configScenario rawArgs =
     (if configScenario = Some ''hypertension'' \<or> js_includes rawArgs ''--scenario=hypertension'' then ''hypertension'' else ''average-age'')"

fun network_address :: "string \<Rightarrow> string" where
  "network_address [] = ''localhost:50051''"
| "network_address (c # cs) =
     (if starts_with (c # cs) ''--address='' \<and> takeWhile (\<lambda>d. \<not> is_space d) (drop 10 (c # cs)) \<noteq> []
      then takeWhile (\<lambda>d. \<not> is_space d) (drop 10 (c # cs))
      else network_address cs)"

section \<open>A packed analysis is what the SDK checks and runs\<close>

lemma js_trim_parts: "\<exists>a b. s = a @ js_trim s @ b \<and> (\<forall>c\<in>set (a @ b). is_space c)"
proof -
  let ?t = "dropWhile is_space s"
  have "s = takeWhile is_space s @ ?t" by simp
  moreover have "?t = rev (dropWhile is_space (rev ?t)) @ rev (takeWhile is_space (rev ?t))"
    by (metis rev_append rev_rev_ident takeWhile_dropWhile_id)
  ultimately have "s = takeWhile is_space s @ js_trim s @ rev (takeWhile is_space (rev ?t))"
    by (simp add: js_trim_def trim_start_def trim_end_def)
  then show ?thesis
    by (intro exI [of _ "takeWhile is_space s"] exI [of _ "rev (takeWhile is_space (rev ?t))"]) (auto dest: set_takeWhileD)
qed

lemma js_trim_subset: "set (js_trim s) \<subseteq> set s"
  using js_trim_parts [of s] by (metis Un_upper1 Un_upper2 order_trans set_append)

lemma js_trim_nonempty: "c \<in> set s \<Longrightarrow> \<not> is_space c \<Longrightarrow> js_trim s \<noteq> []"
  using js_trim_parts [of s] by (metis append_Nil)

lemma body_packable:
  assumes "CHR ''@'' \<notin> set f" and "CHR ''}'' \<notin> set name"
  shows "packable ''wasi_v1'' name (executable_body f)"
proof -
  have "CHR ''@'' \<notin> set (executable_body f)"
    unfolding executable_body_def
    by (rule contra_subsetD [OF js_trim_subset]) (use assms(1) in \<open>simp add: newline_def code_line_def tabs_def in_quotes_def\<close>)
  moreover have "executable_body f \<noteq> []"
    unfolding executable_body_def
    by (rule js_trim_nonempty [of "CHR ''c''"]) (simp_all add: is_space_def code_of_def)
  ultimately show ?thesis using assms(2)
    by (simp add: packable_def no_mark_no_end) (simp add: executable_body_def js_trim_idem)
qed

lemma compile_analysis_pack: "compile_analysis f (Some name) = pack ''wasi_v1'' name (executable_body f)"
  by (simp add: compile_analysis_def pack_def newline_def)

lemma compiled_analysis_runs:
  assumes "CHR ''@'' \<notin> set f" and "CHR ''}'' \<notin> set name"
  shows "extract_logic (compile_analysis f (Some name)) = Some (executable_body f)"
    and "normalize_logic_source (compile_analysis f (Some name)) = executable_body f"
  using extract_logic_pack [OF body_packable [OF assms]] normalize_pack [OF body_packable [OF assms]]
  by (simp_all add: compile_analysis_pack)

section \<open>The guardian forgets every other time\<close>

lemma re_search_splits: "re_search r b a = Some (p, q) \<Longrightarrow> rev (fst q) @ snd q = rev b @ a"
proof (induction a arbitrary: b)
  case Nil
  then have "q \<in> set (re_match r (b, []))"
    by (simp add: re_search.simps [of r b "[]"] split: list.splits)
  from re_match_consumes [OF this] show ?case by (auto simp: consumes_def)
next
  case (Cons c a)
  show ?case
  proof (cases "re_match r (b, c # a)")
    case Nil
    with Cons.prems have "re_search r (c # b) a = Some (p, q)" by (simp add: re_search.simps [of r b "c # a"])
    from Cons.IH [OF this] show ?thesis by simp
  next
    case (Cons t ts)
    with Cons.prems have "q \<in> set (re_match r (b, c # a))" by (simp add: re_search.simps [of r b "c # a"])
    from re_match_consumes [OF this] show ?thesis by (auto simp: consumes_def)
  qed
qed

lemma test_fresh: "fst (test_global r s 0) = re_test r s"
  by (auto simp: test_global_def re_test_def split: option.splits)

lemma test_failed: "test_global r s i = (False, j) \<Longrightarrow> j = 0"
  by (auto simp: test_global_def split: if_splits option.splits)

text \<open>A guardian none of whose patterns is in the middle of a text rejects exactly what matches one of them.\<close>

lemma fresh_guardian_rejects:
  "fst (guardian_inspect (fresh_guardian rs) code) \<longleftrightarrow> (\<exists>r\<in>set rs. re_test r code)"
proof (induction rs)
  case (Cons r rs)
  have "fst (test_global r code 0) = re_test r code" by (rule test_fresh)
  with Cons show ?case by (auto simp: fresh_guardian_def split: prod.splits bool.splits)
qed (simp add: fresh_guardian_def)

text \<open>Accepting a text brings it back to that state.\<close>

lemma accepting_resets: "guardian_inspect G code = (False, G') \<Longrightarrow> G' = fresh_guardian (map fst G)"
proof (induction G code arbitrary: G' rule: guardian_inspect.induct)
  case (2 r i G code)
  then show ?case by (auto simp: fresh_guardian_def split: prod.splits bool.splits dest: test_failed)
qed (simp add: fresh_guardian_def)

lemma inspect_unmatched:
  "\<forall>r\<in>set rs. \<not> re_test r code \<Longrightarrow> guardian_inspect (fresh_guardian rs) code = (False, fresh_guardian rs)"
proof -
  assume a: "\<forall>r\<in>set rs. \<not> re_test r code"
  obtain b G where g: "guardian_inspect (fresh_guardian rs) code = (b, G)" by (cases "guardian_inspect (fresh_guardian rs) code")
  with a fresh_guardian_rejects [of rs code] have "\<not> b" by auto
  moreover have "map fst (fresh_guardian rs) = rs" by (simp add: fresh_guardian_def comp_def)
  ultimately show ?thesis using g accepting_resets [of "fresh_guardian rs" code G] by simp
qed

lemma inspect_prefix:
  assumes "\<forall>r\<in>set xs. \<not> re_test r code"
  shows "guardian_inspect (fresh_guardian xs @ G) code =
    (case guardian_inspect G code of (b, G') \<Rightarrow> (b, fresh_guardian xs @ G'))"
  using assms
proof (induction xs)
  case (Cons r xs)
  have "test_global r code 0 = (False, 0)"
    using Cons.prems test_fresh [of r code] test_failed by (metis list.set_intros(1) prod.collapse)
  with Cons show ?case by (simp add: fresh_guardian_def split: prod.splits)
qed (simp add: fresh_guardian_def)

text \<open>A payload that one pattern finds once, and no other finds, is rejected the first time and accepted the
  second time it is sent.\<close>

lemma resubmitted_payload_accepted:
  assumes "\<forall>x\<in>set xs. \<not> re_test x code" and "\<forall>y\<in>set ys. \<not> re_test y code"
    and "re_search r [] code = Some (p, (b, a))" and "re_search r b a = None"
  shows "\<exists>G. guardian_inspect (fresh_guardian (xs @ r # ys)) code = (True, G) \<and>
     guardian_inspect G code = (False, fresh_guardian (xs @ r # ys))"
proof -
  have s: "code = rev b @ a" using re_search_splits [OF assms(3)] by simp
  have f: "fresh_guardian (xs @ r # ys) = fresh_guardian xs @ (r, 0) # fresh_guardian ys" by (simp add: fresh_guardian_def)
  have 1: "test_global r code 0 = (True, length b)" using assms(3) by (simp add: test_global_def)
  have 2: "test_global r code (length b) = (False, 0)" using assms(4) by (simp add: test_global_def s)
  have "guardian_inspect (fresh_guardian (xs @ r # ys)) code = (True, fresh_guardian xs @ (r, length b) # fresh_guardian ys)"
    unfolding f by (simp add: inspect_prefix [OF assms(1)] 1)
  moreover have "guardian_inspect (fresh_guardian xs @ (r, length b) # fresh_guardian ys) code = (False, fresh_guardian (xs @ r # ys))"
    unfolding f by (simp add: inspect_prefix [OF assms(1)] 2 inspect_unmatched [OF assms(2)])
  ultimately show ?thesis by blast
qed

text \<open>The guardian of the demo, and a payload that pollutes the prototype.\<close>

definition polluting_code :: string where "polluting_code = ''o.__proto__''"

lemma pollution_passes_second_time:
  "\<exists>G. guardian_inspect (fresh_guardian restricted_patterns) polluting_code = (True, G) \<and>
     fst (guardian_inspect G polluting_code) = False"
  by (simp add: restricted_patterns_def fresh_guardian_def polluting_code_def test_global_def re_search.simps star_def plus_def
      re_match_lit white_def word_boundary.simps is_word_def is_digit_def is_upper_def is_lower_def code_of_def is_space_def advances_def)

section \<open>What the sandbox tells apart\<close>

lemma loops_seen: "has_loop ''while (true) {}'' \<and> has_loop ''for(;;){}'' \<and> \<not> has_loop ''while(1){}''"
  by (simp add: has_loop_def re_test_def re_search.simps re_match_lit star_def white_def is_space_def code_of_def advances_def)

text \<open>The receipt holds no secret: whoever knows a logic and an output can compute it.\<close>

lemma vault_receipt_public:
  assumes "vault_execute V code = Inr (out, fuel, receipt)"
    and "vn_sha256 V' = vn_sha256 V" and "vn_sha512 V' = vn_sha512 V" and "vn_stringify V' = vn_stringify V" and "vn_num V' = vn_num V"
  shows "receipt = vault_receipt V' code out \<and> fuel \<le> demo_max_fuel"
proof -
  have "receipt = vault_receipt V code out" "fuel \<le> demo_max_fuel"
    using assms(1) by (simp_all add: vault_execute_def Let_def not_less split: if_split_asm sum.split_asm)
  moreover have "vault_receipt V' code out = vault_receipt V code out"
    unfolding vault_receipt_def by (simp only: assms(2-5))
  ultimately show ?thesis by simp
qed

lemma unknown_scenario_stops:
  "scenario_payload s = None \<longleftrightarrow> s \<notin> {''hypertension'', ''average-age'', ''ast-attack'', ''fuel-exhaustion''}"
  by (simp add: scenario_payload_def)

section \<open>What becomes of the scenarios\<close>

lemma executable_body_starts: "\<exists>r. executable_body f = ''const _clientLogic = '' @ f @ r"
  by (simp add: executable_body_def js_trim_def trim_start_def trim_end_def newline_def code_line_def tabs_def in_quotes_def
      is_space_def code_of_def)

lemma has_loop_text: "has_loop (a @ ''while(true)'' @ b)"
  unfolding has_loop_def re_test_iff
  by (intro exI [of _ a] exI [of _ "''while(true)'' @ b"])
    (simp add: re_match_lit star_def white_def is_space_def code_of_def advances_def)

lemma require_text: "re_test (cats [lit ''require'', star white, lit ''('']) (a @ ''require('' @ b)"
  unfolding re_test_iff
  by (intro exI [of _ a] exI [of _ "''require('' @ b"])
    (simp add: re_match_lit star_def white_def is_space_def code_of_def advances_def)

text \<open>The logic bomb never runs in the sandbox of the demo, and a fresh guardian rejects the attack.\<close>

lemma logic_bomb_stopped:
  assumes "scenario_payload ''fuel-exhaustion'' = Some p"
  shows "vault_execute V p = Inl (vault_crash ''Wasmtime: Resource Exhaustion (Fuel consumed overflow)'')"
proof -
  obtain r where r: "executable_body scenario_fuel_exhaustion = ''const _clientLogic = '' @ scenario_fuel_exhaustion @ r"
    using executable_body_starts by blast
  have "\<exists>x y. scenario_fuel_exhaustion = x @ ''while(true)'' @ y"
    unfolding scenario_fuel_exhaustion_def code_line_def tabs_def newline_def
    by (intro exI [of _ "newline @ ''function(records) {'' @ newline @ ''  let infinite = 1;'' @ newline @ ''  ''"] exI)
      (simp add: newline_def)
  then obtain x y where f: "scenario_fuel_exhaustion = x @ ''while(true)'' @ y" by blast
  have "p = compile_analysis scenario_fuel_exhaustion (Some ''LogicBomb'')" using assms by (simp add: scenario_payload_def)
  then have "p = (''@LIOP{wasi_v1,LogicBomb}'' @ newline @ ''const _clientLogic = '' @ x) @ ''while(true)'' @ (y @ r @ newline @ ''@END'')"
    by (simp only: compile_analysis_def r option.case) (simp add: f)
  then have "has_loop p" by (simp only: has_loop_text)
  then show ?thesis by (simp add: vault_execute_def Let_def)
qed

lemma attack_rejected:
  assumes "scenario_payload ''ast-attack'' = Some p"
  shows "fst (guardian_inspect (fresh_guardian restricted_patterns) p)"
proof -
  have c: "p = compile_raw scenario_ast_attack (Some ''MalwareAST'')" using assms by (simp add: scenario_payload_def)
  have "\<exists>a b. scenario_ast_attack = a @ ''require('' @ b"
    unfolding scenario_ast_attack_def code_line_def tabs_def newline_def
    by (intro exI [of _ "newline @ ''  const fs = ''"] exI) (simp add: newline_def)
  then obtain a b where "scenario_ast_attack = a @ ''require('' @ b" by blast
  with c have "p = (''@LIOP{raw,MalwareAST}'' @ newline @ a) @ ''require('' @ (b @ newline @ ''@END'')"
    by (simp add: compile_raw_def)
  then have "re_test (cats [lit ''require'', star white, lit ''('']) p" by (simp only: require_text)
  moreover have "cats [lit ''require'', star white, lit ''(''] \<in> set restricted_patterns"
    unfolding restricted_patterns_def list.set by (rule insertI1)
  ultimately show ?thesis unfolding fresh_guardian_rejects by blast
qed

end
