(* ===== verification/DemoNodes.thy ===== *)
theory DemoNodes
  imports DemoVault
begin

text \<open>
  The smaller demos: the educational one (compiler of binary capsules, guardian, simulated sandbox and the
  tool around them), the production audit, and what the nodes of the sentinel mesh compute. Files are
  their contents; JSON, digests and the clock are parameters. Records of the data files are objects whose
  risk is a number.
\<close>

section \<open>Educational demo: the capsule\<close>

definition capsule_magic :: bytes where "capsule_magic = [0x00, 0x61, 0x73, 0x6d]"

text \<open>\<open>LIOPCompiler.compile\<close>; \<open>stringify\<close> writes the manifest.\<close>

definition capsule_manifest :: "string list \<Rightarrow> int \<Rightarrow> jsval" where
  "capsule_manifest capabilities now =
     JObj [(''version'', JStr ''1.0.0''), (''capabilities'', JArr (map JStr capabilities)),
           (''timestamp'', JNum (Fin (of_int now))), (''entrypoint'', JStr ''main'')]"

definition compile_capsule :: "(jsval \<Rightarrow> string) \<Rightarrow> string \<Rightarrow> string list \<Rightarrow> int \<Rightarrow> bytes" where
  "compile_capsule stringify jsCode capabilities now =
     (let manifestBuffer = utf8 (stringify (capsule_manifest capabilities now))
      in capsule_magic @ be32 (length manifestBuffer) @ manifestBuffer @ utf8 jsCode)"

text \<open>The layout read back: magic, manifest, code.\<close>

definition open_capsule :: "bytes \<Rightarrow> (string \<times> string) option" where
  "open_capsule p =
     (if take 4 p \<noteq> capsule_magic \<or> length p < 8 then None
      else let n = read_be32 (drop 4 p); rest = drop 8 p
           in if length rest < n then None else Some (utf8_text (take n rest), utf8_text (drop n rest)))"

section \<open>Educational demo: the guardian\<close>

definition forbidden_words :: "string list" where
  "forbidden_words = [''fetch'', ''http'', ''process'', ''require'', ''eval'', ''os'', ''fs.readSync'', ''XMLHttpRequest'']"

definition validate_capsule :: "bytes \<Rightarrow> bool" where
  "validate_capsule payload \<longleftrightarrow> \<not> (\<exists>w\<in>set forbidden_words. js_includes (utf8_text payload) w)"

section \<open>Educational demo: the sandbox\<close>

definition edu_max_fuel :: nat where "edu_max_fuel = 50000"
definition fuel_per_record :: nat where "fuel_per_record = 1200"

definition high_risk :: "jsval \<Rightarrow> bool" where
  "high_risk record =
     (case prop_of record ''risk_score'' of JNum (Fin x) \<Rightarrow> 0.8 < x | JNum PosInf \<Rightarrow> True | _ \<Rightarrow> False)"

definition risk_alert :: "jsval \<Rightarrow> jsval" where
  "risk_alert record = JObj [(''id'', prop_of record ''id''), (''alert'', JStr ''HIGH_RISK_AUDIT_REQUIRED'')]"

definition fuel_trap :: string where
  "fuel_trap = ''[WasiSandbox] TRAP: Fuel Exhaustion (Infinite Loop detected or Budget exceeded)''"

text \<open>The loop over the records: the results and the fuel consumed.\<close>

fun edu_loop :: "nat \<Rightarrow> jsval list \<Rightarrow> jsval list \<Rightarrow> string + (jsval list \<times> nat)" where
  "edu_loop consumed results [] = Inr (results, consumed)"
| "edu_loop consumed results (r # rs) =
     (if edu_max_fuel < consumed + fuel_per_record then Inl fuel_trap
      else edu_loop (consumed + fuel_per_record) (if high_risk r then results @ [risk_alert r] else results) rs)"

record edu_env =
  eu_records :: "jsval list"
  eu_stringify :: "jsval \<Rightarrow> string"
  eu_sha256 :: "bytes \<Rightarrow> bytes"
  eu_md5 :: "bytes \<Rightarrow> bytes"
  eu_now :: int

definition edu_journal :: "edu_env \<Rightarrow> bytes \<Rightarrow> jsval list \<Rightarrow> jsval" where
  "edu_journal U payload results =
     JObj [(''timestamp'', JNum (Fin (of_int (eu_now U)))), (''input_hash'', JStr (hex_text (eu_sha256 U payload))),
           (''output_summary'', JStr (''Found '' @ nat_str (length results) @ '' anomalies.''))]"

definition edu_receipt :: "edu_env \<Rightarrow> jsval \<Rightarrow> jsval" where
  "edu_receipt U journal =
     JObj [(''image_id'', JStr ''7fbc82... (LIOP_WASM_V1)''), (''journal'', journal),
           (''seal'', JStr (''0x'' @ text_digest (eu_md5 U) (eu_stringify U journal)))]"

definition edu_execute :: "edu_env \<Rightarrow> bytes \<Rightarrow> string + (jsval list \<times> jsval)" where
  "edu_execute U payload =
     (case edu_loop 0 [] (eu_records U) of
        Inl e \<Rightarrow> Inl e
      | Inr (results, consumed) \<Rightarrow> Inr (results, edu_receipt U (edu_journal U payload results)))"

definition edu_response :: "edu_env \<Rightarrow> jsval list \<Rightarrow> jsval \<Rightarrow> string" where
  "edu_response U result receipt =
     eu_stringify U (JObj [(''status'', JStr ''SUCCESS''), (''results'', JArr result),
       (''verification'', JObj [(''zk_receipt'', receipt), (''journal'', prop_of receipt ''journal'')])])"

text \<open>The tool of the server: thrown errors are \<open>Inl\<close>, results carry whether they report an error.\<close>

definition audit_patient_data :: "edu_env \<Rightarrow> bytes option \<Rightarrow> string + (string \<times> bool)" where
  "audit_patient_data U wasmPayload =
     (case wasmPayload of
        None \<Rightarrow> Inl ''Missing WASM Payload in Logic-on-Origin request.''
      | Some p \<Rightarrow>
          if \<not> validate_capsule p then Inl ''SECURITY_VIOLATION: Forbidden patterns found in logic.''
          else case edu_execute U p of
                 Inl e \<Rightarrow> Inr (''Execution Error: '' @ e, True)
               | Inr (result, receipt) \<Rightarrow> Inr (edu_response U result receipt, False))"

text \<open>The bridge that stands for the transport calls guardian and sandbox itself, and lets errors through.\<close>

definition server_node_exec :: "edu_env \<Rightarrow> bytes \<Rightarrow> string + (string \<times> bool)" where
  "server_node_exec U wasmPayload =
     (if \<not> validate_capsule wasmPayload then Inl ''SECURITY_VIOLATION: Guardian AST rejected the payload.''
      else bind_sum (edu_execute U wasmPayload) (\<lambda>(result, receipt). Inr (edu_response U result receipt, False)))"

section \<open>Production audit\<close>

definition number_of :: "jsval \<Rightarrow> real option" where
  "number_of v = (case v of JNum (Fin x) \<Rightarrow> Some x | _ \<Rightarrow> None)"

definition at_least :: "real \<Rightarrow> jsval \<Rightarrow> bool" where
  "at_least m r = (case number_of (prop_of r ''risk_score'') of Some x \<Rightarrow> m \<le> x | None \<Rightarrow> False)"

text \<open>The tool \<open>audit_records\<close>; \<open>minRisk\<close> has a default.\<close>

definition audit_records :: "(jsval \<Rightarrow> string) \<Rightarrow> jsval list \<Rightarrow> string \<Rightarrow> real option \<Rightarrow> string \<times> bool" where
  "audit_records stringify data auditId minRisk =
     (let anomalies = filter (at_least (case minRisk of None \<Rightarrow> 0.7 | Some m \<Rightarrow> m)) data
      in (stringify (JObj [(''status'', JStr ''SUCCESS''), (''audit_id'', JStr auditId),
            (''found_count'', JNum (Fin (of_nat (length anomalies)))),
            (''anomalies'', JArr (map (\<lambda>a. JObj [(''id'', prop_of a ''id''), (''risk'', prop_of a ''risk_score'')]) anomalies))]), False))"

section \<open>Sentinel mesh\<close>

text \<open>The address the nexus publishes: a TCP address that is no web socket, else the first one.\<close>

definition nexus_multiaddr :: "string list \<Rightarrow> string \<Rightarrow> string" where
  "nexus_multiaddr multiaddrs peerId =
     (let tcpAddr = (case find (\<lambda>a. js_includes a ''/tcp/'' \<and> \<not> js_includes a ''/ws'') multiaddrs of
                       Some a \<Rightarrow> if a = [] then (case multiaddrs of [] \<Rightarrow> ''undefined'' | x # _ \<Rightarrow> x) else a
                     | None \<Rightarrow> (case multiaddrs of [] \<Rightarrow> ''undefined'' | x # _ \<Rightarrow> x))
      in tcpAddr @ ''/p2p/'' @ peerId)"

text \<open>One chunk of standard input at the sentinel: a response per line that is JSON and gets one. A line cut
  by the border of two chunks is no JSON in either of them.\<close>

definition sentinel_chunk :: "(string \<Rightarrow> 'q option) \<Rightarrow> ('q \<Rightarrow> string option) \<Rightarrow> string \<Rightarrow> string list" where
  "sentinel_chunk parse answer input =
     List.map_filter (\<lambda>line. if js_trim line = [] then None else Option.bind (parse line) answer) (split_on (CHR 0x0A) input)"

definition sentinel_input :: "(string \<Rightarrow> 'q option) \<Rightarrow> ('q \<Rightarrow> string option) \<Rightarrow> string list \<Rightarrow> string list" where
  "sentinel_input parse answer chunks = concat (map (sentinel_chunk parse answer) chunks)"

section \<open>Facts\<close>

text \<open>The capsule is read back as what was packed.\<close>

lemma capsule_roundtrip:
  assumes "length (utf8 (stringify (capsule_manifest capabilities now))) < 2 ^ 32"
  shows "open_capsule (compile_capsule stringify jsCode capabilities now) =
     Some (stringify (capsule_manifest capabilities now), jsCode)"
proof -
  let ?m = "utf8 (stringify (capsule_manifest capabilities now))"
  have r: "read_be32 (be32 (length ?m) @ rest) = length ?m" for rest
    unfolding read_be32_be32 using assms by (rule mod_less)
  have t: "take 4 (compile_capsule stringify jsCode capabilities now) = capsule_magic"
    "drop 4 (compile_capsule stringify jsCode capabilities now) = be32 (length ?m) @ ?m @ utf8 jsCode"
    "drop 8 (compile_capsule stringify jsCode capabilities now) = ?m @ utf8 jsCode"
    "\<not> length (compile_capsule stringify jsCode capabilities now) < 8"
    by (simp_all add: compile_capsule_def capsule_magic_def Let_def)
  show ?thesis unfolding open_capsule_def t r by (simp add: t(4))
qed

text \<open>The word \<open>os\<close> is inside ordinary words: a logic that reads the diagnosis is refused.\<close>

lemma includes_trans: "js_includes s w \<Longrightarrow> js_includes w v \<Longrightarrow> js_includes s v"
  unfolding js_includes_iff by (metis append.assoc)

lemma diagnosis_refused:
  assumes "js_includes (utf8_text payload) ''diagnosis''"
  shows "\<not> validate_capsule payload"
proof -
  have "js_includes ''diagnosis'' ''os''" by (simp add: js_includes_def)
  from includes_trans [OF assms this] show ?thesis by (auto simp: validate_capsule_def forbidden_words_def)
qed

text \<open>The loop ends with a trap exactly when there are more than 41 records; the injected logic plays no part
  in the results.\<close>

lemma edu_loop_result:
  "edu_loop consumed results rs =
     (if rs = [] \<or> consumed + length rs * fuel_per_record \<le> edu_max_fuel
      then Inr (results @ map risk_alert (filter high_risk rs), consumed + length rs * fuel_per_record) else Inl fuel_trap)"
  by (induction consumed results rs rule: edu_loop.induct) (auto simp: fuel_per_record_def edu_max_fuel_def)

lemma edu_execution:
  "edu_execute U payload =
     (if length (eu_records U) \<le> 41
      then Inr (map risk_alert (filter high_risk (eu_records U)),
                edu_receipt U (edu_journal U payload (map risk_alert (filter high_risk (eu_records U)))))
      else Inl fuel_trap)"
proof -
  have "length (eu_records U) * fuel_per_record \<le> edu_max_fuel \<longleftrightarrow> length (eu_records U) \<le> 41"
    by (simp add: fuel_per_record_def edu_max_fuel_def) presburger
  then show ?thesis by (auto simp: edu_execute_def edu_loop_result)
qed

lemma injected_logic_ignored:
  assumes "edu_execute U p = Inr (results, receipt)" and "edu_execute U q = Inr (results', receipt')"
  shows "results = results'"
  using assms unfolding edu_execution by (simp split: if_split_asm)

text \<open>The tool and the bridge agree on what is accepted and what is answered.\<close>

lemma bridge_agrees_with_tool:
  "server_node_exec U p = Inr (text, False) \<longleftrightarrow> audit_patient_data U (Some p) = Inr (text, False)"
  by (cases "validate_capsule p"; cases "edu_execute U p") (simp_all add: server_node_exec_def audit_patient_data_def bind_sum_def split: prod.splits)

lemma number_of_Some: "number_of v = Some x \<longleftrightarrow> v = JNum (Fin x)"
  by (simp add: number_of_def split: jsval.split jsnum.split)

lemma at_least_iff: "at_least m r \<longleftrightarrow> (\<exists>x. prop_of r ''risk_score'' = JNum (Fin x) \<and> m \<le> x)"
  unfolding at_least_def number_of_Some [symmetric] by (simp split: option.split)

lemma audited_records:
  "set (filter (at_least m) data) = {r \<in> set data. \<exists>x. prop_of r ''risk_score'' = JNum (Fin x) \<and> m \<le> x}"
  by (simp only: set_filter at_least_iff)

text \<open>A request cut in two by the chunks of the input is lost, although the whole line would be answered.\<close>

lemma cut_line_lost:
  assumes "parse a = None" and "parse b = None" and "CHR 0x0A \<notin> set a" and "CHR 0x0A \<notin> set b"
  shows "sentinel_input parse answer [a, b] = []"
proof -
  have s: "split_on d x = [x]" if "d \<notin> set x" for d x using that by (induction x) auto
  show ?thesis using assms by (simp add: sentinel_input_def sentinel_chunk_def s List.map_filter_simps)
qed

end
