(* ===== verification/Maintenance.thy ===== *)
theory Maintenance
  imports DemoVault Router
begin

text \<open>
  The scripts of the repository: \<open>scripts/sanitize-changelog.js\<close>, \<open>scripts/generate-llms-full.ts\<close>,
  \<open>sync-metadata.ts\<close> and \<open>copy-protos.ts\<close> of the SDK, and its health check \<open>bin/check-health.ts\<close>. Files
  are their contents, a directory is a tree; the random numbers of the changelog script, JSON and the
  network are parameters; what is printed is left out except for the health check.
\<close>

section \<open>Changelog: lines and blocks\<close>

definition end_of_line :: re where
  "end_of_line = Cat (opt (chr (CHR 0x0D))) (chr (CHR 0x0A))"

definition branch_name :: re where
  "branch_name = plus (Pred (\<lambda>c. is_word c \<or> c = CHR ''-'' \<or> c = CHR ''/''))"

definition conflict_markers :: "re list" where
  "conflict_markers =
     [cats [lit ''<<<<<<< HEAD'', end_of_line], cats [lit ''<<<<<<< '', branch_name, end_of_line],
      cats [lit ''======='', end_of_line], cats [lit ''>>>>>>> '', branch_name, end_of_line]]"

definition remove_markers :: "string \<Rightarrow> string" where
  "remove_markers content = fold (\<lambda>r s. re_replace_all r (\<lambda>_. []) s) conflict_markers content"

text \<open>\<open>content.split(/\r?\n/)\<close>.\<close>

definition drop_cr :: "string \<Rightarrow> string" where
  "drop_cr s = (if s \<noteq> [] \<and> last s = CHR 0x0D then butlast s else s)"

definition text_lines :: "string \<Rightarrow> string list" where
  "text_lines s = (let ps = split_on (CHR 0x0A) s in map drop_cr (butlast ps) @ [last ps])"

record block =
  bk_header :: string
  bk_content :: "string list"

definition is_version_header :: "string \<Rightarrow> bool" where
  "is_version_header line \<longleftrightarrow>
     starts_with line ''# ['' \<or> starts_with line ''## ['' \<or> starts_with line ''# 1.0.0'' \<or> starts_with line ''# 1.0.0-alpha''"

text \<open>The loop over the lines, with the lines of the head, the blocks so far and the current one.\<close>

fun read_blocks :: "string list \<Rightarrow> string list \<Rightarrow> block list \<Rightarrow> block option \<Rightarrow> string list \<times> block list" where
  "read_blocks [] header blocks current = (header, blocks @ (case current of None \<Rightarrow> [] | Some b \<Rightarrow> [b]))"
| "read_blocks (l # ls) header blocks current =
     (if is_version_header l
      then read_blocks ls header (blocks @ (case current of None \<Rightarrow> [] | Some b \<Rightarrow> [b])) (Some \<lparr>bk_header = l, bk_content = []\<rparr>)
      else case current of
             Some b \<Rightarrow> read_blocks ls header blocks (Some (b\<lparr>bk_content := bk_content b @ [l]\<rparr>))
           | None \<Rightarrow> read_blocks ls (header @ [l]) blocks None)"

section \<open>Changelog: versions\<close>

text \<open>The group of \<open>/\[([^\]]+)\]/\<close>.\<close>

fun bracketed :: "string \<Rightarrow> string option" where
  "bracketed [] = None"
| "bracketed (c # cs) =
     (let v = takeWhile (\<lambda>d. d \<noteq> CHR '']'') cs
      in if c = CHR ''['' \<and> v \<noteq> [] \<and> length v < length cs then Some v else bracketed cs)"

text \<open>Digits, with what follows them; then the group of the second expression, from the start of a text.\<close>

definition digits1 :: "string \<Rightarrow> (string \<times> string) option" where
  "digits1 s = (let d = takeWhile is_digit s in if d = [] then None else Some (d, drop (length d) s))"

definition after_dot :: "string \<Rightarrow> string option" where
  "after_dot s = (case s of c # r \<Rightarrow> if c = CHR ''.'' then Some r else None | [] \<Rightarrow> None)"

definition semver_text :: "string \<Rightarrow> string option" where
  "semver_text s =
     Option.bind (digits1 s) (\<lambda>(a, s1). Option.bind (after_dot s1) (\<lambda>s2. Option.bind (digits1 s2) (\<lambda>(b, s3).
     Option.bind (after_dot s3) (\<lambda>s4. Option.bind (digits1 s4) (\<lambda>(c, s5).
       Some (a @ ''.'' @ b @ ''.'' @ c @
         takeWhile (\<lambda>d. is_digit d \<or> is_upper d \<or> is_lower d \<or> d = CHR ''.'' \<or> d = CHR ''-'') s5))))))"

fun hash_version :: "string \<Rightarrow> string option" where
  "hash_version [] = None"
| "hash_version (c # cs) =
     (case (if c = CHR ''#'' \<and> cs \<noteq> [] \<and> is_space (hd cs) then semver_text (dropWhile is_space cs) else None) of
        Some v \<Rightarrow> Some v
      | None \<Rightarrow> hash_version cs)"

definition block_version :: "string \<Rightarrow> string option" where
  "block_version header = (case bracketed header of Some v \<Rightarrow> Some v | None \<Rightarrow> hash_version header)"

definition list_items :: "string list \<Rightarrow> string list" where
  "list_items content = filter (\<lambda>l. starts_with (js_trim l) ''* '') content"

fun push_missing :: "string list \<Rightarrow> string list \<Rightarrow> string list" where
  "push_missing [] content = content"
| "push_missing (item # items) content =
     push_missing items (if item \<in> set content then content else content @ [item])"

text \<open>The map from versions to blocks; \<open>rand\<close> gives the text of the random number for the n-th block.\<close>

fun unique_blocks :: "(nat \<Rightarrow> string) \<Rightarrow> nat \<Rightarrow> block list \<Rightarrow> (string \<times> block) list \<Rightarrow> (string \<times> block) list" where
  "unique_blocks rand n [] m = m"
| "unique_blocks rand n (b # bs) m =
     unique_blocks rand (Suc n) bs
       (case block_version (bk_header b) of
          Some v \<Rightarrow>
            (case map_of m v of
               None \<Rightarrow> AList.update v b m
             | Some b' \<Rightarrow> AList.update v (b'\<lparr>bk_content := push_missing (list_items (bk_content b)) (bk_content b')\<rparr>) m)
        | None \<Rightarrow> AList.update (''unknown-'' @ rand n) b m)"

definition keeps_version :: "string \<Rightarrow> string \<Rightarrow> bool" where
  "keeps_version branch ver =
     (if branch = ''beta'' then js_includes ver ''-beta''
      else if branch = ''alpha'' then js_includes ver ''-alpha''
      else \<not> js_includes ver ''-alpha'' \<and> \<not> js_includes ver ''-beta'' \<and> \<not> js_includes ver ''-canary'' \<and> \<not> js_includes ver ''-rc'')"

definition format_block :: "block \<Rightarrow> string" where
  "format_block b =
     (let blockContent = js_trim (js_join newline (bk_content b))
      in if blockContent \<noteq> [] then bk_header b @ newline @ newline @ blockContent else bk_header b)"

definition filtered_blocks :: "(nat \<Rightarrow> string) \<Rightarrow> string \<Rightarrow> block list \<Rightarrow> (string \<times> block) list" where
  "filtered_blocks rand branch blocks = filter (\<lambda>p. keeps_version branch (fst p)) (unique_blocks rand 0 blocks [])"

definition sanitize_changelog :: "(nat \<Rightarrow> string) \<Rightarrow> string \<Rightarrow> string \<Rightarrow> string" where
  "sanitize_changelog rand branch content =
     (case read_blocks (text_lines (remove_markers content)) [] [] None of
        (header, blocks) \<Rightarrow>
          js_join newline
            [js_trim (js_join newline header), [],
             js_join (newline @ newline @ newline) (map (\<lambda>p. format_block (snd p)) (filtered_blocks rand branch blocks)), []])"

text \<open>The branch: the argument, the variable, what git says, \<open>main\<close>.\<close>

definition changelog_branch :: "string option \<Rightarrow> string option \<Rightarrow> string option \<Rightarrow> string" where
  "changelog_branch arg ref git =
     (case truthy_string arg of Some b \<Rightarrow> b
      | None \<Rightarrow> (case truthy_string ref of Some b \<Rightarrow> b
        | None \<Rightarrow> (case git of Some b \<Rightarrow> js_trim b | None \<Rightarrow> ''main'')))"

section \<open>Changelog: what is kept\<close>

lemma push_missing_set: "set (push_missing items content) = set items \<union> set content"
  by (induction items content rule: push_missing.induct) auto

lemma push_missing_prefix: "\<exists>more. push_missing items content = content @ more"
  by (induction items content rule: push_missing.induct) (force, simp, metis append.assoc)

lemma unique_blocks_distinct: "distinct (map fst m) \<Longrightarrow> distinct (map fst (unique_blocks rand n bs m))"
  by (induction rand n bs m rule: unique_blocks.induct) (auto simp: distinct_update split: option.split)

definition holds_items :: "(string \<times> block) list \<Rightarrow> string \<Rightarrow> string list \<Rightarrow> bool" where
  "holds_items m v items \<longleftrightarrow> (\<exists>b. map_of m v = Some b \<and> set items \<subseteq> set (bk_content b))"

lemma holds_items_step:
  assumes "holds_items m v items" and "\<And>i. v \<noteq> ''unknown-'' @ rand i"
  shows "holds_items (unique_blocks rand n bs m) v items"
  using assms(1)
proof (induction bs arbitrary: n m)
  case (Cons b bs)
  show ?case
  proof (cases "block_version (bk_header b)")
    case None
    with Cons.prems assms(2) have "holds_items (AList.update (''unknown-'' @ rand n) b m) v items"
      by (simp add: holds_items_def update_conv' eq_commute)
    from Cons.IH [OF this] None show ?thesis by simp
  next
    case (Some w)
    show ?thesis
    proof (cases "map_of m w")
      case None
      with Cons.prems have "w \<noteq> v" by (auto simp: holds_items_def)
      with Cons.prems have "holds_items (AList.update w b m) v items" by (simp add: holds_items_def update_conv')
      from Cons.IH [OF this] Some None show ?thesis by simp
    next
      case (Some b')
      let ?m = "AList.update w (b'\<lparr>bk_content := push_missing (list_items (bk_content b)) (bk_content b')\<rparr>) m"
      have "holds_items ?m v items"
        using Cons.prems Some by (auto simp: holds_items_def update_conv' push_missing_set)
      from Cons.IH [OF this] Some \<open>block_version (bk_header b) = Some w\<close> show ?thesis by simp
    qed
  qed
qed simp

text \<open>Every list item under a version is found again under that version, however often its header occurs.\<close>

lemma merged_items_kept:
  assumes "b \<in> set bs" and "block_version (bk_header b) = Some v" and "\<And>i. v \<noteq> ''unknown-'' @ rand i"
  shows "holds_items (unique_blocks rand n bs m) v (list_items (bk_content b))"
  using assms(1)
proof (induction bs arbitrary: n m)
  case (Cons x bs)
  show ?case
  proof (cases "b = x")
    case True
    let ?m = "case map_of m v of None \<Rightarrow> AList.update v b m
      | Some b' \<Rightarrow> AList.update v (b'\<lparr>bk_content := push_missing (list_items (bk_content b)) (bk_content b')\<rparr>) m"
    have "holds_items ?m v (list_items (bk_content b))"
      by (auto simp: holds_items_def update_conv' push_missing_set list_items_def split: option.split)
    then have "holds_items (unique_blocks rand (Suc n) bs ?m) v (list_items (bk_content b))"
      by (rule holds_items_step [OF _ assms(3)])
    moreover have "unique_blocks rand n (x # bs) m = unique_blocks rand (Suc n) bs ?m"
      using assms(2) unfolding True by simp
    ultimately show ?thesis by simp
  next
    case False
    with Cons show ?thesis by simp
  qed
qed simp

text \<open>The published changelog has each version once, and exactly the versions its branch keeps.\<close>

lemma filtered_blocks_exact:
  "distinct (map fst (filtered_blocks rand branch blocks)) \<and>
   fst ` set (filtered_blocks rand branch blocks) = {v \<in> fst ` set (unique_blocks rand 0 blocks []). keeps_version branch v}"
proof -
  have "distinct (map fst (unique_blocks rand 0 blocks []))" by (rule unique_blocks_distinct) simp
  then show ?thesis by (auto simp: filtered_blocks_def distinct_map_filter)
qed

text \<open>No version is both stable and of a preview; a release candidate that names neither preview is dropped
  on every branch.\<close>

lemma branches_disjoint:
  assumes "branch \<in> {''alpha'', ''beta''}" and "other \<notin> {''alpha'', ''beta''}" and "keeps_version branch v"
  shows "\<not> keeps_version other v"
  using assms by (auto simp: keeps_version_def)

lemma release_candidate_dropped: "\<not> keeps_version branch ''2.0.0-rc.1''"
  by (simp add: keeps_version_def js_includes_def)

text \<open>Of a repeated block everything but its list items is lost, items written with a dash included.\<close>

lemma repeated_block_loses_lines:
  "map_of (unique_blocks rand 0
     [\<lparr>bk_header = ''## [1.2.0]'', bk_content = []\<rparr>, \<lparr>bk_header = ''## [1.2.0]'', bk_content = [''- fixed'']\<rparr>] []) ''1.2.0'' =
   Some \<lparr>bk_header = ''## [1.2.0]'', bk_content = []\<rparr>"
  by (simp add: block_version_def list_items_def js_trim_def trim_start_def trim_end_def is_space_def code_of_def)

text \<open>The lines are partitioned: head, and headers with the lines after them.\<close>

fun block_lines :: "block \<Rightarrow> string list" where
  "block_lines b = bk_header b # bk_content b"

lemma read_blocks_lines:
  "read_blocks ls h bs c = (header, blocks) \<Longrightarrow>
     (c = None \<longrightarrow> bs = [] \<longrightarrow> h @ ls = header @ concat (map block_lines blocks)) \<and>
     (\<forall>b. c = Some b \<longrightarrow> header = h \<and> concat (map block_lines bs) @ block_lines b @ ls = concat (map block_lines blocks))"
proof (induction ls h bs c rule: read_blocks.induct)
  case (2 l ls h bs c)
  show ?case
  proof (cases "is_version_header l")
    case True
    with 2 show ?thesis by (auto split: option.splits)
  next
    case False
    with 2 show ?thesis by (cases c) auto
  qed
qed (auto split: option.splits)

section \<open>The corpus for language models\<close>

definition ordered_pages :: "string list" where
  "ordered_pages =
     [''getting-started/intro.mdx'', ''getting-started/quickstart.mdx'', ''concepts/manifesto.mdx'', ''concepts/specification.mdx'',
      ''concepts/logic-on-origin.mdx'', ''concepts/architecture.mdx'', ''concepts/server-concepts.mdx'',
      ''concepts/client-concepts.mdx'', ''concepts/wasi-sandboxing.mdx'', ''concepts/zero-trust.mdx'',
      ''typescript-sdk/overview.mdx'', ''typescript-sdk/agent.mdx'', ''typescript-sdk/client.mdx'', ''typescript-sdk/server.mdx'',
      ''typescript-sdk/gateway.mdx'', ''typescript-sdk/economy.mdx'', ''typescript-sdk/security.mdx'',
      ''mesh-node/overview.mdx'', ''mesh-node/compilation.mdx'', ''ROADMAP_GLOBAL_MESH.md'']"

definition page_title :: "string \<Rightarrow> string" where
  "page_title page =
     (let stem = (if ends_with page ''.mdx'' then take (length page - 4) page
                  else if ends_with page ''.md'' then take (length page - 3) page else page)
      in js_upper (map (\<lambda>c. if c = CHR ''/'' \<or> c = CHR ''_'' \<or> c = CHR ''-'' then CHR '' '' else c) stem))"

definition page_section :: "string \<Rightarrow> string \<Rightarrow> string" where
  "page_section page content =
     newline @ ''---'' @ newline @ newline @ ''# SECTION: '' @ page_title page @ '' ('' @ page @ '')'' @ newline @ newline @
     js_trim content @ newline"

text \<open>\<open>docs\<close>: the content of a page, if it exists; the head of the corpus is a parameter.\<close>

definition llms_corpus :: "string \<Rightarrow> (string \<Rightarrow> string option) \<Rightarrow> string" where
  "llms_corpus header docs =
     header @ newline @
     js_join newline (List.map_filter (\<lambda>page. map_option (page_section page) (docs page)) ordered_pages) @ newline"

section \<open>Synchronising the metadata\<close>

record metadata_file =
  md_owner :: string
  md_name :: string
  md_branch :: string
  md_docsUrl :: string
  md_docsName :: string

definition repo_full :: "metadata_file \<Rightarrow> string" where
  "repo_full M = md_owner M @ ''/'' @ md_name M"

definition repo_url :: "metadata_file \<Rightarrow> string" where
  "repo_url M = ''https://github.com/'' @ repo_full M"

definition set_prop :: "string \<Rightarrow> jsval \<Rightarrow> jsval \<Rightarrow> jsval" where
  "set_prop k v x = (case x of JObj ps \<Rightarrow> JObj (AList.update k v ps) | _ \<Rightarrow> x)"

text \<open>An assignment below a property, which throws where there is nothing to assign to.\<close>

definition set_inside :: "string \<Rightarrow> string \<Rightarrow> jsval \<Rightarrow> jsval \<Rightarrow> jsval option" where
  "set_inside k l v x =
     (if is_object (prop_of x k) then Some (set_prop k (set_prop l v (prop_of x k)) x) else None)"

definition update_root_package :: "metadata_file \<Rightarrow> jsval \<Rightarrow> jsval option" where
  "update_root_package M pkg =
     (let p = set_prop ''homepage'' (JStr (md_docsUrl M)) pkg
      in if truthy (prop_of p ''repository'') then set_inside ''repository'' ''url'' (JStr (''git+'' @ repo_url M @ ''.git'')) p
         else Some p)"

definition update_sdk_package :: "metadata_file \<Rightarrow> jsval \<Rightarrow> jsval option" where
  "update_sdk_package M pkg =
     Option.bind (set_inside ''repository'' ''url'' (JStr (''git+'' @ repo_url M @ ''.git'')) pkg) (\<lambda>p.
     map_option (set_prop ''homepage'' (JStr (md_docsUrl M))) (set_inside ''bugs'' ''url'' (JStr (repo_url M @ ''/issues'')) p))"

text \<open>\<open>replace\<close> without the flag \<open>g\<close>.\<close>

definition re_replace_first :: "re \<Rightarrow> string \<Rightarrow> string \<Rightarrow> string" where
  "re_replace_first r t s = (case re_search r [] s of None \<Rightarrow> s | Some (p, q) \<Rightarrow> rev (fst p) @ t @ snd q)"

definition no_slash :: re where "no_slash = plus (Pred (\<lambda>c. c \<noteq> CHR ''/''))"

definition tab_href :: "metadata_file \<Rightarrow> string \<Rightarrow> string" where
  "tab_href M href =
     (if js_includes href ''github.com''
      then re_replace_first (cats [lit ''/blob/'', no_slash, lit ''/'']) (''/blob/'' @ md_branch M @ ''/'')
             (re_replace_first (cats [lit ''github.com/'', no_slash, lit ''/'', no_slash]) (''github.com/'' @ repo_full M) href)
      else href)"

text \<open>\<open>docs.json\<close>. An assignment or a loop that finds nothing to work on throws.\<close>

definition update_tab :: "metadata_file \<Rightarrow> jsval \<Rightarrow> jsval" where
  "update_tab M tab = (case prop_of tab ''href'' of JStr h \<Rightarrow> set_prop ''href'' (JStr (tab_href M h)) tab | _ \<Rightarrow> tab)"

definition update_language :: "metadata_file \<Rightarrow> jsval \<Rightarrow> jsval option" where
  "update_language M lang =
     (case prop_of lang ''tabs'' of JArr ts \<Rightarrow> Some (set_prop ''tabs'' (JArr (map (update_tab M) ts)) lang) | _ \<Rightarrow> None)"

definition update_languages :: "metadata_file \<Rightarrow> jsval \<Rightarrow> jsval option" where
  "update_languages M langs =
     (case langs of JArr ls \<Rightarrow> map_option JArr (those (map (update_language M) ls)) | _ \<Rightarrow> None)"

definition update_first_link :: "metadata_file \<Rightarrow> jsval \<Rightarrow> jsval option" where
  "update_first_link M links =
     (case links of JArr (JObj ps # ls) \<Rightarrow> Some (JArr (set_prop ''href'' (JStr (repo_url M)) (JObj ps) # ls)) | _ \<Rightarrow> None)"

text \<open>An update of the property \<open>l\<close> of the property \<open>k\<close>, where both are there.\<close>

definition update_below :: "string \<Rightarrow> string \<Rightarrow> (jsval \<Rightarrow> jsval option) \<Rightarrow> jsval \<Rightarrow> jsval option" where
  "update_below k l f x =
     (if truthy (prop_of (prop_of x k) l)
      then map_option (\<lambda>v. set_prop k (set_prop l v (prop_of x k)) x) (f (prop_of (prop_of x k) l))
      else Some x)"

definition update_docs_config :: "metadata_file \<Rightarrow> jsval \<Rightarrow> jsval option" where
  "update_docs_config M config =
     Option.bind (update_below ''navbar'' ''links'' (update_first_link M) (set_prop ''name'' (JStr (md_docsName M)) config)) (\<lambda>c1.
     Option.bind (update_below ''navigation'' ''languages'' (update_languages M) c1)
       (update_below ''footer'' ''socials'' (\<lambda>s. Some (set_prop ''github'' (JStr (repo_url M)) s))))"

text \<open>The replacements, each with the \<open>lastIndex\<close> of its expression.\<close>

definition metadata_patterns :: "metadata_file \<Rightarrow> (re \<times> string) list" where
  "metadata_patterns M =
     [(lit ''github.com/Nekzus-Solutions/LIOP-v1.0-alpha'', ''github.com/'' @ repo_full M),
      (lit ''github.com/Nekzus/LIOP'', ''github.com/'' @ repo_full M),
      (lit ''/blob/alpha/'', ''/blob/'' @ md_branch M @ ''/''),
      (lit ''Nekzus-Solutions/LIOP-v1.0-alpha'', repo_full M)]"

text \<open>\<open>replaceInFile\<close>: a test that succeeds leaves its \<open>lastIndex\<close> in the text, and the replacement that
  follows puts it back to 0.\<close>

fun replace_in_text :: "((re \<times> string) \<times> nat) list \<Rightarrow> string \<Rightarrow> bool \<Rightarrow> (string \<times> bool) \<times> ((re \<times> string) \<times> nat) list" where
  "replace_in_text [] content changed = ((content, changed), [])"
| "replace_in_text (((r, t), i) # ps) content changed =
     (case test_global r content i of
        (True, j) \<Rightarrow>
          (case replace_in_text ps (re_replace_all r (\<lambda>_. t) content) True of (res, qs) \<Rightarrow> (res, ((r, t), 0) # qs))
      | (False, j) \<Rightarrow>
          (case replace_in_text ps content changed of (res, qs) \<Rightarrow> (res, ((r, t), j) # qs)))"

text \<open>The files below a directory whose names end in one of the extensions.\<close>

datatype fs_tree = FsFile string | FsDir string "fs_tree list"

definition path_join :: "string \<Rightarrow> string \<Rightarrow> string" where
  "path_join d f = d @ ''/'' @ f"

fun files_recursive :: "string list \<Rightarrow> string \<Rightarrow> fs_tree \<Rightarrow> string list" where
  "files_recursive exts d (FsFile f) = (if \<exists>e\<in>set exts. ends_with f e then [path_join d f] else [])"
| "files_recursive exts d (FsDir f ts) = concat (map (files_recursive exts (path_join d f)) ts)"

text \<open>\<open>copyProtos\<close>: the files copied.\<close>

definition copied_protos :: "string list \<Rightarrow> string list" where
  "copied_protos files = filter (\<lambda>f. ends_with f ''.proto'') files"

section \<open>The health check\<close>

datatype socket_event = SocketConnect | SocketError | SocketTimeout

text \<open>The promise of \<open>checkTcp\<close> is settled by the first event.\<close>

fun check_tcp :: "socket_event list \<Rightarrow> bool option" where
  "check_tcp [] = None"
| "check_tcp (e # es) = Some (e = SocketConnect)"

record health_node =
  hn_name :: string
  hn_host :: string
  hn_ports :: "nat list"
  hn_grpc :: "nat option"

definition health_nodes :: "health_node list" where
  "health_nodes =
     [\<lparr>hn_name = ''Nexus (DHT Boot)'', hn_host = ''127.0.0.1'', hn_ports = [13000, 13001], hn_grpc = None\<rparr>,
      \<lparr>hn_name = ''Vault (Provider)'', hn_host = ''127.0.0.1'', hn_ports = [13013, 13003, 13011], hn_grpc = Some 13011\<rparr>,
      \<lparr>hn_name = ''Bank (Provider)'', hn_host = ''127.0.0.1'', hn_ports = [13014, 13004, 13021], hn_grpc = Some 13021\<rparr>,
      \<lparr>hn_name = ''Oracle (Provider)'', hn_host = ''127.0.0.1'', hn_ports = [13015, 13005, 13031], hn_grpc = Some 13031\<rparr>]"

definition port_line :: "health_node \<Rightarrow> (nat \<Rightarrow> bool) \<Rightarrow> nat \<Rightarrow> string" where
  "port_line node up port =
     ''  - Port '' @ nat_str port @ '' '' @ (if hn_grpc node = Some port then ''(gRPC Endpoint)'' else ''(P2P/HTTP)'') @ '': '' @
     (if up port then ''OPEN'' else ''CLOSED'')"

text \<open>The lines for a node; \<open>connects\<close>: the message of a connection of the client that fails.\<close>

definition node_lines :: "(string \<Rightarrow> nat \<Rightarrow> bool) \<Rightarrow> (string \<Rightarrow> string option) \<Rightarrow> health_node \<Rightarrow> string list" where
  "node_lines up connects node =
     [newline @ ''Checking Node: '' @ hn_name node] @ map (port_line node (up (hn_host node))) (hn_ports node) @
     (case hn_grpc node of
        None \<Rightarrow> []
      | Some g \<Rightarrow>
          [''  - Testing LIOP Protocol Handshake on :'' @ nat_str g @ ''...'',
           case connects (''localhost:'' @ nat_str g) of
             None \<Rightarrow> ''  - Protocol L7 Status: RESPONDING''
           | Some message \<Rightarrow> ''  - Protocol L7 Status: FAILED ('' @ message @ '')''])"

definition run_diagnostics :: "(string \<Rightarrow> nat \<Rightarrow> bool) \<Rightarrow> (string \<Rightarrow> string option) \<Rightarrow> string list" where
  "run_diagnostics up connects =
     (let rule = replicate 50 (CHR ''='')
      in [rule, ''LIOP MESH PROTOCOL - NODE HEALTH CHECK'', rule] @ concat (map (node_lines up connects) health_nodes) @
         [newline @ rule, ''Diagnostics complete.''])"

section \<open>Facts about the scripts\<close>

text \<open>Unlike the guardian of the demo, the replacements start every file from its beginning.\<close>

lemma replacements_stateless:
  assumes "\<forall>p\<in>set ps. snd p = 0"
  shows "snd (replace_in_text ps content changed) = ps"
  using assms
proof (induction ps content changed rule: replace_in_text.induct)
  case (2 r t i ps content changed)
  then show ?case by (auto split: prod.splits bool.splits dest: test_failed)
qed simp

lemma unchanged_text:
  assumes "\<forall>p\<in>set ps. snd p = 0 \<and> \<not> re_test (fst (fst p)) content"
  shows "fst (replace_in_text ps content changed) = (content, changed)"
  using assms
proof (induction ps content changed rule: replace_in_text.induct)
  case (2 r t i ps content changed)
  then have "fst (test_global r content 0) = False" by (simp add: test_fresh)
  with 2 show ?case by (auto split: prod.splits bool.splits)
qed simp

text \<open>Only files with one of the extensions are searched.\<close>

lemma recursive_files:
  "p \<in> set (files_recursive exts d t) \<Longrightarrow> \<exists>e\<in>set exts. ends_with p e"
proof (induction exts d t rule: files_recursive.induct)
  case (1 exts d f)
  then obtain e where e: "e \<in> set exts" "ends_with f e" "p = path_join d f" by (auto split: if_splits)
  then obtain r where "f = r @ e" by (auto simp: ends_with_iff)
  with e(3) have "p = (d @ ''/'' @ r) @ e" by (simp add: path_join_def)
  with e(1) show ?case unfolding ends_with_iff by blast
next
  case (2 exts d f ts)
  then show ?case by auto
qed

text \<open>The corpus holds the pages in the order of the list, and those that are missing not at all.\<close>

lemma corpus_sections:
  "List.map_filter (\<lambda>page. map_option (page_section page) (docs page)) pages =
     map (\<lambda>page. page_section page (the (docs page))) (filter (\<lambda>page. docs page \<noteq> None) pages)"
  by (induction pages) (auto simp: List.map_filter_simps)

lemma sdk_package_needs_links:
  "update_sdk_package M pkg = None \<longleftrightarrow>
     \<not> is_object (prop_of pkg ''repository'') \<or>
     \<not> is_object (prop_of (the (set_inside ''repository'' ''url'' (JStr (''git+'' @ repo_url M @ ''.git'')) pkg)) ''bugs'')"
  by (simp add: update_sdk_package_def set_inside_def)

text \<open>Every node that answers is reported so, and nothing is reported for gRPC of the nexus.\<close>

lemma diagnostics_report_nodes:
  "n \<in> set health_nodes \<Longrightarrow> p \<in> set (hn_ports n) \<Longrightarrow> port_line n (up (hn_host n)) p \<in> set (run_diagnostics up connects)"
  by (auto simp: run_diagnostics_def node_lines_def Let_def)

text \<open>Synchronising the root package again changes nothing.\<close>

lemma prop_of_set_prop [simp]:
  "prop_of (set_prop k v (JObj ps)) l = (if l = k then v else prop_of (JObj ps) l)"
  by (simp add: set_prop_def prop_of_def get_prop_def update_conv')

lemma set_prop_twice [simp]: "set_prop k v (set_prop k w x) = set_prop k v x"
  by (cases x) (simp_all add: set_prop_def)
lemma update_same: "map_of ps k = Some v \<Longrightarrow> AList.update k v ps = ps"
  by (induction ps) (auto split: if_splits)

lemma set_prop_object:
  assumes "is_object R"
  shows "truthy (set_prop k v R)" and "is_object (set_prop k v R)"
  using assms by (cases R, auto simp: set_prop_def truthy_def)+

lemma resync_root_package:
  assumes "update_root_package M (JObj ps) = Some p"
  shows "update_root_package M p = Some p"
proof -
  let ?h = "JStr (md_docsUrl M)" and ?u = "JStr (''git+'' @ repo_url M @ ''.git'')"
  let ?p1 = "set_prop ''homepage'' ?h (JObj ps)"
  let ?R = "prop_of ?p1 ''repository''"
  show ?thesis
  proof (cases "truthy ?R")
    case False
    with assms show ?thesis by (auto simp: update_root_package_def Let_def)
  next
    case True
    with assms have o: "is_object ?R" and p: "p = set_prop ''repository'' (set_prop ''url'' ?u ?R) ?p1"
      by (auto simp: update_root_package_def set_inside_def Let_def split: if_splits)
    define w where "w = set_prop ''url'' ?u ?R"
    have w: "truthy w" "is_object w" "set_prop ''url'' ?u w = w"
      unfolding w_def using set_prop_object [OF o] by (simp_all only: set_prop_twice)
    have p': "p = JObj (AList.update ''repository'' w (AList.update ''homepage'' ?h ps))"
      unfolding p w_def [symmetric] by (simp add: set_prop_def)
    then have h: "set_prop ''homepage'' ?h p = p" "set_prop ''repository'' w p = p" and r: "prop_of p ''repository'' = w"
      by (simp_all add: set_prop_def update_same update_conv' prop_of_def get_prop_def)
    show ?thesis by (simp only: update_root_package_def set_inside_def Let_def h r w if_True)
  qed
qed

end
