(* ===== verification/ApiTypes.thy ===== *)
theory ApiTypes
  imports RouterClaims
begin

text \<open>
  The interfaces of \<open>types.ts\<close> and the errors of \<open>errors.ts\<close>: each interface is the predicate on
  JavaScript values that TypeScript checks of a literal of that type (further properties are allowed), and
  the lemmas say that what the registries list and what the router answers is of the declared type.
\<close>

section \<open>Kinds of values\<close>

fun is_text :: "jsval \<Rightarrow> bool" where
  "is_text (JStr s) = True"
| "is_text v = False"

fun is_number :: "jsval \<Rightarrow> bool" where
  "is_number (JNum x) = True"
| "is_number v = False"

fun is_flag :: "jsval \<Rightarrow> bool" where
  "is_flag (JBool b) = True"
| "is_flag v = False"

fun is_record :: "jsval \<Rightarrow> bool" where
  "is_record (JObj ps) = True"
| "is_record v = False"

fun is_array_of :: "(jsval \<Rightarrow> bool) \<Rightarrow> jsval \<Rightarrow> bool" where
  "is_array_of P (JArr xs) = list_all P xs"
| "is_array_of P v = False"

definition any_value :: "jsval \<Rightarrow> bool" where "any_value v = True"

text \<open>A property that must be there, and one that may be missing.\<close>

definition must :: "string \<Rightarrow> (jsval \<Rightarrow> bool) \<Rightarrow> jsval \<Rightarrow> bool" where
  "must k P v \<longleftrightarrow> is_record v \<and> P (prop_of v k)"

definition may :: "string \<Rightarrow> (jsval \<Rightarrow> bool) \<Rightarrow> jsval \<Rightarrow> bool" where
  "may k P v \<longleftrightarrow> is_record v \<and> (prop_of v k = JUndef \<or> P (prop_of v k))"

definition one_of :: "string list \<Rightarrow> jsval \<Rightarrow> bool" where
  "one_of ts v = (case v of JStr s \<Rightarrow> s \<in> set ts | _ \<Rightarrow> False)"

section \<open>The interfaces\<close>

definition is_mcp_era :: "jsval \<Rightarrow> bool" where
  "is_mcp_era = one_of [''legacy'', ''modern'']"

definition is_cacheable_result :: "jsval \<Rightarrow> bool" where
  "is_cacheable_result v \<longleftrightarrow> may ''ttlMs'' is_number v \<and> may ''cacheScope'' (one_of [''public'', ''private'']) v"

definition is_input_request :: "jsval \<Rightarrow> bool" where
  "is_input_request v \<longleftrightarrow> must ''id'' is_text v \<and> must ''message'' is_text v \<and> may ''schema'' is_record v"

definition is_input_response :: "jsval \<Rightarrow> bool" where
  "is_input_response v \<longleftrightarrow> must ''id'' is_text v \<and> must ''value'' any_value v"

definition is_input_required_result :: "jsval \<Rightarrow> bool" where
  "is_input_required_result v \<longleftrightarrow>
     must ''resultType'' (one_of [''input_required'']) v \<and> must ''inputRequests'' (is_array_of is_input_request) v \<and>
     may ''requestState'' is_text v"

definition is_request_meta :: "jsval \<Rightarrow> bool" where
  "is_request_meta v \<longleftrightarrow>
     may ''io.modelcontextprotocol/protocolVersion'' is_text v \<and>
     may ''io.modelcontextprotocol/clientInfo'' (\<lambda>c. must ''name'' is_text c \<and> must ''version'' is_text c) v \<and>
     may ''io.modelcontextprotocol/clientCapabilities'' is_record v"

definition is_tool :: "jsval \<Rightarrow> bool" where
  "is_tool v \<longleftrightarrow> must ''name'' is_text v \<and> may ''description'' is_text v \<and> must ''inputSchema'' is_record v"

definition is_resource :: "jsval \<Rightarrow> bool" where
  "is_resource v \<longleftrightarrow>
     must ''uri'' is_text v \<and> must ''name'' is_text v \<and> may ''description'' is_text v \<and> may ''mimeType'' is_text v"

definition is_prompt_argument :: "jsval \<Rightarrow> bool" where
  "is_prompt_argument v \<longleftrightarrow> must ''name'' is_text v \<and> may ''description'' is_text v \<and> may ''required'' is_flag v"

definition is_prompt :: "jsval \<Rightarrow> bool" where
  "is_prompt v \<longleftrightarrow>
     must ''name'' is_text v \<and> may ''description'' is_text v \<and> may ''arguments'' (is_array_of is_prompt_argument) v"

definition is_call_tool_request :: "jsval \<Rightarrow> bool" where
  "is_call_tool_request v \<longleftrightarrow> must ''name'' is_text v \<and> may ''arguments'' is_record v"

definition is_embedded_resource :: "jsval \<Rightarrow> bool" where
  "is_embedded_resource v \<longleftrightarrow> must ''uri'' is_text v \<and> may ''text'' is_text v \<and> may ''blob'' is_text v"

definition is_content_part :: "jsval \<Rightarrow> bool" where
  "is_content_part v \<longleftrightarrow>
     must ''type'' (one_of [''text'', ''image'', ''resource'']) v \<and> may ''text'' is_text v \<and> may ''data'' is_text v \<and>
     may ''mimeType'' is_text v \<and> may ''resource'' is_embedded_resource v"

definition is_call_tool_result :: "jsval \<Rightarrow> bool" where
  "is_call_tool_result v \<longleftrightarrow> must ''content'' (is_array_of is_content_part) v \<and> may ''isError'' is_flag v"

definition is_get_prompt_request :: "jsval \<Rightarrow> bool" where
  "is_get_prompt_request v \<longleftrightarrow>
     must ''name'' is_text v \<and>
     may ''arguments'' (\<lambda>a. case a of JObj ps \<Rightarrow> list_all (\<lambda>p. is_text (snd p)) ps | _ \<Rightarrow> False) v"

text \<open>The content of a message is one of three shapes.\<close>

definition is_message_content :: "jsval \<Rightarrow> bool" where
  "is_message_content v \<longleftrightarrow>
     must ''type'' (one_of [''text'']) v \<and> must ''text'' is_text v \<or>
     must ''type'' (one_of [''image'']) v \<and> must ''data'' is_text v \<and> must ''mimeType'' is_text v \<or>
     must ''type'' (one_of [''resource'']) v \<and> must ''resource'' is_embedded_resource v"

definition is_prompt_message :: "jsval \<Rightarrow> bool" where
  "is_prompt_message v \<longleftrightarrow> must ''role'' (one_of [''user'', ''assistant'']) v \<and> must ''content'' is_message_content v"

definition is_get_prompt_result :: "jsval \<Rightarrow> bool" where
  "is_get_prompt_result v \<longleftrightarrow> may ''description'' is_text v \<and> must ''messages'' (is_array_of is_prompt_message) v"

definition is_capabilities :: "jsval \<Rightarrow> bool" where
  "is_capabilities v \<longleftrightarrow>
     may ''prompts'' (may ''listChanged'' is_flag) v \<and>
     may ''resources'' (\<lambda>r. may ''subscribe'' is_flag r \<and> may ''listChanged'' is_flag r) v \<and>
     may ''tools'' (may ''listChanged'' is_flag) v \<and> may ''logging'' is_record v"

definition is_server_info :: "jsval \<Rightarrow> bool" where
  "is_server_info v \<longleftrightarrow> must ''name'' is_text v \<and> must ''version'' is_text v \<and> may ''capabilities'' is_capabilities v"

definition is_discover_result :: "jsval \<Rightarrow> bool" where
  "is_discover_result v \<longleftrightarrow>
     must ''resultType'' (one_of [''complete'']) v \<and> must ''supportedVersions'' (is_array_of is_text) v \<and>
     must ''capabilities'' (\<lambda>c. c = JUndef \<or> is_capabilities c) v \<and> must ''serverInfo'' is_server_info v \<and>
     may ''instructions'' is_text v"

definition is_rpc_id :: "jsval \<Rightarrow> bool" where
  "is_rpc_id v \<longleftrightarrow> is_text v \<or> is_number v \<or> v = JNull"

definition is_mcp_request :: "jsval \<Rightarrow> bool" where
  "is_mcp_request v \<longleftrightarrow>
     must ''method'' is_text v \<and> must ''params'' any_value v \<and> may ''id'' is_rpc_id v \<and> may ''jsonrpc'' (one_of [''2.0'']) v"

definition is_rpc_error :: "jsval \<Rightarrow> bool" where
  "is_rpc_error v \<longleftrightarrow> must ''code'' is_number v \<and> must ''message'' is_text v \<and> must ''data'' any_value v"

definition is_mcp_response :: "jsval \<Rightarrow> bool" where
  "is_mcp_response v \<longleftrightarrow>
     must ''jsonrpc'' (one_of [''2.0'']) v \<and> may ''id'' is_rpc_id v \<and> must ''result'' any_value v \<and> may ''error'' is_rpc_error v"

section \<open>Errors\<close>

datatype error_code =
    CapabilityViolation | SandboxEscape | PiiLeak | InvalidIntent | Throttled | ZkVerificationFailed | MeshUnavailable
  | ConnectionFailed

fun error_code_text :: "error_code \<Rightarrow> string" where
  "error_code_text CapabilityViolation = ''CapabilityViolation''"
| "error_code_text SandboxEscape = ''SandboxEscape''"
| "error_code_text PiiLeak = ''PiiLeak''"
| "error_code_text InvalidIntent = ''InvalidIntent''"
| "error_code_text Throttled = ''Throttled''"
| "error_code_text ZkVerificationFailed = ''ZkVerificationFailed''"
| "error_code_text MeshUnavailable = ''MeshUnavailable''"
| "error_code_text ConnectionFailed = ''ConnectionFailed''"

record liop_error =
  er_name :: string
  er_code :: error_code
  er_message :: string

definition new_liop_error :: "error_code \<Rightarrow> string \<Rightarrow> liop_error" where
  "new_liop_error code message = \<lparr>er_name = ''LiopError'', er_code = code, er_message = message\<rparr>"

lemma error_codes_distinct: "error_code_text c = error_code_text d \<longleftrightarrow> c = d"
  by (cases c; cases d) simp_all

section \<open>What is listed and answered is of the declared type\<close>

lemmas type_simps = must_def may_def one_of_def any_value_def prop_of_def get_prop_def

lemma listed_tools_typed:
  assumes "\<forall>t\<in>snd ` set (rg_tools R). is_record (ti_inputSchema t)"
  shows "\<forall>v\<in>snd ` set (list_tools R). is_tool v"
  using assms by (auto simp: list_tools_def is_tool_def type_simps)

lemma listed_resources_typed: "\<forall>v\<in>snd ` set (list_resources R). is_resource v"
  by (auto simp: list_resources_def is_resource_def type_simps opt_text_def split: option.splits)

lemma tool_results_typed: "is_call_tool_result (tool_result_value r)"
  by (simp add: tool_result_value_def is_call_tool_result_def is_content_part_def type_simps list_all_iff)

lemma success_typed:
  assumes "is_rpc_id rid \<or> rid = JUndef"
  shows "is_mcp_response (success_response rid res)"
  using assms by (auto simp: is_mcp_response_def success_response_def type_simps)

lemma error_typed:
  assumes "is_rpc_id rid \<or> rid = JUndef"
  shows "is_mcp_response (bridge_error rid code msg)"
  using assms by (auto simp: is_mcp_response_def is_rpc_error_def bridge_error_def type_simps)

lemma discovery_typed:
  assumes "is_server_info (be_serverInfo (rv_bridge E))"
  shows "is_discover_result (prop_of (router_discover E rid) ''result'')"
  using assms
  by (simp add: router_discover_def success_response_def complete_def is_discover_result_def is_capabilities_def list_changed_def type_simps)

lemma cached_answers_typed: "is_cacheable_result (JObj (cached_for ttl ''public'')) \<and> is_cacheable_result (JObj (cached_for ttl ''private''))"
  by (simp add: cached_for_def complete_def ms_def is_cacheable_result_def type_simps)

text \<open>Every answer the router gives to a request with an identifier of the declared type is a response of the
  declared type; only the two notifications are answered with nothing.\<close>

lemma answers_typed:
  assumes "dispatch E io rid method params auth RS = (Answers v, RS')" and "is_rpc_id rid \<or> rid = JUndef"
  shows "is_mcp_response v \<or> (method \<in> {''notifications/initialized'', ''notifications/cancelled''} \<and> v = JNull)"
proof -
  have i: "is_rpc_id JNull" by (simp add: is_rpc_id_def)
  have e: "is_mcp_response v \<or> (method \<in> {''notifications/initialized'', ''notifications/cancelled''} \<and> v = JNull)"
    if "route_method E io rid method params t RS = (Answers v, RS')" for t
  proof -
    from route_method_response [OF that] have "expected_answer rid method v" by simp
    then show ?thesis
      using success_typed [OF assms(2)] error_typed [OF assms(2)] success_typed [of JNull] i
      by (auto simp: expected_answer_def router_response_def split: if_splits)
  qed
  show ?thesis
    using assms(1) e error_typed [OF assms(2)] by (auto simp: dispatch_def split: if_splits sum.splits rbac_error.splits)
qed

end
