(* ===== verification/Edges.thy ===== *)
theory Edges
  imports MeshNode GatewayClaims Observability Economy GrpcClaims Tls
begin

text \<open>
  Operations at the edges of modelled components: the stream of one manifest request and the choice of a
  dial target of \<open>mesh/node.ts\<close>, the discovery a router starts for a new client and its two constant
  answers, the end of a failed execution in the gRPC service, how \<open>gateway/hybrid.ts\<close> takes connections
  and ports, the rest of the metric operations, the watchers of certificates, the estimator of the
  telemetry, and the schema a registered tool gets. libp2p, sockets and the file system are the calls
  they get or the events they yield.
\<close>

section \<open>One request for the manifest\<close>

text \<open>What a stream offers: \<open>send\<close> with its answer, a wait for it to drain and whether that fails, \<open>close\<close>.\<close>

record manifest_stream =
  ms_send :: "bool option"       \<comment> \<open>whether \<open>send\<close> accepts, if there is such a function\<close>
  ms_sendThrows :: bool
  ms_onDrain :: bool
  ms_close :: bool

datatype stream_call = SendPacket bytes | AwaitDrain | PipePacket bytes | CloseStream

definition close_calls :: "manifest_stream \<Rightarrow> stream_call list" where
  "close_calls s = (if ms_close s then [CloseStream] else [])"

definition write_calls :: "manifest_stream \<Rightarrow> bytes \<Rightarrow> stream_call list" where
  "write_calls s packet =
     (case ms_send s of
        None \<Rightarrow> [PipePacket packet]
      | Some accepted \<Rightarrow>
          SendPacket packet # (if \<not> ms_sendThrows s \<and> \<not> accepted \<and> ms_onDrain s then [AwaitDrain] else []))"

text \<open>The handler of the manifest protocol, with what the provider gives and the stream.\<close>

definition handle_manifest_stream ::
    "(jsval \<Rightarrow> string) \<Rightarrow> (string \<times> jsval) list option \<Rightarrow> manifest_stream option \<Rightarrow> stream_call list" where
  "handle_manifest_stream stringify provided stream =
     (case stream of
        None \<Rightarrow> []
      | Some s \<Rightarrow>
          (case serve_manifest stringify provided of
             None \<Rightarrow> close_calls s
           | Some packet \<Rightarrow> write_calls s packet @ close_calls s))"

text \<open>Every stream that can be closed is closed exactly once and last, whatever its writing does, and at most
  one packet is written: the one of the manifest.\<close>

lemma manifest_stream_closed:
  assumes "ms_close s"
  shows "\<exists>calls. handle_manifest_stream stringify provided (Some s) = calls @ [CloseStream] \<and> CloseStream \<notin> set calls \<and>
     length (filter (\<lambda>c. \<exists>b. c = SendPacket b \<or> c = PipePacket b) calls) \<le> 1 \<and>
     (\<forall>b. SendPacket b \<in> set calls \<or> PipePacket b \<in> set calls \<longrightarrow> serve_manifest stringify provided = Some b)"
  using assms
  by (auto simp: handle_manifest_stream_def write_calls_def close_calls_def split: option.splits)

section \<open>Whom a query dials\<close>

datatype dial_target = Connected string | Stored string | ParsedPeer string | UnparsedPeer

definition dial_target_of :: "(string \<Rightarrow> bool) \<Rightarrow> string list \<Rightarrow> string list \<Rightarrow> string \<Rightarrow> dial_target" where
  "dial_target_of parses connections peerStore peerId =
     (if peerId \<in> set connections then Connected peerId
      else if peerId \<in> set peerStore then Stored peerId
      else if parses peerId then ParsedPeer peerId else UnparsedPeer)"

text \<open>What a node says of itself; \<open>None\<close>: libp2p was not created.\<close>

definition routing_table_size :: "nat option option \<Rightarrow> nat" where
  "routing_table_size dht = (case dht of None \<Rightarrow> 0 | Some None \<Rightarrow> 0 | Some (Some n) \<Rightarrow> n)"

definition node_multiaddrs :: "string list option \<Rightarrow> string + string list" where
  "node_multiaddrs addrs = (case addrs of None \<Rightarrow> Inl ''Mesh Node is not running'' | Some as \<Rightarrow> Inr as)"

definition node_peers :: "string list option \<Rightarrow> string list" where
  "node_peers connections = (case connections of None \<Rightarrow> [] | Some cs \<Rightarrow> cs)"

definition manifest_providers :: "string \<Rightarrow> dht_event list \<Rightarrow> mesh_node \<Rightarrow> string list" where
  "manifest_providers self events N = mesh_find_providers self events liop_manifest_capability N"

lemma own_manifest_found:
  assumes "liop_manifest_capability \<in> set (mn_announced N)"
  shows "self \<in> set (manifest_providers self events N)"
  using assms by (auto simp: manifest_providers_def mesh_find_providers_def Let_def)

section \<open>Router\<close>

text \<open>What the constructor does with the mesh and says at start.\<close>

datatype router_start = RegisterManifestHandler | AnnounceManifest | WarnDiagnosticLevel

definition router_starts :: "bool \<Rightarrow> string option \<Rightarrow> router_start list" where
  "router_starts mesh diagnosticLevel =
     (if mesh then [RegisterManifestHandler, AnnounceManifest] else []) @
     (if diagnosticLevel = Some ''full'' then [WarnDiagnosticLevel] else [])"

text \<open>\<open>kickDiscoveryAfterInitialized\<close>: when it settles, for a discovery that takes so long; \<open>None\<close> is one that
  never ends.\<close>

definition kick_discovery_ms :: "int option \<Rightarrow> int" where
  "kick_discovery_ms refresh = 250 + (case refresh of None \<Rightarrow> 15000 | Some d \<Rightarrow> min d 15000)"

lemma kick_discovery_bounded: "kick_discovery_ms refresh \<le> 15250"
  by (simp add: kick_discovery_ms_def split: option.split)

definition templates_answer :: "jsval \<Rightarrow> jsval \<Rightarrow> jsval" where
  "templates_answer rid params =
     for_era ''resources/templates/list'' params
       (success_response rid (JObj [(''resultType'', JStr ''complete''), (''ttlMs'', ms 300000), (''cacheScope'', JStr ''public''),
          (''resourceTemplates'', JArr [])]))"

definition subscriptions_answer :: "jsval \<Rightarrow> jsval \<Rightarrow> jsval" where
  "subscriptions_answer rid params =
     for_era ''subscriptions/listen'' params (success_response rid (JObj [(''resultType'', JStr ''complete'')]))"

definition unknown_method_answer :: "jsval \<Rightarrow> string \<Rightarrow> jsval" where
  "unknown_method_answer rid method = bridge_error rid (- 32601) (''Method not found: '' @ method)"

lemma constant_answers:
  "route_method E io rid ''resources/templates/list'' params t RS = (Answers (templates_answer rid params), RS)"
  "route_method E io rid ''subscriptions/listen'' params t RS = (Answers (subscriptions_answer rid params), RS)"
  by (cases RS, simp add: route_method_def templates_answer_def cached_for_def complete_def)
     (cases RS, simp add: route_method_def subscriptions_answer_def complete_def)

section \<open>A failed execution\<close>

text \<open>The handler of errors of \<open>executeLogic\<close>: the message is audited and sent.\<close>

definition execution_failed ::
    "'f grpc_env \<Rightarrow> call_io \<Rightarrow> session \<Rightarrow> string \<Rightarrow> 'f grpc_state \<Rightarrow> logic_response \<times> 'f grpc_state" where
  "execution_failed E io session detail S =
     (let errorMessage = execution_error (plain_dev (se_environment (ge_server E))) detail
      in (error_response errorMessage, audit_execution E io session (Fin 0) errorMessage [] ''ERROR'' S))"

lemma proceed_failed:
  assumes "find_session E io request S = (Inr session, S1)"
    and "preflight_logic (ge_worker E) session request = Inr logic"
    and "server_preflight (ge_server E) (session_tool ''unknown_tool'' session) logic (session_policy session S1)
           (client_of (lq_session_token request) session) (gs_server S1) = (None, V)"
    and "process_logic_execution (ge_worker E) (worker_task E session request (session_policy session S1)) (ci_now io) (ci_ts io) = Some (Inl detail)"
  shows "proceed E io request S =
     (case execution_failed E io session detail (S1\<lparr>gs_server := V\<rparr>) of (resp, S') \<Rightarrow> Some (Inr resp, S'))"
  using assms by (simp add: proceed_def execution_failed_def truthy_string_def Let_def)

text \<open>Outside development nothing of the detail leaves the server.\<close>

lemma failure_detail_hidden:
  assumes "\<not> plain_dev (se_environment (ge_server E))"
  shows "fst (execution_failed E io session detail S) = fst (execution_failed E io session other S)"
  using assms by (simp add: execution_failed_def execution_error_def Let_def)

section \<open>Connections and ports of the gateway\<close>

datatype inner_server = InnerH1 | InnerH2

text \<open>The first chunk of a connection decides, and is put back before the server reads.\<close>

definition route_connection :: "bytes \<Rightarrow> inner_server \<times> bytes" where
  "route_connection chunk = (if is_http2 chunk then InnerH2 else InnerH1, chunk)"

lemma utf8_text_shorter: "length (utf8_text b) \<le> length b"
proof (induction b rule: utf8_text.induct)
  case (2 b bs)
  show ?case
  proof (cases bs)
    case (Cons d ds)
    with 2 show ?thesis
      by (cases "unat b < 128"; cases "(unat b = 194 \<or> unat b = 195) \<and> 128 \<le> unat d \<and> unat d < 192")
        (simp_all del: utf8_text.simps add: utf8_text.simps(2) [of b "d # ds"], auto)
  qed simp
qed simp

text \<open>A client whose preface comes in two segments is taken for HTTP/1.1, whatever the rest of it says.\<close>

lemma split_preface_misrouted:
  assumes "n < 14"
  shows "fst (route_connection (take n preface)) = InnerH1"
proof -
  have "length (utf8_text (take n preface)) < 14"
    using utf8_text_shorter [of "take n preface"] assms by simp
  moreover have "starts_with t ''PRI * HTTP/2.0'' \<Longrightarrow> 14 \<le> length t" for t
    by (auto simp: starts_with_iff)
  ultimately show ?thesis by (force simp: route_connection_def is_http2_def)
qed

text \<open>How \<open>listen\<close> ends: the first of an error and the address that was bound.\<close>

datatype bind_event = BindError string | Bound "(string \<times> nat) option"

fun gateway_listen :: "nat \<Rightarrow> bind_event list \<Rightarrow> (string + nat) option" where
  "gateway_listen port [] = None"
| "gateway_listen port (BindError e # es) = Some (Inl e)"
| "gateway_listen port (Bound addr # es) =
     Some (Inr (case addr of None \<Rightarrow> port | Some (h, p) \<Rightarrow> if p = 0 then port else p))"

section \<open>Metrics\<close>

definition gauge_inc :: "metric_env \<Rightarrow> labels option \<Rightarrow> real \<Rightarrow> series \<Rightarrow> series" where
  "gauge_inc E ls x vs = series_add E ls x vs"

definition gauge_get :: "metric_env \<Rightarrow> labels option \<Rightarrow> series \<Rightarrow> real" where
  "gauge_get E ls vs = (case map_of vs (labels_to_key E ls) of None \<Rightarrow> 0 | Some (v, ls0) \<Rightarrow> v)"

definition gauge_reset :: "series \<Rightarrow> series" where "gauge_reset vs = []"
definition counter_reset :: "series \<Rightarrow> series" where "counter_reset vs = []"

definition histogram_reset :: "histogram \<Rightarrow> histogram" where
  "histogram_reset h = h\<lparr>hi_observations := []\<rparr>"

definition gauge_lines :: "metric_env \<Rightarrow> string \<Rightarrow> string \<Rightarrow> series \<Rightarrow> string list" where
  "gauge_lines E name help vs =
     [''# HELP '' @ name @ '' '' @ help, ''# TYPE '' @ name @ '' gauge''] @
     (if vs = [] then [name @ '' 0''] else map (\<lambda>(k, v, ls). name @ format_labels E ls @ '' '' @ me_num E v) vs)"

lemma gauge_lines_series: "gauge_lines E name help vs = series_lines E name help ''gauge'' vs"
  by (simp add: gauge_lines_def series_lines_def metric_head_def)

lemma gauge_add_get:
  "gauge_get E ls (series_add E ls x vs) = gauge_get E ls vs + x"
  "labels_to_key E ks \<noteq> labels_to_key E ls \<Longrightarrow> gauge_get E ks (series_add E ls x vs) = gauge_get E ks vs"
  by (auto simp: gauge_get_def series_add_def Let_def update_conv' split: option.split prod.split)

lemma gauge_laws:
  "gauge_get E ls (gauge_inc E ls x vs) = gauge_get E ls vs + x"
  "gauge_get E ls (gauge_dec E ls x vs) = gauge_get E ls vs - x"
  "gauge_get E (Some ks) (gauge_set E ks (Some x) vs) = x"
  "gauge_get E None (gauge_set_value x vs) = x"
  by (simp_all add: gauge_inc_def gauge_dec_def gauge_add_get)
    (simp_all add: gauge_set_def gauge_set_value_def gauge_get_def update_conv' labels_to_key_def [of _ None])

section \<open>Watchers of certificates\<close>

text \<open>The files that are really watched: those for which \<open>fs.watch\<close> does not fail.\<close>

definition watched_files :: "(string \<Rightarrow> bool) \<Rightarrow> cert_options \<Rightarrow> files \<Rightarrow> string list" where
  "watched_files watchFails opts fs = filter (\<lambda>p. \<not> watchFails p) (files_to_watch opts fs)"

text \<open>A manual reload throws what the reload of the timer reports as an event.\<close>

definition reload_manually ::
    "(bytes \<Rightarrow> string + x509) \<Rightarrow> cert_options \<Rightarrow> int \<Rightarrow> files \<Rightarrow> cert_manager \<Rightarrow> (string + cert_info) \<times> cert_manager" where
  "reload_manually x509 opts now fs M =
     (case load_certificates opts fs M of
        (Some e, M1) \<Rightarrow> (Inl e, M1)
      | (None, M1) \<Rightarrow> (inspect_certificate x509 opts now M1, M1))"

lemma reloads_agree:
  "reload_now x509 opts now fs M =
     (case reload_manually x509 opts now fs M of (Inl e, M1) \<Rightarrow> (ReloadFailed e, M1) | (Inr i, M1) \<Rightarrow> (Reloaded i, M1))"
  by (auto simp: reload_now_def reload_manually_def split: prod.split option.split sum.split)

section \<open>The estimator of the telemetry\<close>

text \<open>An engine starts with the heuristic and changes to the tokenizer when that is made, if it is.\<close>

definition start_engine :: "string \<Rightarrow> int \<Rightarrow> telemetry" where
  "start_engine uuid now = \<lparr>te_operations = [], te_sessionId = uuid, te_startedAt = now, te_estimator = Heuristic\<rparr>"

definition estimator_made :: "estimator option \<Rightarrow> telemetry \<Rightarrow> telemetry" where
  "estimator_made made T = (case made of None \<Rightarrow> T | Some e \<Rightarrow> T\<lparr>te_estimator := e\<rparr>)"

definition estimate_tokens :: "telemetry \<Rightarrow> string \<Rightarrow> nat" where
  "estimate_tokens T content = telemetry_count_tokens T content"

text \<open>Made at once or later, the engine of a process is the one of the model.\<close>

lemma engine_upgraded:
  "estimator_made (map_option RealEstimator constructed) (start_engine uuid now) = new_telemetry uuid now constructed"
  by (simp add: estimator_made_def start_engine_def new_telemetry_def create_token_estimator_def split: option.split)

lemma upgrade_keeps_operations: "te_operations (estimator_made e T) = te_operations T"
  by (simp add: estimator_made_def split: option.split)

section \<open>Registration of a tool\<close>

text \<open>The schema that is published.\<close>

definition input_schema_of :: "jsval \<Rightarrow> jsval" where
  "input_schema_of generatedSchema =
     JObj [(''type'', JStr ''object''),
       (''properties'', if truthy (prop_of generatedSchema ''properties'') then prop_of generatedSchema ''properties'' else JObj []),
       (''required'', prop_of generatedSchema ''required'')]"

lemma input_schema_is_object: "prop_of (input_schema_of g) ''type'' = JStr ''object'' \<and> prop_of (input_schema_of g) ''properties'' \<noteq> JUndef"
  by (auto simp: input_schema_of_def prop_of_def get_prop_def truthy_def split: if_splits)

end
