(* ===== verification/Examples.thy ===== *)
theory Examples
  imports ServerSetup Registry Maintenance
begin

text \<open>
  The example nodes: the three data providers, the nexus and the sentinel of
  \<open>sdks/typescript/examples/industrial-demo\<close>, the nodes of \<open>production-mesh\<close>, the quickstarts, the test
  server \<open>scripts/run-vault-server.ts\<close>, and the generator of records of the sentinel mesh. What they compute
  is what they register, where they listen and what they write; the icons in front of the domains, which
  are no characters of the model, are parameters. The facts are about what the registration of a server
  makes of these configurations.
\<close>

section \<open>Data providers\<close>

record provider =
  pv_name :: string
  pv_domain :: string
  pv_clearance :: nat
  pv_executionTypes :: "string list"
  pv_schema :: "(string \<times> jsval) list"
  pv_title :: string
  pv_uri :: string
  pv_tool :: string
  pv_toolText :: string
  pv_port :: nat
  pv_listen :: "string list"
  pv_identity :: string

definition typed :: "string \<Rightarrow> jsval" where "typed t = JObj [(''type'', JStr t)]"

definition described :: "string \<Rightarrow> string \<Rightarrow> jsval" where
  "described t d = JObj [(''type'', JStr t), (''description'', JStr d)]"

definition date_text :: jsval where "date_text = JObj [(''type'', JStr ''string''), (''format'', JStr ''date'')]"

definition array_schema :: "(string \<times> jsval) list \<Rightarrow> (string \<times> jsval) list" where
  "array_schema ps =
     [(''type'', JStr ''array''), (''items'', JObj [(''type'', JStr ''object''), (''properties'', JObj ps)])]"

definition vault_fields :: "(string \<times> jsval) list" where
  "vault_fields =
     [(''id'', described ''string'' ''Patient Unique ID (PAT-XXXX)''), (''name'', typed ''string''), (''age'', typed ''number''),
      (''bloodType'', typed ''string''), (''diagnosis'', typed ''string''), (''lastVisit'', date_text),
      (''medications'', JObj [(''type'', JStr ''array''), (''items'', typed ''string'')])]"

definition vault_provider :: "string \<Rightarrow> provider" where
  "vault_provider icon =
     \<lparr>pv_name = ''SIMULATION-the-vault'', pv_domain = icon @ '' Healthcare (SIMULATED)'', pv_clearance = 5,
      pv_executionTypes = [''Blind AST Logic'', ''Zero-Trust Worker Pool''], pv_schema = array_schema vault_fields,
      pv_title = ''Medical Records Schema (SYNTHETIC)'', pv_uri = ''LIOP://schema/medical-records-synthetic'',
      pv_tool = ''Analyze_Synthetic_Medical_Records'',
      pv_toolText = ''DISCLAIMER: This is a SIMULATION using SYNTHETIC data. Performs secure Logic-on-Origin processing on the medical records dataset for protocol demonstration.'',
      pv_port = 50051, pv_listen = [''/ip4/0.0.0.0/tcp/4061'', ''/ip4/0.0.0.0/tcp/4062/ws''], pv_identity = ''vault-identity.json''\<rparr>"

definition bank_fields :: "(string \<times> jsval) list" where
  "bank_fields =
     [(''id'', described ''string'' ''Account Unique ID (ACC-XXXX)''), (''accountHolder'', typed ''string''),
      (''accountType'', typed ''string''), (''balance'', typed ''number''), (''currency'', typed ''string''),
      (''transactions'', JObj (array_schema
         [(''date'', date_text), (''amount'', typed ''number''), (''description'', typed ''string'')]))]"

definition bank_provider :: "string \<Rightarrow> provider" where
  "bank_provider icon =
     \<lparr>pv_name = ''SIMULATION-the-bank'', pv_domain = icon @ '' Banking & Finance (SIMULATED)'', pv_clearance = 3,
      pv_executionTypes = [''Read-Only Queries'', ''Transactional Verification''], pv_schema = array_schema bank_fields,
      pv_title = ''Banking Ledger Schema (SYNTHETIC)'', pv_uri = ''LIOP://schema/banking-ledger-synthetic'',
      pv_tool = ''Analyze_Synthetic_Bank_Transactions'',
      pv_toolText = ''DISCLAIMER: This is a SIMULATION using SYNTHETIC data. Securely analyzes financial transactions and account balances via LIOP Logic-on-Origin for protocol demonstration.'',
      pv_port = 50052, pv_listen = [''/ip4/0.0.0.0/tcp/4063'', ''/ip4/0.0.0.0/tcp/4064/ws''], pv_identity = ''bank-identity.json''\<rparr>"

definition oracle_fields :: "(string \<times> jsval) list" where
  "oracle_fields =
     [(''ticker'', typed ''string''), (''companyName'', typed ''string''), (''price'', typed ''number''), (''change'', typed ''string''),
      (''volume'', typed ''string''), (''peRatio'', typed ''number''), (''marketCap'', typed ''string'')]"

definition oracle_provider :: "string \<Rightarrow> provider" where
  "oracle_provider icon =
     \<lparr>pv_name = ''SIMULATION-the-oracle'', pv_domain = icon @ '' Market Data (SIMULATED)'', pv_clearance = 1,
      pv_executionTypes = [''Open Endpoints''], pv_schema = array_schema oracle_fields,
      pv_title = ''Market Data Schema (SYNTHETIC)'', pv_uri = ''LIOP://schema/market-data-synthetic'',
      pv_tool = ''Analyze_Synthetic_Market_Data'',
      pv_toolText = ''DISCLAIMER: This is a SIMULATION using SYNTHETIC data. Securely analyzes real-time market ticks via LIOP Logic-on-Origin for protocol demonstration.'',
      pv_port = 50053, pv_listen = [''/ip4/0.0.0.0/tcp/4065'', ''/ip4/0.0.0.0/tcp/4066/ws''], pv_identity = ''oracle-identity.json''\<rparr>"

text \<open>What they register: the dictionary, then the tool over it. They configure no security, so no keys are named in
  its description. The argument of the tool is one text.\<close>

definition default_dictionary_text :: string where
  "default_dictionary_text = ''Exposes the internal database schema for Zero-Shot Autonomy planning''"

definition payload_schema :: jsval where
  "payload_schema = JObj [(''type'', JStr ''object''), (''properties'', JObj [(''payload'', typed ''string'')]), (''required'', JArr [JStr ''payload''])]"

definition register_provider ::
    "documents \<Rightarrow> tool_entry \<Rightarrow> provider \<Rightarrow> 'f server_state \<Rightarrow> string + 'f server_state \<times> registry" where
  "register_provider D entry P S =
     (case data_dictionary D (pv_schema P) (pv_title P) (pv_uri P) default_dictionary_text (initial_registry D) of
        (Some e, R) \<Rightarrow> Inl e
      | (None, R) \<Rightarrow> add_tool D [] (pv_tool P) (pv_toolText P) payload_schema True entry (S, R))"

text \<open>The nodes they start from, of the file the nexus writes, and the address the vault writes.\<close>

definition bootstrap_nodes :: "string option \<Rightarrow> string list" where
  "bootstrap_nodes file = (case file of None \<Rightarrow> [] | Some addr \<Rightarrow> [js_trim addr])"

definition vault_address :: "string list \<Rightarrow> string option" where
  "vault_address multiaddrs =
     (case find (\<lambda>a. js_includes a ''/ip4/127.0.0.1/tcp/'') multiaddrs of
        Some a \<Rightarrow> Some a
      | None \<Rightarrow> (case multiaddrs of [] \<Rightarrow> None | a # as \<Rightarrow> Some a))"

definition nexus_address :: "string \<Rightarrow> string" where
  "nexus_address peerId = ''/ip4/127.0.0.1/tcp/4001/ws/p2p/'' @ peerId"

definition nexus_listen :: "string list" where
  "nexus_listen = [''/ip4/0.0.0.0/tcp/4000'', ''/ip4/0.0.0.0/tcp/4001/ws'']"

definition sentinel_listen :: "string list" where
  "sentinel_listen = [''/ip4/0.0.0.0/tcp/4063'', ''/ip4/0.0.0.0/tcp/4064/ws'']"

section \<open>Other nodes\<close>

text \<open>Tools of the examples, by their results: \<open>calculate_sum\<close>, \<open>CheckBalance\<close>, \<open>process_telemetry\<close>, \<open>ProcessMedicalRecord\<close>
  with the execution of the sandbox, and \<open>query_telemetry\<close> of the bastion. Sums are not rounded.\<close>

definition calculate_sum :: "(real \<Rightarrow> string) \<Rightarrow> real \<Rightarrow> real \<Rightarrow> string" where
  "calculate_sum num a b = num (a + b)"

definition check_balance :: "(jsval \<Rightarrow> string) \<Rightarrow> string \<Rightarrow> string" where
  "check_balance stringify accountNumber =
     stringify (JObj [(''account'', JStr accountNumber), (''balance'', JNum (Fin 150000.5)), (''currency'', JStr ''USD''),
       (''security'', JStr ''PQC-Kyber-Enforced'')])"

definition process_telemetry :: "string \<Rightarrow> string" where
  "process_telemetry batchId = ''Successfully processed telemetry batch '' @ batchId"

definition medical_logic :: string where
  "medical_logic =
     code_line 0 ''return { '' @ code_line 5 (''status: '' @ in_quotes ''Processed'' @ '', '') @ code_line 5 ''pii_masked: true, '' @
     code_line 5 (''zk_receipt: '' @ in_quotes ''0xABC123...'' @ '' '') @ tabs 4 @ ''};''"

definition process_medical_record :: "(string \<Rightarrow> jsval list \<Rightarrow> string + jsval) \<Rightarrow> string \<Rightarrow> string + jsval" where
  "process_medical_record execute recordId =
     execute medical_logic [JObj [(''id'', JStr recordId), (''status'', JStr ''Healthy'')]]"

definition telemetry_stats :: "real \<Rightarrow> int \<Rightarrow> jsval" where
  "telemetry_stats rand elapsed =
     JObj [(''total_processed'', JNum (Fin 1000000)), (''matches'', JNum (Fin (of_int \<lfloor>rand * 5000\<rfloor>))), (''p95_heart_rate'', JNum (Fin 112)),
       (''status'', JStr ''SECURE_AGGREGATION_COMPLETE''), (''execution_time_ms'', JNum (Fin (of_int elapsed)))]"

definition query_telemetry :: "(jsval \<Rightarrow> string) \<Rightarrow> real \<Rightarrow> int \<Rightarrow> string" where
  "query_telemetry pretty rand elapsed =
     ''Analysis complete. Proved integrity via ZK-Receipt.'' @ newline @ pretty (telemetry_stats rand elapsed)"

definition market_prices :: "(jsval \<Rightarrow> string) \<Rightarrow> string \<Rightarrow> resource" where
  "market_prices stringify now =
     \<lparr>rs_name = ''Market Prices'', rs_uri = ''LIOP://market/stocks'', rs_description = Some ''Real-time price channel (AAPL, BTC, SOL)'',
      rs_mimeType = Some ''application/json'',
      rs_content = ContentText (stringify (JObj [(''AAPL'', JStr ''185.20''), (''BTC'', JStr ''68400.00''), (''SOL'', JStr ''145.50''),
        (''timestamp'', JStr now)]))\<rparr>"

text \<open>The argument of the example client.\<close>

fun bootstrap_argument :: "string list \<Rightarrow> string option" where
  "bootstrap_argument [] = None"
| "bootstrap_argument (a # as) =
     (if a = ''--bootstrap'' then (case as of [] \<Rightarrow> None | b # bs \<Rightarrow> Some b) else bootstrap_argument as)"

text \<open>The records and keys of the test server.\<close>

definition patient :: "string \<Rightarrow> string \<Rightarrow> nat \<Rightarrow> string \<Rightarrow> jsval" where
  "patient pid name age condition =
     JObj [(''id'', JStr pid), (''name'', JStr name), (''age'', JNum (Fin (of_nat age))), (''condition'', JStr condition)]"

definition test_vault_records :: "jsval list" where
  "test_vault_records =
     [patient ''P001'' ''Alice'' 65 ''Hypertension'', patient ''P002'' ''Bob'' 55 ''Hypertension'', patient ''P003'' ''Charlie'' 40 ''Healthy'',
      patient ''P004'' ''Dave'' 80 ''Hypertension'', patient ''P005'' ''Eve'' 99 ''Hypertension'']"

definition test_vault_keys :: "string list" where "test_vault_keys = [''id'', ''name'']"

text \<open>A generated record, from its draws in [0, 1) and its number; \<open>base36\<close> is the text of the first draw.\<close>

definition conditions :: "string list" where
  "conditions = [''Healthy'', ''Hypertension'', ''Diabetes'', ''Asthma'', ''Heart Disease'']"

definition draw :: "real \<Rightarrow> nat \<Rightarrow> nat" where "draw r n = nat \<lfloor>r * of_nat n\<rfloor>"

definition generated_record ::
    "(real \<Rightarrow> string) \<Rightarrow> real \<times> real \<times> real \<times> real \<times> real \<times> real \<times> real \<Rightarrow> string \<Rightarrow> nat \<Rightarrow> jsval" where
  "generated_record base36 rs now i =
     (case rs of (r1, r2, r3, r4, r5, r6, r7) \<Rightarrow>
        JObj [(''id'', JStr (''PATIENT-'' @ take 13 (drop 2 (base36 r1)))), (''name'', JStr (''User '' @ nat_str i)),
          (''age'', JNum (Fin (of_nat (draw r2 80 + 18)))), (''condition'', JStr (conditions ! draw r3 5)),
          (''heartRate'', JNum (Fin (of_nat (draw r4 40 + 60)))),
          (''bloodPressure'', JStr (nat_str (draw r5 40 + 110) @ ''/'' @ nat_str (draw r6 30 + 70))),
          (''riskScore'', JNum (Fin r7)), (''timestamp'', JStr now)])"

definition generated_file :: "(jsval \<Rightarrow> string) \<Rightarrow> jsval list \<Rightarrow> string" where
  "generated_file stringify rs = ''['' @ newline @ js_join ('','' @ newline) (map stringify rs) @ newline @ '']''"

section \<open>Facts\<close>

lemma draw_less: "0 \<le> r \<Longrightarrow> r < 1 \<Longrightarrow> 0 < n \<Longrightarrow> draw r n < n"
proof -
  assume a: "0 \<le> r" "r < 1" "0 < n"
  then have "r * of_nat n < of_nat n" by simp
  then have "\<lfloor>r * real n\<rfloor> < int n" by (simp add: floor_less_iff)
  then show ?thesis using a by (simp add: draw_def nat_less_iff)
qed

text \<open>A draw never reads past the list of conditions, and an age is at least 18 and below 98.\<close>

lemma generated_in_range:
  assumes "0 \<le> r" and "r < 1"
  shows "conditions ! draw r 5 \<in> set conditions" and "18 \<le> draw r 80 + 18" and "draw r 80 + 18 < 98"
proof -
  have "draw r 5 < length conditions" using draw_less [OF assms, of 5] by (simp add: conditions_def)
  then show "conditions ! draw r 5 \<in> set conditions" by (rule nth_mem)
qed (use draw_less [OF assms, of 80] in simp_all)

text \<open>What the nexus writes is what the others start from.\<close>

lemma nexus_found:
  assumes "peerId \<noteq> []" and "\<forall>c\<in>set peerId. \<not> is_space c"
  shows "bootstrap_nodes (Some (nexus_address peerId)) = [nexus_address peerId]"
proof -
  have "\<forall>c\<in>set (nexus_address peerId). \<not> is_space c"
    using assms(2) by (auto simp: nexus_address_def is_space_def code_of_def)
  moreover have d: "dropWhile is_space xs = xs" if "\<forall>c\<in>set xs. \<not> is_space c" for xs
    using that by (cases xs) auto
  ultimately have "js_trim (nexus_address peerId) = nexus_address peerId"
    using d [of "nexus_address peerId"] d [of "rev (nexus_address peerId)"] by (simp add: js_trim_def trim_start_def trim_end_def)
  then show ?thesis by (simp add: bootstrap_nodes_def)
qed

text \<open>The providers and the nexus share no address, but the sentinel of the demo listens where the bank does.\<close>

lemma provider_addresses_distinct:
  "distinct (nexus_listen @ pv_listen (vault_provider i) @ pv_listen (bank_provider j) @ pv_listen (oracle_provider k))"
  by (simp add: nexus_listen_def vault_provider_def bank_provider_def oracle_provider_def)

lemma sentinel_collides: "sentinel_listen = pv_listen (bank_provider i)"
  by (simp add: sentinel_listen_def bank_provider_def)

text \<open>Which fields of the dictionaries the default keys of a server forbid: a diagnosis and a balance are public.\<close>

definition forbidden_fields :: "(string \<times> jsval) list \<Rightarrow> string list" where
  "forbidden_fields ps =
     filter (\<lambda>k. classify_field (new_analyzer default_forbidden_keys []) k [] = Forbidden) (map fst ps)"

lemma provider_forbidden_fields:
  "forbidden_fields vault_fields = [''id'', ''name'']"
  "forbidden_fields bank_fields = [''id'', ''accountHolder'']"
  "forbidden_fields oracle_fields = []"
  by (code_simp)+

text \<open>Registration: the description names no restricted field, although the default keys are enforced, and sends the
  reader to a schema that is not registered where the dictionary has an address of its own.\<close>

definition provider_description :: "provider \<Rightarrow> string \<Rightarrow> string" where
  "provider_description P digest =
     pv_toolText P @ payload_hint @ nl @ ''Data structure: '' @ digest @ ''. Full schema: resource liop://schema/global''"

lemma register_provider_result:
  assumes "map_of (sv_tools S) (pv_tool P) = None"
    and "extract_schema_field_summary (dc_num D) (with_comment (pv_schema P)) = Some digest"
    and "pv_uri P \<notin> {''liop://protocol/envelope-spec'', ''liop://schema/guidelines'', ''liop://schema/global''}"
  shows "\<exists>S' R. register_provider D entry P S = Inr (S', R) \<and>
     map_option ti_description (map_of (rg_tools R) (pv_tool P)) = Some (provider_description P digest) \<and>
     read_resource R ''liop://schema/global'' = Inl ''Resource not found: liop://schema/global''"
proof -
  let ?R = "initial_registry D\<lparr>rg_activeSchema := Some (with_comment (pv_schema P)),
     rg_resources := AList.update (pv_uri P)
       \<lparr>rs_name = pv_title P, rs_uri = pv_uri P, rs_description = Some default_dictionary_text,
        rs_mimeType = Some ''application/json'', rs_content = ContentText (dc_pretty D (with_comment (pv_schema P)))\<rparr>
       (AList.update ''liop://schema/guidelines'' (guidelines_resource D) (rg_resources (initial_registry D)))\<rparr>"
  define R0 where "R0 = ?R"
  have dd: "data_dictionary D (pv_schema P) (pv_title P) (pv_uri P) default_dictionary_text (initial_registry D) = (None, R0)"
    using assms(2,3) by (simp add: R0_def data_dictionary_def initial_registry_def add_resource_def Let_def)
  have R0: "rg_tools R0 = []" "rg_activeSchema R0 = Some (with_comment (pv_schema P))" "map_of (rg_resources R0) ''liop://schema/global'' = None"
    using assms(3) by (auto simp: R0_def initial_registry_def update_conv')
  have "final_description D [] (rg_activeSchema R0) True (pv_toolText P) = Some (provider_description P digest)"
    using assms(2) by (simp add: R0(2) final_description_def provider_description_def)
  moreover define t where "t = \<lparr>ti_name = pv_tool P, ti_description = provider_description P digest,
      ti_inputSchema = payload_schema, ti_logic = True\<rparr>"
  ultimately have "\<exists>S'. add_tool D [] (pv_tool P) (pv_toolText P) payload_schema True entry (S, R0) =
      Inr (S', R0\<lparr>rg_tools := [(pv_tool P, t)]\<rparr>)"
    using assms(1) by (simp add: add_tool_def register_tool_def bind_sum_def R0(1) t_def)
  then obtain S' where "register_provider D entry P S = Inr (S', R0\<lparr>rg_tools := [(pv_tool P, t)]\<rparr>)"
    by (auto simp: register_provider_def dd)
  moreover have "ti_description t = provider_description P digest" by (simp add: t_def)
  ultimately show ?thesis using R0(3) by (simp add: read_resource_def)
qed

lemma provider_digests:
  "extract_schema_field_summary num (with_comment (array_schema oracle_fields)) =
     Some ''Array of {ticker(string), companyName(string), price(number), change(string), volume(string), peRatio(number), marketCap(string)}''"
  "extract_schema_field_summary num (with_comment (array_schema vault_fields)) =
     Some ''Array of {id(string), name(string), age(number), bloodType(string), diagnosis(string), lastVisit(string), medications(array of string)}''"
  "extract_schema_field_summary num (with_comment (array_schema bank_fields)) =
     Some ''Array of {id(string), accountHolder(string), accountType(string), balance(number), currency(string), transactions(array of {date(string), amount(number), description(string)})}''"
  by (simp_all add: extract_schema_field_summary_def eval_nat_numeral Let_def truthy_def with_comment_def array_schema_def oracle_fields_def vault_fields_def
      bank_fields_def typed_def described_def date_text_def prop_of_def get_prop_def nullish_def object_entries_def)

text \<open>So every provider of the demo sends its clients to a resource that it does not have.\<close>

lemma providers_point_nowhere:
  assumes "P \<in> {vault_provider i, bank_provider j, oracle_provider k}" and "sv_tools S = []"
  shows "\<exists>S' R t. register_provider D entry P S = Inr (S', R) \<and> map_of (rg_tools R) (pv_tool P) = Some t \<and>
     js_includes (ti_description t) ''Full schema: resource liop://schema/global'' \<and>
     read_resource R ''liop://schema/global'' = Inl ''Resource not found: liop://schema/global''"
proof -
  have "\<exists>digest. extract_schema_field_summary (dc_num D) (with_comment (pv_schema P)) = Some digest"
    using assms(1) provider_digests [of "dc_num D"]
    by (auto simp: vault_provider_def bank_provider_def oracle_provider_def)
  then obtain digest where d: "extract_schema_field_summary (dc_num D) (with_comment (pv_schema P)) = Some digest" by blast
  have u: "pv_uri P \<notin> {''liop://protocol/envelope-spec'', ''liop://schema/guidelines'', ''liop://schema/global''}"
    using assms(1) by (auto simp: vault_provider_def bank_provider_def oracle_provider_def)
  have "map_of (sv_tools S) (pv_tool P) = None" using assms(2) by simp
  from register_provider_result [OF this d u] obtain S' R where r: "register_provider D entry P S = Inr (S', R)"
    "map_option ti_description (map_of (rg_tools R) (pv_tool P)) = Some (provider_description P digest)"
    "read_resource R ''liop://schema/global'' = Inl ''Resource not found: liop://schema/global''" by blast
  then obtain t where t: "map_of (rg_tools R) (pv_tool P) = Some t" "ti_description t = provider_description P digest" by auto
  have "js_includes (ti_description t) ''Full schema: resource liop://schema/global''"
    unfolding t(2) provider_description_def js_includes_iff
    by (intro exI [of _ "pv_toolText P @ payload_hint @ nl @ ''Data structure: '' @ digest @ ''. ''"] exI [of _ "[]"]) simp
  with r t(1) show ?thesis by blast
qed

end
