(* ===== verification/Spec2Isabelle.thy ===== *)
theory Spec2Isabelle
  imports RateLimiter Rbac TaintClaims BudgetClaims BudgetRace ServerClaims ReceiptClaims AuditLog GrpcClaims SandboxClaims BridgeClaims ManifestClaims RouterClaims Jwt ClientClaims GatewayClaims Observability StatusBlock AgentLife BridgeSetup Guidance Workers Breaker
    RpcWrappers SandboxLife Envelope DemoVault DemoNodes Maintenance ApiTypes Edges Examples
begin

text \<open>
  A verification development for the TypeScript SDK of the Logic-Injection-on-Origin Protocol (LIOP,
  \<open>src/sdks/typescript/src\<close>, paths below are relative to it). Instead of asking for data, an agent
  sends a piece of logic to the node that holds the data; the node checks the logic, runs it in a sandbox,
  checks what leaves and commits to the execution with a receipt.

  \<^bold>\<open>How the parts interact.\<close> An MCP client speaks JSON-RPC to the command-line agent
  (\<open>bin/agent.ts\<close>), to the hybrid gateway (\<open>gateway/hybrid.ts\<close>) or to one of the bridges
  (\<open>bridge/index.ts\<close>, \<open>bridge/stream.ts\<close>). Agent and gateway hand a request to the router
  (\<open>gateway/router.ts\<close>), which authorises it (\<open>security/rbac.ts\<close>) and answers it from the server of its own node
  or, over gRPC, from a peer whose manifest it has in its cache; the client library (\<open>client/index.ts\<close>) calls peers
  directly. Peers are found through the mesh node (\<open>mesh/node.ts\<close>) and their manifests are attested
  (\<open>rpc/crypto/dilithium.ts\<close>). On the called node the gRPC service of \<open>server/index.ts\<close> opens sessions,
  authenticates tokens (\<open>security/jwt-validator.ts\<close>, revocation), charges the query budget and runs the logic
  in a worker (\<open>workers/logic-execution.ts\<close>) inside the sandbox (\<open>sandbox/wasi.ts\<close>); the result
  is given noise (\<open>security/dp-engine.ts\<close>), rounded (\<open>server/output-sanitizer.ts\<close>), scanned
  (\<open>server/pii.ts\<close>, \<open>server/ner-scanner.ts\<close>, output policy) and answered with a receipt that the caller
  verifies (\<open>workers/zk-verifier.ts\<close>). Every execution is chained into the audit log (\<open>security/audit-logger.ts\<close>).

  \<^bold>\<open>Theories and sources.\<close> State is a record named after the class, an operation a definition
  with the name of the method; an exception is the left of a sum or \<open>None\<close>; the clock, random bytes and the answers
  of other machines are arguments.

  \<^item> \<open>Prelude\<close>, \<open>Value\<close>, \<open>Json\<close>, \<open>Regex\<close>, \<open>Ast\<close>, \<open>DeepScan\<close>: JavaScript strings, values,
    JSON text, regular expressions by backtracking, syntax trees, and the interface of recursive scans.
  \<^item> \<open>Taint\<close>, \<open>TaintFlow\<close>, \<open>Analyzer\<close>, \<open>TaintProps\<close>, \<open>TaintClaims\<close>: \<open>security/taint-analyzer.ts\<close>.
    \<open>Taint\<close> and \<open>Analyzer\<close> are the passes; the others show that they decide a relation without state and fuel,
    when they accept, and that what they pass computes the same from records that differ only in forbidden fields.
  \<^item> \<open>Policy\<close>, \<open>QueryBudget\<close>, \<open>BudgetClaims\<close>, \<open>BudgetRace\<close>: the preflight and the budgets of \<open>server/index.ts\<close>, in memory
    and in a file shared under a lock, by queries one after another and by servers whose steps interleave. \<open>Windows\<close>, \<open>OutputPolicy\<close>, \<open>Sanitizer\<close>, \<open>Pii\<close>, \<open>PiiClaims\<close>,
    \<open>Server\<close>, \<open>ServerClaims\<close>: rate limits, output policy, rounding, personal data, tool calls.
  \<^item> \<open>Dp\<close>: the noise. \<open>Receipt\<close>, \<open>ReceiptClaims\<close>: \<open>crypto/logic-image-id.ts\<close>, the executing worker and the three
    verifiers of receipts. \<open>Sandbox\<close>, \<open>SandboxClaims\<close>: the sandbox and both guardians. \<open>AuditLog\<close>, \<open>Revocation\<close>,
    \<open>GrpcService\<close>, \<open>GrpcClaims\<close>: the log, revoked tokens, the two gRPC methods and the states they reach.
  \<^item> \<open>Registry\<close>, \<open>NameTable\<close>, \<open>Guidance\<close>, \<open>ServerSetup\<close>, \<open>Workers\<close>: registration of tools, prompts and resources, the texts
    for models (\<open>prompts/adapters.ts\<close>), the constructor, \<open>security/oauth-server.ts\<close> and worker files.
  \<^item> \<open>McpBridge\<close>, \<open>StreamBridge\<close>, \<open>BridgeSetup\<close>, \<open>BridgeClaims\<close>: both bridges with \<open>gateway/mcp-compat.ts\<close>.
    \<open>Framing\<close>: \<open>rpc/codec/lpm.ts\<close> and \<open>gateway/grpc-web.ts\<close>.
  \<^item> \<open>Manifest\<close>, \<open>ManifestClaims\<close>, \<open>MeshNode\<close>, \<open>MeshLife\<close>, \<open>MeshCache\<close>, \<open>Breaker\<close>: attested manifests, the mesh node and its life,
    the cache of remote manifests and both breakers for failing peers.
  \<^item> \<open>RateLimiter\<close>, \<open>Rbac\<close>, \<open>Jwt\<close>, \<open>Router\<close>, \<open>RouterClaims\<close>, \<open>Client\<close>, \<open>ClientClaims\<close>, \<open>Gateway\<close>, \<open>GatewayClaims\<close>,
    \<open>Agent\<close>, \<open>AgentLife\<close>: the callers' side. \<open>Tls\<close>: \<open>security/cert-manager.ts\<close> and \<open>rpc/tls.ts\<close>.
    \<open>Observability\<close>, \<open>Economy\<close>, \<open>StatusBlock\<close>: metrics, traces, log and token telemetry.
  \<^item> \<open>Envelope\<close>: what packed logic becomes in the preflight, in the worker and in its image id. \<open>RpcWrappers\<close>: \<open>rpc/client.ts\<close>,
    \<open>rpc/server.ts\<close> and the channel options. \<open>SandboxLife\<close>: files of a sandbox from \<open>init\<close> to \<open>teardown\<close>, frozen objects.
    \<open>ApiTypes\<close>: the interfaces of \<open>types.ts\<close> and that listings and answers have them. \<open>Edges\<close>: small operations of several components.
  \<^item> Outside \<open>src/sdks/typescript/src\<close>: \<open>Maintenance\<close> (the scripts of the repository and the health check), \<open>DemoVault\<close> and
    \<open>DemoNodes\<close> (compilers, guardians, sandboxes and tools of the demos under \<open>src/examples/demos\<close>), \<open>Examples\<close> (what the
    example nodes register, where they listen, and what their tools compute).

  \<^bold>\<open>Interfaces.\<close> Each is a locale, interpreted on the model: \<open>ast_walk\<close> (the documented walker), \<open>deep_scan\<close> and
  \<open>eager_scan\<close> (the aggregation and PII scans), \<open>counter_store\<close> (the budget in memory and on disk), \<open>sliding_window\<close> (both rate
  limits), \<open>framing\<close> (both wire formats), \<open>dial_breaker\<close> (both breakers), \<open>name_table\<close> (the three registries).

  \<^bold>\<open>What the properties show.\<close> End to end: a call that succeeds was checked before and after it ran
  (\<open>successful_call_was_checked\<close>, \<open>answered_logic_was_checked\<close>), a call at an honest node is delivered, its receipt
  verifies and an altered evidence is refused (\<open>honest_call_delivers\<close>), and exactly which receipts are accepted (\<open>receipt_accepted_iff\<close>). Analysis: when logic is
  accepted and what accepted logic cannot depend on. Output: exactly which outputs pass the aggregation policy and the PII scan.
  Limits: what the windows, the shared budget and the limiter admit in any run. Protocol: every answer of
  router and bridges has its form, when the router leaves a request unanswered, both transports of the gateway agree, a draining gateway closes. State machines
  (sessions and log, revocation, registries, HTTP sessions, requests in flight, servers that race for the budget file, mesh node, standard input) are step relations with invariants by rule
  induction. Some properties state a weakness of the code: \<open>comment_hides_logic\<close>, \<open>remote_result_unbound\<close>, \<open>audit_noise_removable\<close>,
  \<open>shadowed_dataset_attested\<close>, \<open>session_limit_needs_serial_requests\<close>.

  \<^bold>\<open>Bounds and fuel.\<close> The scans of an output (\<open>violates_aggregation_first\<close>, \<open>unwrap_for_scan\<close>, \<open>pii_scan\<close>) go into
  JSON texts inside values and take fuel; the weight of the output is enough when a parsed text is no heavier than the text,
  and the server gives them that. The taint evaluation takes the size of the expression plus one, which is proved to
  be enough (\<open>settles\<close>, \<open>taints\<close>); its rounds are those of the source. The sampler of the noise may reject for ever, so it is a partial
  function with lemmas on when it answers. The lock of the budget file is tried 100 times, the mesh is
  asked five times, peers three times, as in the code; the other loops end by structure or by a measure.
  Bytes are 8-bit words; lengths are written in 16 and 32 bits and wrap there. Other numbers of the source are
  integers or, where fractions occur, reals with the rounding to doubles as a parameter.

  \<^bold>\<open>Parameters.\<close> Code outside the repository is an argument: the acorn parser, the NLP library, zod's outcome, SHA-256, HMAC, AES-GCM, ML-KEM,
  ML-DSA, jose, oidc-provider, libp2p, gRPC, the file system, \<open>JSON.parse\<close> where its failures matter, \<open>localeCompare\<close>. What a
  property needs of them is one of its hypotheses, and its witness discharges it on concrete functions.

  \<^bold>\<open>Not modelled.\<close> The loading of the protocol definition, a call of the gRPC library; re-exports, with no content; log messages and the
  metrics the operations increment; sockets and HTTP servers, of which the handlers are modelled; the landing page; how the example programs
  start their nodes and what they print; the configurations of bundler and release, data for other programs.
  JavaScript's prototypes are modelled where a lookup can reach them (scopes, budget cells, \<open>__proto__\<close> keys), not in general.
\<close>

end
